(* ===== verification/Go_Prelude.thy ===== *)
theory Go_Prelude
  imports Complex_Main "HOL-Library.AList"
begin

text \<open>
  The vocabulary every component theory shares.

  \<^item> A Go \<open>map\<close> is a finite association list with distinct keys (\<open>gomap\<close>); the
    interface its clients use (lookup, store, delete, length) is the locale
    \<open>go_map\<close>, interpreted on the operations below as \<open>gm\<close>.  A Go \<open>range\<close> over a map
    visits the keys in an unspecified order, so every definition that ranges over
    a map takes that order as an argument, and \<open>gm_order\<close> says which orders the
    runtime may choose.
  \<^item> \<open>time.Time\<close> and \<open>time.Duration\<close> are integers (nanoseconds); \<open>time.Now()\<close> is an
    argument of the definitions that call it, one argument for every call.
  \<^item> An \<open>error\<close> result is the left injection of a sum, a success the right one.
\<close>

section \<open>Named collections\<close>

named_theorems gomap_simps \<open>laws of Go maps, as rewrite rules\<close>
named_theorems gomap_eval \<open>defining equations that evaluate closed maps\<close>

section \<open>Go maps\<close>

type_synonym ('k, 'v) gomap = "('k \<times> 'v) list"

type_synonym time = int

type_synonym duration = int

definition gm_wf :: "('k, 'v) gomap \<Rightarrow> bool" where
  "gm_wf m = distinct (map fst m)"

definition gm_get :: "('k, 'v) gomap \<Rightarrow> 'k \<Rightarrow> 'v option" where
  "gm_get m k = map_of m k"

definition gm_set :: "('k, 'v) gomap \<Rightarrow> 'k \<Rightarrow> 'v \<Rightarrow> ('k, 'v) gomap" where
  "gm_set m k v = AList.update k v m"

definition gm_del :: "('k, 'v) gomap \<Rightarrow> 'k \<Rightarrow> ('k, 'v) gomap" where
  "gm_del m k = AList.delete k m"

definition gm_len :: "('k, 'v) gomap \<Rightarrow> nat" where
  "gm_len m = length m"

definition gm_has :: "('k, 'v) gomap \<Rightarrow> 'k \<Rightarrow> bool" where
  "gm_has m k = (gm_get m k \<noteq> None)"

definition gm_keys :: "('k, 'v) gomap \<Rightarrow> 'k list" where
  "gm_keys m = map fst m"

text \<open>The orders in which a \<open>range\<close> loop may visit a map: every key exactly once.\<close>

definition gm_order :: "('k, 'v) gomap \<Rightarrow> 'k list \<Rightarrow> bool" where
  "gm_order m ks = (distinct ks \<and> set ks = set (gm_keys m))"

text \<open>The entries a \<open>range\<close> loop visits when the runtime chooses the order \<open>ks\<close>.\<close>

definition gm_range :: "('k, 'v) gomap \<Rightarrow> 'k list \<Rightarrow> ('k \<times> 'v) list" where
  "gm_range m ks = List.map_filter (\<lambda>k. map_option (Pair k) (gm_get m k)) ks"

text \<open>The zero value of a map lookup: Go's \<open>m[k]\<close> without the comma-ok form.\<close>

definition gm_get_or :: "'v \<Rightarrow> ('k, 'v) gomap \<Rightarrow> 'k \<Rightarrow> 'v" where
  "gm_get_or d m k = (case gm_get m k of None \<Rightarrow> d | Some v \<Rightarrow> v)"

text \<open>\<open>maps.Copy(dst, src)\<close>: every entry of the source is stored in the destination.\<close>

fun gm_copy :: "('k, 'v) gomap \<Rightarrow> ('k, 'v) gomap \<Rightarrow> ('k, 'v) gomap" where
  "gm_copy dst [] = dst"
| "gm_copy dst ((k, v) # src) = gm_copy (gm_set dst k v) src"

subsection \<open>The interface of a map\<close>

locale go_map =
  fixes emp :: "'m"
    and get :: "'m \<Rightarrow> 'k \<Rightarrow> 'v option"
    and put :: "'m \<Rightarrow> 'k \<Rightarrow> 'v \<Rightarrow> 'm"
    and del :: "'m \<Rightarrow> 'k \<Rightarrow> 'm"
    and len :: "'m \<Rightarrow> nat"
    and wf :: "'m \<Rightarrow> bool"
  assumes get_emp: "get emp k = None"
    and get_put: "get (put m k v) k' = (if k' = k then Some v else get m k')"
    and get_del: "get (del m k) k' = (if k' = k then None else get m k')"
    and len_emp: "len emp = 0"
    and len_put: "len (put m k v) = (if get m k = None then Suc (len m) else len m)"
    and len_del: "wf m \<Longrightarrow> len (del m k) = (if get m k = None then len m else len m - 1)"
    and len_pos: "get m k = Some v \<Longrightarrow> 0 < len m"
    and wf_emp: "wf emp"
    and wf_put: "wf m \<Longrightarrow> wf (put m k v)"
    and wf_del: "wf m \<Longrightarrow> wf (del m k)"
begin

lemma get_put_same: "get (put m k v) k = Some v"
  by (simp add: get_put)

lemma get_put_other: "k' \<noteq> k \<Longrightarrow> get (put m k v) k' = get m k'"
  by (simp add: get_put)

lemma get_del_same: "get (del m k) k = None"
  by (simp add: get_del)

lemma get_del_other: "k' \<noteq> k \<Longrightarrow> get (del m k) k' = get m k'"
  by (simp add: get_del)

lemma len_del_Suc: "wf m \<Longrightarrow> get m k = Some v \<Longrightarrow> Suc (len (del m k)) = len m"
  using len_pos [of m k v] by (simp add: len_del)

end

lemma gm_get_update: "gm_get (AList.update k v m) k' = (if k' = k then Some v else gm_get m k')"
  by (simp add: gm_get_def update_conv')

lemma gm_get_delete: "gm_get (AList.delete k m) k' = (if k' = k then None else gm_get m k')"
  by (simp add: gm_get_def delete_conv')

lemma length_alist_update:
  "length (AList.update k v m) = (if map_of m k = None then Suc (length m) else length m)"
  by (induction m) auto

lemma length_alist_delete:
  "distinct (map fst m) \<Longrightarrow>
   length (AList.delete k m) = (if map_of m k = None then length m else length m - 1)"
proof (induction m)
  case Nil
  then show ?case by simp
next
  case (Cons a m)
  show ?case
  proof (cases "fst a = k")
    case True
    with Cons.prems have "k \<notin> fst ` set m" by auto
    then have "AList.delete k m = m"
      by (simp add: delete_id)
    with True show ?thesis by (cases a) simp
  next
    case False
    have "map_of m k = Some v \<Longrightarrow> 0 < length m" for v
      by (cases m) auto
    with False Cons show ?thesis
      by (cases a) (auto split: if_splits)
  qed
qed

interpretation gm: go_map "[]" gm_get gm_set gm_del gm_len gm_wf
proof unfold_locales
  show "gm_wf m \<Longrightarrow> gm_wf (gm_del m k)" for m :: "('k, 'v) gomap" and k
    by (simp add: gm_wf_def gm_del_def distinct_delete)
  show "gm_wf m \<Longrightarrow> gm_wf (gm_set m k v)" for m :: "('k, 'v) gomap" and k v
    by (simp add: gm_wf_def gm_set_def distinct_update)
  show "gm_get m k = Some v \<Longrightarrow> 0 < gm_len m" for m :: "('k, 'v) gomap" and k v
    by (cases m) (auto simp: gm_get_def gm_len_def)
  show "gm_get ([] :: ('k, 'v) gomap) k = None" for k
    by (simp add: gm_get_def)
  show "gm_wf m \<Longrightarrow> gm_len (gm_del m k) = (if gm_get m k = None then gm_len m else gm_len m - 1)"
    for m :: "('k, 'v) gomap" and k
    unfolding gm_wf_def gm_len_def gm_del_def gm_get_def by (rule length_alist_delete)
  show "gm_len (gm_set m k v) = (if gm_get m k = None then Suc (gm_len m) else gm_len m)"
    for m :: "('k, 'v) gomap" and k v
    unfolding gm_len_def gm_set_def gm_get_def by (rule length_alist_update)
qed (simp_all add: gm_set_def gm_del_def gm_get_update gm_get_delete gm_len_def gm_wf_def)

lemmas [gomap_simps, simp] = gm.get_emp gm.get_put gm.get_del gm.len_emp gm.len_put
  gm.wf_emp gm.wf_put gm.wf_del

lemmas [gomap_eval] = gm_set_def gm_del_def gm_get_def gm_len_def gm_has_def gm_keys_def
  gm_range_def gm_get_or_def gm_order_def gm_wf_def

lemma gm_get_keys: "gm_get m k = None \<longleftrightarrow> k \<notin> set (gm_keys m)"
  by (simp add: gm_get_def gm_keys_def map_of_eq_None_iff)

lemma gm_get_or_simps [simp]:
  "gm_get_or d (gm_set m k v) k' = (if k' = k then v else gm_get_or d m k')"
  "gm_get_or d (gm_del m k) k' = (if k' = k then d else gm_get_or d m k')"
  "gm_get_or d [] k = d"
  by (simp_all add: gm_get_or_def)

lemma gm_order_get: "gm_order m ks \<Longrightarrow> k \<in> set ks \<longleftrightarrow> gm_get m k \<noteq> None"
  by (simp add: gm_order_def gm_get_keys)

lemma gm_order_keys: "gm_wf m \<Longrightarrow> gm_order m (gm_keys m)"
  by (simp add: gm_order_def gm_wf_def gm_keys_def)

lemma gm_range_mem:
  "(k, v) \<in> set (gm_range m ks) \<longleftrightarrow> k \<in> set ks \<and> gm_get m k = Some v"
  by (induction ks) (auto simp: gm_range_def List.map_filter_simps split: option.splits)

lemma gm_range_complete:
  "gm_order m ks \<Longrightarrow> (k, v) \<in> set (gm_range m ks) \<longleftrightarrow> gm_get m k = Some v"
  using gm_order_get [of m ks k] by (auto simp: gm_range_mem)

lemma gm_range_keys:
  "gm_order m ks \<Longrightarrow> map fst (gm_range m ks) = ks"
proof -
  assume ord: "gm_order m ks"
  have "\<forall>k \<in> set xs. gm_get m k \<noteq> None \<Longrightarrow>
        map fst (List.map_filter (\<lambda>k. map_option (Pair k) (gm_get m k)) xs) = xs" for xs
    by (induction xs) (auto simp: List.map_filter_simps)
  with gm_order_get [OF ord] show ?thesis
    by (simp add: gm_range_def)
qed

lemma gm_copy_wf [simp]: "gm_wf dst \<Longrightarrow> gm_wf (gm_copy dst src)"
  by (induction dst src rule: gm_copy.induct) auto

lemma gm_copy_get:
  "gm_wf src \<Longrightarrow>
   gm_get (gm_copy dst src) k = (case gm_get src k of None \<Rightarrow> gm_get dst k | Some v \<Rightarrow> Some v)"
proof (induction dst src rule: gm_copy.induct)
  case (1 dst)
  then show ?case by simp
next
  case (2 dst k0 v0 src)
  then have "gm_wf src" and "gm_get src k0 = None"
    by (auto simp: gm_wf_def gm_get_def map_of_eq_None_iff)
  moreover have "gm_get ((k0, v0) # src) k = (if k = k0 then Some v0 else gm_get src k)"
    by (simp add: gm_get_def)
  ultimately show ?case
    using "2.IH" by (simp split: option.splits)
qed

section \<open>Lists\<close>

text \<open>Removing the first element that satisfies a predicate: Go's
  \<open>append(xs[:i], xs[i+1:]...)\<close> at the index a search loop found.\<close>

fun remove_first :: "('a \<Rightarrow> bool) \<Rightarrow> 'a list \<Rightarrow> 'a list" where
  "remove_first p [] = []"
| "remove_first p (x # xs) = (if p x then xs else x # remove_first p xs)"

lemma remove_first_none: "\<not> (\<exists>x \<in> set xs. p x) \<Longrightarrow> remove_first p xs = xs"
  by (induction xs) auto

lemma set_remove_first: "set (remove_first p xs) \<subseteq> set xs"
  by (induction xs) auto

lemma length_remove_first:
  "\<exists>x \<in> set xs. p x \<Longrightarrow> Suc (length (remove_first p xs)) = length xs"
  by (induction xs) auto

lemma distinct_remove_first [simp]: "distinct xs \<Longrightarrow> distinct (remove_first p xs)"
  using set_remove_first [of p] by (induction xs) auto

lemma distinct_map_remove_first:
  "distinct (map f xs) \<Longrightarrow> distinct (map f (remove_first p xs))"
  using set_remove_first [of p] by (induction xs) auto

lemma remove_first_eq_filter:
  "distinct (map f xs) \<Longrightarrow> remove_first (\<lambda>x. f x = a) xs = filter (\<lambda>x. f x \<noteq> a) xs"
proof (induction xs)
  case Nil
  then show ?case by simp
next
  case (Cons x xs)
  then have "f x = a \<Longrightarrow> filter (\<lambda>y. f y \<noteq> a) xs = xs"
    by (auto intro!: filter_True simp: image_iff)
  with Cons show ?case by simp
qed

lemma find_SomeD: "find p xs = Some x \<Longrightarrow> x \<in> set xs \<and> p x"
  by (induction xs) (auto split: if_splits)

end
