(* ===== verification/LRU_Cache.thy ===== *)
theory LRU_Cache
  imports Go_Prelude
begin

text \<open>
  The in-memory LRU cache with a time to live (\<open>internal/cache/cache.go\<close>).

  The Go cache keeps two structures that must agree: a doubly linked list of
  entries, most recently used first, and an index from keys to list elements.
  The model keeps both: an element is a reference (a natural number, fresh for
  every \<open>PushFront\<close>), the list holds each live reference with its entry, and the
  index maps a key to a reference.  \<open>cache_inv\<close> is the agreement of the two.
\<close>

section \<open>State\<close>

record 'v entry =
  e_key :: string
  e_value :: 'v
  e_expiresAt :: time

record 'v cache =
  c_maxSize :: nat
  c_defaultTTL :: duration
  c_items :: "(string, nat) gomap"
  c_order :: "(nat \<times> 'v entry) list"
  c_nextElem :: nat

definition Cache_New :: "int \<Rightarrow> duration \<Rightarrow> 'v cache" where
  "Cache_New size0 ttl =
     \<lparr>c_maxSize = (if size0 \<le> 0 then 1000 else nat size0),
      c_defaultTTL = (if ttl \<le> 0 then 30 * 10 ^ 9 else ttl),
      c_items = [], c_order = [], c_nextElem = 0\<rparr>"

section \<open>Operations of the linked list\<close>

definition getEntry :: "'v cache \<Rightarrow> nat \<Rightarrow> 'v entry option" where
  "getEntry c elem = map_of (c_order c) elem"

definition MoveToFront :: "nat \<Rightarrow> (nat \<times> 'v entry) list \<Rightarrow> (nat \<times> 'v entry) list" where
  "MoveToFront elem xs = filter (\<lambda>x. fst x = elem) xs @ filter (\<lambda>x. fst x \<noteq> elem) xs"

definition removeLocked :: "'v cache \<Rightarrow> nat \<Rightarrow> 'v cache" where
  "removeLocked c elem =
     (case getEntry c elem of
        None \<Rightarrow> c
      | Some e \<Rightarrow> c\<lparr>c_items := gm_del (c_items c) (e_key e),
                    c_order := filter (\<lambda>x. fst x \<noteq> elem) (c_order c)\<rparr>)"

section \<open>Operations of the cache\<close>

definition Cache_Get :: "'v cache \<Rightarrow> string \<Rightarrow> time \<Rightarrow> 'v option \<times> 'v cache" where
  "Cache_Get c key now =
     (case gm_get (c_items c) key of
        None \<Rightarrow> (None, c)
      | Some elem \<Rightarrow>
          (case getEntry c elem of
             None \<Rightarrow> (None, c)
           | Some e \<Rightarrow>
               if e_expiresAt e < now then (None, removeLocked c elem)
               else (Some (e_value e), c\<lparr>c_order := MoveToFront elem (c_order c)\<rparr>)))"

text \<open>The eviction loop at the end of \<open>SetWithTTL\<close>.\<close>

function evictLoop :: "'v cache \<Rightarrow> 'v cache" where
  "evictLoop c =
     (if c_maxSize c < length (c_order c)
      then evictLoop (removeLocked c (fst (last (c_order c))))
      else c)"
  by pat_completeness auto
termination
proof (relation "measure (\<lambda>c. length (c_order c))", simp)
  fix c :: "'v cache"
  assume "c_maxSize c < length (c_order c)"
  then have ne: "c_order c \<noteq> []" by auto
  let ?l = "last (c_order c)"
  have mem: "?l \<in> set (c_order c)" using ne by simp
  then have "getEntry c (fst ?l) \<noteq> None"
    by (simp add: getEntry_def map_of_eq_None_iff)
  moreover have "length (filter (\<lambda>x. fst x \<noteq> fst ?l) (c_order c)) < length (c_order c)"
    using mem by (auto intro: length_filter_less)
  ultimately show "(removeLocked c (fst ?l), c) \<in> measure (\<lambda>c. length (c_order c))"
    by (auto simp: removeLocked_def)
qed

declare evictLoop.simps [simp del]

definition setEntry :: "nat \<Rightarrow> 'v \<Rightarrow> time \<Rightarrow> (nat \<times> 'v entry) list \<Rightarrow> (nat \<times> 'v entry) list" where
  "setEntry elem v t xs =
     map (\<lambda>(i, e). if i = elem then (i, e\<lparr>e_value := v, e_expiresAt := t\<rparr>) else (i, e)) xs"

definition Cache_SetWithTTL :: "'v cache \<Rightarrow> string \<Rightarrow> 'v \<Rightarrow> duration \<Rightarrow> time \<Rightarrow> 'v cache" where
  "Cache_SetWithTTL c key v ttl now =
     (case gm_get (c_items c) key of
        Some elem \<Rightarrow>
          c\<lparr>c_order := setEntry elem v (now + ttl) (MoveToFront elem (c_order c))\<rparr>
      | None \<Rightarrow>
          (let elem = c_nextElem c;
               e = \<lparr>e_key = key, e_value = v, e_expiresAt = now + ttl\<rparr>
           in evictLoop
                (c\<lparr>c_items := gm_set (c_items c) key elem,
                   c_order := (elem, e) # c_order c,
                   c_nextElem := Suc elem\<rparr>)))"

definition Cache_Set :: "'v cache \<Rightarrow> string \<Rightarrow> 'v \<Rightarrow> time \<Rightarrow> 'v cache" where
  "Cache_Set c key v now = Cache_SetWithTTL c key v (c_defaultTTL c) now"

definition Cache_Delete :: "'v cache \<Rightarrow> string \<Rightarrow> 'v cache" where
  "Cache_Delete c key =
     (case gm_get (c_items c) key of
        None \<Rightarrow> c
      | Some elem \<Rightarrow> removeLocked c elem)"

definition Cache_Len :: "'v cache \<Rightarrow> nat" where
  "Cache_Len c = length (c_order c)"

text \<open>The loop of \<open>Cleanup\<close> walks from the back and fetches the predecessor before it
  removes an element.\<close>

fun cleanupLoop :: "time \<Rightarrow> 'v cache \<Rightarrow> (nat \<times> 'v entry) list \<Rightarrow> 'v cache" where
  "cleanupLoop now c [] = c"
| "cleanupLoop now c ((elem, ent) # rest) =
     cleanupLoop now (if e_expiresAt ent < now then removeLocked c elem else c) rest"

definition Cache_Cleanup :: "'v cache \<Rightarrow> time \<Rightarrow> 'v cache" where
  "Cache_Cleanup c now = cleanupLoop now c (rev (c_order c))"

section \<open>The abstract cache\<close>

text \<open>
  What the cache promises: a list of entries, most recently used first, with
  distinct keys and at most \<open>n\<close> of them.
\<close>

definition lru_without :: "string \<Rightarrow> 'v entry list \<Rightarrow> 'v entry list" where
  "lru_without key es = filter (\<lambda>e. e_key e \<noteq> key) es"

definition lru_get :: "string \<Rightarrow> time \<Rightarrow> 'v entry list \<Rightarrow> 'v option \<times> 'v entry list" where
  "lru_get key now es =
     (case find (\<lambda>e. e_key e = key) es of
        None \<Rightarrow> (None, es)
      | Some e \<Rightarrow>
          if e_expiresAt e < now then (None, lru_without key es)
          else (Some (e_value e), e # lru_without key es))"

definition lru_set :: "nat \<Rightarrow> string \<Rightarrow> 'v \<Rightarrow> time \<Rightarrow> 'v entry list \<Rightarrow> 'v entry list" where
  "lru_set n key v expiry es =
     take n (\<lparr>e_key = key, e_value = v, e_expiresAt = expiry\<rparr> # lru_without key es)"

definition lru_cleanup :: "time \<Rightarrow> 'v entry list \<Rightarrow> 'v entry list" where
  "lru_cleanup now es = filter (\<lambda>e. \<not> e_expiresAt e < now) es"

definition cache_abs :: "'v cache \<Rightarrow> 'v entry list" where
  "cache_abs c = map snd (c_order c)"

section \<open>The invariant: the index and the list agree\<close>

definition cache_wf :: "'v cache \<Rightarrow> bool" where
  "cache_wf c \<longleftrightarrow>
     distinct (map fst (c_order c)) \<and>
     distinct (map e_key (cache_abs c)) \<and>
     (\<forall>k i. gm_get (c_items c) k = Some i \<longleftrightarrow> (\<exists>e. (i, e) \<in> set (c_order c) \<and> e_key e = k)) \<and>
     (\<forall>x \<in> set (c_order c). fst x < c_nextElem c)"

definition cache_inv :: "'v cache \<Rightarrow> bool" where
  "cache_inv c \<longleftrightarrow> cache_wf c \<and> 0 < c_maxSize c \<and> length (c_order c) \<le> c_maxSize c"

lemma cache_wfD:
  assumes "cache_wf c"
  shows "distinct (map fst (c_order c))" and "distinct (map e_key (cache_abs c))"
    and "gm_get (c_items c) k = Some i \<longleftrightarrow> (\<exists>e. (i, e) \<in> set (c_order c) \<and> e_key e = k)"
    and "(i, e) \<in> set (c_order c) \<Longrightarrow> i < c_nextElem c"
  using assms by (auto simp: cache_wf_def)

lemma cache_inv_wf: "cache_inv c \<Longrightarrow> cache_wf c"
  by (simp add: cache_inv_def)

subsection \<open>Reading the two structures\<close>

lemma getEntry_mem:
  assumes "cache_wf c"
  shows "getEntry c i = Some e \<longleftrightarrow> (i, e) \<in> set (c_order c)"
  using cache_wfD(1) [OF assms] by (simp add: getEntry_def)

lemma index_miss:
  assumes "cache_wf c" and "gm_get (c_items c) key = None"
  shows "e \<in> set (cache_abs c) \<Longrightarrow> e_key e \<noteq> key"
    and "lru_without key (cache_abs c) = cache_abs c"
    and "find (\<lambda>e. e_key e = key) (cache_abs c) = None"
proof -
  have no: "\<forall>x \<in> set (c_order c). e_key (snd x) \<noteq> key"
    using assms cache_wfD(3) [OF assms(1), of key] by (metis option.distinct(1) prod.collapse)
  then show "e \<in> set (cache_abs c) \<Longrightarrow> e_key e \<noteq> key"
    by (auto simp: cache_abs_def)
  from no show "lru_without key (cache_abs c) = cache_abs c"
    by (auto simp: lru_without_def cache_abs_def intro!: filter_True)
  from no show "find (\<lambda>e. e_key e = key) (cache_abs c) = None"
    by (auto simp: cache_abs_def find_None_iff)
qed

lemma index_hit:
  assumes "cache_wf c" and "gm_get (c_items c) key = Some i"
  obtains e where "(i, e) \<in> set (c_order c)" and "e_key e = key" and "getEntry c i = Some e"
    and "find (\<lambda>e. e_key e = key) (cache_abs c) = Some e"
proof -
  obtain e where e: "(i, e) \<in> set (c_order c)" "e_key e = key"
    using assms cache_wfD(3) [OF assms(1), of key i] by auto
  have "find (\<lambda>e. e_key e = key) es = Some e"
    if "e \<in> set es" and "distinct (map e_key es)" for es
    using that e(2) by (induction es) (auto simp: image_iff)
  moreover have "e \<in> set (cache_abs c)" using e by (force simp: cache_abs_def)
  ultimately have "find (\<lambda>e. e_key e = key) (cache_abs c) = Some e"
    using cache_wfD(2) [OF assms(1)] by blast
  with e that show ?thesis using getEntry_mem [OF assms(1), of i e] by blast
qed

lemma distinct_fst_filter_eq:
  "distinct (map fst xs) \<Longrightarrow> (i, e) \<in> set xs \<Longrightarrow> filter (\<lambda>x. fst x = i) xs = [(i, e)]"
  by (induction xs) (auto simp: filter_empty_conv image_iff)

lemma ref_key_unique:
  assumes "cache_wf c" and "(i, e) \<in> set (c_order c)" and "x \<in> set (c_order c)"
  shows "fst x = i \<longleftrightarrow> e_key (snd x) = e_key e"
proof
  assume "fst x = i"
  with assms show "e_key (snd x) = e_key e"
    using cache_wfD(1) [OF assms(1)] by (metis eq_key_imp_eq_value prod.collapse)
next
  assume "e_key (snd x) = e_key e"
  with assms have "gm_get (c_items c) (e_key e) = Some (fst x)" "gm_get (c_items c) (e_key e) = Some i"
    using cache_wfD(3) [OF assms(1)] by (metis prod.collapse)+
  then show "fst x = i" by simp
qed

lemma filter_ref_eq_without:
  assumes "cache_wf c" and "(i, e) \<in> set (c_order c)"
  shows "map snd (filter (\<lambda>x. fst x \<noteq> i) (c_order c)) = lru_without (e_key e) (cache_abs c)"
proof -
  have "filter (\<lambda>x. fst x \<noteq> i) (c_order c) = filter (\<lambda>x. e_key (snd x) \<noteq> e_key e) (c_order c)"
    using ref_key_unique [OF assms] by (intro filter_cong) auto
  then show ?thesis
    by (simp add: lru_without_def cache_abs_def filter_map comp_def)
qed

subsection \<open>Removal and eviction\<close>

lemma removeLocked_order:
  assumes "cache_wf c" and "(i, e) \<in> set (c_order c)"
  shows "c_order (removeLocked c i) = filter (\<lambda>x. fst x \<noteq> i) (c_order c)"
    and "c_items (removeLocked c i) = gm_del (c_items c) (e_key e)"
    and "c_maxSize (removeLocked c i) = c_maxSize c"
    and "c_nextElem (removeLocked c i) = c_nextElem c"
    and "cache_abs (removeLocked c i) = lru_without (e_key e) (cache_abs c)"
proof -
  have g: "getEntry c i = Some e" using assms by (simp add: getEntry_mem)
  then show "c_order (removeLocked c i) = filter (\<lambda>x. fst x \<noteq> i) (c_order c)"
    and "c_items (removeLocked c i) = gm_del (c_items c) (e_key e)"
    and "c_maxSize (removeLocked c i) = c_maxSize c"
    and "c_nextElem (removeLocked c i) = c_nextElem c"
    by (simp_all add: removeLocked_def)
  with filter_ref_eq_without [OF assms]
  show "cache_abs (removeLocked c i) = lru_without (e_key e) (cache_abs c)"
    by (simp add: cache_abs_def)
qed

lemma distinct_lru_without:
  "distinct (map e_key es) \<Longrightarrow> distinct (map e_key (lru_without key es))"
  by (simp add: lru_without_def distinct_map_filter)

lemma removeLocked_wf:
  assumes "cache_wf c" and "(i, e) \<in> set (c_order c)"
  shows "cache_wf (removeLocked c i)"
  unfolding cache_wf_def
proof (intro conjI allI ballI)
  note r = removeLocked_order [OF assms]
  show "distinct (map fst (c_order (removeLocked c i)))"
    using cache_wfD(1) [OF assms(1)] by (simp add: r distinct_map_filter)
  show "distinct (map e_key (cache_abs (removeLocked c i)))"
    using cache_wfD(2) [OF assms(1)] by (simp add: r distinct_lru_without)
  show "gm_get (c_items (removeLocked c i)) k = Some j \<longleftrightarrow>
        (\<exists>e'. (j, e') \<in> set (c_order (removeLocked c i)) \<and> e_key e' = k)" for k j
    using cache_wfD(3) [OF assms(1), of k j] ref_key_unique [OF assms] by (auto simp: r)
  show "fst x < c_nextElem (removeLocked c i)" if "x \<in> set (c_order (removeLocked c i))" for x
    using that cache_wfD(4) [OF assms(1), of "fst x" "snd x"] by (simp add: r)
qed

lemma removeLocked_inv:
  assumes "cache_inv c" and "(i, e) \<in> set (c_order c)"
  shows "cache_inv (removeLocked c i)"
proof -
  have wf: "cache_wf c" using assms(1) by (rule cache_inv_wf)
  show ?thesis
    using assms(1) removeLocked_wf [OF wf assms(2)] removeLocked_order [OF wf assms(2)]
      le_trans [OF length_filter_le, of "c_order c" "c_maxSize c"]
    by (simp add: cache_inv_def)
qed

lemma filter_last_ref:
  assumes "distinct (map fst xs)" and "xs \<noteq> []"
  shows "filter (\<lambda>x. fst x \<noteq> fst (last xs)) xs = butlast xs"
proof -
  obtain ys y where xs: "xs = ys @ [y]"
    using assms(2) by (metis append_butlast_last_id)
  then have "fst y \<notin> fst ` set ys" using assms(1) by auto
  then have "filter (\<lambda>x. fst x \<noteq> fst y) ys = ys"
    by (auto intro!: filter_True simp: image_iff)
  with xs show ?thesis by simp
qed

lemma evictLoop_spec:
  assumes "cache_wf c"
  shows "cache_wf (evictLoop c) \<and> c_order (evictLoop c) = take (c_maxSize c) (c_order c) \<and>
         c_maxSize (evictLoop c) = c_maxSize c"
  using assms
proof (induction c rule: evictLoop.induct)
  case (1 c)
  show ?case
  proof (cases "c_maxSize c < length (c_order c)")
    case True
    then have ne: "c_order c \<noteq> []" by auto
    let ?i = "fst (last (c_order c))" and ?e = "snd (last (c_order c))"
    have mem: "(?i, ?e) \<in> set (c_order c)" using ne by simp
    note r = removeLocked_order [OF "1.prems" mem]
    have butl: "c_order (removeLocked c ?i) = butlast (c_order c)"
      using filter_last_ref [OF cache_wfD(1) [OF "1.prems"] ne] by (simp add: r)
    from "1.IH" [OF True removeLocked_wf [OF "1.prems" mem]] butl r(3) take_butlast [OF True]
    show ?thesis
      using True by (simp add: evictLoop.simps [of c])
  next
    case False
    with "1.prems" show ?thesis by (simp add: evictLoop.simps [of c])
  qed
qed

subsection \<open>Moving and overwriting an element\<close>

lemma MoveToFront_hit:
  assumes "cache_wf c" and "(i, e) \<in> set (c_order c)"
  shows "MoveToFront i (c_order c) = (i, e) # filter (\<lambda>x. fst x \<noteq> i) (c_order c)"
  using distinct_fst_filter_eq [OF cache_wfD(1) [OF assms(1)] assms(2)]
  by (simp add: MoveToFront_def)

lemma front_update_wf:
  assumes "cache_wf c" and "(i, e) \<in> set (c_order c)" and "e_key e' = e_key e"
  shows "cache_wf (c\<lparr>c_order := (i, e') # filter (\<lambda>x. fst x \<noteq> i) (c_order c)\<rparr>)"
  unfolding cache_wf_def
proof (intro conjI allI ballI)
  let ?c = "c\<lparr>c_order := (i, e') # filter (\<lambda>x. fst x \<noteq> i) (c_order c)\<rparr>"
  have abs: "cache_abs ?c = e' # lru_without (e_key e) (cache_abs c)"
    using filter_ref_eq_without [OF assms(1,2)] by (simp add: cache_abs_def)
  show "distinct (map fst (c_order ?c))"
    using cache_wfD(1) [OF assms(1)] by (auto simp: distinct_map_filter)
  show "distinct (map e_key (cache_abs ?c))"
    using cache_wfD(2) [OF assms(1)] assms(3)
    by (auto simp: abs distinct_lru_without) (auto simp: lru_without_def)
  show "gm_get (c_items ?c) k = Some j \<longleftrightarrow> (\<exists>d. (j, d) \<in> set (c_order ?c) \<and> e_key d = k)" for k j
    using cache_wfD(3) [OF assms(1), of k j] ref_key_unique [OF assms(1,2)] assms(2,3) by force
  show "fst x < c_nextElem ?c" if "x \<in> set (c_order ?c)" for x
    using that assms(2) cache_wfD(4) [OF assms(1), of "fst x" "snd x"]
      cache_wfD(4) [OF assms(1), of i e] by auto
qed

lemma length_front_update:
  assumes "cache_wf c" and "(i, e) \<in> set (c_order c)"
  shows "length ((i, e') # filter (\<lambda>x. fst x \<noteq> i) (c_order c)) = length (c_order c)"
proof -
  have "length (filter (\<lambda>x. fst x = i) (c_order c)) = 1"
    using distinct_fst_filter_eq [OF cache_wfD(1) [OF assms(1)] assms(2)] by simp
  then show ?thesis
    using sum_length_filter_compl [of "\<lambda>x. fst x = i" "c_order c"] by simp
qed

lemma front_update_inv:
  assumes "cache_inv c" and "(i, e) \<in> set (c_order c)" and "e_key e' = e_key e"
  shows "cache_inv (c\<lparr>c_order := (i, e') # filter (\<lambda>x. fst x \<noteq> i) (c_order c)\<rparr>)"
  using assms(1) front_update_wf [OF cache_inv_wf [OF assms(1)] assms(2,3)]
    length_front_update [OF cache_inv_wf [OF assms(1)] assms(2), of e']
  by (simp add: cache_inv_def)

lemma push_front_wf:
  assumes "cache_wf c" and "gm_get (c_items c) (e_key e) = None"
  shows "cache_wf (c\<lparr>c_items := gm_set (c_items c) (e_key e) (c_nextElem c),
                     c_order := (c_nextElem c, e) # c_order c,
                     c_nextElem := Suc (c_nextElem c)\<rparr>)"
  unfolding cache_wf_def
proof (intro conjI allI ballI)
  let ?n = "c_nextElem c"
  let ?c = "c\<lparr>c_items := gm_set (c_items c) (e_key e) ?n,
               c_order := (?n, e) # c_order c, c_nextElem := Suc ?n\<rparr>"
  have fresh: "(?n, d) \<notin> set (c_order c)" for d
    using cache_wfD(4) [OF assms(1), of ?n d] by auto
  show "distinct (map fst (c_order ?c))"
    using cache_wfD(1) [OF assms(1)] fresh by auto
  show "distinct (map e_key (cache_abs ?c))"
    using cache_wfD(2) [OF assms(1)] index_miss(1) [OF assms] by (force simp: cache_abs_def)
  show "gm_get (c_items ?c) k = Some j \<longleftrightarrow> (\<exists>d. (j, d) \<in> set (c_order ?c) \<and> e_key d = k)" for k j
    using cache_wfD(3) [OF assms(1), of k j] assms(2) fresh by auto
  show "fst x < c_nextElem ?c" if "x \<in> set (c_order ?c)" for x
    using that cache_wfD(4) [OF assms(1), of "fst x" "snd x"] by auto
qed

section \<open>Each operation keeps the invariant and implements the abstract cache\<close>

lemma Cache_New_inv: "cache_inv (Cache_New size0 ttl)"
  by (simp add: Cache_New_def cache_inv_def cache_wf_def cache_abs_def)

lemma Cache_Get_spec:
  assumes "cache_inv c"
  shows "cache_inv (snd (Cache_Get c key now)) \<and>
         fst (Cache_Get c key now) = fst (lru_get key now (cache_abs c)) \<and>
         cache_abs (snd (Cache_Get c key now)) = snd (lru_get key now (cache_abs c))"
proof (cases "gm_get (c_items c) key")
  case None
  with assms index_miss [OF cache_inv_wf [OF assms] None] show ?thesis
    by (simp add: Cache_Get_def lru_get_def)
next
  case (Some i)
  note wf = cache_inv_wf [OF assms]
  obtain e where e: "(i, e) \<in> set (c_order c)" "e_key e = key" "getEntry c i = Some e"
    "find (\<lambda>e. e_key e = key) (cache_abs c) = Some e"
    using index_hit [OF wf Some] .
  show ?thesis
  proof (cases "e_expiresAt e < now")
    case True
    with Some e removeLocked_inv [OF assms e(1)] removeLocked_order(5) [OF wf e(1)] show ?thesis
      by (simp add: Cache_Get_def lru_get_def)
  next
    case False
    with Some e front_update_inv [OF assms e(1) refl] MoveToFront_hit [OF wf e(1)]
      filter_ref_eq_without [OF wf e(1)] show ?thesis
      by (simp add: Cache_Get_def lru_get_def cache_abs_def)
  qed
qed

lemma setEntry_front:
  "setEntry i v t ((i, e) # filter (\<lambda>x. fst x \<noteq> i) xs) =
   (i, e\<lparr>e_value := v, e_expiresAt := t\<rparr>) # filter (\<lambda>x. fst x \<noteq> i) xs"
  by (auto simp: setEntry_def intro!: map_idI)

lemma Cache_SetWithTTL_spec:
  assumes "cache_inv c"
  shows "cache_inv (Cache_SetWithTTL c key v ttl now) \<and>
         cache_abs (Cache_SetWithTTL c key v ttl now) =
           lru_set (c_maxSize c) key v (now + ttl) (cache_abs c) \<and>
         c_maxSize (Cache_SetWithTTL c key v ttl now) = c_maxSize c"
proof (cases "gm_get (c_items c) key")
  case None
  let ?e = "\<lparr>e_key = key, e_value = v, e_expiresAt = now + ttl\<rparr>"
  let ?c = "c\<lparr>c_items := gm_set (c_items c) key (c_nextElem c),
               c_order := (c_nextElem c, ?e) # c_order c, c_nextElem := Suc (c_nextElem c)\<rparr>"
  have "cache_wf ?c"
    using push_front_wf [OF cache_inv_wf [OF assms], of ?e] None by simp
  note ev = evictLoop_spec [OF this]
  have eq: "Cache_SetWithTTL c key v ttl now = evictLoop ?c"
    using None by (simp add: Cache_SetWithTTL_def Let_def)
  have "cache_abs (evictLoop ?c) = lru_set (c_maxSize c) key v (now + ttl) (cache_abs c)"
    using ev index_miss(2) [OF cache_inv_wf [OF assms] None]
    by (simp add: cache_abs_def lru_set_def take_map [symmetric] del: take_map)
  with ev assms eq show ?thesis by (simp add: cache_inv_def)
next
  case (Some i)
  note wf = cache_inv_wf [OF assms]
  obtain e where e: "(i, e) \<in> set (c_order c)" "e_key e = key"
    using index_hit [OF wf Some] .
  let ?e' = "e\<lparr>e_value := v, e_expiresAt := now + ttl\<rparr>"
  let ?c = "c\<lparr>c_order := (i, ?e') # filter (\<lambda>x. fst x \<noteq> i) (c_order c)\<rparr>"
  have eq: "Cache_SetWithTTL c key v ttl now = ?c"
    using Some MoveToFront_hit [OF wf e(1)] by (simp add: Cache_SetWithTTL_def setEntry_front)
  have inv: "cache_inv ?c" using front_update_inv [OF assms e(1), of ?e'] by simp
  have "cache_abs ?c = \<lparr>e_key = key, e_value = v, e_expiresAt = now + ttl\<rparr> # lru_without key (cache_abs c)"
    using filter_ref_eq_without [OF wf e(1)] e(2) by (cases e) (simp add: cache_abs_def)
  moreover have "length (cache_abs ?c) \<le> c_maxSize c"
    using inv by (simp add: cache_inv_def cache_abs_def)
  ultimately have "cache_abs ?c = lru_set (c_maxSize c) key v (now + ttl) (cache_abs c)"
    by (simp add: lru_set_def del: take_Suc_Cons)
  with inv eq show ?thesis by simp
qed

lemmas Cache_SetWithTTL_inv = Cache_SetWithTTL_spec [THEN conjunct1]

lemma Cache_Delete_spec:
  assumes "cache_inv c"
  shows "cache_inv (Cache_Delete c key) \<and>
         cache_abs (Cache_Delete c key) = lru_without key (cache_abs c)"
proof (cases "gm_get (c_items c) key")
  case None
  with assms index_miss(2) [OF cache_inv_wf [OF assms] None] show ?thesis
    by (simp add: Cache_Delete_def)
next
  case (Some i)
  note wf = cache_inv_wf [OF assms]
  obtain e where e: "(i, e) \<in> set (c_order c)" "e_key e = key"
    using index_hit [OF wf Some] .
  with Some removeLocked_inv [OF assms e(1)] removeLocked_order(5) [OF wf e(1)] show ?thesis
    by (simp add: Cache_Delete_def)
qed

lemma cleanupLoop_inv_abs:
  assumes "cache_inv c" and "set xs \<subseteq> set (c_order c)" and "distinct (map fst xs)"
  shows "cache_inv (cleanupLoop now c xs) \<and>
         c_order (cleanupLoop now c xs) =
           filter (\<lambda>x. \<not> (x \<in> set xs \<and> e_expiresAt (snd x) < now)) (c_order c)"
  using assms
proof (induction now c xs rule: cleanupLoop.induct)
  case (1 now c)
  then show ?case by simp
next
  case (2 now c i e rest)
  have mem: "(i, e) \<in> set (c_order c)" using "2.prems"(2) by auto
  note wf = cache_inv_wf [OF "2.prems"(1)]
  have fresh: "x \<in> set rest \<Longrightarrow> fst x \<noteq> i" for x
    using "2.prems"(3) by auto
  have uniq: "x \<in> set (c_order c) \<Longrightarrow> fst x = i \<longleftrightarrow> x = (i, e)" for x
    using mem cache_wfD(1) [OF wf] by (metis eq_key_imp_eq_value fst_conv prod.collapse)
  let ?c = "if e_expiresAt e < now then removeLocked c i else c"
  have ord: "c_order ?c = filter (\<lambda>x. \<not> (fst x = i \<and> e_expiresAt e < now)) (c_order c)"
    using removeLocked_order(1) [OF wf mem] by simp
  have "cache_inv ?c" using "2.prems"(1) removeLocked_inv [OF _ mem] by simp
  moreover have "set rest \<subseteq> set (c_order ?c)"
    using "2.prems"(2) fresh by (auto simp: ord)
  moreover have "distinct (map fst rest)" using "2.prems"(3) by simp
  ultimately have IH: "cache_inv (cleanupLoop now ?c rest) \<and>
      c_order (cleanupLoop now ?c rest) =
        filter (\<lambda>x. \<not> (x \<in> set rest \<and> e_expiresAt (snd x) < now)) (c_order ?c)"
    by (rule "2.IH")
  moreover have "filter (\<lambda>x. \<not> (x \<in> set rest \<and> e_expiresAt (snd x) < now)) (c_order ?c) =
      filter (\<lambda>x. \<not> (x \<in> set ((i, e) # rest) \<and> e_expiresAt (snd x) < now)) (c_order c)"
    unfolding ord filter_filter using uniq by (intro filter_cong) auto
  ultimately show ?case by simp
qed

lemma Cache_Cleanup_spec:
  assumes "cache_inv c"
  shows "cache_inv (Cache_Cleanup c now) \<and>
         cache_abs (Cache_Cleanup c now) = lru_cleanup now (cache_abs c)"
proof -
  have "distinct (map fst (rev (c_order c)))"
    using cache_wfD(1) [OF cache_inv_wf [OF assms]] by (simp add: rev_map [symmetric])
  from cleanupLoop_inv_abs [OF assms _ this, of now]
  have inv: "cache_inv (Cache_Cleanup c now)" and
    "c_order (Cache_Cleanup c now) =
       filter (\<lambda>x. \<not> (x \<in> set (c_order c) \<and> e_expiresAt (snd x) < now)) (c_order c)"
    by (simp_all add: Cache_Cleanup_def)
  then have "c_order (Cache_Cleanup c now) = filter (\<lambda>x. \<not> e_expiresAt (snd x) < now) (c_order c)"
    by (auto intro: filter_cong)
  with inv show ?thesis
    by (simp add: cache_abs_def lru_cleanup_def filter_map comp_def)
qed

lemma lru_get_set:
  "0 < n \<Longrightarrow> fst (lru_get key now (lru_set n key v expiry es)) = (if expiry < now then None else Some v)"
  by (cases n) (simp_all add: lru_get_def lru_set_def)

lemma lru_get_without: "fst (lru_get key now (lru_without key es)) = None"
proof -
  have "find (\<lambda>e. e_key e = key) (lru_without key es) = None"
    by (simp add: find_None_iff lru_without_def)
  then show ?thesis by (simp add: lru_get_def)
qed

section \<open>The interface clients of the cache use\<close>

text \<open>
  The adapters keep access tokens in such a cache: they store under a key with the
  default time to live, look the key up and delete it.
\<close>

locale ttl_cache =
  fixes lookup :: "'c \<Rightarrow> string \<Rightarrow> time \<Rightarrow> 'v option \<times> 'c"
    and store :: "'c \<Rightarrow> string \<Rightarrow> 'v \<Rightarrow> time \<Rightarrow> 'c"
    and drop_key :: "'c \<Rightarrow> string \<Rightarrow> 'c"
    and ttl :: "'c \<Rightarrow> duration"
    and inv :: "'c \<Rightarrow> bool"
  assumes inv_lookup: "inv c \<Longrightarrow> inv (snd (lookup c k t))"
    and inv_store: "inv c \<Longrightarrow> inv (store c k v t)"
    and inv_drop: "inv c \<Longrightarrow> inv (drop_key c k)"
    and lookup_store: "inv c \<Longrightarrow>
      fst (lookup (store c k v t) k t') = (if t + ttl c < t' then None else Some v)"
    and lookup_drop: "inv c \<Longrightarrow> fst (lookup (drop_key c k) k t) = None"
    and lookup_again: "inv c \<Longrightarrow> fst (lookup c k t) = Some v \<Longrightarrow>
      fst (lookup (snd (lookup c k t)) k t') = Some v \<or> fst (lookup c k t') = None"
begin

lemma lookup_fresh: "inv c \<Longrightarrow> t' \<le> t + ttl c \<Longrightarrow> fst (lookup (store c k v t) k t') = Some v"
  by (simp add: lookup_store)

lemma lookup_expired: "inv c \<Longrightarrow> t + ttl c < t' \<Longrightarrow> fst (lookup (store c k v t) k t') = None"
  by (simp add: lookup_store)

lemma lookup_overwritten:
  "inv c \<Longrightarrow> fst (lookup (store (store c k v t) k w t) k t') = Some x \<Longrightarrow> x = w"
  using lookup_store [OF inv_store, of c k v t k w t t'] by (auto split: if_splits)

end

lemma lru_get_stable:
  assumes "distinct (map e_key es)" and "fst (lru_get key t es) = Some v"
  shows "fst (lru_get key t' (snd (lru_get key t es))) = Some v \<or> fst (lru_get key t' es) = None"
  using assms by (auto simp: lru_get_def split: option.splits if_splits dest!: find_SomeD)

interpretation lru: ttl_cache Cache_Get Cache_Set Cache_Delete c_defaultTTL cache_inv
proof unfold_locales
  fix c :: "'v cache" and k :: string and v :: 'v and t t' :: time
  assume inv: "cache_inv c"
  show "cache_inv (snd (Cache_Get c k t))" using Cache_Get_spec [OF inv] by blast
  have set_inv: "cache_inv (Cache_Set c k v t)"
    and set_abs: "cache_abs (Cache_Set c k v t) =
      lru_set (c_maxSize c) k v (t + c_defaultTTL c) (cache_abs c)"
    using Cache_SetWithTTL_spec [OF inv] by (simp_all add: Cache_Set_def)
  show "cache_inv (Cache_Set c k v t)" by (rule set_inv)
  show "cache_inv (Cache_Delete c k)" using Cache_Delete_spec [OF inv] by blast
  show "fst (Cache_Get (Cache_Set c k v t) k t') = (if t + c_defaultTTL c < t' then None else Some v)"
    using Cache_Get_spec [OF set_inv, of k t'] set_abs inv by (simp add: lru_get_set cache_inv_def)
  show "fst (Cache_Get (Cache_Delete c k) k t) = None"
    using Cache_Delete_spec [OF inv] Cache_Get_spec by (metis lru_get_without)
  assume hit: "fst (Cache_Get c k t) = Some v"
  show "fst (Cache_Get (snd (Cache_Get c k t)) k t') = Some v \<or> fst (Cache_Get c k t') = None"
    using hit Cache_Get_spec [OF inv] Cache_Get_spec [of "snd (Cache_Get c k t)" k t']
      lru_get_stable [OF cache_wfD(2) [OF cache_inv_wf [OF inv]], of k t v t'] by metis
qed

section \<open>Runs of the cache\<close>

text \<open>Any sequence of calls, with the results the caller sees.\<close>

datatype 'v cache_op =
    OpGet string time
  | OpSet string 'v time
  | OpSetWithTTL string 'v duration time
  | OpDelete string
  | OpCleanup time
  | OpLen

datatype 'v cache_out = OutValue "'v option" | OutLen nat | OutNone

fun cache_step :: "'v cache \<Rightarrow> 'v cache_op \<Rightarrow> 'v cache_out \<times> 'v cache" where
  "cache_step c (OpGet k t) = (case Cache_Get c k t of (r, c') \<Rightarrow> (OutValue r, c'))"
| "cache_step c (OpSet k v t) = (OutNone, Cache_Set c k v t)"
| "cache_step c (OpSetWithTTL k v d t) = (OutNone, Cache_SetWithTTL c k v d t)"
| "cache_step c (OpDelete k) = (OutNone, Cache_Delete c k)"
| "cache_step c (OpCleanup t) = (OutNone, Cache_Cleanup c t)"
| "cache_step c OpLen = (OutLen (Cache_Len c), c)"

fun lru_step :: "nat \<Rightarrow> duration \<Rightarrow> 'v entry list \<Rightarrow> 'v cache_op \<Rightarrow> 'v cache_out \<times> 'v entry list" where
  "lru_step n d es (OpGet k t) = (case lru_get k t es of (r, es') \<Rightarrow> (OutValue r, es'))"
| "lru_step n d es (OpSet k v t) = (OutNone, lru_set n k v (t + d) es)"
| "lru_step n d es (OpSetWithTTL k v d' t) = (OutNone, lru_set n k v (t + d') es)"
| "lru_step n d es (OpDelete k) = (OutNone, lru_without k es)"
| "lru_step n d es (OpCleanup t) = (OutNone, lru_cleanup t es)"
| "lru_step n d es OpLen = (OutLen (length es), es)"

fun cache_run :: "'v cache \<Rightarrow> 'v cache_op list \<Rightarrow> 'v cache_out list \<times> 'v cache" where
  "cache_run c [] = ([], c)"
| "cache_run c (x # xs) =
     (case cache_step c x of (r, c') \<Rightarrow> case cache_run c' xs of (rs, c'') \<Rightarrow> (r # rs, c''))"

fun lru_run :: "nat \<Rightarrow> duration \<Rightarrow> 'v entry list \<Rightarrow> 'v cache_op list \<Rightarrow> 'v cache_out list \<times> 'v entry list" where
  "lru_run n d es [] = ([], es)"
| "lru_run n d es (x # xs) =
     (case lru_step n d es x of (r, es') \<Rightarrow> case lru_run n d es' xs of (rs, es'') \<Rightarrow> (r # rs, es''))"

lemma removeLocked_ttl [simp]: "c_defaultTTL (removeLocked c i) = c_defaultTTL c"
  by (simp add: removeLocked_def split: option.splits)

lemma removeLocked_max [simp]: "c_maxSize (removeLocked c i) = c_maxSize c"
  by (simp add: removeLocked_def split: option.splits)

lemma evictLoop_ttl [simp]: "c_defaultTTL (evictLoop c) = c_defaultTTL c"
  by (induction c rule: evictLoop.induct) (simp add: evictLoop.simps)

lemma cleanupLoop_config [simp]:
  "c_defaultTTL (cleanupLoop t c xs) = c_defaultTTL c"
  "c_maxSize (cleanupLoop t c xs) = c_maxSize c"
  by (induction t c xs rule: cleanupLoop.induct) simp_all

lemma cache_step_refines:
  assumes "cache_inv c"
  shows "cache_inv (snd (cache_step c x)) \<and>
         c_maxSize (snd (cache_step c x)) = c_maxSize c \<and>
         c_defaultTTL (snd (cache_step c x)) = c_defaultTTL c \<and>
         fst (cache_step c x) = fst (lru_step (c_maxSize c) (c_defaultTTL c) (cache_abs c) x) \<and>
         cache_abs (snd (cache_step c x)) =
           snd (lru_step (c_maxSize c) (c_defaultTTL c) (cache_abs c) x)"
proof (cases x)
  case (OpGet k t)
  have "c_maxSize (snd (Cache_Get c k t)) = c_maxSize c"
    and "c_defaultTTL (snd (Cache_Get c k t)) = c_defaultTTL c"
    by (simp_all add: Cache_Get_def split: option.splits)
  with OpGet Cache_Get_spec [OF assms, of k t] show ?thesis
    by (auto split: prod.splits)
next
  case (OpSet k v t)
  have "c_defaultTTL (Cache_SetWithTTL c k v d t) = c_defaultTTL c" for d
    by (simp add: Cache_SetWithTTL_def Let_def split: option.splits)
  with OpSet Cache_SetWithTTL_spec [OF assms] show ?thesis by (simp add: Cache_Set_def)
next
  case (OpSetWithTTL k v d t)
  have "c_defaultTTL (Cache_SetWithTTL c k v d t) = c_defaultTTL c"
    by (simp add: Cache_SetWithTTL_def Let_def split: option.splits)
  with OpSetWithTTL Cache_SetWithTTL_spec [OF assms] show ?thesis by simp
next
  case (OpDelete k)
  with Cache_Delete_spec [OF assms] show ?thesis
    by (simp add: Cache_Delete_def split: option.splits)
next
  case (OpCleanup t)
  with Cache_Cleanup_spec [OF assms, of t] show ?thesis by (simp add: Cache_Cleanup_def)
next
  case OpLen
  with assms show ?thesis by (simp add: Cache_Len_def cache_abs_def)
qed

lemma cache_run_refines:
  assumes "cache_inv c"
  shows "cache_inv (snd (cache_run c xs)) \<and>
         fst (cache_run c xs) = fst (lru_run (c_maxSize c) (c_defaultTTL c) (cache_abs c) xs) \<and>
         cache_abs (snd (cache_run c xs)) =
           snd (lru_run (c_maxSize c) (c_defaultTTL c) (cache_abs c) xs)"
  using assms
proof (induction xs arbitrary: c)
  case Nil
  then show ?case by simp
next
  case (Cons x xs)
  note st = cache_step_refines [OF Cons.prems, of x]
  from Cons.IH [of "snd (cache_step c x)"] st show ?case
    by (simp add: split_beta)
qed

lemma cache_run_max: "cache_inv c \<Longrightarrow> c_maxSize (snd (cache_run c xs)) = c_maxSize c"
proof (induction xs arbitrary: c)
  case (Cons x xs)
  with cache_step_refines [OF Cons.prems, of x] show ?case by (simp add: split_beta)
qed simp

section \<open>Properties\<close>

text \<open>C17: every sequence of calls on a new cache shows its caller exactly the results of
  the abstract LRU list of the configured size and default time to live: hits, misses
  and expiries of \<open>Get\<close>, the lengths, and the order of eviction behind them.\<close>

theorem cache_observes_lru:
  "fst (cache_run (Cache_New size0 ttl) ops) =
   fst (lru_run (if size0 \<le> 0 then 1000 else nat size0)
                (if ttl \<le> 0 then 30 * 10 ^ 9 else ttl) [] ops)"
  using cache_run_refines [OF Cache_New_inv, of size0 ttl ops]
  by (simp add: Cache_New_def cache_abs_def)

text \<open>in every state a sequence of calls on a new cache can reach, the key index and
  the linked list agree, no key occurs twice, and there are at most as many entries as
  the configured size (1000 when the size is not positive).\<close>

lemma cache_reachable_inv:
  "cache_inv (snd (cache_run (Cache_New size0 ttl) ops)) \<and>
   Cache_Len (snd (cache_run (Cache_New size0 ttl) ops)) \<le> (if size0 \<le> 0 then 1000 else nat size0)"
proof -
  have inv: "cache_inv (snd (cache_run (Cache_New size0 ttl) ops))"
    using cache_run_refines [OF Cache_New_inv] by blast
  from inv cache_run_max [OF Cache_New_inv, of size0 ttl ops] show ?thesis
    by (simp add: cache_inv_def Cache_Len_def Cache_New_def split: if_splits)
qed

text \<open>storing a new key in a full cache evicts exactly the least recently used
  entry and keeps every other entry in its order behind the new one.\<close>

lemma cache_set_evicts_lru:
  assumes "cache_inv c" and "Cache_Len c = c_maxSize c" and "gm_get (c_items c) key = None"
  shows "cache_abs (Cache_SetWithTTL c key v ttl now) =
         \<lparr>e_key = key, e_value = v, e_expiresAt = now + ttl\<rparr> # butlast (cache_abs c)"
proof -
  have "c_maxSize c = length (cache_abs c)" and "0 < c_maxSize c"
    using assms by (simp_all add: Cache_Len_def cache_abs_def cache_inv_def)
  then show ?thesis
    using Cache_SetWithTTL_spec [OF assms(1), of key v ttl now]
      index_miss(2) [OF cache_inv_wf [OF assms(1)] assms(3)]
    by (cases "length (cache_abs c)") (simp_all add: lru_set_def butlast_conv_take)
qed

lemma cache_set_evicts_lru_witness:
  "cache_abs (Cache_SetWithTTL (Cache_SetWithTTL (Cache_SetWithTTL (Cache_New 2 0)
      ''a'' (1 :: int) 10 0) ''b'' 2 10 1) ''c'' 3 10 2) =
   [\<lparr>e_key = ''c'', e_value = 3, e_expiresAt = 12\<rparr>, \<lparr>e_key = ''b'', e_value = 2, e_expiresAt = 11\<rparr>]"
proof -
  let ?c0 = "Cache_New 2 0 :: int cache"
  let ?c1 = "Cache_SetWithTTL ?c0 ''a'' 1 10 0" and ?c2 = "Cache_SetWithTTL (Cache_SetWithTTL ?c0 ''a'' 1 10 0) ''b'' 2 10 1"
  have abs: "cache_abs ?c2 = [\<lparr>e_key = ''b'', e_value = 2, e_expiresAt = 11\<rparr>, \<lparr>e_key = ''a'', e_value = 1, e_expiresAt = 10\<rparr>]"
    and i: "gm_get (c_items ?c2) ''c'' = None" and l: "Cache_Len ?c2 = c_maxSize ?c2"
    by (simp_all add: Cache_New_def Cache_SetWithTTL_def evictLoop.simps cache_abs_def Cache_Len_def)
  have "cache_inv ?c2"
    by (intro Cache_SetWithTTL_inv Cache_New_inv)
  from cache_set_evicts_lru [OF this l i, of 3 10 2] abs show ?thesis by simp
qed

text \<open>a value stored with a time to live is returned by every lookup up to and
  including the expiry instant and by none after it.\<close>

lemma cache_get_after_set:
  assumes "cache_inv c"
  shows "fst (Cache_Get (Cache_SetWithTTL c key v ttl now) key now') =
         (if now + ttl < now' then None else Some v)"
  using Cache_SetWithTTL_spec [OF assms, of key v ttl now] assms
    Cache_Get_spec [of "Cache_SetWithTTL c key v ttl now" key now']
  by (simp add: lru_get_set cache_inv_def)

lemma cache_get_after_set_witness:
  "fst (Cache_Get (Cache_SetWithTTL (Cache_New 2 0) ''k'' (7 :: int) 5 100) ''k'' 105) = Some 7 \<and>
   fst (Cache_Get (Cache_SetWithTTL (Cache_New 2 0) ''k'' (7 :: int) 5 100) ''k'' 106) = None"
  using cache_get_after_set [OF Cache_New_inv, of 2 0 "''k''" "7 :: int" 5 100 105]
    cache_get_after_set [OF Cache_New_inv, of 2 0 "''k''" "7 :: int" 5 100 106] by simp

end
