(* ===== verification/Go_Strings.thy ===== *)
theory Go_Strings
  imports Go_Prelude "HOL-Library.Sublist"
begin

text \<open>
  The functions of Go's \<open>strings\<close> package the gateway uses, on byte strings
  (\<open>string\<close> is a list of bytes here, as a Go string is).  \<open>TrimSpace\<close>, \<open>Fields\<close>,
  \<open>ToLower\<close> and \<open>ToUpper\<close> treat ASCII only: the Unicode spaces and letters that Go
  also knows are not recognised by the model.
\<close>

section \<open>Prefixes and suffixes\<close>

definition HasPrefix :: "string \<Rightarrow> string \<Rightarrow> bool" where
  "HasPrefix s p = prefix p s"

definition HasSuffix :: "string \<Rightarrow> string \<Rightarrow> bool" where
  "HasSuffix s p = suffix p s"

definition TrimPrefix :: "string \<Rightarrow> string \<Rightarrow> string" where
  "TrimPrefix s p = (if HasPrefix s p then drop (length p) s else s)"

definition TrimSuffix :: "string \<Rightarrow> string \<Rightarrow> string" where
  "TrimSuffix s p = (if HasSuffix s p then take (length s - length p) s else s)"

lemma HasPrefix_append [simp]: "HasPrefix (p @ s) p"
  by (simp add: HasPrefix_def)

lemma HasSuffix_append [simp]: "HasSuffix (s @ p) p"
  by (simp add: HasSuffix_def suffix_def)

lemma TrimPrefix_append [simp]: "TrimPrefix (p @ s) p = s"
  by (simp add: TrimPrefix_def)

lemma TrimSuffix_append [simp]: "TrimSuffix (s @ p) p = s"
  by (simp add: TrimSuffix_def)

lemma HasPrefix_TrimPrefix: "HasPrefix s p \<Longrightarrow> p @ TrimPrefix s p = s"
  by (auto simp: HasPrefix_def TrimPrefix_def prefix_def)

section \<open>Spaces, case, fields\<close>

definition isSpace :: "char \<Rightarrow> bool" where
  "isSpace ch = (ch = CHR '' '' \<or> (9 \<le> (of_char ch :: nat) \<and> (of_char ch :: nat) \<le> 13))"

definition TrimSpace :: "string \<Rightarrow> string" where
  "TrimSpace s = rev (dropWhile isSpace (rev (dropWhile isSpace s)))"

definition toLowerChar :: "char \<Rightarrow> char" where
  "toLowerChar ch =
     (if 65 \<le> (of_char ch :: nat) \<and> (of_char ch :: nat) \<le> 90
      then char_of ((of_char ch :: nat) + 32) else ch)"

definition toUpperChar :: "char \<Rightarrow> char" where
  "toUpperChar ch =
     (if 97 \<le> (of_char ch :: nat) \<and> (of_char ch :: nat) \<le> 122
      then char_of ((of_char ch :: nat) - 32) else ch)"

definition ToLower :: "string \<Rightarrow> string" where
  "ToLower s = map toLowerChar s"

definition ToUpper :: "string \<Rightarrow> string" where
  "ToUpper s = map toUpperChar s"

text \<open>\<open>strings.Fields\<close>: the maximal runs of characters that are not spaces.\<close>

function Fields :: "string \<Rightarrow> string list" where
  "Fields s =
     (let t = dropWhile isSpace s
      in if t = [] then []
         else takeWhile (\<lambda>ch. \<not> isSpace ch) t # Fields (dropWhile (\<lambda>ch. \<not> isSpace ch) t))"
  by pat_completeness auto
termination
proof (relation "measure length")
  show "wf (measure length)" by simp
  fix s t :: string
  assume t: "t = dropWhile isSpace s" and ne: "t \<noteq> []"
  obtain c cs where c: "t = c # cs" using ne by (meson neq_Nil_conv)
  have "\<not> isSpace (hd t)" using t ne by (metis hd_dropWhile)
  then have "length (dropWhile (\<lambda>ch. \<not> isSpace ch) t) \<le> length cs"
    using c by (simp add: length_dropWhile_le)
  moreover have "length t \<le> length s" using t by (simp add: length_dropWhile_le)
  ultimately show "(dropWhile (\<lambda>ch. \<not> isSpace ch) t, s) \<in> measure length"
    using c by simp
qed

declare Fields.simps [simp del]

text \<open>\<open>strings.Split\<close> on a single byte.\<close>

fun split_on :: "char \<Rightarrow> string \<Rightarrow> string list" where
  "split_on d [] = [[]]"
| "split_on d (c # cs) =
     (if c = d then [] # split_on d cs
      else case split_on d cs of [] \<Rightarrow> [[c]] | x # xs \<Rightarrow> (c # x) # xs)"

text \<open>\<open>strings.Cut\<close> on a single byte: the parts before and after its first occurrence.\<close>

definition cut_on :: "char \<Rightarrow> string \<Rightarrow> (string \<times> string) option" where
  "cut_on d s =
     (if d \<in> set s then Some (takeWhile (\<lambda>ch. ch \<noteq> d) s, tl (dropWhile (\<lambda>ch. ch \<noteq> d) s))
      else None)"

text \<open>\<open>strings.LastIndex\<close> of a single byte.\<close>

definition LastIndex :: "string \<Rightarrow> char \<Rightarrow> int" where
  "LastIndex s d =
     (if d \<in> set s
      then int (length s) - 1 - int (length (takeWhile (\<lambda>ch. ch \<noteq> d) (rev s)))
      else -1)"

lemma TrimSpace_Nil [simp]: "TrimSpace [] = []"
  by (simp add: TrimSpace_def)

lemma TrimSpace_all_space: "TrimSpace s = [] \<longleftrightarrow> (\<forall>c \<in> set s. isSpace c)"
proof -
  have "TrimSpace s = [] \<longleftrightarrow> (\<forall>c \<in> set (dropWhile isSpace s). isSpace c)"
    by (simp add: TrimSpace_def)
  also have "\<dots> \<longleftrightarrow> (\<forall>c \<in> set s. isSpace c)"
    by (metis dropWhile_eq_Nil_conv hd_dropWhile hd_in_set list.set_intros(1) set_dropWhileD)
  finally show ?thesis .
qed

lemma cut_on_append: "d \<notin> set a \<Longrightarrow> cut_on d (a @ d # b) = Some (a, b)"
proof -
  assume a: "d \<notin> set a"
  then have "takeWhile (\<lambda>ch. ch \<noteq> d) (a @ d # b) = a"
    and "dropWhile (\<lambda>ch. ch \<noteq> d) (a @ d # b) = d # b"
    by (induction a) auto
  then show ?thesis by (simp add: cut_on_def)
qed

lemma LastIndex_append:
  assumes "d \<notin> set b"
  shows "LastIndex (a @ d # b) d = int (length a)"
proof -
  have "takeWhile (\<lambda>ch. ch \<noteq> d) (rev (a @ d # b)) = rev b"
    using assms by (simp add: takeWhile_append1 takeWhile_append)
  then show ?thesis by (simp add: LastIndex_def)
qed

text \<open>Decimal formatting, Go's \<open>%d\<close>.\<close>

definition digit_char :: "nat \<Rightarrow> char" where
  "digit_char d = char_of (48 + d)"

function fmt_nat :: "nat \<Rightarrow> string" where
  "fmt_nat n = (if n < 10 then [digit_char n] else fmt_nat (n div 10) @ [digit_char (n mod 10)])"
  by pat_completeness auto
termination
  by (relation "measure id") auto

declare fmt_nat.simps [simp del]

definition fmt_int :: "int \<Rightarrow> string" where
  "fmt_int i = (if i < 0 then CHR ''-'' # fmt_nat (nat (- i)) else fmt_nat (nat i))"

lemma digit_char_inj: "a < 10 \<Longrightarrow> b < 10 \<Longrightarrow> digit_char a = digit_char b \<longleftrightarrow> a = b"
  by (auto simp: digit_char_def char_of_eq_iff take_bit_eq_mod)

lemma fmt_nat_nonempty: "fmt_nat n \<noteq> []"
  by (subst fmt_nat.simps) simp

lemma fmt_nat_inj: "fmt_nat m = fmt_nat n \<Longrightarrow> m = n"
proof (induction m arbitrary: n rule: fmt_nat.induct)
  case (1 m)
  have m: "fmt_nat m = (if m < 10 then [digit_char m] else fmt_nat (m div 10) @ [digit_char (m mod 10)])"
    and n: "fmt_nat n = (if n < 10 then [digit_char n] else fmt_nat (n div 10) @ [digit_char (n mod 10)])"
    by (rule fmt_nat.simps)+
  show ?case
  proof (cases "m < 10")
    case True
    then show ?thesis
      using "1.prems" m n fmt_nat_nonempty [of "n div 10"]
      by (auto simp: digit_char_inj split: if_splits)
  next
    case False
    then have "\<not> n < 10"
      using "1.prems" m n fmt_nat_nonempty [of "m div 10"] by (auto split: if_splits)
    with False "1.prems" m n have "fmt_nat (m div 10) = fmt_nat (n div 10)" and "m mod 10 = n mod 10"
      by (auto simp: digit_char_inj)
    with "1.IH" [OF False] have "m div 10 = n div 10" and "m mod 10 = n mod 10" by auto
    then show ?thesis by (metis div_mult_mod_eq)
  qed
qed

section \<open>Conversions\<close>

text \<open>\<open>hex.EncodeToString\<close>.\<close>

definition hex_digit :: "nat \<Rightarrow> char" where
  "hex_digit d = (if d < 10 then char_of (48 + d) else char_of (87 + d))"

fun hexEncode :: "string \<Rightarrow> string" where
  "hexEncode [] = []"
| "hexEncode (b # bs) = hex_digit ((of_char b :: nat) div 16) # hex_digit ((of_char b :: nat) mod 16) # hexEncode bs"

text \<open>\<open>strconv.FormatInt(n, 36)\<close>.\<close>

function fmt36_nat :: "nat \<Rightarrow> string" where
  "fmt36_nat n = (if n < 36 then [hex_digit n] else fmt36_nat (n div 36) @ [hex_digit (n mod 36)])"
  by pat_completeness auto
termination
  by (relation "measure id") auto

declare fmt36_nat.simps [simp del]

definition fmt36 :: "int \<Rightarrow> string" where
  "fmt36 i = (if i < 0 then CHR ''-'' # fmt36_nat (nat (- i)) else fmt36_nat (nat i))"

text \<open>\<open>strconv.Atoi\<close>: an optional sign and decimal digits, in the range of a 64-bit \<open>int\<close>.\<close>

definition isDigit :: "char \<Rightarrow> bool" where
  "isDigit c \<longleftrightarrow> 48 \<le> (of_char c :: nat) \<and> (of_char c :: nat) \<le> 57"

definition digits_val :: "string \<Rightarrow> nat" where
  "digits_val ds = fold (\<lambda>c n. n * 10 + ((of_char c :: nat) - 48)) ds 0"

definition unsignedAtoi :: "string \<Rightarrow> nat option" where
  "unsignedAtoi ds = (if ds \<noteq> [] \<and> list_all isDigit ds then Some (digits_val ds) else None)"

definition Atoi :: "string \<Rightarrow> int option" where
  "Atoi s =
     (case (case s of
              [] \<Rightarrow> None
            | c # cs \<Rightarrow>
                if c = CHR ''-'' then map_option (\<lambda>n. - int n) (unsignedAtoi cs)
                else if c = CHR ''+'' then map_option int (unsignedAtoi cs)
                else map_option int (unsignedAtoi s)) of
        None \<Rightarrow> None
      | Some i \<Rightarrow> if - (2 ^ 63) \<le> i \<and> i < 2 ^ 63 then Some i else None)"

text \<open>\<open>strings.Contains\<close>.\<close>

definition Contains :: "string \<Rightarrow> string \<Rightarrow> bool" where
  "Contains s t = list_ex (\<lambda>u. prefix t u) (suffixes s)"

lemma of_char_digit_char: "d < 10 \<Longrightarrow> of_char (digit_char d) = (48 + d :: nat)"
  by (simp add: digit_char_def of_char_of)

lemma fmt_nat_digits: "list_all isDigit (fmt_nat n) \<and> digits_val (fmt_nat n) = n"
proof (induction n rule: fmt_nat.induct)
  case (1 n)
  have n: "fmt_nat n = (if n < 10 then [digit_char n] else fmt_nat (n div 10) @ [digit_char (n mod 10)])"
    by (rule fmt_nat.simps)
  show ?case
  proof (cases "n < 10")
    case True
    then show ?thesis by (simp add: n isDigit_def digits_val_def of_char_digit_char)
  next
    case False
    from "1.IH" [OF False] False show ?thesis
      by (simp add: n isDigit_def digits_val_def of_char_digit_char)
  qed
qed

lemma fmt_nat_hd: "\<exists>c cs. fmt_nat n = c # cs \<and> c \<noteq> CHR ''-'' \<and> c \<noteq> CHR ''+''"
proof -
  obtain c cs where c: "fmt_nat n = c # cs" using fmt_nat_nonempty by (meson neq_Nil_conv)
  then have "isDigit c" using fmt_nat_digits [of n] by simp
  then have "c \<noteq> CHR ''-''" "c \<noteq> CHR ''+''" by (auto simp: isDigit_def)
  with c show ?thesis by blast
qed

lemma unsignedAtoi_fmt_nat [simp]: "unsignedAtoi (fmt_nat n) = Some n"
  using fmt_nat_digits [of n] fmt_nat_nonempty [of n] by (simp add: unsignedAtoi_def)

text \<open>Parsing what was printed.\<close>

lemma Atoi_fmt_int: "- (2 ^ 63) \<le> i \<Longrightarrow> i < 2 ^ 63 \<Longrightarrow> Atoi (fmt_int i) = Some i"
proof -
  assume r: "- (2 ^ 63) \<le> i" "i < 2 ^ 63"
  show ?thesis
  proof (cases "i < 0")
    case True
    with r show ?thesis by (simp add: Atoi_def fmt_int_def)
  next
    case False
    obtain c cs where c: "fmt_nat (nat i) = c # cs" "c \<noteq> CHR ''-''" "c \<noteq> CHR ''+''"
      using fmt_nat_hd by blast
    moreover from c have "unsignedAtoi (c # cs) = Some (nat i)" using unsignedAtoi_fmt_nat [of "nat i"] by simp
    ultimately show ?thesis using False r by (simp add: Atoi_def fmt_int_def)
  qed
qed

section \<open>Splitting at a delimiter\<close>

lemma split_on_append: "split_on d (x @ d # y) = split_on d x @ split_on d y"
proof (induction x)
  case (Cons c x)
  moreover have "split_on d x \<noteq> []" by (cases x) (auto split: list.splits)
  ultimately show ?case by (auto split: list.splits)
qed simp

lemma split_on_none: "d \<notin> set s \<Longrightarrow> split_on d s = [s]"
  by (induction s) auto

lemma split_on_parts: "x \<in> set (split_on d s) \<Longrightarrow> d \<notin> set x"
proof (induction s arbitrary: x)
  case (Cons c s)
  then show ?case by (cases "split_on d s") (auto split: if_splits)
qed simp

end
