(* ===== verification/Adapter_Types.thy ===== *)
theory Adapter_Types
  imports Go_Strings "HOL-Library.Word"
begin

text \<open>
  The domain types of the adapter contract (\<open>internal/adapter/interface.go\<close>), the
  adapter registry and the map from sandboxes to their owning backends.

  An adapter is a value of the type variable \<open>'a\<close>; its methods are passed to the
  definitions that call them.  A Go error is its format string with the arguments
  (\<open>fmt.Errorf\<close>) or an error that carries an HTTP status.
\<close>

section \<open>Errors\<close>

datatype go_error =
    Errorf string "string list"
  | StatusError int string

type_synonym 'x go_res = "go_error + 'x"

section \<open>Durations\<close>

abbreviation "second \<equiv> (10 :: int) ^ 9"
abbreviation "minute \<equiv> 60 * second"
abbreviation "hour \<equiv> 60 * minute"

text \<open>The multiplication of \<open>time.Duration(n) * time.Second\<close> wraps at 64 bits.\<close>

definition seconds64 :: "int \<Rightarrow> duration" where
  "seconds64 n = sint (word_of_int (n * second) :: 64 word)"

section \<open>Domain types\<close>

type_synonym strmap = "(string, string) gomap"

abbreviation "SandboxStatusRunning \<equiv> ''running''"
abbreviation "SandboxStatusPaused \<equiv> ''paused''"
abbreviation "SandboxStatusStopped \<equiv> ''stopped''"
abbreviation "SandboxStatusError \<equiv> ''error''"
abbreviation "SandboxStatusStarting \<equiv> ''starting''"

record Sandbox =
  sb_SandboxID :: string
  sb_TemplateID :: string
  sb_Alias :: string
  sb_StartedAt :: time
  sb_EndAt :: time
  sb_Status :: string
  sb_Metadata :: strmap
  sb_ClientID :: string
  sb_Backend :: string

record Template =
  t_TemplateID :: string
  t_Name :: string
  t_Description :: string
  t_CPUCount :: int
  t_MemoryMB :: int
  t_Public :: bool
  t_BuildID :: string
  t_Metadata :: strmap
  t_CreatedAt :: time

record CreateSandboxRequest =
  csr_TemplateID :: string
  csr_Timeout :: int
  csr_Alias :: string
  csr_Envs :: strmap
  csr_Metadata :: strmap

record ListOptions =
  lo_Limit :: int
  lo_Offset :: int
  lo_Labels :: strmap

record CodeExecutionRequest =
  cer_Code :: string
  cer_Language :: string
  cer_EnvVars :: strmap
  cer_Cwd :: string

record CodeExecutionResult =
  cx_Stdout :: string
  cx_Stderr :: string
  cx_ExitCode :: int
  cx_Duration :: duration
  cx_Error :: string

record CommandRequest =
  cmd_Command :: string
  cmd_Args :: "string list"
  cmd_Cwd :: string
  cmd_EnvVars :: strmap

record CommandResult =
  cr_Stdout :: string
  cr_Stderr :: string
  cr_ExitCode :: int
  cr_Error :: string

record FileWriteRequest =
  fw_Path :: string
  fw_Content :: string
  fw_Owner :: string

record FileContent =
  fc_Path :: string
  fc_Content :: string
  fc_Size :: int

text \<open>The reader of an upload is what reading it to the end gives: its bytes or an error.\<close>

record FileUploadRequest =
  fu_Path :: string
  fu_Reader :: "string go_res"

record FileInfo =
  fi_Name :: string
  fi_Path :: string
  fi_Size :: int
  fi_IsDir :: bool
  fi_ModTime :: time

record CreateTemplateRequest =
  ctr_Name :: string
  ctr_Dockerfile :: string
  ctr_StartCmd :: string
  ctr_CPUCount :: int
  ctr_MemoryMB :: int

abbreviation "BuildStatusBuilding \<equiv> ''building''"
abbreviation "BuildStatusReady \<equiv> ''ready''"
abbreviation "BuildStatusError \<equiv> ''error''"

record TemplateBuild =
  tb_TemplateID :: string
  tb_BuildID :: string
  tb_Status :: string

record BuildRequest =
  br_Dockerfile :: string
  br_StartCmd :: string

record BuildStatus =
  bs_BuildID :: string
  bs_Status :: string
  bs_Logs :: string
  bs_Error :: string

record WarmPool =
  wp_WarmPoolID :: string
  wp_TemplateID :: string
  wp_TargetSize :: int
  wp_CurrentSize :: int
  wp_Status :: string
  wp_CreatedAt :: time

record WarmPoolCreateRequest =
  wpr_TemplateID :: string
  wpr_TargetSize :: int
  wpr_WarmPoolID :: string

record ProcessInfo =
  pi_ProcessID :: string
  pi_Command :: string
  pi_PID :: int
  pi_Status :: string
  pi_StartedAt :: time

record SnapshotRequest =
  sr_Name :: string
  sr_Description :: string

record Snapshot =
  sn_SnapshotID :: string
  sn_SandboxID :: string
  sn_Name :: string
  sn_Description :: string
  sn_CreatedAt :: time
  sn_SizeMB :: int

record PortInfo =
  po_Port :: int
  po_Ready :: bool

record AccessToken =
  at_Token :: string
  at_ExpiresAt :: time

record LogEntry =
  le_Timestamp :: time
  le_Message :: string
  le_Level :: string
  le_Source :: string

record TagRequest =
  tr_Name :: string
  tr_BuildID :: string

record Tag =
  tag_Name :: string
  tag_TemplateID :: string
  tag_BuildID :: string
  tag_CreatedAt :: time

section \<open>The sandbox-to-backend map\<close>

type_synonym SandboxBackendMap = "(string, string) gomap"

definition NewSandboxBackendMap :: SandboxBackendMap where
  "NewSandboxBackendMap = []"

definition SandboxBackendMap_Set :: "SandboxBackendMap \<Rightarrow> string \<Rightarrow> string \<Rightarrow> SandboxBackendMap" where
  "SandboxBackendMap_Set m sandboxID backendName = gm_set m sandboxID backendName"

definition SandboxBackendMap_Get :: "SandboxBackendMap \<Rightarrow> string \<Rightarrow> string option" where
  "SandboxBackendMap_Get m sandboxID = gm_get m sandboxID"

definition SandboxBackendMap_Delete :: "SandboxBackendMap \<Rightarrow> string \<Rightarrow> SandboxBackendMap" where
  "SandboxBackendMap_Delete m sandboxID = gm_del m sandboxID"

definition SandboxBackendMap_Size :: "SandboxBackendMap \<Rightarrow> nat" where
  "SandboxBackendMap_Size m = gm_len m"

interpretation sbm: go_map NewSandboxBackendMap SandboxBackendMap_Get SandboxBackendMap_Set
  SandboxBackendMap_Delete SandboxBackendMap_Size gm_wf
  by unfold_locales
    (auto simp: NewSandboxBackendMap_def SandboxBackendMap_Get_def SandboxBackendMap_Set_def
      SandboxBackendMap_Delete_def SandboxBackendMap_Size_def gm.len_del intro: gm.len_pos)

section \<open>The adapter registry\<close>

record 'a registry =
  r_adapters :: "(string, 'a) gomap"
  r_sandboxBackend :: SandboxBackendMap

definition NewRegistry :: "'a registry" where
  "NewRegistry = \<lparr>r_adapters = [], r_sandboxBackend = NewSandboxBackendMap\<rparr>"

text \<open>\<open>nameOf\<close> is the adapter's \<open>Name()\<close> method.\<close>

definition Registry_Register :: "('a \<Rightarrow> string) \<Rightarrow> 'a registry \<Rightarrow> 'a \<Rightarrow> 'a registry go_res" where
  "Registry_Register nameOf r a =
     (let name = nameOf a
      in if gm_has (r_adapters r) name
         then Inl (Errorf ''adapter %q already registered'' [name])
         else Inr (r\<lparr>r_adapters := gm_set (r_adapters r) name a\<rparr>))"

definition Registry_Get :: "'a registry \<Rightarrow> string \<Rightarrow> 'a option" where
  "Registry_Get r name = gm_get (r_adapters r) name"

text \<open>\<open>List\<close> ranges over the map: \<open>ord\<close> is the order the runtime chooses.\<close>

definition Registry_List :: "'a registry \<Rightarrow> string list \<Rightarrow> 'a list" where
  "Registry_List r ord = map snd (gm_range (r_adapters r) ord)"

definition Registry_HealthCheckAll ::
  "('a \<Rightarrow> go_error option) \<Rightarrow> 'a registry \<Rightarrow> string list \<Rightarrow> (string, go_error option) gomap" where
  "Registry_HealthCheckAll check r ord =
     fold (\<lambda>(name, a) results. gm_set results name (check a)) (gm_range (r_adapters r) ord) []"

text \<open>The registry the server builds: every adapter is stored under its own name.\<close>

definition registry_wf :: "('a \<Rightarrow> string) \<Rightarrow> 'a registry \<Rightarrow> bool" where
  "registry_wf nameOf r \<longleftrightarrow>
     gm_wf (r_adapters r) \<and> gm_wf (r_sandboxBackend r) \<and>
     (\<forall>n a. gm_get (r_adapters r) n = Some a \<longrightarrow> nameOf a = n)"

lemma NewRegistry_wf: "registry_wf nameOf NewRegistry"
  by (simp add: registry_wf_def NewRegistry_def NewSandboxBackendMap_def)

lemma Registry_Register_wf:
  "registry_wf nameOf r \<Longrightarrow> Registry_Register nameOf r a = Inr r' \<Longrightarrow> registry_wf nameOf r'"
  by (auto simp: registry_wf_def Registry_Register_def Let_def split: if_splits)

lemma Registry_Register_Get:
  assumes "Registry_Register nameOf r a = Inr r'"
  shows "Registry_Get r' n = (if n = nameOf a then Some a else Registry_Get r n)"
    and "Registry_Get r (nameOf a) = None"
  using assms
  by (auto simp: Registry_Register_def Registry_Get_def gm_has_def Let_def split: if_splits)

lemma Registry_List_mem:
  assumes "gm_order (r_adapters r) ord"
  shows "a \<in> set (Registry_List r ord) \<longleftrightarrow> (\<exists>n. Registry_Get r n = Some a)"
  using gm_range_complete [OF assms] by (force simp: Registry_List_def Registry_Get_def)

lemma Registry_List_names:
  assumes "registry_wf nameOf r" and "gm_order (r_adapters r) ord"
  shows "map nameOf (Registry_List r ord) = ord"
proof -
  have "map nameOf (Registry_List r ord) = map fst (gm_range (r_adapters r) ord)"
    using assms(1) by (auto simp: Registry_List_def registry_wf_def gm_range_mem)
  with gm_range_keys [OF assms(2)] show ?thesis by simp
qed

end
