(* ===== verification/Gateway_Config.thy ===== *)
theory Gateway_Config
  imports Adapter_Types
begin

text \<open>
  The configuration structures and their validation (\<open>internal/config/config.go\<close>).
  Reading the file and the environment through viper is not modelled; \<open>Validate\<close> and
  the auth provider checks are, with the default backend that \<open>Validate\<close> fills in.
\<close>

section \<open>Structures\<close>

record HTTPConfig =
  h_Address :: string
  h_ReadTimeout :: duration
  h_WriteTimeout :: duration
  h_IdleTimeout :: duration

record HTTPSConfig =
  hs_Address :: string
  hs_CertFile :: string
  hs_KeyFile :: string

record ServerConfig =
  s_HTTP :: HTTPConfig
  s_HTTPS :: HTTPSConfig
  s_EnvdDomain :: string

text \<open>A dynamically typed value (Go's \<open>any\<close>), as the decoders of configuration files and of JSON
  produce it.\<close>

datatype any =
    AString string
  | ABytes string
  | ABool bool
  | AInt int
  | AFloat rat
  | AList "any list"
  | AMap "(string \<times> any) list"
  | ANil

record BackendConfig =
  b_Name :: string
  b_Type :: string
  b_Enabled :: bool
  b_Config :: "(string, any) gomap"

record AuthProviderConfig =
  ap_Type :: string
  ap_SecretRef :: string
  ap_HeaderName :: string
  ap_AlternateHeader :: string
  ap_BearerPrefix :: bool
  ap_Keys :: "string list"
  ap_Issuer :: string
  ap_JWKS :: string
  ap_JWKSURL :: string
  ap_Audience :: string
  ap_ClockSkew :: duration

record RateLimitDefaultConfig =
  rl_RequestsPerMinute :: int
  rl_BurstSize :: int

record RateLimitOverride =
  ro_RequestsPerMinute :: int
  ro_BurstSize :: int

record RedisConfig =
  rd_Address :: string
  rd_Password :: string
  rd_DB :: int

record RateLimitConfig =
  rlc_Enabled :: bool
  rlc_Backend :: string
  rlc_DefaultLimit :: RateLimitDefaultConfig
  rlc_Redis :: RedisConfig
  rlc_TenantOverrides :: "(string, RateLimitOverride) gomap"

record RoutingRule =
  rr_Tenant :: string
  rr_Template :: string
  rr_Backend :: string

record RoutingStrategy =
  rs_Name :: string
  rs_Rules :: "RoutingRule list"

record HealthCheckConfig =
  hc_Interval :: duration
  hc_Timeout :: duration
  hc_UnhealthyThreshold :: int
  hc_HealthyThreshold :: int

record FailoverConfig =
  fo_Enabled :: bool
  fo_Chain :: "string list"

record RoutingConfig =
  rc_DefaultBackend :: string
  rc_Strategy :: string
  rc_Strategies :: "RoutingStrategy list"
  rc_HealthCheck :: HealthCheckConfig
  rc_Failover :: FailoverConfig

record MemoryConfig =
  mc_MaxSize :: int
  mc_DefaultTTL :: duration

record CacheConfig =
  cc_Backend :: string
  cc_Memory :: MemoryConfig
  cc_Redis :: RedisConfig

record OTelConfig =
  ot_Enabled :: bool
  ot_ServiceNamespace :: string
  ot_Endpoint :: string
  ot_Insecure :: bool
  ot_SamplingRatio :: rat

record MetricsConfig =
  mt_Enabled :: bool
  mt_Path :: string
  mt_Prefix :: string

record LoggingConfig =
  lg_Level :: string
  lg_Format :: string
  lg_AuditLog :: bool

record ObservabilityConfig =
  ob_OTel :: OTelConfig
  ob_Metrics :: MetricsConfig
  ob_Logging :: LoggingConfig

text \<open>\<open>cfg_AuthProviders\<close> is \<open>Auth.Providers\<close>, the only member of \<open>AuthConfig\<close>.\<close>

record Config =
  cfg_Server :: ServerConfig
  cfg_Backends :: "BackendConfig list"
  cfg_AuthProviders :: "AuthProviderConfig list"
  cfg_RateLimit :: RateLimitConfig
  cfg_Routing :: RoutingConfig
  cfg_Cache :: CacheConfig
  cfg_Observability :: ObservabilityConfig

section \<open>Validation\<close>

definition validateJWT :: "AuthProviderConfig \<Rightarrow> go_error option" where
  "validateJWT c =
     (if ap_Issuer c = [] \<or> ap_Audience c = [] \<or> TrimSpace (ap_JWKS c) = [] then
        Some (Errorf ''jwt provider requires issuer, audience, and static jwks'' [])
      else if ap_JWKSURL c \<noteq> [] then
        Some (Errorf ''jwt jwksURL is not supported with static jwks'' [])
      else if ap_ClockSkew c < 0 \<or> 5 * 60 * 10 ^ 9 < ap_ClockSkew c then
        Some (Errorf ''jwt clockSkew must be between 0 and 5m'' [])
      else if TrimSpace (ap_Issuer c) \<noteq> ap_Issuer c \<or> TrimSpace (ap_Audience c) \<noteq> ap_Audience c then
        Some (Errorf ''jwt issuer and audience must not contain surrounding whitespace'' [])
      else None)"

definition AuthProviderConfig_Validate :: "AuthProviderConfig \<Rightarrow> go_error option" where
  "AuthProviderConfig_Validate c =
     (if ap_Type c = ''apikey'' then None
      else if ap_Type c = ''jwt'' then validateJWT c
      else Some (Errorf ''unsupported auth provider type %q'' [ap_Type c]))"

text \<open>The loop over the backends: the number of enabled ones, or the first error.\<close>

fun validateBackends :: "BackendConfig list \<Rightarrow> nat \<Rightarrow> nat go_res" where
  "validateBackends [] enabledBackends = Inr enabledBackends"
| "validateBackends (b # bs) enabledBackends =
     (let enabledBackends' = (if b_Enabled b then Suc enabledBackends else enabledBackends)
      in if b_Name b = [] then Inl (Errorf ''backend name is required'' [])
         else if b_Type b = [] then Inl (Errorf ''backend type is required for %q'' [b_Name b])
         else validateBackends bs enabledBackends')"

fun validateProviders :: "AuthProviderConfig list \<Rightarrow> go_error option" where
  "validateProviders [] = None"
| "validateProviders (p # ps) =
     (case AuthProviderConfig_Validate p of Some e \<Rightarrow> Some e | None \<Rightarrow> validateProviders ps)"

fun firstEnabled :: "BackendConfig list \<Rightarrow> string \<Rightarrow> string" where
  "firstEnabled [] d = d"
| "firstEnabled (b # bs) d = (if b_Enabled b then b_Name b else firstEnabled bs d)"

definition Config_Validate :: "Config \<Rightarrow> Config go_res" where
  "Config_Validate c =
     (if h_Address (s_HTTP (cfg_Server c)) = [] then
        Inl (Errorf ''server.http.address is required'' [])
      else if cfg_Backends c = [] then
        Inl (Errorf ''at least one backend must be configured'' [])
      else case validateBackends (cfg_Backends c) 0 of
        Inl e \<Rightarrow> Inl e
      | Inr enabledBackends \<Rightarrow>
          if enabledBackends = 0 then
            Inl (Errorf ''at least one backend must be enabled'' [])
          else case validateProviders (cfg_AuthProviders c) of
            Some e \<Rightarrow> Inl e
          | None \<Rightarrow>
              if rc_DefaultBackend (cfg_Routing c) = [] \<and> 0 < enabledBackends then
                Inr (c\<lparr>cfg_Routing := (cfg_Routing c)
                       \<lparr>rc_DefaultBackend :=
                          firstEnabled (cfg_Backends c) (rc_DefaultBackend (cfg_Routing c))\<rparr>\<rparr>)
              else Inr c)"

section \<open>Facts about validation\<close>

lemma validateBackends_count:
  "validateBackends bs n = Inr m \<longleftrightarrow>
   m = n + length (filter b_Enabled bs) \<and> (\<forall>b \<in> set bs. b_Name b \<noteq> [] \<and> b_Type b \<noteq> [])"
  by (induction bs arbitrary: n) (auto simp: Let_def)

lemma validateProviders_ok:
  "validateProviders ps = None \<longleftrightarrow> (\<forall>p \<in> set ps. AuthProviderConfig_Validate p = None)"
  by (induction ps) (auto split: option.splits)

lemma firstEnabled_enabled:
  "\<exists>b \<in> set bs. b_Enabled b \<Longrightarrow>
   \<exists>b \<in> set bs. b_Enabled b \<and> firstEnabled bs d = b_Name b"
  by (induction bs) auto

text \<open>What a valid configuration guarantees to the rest of the gateway.\<close>

definition config_valid :: "Config \<Rightarrow> bool" where
  "config_valid c \<longleftrightarrow>
     h_Address (s_HTTP (cfg_Server c)) \<noteq> [] \<and>
     (\<forall>b \<in> set (cfg_Backends c). b_Name b \<noteq> [] \<and> b_Type b \<noteq> []) \<and>
     (\<exists>b \<in> set (cfg_Backends c). b_Enabled b) \<and>
     (\<forall>p \<in> set (cfg_AuthProviders c). ap_Type p = ''apikey'' \<or> ap_Type p = ''jwt'') \<and>
     (\<forall>p \<in> set (cfg_AuthProviders c). ap_Type p = ''jwt'' \<longrightarrow>
        ap_Issuer p \<noteq> [] \<and> ap_Audience p \<noteq> [] \<and> ap_JWKSURL p = [] \<and>
        0 \<le> ap_ClockSkew p \<and> ap_ClockSkew p \<le> 300 * 10 ^ 9)"

lemma AuthProviderConfig_Validate_None:
  assumes "AuthProviderConfig_Validate p = None"
  shows "ap_Type p = ''apikey'' \<or> ap_Type p = ''jwt''"
    and "ap_Type p = ''jwt'' \<Longrightarrow> ap_Issuer p \<noteq> [] \<and> ap_Audience p \<noteq> [] \<and> ap_JWKSURL p = [] \<and>
         0 \<le> ap_ClockSkew p \<and> ap_ClockSkew p \<le> 300 * 10 ^ 9"
  using assms by (auto simp: AuthProviderConfig_Validate_def validateJWT_def split: if_splits)

lemma filter_enabled_pos: "0 < length (filter b_Enabled bs) \<longleftrightarrow> (\<exists>b \<in> set bs. b_Enabled b)"
  by (auto simp: filter_empty_conv)

lemma Config_Validate_Inr:
  assumes "Config_Validate c = Inr c'"
  shows "(\<forall>b \<in> set (cfg_Backends c). b_Name b \<noteq> [] \<and> b_Type b \<noteq> [])"
    and "\<exists>b \<in> set (cfg_Backends c). b_Enabled b"
    and "validateProviders (cfg_AuthProviders c) = None"
    and "h_Address (s_HTTP (cfg_Server c)) \<noteq> []"
    and "c' = (if rc_DefaultBackend (cfg_Routing c) = []
               then c\<lparr>cfg_Routing := (cfg_Routing c)
                 \<lparr>rc_DefaultBackend := firstEnabled (cfg_Backends c) []\<rparr>\<rparr> else c)"
  using assms filter_enabled_pos [of "cfg_Backends c"]
  by (auto simp: Config_Validate_def validateBackends_count split: if_splits sum.splits option.splits)

section \<open>Properties\<close>

text \<open>a configuration that passes validation has a listen address, names and types
  for all its backends, at least one enabled backend, only supported auth providers
  with sane JWT settings, and after validation a default backend; when none was
  configured it is the name of an enabled backend.  Nothing else is changed.\<close>

lemma validate_establishes:
  assumes "Config_Validate c = Inr c'"
  shows "config_valid c' \<and> rc_DefaultBackend (cfg_Routing c') \<noteq> [] \<and>
         c' = c\<lparr>cfg_Routing := (cfg_Routing c)\<lparr>rc_DefaultBackend := rc_DefaultBackend (cfg_Routing c')\<rparr>\<rparr> \<and>
         (rc_DefaultBackend (cfg_Routing c) = [] \<longrightarrow>
           (\<exists>b \<in> set (cfg_Backends c). b_Enabled b \<and> rc_DefaultBackend (cfg_Routing c') = b_Name b))"
proof -
  note v = Config_Validate_Inr [OF assms]
  obtain b where b: "b \<in> set (cfg_Backends c)" "b_Enabled b" "firstEnabled (cfg_Backends c) [] = b_Name b"
    using firstEnabled_enabled [OF v(2), of "[]"] by blast
  have "config_valid c"
    using v AuthProviderConfig_Validate_None by (auto simp: config_valid_def validateProviders_ok)
  then have "config_valid c'" by (simp add: v(5) config_valid_def)
  moreover have "c' = c\<lparr>cfg_Routing := (cfg_Routing c)\<lparr>rc_DefaultBackend := rc_DefaultBackend (cfg_Routing c')\<rparr>\<rparr>"
    by (simp add: v(5))
  ultimately show ?thesis using b v(1) v(5) by auto
qed

definition sample_config :: Config where
  "sample_config =
     \<lparr>cfg_Server = \<lparr>s_HTTP = \<lparr>h_Address = ''0.0.0.0:8080'', h_ReadTimeout = 30, h_WriteTimeout = 300, h_IdleTimeout = 120\<rparr>,
        s_HTTPS = \<lparr>hs_Address = [], hs_CertFile = [], hs_KeyFile = []\<rparr>, s_EnvdDomain = []\<rparr>,
      cfg_Backends = [\<lparr>b_Name = ''off'', b_Type = ''mock'', b_Enabled = False, b_Config = []\<rparr>,
                      \<lparr>b_Name = ''mock'', b_Type = ''mock'', b_Enabled = True, b_Config = []\<rparr>],
      cfg_AuthProviders = [],
      cfg_RateLimit = \<lparr>rlc_Enabled = True, rlc_Backend = ''memory'',
        rlc_DefaultLimit = \<lparr>rl_RequestsPerMinute = 100, rl_BurstSize = 20\<rparr>,
        rlc_Redis = \<lparr>rd_Address = [], rd_Password = [], rd_DB = 0\<rparr>, rlc_TenantOverrides = []\<rparr>,
      cfg_Routing = \<lparr>rc_DefaultBackend = [], rc_Strategy = ''static'', rc_Strategies = [],
        rc_HealthCheck = \<lparr>hc_Interval = 0, hc_Timeout = 0, hc_UnhealthyThreshold = 0, hc_HealthyThreshold = 0\<rparr>,
        rc_Failover = \<lparr>fo_Enabled = False, fo_Chain = []\<rparr>\<rparr>,
      cfg_Cache = \<lparr>cc_Backend = ''memory'', cc_Memory = \<lparr>mc_MaxSize = 10000, mc_DefaultTTL = 0\<rparr>,
        cc_Redis = \<lparr>rd_Address = [], rd_Password = [], rd_DB = 0\<rparr>\<rparr>,
      cfg_Observability = \<lparr>ob_OTel = \<lparr>ot_Enabled = False, ot_ServiceNamespace = [], ot_Endpoint = [], ot_Insecure = True, ot_SamplingRatio = 1\<rparr>,
        ob_Metrics = \<lparr>mt_Enabled = True, mt_Path = ''/metrics'', mt_Prefix = []\<rparr>,
        ob_Logging = \<lparr>lg_Level = ''info'', lg_Format = ''json'', lg_AuditLog = True\<rparr>\<rparr>\<rparr>"

lemma validate_establishes_witness:
  "\<exists>c'. Config_Validate sample_config = Inr c' \<and> config_valid c' \<and>
        rc_DefaultBackend (cfg_Routing c') = ''mock''"
proof -
  obtain c' where c': "Config_Validate sample_config = Inr c'" and "rc_DefaultBackend (cfg_Routing c') = ''mock''"
    by (simp add: Config_Validate_def sample_config_def Let_def)
  with validate_establishes [OF c'] show ?thesis by blast
qed

end
