(* ===== verification/Router.thy ===== *)
theory Router
  imports Gateway_Config "HOL-Library.Multiset" "HOL-Library.Word" "HOL-Library.Signed_Division"
begin

text \<open>
  Backend selection and health tracking (\<open>internal/routing/router.go\<close>).

  The router reads the registry and keeps a health record per backend and a
  round-robin counter, an unsigned 64-bit integer that wraps around.  The health
  check of an adapter is a parameter (its result, an error or none).  The goroutine
  that runs the sweeps is the theory Health_Monitor.
\<close>

section \<open>State\<close>

record RoutingRequest =
  rq_TenantID :: string
  rq_TemplateID :: string
  rq_Method :: string
  rq_Path :: string

record backendHealth =
  bh_healthy :: bool
  bh_consecutiveFails :: int
  bh_consecutiveOK :: int
  bh_lastCheck :: time

record 'a router =
  ro_cfg :: RoutingConfig
  ro_registry :: "'a registry"
  ro_healthStatus :: "(string, backendHealth) gomap"
  ro_rrCounter :: "64 word"

definition NewRouter :: "('a \<Rightarrow> string) \<Rightarrow> RoutingConfig \<Rightarrow> 'a registry \<Rightarrow> string list \<Rightarrow> 'a router" where
  "NewRouter nameOf cfg reg ord =
     \<lparr>ro_cfg = cfg, ro_registry = reg,
      ro_healthStatus =
        fold (\<lambda>a h. gm_set h (nameOf a)
                \<lparr>bh_healthy = True, bh_consecutiveFails = 0, bh_consecutiveOK = 0, bh_lastCheck = 0\<rparr>)
             (Registry_List reg ord) [],
      ro_rrCounter = 0\<rparr>"

section \<open>Health checks\<close>

definition recordCheck :: "HealthCheckConfig \<Rightarrow> backendHealth \<Rightarrow> go_error option \<Rightarrow> time \<Rightarrow> backendHealth" where
  "recordCheck hc bh err now =
     (case err of
        Some e \<Rightarrow>
          (let fails = bh_consecutiveFails bh + 1;
               threshold = (if hc_UnhealthyThreshold hc = 0 then 3 else hc_UnhealthyThreshold hc)
           in bh\<lparr>bh_consecutiveFails := fails, bh_consecutiveOK := 0,
                 bh_healthy := (if threshold \<le> fails then False else bh_healthy bh),
                 bh_lastCheck := now\<rparr>)
      | None \<Rightarrow>
          (let oks = bh_consecutiveOK bh + 1;
               threshold = (if hc_HealthyThreshold hc = 0 then 2 else hc_HealthyThreshold hc)
           in bh\<lparr>bh_consecutiveOK := oks, bh_consecutiveFails := 0,
                 bh_healthy := (if threshold \<le> oks then True else bh_healthy bh),
                 bh_lastCheck := now\<rparr>))"

definition freshHealth :: backendHealth where
  "freshHealth = \<lparr>bh_healthy = False, bh_consecutiveFails = 0, bh_consecutiveOK = 0, bh_lastCheck = 0\<rparr>"

text \<open>One sweep: \<open>check\<close> is the adapters' \<open>HealthCheck\<close>, \<open>clock\<close> the time after each check.\<close>

definition checkAllBackends ::
  "('a \<Rightarrow> string) \<Rightarrow> ('a \<Rightarrow> go_error option) \<Rightarrow> ('a \<Rightarrow> time) \<Rightarrow> string list \<Rightarrow> 'a router \<Rightarrow> 'a router" where
  "checkAllBackends nameOf check clock ord r =
     fold (\<lambda>a r'.
             let bh = gm_get_or freshHealth (ro_healthStatus r') (nameOf a)
             in r'\<lparr>ro_healthStatus :=
                    gm_set (ro_healthStatus r') (nameOf a)
                      (recordCheck (rc_HealthCheck (ro_cfg r')) bh (check a) (clock a))\<rparr>)
          (Registry_List (ro_registry r) ord) r"

definition isHealthy :: "'a router \<Rightarrow> string \<Rightarrow> bool" where
  "isHealthy r name =
     (case gm_get (ro_healthStatus r) name of
        None \<Rightarrow> True
      | Some bh \<Rightarrow> bh_healthy bh)"

definition GetHealthStatus :: "'a router \<Rightarrow> string list \<Rightarrow> (string, bool) gomap" where
  "GetHealthStatus r ord =
     fold (\<lambda>(name, bh) result. gm_set result name (bh_healthy bh)) (gm_range (ro_healthStatus r) ord) []"

section \<open>Selection\<close>

text \<open>A rule matches when its field equals the request's and its backend is registered.\<close>

fun tryRules :: "'a router \<Rightarrow> (RoutingRule \<Rightarrow> string) \<Rightarrow> string \<Rightarrow> RoutingRule list \<Rightarrow> string option" where
  "tryRules r field wanted [] = None"
| "tryRules r field wanted (rule # rules) =
     (if field rule = wanted \<and> Registry_Get (ro_registry r) (rr_Backend rule) \<noteq> None
      then Some (rr_Backend rule)
      else tryRules r field wanted rules)"

fun tryStrategyList :: "'a router \<Rightarrow> RoutingRequest \<Rightarrow> RoutingStrategy list \<Rightarrow> string option" where
  "tryStrategyList r req [] = None"
| "tryStrategyList r req (strategy # rest) =
     (case (if rs_Name strategy = ''template-routing'' \<or> rs_Name strategy = ''template-based'' then
              (if rq_TemplateID req \<noteq> [] then tryRules r rr_Template (rq_TemplateID req) (rs_Rules strategy)
               else None)
            else if rs_Name strategy = ''tenant-static'' then
              (if rq_TenantID req \<noteq> [] then tryRules r rr_Tenant (rq_TenantID req) (rs_Rules strategy)
               else None)
            else None) of
        Some b \<Rightarrow> Some b
      | None \<Rightarrow> tryStrategyList r req rest)"

definition tryStrategies :: "'a router \<Rightarrow> RoutingRequest \<Rightarrow> string option" where
  "tryStrategies r req = tryStrategyList r req (rc_Strategies (ro_cfg r))"

text \<open>The healthy, registered backends of the weighted strategies; every weight is 1.\<close>

definition weightedBackends :: "'a router \<Rightarrow> (string \<times> int) list" where
  "weightedBackends r =
     concat (map (\<lambda>strategy.
        if rs_Name strategy \<noteq> ''weighted'' then []
        else List.map_filter (\<lambda>rule.
               if isHealthy r (rr_Backend rule) \<and> Registry_Get (ro_registry r) (rr_Backend rule) \<noteq> None
               then Some (rr_Backend rule, 1) else None) (rs_Rules strategy))
        (rc_Strategies (ro_cfg r)))"

fun pickWeighted :: "int \<Rightarrow> (string \<times> int) list \<Rightarrow> string option" where
  "pickWeighted idx [] = None"
| "pickWeighted idx ((name, weight) # bs) =
     (if idx - weight < 0 then Some name else pickWeighted (idx - weight) bs)"

definition tryWeightedRoundRobin :: "'a router \<Rightarrow> string option \<times> 'a router" where
  "tryWeightedRoundRobin r =
     (let backends = weightedBackends r;
          totalWeight = sum_list (map snd backends)
      in if backends = [] then (None, r)
         else let counter = ro_rrCounter r + 1;
                  idx = sint counter smod totalWeight
              in (case pickWeighted idx backends of
                    Some b \<Rightarrow> Some b
                  | None \<Rightarrow> Some (fst (hd backends)),
                  r\<lparr>ro_rrCounter := counter\<rparr>))"

definition failoverChain :: "('a \<Rightarrow> string) \<Rightarrow> 'a router \<Rightarrow> string list \<Rightarrow> string list" where
  "failoverChain nameOf r ord =
     (if fo_Chain (rc_Failover (ro_cfg r)) = []
      then map nameOf (Registry_List (ro_registry r) ord)
      else fo_Chain (rc_Failover (ro_cfg r)))"

definition tryFailover :: "('a \<Rightarrow> string) \<Rightarrow> 'a router \<Rightarrow> string list \<Rightarrow> string go_res" where
  "tryFailover nameOf r ord =
     (let chain = failoverChain nameOf r ord
      in case find (\<lambda>b. Registry_Get (ro_registry r) b \<noteq> None \<and> isHealthy r b) chain of
           Some b \<Rightarrow> Inr b
         | None \<Rightarrow>
             (case chain of
                b # _ \<Rightarrow> Inr b
              | [] \<Rightarrow> Inl (Errorf ''no healthy backend in failover chain'' [])))"

text \<open>The last resort: the first healthy backend, or the first one, in registry order.\<close>

definition anyBackend :: "('a \<Rightarrow> string) \<Rightarrow> 'a router \<Rightarrow> string list \<Rightarrow> string go_res" where
  "anyBackend nameOf r ord =
     (let adapters = Registry_List (ro_registry r) ord
      in case find (\<lambda>a. isHealthy r (nameOf a)) adapters of
           Some a \<Rightarrow> Inr (nameOf a)
         | None \<Rightarrow>
             (case adapters of
                a # _ \<Rightarrow> Inr (nameOf a)
              | [] \<Rightarrow> Inl (Errorf ''no backend available'' [])))"

text \<open>What follows the weighted attempt in \<open>SelectBackend\<close>.\<close>

definition selectFallback :: "('a \<Rightarrow> string) \<Rightarrow> 'a router \<Rightarrow> string list \<Rightarrow> string go_res" where
  "selectFallback nameOf r ord =
     (if rc_Strategy (ro_cfg r) = ''priority'' \<or> fo_Enabled (rc_Failover (ro_cfg r)) then
        tryFailover nameOf r ord
      else if rc_DefaultBackend (ro_cfg r) \<noteq> [] \<and>
              Registry_Get (ro_registry r) (rc_DefaultBackend (ro_cfg r)) \<noteq> None then
        Inr (rc_DefaultBackend (ro_cfg r))
      else anyBackend nameOf r ord)"

definition SelectBackend ::
  "('a \<Rightarrow> string) \<Rightarrow> 'a router \<Rightarrow> RoutingRequest \<Rightarrow> string list \<Rightarrow> string go_res \<times> 'a router" where
  "SelectBackend nameOf r req ord =
     (case tryStrategies r req of
        Some backend \<Rightarrow>
          (if isHealthy r backend then (Inr backend, r)
           else if fo_Enabled (rc_Failover (ro_cfg r)) then (tryFailover nameOf r ord, r)
           else (Inr backend, r))
      | None \<Rightarrow>
          (if rc_Strategy (ro_cfg r) = ''weighted'' then
             (case tryWeightedRoundRobin r of
                (Some backend, r') \<Rightarrow> (Inr backend, r')
              | (None, r') \<Rightarrow> (selectFallback nameOf r' ord, r'))
           else (selectFallback nameOf r ord, r)))"

section \<open>Facts about selection\<close>

abbreviation registered :: "'a router \<Rightarrow> string \<Rightarrow> bool" where
  "registered r b \<equiv> Registry_Get (ro_registry r) b \<noteq> None"

definition usable :: "'a router \<Rightarrow> string \<Rightarrow> bool" where
  "usable r b \<longleftrightarrow> registered r b \<and> isHealthy r b"

lemma tryRules_registered: "tryRules r f w rules = Some b \<Longrightarrow> registered r b"
  by (induction rules) (auto split: if_splits)

lemma tryStrategies_registered: "tryStrategies r req = Some b \<Longrightarrow> registered r b"
proof -
  have "tryStrategyList r req ss = Some b \<Longrightarrow> registered r b" for ss
    by (induction ss) (auto split: if_splits option.splits dest: tryRules_registered)
  then show "tryStrategies r req = Some b \<Longrightarrow> registered r b"
    by (simp add: tryStrategies_def)
qed

lemma weightedBackends_usable: "(b, w) \<in> set (weightedBackends r) \<Longrightarrow> usable r b \<and> w = 1"
proof -
  have "(b, w) \<in> set (List.map_filter (\<lambda>rule.
          if isHealthy r (rr_Backend rule) \<and> Registry_Get (ro_registry r) (rr_Backend rule) \<noteq> None
          then Some (rr_Backend rule, 1) else None) rules) \<Longrightarrow> usable r b \<and> w = 1" for rules
    by (induction rules) (auto simp: List.map_filter_simps usable_def split: if_splits)
  then show "(b, w) \<in> set (weightedBackends r) \<Longrightarrow> usable r b \<and> w = 1"
    by (auto simp: weightedBackends_def split: if_splits)
qed

lemma pickWeighted_mem: "pickWeighted idx bs = Some b \<Longrightarrow> b \<in> fst ` set bs"
  by (induction idx bs rule: pickWeighted.induct) (auto split: if_splits)

lemma tryWeightedRoundRobin_Some:
  assumes "tryWeightedRoundRobin r = (Some b, r')"
  shows "usable r b" and "r' = r\<lparr>ro_rrCounter := ro_rrCounter r + 1\<rparr>"
proof -
  have ne: "weightedBackends r \<noteq> []" and "b \<in> fst ` set (weightedBackends r)"
    using assms
    by (auto simp: tryWeightedRoundRobin_def Let_def split: if_splits option.splits
        dest: pickWeighted_mem)
  then show "usable r b" using weightedBackends_usable by fastforce
  show "r' = r\<lparr>ro_rrCounter := ro_rrCounter r + 1\<rparr>"
    using assms ne by (simp add: tryWeightedRoundRobin_def Let_def)
qed

lemma tryWeightedRoundRobin_None:
  "tryWeightedRoundRobin r = (None, r') \<Longrightarrow> r' = r \<and> weightedBackends r = []"
  by (auto simp: tryWeightedRoundRobin_def Let_def split: if_splits option.splits)

lemma tryFailover_usable:
  "\<exists>b \<in> set (failoverChain nameOf r ord). usable r b \<Longrightarrow>
   \<exists>b. tryFailover nameOf r ord = Inr b \<and> usable r b"
proof -
  assume "\<exists>b \<in> set (failoverChain nameOf r ord). usable r b"
  then have "find (\<lambda>b. registered r b \<and> isHealthy r b) (failoverChain nameOf r ord) \<noteq> None"
    by (auto simp: find_None_iff usable_def)
  then obtain b where "find (\<lambda>b. registered r b \<and> isHealthy r b) (failoverChain nameOf r ord) = Some b"
    by blast
  then show ?thesis
    by (auto simp: tryFailover_def Let_def usable_def dest: find_SomeD)
qed

text \<open>A chain built from the registry holds exactly the registered names.\<close>

lemma failoverChain_registry:
  assumes "registry_wf nameOf (ro_registry r)" and "gm_order (r_adapters (ro_registry r)) ord"
    and "fo_Chain (rc_Failover (ro_cfg r)) = []"
  shows "failoverChain nameOf r ord = ord" and "set ord = {b. registered r b}"
  using assms Registry_List_names [OF assms(1,2)] gm_order_get [OF assms(2)]
  by (auto simp: failoverChain_def Registry_Get_def)

text \<open>Where the failover chain ends when none of its backends is usable.\<close>

lemma tryFailover_Inr:
  assumes "registry_wf nameOf (ro_registry r)" and "gm_order (r_adapters (ro_registry r)) ord"
    and "tryFailover nameOf r ord = Inr b"
  shows "registered r b \<or>
         (\<exists>rest. fo_Chain (rc_Failover (ro_cfg r)) = b # rest \<and> (\<forall>c \<in> set (b # rest). \<not> usable r c))"
proof (cases "find (\<lambda>b. registered r b \<and> isHealthy r b) (failoverChain nameOf r ord)")
  case (Some c)
  with assms(3) show ?thesis by (auto simp: tryFailover_def Let_def dest: find_SomeD)
next
  case None
  with assms(3) obtain rest where ch: "failoverChain nameOf r ord = b # rest"
    by (auto simp: tryFailover_def Let_def split: list.splits)
  have no: "\<forall>c \<in> set (b # rest). \<not> usable r c"
    using None ch by (auto simp: find_None_iff usable_def split: if_splits)
  show ?thesis
  proof (cases "fo_Chain (rc_Failover (ro_cfg r)) = []")
    case True
    with ch failoverChain_registry [OF assms(1,2) True] show ?thesis by auto
  next
    case False
    with ch no show ?thesis by (auto simp: failoverChain_def)
  qed
qed

lemma tryFailover_Inl:
  "tryFailover nameOf r ord = Inl e \<longleftrightarrow>
   failoverChain nameOf r ord = [] \<and> e = Errorf ''no healthy backend in failover chain'' []"
  by (auto simp: tryFailover_def Let_def split: option.splits list.splits)

lemma Registry_List_Nil:
  assumes "gm_order (r_adapters reg) ord"
  shows "Registry_List reg ord = [] \<longleftrightarrow> r_adapters reg = []"
proof -
  have "Registry_List reg ord = [] \<longleftrightarrow> ord = []"
    using gm_range_keys [OF assms] by (auto simp: Registry_List_def)
  also have "\<dots> \<longleftrightarrow> r_adapters reg = []"
    using assms by (auto simp: gm_order_def gm_keys_def)
  finally show ?thesis .
qed

lemma anyBackend_Inr:
  assumes "registry_wf nameOf (ro_registry r)" and "gm_order (r_adapters (ro_registry r)) ord"
    and "anyBackend nameOf r ord = Inr b"
  shows "registered r b"
proof -
  have "\<exists>a \<in> set (Registry_List (ro_registry r) ord). b = nameOf a"
    using assms(3)
    by (auto simp: anyBackend_def Let_def split: option.splits list.splits dest: find_SomeD)
  then obtain a n where "Registry_Get (ro_registry r) n = Some a" and "b = nameOf a"
    using Registry_List_mem [OF assms(2)] by blast
  with assms(1) show ?thesis by (auto simp: registry_wf_def Registry_Get_def)
qed

lemma anyBackend_Inl:
  assumes "gm_order (r_adapters (ro_registry r)) ord"
  shows "(\<exists>e. anyBackend nameOf r ord = Inl e) \<longleftrightarrow> r_adapters (ro_registry r) = []"
  using Registry_List_Nil [OF assms]
  by (auto simp: anyBackend_def Let_def split: option.splits list.splits)

lemma selectFallback_Inr:
  assumes "registry_wf nameOf (ro_registry r)" and "gm_order (r_adapters (ro_registry r)) ord"
    and "selectFallback nameOf r ord = Inr b"
  shows "registered r b \<or>
         (\<exists>rest. fo_Chain (rc_Failover (ro_cfg r)) = b # rest \<and> (\<forall>c \<in> set (b # rest). \<not> usable r c))"
  using assms(3) tryFailover_Inr [OF assms(1,2), of b] anyBackend_Inr [OF assms(1,2), of b]
  by (auto simp: selectFallback_def split: if_splits)

lemma SelectBackend_cases:
  obtains (strategy) b where "tryStrategies r req = Some b" and "snd (SelectBackend nameOf r req ord) = r"
      and "fst (SelectBackend nameOf r req ord) = Inr b \<or>
           \<not> isHealthy r b \<and> fo_Enabled (rc_Failover (ro_cfg r)) \<and>
           fst (SelectBackend nameOf r req ord) = tryFailover nameOf r ord"
      and "\<not> isHealthy r b \<Longrightarrow> fo_Enabled (rc_Failover (ro_cfg r)) \<Longrightarrow>
           fst (SelectBackend nameOf r req ord) = tryFailover nameOf r ord"
  | (weighted) b where "tryStrategies r req = None" and "usable r b"
      and "SelectBackend nameOf r req ord = (Inr b, r\<lparr>ro_rrCounter := ro_rrCounter r + 1\<rparr>)"
  | (fallback) "tryStrategies r req = None"
      and "rc_Strategy (ro_cfg r) = ''weighted'' \<longrightarrow> weightedBackends r = []"
      and "SelectBackend nameOf r req ord = (selectFallback nameOf r ord, r)"
proof (cases "tryStrategies r req")
  case (Some b)
  show ?thesis by (rule strategy [OF Some]) (auto simp: SelectBackend_def Some)
next
  case None
  show ?thesis
  proof (cases "rc_Strategy (ro_cfg r) = ''weighted''")
    case True
    show ?thesis
    proof (cases "tryWeightedRoundRobin r")
      case (Pair o' r')
      show ?thesis
      proof (cases o')
        case (Some b)
        with Pair None True tryWeightedRoundRobin_Some [of r b r'] show ?thesis
          by (intro weighted) (auto simp: SelectBackend_def)
      next
        case o: None
        with Pair None True tryWeightedRoundRobin_None [of r r'] show ?thesis
          by (intro fallback) (auto simp: SelectBackend_def)
      qed
    qed
  next
    case False
    with None show ?thesis by (intro fallback) (auto simp: SelectBackend_def)
  qed
qed

text \<open>Selection fails only when nothing is registered.\<close>

lemma tryFailover_total:
  assumes "registry_wf nameOf (ro_registry r)" and "gm_order (r_adapters (ro_registry r)) ord" and "r_adapters (ro_registry r) \<noteq> []"
  shows "\<exists>b. tryFailover nameOf r ord = Inr b"
proof (cases "tryFailover nameOf r ord")
  case (Inl e)
  then have "failoverChain nameOf r ord = []" by (simp add: tryFailover_Inl)
  with failoverChain_registry(1) [OF assms(1,2)] have "ord = []" by (auto simp: failoverChain_def split: if_splits)
  with assms(2,3) show ?thesis by (simp add: gm_order_def gm_keys_def)
qed simp

lemma selectFallback_total:
  assumes "registry_wf nameOf (ro_registry r)" and "gm_order (r_adapters (ro_registry r)) ord" and "r_adapters (ro_registry r) \<noteq> []"
  shows "\<exists>b. selectFallback nameOf r ord = Inr b"
proof -
  have "\<exists>b. anyBackend nameOf r ord = Inr b"
    using anyBackend_Inl [OF assms(2), of nameOf] assms(3) by (cases "anyBackend nameOf r ord") auto
  with tryFailover_total [OF assms] show ?thesis by (auto simp: selectFallback_def)
qed

lemma select_backend_total:
  assumes "registry_wf nameOf (ro_registry r)" and "gm_order (r_adapters (ro_registry r)) ord" and "r_adapters (ro_registry r) \<noteq> []"
  shows "\<exists>b. fst (SelectBackend nameOf r req ord) = Inr b"
proof (cases rule: SelectBackend_cases [where r = r and req = req and nameOf = nameOf and ord = ord])
  case (strategy b)
  then show ?thesis using tryFailover_total [OF assms] by auto
next
  case (weighted b)
  then show ?thesis by simp
next
  case fallback
  then show ?thesis using selectFallback_total [OF assms] by simp
qed

section \<open>Properties of selection\<close>

text \<open>the backend that is selected is registered, unless it is the head of the
  configured failover chain and no backend of that chain is both registered and healthy.\<close>

lemma select_backend_registered:
  assumes "registry_wf nameOf (ro_registry r)" and "gm_order (r_adapters (ro_registry r)) ord"
    and "fst (SelectBackend nameOf r req ord) = Inr b"
  shows "registered r b \<or>
         (\<exists>rest. fo_Chain (rc_Failover (ro_cfg r)) = b # rest \<and> (\<forall>c \<in> set (b # rest). \<not> usable r c))"
proof (cases rule: SelectBackend_cases [where r = r and req = req and nameOf = nameOf and ord = ord])
  case (strategy b')
  then show ?thesis
    using assms(3) tryStrategies_registered [OF strategy(1)] tryFailover_Inr [OF assms(1,2), of b] by auto
next
  case (weighted b')
  with assms(3) show ?thesis by (auto simp: usable_def)
next
  case fallback
  with assms(3) show ?thesis using selectFallback_Inr [OF assms(1,2), of b] by simp
qed

definition demo_cfg :: RoutingConfig where
  "demo_cfg = \<lparr>rc_DefaultBackend = ''a'', rc_Strategy = ''weighted'',
     rc_Strategies = [\<lparr>rs_Name = ''weighted'', rs_Rules =
        [\<lparr>rr_Tenant = [], rr_Template = [], rr_Backend = ''a''\<rparr>,
         \<lparr>rr_Tenant = [], rr_Template = [], rr_Backend = ''b''\<rparr>]\<rparr>],
     rc_HealthCheck = \<lparr>hc_Interval = 10, hc_Timeout = 5, hc_UnhealthyThreshold = 0, hc_HealthyThreshold = 0\<rparr>,
     rc_Failover = \<lparr>fo_Enabled = True, fo_Chain = [''a'', ''b'']\<rparr>\<rparr>"

text \<open>Two backends, each of which is its own name; the first one is unhealthy.\<close>

definition demo_router :: "string router" where
  "demo_router = \<lparr>ro_cfg = demo_cfg,
     ro_registry = \<lparr>r_adapters = [(''a'', ''a''), (''b'', ''b'')], r_sandboxBackend = []\<rparr>,
     ro_healthStatus = [(''a'', \<lparr>bh_healthy = False, bh_consecutiveFails = 3, bh_consecutiveOK = 0, bh_lastCheck = 0\<rparr>),
                        (''b'', \<lparr>bh_healthy = True, bh_consecutiveFails = 0, bh_consecutiveOK = 0, bh_lastCheck = 0\<rparr>)],
     ro_rrCounter = 0\<rparr>"

definition demo_req :: RoutingRequest where
  "demo_req = \<lparr>rq_TenantID = [], rq_TemplateID = ''base'', rq_Method = [], rq_Path = []\<rparr>"

lemma demo_router_wf:
  "registry_wf id (ro_registry demo_router)"
  "gm_order (r_adapters (ro_registry demo_router)) [''b'', ''a'']"
  by (auto simp: demo_router_def registry_wf_def gomap_eval split: if_splits)

lemma demo_router_usable: "usable demo_router ''b''" "\<not> usable demo_router ''a''"
  by (simp_all add: demo_router_def usable_def Registry_Get_def isHealthy_def gomap_eval)

lemma demo_weighted: "weightedBackends demo_router = [(''b'', 1)]"
  by (simp add: weightedBackends_def demo_router_def demo_cfg_def List.map_filter_simps
      isHealthy_def Registry_Get_def gomap_eval)

lemma demo_no_strategy:
  "tryStrategies demo_router req = None"
  by (simp add: tryStrategies_def demo_router_def demo_cfg_def)

lemma demo_select: "fst (SelectBackend id demo_router demo_req [''b'', ''a'']) = Inr ''b''"
proof -
  have "ro_rrCounter demo_router = 0" and "rc_Strategy (ro_cfg demo_router) = ''weighted''"
    by (simp_all add: demo_router_def demo_cfg_def)
  then show ?thesis
    by (simp add: SelectBackend_def demo_no_strategy tryWeightedRoundRobin_def demo_weighted Let_def)
qed

lemma select_backend_registered_witness: "registered demo_router ''b''"
  using select_backend_registered [OF demo_router_wf demo_select] by (auto simp: demo_router_usable)

text \<open>C22: with failover enabled, whenever some backend of the failover chain (of the
  registry when no chain is configured) is registered and healthy, selection succeeds
  with a registered and healthy backend.\<close>

theorem select_backend_failover:
  assumes "fo_Enabled (rc_Failover (ro_cfg r))"
    and "\<exists>b \<in> set (failoverChain nameOf r ord). usable r b"
  shows "\<exists>b. fst (SelectBackend nameOf r req ord) = Inr b \<and> usable r b"
proof (cases rule: SelectBackend_cases [where r = r and req = req and nameOf = nameOf and ord = ord])
  case (strategy b)
  with assms tryFailover_usable [OF assms(2)] tryStrategies_registered [OF strategy(1)] show ?thesis
    by (cases "isHealthy r b") (auto simp: usable_def SelectBackend_def)
next
  case (weighted b)
  then show ?thesis by simp
next
  case fallback
  with assms(1) tryFailover_usable [OF assms(2)] show ?thesis by (simp add: selectFallback_def)
qed

theorem select_backend_failover_witness:
  "\<exists>b. fst (SelectBackend id demo_router demo_req [''b'', ''a'']) = Inr b \<and> usable demo_router b"
proof (rule select_backend_failover)
  show "fo_Enabled (rc_Failover (ro_cfg demo_router))"
    by (simp add: demo_router_def demo_cfg_def)
  have "failoverChain id demo_router [''b'', ''a''] = [''a'', ''b'']"
    by (simp add: failoverChain_def demo_router_def demo_cfg_def)
  then show "\<exists>b \<in> set (failoverChain id demo_router [''b'', ''a'']). usable demo_router b"
    by (auto simp: demo_router_usable)
qed

text \<open>selection fails only when no adapter is registered, and then it fails unless
  the failover chain is consulted and has an entry: the exact error condition.\<close>

lemma select_backend_error_iff:
  assumes "registry_wf nameOf (ro_registry r)" and "gm_order (r_adapters (ro_registry r)) ord"
  shows "(\<exists>e. fst (SelectBackend nameOf r req ord) = Inl e) \<longleftrightarrow>
         r_adapters (ro_registry r) = [] \<and>
         (rc_Strategy (ro_cfg r) = ''priority'' \<or> fo_Enabled (rc_Failover (ro_cfg r)) \<longrightarrow>
          fo_Chain (rc_Failover (ro_cfg r)) = [])"
proof -
  have empty: "r_adapters (ro_registry r) = [] \<Longrightarrow> \<not> registered r b" for b
    by (simp add: Registry_Get_def gm_get_def)
  have chain: "failoverChain nameOf r ord = [] \<longleftrightarrow>
      fo_Chain (rc_Failover (ro_cfg r)) = [] \<and> r_adapters (ro_registry r) = []"
    using Registry_List_Nil [OF assms(2)] by (auto simp: failoverChain_def)
  have fb: "(\<exists>e. selectFallback nameOf r ord = Inl e) \<longleftrightarrow> r_adapters (ro_registry r) = [] \<and>
      (rc_Strategy (ro_cfg r) = ''priority'' \<or> fo_Enabled (rc_Failover (ro_cfg r)) \<longrightarrow>
       fo_Chain (rc_Failover (ro_cfg r)) = [])"
    using anyBackend_Inl [OF assms(2), of nameOf] chain empty
    by (auto simp: selectFallback_def tryFailover_Inl)
  show ?thesis
  proof (cases rule: SelectBackend_cases [where r = r and req = req and nameOf = nameOf and ord = ord])
    case (strategy b)
    have "r_adapters (ro_registry r) \<noteq> []"
      using empty [of b] tryStrategies_registered [OF strategy(1)] by blast
    moreover from this have "tryFailover nameOf r ord \<noteq> Inl e" for e
      using chain by (simp add: tryFailover_Inl)
    ultimately show ?thesis using strategy(3) by (metis Inr_not_Inl)
  next
    case (weighted b)
    with empty [of b] show ?thesis by (auto simp: usable_def)
  next
    case fallback
    with fb show ?thesis by simp
  qed
qed

lemma select_backend_error_iff_witness:
  "\<not> (\<exists>e. fst (SelectBackend id demo_router demo_req [''b'', ''a'']) = Inl e)"
  using select_backend_error_iff [OF demo_router_wf, of demo_req] by (simp add: demo_router_def)

section \<open>Round robin\<close>

text \<open>The results of \<open>n\<close> consecutive weighted selections.\<close>

fun rr_run :: "nat \<Rightarrow> 'a router \<Rightarrow> string option list" where
  "rr_run 0 r = []"
| "rr_run (Suc n) r = (case tryWeightedRoundRobin r of (b, r') \<Rightarrow> b # rr_run n r')"

lemma weights_one: "map snd (weightedBackends r) = replicate (length (weightedBackends r)) 1"
  using weightedBackends_usable [of _ _ r] by (auto intro!: replicate_eqI)

lemma total_weight: "sum_list (map snd (weightedBackends r)) = int (length (weightedBackends r))"
  by (simp add: weights_one sum_list_replicate)

lemma pickWeighted_nth:
  "map snd bs = replicate (length bs) 1 \<Longrightarrow> i < length bs \<Longrightarrow>
   pickWeighted (int i) bs = Some (fst (bs ! i))"
proof (induction bs arbitrary: i)
  case Nil
  then show ?case by simp
next
  case (Cons b bs)
  obtain n w where b: "b = (n, w)" by (cases b)
  with Cons.prems have w: "w = 1" by simp
  show ?case
  proof (cases i)
    case 0
    then show ?thesis by (simp add: b w)
  next
    case (Suc j)
    with Cons show ?thesis by (simp add: b w)
  qed
qed

lemma weightedBackends_counter [simp]: "weightedBackends (r\<lparr>ro_rrCounter := c\<rparr>) = weightedBackends r"
proof -
  have "isHealthy (r\<lparr>ro_rrCounter := c\<rparr>) = isHealthy r"
    by (simp add: isHealthy_def fun_eq_iff)
  then show ?thesis by (simp add: weightedBackends_def cong: if_cong)
qed

lemma smod_nonneg: "0 \<le> a \<Longrightarrow> 0 < n \<Longrightarrow> a smod n = a mod n" for a n :: int
  by (cases "a = 0") (simp_all add: signed_modulo_int_def signed_divide_int_def
      minus_mult_div_eq_mod [symmetric] algebra_simps)

lemma tryWeighted_nth:
  assumes "weightedBackends r \<noteq> []" and "unat (ro_rrCounter r) + 1 < 2 ^ 63"
  shows "tryWeightedRoundRobin r =
    (Some (fst (weightedBackends r ! ((unat (ro_rrCounter r) + 1) mod length (weightedBackends r)))),
     r\<lparr>ro_rrCounter := ro_rrCounter r + 1\<rparr>)"
    and "unat (ro_rrCounter r + 1) = unat (ro_rrCounter r) + 1"
proof -
  let ?c = "ro_rrCounter r" and ?n = "length (weightedBackends r)"
  show un: "unat (?c + 1) = unat ?c + 1"
    using assms(2) by (simp add: unat_word_ariths)
  have "unat (?c + 1) < 2 ^ 63" using assms(2) un by simp
  then have "int (unat (?c + 1)) < int (2 ^ 63)" by (simp only: of_nat_less_iff)
  then have lt: "uint (?c + 1) < 2 ^ 63" by simp
  have "sint (?c + 1) = uint (?c + 1)"
    unfolding sint_uint
  proof (rule signed_take_bit_int_eq_self)
    have "0 \<le> uint (?c + 1)" by (rule uint_ge_0)
    then show "- (2 ^ (LENGTH(64) - Suc 0)) \<le> uint (?c + 1)" by (rule order_trans [rotated]) simp
    show "uint (?c + 1) < 2 ^ (LENGTH(64) - Suc 0)" using lt by simp
  qed
  then have "sint (?c + 1) = int (unat (?c + 1))" by simp
  then have "sint (?c + 1) smod int ?n = int ((unat ?c + 1) mod ?n)"
    using un assms(1) by (simp add: smod_nonneg zmod_int)
  then show "tryWeightedRoundRobin r =
    (Some (fst (weightedBackends r ! ((unat ?c + 1) mod ?n))), r\<lparr>ro_rrCounter := ?c + 1\<rparr>)"
    using assms(1) pickWeighted_nth [OF weights_one, of "(unat ?c + 1) mod ?n" r]
    by (simp add: tryWeightedRoundRobin_def Let_def total_weight)
qed

lemma rr_run_map:
  assumes "weightedBackends r \<noteq> []" and "unat (ro_rrCounter r) + m < 2 ^ 63"
  shows "rr_run m r = map (\<lambda>k. Some (fst (weightedBackends r !
           ((unat (ro_rrCounter r) + 1 + k) mod length (weightedBackends r))))) [0..<m]"
  using assms
proof (induction m arbitrary: r)
  case 0
  then show ?case by simp
next
  case (Suc m)
  note st = tryWeighted_nth [OF Suc.prems(1)]
  let ?r = "r\<lparr>ro_rrCounter := ro_rrCounter r + 1\<rparr>"
  have "rr_run m ?r = map (\<lambda>k. Some (fst (weightedBackends r !
      ((unat (ro_rrCounter r) + 1 + Suc k) mod length (weightedBackends r))))) [0..<m]"
    using Suc.IH [of ?r] Suc.prems st(2) by simp
  moreover have "rr_run (Suc m) r =
      Some (fst (weightedBackends r ! ((unat (ro_rrCounter r) + 1) mod length (weightedBackends r)))) # rr_run m ?r"
    using st(1) Suc.prems by simp
  ultimately show ?case
    by (simp add: upt_conv_Cons map_Suc_upt [symmetric] del: upt_Suc)
qed

section \<open>Health over time\<close>

text \<open>The health record of one backend after a history of check results.\<close>

definition health_run :: "HealthCheckConfig \<Rightarrow> backendHealth \<Rightarrow> (go_error option \<times> time) list \<Rightarrow> backendHealth" where
  "health_run hc bh hist = foldl (\<lambda>b (err, now). recordCheck hc b err now) bh hist"

definition unhealthyAfter :: "HealthCheckConfig \<Rightarrow> nat" where
  "unhealthyAfter hc = (if hc_UnhealthyThreshold hc = 0 then 3 else nat (hc_UnhealthyThreshold hc))"

definition healthyAfter :: "HealthCheckConfig \<Rightarrow> nat" where
  "healthyAfter hc = (if hc_HealthyThreshold hc = 0 then 2 else nat (hc_HealthyThreshold hc))"

text \<open>\<open>has_streak p n xs\<close>: somewhere in \<open>xs\<close> there are \<open>n\<close> consecutive elements that satisfy \<open>p\<close>.\<close>

definition has_streak :: "('x \<Rightarrow> bool) \<Rightarrow> nat \<Rightarrow> 'x list \<Rightarrow> bool" where
  "has_streak p n xs \<longleftrightarrow> (\<exists>us vs ws. xs = us @ vs @ ws \<and> length vs = n \<and> (\<forall>v \<in> set vs. p v))"

definition trailing :: "('x \<Rightarrow> bool) \<Rightarrow> 'x list \<Rightarrow> nat" where
  "trailing p xs = length (takeWhile p (rev xs))"

lemma trailing_snoc: "trailing p (xs @ [x]) = (if p x then Suc (trailing p xs) else 0)"
  by (simp add: trailing_def)

lemma trailing_streak:
  "n \<le> trailing p xs \<longleftrightarrow> (\<exists>us vs. xs = us @ vs \<and> length vs = n \<and> (\<forall>v \<in> set vs. p v))"
proof
  assume n: "n \<le> trailing p xs"
  let ?vs = "rev (take n (rev xs))"
  have "xs = rev (drop n (rev xs)) @ ?vs" by (simp add: rev_drop rev_take)
  moreover have "length ?vs = n"
    using n le_trans [OF _ length_takeWhile_le, of n p "rev xs"] by (simp add: trailing_def)
  moreover have "\<forall>v \<in> set ?vs. p v"
  proof
    fix v assume "v \<in> set ?vs"
    moreover have "take n (rev xs) = take n (takeWhile p (rev xs))"
      using n by (metis takeWhile_eq_take trailing_def take_take min.absorb1)
    ultimately show "p v" by (metis in_set_takeD set_rev set_takeWhileD)
  qed
  ultimately show "\<exists>us vs. xs = us @ vs \<and> length vs = n \<and> (\<forall>v \<in> set vs. p v)" by blast
next
  assume "\<exists>us vs. xs = us @ vs \<and> length vs = n \<and> (\<forall>v \<in> set vs. p v)"
  then show "n \<le> trailing p xs"
    by (auto simp: trailing_def takeWhile_append)
qed

lemma has_streak_snoc:
  "has_streak p n (xs @ [x]) \<longleftrightarrow> has_streak p n xs \<or> n \<le> trailing p (xs @ [x])"
proof
  assume "has_streak p n (xs @ [x])"
  then obtain us vs ws where e: "xs @ [x] = us @ vs @ ws" "length vs = n" "\<forall>v \<in> set vs. p v"
    by (auto simp: has_streak_def)
  show "has_streak p n xs \<or> n \<le> trailing p (xs @ [x])"
  proof (cases ws rule: rev_cases)
    case Nil
    with e show ?thesis using trailing_streak [of n p "xs @ [x]"] by auto
  next
    case (snoc ws' w)
    with e have "xs = us @ vs @ ws'" by (metis append_assoc butlast_snoc)
    with e show ?thesis by (auto simp: has_streak_def)
  qed
next
  assume "has_streak p n xs \<or> n \<le> trailing p (xs @ [x])"
  then show "has_streak p n (xs @ [x])"
    using trailing_streak [of n p "xs @ [x]"] unfolding has_streak_def
    by (metis append_Nil2 append_assoc)
qed

lemma has_streak_Nil: "has_streak p n [] \<longleftrightarrow> n = 0"
  by (auto simp: has_streak_def)

lemma trailing_append_stop: "trailing p xs = 0 \<Longrightarrow> trailing p (xs @ ys) = trailing p ys"
  by (auto simp: trailing_def takeWhile_append takeWhile_eq_all_conv [THEN iffD2])

text \<open>
  The declarative reading of the thresholds: a backend is out of service when at some
  point \<open>u\<close> checks in a row had failed and since then no \<open>h\<close> checks in a row succeeded.
\<close>

definition out_of_service :: "nat \<Rightarrow> nat \<Rightarrow> bool list \<Rightarrow> bool" where
  "out_of_service u h oks \<longleftrightarrow>
     (\<exists>xs ys. oks = xs @ ys \<and> u \<le> trailing Not xs \<and> \<not> has_streak (\<lambda>b. b) h ys)"

lemma out_of_service_snoc:
  assumes "0 < u" and "0 < h"
  shows "out_of_service u h (oks @ [ok]) \<longleftrightarrow>
         (if ok then out_of_service u h oks \<and> trailing (\<lambda>b. b) (oks @ [ok]) < h
          else out_of_service u h oks \<or> u \<le> trailing Not (oks @ [ok]))"
proof -
  have split: "out_of_service u h (oks @ [ok]) \<longleftrightarrow>
      u \<le> trailing Not (oks @ [ok]) \<or>
      (\<exists>xs ys. oks = xs @ ys \<and> u \<le> trailing Not xs \<and> \<not> has_streak (\<lambda>b. b) h (ys @ [ok]))"
    (is "_ \<longleftrightarrow> ?now \<or> ?before")
  proof
    assume "out_of_service u h (oks @ [ok])"
    then obtain xs ys where e: "oks @ [ok] = xs @ ys" "u \<le> trailing Not xs" "\<not> has_streak (\<lambda>b. b) h ys"
      by (auto simp: out_of_service_def)
    then show "?now \<or> ?before" by (cases ys rule: rev_cases) auto
  next
    assume "?now \<or> ?before"
    then show "out_of_service u h (oks @ [ok])"
    proof
      assume ?now
      then show ?thesis using assms(2) unfolding out_of_service_def
        by (intro exI [of _ "oks @ [ok]"] exI [of _ "[]"]) (simp add: has_streak_Nil)
    next
      assume ?before
      then show ?thesis unfolding out_of_service_def by (metis append_assoc)
    qed
  qed
  have stop: "trailing (\<lambda>b. b) (xs @ ys @ [True]) = trailing (\<lambda>b. b) (ys @ [True])" if "u \<le> trailing Not xs" for xs ys
  proof (rule trailing_append_stop)
    show "trailing (\<lambda>b. b) xs = 0"
      using that assms(1) by (cases xs rule: rev_cases) (auto simp: trailing_def split: if_splits)
  qed
  show ?thesis
  proof (cases ok)
    case True
    then have "\<not> u \<le> trailing Not (oks @ [ok])" using assms(1) by (simp add: trailing_snoc)
    moreover have each: "(oks = xs @ ys \<and> u \<le> trailing Not xs \<and> \<not> has_streak (\<lambda>b. b) h (ys @ [ok])) \<longleftrightarrow>
        (oks = xs @ ys \<and> u \<le> trailing Not xs \<and> \<not> has_streak (\<lambda>b. b) h ys) \<and>
        trailing (\<lambda>b. b) (oks @ [ok]) < h" for xs ys
      using stop True by (auto simp: has_streak_snoc not_le)
    moreover have "?before \<longleftrightarrow> out_of_service u h oks \<and> trailing (\<lambda>b. b) (oks @ [ok]) < h"
      unfolding out_of_service_def each by blast
    ultimately show ?thesis using split True by simp
  next
    case False
    then have "has_streak (\<lambda>b. b) h (ys @ [ok]) \<longleftrightarrow> has_streak (\<lambda>b. b) h ys" for ys
      using assms(2) by (simp add: has_streak_snoc trailing_snoc)
    with split False show ?thesis by (auto simp: out_of_service_def)
  qed
qed

definition newHealth :: backendHealth where
  "newHealth = \<lparr>bh_healthy = True, bh_consecutiveFails = 0, bh_consecutiveOK = 0, bh_lastCheck = 0\<rparr>"

definition check_ok :: "go_error option \<times> time \<Rightarrow> bool" where
  "check_ok c = (fst c = None)"

lemma health_run_snoc:
  "health_run hc bh (hist @ [c]) = recordCheck hc (health_run hc bh hist) (fst c) (snd c)"
  by (simp add: health_run_def split_beta)

lemma health_run_spec:
  assumes "0 \<le> hc_UnhealthyThreshold hc" and "0 \<le> hc_HealthyThreshold hc"
  shows "bh_consecutiveFails (health_run hc newHealth hist) = int (trailing Not (map check_ok hist)) \<and>
         bh_consecutiveOK (health_run hc newHealth hist) = int (trailing (\<lambda>b. b) (map check_ok hist)) \<and>
         bh_healthy (health_run hc newHealth hist) =
           (\<not> out_of_service (unhealthyAfter hc) (healthyAfter hc) (map check_ok hist))"
proof (induction hist rule: rev_induct)
  case Nil
  have "0 < unhealthyAfter hc" using assms by (simp add: unhealthyAfter_def)
  then have "\<not> out_of_service (unhealthyAfter hc) (healthyAfter hc) []"
    by (auto simp: out_of_service_def trailing_def)
  then show ?case by (simp add: health_run_def newHealth_def trailing_def)
next
  case (snoc c hist)
  have pos: "0 < unhealthyAfter hc" "0 < healthyAfter hc"
    using assms by (auto simp: unhealthyAfter_def healthyAfter_def)
  have ut: "(if hc_UnhealthyThreshold hc = 0 then 3 else hc_UnhealthyThreshold hc) = int (unhealthyAfter hc)"
    and ht: "(if hc_HealthyThreshold hc = 0 then 2 else hc_HealthyThreshold hc) = int (healthyAfter hc)"
    using assms by (auto simp: unhealthyAfter_def healthyAfter_def)
  show ?case
  proof (cases "fst c")
    case None
    then have ok: "check_ok c" by (simp add: check_ok_def)
    with None snoc show ?thesis
      by (auto simp: health_run_snoc recordCheck_def Let_def ht out_of_service_snoc [OF pos] trailing_snoc)
  next
    case (Some e)
    then have ok: "\<not> check_ok c" by (simp add: check_ok_def)
    with Some snoc show ?thesis
      by (auto simp: health_run_snoc recordCheck_def Let_def ut out_of_service_snoc [OF pos] trailing_snoc)
  qed
qed

text \<open>A sweep writes exactly one new record for every registered backend.\<close>

lemma fold_check_get:
  assumes "distinct (map nameOf adapters)"
  shows "gm_get (ro_healthStatus (fold (\<lambda>a r'.
             let bh = gm_get_or freshHealth (ro_healthStatus r') (nameOf a)
             in r'\<lparr>ro_healthStatus := gm_set (ro_healthStatus r') (nameOf a)
                   (recordCheck (rc_HealthCheck (ro_cfg r')) bh (check a) (clock a))\<rparr>) adapters r)) n =
         (case find (\<lambda>a. nameOf a = n) adapters of
            None \<Rightarrow> gm_get (ro_healthStatus r) n
          | Some a \<Rightarrow> Some (recordCheck (rc_HealthCheck (ro_cfg r))
                        (gm_get_or freshHealth (ro_healthStatus r) n) (check a) (clock a)))"
  using assms
proof (induction adapters arbitrary: r)
  case Nil
  then show ?case by simp
next
  case (Cons a as)
  then have "nameOf a = n \<Longrightarrow> find (\<lambda>a. nameOf a = n) as = None"
    by (auto simp: find_None_iff image_iff)
  with Cons show ?case by (auto simp: Let_def split: option.splits)
qed

lemma fold_check_config:
  "ro_cfg (fold (\<lambda>a r'. r'\<lparr>ro_healthStatus := f a r'\<rparr>) adapters r) = ro_cfg r \<and>
   ro_registry (fold (\<lambda>a r'. r'\<lparr>ro_healthStatus := f a r'\<rparr>) adapters r) = ro_registry r"
  by (induction adapters arbitrary: r) auto

lemma checkAllBackends_config [simp]:
  "ro_cfg (checkAllBackends nameOf check clock ord r) = ro_cfg r"
  "ro_registry (checkAllBackends nameOf check clock ord r) = ro_registry r"
  unfolding checkAllBackends_def Let_def
  by (rule fold_check_config [THEN conjunct1], rule fold_check_config [THEN conjunct2])

lemma find_by_name:
  assumes "distinct (map nameOf xs)" and "a \<in> set xs"
  shows "find (\<lambda>x. nameOf x = nameOf a) xs = Some a"
  using assms by (induction xs) (auto simp: image_iff)

lemma checkAllBackends_get:
  assumes "registry_wf nameOf (ro_registry r)" and "gm_order (r_adapters (ro_registry r)) ord"
    and "Registry_Get (ro_registry r) n = Some a"
  shows "gm_get (ro_healthStatus (checkAllBackends nameOf check clock ord r)) n =
         Some (recordCheck (rc_HealthCheck (ro_cfg r))
           (gm_get_or freshHealth (ro_healthStatus r) n) (check a) (clock a))"
proof -
  have d: "distinct (map nameOf (Registry_List (ro_registry r) ord))"
    using Registry_List_names [OF assms(1,2)] assms(2) by (simp add: gm_order_def)
  have n: "nameOf a = n" using assms(1,3) by (simp add: registry_wf_def Registry_Get_def)
  have "a \<in> set (Registry_List (ro_registry r) ord)"
    using Registry_List_mem [OF assms(2)] assms(3) by blast
  from find_by_name [OF d this] n have
    "find (\<lambda>x. nameOf x = n) (Registry_List (ro_registry r) ord) = Some a" by simp
  with fold_check_get [OF d, of check clock r n] show ?thesis
    by (simp add: checkAllBackends_def)
qed

lemma NewRouter_health:
  assumes "registry_wf nameOf reg" and "gm_order (r_adapters reg) ord"
    and "Registry_Get reg n = Some a"
  shows "gm_get (ro_healthStatus (NewRouter nameOf cfg reg ord)) n = Some newHealth"
proof -
  have "n \<in> set (map nameOf (Registry_List reg ord))"
    using Registry_List_names [OF assms(1,2)] gm_order_get [OF assms(2), of n] assms(3)
    by (simp add: Registry_Get_def)
  moreover have "gm_get (fold (\<lambda>a h. gm_set h (nameOf a) newHealth) as h) n =
      (if n \<in> set (map nameOf as) then Some newHealth else gm_get h n)" for as h
    by (induction as arbitrary: h) auto
  ultimately show ?thesis by (simp add: NewRouter_def newHealth_def)
qed

type_synonym 'a sweep = "('a \<Rightarrow> go_error option) \<times> ('a \<Rightarrow> time) \<times> string list"

definition router_sweeps :: "('a \<Rightarrow> string) \<Rightarrow> 'a router \<Rightarrow> 'a sweep list \<Rightarrow> 'a router" where
  "router_sweeps nameOf r sweeps =
     foldl (\<lambda>r' (check, clock, ord). checkAllBackends nameOf check clock ord r') r sweeps"

lemma router_sweeps_get:
  assumes "registry_wf nameOf reg" and "gm_order (r_adapters reg) ord" and "Registry_Get reg n = Some a"
    and "\<forall>s \<in> set sweeps. gm_order (r_adapters reg) (snd (snd s))"
  shows "ro_registry (router_sweeps nameOf (NewRouter nameOf cfg reg ord) sweeps) = reg \<and>
         ro_cfg (router_sweeps nameOf (NewRouter nameOf cfg reg ord) sweeps) = cfg \<and>
         gm_get (ro_healthStatus (router_sweeps nameOf (NewRouter nameOf cfg reg ord) sweeps)) n =
           Some (health_run (rc_HealthCheck cfg) newHealth
                   (map (\<lambda>(check, clock, _). (check a, clock a)) sweeps))"
  using assms(4)
proof (induction sweeps rule: rev_induct)
  case Nil
  then show ?case
    using NewRouter_health [OF assms(1-3)]
    by (simp add: router_sweeps_def health_run_def NewRouter_def)
next
  case (snoc s sweeps)
  obtain check clock o' where s: "s = (check, clock, o')" by (cases s)
  let ?r = "router_sweeps nameOf (NewRouter nameOf cfg reg ord) sweeps"
  have IH: "ro_registry ?r = reg" "ro_cfg ?r = cfg"
    "gm_get (ro_healthStatus ?r) n = Some (health_run (rc_HealthCheck cfg) newHealth
       (map (\<lambda>(check, clock, _). (check a, clock a)) sweeps))"
    using snoc by auto
  have "router_sweeps nameOf (NewRouter nameOf cfg reg ord) (sweeps @ [s]) =
      checkAllBackends nameOf check clock o' ?r"
    by (simp add: router_sweeps_def s)
  with checkAllBackends_get [of nameOf ?r o' n a check clock] IH assms(1,3) snoc.prems s show ?case
    by (simp add: health_run_snoc gm_get_or_def)
qed

section \<open>Properties of health tracking and round robin\<close>

text \<open>after any number of sweeps of health checks, a registered backend is unhealthy
  exactly when at some point as many checks in a row failed as the unhealthy threshold
  says (3 when unset) and since then no run of successes as long as the healthy
  threshold (2 when unset) occurred.\<close>

lemma router_health_hysteresis:
  assumes "registry_wf nameOf reg" and "gm_order (r_adapters reg) ord" and "Registry_Get reg n = Some a"
    and "\<forall>s \<in> set sweeps. gm_order (r_adapters reg) (snd (snd s))"
    and "0 \<le> hc_UnhealthyThreshold (rc_HealthCheck cfg)" and "0 \<le> hc_HealthyThreshold (rc_HealthCheck cfg)"
  shows "isHealthy (router_sweeps nameOf (NewRouter nameOf cfg reg ord) sweeps) n \<longleftrightarrow>
         \<not> out_of_service (unhealthyAfter (rc_HealthCheck cfg)) (healthyAfter (rc_HealthCheck cfg))
             (map (\<lambda>(check, _). check a = None) sweeps)"
proof -
  have "map check_ok (map (\<lambda>(check, clock, _). (check a, clock a)) sweeps) =
        map (\<lambda>(check, _). check a = None) sweeps"
    by (simp add: check_ok_def split_beta)
  with router_sweeps_get [OF assms(1-4), of cfg] health_run_spec [OF assms(5,6)] show ?thesis
    by (simp add: isHealthy_def del: map_map)
qed

lemma router_health_hysteresis_witness:
  "\<not> isHealthy (router_sweeps id (NewRouter id demo_cfg (ro_registry demo_router) [''b'', ''a''])
       [(\<lambda>_. Some (Errorf ''down'' []), \<lambda>_. 1, [''b'', ''a'']), (\<lambda>_. Some (Errorf ''down'' []), \<lambda>_. 2, [''a'', ''b'']),
        (\<lambda>_. Some (Errorf ''down'' []), \<lambda>_. 3, [''b'', ''a''])]) ''b''"
proof -
  let ?fail = "\<lambda>_ :: string. Some (Errorf ''down'' [])"
  have ord: "gm_order (r_adapters (ro_registry demo_router)) [''a'', ''b'']"
    by (auto simp: demo_router_def gomap_eval)
  have b: "Registry_Get (ro_registry demo_router) ''b'' = Some ''b''"
    by (simp add: demo_router_def Registry_Get_def gomap_eval)
  have th: "unhealthyAfter (rc_HealthCheck demo_cfg) = 3" "healthyAfter (rc_HealthCheck demo_cfg) = 2"
    "0 \<le> hc_UnhealthyThreshold (rc_HealthCheck demo_cfg)" "0 \<le> hc_HealthyThreshold (rc_HealthCheck demo_cfg)"
    by (simp_all add: demo_cfg_def unhealthyAfter_def healthyAfter_def)
  have "out_of_service 3 2 [False, False, False]"
    unfolding out_of_service_def
    by (intro exI [of _ "[False, False, False]"] exI [of _ "[]"]) (simp add: trailing_def has_streak_Nil)
  with router_health_hysteresis [OF demo_router_wf b, of "[(?fail, \<lambda>_. 1, [''b'', ''a'']),
      (?fail, \<lambda>_. 2, [''a'', ''b'']), (?fail, \<lambda>_. 3, [''b'', ''a''])]" demo_cfg] ord demo_router_wf(2) th
  show ?thesis by simp
qed

text \<open>a full cycle of weighted selections (as many calls as there are healthy,
  registered rules) picks every rule's backend exactly once, in rotation order; the
  counter must be below 2 to the 63, where the conversion to a signed int is exact.\<close>

lemma weighted_round_robin_fair:
  assumes "weightedBackends r \<noteq> []"
    and "unat (ro_rrCounter r) + length (weightedBackends r) < 2 ^ 63"
  shows "rr_run (length (weightedBackends r)) r =
           map Some (rotate (unat (ro_rrCounter r) + 1) (map fst (weightedBackends r))) \<and>
         mset (rr_run (length (weightedBackends r)) r) = mset (map (Some \<circ> fst) (weightedBackends r))"
proof -
  let ?bs = "weightedBackends r"
  have rot: "rr_run (length ?bs) r = map Some (rotate (unat (ro_rrCounter r) + 1) (map fst ?bs))"
    unfolding rr_run_map [OF assms]
    by (rule nth_equalityI) (use assms(1) in \<open>simp_all add: nth_rotate del: rotate_Suc\<close>)
  have "mset (rotate k xs) = mset xs" for k and xs :: "string list"
    by (metis mset_append rotate_drop_take append_take_drop_id union_commute)
  with rot show ?thesis by (simp del: rotate_Suc add: multiset.map_comp)
qed

lemma weighted_round_robin_fair_witness:
  "rr_run 2 (demo_router\<lparr>ro_healthStatus := []\<rparr>) = [Some ''b'', Some ''a'']"
proof -
  let ?r = "demo_router\<lparr>ro_healthStatus := []\<rparr>"
  have w: "weightedBackends ?r = [(''a'', 1), (''b'', 1)]"
    by (simp add: weightedBackends_def demo_router_def demo_cfg_def List.map_filter_simps
        isHealthy_def Registry_Get_def gomap_eval)
  have c: "ro_rrCounter ?r = 0" by (simp add: demo_router_def)
  have l: "length (weightedBackends ?r) = 2" by (simp add: w)
  from weighted_round_robin_fair [of ?r, unfolded l] w c show ?thesis by simp
qed

end
