(* ===== verification/Float64.thy ===== *)
theory Float64
  imports Go_Prelude "HOL-Library.Log_Nat"
begin

text \<open>
  Go's \<open>float64\<close> arithmetic: every operation is the exact result rounded to the nearest
  binary floating-point number with 53 significant bits, ties to even.  Values are
  rationals; the exponent is unbounded, so overflow, subnormal numbers, infinities
  and NaN are not modelled (no quantity of the rate limiters comes near them).
\<close>

section \<open>Rounding to an integer, ties to even\<close>

definition rne :: "rat \<Rightarrow> int" where
  "rne y =
     (let f = \<lfloor>y\<rfloor>; d = y - of_int f
      in if d < 1 / 2 then f
         else if 1 / 2 < d then f + 1
         else if even f then f else f + 1)"

lemma rne_floor: "\<lfloor>y\<rfloor> \<le> rne y" "rne y \<le> \<lfloor>y\<rfloor> + 1"
  by (simp_all add: rne_def Let_def)

lemma rne_of_int [simp]: "rne (of_int i) = i"
  by (simp add: rne_def Let_def)

lemma rne_mono:
  assumes "x \<le> y"
  shows "rne x \<le> rne y"
proof (cases "\<lfloor>x\<rfloor> = \<lfloor>y\<rfloor>")
  case True
  with assms show ?thesis by (auto simp: rne_def Let_def)
next
  case False
  then have "\<lfloor>x\<rfloor> + 1 \<le> \<lfloor>y\<rfloor>" using floor_mono [OF assms] by simp
  then show ?thesis using rne_floor(2) [of x] rne_floor(1) [of y] by linarith
qed

lemma rne_ge: "of_int m \<le> y \<Longrightarrow> m \<le> rne y"
  using rne_mono [of "of_int m" y] by simp

lemma rne_le: "y \<le> of_int m \<Longrightarrow> rne y \<le> m"
  using rne_mono [of y "of_int m"] by simp

section \<open>The binary exponent of a positive rational\<close>

definition bin_exp :: "rat \<Rightarrow> int" where
  "bin_exp x =
     (case quotient_of x of (n, d) \<Rightarrow>
        let k = int (floorlog 2 (nat n)) - int (floorlog 2 (nat d))
        in if 2 powi k \<le> x then k else k - 1)"

lemma floorlog2_bounds:
  assumes "0 < n"
  shows "(2 :: rat) powi (int (floorlog 2 n) - 1) \<le> of_nat n" and "of_nat n < (2 :: rat) powi int (floorlog 2 n)"
proof -
  have fl: "0 < floorlog 2 n" using assms by (simp add: floorlog_def)
  have "2 ^ (floorlog 2 n - 1) \<le> n \<and> n < 2 ^ floorlog 2 n"
    using floorlog_bounds [of n 2] assms by simp
  then have "(of_nat (2 ^ (floorlog 2 n - 1)) :: rat) \<le> of_nat n"
    and "(of_nat n :: rat) < of_nat (2 ^ floorlog 2 n)"
    by (simp_all only: of_nat_le_iff of_nat_less_iff)
  then show "(2 :: rat) powi (int (floorlog 2 n) - 1) \<le> of_nat n"
    and "of_nat n < (2 :: rat) powi int (floorlog 2 n)"
    using fl by (simp_all add: power_int_def nat_diff_distrib)
qed

lemma bin_exp_bounds:
  assumes "0 < x"
  shows "2 powi bin_exp x \<le> x" and "x < 2 powi (bin_exp x + 1)"
proof -
  obtain n d where q: "quotient_of x = (n, d)" by (cases "quotient_of x")
  then have d: "0 < d" and x: "x = of_int n / of_int d"
    using quotient_of_denom_pos quotient_of_div by blast+
  then have n: "0 < n" using assms by (simp add: zero_less_divide_iff)
  let ?a = "int (floorlog 2 (nat n))" and ?b = "int (floorlog 2 (nat d))"
  have nb: "(2 :: rat) powi (?a - 1) \<le> of_int n" "of_int n < (2 :: rat) powi ?a"
    using floorlog2_bounds [of "nat n"] n by simp_all
  have db: "(2 :: rat) powi (?b - 1) \<le> of_int d" "of_int d < (2 :: rat) powi ?b"
    using floorlog2_bounds [of "nat d"] d by simp_all
  have "x < 2 powi ?a / 2 powi (?b - 1)"
    unfolding x using nb db n d by (intro frac_less) auto
  also have "\<dots> = 2 powi (?a - (?b - 1))"
    by (rule power_int_diff [symmetric]) simp
  finally have up: "x < 2 powi (?a - ?b + 1)"
    by (simp only: diff_diff_eq2 diff_add_eq)
  have "(2 :: rat) powi (?a - 1) / 2 powi ?b \<le> x"
    unfolding x using nb db n d by (intro frac_le) auto
  moreover have "(2 :: rat) powi (?a - 1) / 2 powi ?b = 2 powi (?a - 1 - ?b)"
    by (rule power_int_diff [symmetric]) simp
  moreover have "?a - 1 - ?b = ?a - ?b - 1" by simp
  ultimately have low: "2 powi (?a - ?b - 1) \<le> x" by simp
  show "2 powi bin_exp x \<le> x" and "x < 2 powi (bin_exp x + 1)"
    using up low by (auto simp: bin_exp_def q Let_def not_le)
qed

lemma powi_less_iff: "(2 :: rat) powi a < 2 powi b \<longleftrightarrow> a < b"
proof
  assume "(2 :: rat) powi a < 2 powi b"
  then show "a < b" using power_int_increasing [of b a "2 :: rat"] by force
next
  assume "a < b"
  then show "(2 :: rat) powi a < 2 powi b" by (intro power_int_strict_increasing) simp_all
qed

lemma bin_exp_unique:
  assumes "2 powi e \<le> x" and "x < 2 powi (e + 1)" and "0 < x"
  shows "bin_exp x = e"
proof -
  have "(2 :: rat) powi e < 2 powi (bin_exp x + 1)"
    using assms(1) bin_exp_bounds(2) [OF assms(3)] by linarith
  moreover have "(2 :: rat) powi bin_exp x < 2 powi (e + 1)"
    using assms(2) bin_exp_bounds(1) [OF assms(3)] by linarith
  ultimately show ?thesis by (simp add: powi_less_iff)
qed

lemma bin_exp_mono:
  assumes "0 < x" and "x \<le> y"
  shows "bin_exp x \<le> bin_exp y"
proof -
  have "2 powi bin_exp x < (2 :: rat) powi (bin_exp y + 1)"
    using bin_exp_bounds(1) [OF assms(1)] bin_exp_bounds(2) [of y] assms by linarith
  then show ?thesis by (simp add: powi_less_iff)
qed

section \<open>Rounding to 53 significant bits\<close>

definition ulp :: "rat \<Rightarrow> rat" where
  "ulp x = 2 powi (bin_exp x - 52)"

definition fl_pos :: "rat \<Rightarrow> rat" where
  "fl_pos x = of_int (rne (x / ulp x)) * ulp x"

definition fl64 :: "rat \<Rightarrow> rat" where
  "fl64 x = (if x = 0 then 0 else if 0 < x then fl_pos x else - fl_pos (- x))"

lemma ulp_pos [simp]: "0 < ulp x"
  by (simp add: ulp_def)

lemma ulp_nonneg [simp]: "0 \<le> ulp x"
  by (simp add: less_imp_le)

lemma fl64_0 [simp]: "fl64 0 = 0"
  by (simp add: fl64_def)

lemma fl64_minus: "fl64 (- x) = - fl64 x"
  by (simp add: fl64_def)

lemma ulp_power: "ulp x * 2 ^ 52 = 2 powi bin_exp x" "ulp x * 2 ^ 53 = 2 powi (bin_exp x + 1)"
proof -
  show "ulp x * 2 ^ 52 = 2 powi bin_exp x"
    using power_int_add [of "2 :: rat" "bin_exp x - 52" 52] by (simp add: ulp_def)
  show "ulp x * 2 ^ 53 = 2 powi (bin_exp x + 1)"
    using power_int_add [of "2 :: rat" "bin_exp x - 52" 53] by (simp add: ulp_def add.commute)
qed

lemma fl_pos_bounds:
  assumes "0 < x"
  shows "2 powi bin_exp x \<le> fl_pos x" and "fl_pos x \<le> 2 powi (bin_exp x + 1)"
proof -
  have "of_int (2 ^ 52) \<le> x / ulp x"
    using bin_exp_bounds(1) [OF assms] by (simp add: pos_le_divide_eq ulp_power [symmetric] mult.commute)
  then have "2 ^ 52 \<le> rne (x / ulp x)" by (rule rne_ge)
  then have "(of_int (2 ^ 52) :: rat) \<le> of_int (rne (x / ulp x))" by (simp only: of_int_le_iff)
  then have "2 ^ 52 * ulp x \<le> fl_pos x" unfolding fl_pos_def by (intro mult_right_mono) simp_all
  then show "2 powi bin_exp x \<le> fl_pos x" by (simp add: ulp_power [symmetric] mult.commute)
  have "x / ulp x \<le> of_int (2 ^ 53)"
    using bin_exp_bounds(2) [OF assms] by (simp add: pos_divide_le_eq ulp_power [symmetric] mult.commute)
  then have "rne (x / ulp x) \<le> 2 ^ 53" by (rule rne_le)
  then have "of_int (rne (x / ulp x)) \<le> (of_int (2 ^ 53) :: rat)" by (simp only: of_int_le_iff)
  then have "fl_pos x \<le> 2 ^ 53 * ulp x" unfolding fl_pos_def by (intro mult_right_mono) simp_all
  then show "fl_pos x \<le> 2 powi (bin_exp x + 1)" by (simp add: ulp_power [symmetric] mult.commute)
qed

lemma fl_pos_pos:
  assumes "0 < x"
  shows "0 < fl_pos x"
  using fl_pos_bounds(1) [OF assms] by (rule less_le_trans [rotated]) simp

lemma fl_pos_mono:
  assumes "0 < x" and "x \<le> y"
  shows "fl_pos x \<le> fl_pos y"
proof (cases "bin_exp x = bin_exp y")
  case True
  then have "rne (x / ulp x) \<le> rne (y / ulp y)"
    using assms by (intro rne_mono) (simp add: ulp_def divide_right_mono)
  then show ?thesis using True by (simp add: fl_pos_def ulp_def)
next
  case False
  then have "bin_exp x + 1 \<le> bin_exp y" using bin_exp_mono [OF assms] by simp
  then have "(2 :: rat) powi (bin_exp x + 1) \<le> 2 powi bin_exp y"
    by (intro power_int_increasing) simp_all
  then show ?thesis
    using fl_pos_bounds(2) [OF assms(1)] fl_pos_bounds(1) [of y] assms by linarith
qed

lemma fl64_mono:
  assumes "x \<le> y"
  shows "fl64 x \<le> fl64 y"
proof -
  consider "0 < x" | "y < 0" | "x \<le> 0" "0 \<le> y" using assms by linarith
  then show ?thesis
  proof cases
    case 1
    then show ?thesis using assms fl_pos_mono [of x y] by (simp add: fl64_def)
  next
    case 2
    then show ?thesis using assms fl_pos_mono [of "- y" "- x"] by (simp add: fl64_def)
  next
    case 3
    then show ?thesis using fl_pos_pos [of y] fl_pos_pos [of "- x"] by (auto simp: fl64_def)
  qed
qed

lemma fl64_nonneg: "0 \<le> x \<Longrightarrow> 0 \<le> fl64 x"
  using fl64_mono [of 0 x] by simp

lemma fl_pos_int:
  assumes "0 < i" and "i \<le> 2 ^ 53"
  shows "fl_pos (of_int i) = of_int i"
proof (cases "bin_exp (of_int i) \<le> 52")
  case True
  then obtain k where k: "52 - bin_exp (of_int i) = int k" by (metis diff_ge_0_iff_ge zero_le_imp_eq_int)
  then have "bin_exp (of_int i) - 52 = - int k" by simp
  then have u: "ulp (of_int i) = 1 / 2 ^ k"
    by (simp only: ulp_def power_int_minus) (simp add: divide_inverse)
  show ?thesis unfolding fl_pos_def u using rne_of_int [of "i * 2 ^ k"] by simp
next
  case False
  then have "(2 :: rat) powi 53 \<le> 2 powi bin_exp (of_int i)" by (intro power_int_increasing) simp_all
  also have "\<dots> \<le> of_int i" using assms by (intro bin_exp_bounds) simp
  finally have "of_int (2 ^ 53) \<le> (of_int i :: rat)" by simp
  then have i: "i = 2 ^ 53" using assms(2) by (metis antisym of_int_le_iff)
  have "bin_exp (2 ^ 53) = 53" by (rule bin_exp_unique) simp_all
  then have u: "ulp (of_int i) = 2" by (simp add: i ulp_def)
  have "of_int i / (2 :: rat) = of_int (2 ^ 52)" by (simp add: i)
  then show ?thesis unfolding fl_pos_def u by (simp only: rne_of_int)
qed

lemma fl64_of_int:
  assumes "\<bar>i\<bar> \<le> 2 ^ 53"
  shows "fl64 (of_int i) = of_int i"
  using assms fl_pos_int [of i] fl_pos_int [of "- i"] by (cases "i = 0") (auto simp: fl64_def)

lemma fl64_le_int: "x \<le> of_int i \<Longrightarrow> \<bar>i\<bar> \<le> 2 ^ 53 \<Longrightarrow> fl64 x \<le> of_int i"
  using fl64_mono [of x "of_int i"] fl64_of_int [of i] by simp

section \<open>Idempotence and the rounding error\<close>

lemma fl_pos_idem:
  assumes "0 < x"
  shows "fl_pos (fl_pos x) = fl_pos x"
proof (cases "fl_pos x = 2 powi (bin_exp x + 1)")
  case True
  have "bin_exp (fl_pos x) = bin_exp x + 1"
    by (rule bin_exp_unique) (simp_all add: True power_int_add)
  then have u: "ulp (fl_pos x) = 2 * ulp x"
    using power_int_add [of "2 :: rat" "bin_exp x - 52" 1] by (simp add: ulp_def add.commute diff_add_eq)
  have "fl_pos x = of_int (2 ^ 52) * (2 * ulp x)"
    by (simp only: True ulp_power(2) [symmetric]) simp
  then have "fl_pos x / (2 * ulp x) = of_int (2 ^ 52)" by (simp add: order_less_imp_not_eq2)
  then show ?thesis
    unfolding fl_pos_def [of "fl_pos x"] u using \<open>fl_pos x = of_int (2 ^ 52) * (2 * ulp x)\<close>
    by (simp only: rne_of_int)
next
  case False
  have "bin_exp (fl_pos x) = bin_exp x"
    using fl_pos_bounds [OF assms] False fl_pos_pos [OF assms] by (intro bin_exp_unique) simp_all
  then have "ulp (fl_pos x) = ulp x" by (simp add: ulp_def)
  then show ?thesis by (simp add: fl_pos_def order_less_imp_not_eq2)
qed

lemma fl64_idem [simp]: "fl64 (fl64 x) = fl64 x"
  using fl_pos_pos [of x] fl_pos_pos [of "- x"] by (auto simp: fl64_def fl_pos_idem)

definition eps64 :: rat where
  "eps64 = 1 / 2 ^ 53"

lemma eps64_bounds [simp]: "0 < eps64" "0 \<le> eps64" "eps64 < 1" "eps64 \<le> 1"
  by (simp_all add: eps64_def)

lemma rne_error: "\<bar>of_int (rne y) - y\<bar> \<le> 1 / 2"
proof -
  have "0 \<le> y - of_int \<lfloor>y\<rfloor>" "y - of_int \<lfloor>y\<rfloor> < 1" by linarith+
  then show ?thesis by (auto simp: rne_def Let_def)
qed

lemma fl_pos_error:
  assumes "0 < x"
  shows "\<bar>fl_pos x - x\<bar> \<le> x * eps64"
proof -
  have "fl_pos x - x = (of_int (rne (x / ulp x)) - x / ulp x) * ulp x"
    by (simp add: fl_pos_def left_diff_distrib order_less_imp_not_eq2)
  then have "\<bar>fl_pos x - x\<bar> = \<bar>of_int (rne (x / ulp x)) - x / ulp x\<bar> * ulp x"
    by (simp add: abs_mult)
  also have "\<dots> \<le> 1 / 2 * ulp x" using rne_error by (intro mult_right_mono) simp_all
  also have "\<dots> \<le> x * eps64"
    using bin_exp_bounds(1) [OF assms] ulp_power(1) [of x] by (simp add: eps64_def)
  finally show ?thesis .
qed

lemma fl64_error:
  assumes "0 \<le> x"
  shows "fl64 x \<le> x * (1 + eps64)" and "x * (1 - eps64) \<le> fl64 x"
  using fl_pos_error [of x] assms by (auto simp: fl64_def algebra_simps abs_le_iff)

end
