(* ===== verification/Keyed_Limiter.thy ===== *)
theory Keyed_Limiter
  imports Go_Prelude
begin

text \<open>
  The contract the per-key rate limiters share (\<open>ratelimit.RateLimiter\<close>,
  \<open>ratelimit.SlidingWindowRateLimiter\<close> and \<open>auth.RateLimiter\<close>): a call for one key
  depends on that key's part of the state only and leaves the parts of all other
  keys alone.  The locale derives isolation from the contract once; each limiter is
  an interpretation.
\<close>

fun run_keyed :: "('s \<Rightarrow> 'k \<Rightarrow> 'e \<Rightarrow> bool \<times> 's) \<Rightarrow> 's \<Rightarrow> ('k \<times> 'e) list \<Rightarrow> ('k \<times> bool) list" where
  "run_keyed allow s [] = []"
| "run_keyed allow s ((k, e) # cs) =
     (case allow s k e of (b, s') \<Rightarrow> (k, b) # run_keyed allow s' cs)"

fun run_single :: "('e \<Rightarrow> 'v \<Rightarrow> bool \<times> 'v) \<Rightarrow> 'v \<Rightarrow> 'e list \<Rightarrow> bool list" where
  "run_single step v [] = []"
| "run_single step v (e # es) = (case step e v of (b, v') \<Rightarrow> b # run_single step v' es)"

definition for_key :: "'k \<Rightarrow> ('k \<times> 'a) list \<Rightarrow> 'a list" where
  "for_key k xs = map snd (filter (\<lambda>x. fst x = k) xs)"

lemma for_key_simps [simp]:
  "for_key k [] = []"
  "for_key k ((k', x) # xs) = (if k' = k then x # for_key k xs else for_key k xs)"
  by (simp_all add: for_key_def)

locale keyed_limiter =
  fixes allow :: "'s \<Rightarrow> 'k \<Rightarrow> 'e \<Rightarrow> bool \<times> 's"
    and view :: "'s \<Rightarrow> 'k \<Rightarrow> 'v"
    and step :: "'e \<Rightarrow> 'v \<Rightarrow> bool \<times> 'v"
  assumes allow_own: "step e (view s k) = (fst (allow s k e), view (snd (allow s k e)) k)"
    and allow_other: "k' \<noteq> k \<Longrightarrow> view (snd (allow s k e)) k' = view s k'"
begin

lemma isolation: "for_key k (run_keyed allow s cs) = run_single step (view s k) (for_key k cs)"
proof (induction cs arbitrary: s)
  case (Cons c cs)
  obtain k' e where c: "c = (k', e)" by (cases c)
  obtain b s' where a: "allow s k' e = (b, s')" by (cases "allow s k' e")
  show ?case
  proof (cases "k' = k")
    case True
    then show ?thesis using Cons.IH [of s'] allow_own [of e s k] a by (simp add: c)
  next
    case False
    then show ?thesis using Cons.IH [of s'] allow_other [of k k' s e] a by (simp add: c)
  qed
qed simp

end

end
