(* ===== verification/Token_Bucket.thy ===== *)
theory Token_Bucket
  imports Float64 Keyed_Limiter Gateway_Config "HOL-Library.Signed_Division"
begin

text \<open>
  The token buckets of the gateway: \<open>ratelimit.Limiter\<close> and the per-key
  \<open>ratelimit.RateLimiter\<close> (\<open>internal/ratelimit/limiter.go\<close>), the limiter the HTTP
  middleware uses, \<open>auth.RateLimiter\<close> (\<open>internal/auth/auth.go\<close>), and the Redis-backed
  limiter with its Lua script (\<open>internal/ratelimit/redis.go\<close>).

  Token counts are \<open>float64\<close> values and every operation rounds (\<open>fl64\<close>); the product
  and the sum of a refill are rounded separately, as on amd64.  A
  method runs under its mutex, so each is one state transition; \<open>time.Now()\<close> is an
  argument.  The common contract of the buckets is the locale \<open>token_bucket\<close>.
\<close>

section \<open>Durations\<close>

text \<open>\<open>Duration.Seconds\<close>: whole seconds plus the rest, with Go's truncating division.\<close>

definition Duration_Seconds :: "duration \<Rightarrow> rat" where
  "Duration_Seconds d =
     fl64 (fl64 (of_int (d sdiv 1000000000)) + fl64 (fl64 (of_int (d smod 1000000000)) / 1000000000))"

section \<open>The limiter of one key\<close>

record limiter =
  l_rate :: rat
  l_burst :: int
  l_tokens :: rat
  l_lastTime :: time

definition Limiter_New :: "rat \<Rightarrow> int \<Rightarrow> time \<Rightarrow> limiter" where
  "Limiter_New rate burst now =
     (let rate = if rate \<le> 0 then 1 else rate;
          burst = if burst \<le> 0 then 1 else burst
      in \<lparr>l_rate = rate, l_burst = burst, l_tokens = fl64 (of_int burst), l_lastTime = now\<rparr>)"

text \<open>The refill computation, the same in both limiters: add, then cap.\<close>

definition refillTokens :: "rat \<Rightarrow> rat \<Rightarrow> rat \<Rightarrow> duration \<Rightarrow> rat" where
  "refillTokens rate cap tokens d =
     (let tokens = fl64 (tokens + fl64 (Duration_Seconds d * rate))
      in if tokens > cap then cap else tokens)"

definition refill :: "limiter \<Rightarrow> time \<Rightarrow> limiter" where
  "refill l now =
     l\<lparr>l_tokens := refillTokens (l_rate l) (fl64 (of_int (l_burst l))) (l_tokens l) (now - l_lastTime l),
       l_lastTime := now\<rparr>"

definition Limiter_AllowN :: "limiter \<Rightarrow> int \<Rightarrow> time \<Rightarrow> bool \<times> limiter" where
  "Limiter_AllowN l n now =
     (let l = refill l now
      in if l_tokens l < fl64 (of_int n) then (False, l)
         else (True, l\<lparr>l_tokens := fl64 (l_tokens l - fl64 (of_int n))\<rparr>))"

definition Limiter_Allow :: "limiter \<Rightarrow> time \<Rightarrow> bool \<times> limiter" where
  "Limiter_Allow l now = Limiter_AllowN l 1 now"

definition Limiter_Tokens :: "limiter \<Rightarrow> time \<Rightarrow> rat \<times> limiter" where
  "Limiter_Tokens l now = (let l = refill l now in (l_tokens l, l))"

section \<open>One limiter per key\<close>

record rateLimiter =
  rl_limiters :: "(string, limiter) gomap"
  rl_rate :: rat
  rl_burst :: int

definition NewRateLimiter :: "rat \<Rightarrow> int \<Rightarrow> rateLimiter" where
  "NewRateLimiter rate burst = \<lparr>rl_limiters = [], rl_rate = rate, rl_burst = burst\<rparr>"

definition getLimiter :: "rateLimiter \<Rightarrow> string \<Rightarrow> time \<Rightarrow> limiter \<times> rateLimiter" where
  "getLimiter rl key now =
     (case gm_get (rl_limiters rl) key of
        Some l \<Rightarrow> (l, rl)
      | None \<Rightarrow>
          let l = Limiter_New (rl_rate rl) (rl_burst rl) now
          in (l, rl\<lparr>rl_limiters := gm_set (rl_limiters rl) key l\<rparr>))"

text \<open>The map holds pointers: the limiter that \<open>Allow\<close> updates is the one in the map.  The
  two times are the \<open>time.Now()\<close> of \<open>New\<close> (read only for a new key) and of \<open>refill\<close>.\<close>

definition RateLimiter_Allow :: "rateLimiter \<Rightarrow> string \<Rightarrow> time \<times> time \<Rightarrow> bool \<times> rateLimiter" where
  "RateLimiter_Allow rl key ts =
     (case getLimiter rl key (fst ts) of (l, rl) \<Rightarrow>
      case Limiter_Allow l (snd ts) of (b, l) \<Rightarrow>
        (b, rl\<lparr>rl_limiters := gm_set (rl_limiters rl) key l\<rparr>))"

definition RateLimiter_Cleanup :: "rateLimiter \<Rightarrow> duration \<Rightarrow> time \<Rightarrow> string list \<Rightarrow> rateLimiter" where
  "RateLimiter_Cleanup rl maxAge now ord =
     (let cutoff = now - maxAge
      in rl\<lparr>rl_limiters :=
              fold (\<lambda>(key, l) m. if l_lastTime l < cutoff then gm_del m key else m)
                (gm_range (rl_limiters rl) ord) (rl_limiters rl)\<rparr>)"

section \<open>The limiter of the HTTP middleware\<close>

record bucket =
  b_tokens :: rat
  b_maxTokens :: rat
  b_refillRate :: rat
  b_lastRefill :: time

record authRateLimiter =
  arl_buckets :: "(string, bucket) gomap"
  arl_cfg :: RateLimitConfig

definition auth_NewRateLimiter :: "RateLimitConfig \<Rightarrow> authRateLimiter" where
  "auth_NewRateLimiter cfg = \<lparr>arl_buckets = [], arl_cfg = cfg\<rparr>"

definition newBucket :: "RateLimitConfig \<Rightarrow> time \<Rightarrow> bucket" where
  "newBucket cfg now =
     (let rpm = rl_RequestsPerMinute (rlc_DefaultLimit cfg);
          burst = rl_BurstSize (rlc_DefaultLimit cfg)
      in \<lparr>b_tokens = fl64 (of_int burst), b_maxTokens = fl64 (of_int burst),
          b_refillRate = fl64 (fl64 (of_int rpm) / 60), b_lastRefill = now\<rparr>)"

definition takeBucket :: "bucket \<Rightarrow> time \<Rightarrow> bool \<times> bucket" where
  "takeBucket b now =
     (let b = b\<lparr>b_tokens := refillTokens (b_refillRate b) (b_maxTokens b) (b_tokens b) (now - b_lastRefill b),
                b_lastRefill := now\<rparr>
      in if b_tokens b \<ge> 1 then (True, b\<lparr>b_tokens := fl64 (b_tokens b - 1)\<rparr>) else (False, b))"

definition auth_RateLimiter_Allow :: "authRateLimiter \<Rightarrow> string \<Rightarrow> time \<times> time \<Rightarrow> bool \<times> authRateLimiter" where
  "auth_RateLimiter_Allow rl key ts =
     (if \<not> rlc_Enabled (arl_cfg rl) then (True, rl)
      else
        let b = (case gm_get (arl_buckets rl) key of
                   Some b \<Rightarrow> b
                 | None \<Rightarrow> newBucket (arl_cfg rl) (fst ts))
        in case takeBucket b (snd ts) of (r, b) \<Rightarrow>
             (r, rl\<lparr>arl_buckets := gm_set (arl_buckets rl) key b\<rparr>))"

section \<open>The Redis-backed limiter\<close>

record redisLimiter =
  rdl_prefix :: string
  rdl_rate :: rat
  rdl_burst :: int

definition NewRedisLimiter :: "string \<Rightarrow> rat \<Rightarrow> int \<Rightarrow> redisLimiter" where
  "NewRedisLimiter pfx rate burst =
     \<lparr>rdl_prefix = pfx, rdl_rate = (if rate \<le> 0 then 1 else rate),
      rdl_burst = (if burst \<le> 0 then 1 else burst)\<rparr>"

text \<open>The Lua script, on the hash stored at the key (\<open>None\<close> when the key does not exist).  It
  returns the reply, the hash it stores and the time to live it sets, in seconds.  Lua
  numbers are \<open>float64\<close>; Redis prints them with 17 digits, which is exact.\<close>

definition tokenBucketScript ::
  "rat \<Rightarrow> rat \<Rightarrow> rat \<Rightarrow> rat \<Rightarrow> (rat \<times> rat) option \<Rightarrow> int \<times> (rat \<times> rat) \<times> int" where
  "tokenBucketScript rate burst requested now hash =
     (let (tokens, last_time) = (case hash of None \<Rightarrow> (burst, now) | Some h \<Rightarrow> h);
          elapsed = fl64 (now - last_time);
          elapsed = if elapsed < 0 then 0 else elapsed;
          tokens = fl64 (tokens + fl64 (elapsed * rate));
          tokens = if tokens > burst then burst else tokens;
          ttl = \<lceil>fl64 (burst / rate)\<rceil> + 1
      in if tokens \<ge> requested then (1, (fl64 (tokens - requested), now), ttl)
         else (0, (tokens, now), ttl))"

text \<open>\<open>result.(int64)\<close>: a reply is an \<open>int64\<close> or a value of another type.\<close>

datatype evalReply = Int64Reply int | OtherReply

type_synonym 's redisEval = "string \<Rightarrow> rat \<Rightarrow> int \<Rightarrow> int \<Rightarrow> rat \<Rightarrow> 's \<Rightarrow> (string + evalReply) \<times> 's"

definition RedisLimiter_AllowN ::
  "'s redisEval \<Rightarrow> redisLimiter \<Rightarrow> string \<Rightarrow> int \<Rightarrow> time \<Rightarrow> 's \<Rightarrow> bool \<times> 's" where
  "RedisLimiter_AllowN eval rl key n unixNano s =
     (let redisKey = rdl_prefix rl @ '':'' @ key;
          now = fl64 (fl64 (of_int unixNano) / 1000000000)
      in case eval redisKey (rdl_rate rl) (rdl_burst rl) n now s of
           (Inl err, s) \<Rightarrow> (False, s)
         | (Inr OtherReply, s) \<Rightarrow> (False, s)
         | (Inr (Int64Reply val), s) \<Rightarrow> (val = 1, s))"

definition RedisLimiter_Allow :: "'s redisEval \<Rightarrow> redisLimiter \<Rightarrow> string \<Rightarrow> time \<Rightarrow> 's \<Rightarrow> bool \<times> 's" where
  "RedisLimiter_Allow eval rl key unixNano s = RedisLimiter_AllowN eval rl key 1 unixNano s"

text \<open>A server that runs the script on its keys, atomically and without expiring them.\<close>

definition scriptEval :: "(string \<rightharpoonup> rat \<times> rat) redisEval" where
  "scriptEval key rate burst n now db =
     (case tokenBucketScript rate (fl64 (of_int burst)) (fl64 (of_int n)) now (db key) of
        (reply, h, ttl) \<Rightarrow> (Inr (Int64Reply reply), db(key \<mapsto> h)))"

section \<open>Refilling\<close>

lemma Duration_Seconds_nonneg [simp]: "0 \<le> d \<Longrightarrow> 0 \<le> Duration_Seconds d"
  unfolding Duration_Seconds_def
  by (intro fl64_nonneg add_nonneg_nonneg divide_nonneg_nonneg) (simp_all add: signed_divide_int_def signed_modulo_int_def sgn_if)

lemma seconds_split:
  assumes "0 \<le> d"
  shows "rat_of_int (d sdiv 1000000000) + of_int (d smod 1000000000) / 1000000000 = of_int d / 1000000000"
proof -
  have "d = 1000000000 * (d sdiv 1000000000) + d smod 1000000000"
    by (simp add: mult_sdiv_smod_eq)
  then have "rat_of_int d = 1000000000 * of_int (d sdiv 1000000000) + of_int (d smod 1000000000)"
    by (metis of_int_add of_int_mult of_int_numeral)
  then show ?thesis by (simp add: field_simps)
qed

lemma smod_exact:
  assumes "0 \<le> d"
  shows "fl64 (of_int (d smod 1000000000)) = of_int (d smod 1000000000)"
proof (rule fl64_of_int)
  have "0 \<le> d smod 1000000000" "d smod 1000000000 < 1000000000"
    using assms by (auto simp: signed_modulo_int_def signed_divide_int_def sgn_if minus_div_mult_eq_mod)
  then show "\<bar>d smod 1000000000\<bar> \<le> 2 ^ 53" by simp
qed

lemma Duration_Seconds_upper:
  assumes "0 \<le> d"
  shows "Duration_Seconds d \<le> of_int d / 1000000000 * (1 + eps64) ^ 2"
proof -
  let ?q = "rat_of_int (d sdiv 1000000000)" and ?r = "rat_of_int (d smod 1000000000) / 1000000000"
  have nn: "0 \<le> ?q" "0 \<le> ?r" using assms by (simp_all add: signed_divide_int_def signed_modulo_int_def sgn_if)
  have "Duration_Seconds d \<le> (fl64 ?q + fl64 ?r) * (1 + eps64)"
    unfolding Duration_Seconds_def smod_exact [OF assms] using nn by (intro fl64_error(1) add_nonneg_nonneg fl64_nonneg)
  also have "\<dots> \<le> (?q * (1 + eps64) + ?r * (1 + eps64)) * (1 + eps64)"
    using nn by (intro mult_right_mono add_mono fl64_error(1)) (simp_all add: add_nonneg_nonneg)
  also have "\<dots> = (?q + ?r) * (1 + eps64) ^ 2" by (simp add: power2_eq_square algebra_simps)
  finally show ?thesis by (simp only: seconds_split [OF assms])
qed

lemma Duration_Seconds_lower:
  assumes "0 \<le> d"
  shows "of_int d / 1000000000 * (1 - eps64) ^ 2 \<le> Duration_Seconds d"
proof -
  let ?q = "rat_of_int (d sdiv 1000000000)" and ?r = "rat_of_int (d smod 1000000000) / 1000000000"
  have nn: "0 \<le> ?q" "0 \<le> ?r" using assms by (simp_all add: signed_divide_int_def signed_modulo_int_def sgn_if)
  have "(?q + ?r) * (1 - eps64) ^ 2 = (?q * (1 - eps64) + ?r * (1 - eps64)) * (1 - eps64)"
    by (simp add: power2_eq_square algebra_simps)
  also have "\<dots> \<le> (fl64 ?q + fl64 ?r) * (1 - eps64)"
    using nn by (intro mult_right_mono add_mono fl64_error(2)) simp_all
  also have "\<dots> \<le> Duration_Seconds d"
    unfolding Duration_Seconds_def smod_exact [OF assms] using nn by (intro fl64_error(2) add_nonneg_nonneg fl64_nonneg)
  finally show ?thesis by (simp only: seconds_split [OF assms])
qed

lemma refillTokens_range:
  assumes "0 \<le> d" and "0 \<le> rate" and "0 \<le> tokens" and "0 \<le> cap"
  shows "0 \<le> refillTokens rate cap tokens d" and "refillTokens rate cap tokens d \<le> cap"
  using assms by (auto simp: refillTokens_def Let_def intro!: fl64_nonneg add_nonneg_nonneg mult_nonneg_nonneg)

lemma refillTokens_upper:
  assumes "0 \<le> d" and "0 \<le> rate" and "0 \<le> tokens"
  shows "refillTokens rate cap tokens d
           \<le> tokens * (1 + eps64) + rate * (of_int d / 1000000000) * (1 + eps64) ^ 4"
proof -
  let ?s = "Duration_Seconds d"
  have s: "0 \<le> ?s" using assms by simp
  have "fl64 (?s * rate) \<le> ?s * rate * (1 + eps64)" using s assms by (intro fl64_error) simp
  also have "\<dots> \<le> of_int d / 1000000000 * (1 + eps64) ^ 2 * rate * (1 + eps64)"
    using assms Duration_Seconds_upper [of d] by (intro mult_right_mono) simp_all
  finally have m: "fl64 (?s * rate) \<le> rate * (of_int d / 1000000000) * (1 + eps64) ^ 3"
    by (simp add: power2_eq_square power3_eq_cube algebra_simps)
  have "refillTokens rate cap tokens d \<le> fl64 (tokens + fl64 (?s * rate))"
    by (simp add: refillTokens_def Let_def)
  also have "\<dots> \<le> (tokens + fl64 (?s * rate)) * (1 + eps64)"
    using s assms by (intro fl64_error add_nonneg_nonneg fl64_nonneg mult_nonneg_nonneg)
  also have "\<dots> \<le> (tokens + rate * (of_int d / 1000000000) * (1 + eps64) ^ 3) * (1 + eps64)"
    using m by (intro mult_right_mono) simp_all
  finally show ?thesis by (simp add: power3_eq_cube power4_eq_xxxx algebra_simps)
qed

lemma refillTokens_lower:
  assumes "0 \<le> d" and "0 \<le> rate" and "0 \<le> tokens"
  shows "min cap (rate * (of_int d / 1000000000) * (1 - eps64) ^ 4) \<le> refillTokens rate cap tokens d"
proof -
  let ?s = "Duration_Seconds d"
  have s: "0 \<le> ?s" using assms by simp
  have "of_int d / 1000000000 * (1 - eps64) ^ 2 * rate * (1 - eps64) \<le> ?s * rate * (1 - eps64)"
    using assms Duration_Seconds_lower [of d] by (intro mult_right_mono) simp_all
  also have "\<dots> \<le> fl64 (?s * rate)" using s assms by (intro fl64_error) simp
  finally have m: "rate * (of_int d / 1000000000) * (1 - eps64) ^ 3 \<le> tokens + fl64 (?s * rate)"
    using assms by (simp add: power2_eq_square power3_eq_cube algebra_simps)
  have "rate * (of_int d / 1000000000) * (1 - eps64) ^ 4
          = rate * (of_int d / 1000000000) * (1 - eps64) ^ 3 * (1 - eps64)"
    by (simp add: power3_eq_cube power4_eq_xxxx)
  also have "\<dots> \<le> (tokens + fl64 (?s * rate)) * (1 - eps64)"
    using m by (intro mult_right_mono) simp_all
  also have "\<dots> \<le> fl64 (tokens + fl64 (?s * rate))"
    using s assms by (intro fl64_error add_nonneg_nonneg fl64_nonneg mult_nonneg_nonneg)
  finally show ?thesis by (simp add: refillTokens_def Let_def min_le_iff_disj)
qed

lemma refillTokens_full:
  assumes "0 \<le> d" and "0 \<le> rate" and "0 \<le> tokens"
    and "cap \<le> rate * (of_int d / 1000000000) * (1 - eps64) ^ 4"
  shows "refillTokens rate cap tokens d = cap"
  using refillTokens_lower [OF assms(1-3), of cap] assms(4)
  by (simp add: refillTokens_def Let_def split: if_splits)

section \<open>The contract of a token bucket\<close>

text \<open>\<open>spent allow cost l calls\<close> is the total cost of the calls (time, request) that were admitted.\<close>

fun spent :: "('l \<Rightarrow> 'n \<Rightarrow> time \<Rightarrow> bool \<times> 'l) \<Rightarrow> ('n \<Rightarrow> rat) \<Rightarrow> 'l \<Rightarrow> (time \<times> 'n) list \<Rightarrow> rat" where
  "spent allow cost l [] = 0"
| "spent allow cost l ((t, n) # cs) =
     (case allow l n t of (b, l') \<Rightarrow> (if b then cost n else 0) + spent allow cost l' cs)"

locale token_bucket =
  fixes allow :: "'l \<Rightarrow> 'n \<Rightarrow> time \<Rightarrow> bool \<times> 'l"
    and cost :: "'n \<Rightarrow> rat"
    and valid :: "'n \<Rightarrow> bool"
    and tokens :: "'l \<Rightarrow> rat"
    and rate :: "'l \<Rightarrow> rat"
    and cap :: "'l \<Rightarrow> rat"
    and last_time :: "'l \<Rightarrow> time"
    and ok :: "'l \<Rightarrow> bool"
  assumes ok_allow: "ok l \<Longrightarrow> valid n \<Longrightarrow> last_time l \<le> t \<Longrightarrow> ok (snd (allow l n t))"
    and ok_range: "ok l \<Longrightarrow> 0 \<le> tokens l \<and> tokens l \<le> cap l \<and> 0 \<le> rate l"
    and params: "rate (snd (allow l n t)) = rate l" "cap (snd (allow l n t)) = cap l"
      "last_time (snd (allow l n t)) = t"
    and charge: "ok l \<Longrightarrow> valid n \<Longrightarrow> last_time l \<le> t \<Longrightarrow>
      (if fst (allow l n t) then cost n else 0) + tokens (snd (allow l n t))
        \<le> tokens l + 2 * cap l * eps64 + rate l * (of_int (t - last_time l) / 1000000000) * (1 + eps64) ^ 4"
begin

lemma spent_bound:
  assumes "ok l" and "sorted (last_time l # map fst cs)" and "\<forall>c \<in> set cs. valid (snd c)"
  shows "spent allow cost l cs
           \<le> tokens l + 2 * cap l * eps64 * of_nat (length cs)
             + rate l * (of_int (last (last_time l # map fst cs) - last_time l) / 1000000000) * (1 + eps64) ^ 4"
  using assms
proof (induction cs arbitrary: l)
  case Nil
  then show ?case using ok_range [of l] by simp
next
  case (Cons c cs)
  obtain t n where c: "c = (t, n)" by (cases c)
  obtain b l' where a: "allow l n t = (b, l')" by (cases "allow l n t")
  have pre: "ok l" "valid n" "last_time l \<le> t" using Cons.prems c by auto
  have l': "ok l'" "rate l' = rate l" "cap l' = cap l" "last_time l' = t"
    using ok_allow [OF pre] params [of l n t] a by auto
  have ih: "spent allow cost l' cs \<le> tokens l' + 2 * cap l * eps64 * of_nat (length cs)
      + rate l * (of_int (last (t # map fst cs) - t) / 1000000000) * (1 + eps64) ^ 4"
    using Cons.IH [of l'] Cons.prems l' c by simp
  have ch: "(if b then cost n else 0) + tokens l'
        \<le> tokens l + 2 * cap l * eps64 + rate l * (of_int (t - last_time l) / 1000000000) * (1 + eps64) ^ 4"
    using charge [OF pre] a by simp
  have "spent allow cost l (c # cs) = (if b then cost n else 0) + spent allow cost l' cs"
    by (simp add: c a)
  also have "\<dots> \<le> (if b then cost n else 0) + tokens l' + 2 * cap l * eps64 * of_nat (length cs)
      + rate l * (of_int (last (t # map fst cs) - t) / 1000000000) * (1 + eps64) ^ 4"
    using ih by linarith
  also have "\<dots> \<le> tokens l + 2 * cap l * eps64 * of_nat (length (c # cs))
      + (rate l * (of_int (t - last_time l) / 1000000000) * (1 + eps64) ^ 4
       + rate l * (of_int (last (t # map fst cs) - t) / 1000000000) * (1 + eps64) ^ 4)"
    using ch by (simp add: algebra_simps)
  also have "rate l * (of_int (t - last_time l) / 1000000000) * (1 + eps64) ^ 4
       + rate l * (of_int (last (t # map fst cs) - t) / 1000000000) * (1 + eps64) ^ 4
     = rate l * (of_int (last (t # map fst cs) - last_time l) / 1000000000) * (1 + eps64) ^ 4"
    by (simp add: distrib_right [symmetric] distrib_left [symmetric] add_divide_distrib [symmetric])
  finally show ?case using c by simp
qed

end

subsection \<open>The limiter meets the contract\<close>

definition limiter_ok :: "limiter \<Rightarrow> bool" where
  "limiter_ok l =
     (0 < l_rate l \<and> 0 < l_burst l \<and> 0 \<le> l_tokens l \<and> l_tokens l \<le> fl64 (of_int (l_burst l)))"

definition l_cap :: "limiter \<Rightarrow> rat" where
  "l_cap l = fl64 (of_int (l_burst l))"

definition exact_count :: "int \<Rightarrow> bool" where
  "exact_count n = (0 \<le> n \<and> n \<le> 2 ^ 53)"

lemma exact_count_fl64 [simp]: "exact_count n \<Longrightarrow> fl64 (of_int n) = of_int n"
  by (rule fl64_of_int) (simp add: exact_count_def)

lemma Limiter_New_ok: "limiter_ok (Limiter_New rate burst now)"
  by (simp add: limiter_ok_def Limiter_New_def Let_def fl64_nonneg)

lemma refill_ok:
  assumes "limiter_ok l" and "l_lastTime l \<le> t"
  shows "limiter_ok (refill l t)"
  using assms refillTokens_range [of "t - l_lastTime l" "l_rate l" "l_tokens l" "fl64 (of_int (l_burst l))"]
  by (simp add: limiter_ok_def refill_def fl64_nonneg)

lemma refill_simps [simp]:
  "l_rate (refill l t) = l_rate l" "l_burst (refill l t) = l_burst l" "l_lastTime (refill l t) = t"
  by (simp_all add: refill_def)

lemma Limiter_AllowN_frame [simp]:
  "l_rate (snd (Limiter_AllowN l n t)) = l_rate l"
  "l_burst (snd (Limiter_AllowN l n t)) = l_burst l"
  "l_lastTime (snd (Limiter_AllowN l n t)) = t"
  by (simp_all add: Limiter_AllowN_def Let_def)

lemma fl64_diff_le:
  assumes "0 \<le> b" and "a \<le> fl64 c"
  shows "fl64 (a - b) \<le> fl64 c"
  using fl64_mono [of "a - b" "fl64 c"] assms by simp

lemma Limiter_AllowN_ok:
  assumes "limiter_ok l" and "l_lastTime l \<le> t" and "0 \<le> n"
  shows "limiter_ok (snd (Limiter_AllowN l n t))"
proof -
  have r: "limiter_ok (refill l t)" using assms by (simp add: refill_ok)
  have n: "0 \<le> fl64 (of_int n)" using assms by (simp add: fl64_nonneg)
  have "\<not> l_tokens (refill l t) < fl64 (of_int n) \<Longrightarrow> 0 \<le> fl64 (l_tokens (refill l t) - fl64 (of_int n))"
    by (intro fl64_nonneg) simp
  moreover have "fl64 (l_tokens (refill l t) - fl64 (of_int n)) \<le> fl64 (of_int (l_burst l))"
    using r n by (intro fl64_diff_le) (auto simp: limiter_ok_def)
  ultimately show ?thesis using r by (simp add: limiter_ok_def Limiter_AllowN_def Let_def)
qed

lemma spend_step:
  assumes "0 \<le> r" and "r \<le> cap" and "c \<le> r" and "0 \<le> c"
  shows "c + fl64 (r - c) \<le> r + cap * eps64"
proof -
  have "fl64 (r - c) \<le> (r - c) * (1 + eps64)" using assms by (intro fl64_error) simp
  also have "\<dots> = r - c + (r - c) * eps64" by (simp add: algebra_simps)
  also have "\<dots> \<le> r - c + cap * eps64" using assms by (intro add_left_mono mult_right_mono) simp_all
  finally show ?thesis by simp
qed

lemma refill_step:
  assumes "0 \<le> d" and "0 \<le> rate" and "0 \<le> tokens" and "tokens \<le> cap"
  shows "refillTokens rate cap tokens d
           \<le> tokens + cap * eps64 + rate * (of_int d / 1000000000) * (1 + eps64) ^ 4"
proof -
  have "tokens * eps64 \<le> cap * eps64" using assms(4) by (rule mult_right_mono) simp
  then show ?thesis
    using refillTokens_upper [OF assms(1-3), of cap] by (simp only: distrib_left mult_1_right)
qed

lemma charge_step:
  assumes "0 \<le> r" and "r \<le> cap" and "0 \<le> c" and "r \<le> tok + cap * eps64 + x"
  shows "(if r < c then 0 else c) + (if r < c then r else fl64 (r - c)) \<le> tok + 2 * cap * eps64 + x"
proof -
  have e: "0 \<le> cap * eps64" using assms by (intro mult_nonneg_nonneg) simp_all
  have d: "2 * cap * eps64 = cap * eps64 + cap * eps64" by simp
  show ?thesis
  proof (cases "r < c")
    case True
    have "r \<le> tok + 2 * cap * eps64 + x" using e assms(4) unfolding d by linarith
    then show ?thesis using True by simp
  next
    case False
    then have "c + fl64 (r - c) \<le> r + cap * eps64" using assms by (intro spend_step) simp_all
    then have "c + fl64 (r - c) \<le> tok + 2 * cap * eps64 + x" using assms(4) unfolding d by linarith
    then show ?thesis using False by simp
  qed
qed

interpretation lim: token_bucket Limiter_AllowN of_int exact_count l_tokens l_rate l_cap l_lastTime limiter_ok
proof unfold_locales
  fix l n t assume a: "limiter_ok l" "exact_count n" "l_lastTime l \<le> t"
  show "limiter_ok (snd (Limiter_AllowN l n t))"
    using a by (intro Limiter_AllowN_ok) (simp_all add: exact_count_def)
  have r: "limiter_ok (refill l t)" using a by (simp add: refill_ok)
  have u: "l_tokens (refill l t) \<le> l_tokens l + l_cap l * eps64
      + l_rate l * (of_int (t - l_lastTime l) / 1000000000) * (1 + eps64) ^ 4"
    using refill_step [of "t - l_lastTime l" "l_rate l" "l_tokens l" "l_cap l"] a
    by (simp add: refill_def limiter_ok_def l_cap_def)
  have n: "0 \<le> rat_of_int n" "fl64 (of_int n) = of_int n" using a by (simp_all add: exact_count_def)
  show "(if fst (Limiter_AllowN l n t) then rat_of_int n else 0) + l_tokens (snd (Limiter_AllowN l n t))
      \<le> l_tokens l + 2 * l_cap l * eps64
        + l_rate l * (of_int (t - l_lastTime l) / 1000000000) * (1 + eps64) ^ 4"
    using charge_step [OF _ _ n(1) u] r n(2)
    by (auto simp: Limiter_AllowN_def Let_def limiter_ok_def l_cap_def)
qed (simp_all add: limiter_ok_def l_cap_def)

text \<open>
  C18: The token bucket enforces its rate.  Over any sequence of \<open>AllowN\<close> calls on a
  limiter made by \<open>New\<close>, with a clock that does not run backwards, the tokens granted
  are at most the burst plus the rate times the elapsed seconds; \<open>float64\<close> rounding adds
  a relative error of four roundings to the rate term and two roundings of
  the burst per call.
\<close>

theorem limiter_rate_bound:
  assumes "0 < rate" and "exact_count burst" and "0 < burst"
    and "sorted (t0 # map fst calls)" and "\<forall>c \<in> set calls. exact_count (snd c)"
  shows "spent Limiter_AllowN of_int (Limiter_New rate burst t0) calls
           \<le> of_int burst + 2 * of_int burst * eps64 * of_nat (length calls)
             + rate * (of_int (last (t0 # map fst calls) - t0) / 1000000000) * (1 + eps64) ^ 4"
proof -
  have l: "l_lastTime (Limiter_New rate burst t0) = t0" "l_rate (Limiter_New rate burst t0) = rate"
    "l_tokens (Limiter_New rate burst t0) = of_int burst" "l_cap (Limiter_New rate burst t0) = of_int burst"
    using assms by (simp_all add: Limiter_New_def l_cap_def)
  show ?thesis
    using lim.spent_bound [OF Limiter_New_ok, of rate burst t0 calls] assms by (simp only: l)
qed

theorem limiter_rate_bound_witness:
  "spent Limiter_AllowN of_int (Limiter_New 10 5 0) [(0, 5), (100, 1), (1000000000, 3)]
     \<le> of_int 5 + 2 * of_int 5 * eps64 * of_nat 3
       + 10 * (of_int (last (0 # map fst [(0, 5 :: int), (100, 1), (1000000000, 3)]) - 0) / 1000000000)
         * (1 + eps64) ^ 4"
  using limiter_rate_bound [of 10 5 0 "[(0, 5), (100, 1), (1000000000, 3)]"]
  by (simp add: exact_count_def)

text \<open>
  The token bucket does not starve a caller.  A request for at most \<open>burst\<close> tokens
  is admitted as soon as the rate times the seconds since the last call, less four roundings,
  reaches the request.
\<close>

lemma limiter_admits_after_wait:
  assumes "limiter_ok l" and "l_lastTime l \<le> now" and "exact_count n" and "n \<le> l_burst l"
    and "of_int n \<le> l_rate l * (of_int (now - l_lastTime l) / 1000000000) * (1 - eps64) ^ 4"
  shows "fst (Limiter_AllowN l n now)"
proof -
  have "rat_of_int n \<le> l_cap l"
    using fl64_mono [of "of_int n" "of_int (l_burst l)"] assms by (simp add: l_cap_def)
  then have "of_int n \<le> l_tokens (refill l now)"
    using refillTokens_lower [of "now - l_lastTime l" "l_rate l" "l_tokens l" "l_cap l"] assms
    by (simp add: refill_def l_cap_def limiter_ok_def)
  then show ?thesis using assms by (simp add: Limiter_AllowN_def Let_def)
qed

lemma limiter_admits_after_wait_witness:
  "fst (Limiter_AllowN \<lparr>l_rate = 10, l_burst = 5, l_tokens = 0, l_lastTime = 0\<rparr> 5 1000000000)"
  using limiter_admits_after_wait
    [of "\<lparr>l_rate = 10, l_burst = 5, l_tokens = 0, l_lastTime = 0\<rparr>" 1000000000 5]
    fl64_of_int [of 5]
  by (simp add: limiter_ok_def exact_count_def eps64_def power4_eq_xxxx)

lemma Duration_Seconds_0 [simp]: "Duration_Seconds 0 = 0"
  by (simp add: Duration_Seconds_def signed_modulo_int_def)

lemma burst_run:
  assumes "l_lastTime l = t" and "l_tokens l = of_int k" and "0 \<le> k" and "k \<le> l_burst l" and "l_burst l \<le> 2 ^ 53"
  shows "run_single (\<lambda>t l. Limiter_Allow l t) l (replicate m t) = map (\<lambda>i. int i < k) [0..<m]"
  using assms
proof (induction m arbitrary: l k)
  case (Suc m)
  have f: "fl64 (of_int i) = of_int i" if "0 \<le> i" "i \<le> l_burst l" for i
    using that Suc.prems by (intro fl64_of_int) simp
  have r: "refill l t = l" using Suc.prems f by (simp add: refill_def refillTokens_def Let_def)
  have shift: "map (\<lambda>i. int i < k) [0..<Suc m] = (0 < k) # map (\<lambda>i. int i < k - 1) [0..<m]"
    by (simp add: upt_conv_Cons map_Suc_upt [symmetric] del: upt_Suc) auto
  show ?case
  proof (cases "0 < k")
    case True
    then have "fl64 (of_int k - 1) = of_int (k - 1)" using f [of "k - 1"] Suc.prems by simp
    moreover have "fl64 1 = 1" using fl64_of_int [of 1] by simp
    ultimately have "Limiter_Allow l t = (True, l\<lparr>l_tokens := of_int (k - 1)\<rparr>)"
      using True Suc.prems r by (simp add: Limiter_Allow_def Limiter_AllowN_def Let_def)
    then show ?thesis
      using Suc.IH [of "l\<lparr>l_tokens := of_int (k - 1)\<rparr>" "k - 1"] Suc.prems True by (simp only: shift) simp
  next
    case False
    then have "k = 0" using Suc.prems by simp
    moreover have "fl64 1 = 1" using fl64_of_int [of 1] by simp
    ultimately have "Limiter_Allow l t = (False, l)"
      using Suc.prems r by (simp add: Limiter_Allow_def Limiter_AllowN_def Let_def)
    then show ?thesis using Suc.IH [of l 0] Suc.prems \<open>k = 0\<close> by (simp add: map_replicate_const replicate_append_same)
  qed
qed simp

text \<open>
  A new limiter admits exactly \<open>burst\<close> requests at one instant: of any number of
  \<open>Allow\<close> calls the first \<open>burst\<close> succeed and all others are refused.
\<close>

lemma limiter_burst_exact:
  assumes "exact_count burst" and "0 < burst"
  shows "run_single (\<lambda>t l. Limiter_Allow l t) (Limiter_New rate burst t) (replicate m t)
           = map (\<lambda>i. int i < burst) [0..<m]"
  using assms by (intro burst_run) (simp_all add: Limiter_New_def exact_count_def)

lemma limiter_burst_exact_witness:
  "run_single (\<lambda>t l. Limiter_Allow l t) (Limiter_New 10 2 7) (replicate 4 7) = [True, True, False, False]"
  using limiter_burst_exact [of 2 10 7 4] by (simp add: exact_count_def numeral_eq_Suc)

section \<open>One limiter per key\<close>

definition rl_view :: "rateLimiter \<Rightarrow> string \<Rightarrow> rat \<times> int \<times> limiter option" where
  "rl_view rl key = (rl_rate rl, rl_burst rl, gm_get (rl_limiters rl) key)"

text \<open>The limiter of a single key: created on the first call, then asked.\<close>

fun single_limiter :: "time \<times> time \<Rightarrow> rat \<times> int \<times> limiter option \<Rightarrow> bool \<times> rat \<times> int \<times> limiter option" where
  "single_limiter ts (rate, burst, lo) =
     (let l = (case lo of None \<Rightarrow> Limiter_New rate burst (fst ts) | Some l \<Rightarrow> l)
      in case Limiter_Allow l (snd ts) of (b, l') \<Rightarrow> (b, rate, burst, Some l'))"

interpretation krl: keyed_limiter RateLimiter_Allow rl_view single_limiter
  by unfold_locales
    (auto simp: rl_view_def RateLimiter_Allow_def getLimiter_def Let_def split: option.splits prod.splits)

text \<open>
  Keys do not influence each other in \<open>ratelimit.RateLimiter\<close>: in any interleaving
  of calls, the answers for one key are those of a limiter of its own.
\<close>

lemma rate_limiter_isolates_keys:
  "for_key key (run_keyed RateLimiter_Allow (NewRateLimiter rate burst) calls)
     = run_single single_limiter (rate, burst, None) (for_key key calls)"
  using krl.isolation [of key "NewRateLimiter rate burst" calls] by (simp add: rl_view_def NewRateLimiter_def)

lemma fold_cleanup_get:
  "gm_get (fold (\<lambda>(key, l) m. if p l then gm_del m key else m) es m) k
     = (if \<exists>l. (k, l) \<in> set es \<and> p l then None else gm_get m k)"
  by (induction es arbitrary: m) auto

lemma RateLimiter_Cleanup_get:
  assumes "gm_order (rl_limiters rl) ord"
  shows "gm_get (rl_limiters (RateLimiter_Cleanup rl maxAge now ord)) k =
           (case gm_get (rl_limiters rl) k of
              None \<Rightarrow> None
            | Some l \<Rightarrow> if l_lastTime l < now - maxAge then None else Some l)"
  using gm_range_complete [OF assms]
  by (auto simp: RateLimiter_Cleanup_def Let_def fold_cleanup_get split: option.splits)

text \<open>The limiters of a rate limiter are in range and carry its (defaulted) parameters.\<close>

definition rl_params :: "rateLimiter \<Rightarrow> rat \<times> int" where
  "rl_params rl = (if rl_rate rl \<le> 0 then 1 else rl_rate rl, if rl_burst rl \<le> 0 then 1 else rl_burst rl)"

definition rl_inv :: "rateLimiter \<Rightarrow> time \<Rightarrow> bool" where
  "rl_inv rl now =
     (\<forall>k l. gm_get (rl_limiters rl) k = Some l \<longrightarrow>
        limiter_ok l \<and> (l_rate l, l_burst l) = rl_params rl \<and> l_lastTime l \<le> now)"

lemma rl_inv_new: "rl_inv (NewRateLimiter rate burst) now"
  by (simp add: rl_inv_def NewRateLimiter_def)

lemma rl_inv_allow:
  assumes "rl_inv rl now" and "now \<le> fst ts" and "fst ts \<le> snd ts"
  shows "rl_inv (snd (RateLimiter_Allow rl key ts)) (snd ts)"
proof -
  define l where "l = fst (getLimiter rl key (fst ts))"
  have l: "limiter_ok l" "(l_rate l, l_burst l) = rl_params rl" "l_lastTime l \<le> snd ts"
    using assms Limiter_New_ok [of "rl_rate rl" "rl_burst rl" "fst ts"]
    by (auto 4 3 simp: l_def getLimiter_def rl_inv_def rl_params_def Limiter_New_def Let_def
        split: option.splits)
  then have "limiter_ok (snd (Limiter_Allow l (snd ts)))"
    by (simp add: Limiter_Allow_def Limiter_AllowN_ok)
  moreover have "(l_rate (snd (Limiter_Allow l (snd ts))), l_burst (snd (Limiter_Allow l (snd ts)))) = rl_params rl"
    "l_lastTime (snd (Limiter_Allow l (snd ts))) = snd ts"
    using l by (simp_all add: Limiter_Allow_def)
  moreover have "rl_limiters (snd (RateLimiter_Allow rl key ts))
      = gm_set (rl_limiters (snd (getLimiter rl key (fst ts)))) key (snd (Limiter_Allow l (snd ts)))"
    by (simp add: RateLimiter_Allow_def l_def split: prod.splits)
  moreover have "rl_params (snd (RateLimiter_Allow rl key ts)) = rl_params rl"
    by (simp add: rl_params_def RateLimiter_Allow_def getLimiter_def Let_def split: prod.splits option.splits)
  moreover have "gm_get (rl_limiters (snd (getLimiter rl key (fst ts)))) k = gm_get (rl_limiters rl) k"
    if "k \<noteq> key" for k
    using that by (simp add: getLimiter_def Let_def split: option.splits)
  ultimately show ?thesis using assms unfolding rl_inv_def by (fastforce split: if_splits)
qed

text \<open>
  \<open>Cleanup\<close> frees idle limiters without changing any answer, when \<open>maxAge\<close> is long
  enough to fill a bucket: for every key, the next \<open>Allow\<close> gives the same answer, and leaves
  the same limiter, with and without the cleanup.
\<close>

lemma rate_limiter_cleanup_transparent:
  assumes "rl_inv rl now" and "gm_order (rl_limiters rl) ord" and "0 \<le> maxAge"
    and "fl64 (of_int (snd (rl_params rl)))
           \<le> fst (rl_params rl) * (of_int maxAge / 1000000000) * (1 - eps64) ^ 4"
    and "now \<le> t"
  shows "fst (RateLimiter_Allow (RateLimiter_Cleanup rl maxAge now ord) key (t, t))
           = fst (RateLimiter_Allow rl key (t, t)) \<and>
         gm_get (rl_limiters (snd (RateLimiter_Allow (RateLimiter_Cleanup rl maxAge now ord) key (t, t)))) key
           = gm_get (rl_limiters (snd (RateLimiter_Allow rl key (t, t)))) key"
proof -
  let ?c = "RateLimiter_Cleanup rl maxAge now ord"
  have view: "single_limiter (t, t) (rl_view ?c key) = single_limiter (t, t) (rl_view rl key)"
  proof (cases "gm_get (rl_limiters rl) key")
    case None
    then show ?thesis
      using RateLimiter_Cleanup_get [OF assms(2)] by (simp add: rl_view_def) (simp add: RateLimiter_Cleanup_def)
  next
    case (Some l)
    note ok = assms(1) [unfolded rl_inv_def, rule_format, OF Some]
    have eq: "refill (Limiter_New (rl_rate rl) (rl_burst rl) t) t = refill l t" if "l_lastTime l < now - maxAge"
    proof -
      have "of_int maxAge / (1000000000 :: rat) \<le> of_int (t - l_lastTime l) / 1000000000"
        using that assms(5) by (intro divide_right_mono) simp_all
      then have "l_rate l * (of_int maxAge / 1000000000) * (1 - eps64) ^ 4
          \<le> l_rate l * (of_int (t - l_lastTime l) / 1000000000) * (1 - eps64) ^ 4"
        using ok by (intro mult_right_mono mult_left_mono) (simp_all add: limiter_ok_def)
      then have "fl64 (of_int (l_burst l)) \<le> l_rate l * (of_int (t - l_lastTime l) / 1000000000) * (1 - eps64) ^ 4"
        using assms(4) ok by (cases "rl_params rl") auto
      then have "refillTokens (l_rate l) (fl64 (of_int (l_burst l))) (l_tokens l) (t - l_lastTime l)
          = fl64 (of_int (l_burst l))"
        using ok assms(5) by (intro refillTokens_full) (auto simp: limiter_ok_def)
      then show ?thesis using ok
        by (cases l) (auto simp: refill_def Limiter_New_def Let_def refillTokens_def rl_params_def)
    qed
    have "rl_view ?c key = (rl_rate rl, rl_burst rl, if l_lastTime l < now - maxAge then None else Some l)"
      using RateLimiter_Cleanup_get [OF assms(2)] Some
      by (simp add: rl_view_def) (simp add: RateLimiter_Cleanup_def)
    then show ?thesis using eq
      by (simp add: rl_view_def Some Limiter_Allow_def Limiter_AllowN_def)
  qed
  then show ?thesis by (simp only: krl.allow_own) (simp add: rl_view_def)
qed

lemma rate_limiter_cleanup_transparent_witness:
  "fst (RateLimiter_Allow (RateLimiter_Cleanup (NewRateLimiter 10 5) 1000000000 3 []) ''k'' (4, 4))
     = fst (RateLimiter_Allow (NewRateLimiter 10 5) ''k'' (4, 4))"
  using rate_limiter_cleanup_transparent [of "NewRateLimiter 10 5" 3 "[]" 1000000000 4 "''k''"]
    rl_inv_new [of 10 5 3] fl64_of_int [of 5]
  by (simp add: rl_params_def NewRateLimiter_def gm_order_def gm_keys_def eps64_def power4_eq_xxxx)

section \<open>The limiter of the HTTP middleware\<close>

definition bucket_ok :: "bucket \<Rightarrow> bool" where
  "bucket_ok b =
     (0 \<le> b_refillRate b \<and> fl64 (b_maxTokens b) = b_maxTokens b \<and>
      0 \<le> b_tokens b \<and> b_tokens b \<le> b_maxTokens b)"

definition take1 :: "bucket \<Rightarrow> unit \<Rightarrow> time \<Rightarrow> bool \<times> bucket" where
  "take1 b u t = takeBucket b t"

interpretation ab: token_bucket take1 "\<lambda>_. 1" "\<lambda>_. True" b_tokens b_refillRate b_maxTokens b_lastRefill bucket_ok
proof unfold_locales
  fix b t and u :: unit assume a: "bucket_ok b" "b_lastRefill b \<le> t"
  let ?r = "refillTokens (b_refillRate b) (b_maxTokens b) (b_tokens b) (t - b_lastRefill b)"
  have r: "0 \<le> ?r" "?r \<le> b_maxTokens b"
    using refillTokens_range [of "t - b_lastRefill b" "b_refillRate b" "b_tokens b" "b_maxTokens b"] a
    by (auto simp: bucket_ok_def)
  have "1 \<le> ?r \<Longrightarrow> 0 \<le> fl64 (?r - 1)" by (simp add: fl64_nonneg)
  moreover have "fl64 (?r - 1) \<le> b_maxTokens b"
    using fl64_diff_le [of 1 ?r "b_maxTokens b"] a r by (simp add: bucket_ok_def)
  ultimately show "bucket_ok (snd (take1 b u t))"
    using a r by (simp add: take1_def takeBucket_def bucket_ok_def Let_def)
  have u: "?r \<le> b_tokens b + b_maxTokens b * eps64
      + b_refillRate b * (of_int (t - b_lastRefill b) / 1000000000) * (1 + eps64) ^ 4"
    using refill_step [of "t - b_lastRefill b" "b_refillRate b" "b_tokens b" "b_maxTokens b"] a
    by (simp add: bucket_ok_def)
  show "(if fst (take1 b u t) then 1 else 0) + b_tokens (snd (take1 b u t))
      \<le> b_tokens b + 2 * b_maxTokens b * eps64
        + b_refillRate b * (of_int (t - b_lastRefill b) / 1000000000) * (1 + eps64) ^ 4"
    using charge_step [of ?r "b_maxTokens b" 1, OF r _ u]
    by (auto simp: take1_def takeBucket_def Let_def not_le split: if_splits)
qed (simp_all add: bucket_ok_def take1_def takeBucket_def Let_def)

definition arl_view :: "authRateLimiter \<Rightarrow> string \<Rightarrow> RateLimitConfig \<times> bucket option" where
  "arl_view rl key = (arl_cfg rl, gm_get (arl_buckets rl) key)"

fun single_bucket :: "time \<times> time \<Rightarrow> RateLimitConfig \<times> bucket option \<Rightarrow> bool \<times> RateLimitConfig \<times> bucket option" where
  "single_bucket ts (cfg, bo) =
     (if \<not> rlc_Enabled cfg then (True, cfg, bo)
      else
        let b = (case bo of Some b \<Rightarrow> b | None \<Rightarrow> newBucket cfg (fst ts))
        in case takeBucket b (snd ts) of (r, b') \<Rightarrow> (r, cfg, Some b'))"

interpretation karl: keyed_limiter auth_RateLimiter_Allow arl_view single_bucket
  by unfold_locales
    (auto simp: arl_view_def auth_RateLimiter_Allow_def Let_def split: option.splits prod.splits)

definition admitted :: "bool list \<Rightarrow> rat" where
  "admitted bs = of_nat (length (filter id bs))"

lemma admitted_simps [simp]:
  "admitted [] = 0" "admitted (b # bs) = (if b then 1 else 0) + admitted bs"
  by (simp_all add: admitted_def)

lemma single_bucket_spent:
  "rlc_Enabled cfg \<Longrightarrow>
   admitted (run_single single_bucket (cfg, Some b) es) = spent take1 (\<lambda>_. 1) b (map (\<lambda>e. (snd e, ())) es)"
  by (induction es arbitrary: b) (auto simp: take1_def split: prod.splits)

lemma single_bucket_first:
  "rlc_Enabled cfg \<Longrightarrow>
   run_single single_bucket (cfg, None) ((t0, t1) # es)
     = run_single single_bucket (cfg, Some (newBucket cfg t0)) ((t0, t1) # es)"
  by simp

lemma arl_view_auth_new: "arl_view (auth_NewRateLimiter cfg) key = (cfg, None)"
  by (simp add: arl_view_def auth_NewRateLimiter_def)

text \<open>
  The middleware's rate limiter holds each key to its quota, whatever the traffic of the
  other keys: with rate limiting enabled, the requests of a key that \<open>auth.RateLimiter.Allow\<close>
  admits, in any interleaving, are at most the configured burst plus the configured
  requests per minute over the time since its first request, up to \<open>float64\<close> rounding.
\<close>

lemma auth_rate_limit_bound:
  assumes "rlc_Enabled cfg" and "burst = rl_BurstSize (rlc_DefaultLimit cfg)" and "exact_count burst"
    and "rpm = rl_RequestsPerMinute (rlc_DefaultLimit cfg)" and "0 \<le> rpm"
    and "for_key key calls = (t0, t1) # es" and "sorted (t0 # t1 # map snd es)"
  shows "admitted (for_key key (run_keyed auth_RateLimiter_Allow (auth_NewRateLimiter cfg) calls))
           \<le> of_int burst + 2 * of_int burst * eps64 * of_nat (Suc (length es))
             + fl64 (fl64 (of_int rpm) / 60)
               * (of_int (last (t1 # map snd es) - t0) / 1000000000) * (1 + eps64) ^ 4"
proof -
  let ?b = "newBucket cfg t0"
  have b: "b_tokens ?b = of_int burst" "b_maxTokens ?b = of_int burst" "b_lastRefill ?b = t0"
    "b_refillRate ?b = fl64 (fl64 (of_int rpm) / 60)"
    using assms by (simp_all add: newBucket_def Let_def)
  have ok: "bucket_ok ?b"
    using assms b by (simp add: bucket_ok_def fl64_nonneg) (simp add: exact_count_def)
  have times: "map fst (map (\<lambda>e. (snd e, ())) ((t0, t1) # es)) = t1 # map snd es" by simp
  have "admitted (for_key key (run_keyed auth_RateLimiter_Allow (auth_NewRateLimiter cfg) calls))
      = spent take1 (\<lambda>_. 1) ?b (map (\<lambda>e. (snd e, ())) ((t0, t1) # es))"
    using karl.isolation [of key "auth_NewRateLimiter cfg" calls]
    by (simp only: assms(6) arl_view_auth_new single_bucket_first [OF assms(1)] single_bucket_spent [OF assms(1)])
  also have "\<dots> \<le> b_tokens ?b + 2 * b_maxTokens ?b * eps64 * of_nat (length (map (\<lambda>e. (snd e, ())) ((t0, t1) # es)))
      + b_refillRate ?b * (of_int (last (b_lastRefill ?b # map fst (map (\<lambda>e. (snd e, ())) ((t0, t1) # es)))
          - b_lastRefill ?b) / 1000000000) * (1 + eps64) ^ 4"
    by (rule ab.spent_bound [OF ok]) (use assms(7) b(3) in \<open>simp_all only: times, simp_all\<close>)
  finally show ?thesis by (simp only: b times) simp
qed

definition sample_limits :: RateLimitConfig where
  "sample_limits =
     \<lparr>rlc_Enabled = True, rlc_Backend = ''memory'',
      rlc_DefaultLimit = \<lparr>rl_RequestsPerMinute = 60, rl_BurstSize = 2\<rparr>,
      rlc_Redis = \<lparr>rd_Address = [], rd_Password = [], rd_DB = 0\<rparr>, rlc_TenantOverrides = []\<rparr>"

lemma auth_rate_limit_bound_witness:
  "admitted (for_key ''a'' (run_keyed auth_RateLimiter_Allow (auth_NewRateLimiter sample_limits)
       [(''a'', 1, 2), (''b'', 3, 3), (''a'', 5, 5)]))
     \<le> of_int 2 + 2 * of_int 2 * eps64 * of_nat (Suc (length [(5 :: time, 5 :: time)]))
       + fl64 (fl64 (of_int 60) / 60)
         * (of_int (last (2 # map snd [(5 :: time, 5)]) - 1) / 1000000000) * (1 + eps64) ^ 4"
  by (rule auth_rate_limit_bound) (simp_all add: sample_limits_def exact_count_def)

section \<open>The Redis-backed limiter\<close>

text \<open>What the limiter relies on: \<open>EVAL\<close> either fails and changes nothing, or runs the script
  atomically on the stored hash, or on no hash when the key has expired.\<close>

definition eval_runs_script :: "(string \<rightharpoonup> rat \<times> rat) redisEval \<Rightarrow> bool" where
  "eval_runs_script eval =
     (\<forall>key rate burst n now db.
        (\<exists>e. eval key rate burst n now db = (Inl e, db)) \<or>
        (\<exists>hash \<in> {db key, None}. \<exists>reply h ttl.
           tokenBucketScript rate (fl64 (of_int burst)) (fl64 (of_int n)) now hash = (reply, h, ttl) \<and>
           eval key rate burst n now db = (Inr (Int64Reply reply), db(key \<mapsto> h))))"

fun redis_run ::
  "'s redisEval \<Rightarrow> redisLimiter \<Rightarrow> (string \<times> int \<times> time) list \<Rightarrow> 's \<Rightarrow> bool list \<times> 's" where
  "redis_run eval rl [] s = ([], s)"
| "redis_run eval rl ((key, n, t) # cs) s =
     (case RedisLimiter_AllowN eval rl key n t s of (b, s) \<Rightarrow>
      case redis_run eval rl cs s of (bs, s) \<Rightarrow> (b # bs, s))"

definition hash_ok :: "rat \<Rightarrow> rat \<times> rat \<Rightarrow> bool" where
  "hash_ok burst h = (0 \<le> fst h \<and> fst h \<le> burst)"

lemma tokenBucketScript_ok:
  assumes "\<And>h. hash = Some h \<Longrightarrow> hash_ok (fl64 burst) h" and "0 \<le> rate" and "0 \<le> burst" and "0 \<le> requested"
    and "tokenBucketScript rate (fl64 burst) requested now hash = (reply, h, ttl)"
  shows "hash_ok (fl64 burst) h"
proof -
  obtain tk lt where tl: "(case hash of None \<Rightarrow> (fl64 burst, now) | Some h \<Rightarrow> h) = (tk, lt)" by fastforce
  have tk: "0 \<le> tk" using tl assms(1,3) by (auto simp: hash_ok_def fl64_nonneg split: option.splits)
  define el where "el = (if fl64 (now - lt) < 0 then 0 else fl64 (now - lt))"
  define r where "r = (if fl64 (tk + fl64 (el * rate)) > fl64 burst then fl64 burst else fl64 (tk + fl64 (el * rate)))"
  have "0 \<le> fl64 (tk + fl64 (el * rate))"
    using tk assms(2) by (intro fl64_nonneg add_nonneg_nonneg mult_nonneg_nonneg) (simp_all add: el_def)
  then have r: "0 \<le> r" "r \<le> fl64 burst" using assms(3) by (simp_all add: r_def fl64_nonneg)
  have "h = (if requested \<le> r then (fl64 (r - requested), now) else (r, now))"
    using assms(5) unfolding tokenBucketScript_def tl Let_def r_def el_def by (auto split: if_splits)
  then show ?thesis
    using r fl64_diff_le [of requested r burst] assms(4) by (simp add: hash_ok_def fl64_nonneg)
qed

lemma snd_RedisLimiter_AllowN:
  "snd (RedisLimiter_AllowN eval rl key n t s)
     = snd (eval (rdl_prefix rl @ '':'' @ key) (rdl_rate rl) (rdl_burst rl) n
              (fl64 (fl64 (of_int t) / 1000000000)) s)"
  unfolding RedisLimiter_AllowN_def Let_def by (simp split: prod.split sum.split evalReply.split)

lemma redis_allow_ok:
  assumes "eval_runs_script eval" and "\<forall>key h. db key = Some h \<longrightarrow> hash_ok (fl64 (of_int (rdl_burst rl))) h"
    and "0 \<le> rdl_rate rl" and "0 \<le> rdl_burst rl" and "0 \<le> n"
    and "RedisLimiter_AllowN eval rl key n t db = (b, db')"
  shows "\<forall>key h. db' key = Some h \<longrightarrow> hash_ok (fl64 (of_int (rdl_burst rl))) h"
proof -
  define k where "k = rdl_prefix rl @ '':'' @ key"
  define now where "now = fl64 (fl64 (of_int t) / 1000000000)"
  have ev: "snd (eval k (rdl_rate rl) (rdl_burst rl) n now db) = db'"
    using snd_RedisLimiter_AllowN [of eval rl key n t db] by (simp only: assms(6) k_def now_def snd_conv)
  consider e where "eval k (rdl_rate rl) (rdl_burst rl) n now db = (Inl e, db)"
    | hash reply h ttl where "hash \<in> {db k, None}"
      "tokenBucketScript (rdl_rate rl) (fl64 (of_int (rdl_burst rl))) (fl64 (of_int n)) now hash = (reply, h, ttl)"
      "eval k (rdl_rate rl) (rdl_burst rl) n now db = (Inr (Int64Reply reply), db(k \<mapsto> h))"
    using assms(1) [unfolded eval_runs_script_def, THEN spec, of k, THEN spec, of "rdl_rate rl", THEN spec,
        of "rdl_burst rl", THEN spec, of n, THEN spec, of now, THEN spec, of db]
    by (elim disjE exE bexE conjE)
  then show ?thesis
  proof cases
    case 1
    then show ?thesis using ev assms(2) by simp
  next
    case 2
    have "hash_ok (fl64 (of_int (rdl_burst rl))) h"
      by (rule tokenBucketScript_ok [OF _ _ _ _ 2(2)]) (use 2(1) assms(2-5) in \<open>auto simp: fl64_nonneg\<close>)
    then show ?thesis using ev 2(3) assms(2) by (auto split: if_splits)
  qed
qed

lemma redis_run_ok:
  assumes "eval_runs_script eval" and "0 \<le> rdl_rate rl" and "0 \<le> rdl_burst rl"
  shows "\<forall>key h. db key = Some h \<longrightarrow> hash_ok (fl64 (of_int (rdl_burst rl))) h \<Longrightarrow>
         \<forall>c \<in> set calls. 0 \<le> fst (snd c) \<Longrightarrow>
         snd (redis_run eval rl calls db) key = Some h \<Longrightarrow> hash_ok (fl64 (of_int (rdl_burst rl))) h"
proof (induction calls arbitrary: db)
  case (Cons c calls)
  obtain k n t where c: "c = (k, n, t)" by (cases c)
  obtain b db' where a: "RedisLimiter_AllowN eval rl k n t db = (b, db')"
    by (cases "RedisLimiter_AllowN eval rl k n t db")
  have "\<forall>key h. db' key = Some h \<longrightarrow> hash_ok (fl64 (of_int (rdl_burst rl))) h"
    using redis_allow_ok [OF assms(1) Cons.prems(1) assms(2,3) _ a] Cons.prems(2) c by simp
  then show ?case using Cons.IH [of db'] Cons.prems c a by (simp split: prod.splits)
qed (metis redis_run.simps(1) snd_conv)

text \<open>
  The Redis-backed limiter keeps every bucket between zero and the burst, whatever the clocks
  of the gateways that share it do: the script clamps a negative elapsed time, so a clock
  that runs behind neither drains a bucket nor makes its count negative, and
  failed or expired evaluations are covered.
\<close>

lemma redis_limiter_tokens_in_range:
  assumes "eval_runs_script eval" and "\<forall>c \<in> set calls. 0 \<le> fst (snd c)"
    and "rl = NewRedisLimiter pfx rate burst"
    and "snd (redis_run eval rl calls Map.empty) key = Some (tokens, last_time)"
  shows "0 \<le> tokens \<and> tokens \<le> fl64 (of_int (rdl_burst rl))"
  using redis_run_ok [OF assms(1), of rl Map.empty calls key "(tokens, last_time)"] assms(2-4)
  by (simp add: hash_ok_def NewRedisLimiter_def)

lemma scriptEval_runs: "eval_runs_script scriptEval"
  unfolding eval_runs_script_def scriptEval_def by (auto split: prod.splits)

lemma redis_limiter_tokens_in_range_witness:
  "\<exists>tokens last_time.
     snd (redis_run scriptEval (NewRedisLimiter ''rl'' 10 5) [(''a'', 1, 7)] Map.empty) ''rl:a''
       = Some (tokens, last_time) \<and>
     0 \<le> tokens \<and> tokens \<le> fl64 (of_int (rdl_burst (NewRedisLimiter ''rl'' 10 5)))"
proof -
  have "snd (redis_run scriptEval (NewRedisLimiter ''rl'' 10 5) [(''a'', 1, 7)] Map.empty) ''rl:a'' \<noteq> None"
    by (simp add: RedisLimiter_AllowN_def NewRedisLimiter_def scriptEval_def Let_def split: prod.splits)
  then obtain tokens lt where
    "snd (redis_run scriptEval (NewRedisLimiter ''rl'' 10 5) [(''a'', 1, 7)] Map.empty) ''rl:a'' = Some (tokens, lt)"
    by auto
  then show ?thesis
    using redis_limiter_tokens_in_range [OF scriptEval_runs, of "[(''a'', 1, 7)]" _ "''rl''" 10 5] by simp
qed

end
