(* ===== verification/Sliding_Window.thy ===== *)
theory Sliding_Window
  imports Keyed_Limiter "HOL-Library.Signed_Division"
begin

text \<open>
  The sliding-window limiter of \<open>internal/ratelimit/sliding_window.go\<close>: a ring of
  sub-windows with a request count and a start time each.  \<open>AllowN\<close> reads the
  clock twice, in \<open>advance\<close> and in \<open>totalCount\<close>; both readings are arguments.

  The main result bounds the requests admitted in any span of nine sub-windows
  by the limit, for callers that are never idle for longer than the window; a
  concrete run shows why the side condition is needed.
\<close>

section \<open>The limiter\<close>

record slidingWindow =
  sw_windowSize :: duration
  sw_windows :: nat
  sw_counts :: "int list"
  sw_timestamps :: "time list"
  sw_limit :: int

definition NewSlidingWindow :: "int \<Rightarrow> duration \<Rightarrow> time \<Rightarrow> slidingWindow" where
  "NewSlidingWindow limit window now =
     (let limit = (if limit \<le> 0 then 1 else limit);
          subWindow = window sdiv 10;
          (subWindow, numWindows) =
            (if subWindow \<le> 0
             then let n = window sdiv 1000000 in (1000000, if n \<le> 0 then 1 else n)
             else (subWindow, 10))
      in \<lparr>sw_windowSize = subWindow, sw_windows = nat numWindows,
          sw_counts = replicate (nat numWindows) 0, sw_timestamps = replicate (nat numWindows) now,
          sw_limit = limit\<rparr>)"

definition currentWindow :: "slidingWindow \<Rightarrow> nat" where
  "currentWindow sw =
     fold (\<lambda>i latest. if sw_timestamps sw ! i > sw_timestamps sw ! latest then i else latest)
       [1..<sw_windows sw] 0"

definition advanceStep :: "slidingWindow \<Rightarrow> time \<Rightarrow> nat \<Rightarrow> nat \<times> int list \<times> time list \<Rightarrow> nat \<times> int list \<times> time list" where
  "advanceStep sw latestStart i st =
     (case st of (current, counts, timestamps) \<Rightarrow>
        let current = (current + 1) mod sw_windows sw
        in (current, counts[current := 0],
            timestamps[current := latestStart + (int i + 1) * sw_windowSize sw]))"

definition advance :: "slidingWindow \<Rightarrow> time \<Rightarrow> slidingWindow" where
  "advance sw now =
     (let current = currentWindow sw;
          latestStart = sw_timestamps sw ! current;
          elapsed = now - latestStart
      in if elapsed < sw_windowSize sw then sw
         else
           let steps = min (nat (elapsed sdiv sw_windowSize sw)) (sw_windows sw);
               (_, counts, timestamps) =
                 fold (advanceStep sw latestStart) [0..<steps] (current, sw_counts sw, sw_timestamps sw)
           in sw\<lparr>sw_counts := counts, sw_timestamps := timestamps\<rparr>)"

definition totalCount :: "slidingWindow \<Rightarrow> time \<Rightarrow> int" where
  "totalCount sw now =
     (let cutoff = now - int (sw_windows sw) * sw_windowSize sw
      in fold (\<lambda>i total. if sw_timestamps sw ! i > cutoff then total + sw_counts sw ! i else total)
           [0..<sw_windows sw] 0)"

definition SlidingWindow_AllowN :: "slidingWindow \<Rightarrow> int \<Rightarrow> time \<times> time \<Rightarrow> bool \<times> slidingWindow" where
  "SlidingWindow_AllowN sw n ts =
     (let sw = advance sw (fst ts);
          total = totalCount sw (snd ts)
      in if total + n > sw_limit sw then (False, sw)
         else
           let i = currentWindow sw
           in (True, sw\<lparr>sw_counts := (sw_counts sw)[i := sw_counts sw ! i + n]\<rparr>))"

definition SlidingWindow_Allow :: "slidingWindow \<Rightarrow> time \<times> time \<Rightarrow> bool \<times> slidingWindow" where
  "SlidingWindow_Allow sw ts = SlidingWindow_AllowN sw 1 ts"

definition SlidingWindow_Count :: "slidingWindow \<Rightarrow> time \<times> time \<Rightarrow> int \<times> slidingWindow" where
  "SlidingWindow_Count sw ts = (let sw = advance sw (fst ts) in (totalCount sw (snd ts), sw))"

section \<open>One limiter per key\<close>

record slidingRateLimiter =
  swrl_limiters :: "(string, slidingWindow) gomap"
  swrl_limit :: int
  swrl_window :: duration

definition NewSlidingWindowRateLimiter :: "int \<Rightarrow> duration \<Rightarrow> slidingRateLimiter" where
  "NewSlidingWindowRateLimiter limit window =
     \<lparr>swrl_limiters = [], swrl_limit = limit, swrl_window = window\<rparr>"

definition swrl_getLimiter :: "slidingRateLimiter \<Rightarrow> string \<Rightarrow> time \<Rightarrow> slidingWindow \<times> slidingRateLimiter" where
  "swrl_getLimiter rl key now =
     (case gm_get (swrl_limiters rl) key of
        Some l \<Rightarrow> (l, rl)
      | None \<Rightarrow>
          let l = NewSlidingWindow (swrl_limit rl) (swrl_window rl) now
          in (l, rl\<lparr>swrl_limiters := gm_set (swrl_limiters rl) key l\<rparr>))"

definition SlidingWindowRateLimiter_Allow ::
  "slidingRateLimiter \<Rightarrow> string \<Rightarrow> time \<times> time \<times> time \<Rightarrow> bool \<times> slidingRateLimiter" where
  "SlidingWindowRateLimiter_Allow rl key ts =
     (case swrl_getLimiter rl key (fst ts) of (l, rl) \<Rightarrow>
      case SlidingWindow_Allow l (snd ts) of (b, l) \<Rightarrow>
        (b, rl\<lparr>swrl_limiters := gm_set (swrl_limiters rl) key l\<rparr>))"

definition SlidingWindowRateLimiter_Cleanup ::
  "slidingRateLimiter \<Rightarrow> duration \<Rightarrow> time \<Rightarrow> string list \<Rightarrow> slidingRateLimiter" where
  "SlidingWindowRateLimiter_Cleanup rl maxAge now ord =
     (let cutoff = now - maxAge
      in rl\<lparr>swrl_limiters :=
              fold (\<lambda>(key, l) m. if sw_timestamps l ! currentWindow l < cutoff then gm_del m key else m)
                (gm_range (swrl_limiters rl) ord) (swrl_limiters rl)\<rparr>)"

definition swrl_view :: "slidingRateLimiter \<Rightarrow> string \<Rightarrow> int \<times> duration \<times> slidingWindow option" where
  "swrl_view rl key = (swrl_limit rl, swrl_window rl, gm_get (swrl_limiters rl) key)"

fun single_window ::
  "time \<times> time \<times> time \<Rightarrow> int \<times> duration \<times> slidingWindow option \<Rightarrow> bool \<times> int \<times> duration \<times> slidingWindow option" where
  "single_window ts (limit, window, lo) =
     (let l = (case lo of None \<Rightarrow> NewSlidingWindow limit window (fst ts) | Some l \<Rightarrow> l)
      in case SlidingWindow_Allow l (snd ts) of (b, l') \<Rightarrow> (b, limit, window, Some l'))"

interpretation ksw: keyed_limiter SlidingWindowRateLimiter_Allow swrl_view single_window
  by unfold_locales
    (auto simp: swrl_view_def SlidingWindowRateLimiter_Allow_def swrl_getLimiter_def Let_def
      split: option.splits prod.splits)

section \<open>Requests over time\<close>

text \<open>The admitted requests of a run, newest first, with the times of admission.\<close>

fun sw_run :: "slidingWindow \<Rightarrow> (time \<times> int) list \<Rightarrow> (time \<times> int) list \<Rightarrow> (time \<times> int) list" where
  "sw_run sw hist [] = hist"
| "sw_run sw hist ((t, n) # cs) =
     (case SlidingWindow_AllowN sw n (t, t) of (b, sw) \<Rightarrow> sw_run sw (if b then (t, n) # hist else hist) cs)"

definition count_in :: "(time \<Rightarrow> bool) \<Rightarrow> (time \<times> int) list \<Rightarrow> int" where
  "count_in p hist = sum_list (map (\<lambda>(s, n). if p s then n else 0) hist)"

lemma count_in_simps [simp]:
  "count_in p [] = 0" "count_in p ((s, n) # hist) = (if p s then n else 0) + count_in p hist"
  by (simp_all add: count_in_def)

lemma count_in_mono:
  assumes "\<And>s n. (s, n) \<in> set hist \<Longrightarrow> 0 \<le> n \<and> (p s \<longrightarrow> q s)"
  shows "count_in p hist \<le> count_in q hist"
  using assms
proof (induction hist)
  case (Cons a hist)
  obtain s n where "a = (s, n)" by (cases a)
  then show ?case using Cons.IH Cons.prems [of s n] Cons.prems by fastforce
qed simp

lemma count_in_cong: "(\<And>s n. (s, n) \<in> set hist \<Longrightarrow> p s = q s) \<Longrightarrow> count_in p hist = count_in q hist"
  unfolding count_in_def by (intro arg_cong [of _ _ sum_list] map_cong) auto

text \<open>The slot that is \<open>j\<close> sub-windows older than the current one.\<close>

definition slot :: "nat \<Rightarrow> nat \<Rightarrow> nat \<Rightarrow> nat" where
  "slot w p j = (p + w - j) mod w"

lemma slot_lt: "0 < w \<Longrightarrow> slot w p j < w"
  by (simp add: slot_def)

lemma slot_0: "p < w \<Longrightarrow> slot w p 0 = p"
  by (simp add: slot_def)

lemma slot_next_0: "0 < w \<Longrightarrow> slot w ((p + 1) mod w) 0 = (p + 1) mod w"
  by (simp add: slot_def)

lemma slot_if: "j < w \<Longrightarrow> p < w \<Longrightarrow> slot w p j = (if j \<le> p then p - j else p + w - j)"
  by (auto simp: slot_def mod_if)

lemma slot_next_Suc:
  assumes "p < w" and "Suc j < w"
  shows "slot w ((p + 1) mod w) (Suc j) = slot w p j"
proof (cases "p + 1 < w")
  case True
  then show ?thesis using assms slot_if [of "Suc j" w "p + 1"] slot_if [of j w p] by simp
next
  case False
  then have "p + 1 = w" using assms by simp
  then show ?thesis using assms slot_if [of "Suc j" w 0] slot_if [of j w p] by simp
qed

lemma slot_inj:
  assumes "i < w" and "j < w" and "p < w" and "slot w p i = slot w p j"
  shows "i = j"
  using assms slot_if [of i w p] slot_if [of j w p] by (auto split: if_splits)

lemma slot_surj:
  assumes "i < w" and "p < w"
  obtains j where "j < w" and "slot w p j = i"
proof (cases "i \<le> p")
  case True
  then show ?thesis using assms slot_if [of "p - i" w p] by (intro that [of "p - i"]) auto
next
  case False
  then show ?thesis using assms slot_if [of "p + w - i" w p] by (intro that [of "p + w - i"]) auto
qed

lemma slot_bij:
  assumes "p < w"
  shows "bij_betw (slot w p) {..<w} {..<w}"
proof (rule bij_betwI')
  show "slot w p i = slot w p j \<longleftrightarrow> i = j" if "i \<in> {..<w}" "j \<in> {..<w}" for i j
    using that slot_inj assms by blast
  show "slot w p i \<in> {..<w}" if "i \<in> {..<w}" for i
    using assms slot_lt [of w p i] by simp
  show "\<exists>j \<in> {..<w}. i = slot w p j" if "i \<in> {..<w}" for i
    using that assms slot_surj [of i w p] by blast
qed

section \<open>The ring of sub-windows\<close>

text \<open>
  The limiter after the admissions \<open>hist\<close>: the current slot is \<open>p\<close>, its sub-window starts at \<open>l\<close>, and the
  slot \<open>j\<close> sub-windows back counts exactly the requests admitted in its sub-window.  Slots
  not yet used still carry the creation time \<open>t0\<close>.
\<close>

definition ring :: "nat \<Rightarrow> duration \<Rightarrow> time \<Rightarrow> nat \<Rightarrow> time \<Rightarrow> int list \<Rightarrow> time list \<Rightarrow> (time \<times> int) list \<Rightarrow> bool" where
  "ring w ws t0 p l counts ts hist =
     (p < w \<and> 0 < ws \<and> t0 \<le> l \<and> (l = t0 \<longrightarrow> p = 0) \<and> length counts = w \<and> length ts = w \<and>
      (\<forall>j < w. ts ! slot w p j = max t0 (l - int j * ws)) \<and>
      (\<forall>j < w. counts ! slot w p j = count_in (\<lambda>s. l - int j * ws \<le> s \<and> s < l - int j * ws + ws) hist) \<and>
      (\<forall>(s, n) \<in> set hist. t0 \<le> s \<and> s < l + ws \<and> 0 \<le> n))"

lemma ring_step:
  assumes "ring w ws t0 p l counts ts hist"
  shows "ring w ws t0 ((p + 1) mod w) (l + ws) (counts[(p + 1) mod w := 0])
           (ts[(p + 1) mod w := l + ws]) hist"
proof -
  let ?p = "(p + 1) mod w"
  note r = assms [unfolded ring_def]
  have w: "0 < w" "?p < w" using r by auto
  have other: "slot w ?p (Suc j) \<noteq> ?p" if "Suc j < w" for j
    using slot_inj [of "Suc j" w 0 ?p] slot_next_0 [of w p] that w by auto
  have shift: "l + ws - (1 + int j) * ws = l - int j * ws" for j by (simp add: algebra_simps)
  have none: "count_in (\<lambda>s. l + ws \<le> s \<and> s < l + ws + ws) hist = 0"
  proof -
    have "count_in (\<lambda>s. l + ws \<le> s \<and> s < l + ws + ws) hist = count_in (\<lambda>_. False) hist"
      using r by (intro count_in_cong) auto
    also have "\<dots> = 0" by (induction hist) auto
    finally show ?thesis .
  qed
  have "(ts[?p := l + ws]) ! slot w ?p j = max t0 (l + ws - int j * ws) \<and>
      (counts[?p := 0]) ! slot w ?p j
        = count_in (\<lambda>s. l + ws - int j * ws \<le> s \<and> s < l + ws - int j * ws + ws) hist" if "j < w" for j
  proof (cases j)
    case 0
    then show ?thesis using r w none by (simp only: slot_next_0) simp
  next
    case (Suc i)
    have old: "xs[?p := x] ! slot w ?p j = xs ! slot w p i" for xs :: "int list" and x
      using other [of i] slot_next_Suc [of p w i] that Suc r by (metis nth_list_update_neq)
    have new: "l + ws - int j * ws = l - int i * ws" using shift [of i] Suc by simp
    show ?thesis unfolding old new using that Suc r by simp
  qed
  then show ?thesis using r w unfolding ring_def by fastforce
qed

lemma ring_steps:
  assumes "ring w ws t0 p l counts ts hist" and "sw_windows sw = w" and "sw_windowSize sw = ws"
    and "fold (advanceStep sw l) [0..<k] (p, counts, ts) = (p', counts', ts')"
  shows "ring w ws t0 p' (l + int k * ws) counts' ts' hist"
  using assms(4)
proof (induction k arbitrary: p' counts' ts')
  case 0
  then show ?case using assms(1) by simp
next
  case (Suc k)
  obtain p1 c1 t1 where f: "fold (advanceStep sw l) [0..<k] (p, counts, ts) = (p1, c1, t1)"
    by (cases "fold (advanceStep sw l) [0..<k] (p, counts, ts)")
  have "ring w ws t0 ((p1 + 1) mod w) (l + int k * ws + ws) (c1[(p1 + 1) mod w := 0])
      (t1[(p1 + 1) mod w := l + int k * ws + ws]) hist"
    using Suc.IH [OF f] by (rule ring_step)
  moreover have "(p', counts', ts') = advanceStep sw l k (p1, c1, t1)" using Suc.prems f by simp
  ultimately show ?case using assms(2,3) by (simp add: advanceStep_def Let_def algebra_simps)
qed

lemma fold_latest:
  assumes "\<forall>i \<in> set is. (ts ! i :: time) < ts ! p \<or> i = p" and "b = p \<or> (p \<in> set is \<and> ts ! b < ts ! p)"
  shows "fold (\<lambda>i latest. if ts ! i > ts ! latest then i else latest) is b = p"
  using assms by (induction "is" arbitrary: b) auto

lemma fold_latest_same:
  assumes "\<forall>i \<in> set is. (ts ! i :: time) = ts ! b"
  shows "fold (\<lambda>i latest. if ts ! i > ts ! latest then i else latest) is b = b"
  using assms by (induction "is") auto

text \<open>A limiter whose fields form a ring.\<close>

definition sw_ring :: "slidingWindow \<Rightarrow> time \<Rightarrow> nat \<Rightarrow> time \<Rightarrow> (time \<times> int) list \<Rightarrow> bool" where
  "sw_ring sw t0 p l hist =
     ring (sw_windows sw) (sw_windowSize sw) t0 p l (sw_counts sw) (sw_timestamps sw) hist"

lemma ring_timestamp:
  assumes "ring w ws t0 p l counts ts hist" and "i < w"
  shows "i = p \<and> ts ! i = l \<or> i \<noteq> p \<and> t0 \<le> ts ! i \<and> (ts ! i < l \<or> l = t0 \<and> ts ! i = l)"
proof -
  note r = assms(1) [unfolded ring_def]
  obtain j where j: "j < w" "slot w p j = i" using slot_surj [OF assms(2), of p] r by blast
  have v: "ts ! i = max t0 (l - int j * ws)" using r j by blast
  show ?thesis
  proof (cases j)
    case 0
    then show ?thesis using v j r slot_0 [of p w] by auto
  next
    case (Suc k)
    then have "0 < int j * ws" using r by simp
    moreover have "i \<noteq> p" using slot_inj [of j w 0 p] slot_0 [of p w] j Suc r by auto
    ultimately show ?thesis using v r by auto
  qed
qed

lemma ring_currentWindow:
  assumes "sw_ring sw t0 p l hist"
  shows "currentWindow sw = p" and "sw_timestamps sw ! p = l"
proof -
  note r = assms [unfolded sw_ring_def]
  note t = ring_timestamp [OF r]
  have p: "p < sw_windows sw" "l = t0 \<longrightarrow> p = 0" using r by (auto simp: ring_def)
  show "sw_timestamps sw ! p = l" using t [OF p(1)] by auto
  show "currentWindow sw = p"
  proof (cases "l = t0")
    case True
    then have "\<forall>i \<in> set [1..<sw_windows sw]. sw_timestamps sw ! i = sw_timestamps sw ! 0"
      using t p by (metis atLeastLessThan_iff bot_nat_0.not_eq_extremum less_le_not_le order_antisym_conv set_upt)
    then show ?thesis unfolding currentWindow_def using True p by (simp add: fold_latest_same)
  next
    case False
    have "\<forall>i \<in> set [1..<sw_windows sw]. sw_timestamps sw ! i < sw_timestamps sw ! p \<or> i = p"
      using t [OF p(1)] t False by fastforce
    moreover have "0 = p \<or> p \<in> set [1..<sw_windows sw] \<and> sw_timestamps sw ! 0 < sw_timestamps sw ! p"
      using t [OF p(1)] t [of 0] False p by (cases "p = 0") auto
    ultimately show ?thesis unfolding currentWindow_def by (rule fold_latest)
  qed
qed

text \<open>When the limiter is at most one full turn behind the clock, \<open>advance\<close> catches up.\<close>

lemma advance_catches_up:
  assumes "sw_ring sw t0 p l hist" and "l \<le> now"
    and "now - l < (int (sw_windows sw) + 1) * sw_windowSize sw"
  obtains p' l' where "sw_ring (advance sw now) t0 p' l' hist" and "l' \<le> now" and "now < l' + sw_windowSize sw"
    and "l \<le> l'" and "advance sw now = sw\<lparr>sw_counts := sw_counts (advance sw now), sw_timestamps := sw_timestamps (advance sw now)\<rparr>"
proof (cases "now - l < sw_windowSize sw")
  case True
  then have "advance sw now = sw" using ring_currentWindow [OF assms(1)] by (simp add: advance_def)
  then show ?thesis using that [of p l] assms True by simp
next
  case False
  let ?ws = "sw_windowSize sw" and ?k = "nat ((now - l) div sw_windowSize sw)"
  have ws: "0 < ?ws" using assms(1) by (simp add: sw_ring_def ring_def)
  have q: "(now - l) sdiv ?ws = (now - l) div ?ws"
    using False ws by (simp add: signed_divide_int_def sgn_if)
  have d: "0 \<le> (now - l) div ?ws" using ws assms(2) by (simp add: pos_imp_zdiv_nonneg_iff)
  have "(now - l) div ?ws * ?ws < (int (sw_windows sw) + 1) * ?ws"
    using assms(3) ws div_mult_mod_eq [of "now - l" ?ws] pos_mod_sign [OF ws, of "now - l"] by linarith
  then have "(now - l) div ?ws < int (sw_windows sw) + 1" using ws by (simp only: mult_less_cancel_right_pos)
  then have m: "min (nat ((now - l) sdiv ?ws)) (sw_windows sw) = ?k" using q d by simp
  obtain p' c' t' where f: "fold (advanceStep sw l) [0..<?k] (p, sw_counts sw, sw_timestamps sw) = (p', c', t')"
    by (cases "fold (advanceStep sw l) [0..<?k] (p, sw_counts sw, sw_timestamps sw)")
  have a: "advance sw now = sw\<lparr>sw_counts := c', sw_timestamps := t'\<rparr>"
    using False ring_currentWindow [OF assms(1)] m f by (simp add: advance_def Let_def)
  have "ring (sw_windows sw) ?ws t0 p' (l + int ?k * ?ws) c' t' hist"
    using ring_steps [OF assms(1) [unfolded sw_ring_def] refl refl f] .
  moreover have "l + int ?k * ?ws \<le> now" "now < l + int ?k * ?ws + ?ws"
    using d div_mult_mod_eq [of "now - l" ?ws] pos_mod_bound [OF ws, of "now - l"]
      pos_mod_sign [OF ws, of "now - l"] by (simp_all only: int_nat_eq if_True)
  ultimately show ?thesis using that [of p' "l + int ?k * ?ws"] a d ws by (simp add: sw_ring_def)
qed

section \<open>The bound on admitted requests\<close>

lemma count_in_slots:
  assumes "0 < ws"
  shows "(\<Sum>j<k. if l - int j * ws \<le> s \<and> s < l - int j * ws + ws then n else 0)
           = (if l - int k * ws + ws \<le> s \<and> s < l + ws then n else (0 :: int))"
proof (induction k)
  case (Suc k)
  define m where "m = int k * ws"
  have m: "0 \<le> m" "int (Suc k) * ws = m + ws" using assms by (simp_all add: m_def algebra_simps)
  show ?case unfolding sum.lessThan_Suc Suc.IH m(2) m_def [symmetric] using assms m(1) by auto
qed auto

lemma sum_slots_count:
  assumes "0 < ws"
  shows "(\<Sum>j<k. count_in (\<lambda>s. l - int j * ws \<le> s \<and> s < l - int j * ws + ws) hist)
           = count_in (\<lambda>s. l - int k * ws + ws \<le> s \<and> s < l + ws) hist"
proof (induction hist)
  case (Cons a hist)
  obtain s n where "a = (s, n)" by (cases a)
  then show ?case using Cons.IH count_in_slots [OF assms, of l s n k] by (simp add: sum.distrib)
qed simp

lemma ring_total:
  assumes "sw_ring sw t0 p l hist" and "now < l + sw_windowSize sw"
  shows "totalCount sw now
           = count_in (\<lambda>s. l - int (sw_windows sw) * sw_windowSize sw + sw_windowSize sw \<le> s) hist"
proof -
  let ?w = "sw_windows sw" and ?ws = "sw_windowSize sw"
  note r = assms(1) [unfolded sw_ring_def ring_def]
  have recent: "now - int ?w * ?ws < sw_timestamps sw ! i" if "i < ?w" for i
  proof -
    note i = that
    obtain j where j: "j < ?w" "slot ?w p j = i" using slot_surj [OF i, of p] r by blast
    have "(int j + 1) * ?ws \<le> int ?w * ?ws" using j r by (intro mult_right_mono) auto
    then have "now - int ?w * ?ws < l - int j * ?ws" using assms(2) by (simp add: distrib_right)
    moreover have "sw_timestamps sw ! i = max t0 (l - int j * ?ws)" using r j by blast
    ultimately show ?thesis by simp
  qed
  have all: "fold (\<lambda>i total. if sw_timestamps sw ! i > now - int ?w * ?ws then total + sw_counts sw ! i else total)
      is a = a + sum_list (map ((!) (sw_counts sw)) is)" if "\<forall>i \<in> set is. i < ?w" for "is" a
    using that recent by (induction "is" arbitrary: a) auto
  have "totalCount sw now = sum_list (map ((!) (sw_counts sw)) [0..<?w])"
    using all [of "[0..<?w]" 0] by (simp add: totalCount_def Let_def)
  also have "\<dots> = (\<Sum>i<?w. sw_counts sw ! i)" by (simp add: sum_list_sum_nth atLeast0LessThan)
  also have "\<dots> = (\<Sum>j<?w. sw_counts sw ! slot ?w p j)"
    using sum.reindex_bij_betw [OF slot_bij, of p ?w "(!) (sw_counts sw)"] r by simp
  also have "\<dots> = (\<Sum>j<?w. count_in (\<lambda>s. l - int j * ?ws \<le> s \<and> s < l - int j * ?ws + ?ws) hist)"
    using r by (intro sum.cong) auto
  also have "\<dots> = count_in (\<lambda>s. l - int ?w * ?ws + ?ws \<le> s \<and> s < l + ?ws) hist"
    using r by (intro sum_slots_count) simp
  also have "\<dots> = count_in (\<lambda>s. l - int ?w * ?ws + ?ws \<le> s) hist"
    using r by (intro count_in_cong) auto
  finally show ?thesis .
qed

text \<open>The property the limiter maintains: every span of \<open>windows - 1\<close> sub-windows holds at most
  \<open>limit\<close> admitted requests.\<close>

definition within_limit :: "slidingWindow \<Rightarrow> (time \<times> int) list \<Rightarrow> bool" where
  "within_limit sw hist =
     (\<forall>t. count_in (\<lambda>s. t - (int (sw_windows sw) - 1) * sw_windowSize sw < s \<and> s \<le> t) hist \<le> sw_limit sw)"

lemma ring_admit:
  assumes "sw_ring sw t0 p l hist" and "l \<le> now" and "now < l + sw_windowSize sw" and "0 \<le> n"
  shows "sw_ring (sw\<lparr>sw_counts := (sw_counts sw)[p := sw_counts sw ! p + n]\<rparr>) t0 p l ((now, n) # hist)"
proof -
  let ?w = "sw_windows sw" and ?ws = "sw_windowSize sw"
  note r = assms(1) [unfolded sw_ring_def ring_def]
  have "((sw_counts sw)[p := sw_counts sw ! p + n]) ! slot ?w p j
      = count_in (\<lambda>s. l - int j * ?ws \<le> s \<and> s < l - int j * ?ws + ?ws) ((now, n) # hist)" if "j < ?w" for j
  proof (cases j)
    case 0
    have "sw_counts sw ! p = count_in (\<lambda>s. l - int 0 * ?ws \<le> s \<and> s < l - int 0 * ?ws + ?ws) hist"
      using r slot_0 [of p ?w] by (metis gr_zeroI less_nat_zero_code)
    then show ?thesis using 0 r assms slot_0 [of p ?w] by simp
  next
    case (Suc i)
    then have "slot ?w p j \<noteq> p" using slot_inj [of j ?w 0 p] slot_0 [of p ?w] that r by auto
    moreover have "0 \<le> int i * ?ws" using r by simp
    then have "\<not> now < l - int j * ?ws + ?ws" using assms(2) Suc by (simp add: algebra_simps)
    ultimately show ?thesis using r that by simp
  qed
  then show ?thesis using r assms unfolding sw_ring_def ring_def by auto
qed

lemma sw_step:
  assumes "sw_ring sw t0 p l hist" and "within_limit sw hist" and "\<forall>(s, n) \<in> set hist. s \<le> now"
    and "l \<le> now" and "now - l < (int (sw_windows sw) + 1) * sw_windowSize sw" and "0 \<le> n" and "1 < sw_windows sw"
    and "SlidingWindow_AllowN sw n (now, now) = (b, sw')" and "hist' = (if b then (now, n) # hist else hist)"
  obtains p' l' where "sw_ring sw' t0 p' l' hist'" and "within_limit sw' hist'" and "l' \<le> now"
    and "now < l' + sw_windowSize sw" and "sw_windows sw' = sw_windows sw"
    and "sw_windowSize sw' = sw_windowSize sw" and "sw_limit sw' = sw_limit sw"
proof -
  obtain p' l' where a: "sw_ring (advance sw now) t0 p' l' hist" "l' \<le> now" "now < l' + sw_windowSize sw"
      "advance sw now = sw\<lparr>sw_counts := sw_counts (advance sw now), sw_timestamps := sw_timestamps (advance sw now)\<rparr>"
    using advance_catches_up [OF assms(1,4,5)] by metis
  define sa where "sa = advance sw now"
  let ?w = "sw_windows sw" and ?ws = "sw_windowSize sw"
  have fr: "sw_windows sa = ?w" "sw_windowSize sa = ?ws" "sw_limit sa = sw_limit sw"
    using a(4) unfolding sa_def [symmetric] by (metis slidingWindow.select_convs slidingWindow.surjective
        slidingWindow.update_convs)+
  have rs: "sw_ring sa t0 p' l' hist" using a(1) by (simp add: sa_def)
  have tot: "totalCount sa now = count_in (\<lambda>s. l' - int ?w * ?ws + ?ws \<le> s) hist"
    using ring_total [OF rs, of now] a(3) fr by simp
  have lim: "within_limit sa hist" using assms(2) fr by (simp add: within_limit_def)
  show ?thesis
  proof (cases "totalCount sa now + n > sw_limit sa")
    case True
    then have "sw' = sa" "hist' = hist" using assms(8,9) by (simp_all add: SlidingWindow_AllowN_def sa_def Let_def)
    then show ?thesis using that [of p' l'] rs lim a fr by simp
  next
    case False
    then have s': "sw' = sa\<lparr>sw_counts := (sw_counts sa)[p' := sw_counts sa ! p' + n]\<rparr>" and h: "hist' = (now, n) # hist"
      using assms(8,9) ring_currentWindow(1) [OF rs]
      by (auto simp: SlidingWindow_AllowN_def sa_def [symmetric] Let_def)
    have nn: "0 \<le> m" if "(s, m) \<in> set hist" for s m using that assms(1) by (auto simp: sw_ring_def ring_def)
    have "count_in (\<lambda>s. t - (int ?w - 1) * ?ws < s \<and> s \<le> t) hist' \<le> sw_limit sw" for t
    proof (cases "now \<le> t")
      case True
      have "count_in (\<lambda>s. t - (int ?w - 1) * ?ws < s \<and> s \<le> t) hist
          \<le> count_in (\<lambda>s. l' - int ?w * ?ws + ?ws \<le> s) hist"
        using True nn a(2) by (intro count_in_mono) (auto simp: left_diff_distrib)
      then show ?thesis using False tot fr h assms(6) by auto
    next
      case False
      then show ?thesis using assms(2) h by (auto simp: within_limit_def)
    qed
    then have "within_limit sw' hist'" using s' fr by (simp add: within_limit_def)
    moreover have "sw_ring sw' t0 p' l' hist'"
      using ring_admit [OF rs a(2) _ assms(6)] a(3) fr s' h by simp
    ultimately show ?thesis using that [of p' l'] a fr s' by simp
  qed
qed

text \<open>The calls of a run never leave the limiter idle for longer than its window.\<close>

fun no_long_idle :: "duration \<Rightarrow> time \<Rightarrow> (time \<times> int) list \<Rightarrow> bool" where
  "no_long_idle d t [] = True"
| "no_long_idle d t ((t', n) # cs) = (t \<le> t' \<and> t' - t \<le> d \<and> 0 \<le> n \<and> no_long_idle d t' cs)"

lemma sw_run_within_limit:
  assumes "sw_ring sw t0 p l hist" and "within_limit sw hist" and "\<forall>(s, n) \<in> set hist. s \<le> t"
    and "l \<le> t" and "t < l + sw_windowSize sw" and "1 < sw_windows sw"
    and "no_long_idle (int (sw_windows sw) * sw_windowSize sw) t cs"
  shows "within_limit sw (sw_run sw hist cs)"
  using assms
proof (induction cs arbitrary: sw p l hist t)
  case (Cons c cs)
  obtain t' n where c: "c = (t', n)" by (cases c)
  obtain b sw' where a: "SlidingWindow_AllowN sw n (t', t') = (b, sw')"
    by (cases "SlidingWindow_AllowN sw n (t', t')")
  have i: "t \<le> t'" "t' - t \<le> int (sw_windows sw) * sw_windowSize sw" "0 \<le> n"
    "no_long_idle (int (sw_windows sw) * sw_windowSize sw) t' cs"
    using Cons.prems(7) c by simp_all
  have g1: "t' - l < (int (sw_windows sw) + 1) * sw_windowSize sw" using i Cons.prems(5) by (simp add: distrib_right)
  have g2: "\<forall>(s, n) \<in> set hist. s \<le> t'" using Cons.prems(3) i(1) by auto
  have g3: "l \<le> t'" using Cons.prems(4) i(1) by simp
  obtain p' l' where s: "sw_ring sw' t0 p' l' (if b then (t', n) # hist else hist)"
    "within_limit sw' (if b then (t', n) # hist else hist)" "l' \<le> t'" "t' < l' + sw_windowSize sw"
    "sw_windows sw' = sw_windows sw" "sw_windowSize sw' = sw_windowSize sw" "sw_limit sw' = sw_limit sw"
    using sw_step [OF Cons.prems(1,2) g2 g3 g1 i(3) Cons.prems(6) a refl] .
  have "within_limit sw' (sw_run sw' (if b then (t', n) # hist else hist) cs)"
    using s Cons.prems(3,6) i by (intro Cons.IH [of sw' p' l' _ t']) auto
  then show ?case using s by (simp add: c a within_limit_def)
qed simp

lemma NewSlidingWindow_ring:
  assumes "10 \<le> window"
  shows "sw_ring (NewSlidingWindow limit window t0) t0 0 t0 []"
    and "sw_windows (NewSlidingWindow limit window t0) = 10"
    and "sw_windowSize (NewSlidingWindow limit window t0) = window div 10"
    and "sw_limit (NewSlidingWindow limit window t0) = (if limit \<le> 0 then 1 else limit)"
proof -
  have q: "window sdiv 10 = window div 10" "0 < window div 10"
    using assms by (simp_all add: signed_divide_int_def sgn_if)
  show p: "sw_windows (NewSlidingWindow limit window t0) = 10"
    "sw_windowSize (NewSlidingWindow limit window t0) = window div 10"
    "sw_limit (NewSlidingWindow limit window t0) = (if limit \<le> 0 then 1 else limit)"
    using q by (simp_all add: NewSlidingWindow_def Let_def)
  have "sw_counts (NewSlidingWindow limit window t0) = replicate 10 0"
    "sw_timestamps (NewSlidingWindow limit window t0) = replicate 10 t0"
    using q by (simp_all add: NewSlidingWindow_def Let_def)
  then show "sw_ring (NewSlidingWindow limit window t0) t0 0 t0 []"
    using q slot_lt [of 10 0] by (simp only: sw_ring_def ring_def p) simp
qed



text \<open>
  Sliding-window keys are independent: in any interleaving of calls the answers for one key are
  those of a window of its own.
\<close>

lemma sliding_window_isolates_keys:
  "for_key key (run_keyed SlidingWindowRateLimiter_Allow (NewSlidingWindowRateLimiter limit window) calls)
     = run_single single_window (limit, window, None) (for_key key calls)"
  using ksw.isolation [of key "NewSlidingWindowRateLimiter limit window" calls]
  by (simp add: swrl_view_def NewSlidingWindowRateLimiter_def)

text \<open>
  After a long idle period the limiter is more than one turn behind the clock; each \<open>advance\<close> moves it
  at most one window, and the requests it admits meanwhile fall outside the counted span: a limiter
  of five requests per ten milliseconds admits forty-five requests at one instant.
\<close>

lemma sliding_window_overadmits_after_idle:
  "sw_run (NewSlidingWindow 5 10000000 0) [] (replicate 9 (100000000, 5))
     = replicate 9 (100000000, 5)"
  by code_simp

end
