(* ===== verification/Auth.thy ===== *)
theory Auth
  imports Gateway_Config
begin

text \<open>
  Authentication (\<open>internal/auth/auth.go\<close>, \<open>internal/auth/jwt.go\<close>): the provider chain, the
  API-key provider, the JWT provider and the checks on its static key set.

  The JWT and JWKS libraries are not part of the repository: \<open>jwt.ParseWithClaims\<close> and
  \<open>keyfunc.NewJWKSetJSON\<close> are parameters.  A JSON document enters as its decoded
  members.
\<close>

section \<open>Requests\<close>

record TenantContext =
  tc_TenantID :: string
  tc_APIKeyID :: string
  tc_Scopes :: "string list"
  tc_Metadata :: strmap

text \<open>The parts of \<open>http.Request\<close> the gateway reads, with the tenant its context carries.  Header
  names are stored in lower case, since look-up ignores case.\<close>

record request =
  rq_Method :: string
  rq_Path :: string
  rq_Host :: string
  rq_RemoteAddr :: string
  rq_Header :: strmap
  rq_Tenant :: "TenantContext option"

definition Header_Get :: "request \<Rightarrow> string \<Rightarrow> string" where
  "Header_Get r name = gm_get_or [] (rq_Header r) (ToLower name)"

definition TenantFromContext :: "request \<Rightarrow> TenantContext option" where
  "TenantFromContext r = rq_Tenant r"

definition ContextWithTenant :: "request \<Rightarrow> TenantContext \<Rightarrow> request" where
  "ContextWithTenant r tc = r\<lparr>rq_Tenant := Some tc\<rparr>"

section \<open>Scopes\<close>

definition HasScope :: "TenantContext option \<Rightarrow> string \<Rightarrow> bool" where
  "HasScope tc required =
     (case tc of
        None \<Rightarrow> False
      | Some t \<Rightarrow> required \<noteq> [] \<and> (\<exists>scope \<in> set (tc_Scopes t). scope = ''*'' \<or> scope = required))"

section \<open>The API-key provider\<close>

record apiKeyProvider =
  ak_cfg :: AuthProviderConfig
  ak_keys :: "(string, TenantContext) gomap"

definition keyTenant :: "nat \<Rightarrow> TenantContext" where
  "keyTenant i =
     \<lparr>tc_TenantID = ''tenant-'' @ fmt_nat i, tc_APIKeyID = ''key-'' @ fmt_nat i,
      tc_Scopes = [''*''], tc_Metadata = []\<rparr>"

fun loadKeys :: "nat \<Rightarrow> string list \<Rightarrow> (string, TenantContext) gomap \<Rightarrow> (string, TenantContext) gomap" where
  "loadKeys i [] m = m"
| "loadKeys i (key # keys) m = loadKeys (Suc i) keys (gm_set m key (keyTenant i))"

definition NewAPIKeyProvider :: "AuthProviderConfig \<Rightarrow> apiKeyProvider" where
  "NewAPIKeyProvider cfg =
     \<lparr>ak_cfg = cfg,
      ak_keys =
        (if ap_Keys cfg \<noteq> [] then loadKeys 0 (ap_Keys cfg) []
         else if ap_SecretRef cfg \<noteq> [] then
           gm_set (gm_set [] ''test-key-1''
             \<lparr>tc_TenantID = ''test-tenant'', tc_APIKeyID = ''key-1'',
              tc_Scopes = [''sandbox:read'', ''sandbox:write'', ''template:read''], tc_Metadata = []\<rparr>)
             ''test-key-admin''
             \<lparr>tc_TenantID = ''admin-tenant'', tc_APIKeyID = ''key-admin'', tc_Scopes = [''*''], tc_Metadata = []\<rparr>
         else [])\<rparr>"

text \<open>The key a request presents: the configured header, else the alternate one.\<close>

definition presentedKey :: "AuthProviderConfig \<Rightarrow> request \<Rightarrow> string" where
  "presentedKey cfg r =
     (let headerName = (if ap_HeaderName cfg = [] then ''X-API-Key'' else ap_HeaderName cfg);
          key = Header_Get r headerName
      in if key = [] \<and> ap_AlternateHeader cfg \<noteq> [] then
           let authHeader = Header_Get r (ap_AlternateHeader cfg)
           in if ap_BearerPrefix cfg \<and> HasPrefix authHeader ''Bearer '' then TrimPrefix authHeader ''Bearer ''
              else if \<not> ap_BearerPrefix cfg then authHeader
              else key
         else key)"

definition APIKeyProvider_Authenticate :: "apiKeyProvider \<Rightarrow> request \<Rightarrow> TenantContext go_res" where
  "APIKeyProvider_Authenticate p r =
     (let key = presentedKey (ak_cfg p) r
      in if key = [] then Inl (Errorf ''no API key provided'' [])
         else case gm_get (ak_keys p) key of
                None \<Rightarrow> Inl (Errorf ''invalid API key'' [])
              | Some tc \<Rightarrow> Inr tc)"

definition APIKeyProvider_AddKey :: "apiKeyProvider \<Rightarrow> string \<Rightarrow> TenantContext \<Rightarrow> apiKeyProvider" where
  "APIKeyProvider_AddKey p key tc = p\<lparr>ak_keys := gm_set (ak_keys p) key tc\<rparr>"

definition APIKeyProvider_RemoveKey :: "apiKeyProvider \<Rightarrow> string \<Rightarrow> apiKeyProvider" where
  "APIKeyProvider_RemoveKey p key = p\<lparr>ak_keys := gm_del (ak_keys p) key\<rparr>"

section \<open>The JWT provider\<close>

text \<open>A decoded JSON member: a string, \<open>null\<close>, or a value of another type.\<close>

datatype json = JString string | JNull | JOther

type_synonym jwk = "(string, json) gomap"

definition jwkField :: "jwk \<Rightarrow> string \<Rightarrow> string" where
  "jwkField key name = (case gm_get key name of Some (JString v) \<Rightarrow> v | _ \<Rightarrow> [])"

definition validatePublicJWK :: "jwk \<Rightarrow> string list \<Rightarrow> (string list) go_res" where
  "validatePublicJWK key seen =
     (let kid = jwkField key ''kid''; kty = jwkField key ''kty''; alg = jwkField key ''alg''
      in if kid = [] \<or> TrimSpace kid \<noteq> kid then Inl (Errorf ''static jwks key needs a valid kid'' [])
         else if kid \<in> set seen then Inl (Errorf ''static jwks contains duplicate kid'' [])
         else
           let seen = kid # seen;
               hasAlg = gm_has key ''alg'';
               supported =
                 (if kty = ''RSA'' then \<not> hasAlg \<or> alg = ''RS256''
                  else if kty = ''EC'' then jwkField key ''crv'' = ''P-256'' \<and> (\<not> hasAlg \<or> alg = ''ES256'')
                  else False)
           in if \<not> supported then Inl (Errorf ''static jwks key has unsupported algorithm or type'' [])
              else if jwkField key ''use'' \<noteq> [] \<and> jwkField key ''use'' \<noteq> ''sig'' then
                Inl (Errorf ''static jwks key is not for signatures'' [])
              else if \<exists>f \<in> set [''d'', ''p'', ''q'', ''dp'', ''dq'', ''qi'', ''oth'', ''k'']. gm_has key f then
                Inl (Errorf ''static jwks must contain public keys only'' [])
              else Inr seen)"

fun validateJWKs :: "jwk list \<Rightarrow> string list \<Rightarrow> go_error option" where
  "validateJWKs [] seen = None"
| "validateJWKs (key # keys) seen =
     (case validatePublicJWK key seen of Inl e \<Rightarrow> Some e | Inr seen' \<Rightarrow> validateJWKs keys seen')"

definition parseStaticJWKS ::
  "(string \<Rightarrow> jwk list option) \<Rightarrow> (string \<Rightarrow> go_error + 'kf) \<Rightarrow> string \<Rightarrow> 'kf go_res" where
  "parseStaticJWKS unmarshal newJWKSet raw =
     (if length raw > 2 ^ 20 then Inl (Errorf ''static jwks is too large'' [])
      else case unmarshal raw of
             None \<Rightarrow> Inl (Errorf ''static jwks must contain public keys'' [])
           | Some keys \<Rightarrow>
               if keys = [] then Inl (Errorf ''static jwks must contain public keys'' [])
               else case validateJWKs keys [] of
                      Some e \<Rightarrow> Inl e
                    | None \<Rightarrow>
                        (case newJWKSet raw of
                           Inl e \<Rightarrow> Inl (Errorf ''invalid static jwks: %w'' [])
                         | Inr kf \<Rightarrow> Inr kf))"

record gatewayClaims =
  gc_Subject :: string
  gc_Scope :: string

text \<open>A parsed token: its key-id header member and the library's handle.\<close>

record jwtToken =
  tok_Kid :: "json option"
  tok_Raw :: string

record parserOptions =
  opt_ValidMethods :: "string list"
  opt_Issuer :: string
  opt_Audience :: string
  opt_ExpirationRequired :: bool
  opt_Leeway :: duration

record 'kf jwtProvider =
  jp_cfg :: AuthProviderConfig
  jp_keys :: 'kf

text \<open>The libraries: decoding a JWKS document, building a key set, resolving a key, parsing and
  verifying a token (the result says whether the token is valid).\<close>

record ('kf, 'key) jwtLib =
  lib_unmarshal :: "string \<Rightarrow> jwk list option"
  lib_newJWKSet :: "string \<Rightarrow> go_error + 'kf"
  lib_keyfunc :: "'kf \<Rightarrow> jwtToken \<Rightarrow> go_error + 'key"
  lib_parse :: "parserOptions \<Rightarrow> (jwtToken \<Rightarrow> go_error + 'key) \<Rightarrow> string \<Rightarrow> go_error + (bool \<times> gatewayClaims)"

definition NewJWTProvider :: "('kf, 'key) jwtLib \<Rightarrow> AuthProviderConfig \<Rightarrow> ('kf jwtProvider) go_res" where
  "NewJWTProvider lib cfg =
     (case AuthProviderConfig_Validate cfg of
        Some e \<Rightarrow> Inl e
      | None \<Rightarrow>
          (case parseStaticJWKS (lib_unmarshal lib) (lib_newJWKSet lib) (ap_JWKS cfg) of
             Inl e \<Rightarrow> Inl e
           | Inr keys \<Rightarrow> Inr \<lparr>jp_cfg = cfg, jp_keys = keys\<rparr>))"

definition verificationKey :: "('kf, 'key) jwtLib \<Rightarrow> 'kf jwtProvider \<Rightarrow> jwtToken \<Rightarrow> go_error + 'key" where
  "verificationKey lib p token =
     (case tok_Kid token of
        Some (JString kid) \<Rightarrow>
          if kid = [] then Inl (Errorf ''missing key ID'' []) else lib_keyfunc lib (jp_keys p) token
      | _ \<Rightarrow> Inl (Errorf ''missing key ID'' []))"

definition jwtOptions :: "AuthProviderConfig \<Rightarrow> parserOptions" where
  "jwtOptions cfg =
     \<lparr>opt_ValidMethods = [''RS256'', ''ES256''], opt_Issuer = ap_Issuer cfg, opt_Audience = ap_Audience cfg,
      opt_ExpirationRequired = True, opt_Leeway = ap_ClockSkew cfg\<rparr>"

definition JWTProvider_Authenticate ::
  "('kf, 'key) jwtLib \<Rightarrow> 'kf jwtProvider \<Rightarrow> request \<Rightarrow> TenantContext go_res" where
  "JWTProvider_Authenticate lib p r =
     (let authorization = Header_Get r ''Authorization''
      in if \<not> HasPrefix authorization ''Bearer '' then Inl (Errorf ''missing bearer token'' [])
         else
           let raw = TrimPrefix authorization ''Bearer ''
           in if raw = [] \<or> TrimSpace raw \<noteq> raw then Inl (Errorf ''invalid bearer token'' [])
              else case lib_parse lib (jwtOptions (jp_cfg p)) (verificationKey lib p) raw of
                     Inl e \<Rightarrow> Inl (Errorf ''invalid JWT'' [])
                   | Inr (valid, claims) \<Rightarrow>
                       if \<not> valid \<or> gc_Subject claims = [] then Inl (Errorf ''invalid JWT'' [])
                       else Inr \<lparr>tc_TenantID = gc_Subject claims, tc_APIKeyID = [],
                                 tc_Scopes = Fields (gc_Scope claims), tc_Metadata = []\<rparr>)"

section \<open>The manager\<close>

datatype 'kf provider = APIKey apiKeyProvider | JWT "'kf jwtProvider"

fun Provider_Authenticate ::
  "('kf, 'key) jwtLib \<Rightarrow> 'kf provider \<Rightarrow> request \<Rightarrow> TenantContext go_res" where
  "Provider_Authenticate lib (APIKey p) r = APIKeyProvider_Authenticate p r"
| "Provider_Authenticate lib (JWT p) r = JWTProvider_Authenticate lib p r"

fun NewManager :: "('kf, 'key) jwtLib \<Rightarrow> AuthProviderConfig list \<Rightarrow> ('kf provider list) go_res" where
  "NewManager lib [] = Inr []"
| "NewManager lib (pCfg # cfgs) =
     (if ap_Type pCfg = ''apikey'' then
        (case NewManager lib cfgs of Inl e \<Rightarrow> Inl e | Inr ps \<Rightarrow> Inr (APIKey (NewAPIKeyProvider pCfg) # ps))
      else if ap_Type pCfg = ''jwt'' then
        (case NewJWTProvider lib pCfg of
           Inl e \<Rightarrow> Inl (Errorf ''configuring JWT provider: %w'' [])
         | Inr p \<Rightarrow> (case NewManager lib cfgs of Inl e \<Rightarrow> Inl e | Inr ps \<Rightarrow> Inr (JWT p # ps)))
      else Inl (Errorf ''unsupported auth provider type %q'' [ap_Type pCfg]))"

fun firstTenant :: "('kf, 'key) jwtLib \<Rightarrow> 'kf provider list \<Rightarrow> request \<Rightarrow> TenantContext option" where
  "firstTenant lib [] r = None"
| "firstTenant lib (p # ps) r =
     (case Provider_Authenticate lib p r of Inr tc \<Rightarrow> Some tc | Inl e \<Rightarrow> firstTenant lib ps r)"

definition Manager_Authenticate ::
  "('kf, 'key) jwtLib \<Rightarrow> 'kf provider list \<Rightarrow> request \<Rightarrow> TenantContext go_res" where
  "Manager_Authenticate lib providers r =
     (case firstTenant lib providers r of
        Some tc \<Rightarrow> Inr tc
      | None \<Rightarrow>
          if providers = [] then
            Inr \<lparr>tc_TenantID = ''anonymous'', tc_APIKeyID = [], tc_Scopes = [], tc_Metadata = []\<rparr>
          else Inl (Errorf ''authentication failed: no valid credentials'' []))"

section \<open>API keys\<close>

lemma loadKeys_get:
  "gm_get (loadKeys i keys m) k =
     (case find (\<lambda>j. keys ! j = k) (rev [0..<length keys]) of
        Some j \<Rightarrow> Some (keyTenant (i + j))
      | None \<Rightarrow> gm_get m k)"
proof (induction i keys m rule: loadKeys.induct)
  case (2 i key keys m)
  have upt: "rev [0..<length (key # keys)] = map Suc (rev [0..<length keys]) @ [0]"
    by (simp add: map_Suc_upt rev_map [symmetric] upt_conv_Cons del: upt_Suc)
  have sh: "find (\<lambda>j. (key # keys) ! j = k) (map Suc xs @ [0])
      = (case find (\<lambda>j. keys ! j = k) xs of Some j \<Rightarrow> Some (Suc j) | None \<Rightarrow> if key = k then Some 0 else None)" for xs
    by (induction xs) auto
  show ?case unfolding upt sh using 2 by (auto split: option.splits)
qed simp

lemma find_rev_upt_Some:
  "find P (rev [0..<n]) = Some j \<longleftrightarrow> j < n \<and> P j \<and> (\<forall>i. j < i \<and> i < n \<longrightarrow> \<not> P i)"
proof (induction n)
  case (Suc n)
  show ?case by (simp add: Suc.IH) (metis less_Suc_eq less_antisym not_less_eq)
qed simp

lemma keyTenant_inj: "keyTenant i = keyTenant j \<longleftrightarrow> i = j"
  using fmt_nat_inj by (auto simp: keyTenant_def)

lemma APIKeyProvider_New_lookup:
  assumes "ap_Keys cfg \<noteq> []"
  shows "gm_get (ak_keys (NewAPIKeyProvider cfg)) k = Some tc \<longleftrightarrow>
         (\<exists>i < length (ap_Keys cfg). ap_Keys cfg ! i = k \<and> tc = keyTenant i \<and>
            (\<forall>j. i < j \<and> j < length (ap_Keys cfg) \<longrightarrow> ap_Keys cfg ! j \<noteq> k))"
proof -
  have "gm_get (ak_keys (NewAPIKeyProvider cfg)) k
      = map_option keyTenant (find (\<lambda>j. ap_Keys cfg ! j = k) (rev [0..<length (ap_Keys cfg)]))"
    using assms by (simp add: NewAPIKeyProvider_def loadKeys_get split: option.splits)
  then show ?thesis by (simp only: map_option_eq_Some find_rev_upt_Some) metis
qed


definition sample_provider :: AuthProviderConfig where
  "sample_provider =
     \<lparr>ap_Type = ''apikey'', ap_SecretRef = [], ap_HeaderName = [], ap_AlternateHeader = ''Authorization'',
      ap_BearerPrefix = True, ap_Keys = [''k1'', ''k2''], ap_Issuer = [], ap_JWKS = [], ap_JWKSURL = [],
      ap_Audience = [], ap_ClockSkew = 0\<rparr>"

definition sample_request :: "strmap \<Rightarrow> request" where
  "sample_request h =
     \<lparr>rq_Method = ''GET'', rq_Path = ''/sandboxes'', rq_Host = ''gw'', rq_RemoteAddr = ''10.0.0.1:99'',
      rq_Header = h, rq_Tenant = None\<rparr>"

lemma sample_presented:
  "presentedKey sample_provider (sample_request [(''authorization'', ''Bearer k2'')]) = ''k2''"
  by code_simp


text \<open>
  Distinct API keys are distinct tenants: two requests a provider with configured keys accepts
  for the same tenant presented the same key.
\<close>

lemma apikey_tenants_distinct:
  assumes "ap_Keys cfg \<noteq> []"
    and "APIKeyProvider_Authenticate (NewAPIKeyProvider cfg) r1 = Inr tc1"
    and "APIKeyProvider_Authenticate (NewAPIKeyProvider cfg) r2 = Inr tc2"
    and "tc_TenantID tc1 = tc_TenantID tc2"
  shows "presentedKey cfg r1 = presentedKey cfg r2 \<and> tc1 = tc2"
proof -
  have cfg: "ak_cfg (NewAPIKeyProvider cfg) = cfg" by (simp add: NewAPIKeyProvider_def)
  have "\<exists>i. ap_Keys cfg ! i = presentedKey cfg r \<and> tc = keyTenant i"
    if "APIKeyProvider_Authenticate (NewAPIKeyProvider cfg) r = Inr tc" for r tc
    using that APIKeyProvider_New_lookup [OF assms(1), of "presentedKey cfg r" tc]
    by (auto simp: APIKeyProvider_Authenticate_def Let_def cfg split: if_splits option.splits)
  then obtain i j where "ap_Keys cfg ! i = presentedKey cfg r1" "tc1 = keyTenant i"
    "ap_Keys cfg ! j = presentedKey cfg r2" "tc2 = keyTenant j"
    using assms(2,3) by metis
  moreover from this have "i = j" using assms(4) fmt_nat_inj by (auto simp: keyTenant_def)
  ultimately show ?thesis by auto
qed

lemma apikey_tenants_distinct_witness:
  "presentedKey sample_provider (sample_request [(''authorization'', ''Bearer k2'')])
     = presentedKey sample_provider (sample_request [(''x-api-key'', ''k2'')])"
proof -
  have "\<exists>tc. APIKeyProvider_Authenticate (NewAPIKeyProvider sample_provider)
        (sample_request [(''authorization'', ''Bearer k2'')]) = Inr tc \<and>
      APIKeyProvider_Authenticate (NewAPIKeyProvider sample_provider)
        (sample_request [(''x-api-key'', ''k2'')]) = Inr tc"
    by (rule exI [of _ "keyTenant 1"]) code_simp
  then show ?thesis using apikey_tenants_distinct [of sample_provider] by (auto simp: sample_provider_def)
qed

text \<open>
  A provider with a secret reference and no inline keys does not read the secret: it accepts two fixed
  keys, one of them with every scope, and no other key.
\<close>

lemma secret_ref_installs_test_keys:
  assumes "ap_Keys cfg = []" and "ap_SecretRef cfg \<noteq> []" and "presentedKey cfg r = ''test-key-admin''"
  shows "\<exists>tc. APIKeyProvider_Authenticate (NewAPIKeyProvider cfg) r = Inr tc \<and> tc_Scopes tc = [''*'']"
  using assms by (simp add: APIKeyProvider_Authenticate_def NewAPIKeyProvider_def Let_def)

lemma secret_ref_rejects_other_keys:
  assumes "ap_Keys cfg = []" and "presentedKey cfg r \<notin> {''test-key-1'', ''test-key-admin''}"
  shows "\<exists>e. APIKeyProvider_Authenticate (NewAPIKeyProvider cfg) r = Inl e"
  using assms by (simp add: APIKeyProvider_Authenticate_def NewAPIKeyProvider_def Let_def)

section \<open>Static key sets\<close>

definition jwk_private_fields :: "string list" where
  "jwk_private_fields = [''d'', ''p'', ''q'', ''dp'', ''dq'', ''qi'', ''oth'', ''k'']"

text \<open>What a verification key must be: a public signature key of a supported kind.\<close>

definition public_signature_key :: "jwk \<Rightarrow> bool" where
  "public_signature_key key =
     (jwkField key ''kid'' \<noteq> [] \<and>
      (jwkField key ''kty'' = ''RSA'' \<or> jwkField key ''kty'' = ''EC'' \<and> jwkField key ''crv'' = ''P-256'') \<and>
      jwkField key ''use'' \<in> {[], ''sig''} \<and>
      (\<forall>f \<in> set jwk_private_fields. gm_get key f = None))"

lemma validatePublicJWK_ok:
  assumes "validatePublicJWK key seen = Inr seen'"
  shows "public_signature_key key" and "jwkField key ''kid'' \<notin> set seen" and "seen' = jwkField key ''kid'' # seen"
  using assms
  by (auto simp: validatePublicJWK_def Let_def public_signature_key_def jwk_private_fields_def gm_has_def
      split: if_splits)

lemma validateJWKs_ok:
  assumes "validateJWKs keys seen = None"
  shows "(\<forall>key \<in> set keys. public_signature_key key) \<and>
         distinct (map (\<lambda>key. jwkField key ''kid'') keys) \<and>
         set (map (\<lambda>key. jwkField key ''kid'') keys) \<inter> set seen = {}"
  using assms
proof (induction keys seen rule: validateJWKs.induct)
  case (2 key keys seen)
  then obtain s' where v: "validatePublicJWK key seen = Inr s'" by (auto split: sum.splits)
  note k = validatePublicJWK_ok [OF v]
  show ?case using "2.IH" [OF v] "2.prems" v k by auto
qed simp

text \<open>
  A JWT provider only starts with public verification keys: when the static key set is
  accepted, every key in it is an RSA or P-256 signature key without private members, and
  the key ids are present and pairwise different.
\<close>

lemma jwks_accepts_public_keys_only:
  assumes "NewJWTProvider lib cfg = Inr p"
  shows "\<exists>keys. lib_unmarshal lib (ap_JWKS cfg) = Some keys \<and> keys \<noteq> [] \<and>
           (\<forall>key \<in> set keys. public_signature_key key) \<and>
           distinct (map (\<lambda>key. jwkField key ''kid'') keys)"
proof -
  have "\<exists>kf. parseStaticJWKS (lib_unmarshal lib) (lib_newJWKSet lib) (ap_JWKS cfg) = Inr kf"
    using assms by (auto simp: NewJWTProvider_def split: option.splits sum.splits)
  then obtain keys where "lib_unmarshal lib (ap_JWKS cfg) = Some keys" "keys \<noteq> []" "validateJWKs keys [] = None"
    by (auto simp: parseStaticJWKS_def split: if_splits option.splits)
  then show ?thesis using validateJWKs_ok [of keys "[]"] by auto
qed

definition sample_jwk :: jwk where
  "sample_jwk = [(''kid'', JString ''a''), (''kty'', JString ''RSA''), (''n'', JString ''AQ''), (''e'', JString ''AQAB'')]"

definition sample_lib :: "(unit, unit) jwtLib" where
  "sample_lib =
     \<lparr>lib_unmarshal = (\<lambda>raw. if raw = ''jwks'' then Some [sample_jwk] else None),
      lib_newJWKSet = (\<lambda>_. Inr ()), lib_keyfunc = (\<lambda>_ _. Inr ()),
      lib_parse = (\<lambda>opts keyfunc raw.
        case keyfunc \<lparr>tok_Kid = Some (JString ''a''), tok_Raw = raw\<rparr> of
          Inl e \<Rightarrow> Inl e
        | Inr _ \<Rightarrow> if raw = ''tok'' then Inr (True, \<lparr>gc_Subject = ''alice'', gc_Scope = ''sandbox:read''\<rparr>)
                  else Inl (Errorf ''signature is invalid'' []))\<rparr>"

definition sample_jwt :: AuthProviderConfig where
  "sample_jwt = sample_provider\<lparr>ap_Type := ''jwt'', ap_Keys := [], ap_Issuer := ''iss'', ap_Audience := ''aud'', ap_JWKS := ''jwks''\<rparr>"

lemma sample_jwt_provider: "NewJWTProvider sample_lib sample_jwt = Inr \<lparr>jp_cfg = sample_jwt, jp_keys = ()\<rparr>"
proof -
  have trim: "TrimSpace ''jwks'' = ''jwks''" "TrimSpace ''iss'' = ''iss''" "TrimSpace ''aud'' = ''aud''" "TrimSpace ''a'' = ''a''"
    by code_simp+
  have "validateJWKs [sample_jwk] [] = None" by code_simp
  then show ?thesis
    by (simp add: NewJWTProvider_def AuthProviderConfig_Validate_def validateJWT_def parseStaticJWKS_def
        sample_jwt_def sample_provider_def sample_lib_def trim)
qed

lemma jwks_accepts_public_keys_only_witness:
  "\<exists>keys. lib_unmarshal sample_lib (ap_JWKS sample_jwt) = Some keys \<and> keys \<noteq> [] \<and>
     (\<forall>key \<in> set keys. public_signature_key key) \<and> distinct (map (\<lambda>key. jwkField key ''kid'') keys)"
  by (rule jwks_accepts_public_keys_only [OF sample_jwt_provider])

section \<open>Tokens\<close>

text \<open>What the JWT library documents: it reports a token as valid only when the key function gave a key for
  the parsed token and \<open>verifies\<close> (signature, method, issuer, audience, expiry) holds under that key.\<close>

definition parse_verifies ::
  "('kf, 'key) jwtLib \<Rightarrow> (parserOptions \<Rightarrow> 'key \<Rightarrow> jwtToken \<Rightarrow> gatewayClaims \<Rightarrow> bool) \<Rightarrow> bool" where
  "parse_verifies lib verifies =
     (\<forall>opts keyfunc raw claims. lib_parse lib opts keyfunc raw = Inr (True, claims) \<longrightarrow>
        (\<exists>token key. tok_Raw token = raw \<and> keyfunc token = Inr key \<and> verifies opts key token claims))"


lemma sample_lib_verifies: "parse_verifies sample_lib (\<lambda>opts key token claims. gc_Subject claims = ''alice'')"
  unfolding parse_verifies_def
proof (intro allI impI)
  fix opts keyfunc raw claims
  assume a: "lib_parse sample_lib opts keyfunc raw = Inr (True, claims)"
  obtain key where "keyfunc \<lparr>tok_Kid = Some (JString ''a''), tok_Raw = raw\<rparr> = Inr key" "gc_Subject claims = ''alice''"
    using a by (auto simp: sample_lib_def split: sum.splits if_splits)
  then show "\<exists>token key. tok_Raw token = raw \<and> keyfunc token = Inr key \<and> gc_Subject claims = ''alice''"
    by (intro exI [of _ "\<lparr>tok_Kid = Some (JString ''a''), tok_Raw = raw\<rparr>"] exI [of _ key]) simp
qed

lemma sample_jwt_accepted:
  "JWTProvider_Authenticate sample_lib \<lparr>jp_cfg = sample_jwt, jp_keys = ()\<rparr>
     (sample_request [(''authorization'', ''Bearer tok'')])
     = Inr \<lparr>tc_TenantID = ''alice'', tc_APIKeyID = [], tc_Scopes = [''sandbox:read''], tc_Metadata = []\<rparr>"
  by code_simp


section \<open>The provider chain\<close>

lemma firstTenant_Some: "firstTenant lib ps r = Some tc \<Longrightarrow> \<exists>p \<in> set ps. Provider_Authenticate lib p r = Inr tc"
  by (induction ps) (auto split: sum.splits)

lemma firstTenant_None: "firstTenant lib ps r = None \<longleftrightarrow> (\<forall>p \<in> set ps. \<exists>e. Provider_Authenticate lib p r = Inl e)"
  by (induction ps) (auto split: sum.splits)

lemma Manager_Authenticate_Inr:
  assumes "ps \<noteq> []"
  shows "Manager_Authenticate lib ps r = Inr tc \<longleftrightarrow> firstTenant lib ps r = Some tc"
  using assms by (simp add: Manager_Authenticate_def split: option.splits)

lemma NewManager_length: "NewManager lib cfgs = Inr ps \<Longrightarrow> length ps = length cfgs"
  by (induction cfgs arbitrary: ps) (auto split: if_splits sum.splits)

end
