(* ===== verification/HTTP_Server.thy ===== *)
theory HTTP_Server
  imports Auth Token_Bucket
begin

text \<open>
  The HTTP front of the gateway: the middleware chain (\<open>internal/server/middleware/middleware.go\<close>),
  the scope check \<open>authorized\<close> and the route table (\<open>internal/server/http.go\<close>).

  A handler maps a request and a state to an outcome, a response or a panic, and a state.
  \<open>gateway\<close> is the state the middleware owns (rate limiter and logs) around the state of
  the handlers.  Which route the chi router picks for a method and a path is a
  parameter (\<open>pick\<close>); the theorems assume only that it is a registered route.  Chi's request-id
  middleware is left out.
\<close>

section \<open>Responses and handlers\<close>

record response =
  rs_Status :: int
  rs_Header :: strmap
  rs_Message :: string

text \<open>A panic keeps the headers that were already set on the response writer.\<close>

datatype outcome = Responded response | Panicked strmap

record logEntry =
  le_Tenant :: string
  le_Method :: string
  le_Path :: string
  le_Status :: int
  le_IP :: string

record 's gateway =
  g_limiter :: authRateLimiter
  g_requestLog :: "logEntry list"
  g_auditLog :: "logEntry list"
  g_inner :: 's

type_synonym 's handler = "request \<Rightarrow> 's \<Rightarrow> outcome \<times> 's"

definition WriteError :: "int \<Rightarrow> string \<Rightarrow> outcome" where
  "WriteError status message =
     Responded \<lparr>rs_Status = status, rs_Header = [(''Content-Type'', ''application/json'')], rs_Message = message\<rparr>"

fun withHeaders :: "strmap \<Rightarrow> outcome \<Rightarrow> outcome" where
  "withHeaders hs (Responded rs) = Responded (rs\<lparr>rs_Header := gm_copy hs (rs_Header rs)\<rparr>)"
| "withHeaders hs (Panicked h) = Panicked (gm_copy hs h)"

section \<open>Addresses\<close>

text \<open>\<open>net.SplitHostPort\<close>; \<open>None\<close> is its error, with which it returns empty strings.\<close>

definition SplitHostPort :: "string \<Rightarrow> (string \<times> string) option" where
  "SplitHostPort hostport =
     (let i = LastIndex hostport (CHR '':'')
      in if i < 0 then None
         else if hd hostport = CHR ''['' then
           (if CHR '']'' \<notin> set hostport then None
            else let e = length (takeWhile (\<lambda>ch. ch \<noteq> CHR '']'') hostport)
                 in if int e + 1 \<noteq> i then None
                    else if CHR ''['' \<in> set (drop 1 hostport) \<or> CHR '']'' \<in> set (drop (e + 1) hostport) then None
                    else Some (take (e - 1) (drop 1 hostport), drop (nat i + 1) hostport))
         else let host = take (nat i) hostport
              in if CHR '':'' \<in> set host then None
                 else if CHR ''['' \<in> set hostport \<or> CHR '']'' \<in> set hostport then None
                 else Some (host, drop (nat i + 1) hostport))"

definition remoteIP :: "request \<Rightarrow> string" where
  "remoteIP r = (case SplitHostPort (rq_RemoteAddr r) of Some (ip, _) \<Rightarrow> ip | None \<Rightarrow> [])"

section \<open>Middleware\<close>

definition healthPath :: "string \<Rightarrow> bool" where
  "healthPath p = (p = ''/healthz'' \<or> p = ''/readyz'' \<or> p = ''/metrics'')"

definition realIPRequest :: "request \<Rightarrow> request" where
  "realIPRequest r =
     (let xff = Header_Get r ''X-Forwarded-For''; xri = Header_Get r ''X-Real-Ip''
      in if xff \<noteq> [] then
           let ip = TrimSpace (takeWhile (\<lambda>ch. ch \<noteq> CHR '','') xff)
           in if ip \<noteq> [] then r\<lparr>rq_RemoteAddr := ip @ '':0''\<rparr> else r
         else if xri \<noteq> [] then r\<lparr>rq_RemoteAddr := xri @ '':0''\<rparr>
         else r)"

definition RealIP :: "'s handler \<Rightarrow> 's handler" where
  "RealIP next r s = next (realIPRequest r) s"

fun statusOf :: "outcome \<Rightarrow> int" where
  "statusOf (Responded rs) = rs_Status rs"
| "statusOf (Panicked _) = 200"

definition RequestLogger :: "'s gateway handler \<Rightarrow> 's gateway handler" where
  "RequestLogger next r s =
     (case next r s of
        (Panicked h, s) \<Rightarrow> (Panicked h, s)
      | (Responded rs, s) \<Rightarrow>
          (Responded rs,
           s\<lparr>g_requestLog := g_requestLog s @
               [\<lparr>le_Tenant = [], le_Method = rq_Method r, le_Path = rq_Path r, le_Status = rs_Status rs, le_IP = remoteIP r\<rparr>]\<rparr>))"

definition Recovery :: "'s handler \<Rightarrow> 's handler" where
  "Recovery next r s =
     (case next r s of
        (Panicked h, s) \<Rightarrow> (withHeaders h (WriteError 500 ''Internal Server Error''), s)
      | (Responded rs, s) \<Rightarrow> (Responded rs, s))"

definition corsHeaders :: strmap where
  "corsHeaders =
     [(''Access-Control-Allow-Origin'', ''*''),
      (''Access-Control-Allow-Methods'', ''GET, POST, PUT, PATCH, DELETE, OPTIONS''),
      (''Access-Control-Allow-Headers'', ''Accept, Content-Type, Authorization, X-API-Key''),
      (''Access-Control-Max-Age'', ''86400'')]"

definition CORS :: "'s handler \<Rightarrow> 's handler" where
  "CORS next r s =
     (if rq_Method r = ''OPTIONS'' then (Responded \<lparr>rs_Status = 204, rs_Header = corsHeaders, rs_Message = []\<rparr>, s)
      else case next r s of (out, s) \<Rightarrow> (withHeaders corsHeaders out, s))"

fun errorText :: "go_error \<Rightarrow> string" where
  "errorText (Errorf f args) = f"
| "errorText (StatusError n m) = m"

definition AuthMW :: "('kf, 'key) jwtLib \<Rightarrow> 'kf provider list option \<Rightarrow> 's handler \<Rightarrow> 's handler" where
  "AuthMW lib mgr next r s =
     (if healthPath (rq_Path r) then next r s
      else case mgr of
             None \<Rightarrow> next r s
           | Some providers \<Rightarrow>
               if Header_Get r ''E2b-Sandbox-Id'' \<noteq> [] then next r s
               else case Manager_Authenticate lib providers r of
                      Inl err \<Rightarrow> (WriteError 401 (errorText err), s)
                    | Inr tc \<Rightarrow> next (ContextWithTenant r tc) s)"

definition rateKey :: "request \<Rightarrow> string" where
  "rateKey r = (case TenantFromContext r of Some tc \<Rightarrow> tc_TenantID tc | None \<Rightarrow> remoteIP r)"

definition RateLimitMW :: "time \<times> time \<Rightarrow> 's gateway handler \<Rightarrow> 's gateway handler" where
  "RateLimitMW ts next r s =
     (if healthPath (rq_Path r) then next r s
      else case auth_RateLimiter_Allow (g_limiter s) (rateKey r) ts of
             (allowed, rl) \<Rightarrow>
               let s = s\<lparr>g_limiter := rl\<rparr>
               in if \<not> allowed then
                    (withHeaders [(''Retry-After'', ''60'')]
                       (WriteError 429 ''Rate limit exceeded. Please retry after some time.''), s)
                  else next r s)"

definition AuditLog :: "'s gateway handler \<Rightarrow> 's gateway handler" where
  "AuditLog next r s =
     (if healthPath (rq_Path r) then next r s
      else case next r s of
             (Panicked h, s) \<Rightarrow> (Panicked h, s)
           | (Responded rs, s) \<Rightarrow>
               let tenantID = (case TenantFromContext r of Some tc \<Rightarrow> tc_TenantID tc | None \<Rightarrow> ''anonymous'')
               in (Responded rs,
                   if rq_Method r \<in> {''POST'', ''PUT'', ''PATCH'', ''DELETE''} then
                     s\<lparr>g_auditLog := g_auditLog s @
                         [\<lparr>le_Tenant = tenantID, le_Method = rq_Method r, le_Path = rq_Path r,
                           le_Status = rs_Status rs, le_IP = remoteIP r\<rparr>]\<rparr>
                   else s))"

section \<open>Routes\<close>

record route =
  rt_Method :: string
  rt_Pattern :: string
  rt_Scope :: "string option"
  rt_Handler :: string

definition scoped :: "string \<Rightarrow> string \<Rightarrow> string \<Rightarrow> string \<Rightarrow> route" where
  "scoped m p sc h = \<lparr>rt_Method = m, rt_Pattern = p, rt_Scope = Some sc, rt_Handler = h\<rparr>"

definition public :: "string \<Rightarrow> string \<Rightarrow> string \<Rightarrow> route" where
  "public m p h = \<lparr>rt_Method = m, rt_Pattern = p, rt_Scope = None, rt_Handler = h\<rparr>"

definition rootRoutes :: "route list" where
  "rootRoutes =
     [public ''GET'' ''/healthz'' ''HealthHandler'',
      public ''GET'' ''/readyz'' ''ReadyHandler'',
      scoped ''POST'' ''/sandboxes'' ''sandbox:write'' ''CreateSandboxHandler'',
      scoped ''GET'' ''/sandboxes'' ''sandbox:read'' ''ListSandboxesHandler'',
      scoped ''GET'' ''/sandboxes/{sandboxID}'' ''sandbox:read'' ''GetSandboxHandler'',
      scoped ''DELETE'' ''/sandboxes/{sandboxID}'' ''sandbox:write'' ''KillSandboxHandler'',
      scoped ''POST'' ''/sandboxes/{sandboxID}/pause'' ''sandbox:write'' ''PauseSandboxHandler'',
      scoped ''POST'' ''/sandboxes/{sandboxID}/resume'' ''sandbox:write'' ''ResumeSandboxHandler'',
      scoped ''POST'' ''/sandboxes/{sandboxID}/timeout'' ''sandbox:write'' ''SetTimeoutHandler'',
      scoped ''PATCH'' ''/sandboxes/{sandboxID}/timeout'' ''sandbox:write'' ''SetTimeoutHandler'',
      scoped ''POST'' ''/sandboxes/{sandboxID}/envs'' ''sandbox:write'' ''SetEnvsHandler'',
      scoped ''GET'' ''/sandboxes/{sandboxID}/logs'' ''sandbox:read'' ''GetLogsHandler'',
      scoped ''POST'' ''/sandboxes/{sandboxID}/filesystem/upload'' ''sandbox:write'' ''UploadFileHandler'',
      scoped ''GET'' ''/sandboxes/{sandboxID}/filesystem/download'' ''sandbox:read'' ''DownloadFileHandler'',
      scoped ''POST'' ''/sandboxes/{sandboxID}/filesystem/list'' ''sandbox:read'' ''ListFilesHandler'',
      scoped ''POST'' ''/sandboxes/{sandboxID}/filesystem/mkdir'' ''sandbox:write'' ''MakeDirHandler'',
      scoped ''POST'' ''/sandboxes/{sandboxID}/filesystem/rm'' ''sandbox:write'' ''RemoveFileHandler'',
      scoped ''POST'' ''/sandboxes/{sandboxID}/filesystem/move'' ''sandbox:write'' ''MoveFileHandler'',
      scoped ''POST'' ''/sandboxes/{sandboxID}/files'' ''sandbox:write'' ''WriteFileHandler'',
      scoped ''GET'' ''/sandboxes/{sandboxID}/files'' ''sandbox:read'' ''ReadFileHandler'',
      scoped ''POST'' ''/sandboxes/{sandboxID}/files/upload'' ''sandbox:write'' ''UploadFileHandler'',
      scoped ''GET'' ''/sandboxes/{sandboxID}/files/download'' ''sandbox:read'' ''DownloadFileHandler'',
      scoped ''POST'' ''/sandboxes/{sandboxID}/files/list'' ''sandbox:read'' ''ListFilesHandler'',
      scoped ''POST'' ''/sandboxes/{sandboxID}/files/make-dir'' ''sandbox:write'' ''MakeDirHandler'',
      scoped ''POST'' ''/sandboxes/{sandboxID}/files/remove'' ''sandbox:write'' ''RemoveFileHandler'',
      scoped ''POST'' ''/sandboxes/{sandboxID}/commands'' ''sandbox:write'' ''RunCommandHandler'',
      scoped ''GET'' ''/sandboxes/{sandboxID}/commands'' ''sandbox:read'' ''ListProcessesHandler'',
      scoped ''POST'' ''/sandboxes/{sandboxID}/commands/{processID}/kill'' ''sandbox:write'' ''KillProcessHandler'',
      scoped ''POST'' ''/sandboxes/{sandboxID}/commands/{processID}/input'' ''sandbox:write'' ''SendStdinHandler'',
      scoped ''POST'' ''/sandboxes/{sandboxID}/code'' ''sandbox:write'' ''ExecuteCodeHandler'',
      scoped ''GET'' ''/sandboxes/{sandboxID}/ws'' ''sandbox:write'' ''ExecuteCodeStreamHandler'',
      scoped ''GET'' ''/sandboxes/{sandboxID}/processes'' ''sandbox:read'' ''ListProcessesHandler'',
      scoped ''POST'' ''/sandboxes/{sandboxID}/processes/{processID}/kill'' ''sandbox:write'' ''KillProcessHandler'',
      scoped ''POST'' ''/sandboxes/{sandboxID}/processes/{processID}/stdin'' ''sandbox:write'' ''SendStdinHandler'',
      scoped ''POST'' ''/sandboxes/{sandboxID}/snapshots'' ''sandbox:write'' ''CreateSnapshotHandler'',
      scoped ''GET'' ''/sandboxes/{sandboxID}/snapshots'' ''sandbox:read'' ''ListSnapshotsHandler'',
      scoped ''GET'' ''/sandboxes/{sandboxID}/ports'' ''sandbox:read'' ''ListPortsHandler'',
      scoped ''GET'' ''/sandboxes/{sandboxID}/ports/{port}'' ''sandbox:read'' ''GetPortURLHandler'',
      scoped ''POST'' ''/sandboxes/{sandboxID}/access-token'' ''sandbox:write'' ''GetAccessTokenHandler'',
      scoped ''GET'' ''/templates'' ''template:read'' ''ListTemplatesHandler'',
      scoped ''GET'' ''/templates/{templateID}'' ''template:read'' ''GetTemplateHandler'',
      scoped ''POST'' ''/templates'' ''template:write'' ''CreateTemplateHandler'',
      scoped ''DELETE'' ''/templates/{templateID}'' ''template:write'' ''DeleteTemplateHandler'',
      scoped ''POST'' ''/templates/{templateID}/builds'' ''template:write'' ''TriggerBuildHandler'',
      scoped ''POST'' ''/templates/{templateID}/builds/{buildID}/status'' ''template:read'' ''GetBuildStatusHandler'',
      scoped ''POST'' ''/templates/{templateID}/aliases'' ''template:write'' ''CreateAliasHandler'',
      scoped ''DELETE'' ''/templates/{templateID}/aliases/{alias}'' ''template:write'' ''DeleteAliasHandler'',
      scoped ''POST'' ''/templates/{templateID}/tags'' ''template:write'' ''CreateTagHandler'',
      scoped ''GET'' ''/templates/{templateID}/tags'' ''template:read'' ''ListTagsHandler'',
      scoped ''DELETE'' ''/templates/{templateID}/tags/{tagName}'' ''template:write'' ''DeleteTagHandler'',
      scoped ''GET'' ''/warm-pools'' ''warm-pool:read'' ''ListWarmPoolsHandler'',
      scoped ''POST'' ''/warm-pools'' ''warm-pool:write'' ''CreateWarmPoolHandler'',
      scoped ''GET'' ''/warm-pools/{warmPoolID}'' ''warm-pool:read'' ''GetWarmPoolHandler'',
      scoped ''DELETE'' ''/warm-pools/{warmPoolID}'' ''warm-pool:write'' ''DeleteWarmPoolHandler'',
      scoped ''POST'' ''/warm-pools/{warmPoolID}/size'' ''warm-pool:write'' ''UpdateWarmPoolSizeHandler'']"

definition v2Routes :: "route list" where
  "v2Routes =
     [scoped ''GET'' ''/sandboxes'' ''sandbox:read'' ''ListSandboxesHandlerV2'',
      scoped ''GET'' ''/sandboxes/{sandboxID}/logs'' ''sandbox:read'' ''GetLogsHandler'',
      scoped ''GET'' ''/sandboxes/{sandboxID}/metrics'' ''sandbox:read'' ''GetMetricsHandler'',
      scoped ''POST'' ''/sandboxes/{sandboxID}/filesystem/upload'' ''sandbox:write'' ''UploadFileHandler'',
      scoped ''GET'' ''/sandboxes/{sandboxID}/filesystem/download'' ''sandbox:read'' ''DownloadFileHandler'',
      scoped ''POST'' ''/sandboxes/{sandboxID}/filesystem/list'' ''sandbox:read'' ''ListFilesHandler'',
      scoped ''POST'' ''/sandboxes/{sandboxID}/filesystem/mkdir'' ''sandbox:write'' ''MakeDirHandler'',
      scoped ''POST'' ''/sandboxes/{sandboxID}/filesystem/rm'' ''sandbox:write'' ''RemoveFileHandler'',
      scoped ''POST'' ''/sandboxes/{sandboxID}/filesystem/move'' ''sandbox:write'' ''MoveFileHandler'',
      scoped ''GET'' ''/templates'' ''template:read'' ''ListTemplatesHandlerV2'',
      scoped ''POST'' ''/templates'' ''template:write'' ''CreateTemplateHandlerV2'',
      scoped ''PATCH'' ''/templates/{templateID}'' ''template:write'' ''UpdateTemplateHandler'',
      scoped ''POST'' ''/templates/{templateID}/tags'' ''template:write'' ''CreateTagHandler'',
      scoped ''GET'' ''/templates/{templateID}/tags'' ''template:read'' ''ListTagsHandler'',
      scoped ''DELETE'' ''/templates/{templateID}/tags/{tagName}'' ''template:write'' ''DeleteTagHandler'']"

definition apiV1Routes :: "route list" where
  "apiV1Routes =
     [scoped ''POST'' ''/sandboxes'' ''sandbox:write'' ''CreateSandboxHandler'',
      scoped ''GET'' ''/sandboxes'' ''sandbox:read'' ''ListSandboxesHandler'',
      scoped ''GET'' ''/sandboxes/{sandboxID}'' ''sandbox:read'' ''GetSandboxHandler'',
      scoped ''DELETE'' ''/sandboxes/{sandboxID}'' ''sandbox:write'' ''KillSandboxHandler'',
      scoped ''POST'' ''/sandboxes/{sandboxID}/pause'' ''sandbox:write'' ''PauseSandboxHandler'',
      scoped ''POST'' ''/sandboxes/{sandboxID}/resume'' ''sandbox:write'' ''ResumeSandboxHandler'',
      scoped ''PATCH'' ''/sandboxes/{sandboxID}/timeout'' ''sandbox:write'' ''SetTimeoutHandler'',
      scoped ''POST'' ''/sandboxes/{sandboxID}/code'' ''sandbox:write'' ''ExecuteCodeHandler'',
      scoped ''POST'' ''/sandboxes/{sandboxID}/code/executions'' ''sandbox:write'' ''StartExecutionHandler'',
      scoped ''GET'' ''/sandboxes/{sandboxID}/code/executions/{executionID}'' ''sandbox:read'' ''GetExecutionHandler'',
      scoped ''GET'' ''/sandboxes/{sandboxID}/ws'' ''sandbox:write'' ''ExecuteCodeStreamHandler'',
      scoped ''POST'' ''/sandboxes/{sandboxID}/commands'' ''sandbox:write'' ''RunCommandHandler'',
      scoped ''GET'' ''/sandboxes/{sandboxID}/processes'' ''sandbox:read'' ''ListProcessesHandler'',
      scoped ''POST'' ''/sandboxes/{sandboxID}/processes/{processID}/kill'' ''sandbox:write'' ''KillProcessHandler'',
      scoped ''POST'' ''/sandboxes/{sandboxID}/processes/{processID}/stdin'' ''sandbox:write'' ''SendStdinHandler'',
      scoped ''GET'' ''/sandboxes/{sandboxID}/files'' ''sandbox:read'' ''ReadFileHandler'',
      scoped ''POST'' ''/sandboxes/{sandboxID}/files'' ''sandbox:write'' ''WriteFileHandler'',
      scoped ''POST'' ''/sandboxes/{sandboxID}/files/upload'' ''sandbox:write'' ''UploadFileHandler'',
      scoped ''GET'' ''/sandboxes/{sandboxID}/files/download'' ''sandbox:read'' ''DownloadFileHandler'',
      scoped ''POST'' ''/sandboxes/{sandboxID}/files/list'' ''sandbox:read'' ''ListFilesHandler'',
      scoped ''POST'' ''/sandboxes/{sandboxID}/files/make-dir'' ''sandbox:write'' ''MakeDirHandler'',
      scoped ''POST'' ''/sandboxes/{sandboxID}/files/remove'' ''sandbox:write'' ''RemoveFileHandler'',
      scoped ''POST'' ''/sandboxes/{sandboxID}/snapshots'' ''sandbox:write'' ''CreateSnapshotHandler'',
      scoped ''GET'' ''/sandboxes/{sandboxID}/snapshots'' ''sandbox:read'' ''ListSnapshotsHandler'',
      scoped ''GET'' ''/sandboxes/{sandboxID}/ports'' ''sandbox:read'' ''ListPortsHandler'',
      scoped ''GET'' ''/sandboxes/{sandboxID}/ports/{port}'' ''sandbox:read'' ''GetPortURLHandler'',
      scoped ''POST'' ''/sandboxes/{sandboxID}/access-token'' ''sandbox:write'' ''GetAccessTokenHandler'',
      scoped ''GET'' ''/templates'' ''template:read'' ''ListTemplatesHandler'',
      scoped ''GET'' ''/templates/{templateID}'' ''template:read'' ''GetTemplateHandler'',
      scoped ''POST'' ''/templates'' ''template:write'' ''CreateTemplateHandler'',
      scoped ''DELETE'' ''/templates/{templateID}'' ''template:write'' ''DeleteTemplateHandler'',
      scoped ''POST'' ''/templates/{templateID}/builds'' ''template:write'' ''TriggerBuildHandler'',
      scoped ''POST'' ''/templates/{templateID}/builds/{buildID}/status'' ''template:read'' ''GetBuildStatusHandler'',
      scoped ''POST'' ''/templates/{templateID}/aliases'' ''template:write'' ''CreateAliasHandler'',
      scoped ''DELETE'' ''/templates/{templateID}/aliases/{alias}'' ''template:write'' ''DeleteAliasHandler'',
      scoped ''GET'' ''/warm-pools'' ''warm-pool:read'' ''ListWarmPoolsHandler'',
      scoped ''POST'' ''/warm-pools'' ''warm-pool:write'' ''CreateWarmPoolHandler'',
      scoped ''GET'' ''/warm-pools/{warmPoolID}'' ''warm-pool:read'' ''GetWarmPoolHandler'',
      scoped ''DELETE'' ''/warm-pools/{warmPoolID}'' ''warm-pool:write'' ''DeleteWarmPoolHandler'',
      scoped ''POST'' ''/warm-pools/{warmPoolID}/size'' ''warm-pool:write'' ''UpdateWarmPoolSizeHandler'']"

definition underPrefix :: "string \<Rightarrow> route \<Rightarrow> route" where
  "underPrefix p rt = rt\<lparr>rt_Pattern := p @ rt_Pattern rt\<rparr>"

text \<open>The registered routes; the catch-all accepts every method (\<open>*\<close>).\<close>

definition buildRouter :: "route list" where
  "buildRouter =
     rootRoutes @ map (underPrefix ''/v2'') v2Routes @ map (underPrefix ''/api/v1'') apiV1Routes @
     [public ''*'' ''/*'' ''envdProxyHandler'']"

definition authorized :: "AuthProviderConfig list \<Rightarrow> string \<Rightarrow> 's handler \<Rightarrow> 's handler" where
  "authorized providers scope h r s =
     (if providers = [] then h r s
      else case TenantFromContext r of
             None \<Rightarrow> (WriteError 401 ''Authentication required'', s)
           | Some tenant \<Rightarrow>
               if \<not> HasScope (Some tenant) scope then (WriteError 403 ''Insufficient permissions'', s)
               else h r s)"

type_synonym pick = "string \<Rightarrow> string \<Rightarrow> route option"

text \<open>The innermost handler: the picked route with its scope check, and chi's 404 without a route.\<close>

definition dispatch :: "pick \<Rightarrow> AuthProviderConfig list \<Rightarrow> (string \<Rightarrow> 's handler) \<Rightarrow> 's gateway handler" where
  "dispatch pick providers run r s =
     (let inner = (\<lambda>h. case h r (g_inner s) of (out, i) \<Rightarrow> (out, s\<lparr>g_inner := i\<rparr>))
      in case pick (rq_Method r) (rq_Path r) of
           None \<Rightarrow> (Responded \<lparr>rs_Status = 404, rs_Header = [], rs_Message = ''404 page not found''\<rparr>, s)
         | Some rt \<Rightarrow>
             (case rt_Scope rt of
                None \<Rightarrow> inner (run (rt_Handler rt))
              | Some scope \<Rightarrow> inner (authorized providers scope (run (rt_Handler rt)))))"

definition serveHTTP ::
  "('kf, 'key) jwtLib \<Rightarrow> 'kf provider list option \<Rightarrow> pick \<Rightarrow> AuthProviderConfig list \<Rightarrow>
   (string \<Rightarrow> 's handler) \<Rightarrow> time \<times> time \<Rightarrow> 's gateway handler" where
  "serveHTTP lib mgr pick providers run ts =
     RealIP (RequestLogger (Recovery (CORS (AuthMW lib mgr (RateLimitMW ts (AuditLog (dispatch pick providers run)))))))"

section \<open>What a middleware may do\<close>

text \<open>A middleware either answers by itself, leaving the handlers' state alone, or calls the next
  handler once, with a request \<open>pass\<close> allows and the same handlers' state.\<close>

locale middleware =
  fixes mw :: "'s gateway handler \<Rightarrow> 's gateway handler"
    and pass :: "request \<Rightarrow> request \<Rightarrow> bool"
  assumes forwards: "g_inner (snd (mw next r s)) = g_inner s \<or>
     (\<exists>r' s1. pass r r' \<and> g_inner s1 = g_inner s \<and> g_inner (snd (mw next r s)) = g_inner (snd (next r' s1)))"

text \<open>Handlers over a list of calls: \<open>invokes h P\<close> says that \<open>h\<close> appends at most one call, one
  that \<open>P\<close> allows for the request.\<close>

definition invokes :: "'c list gateway handler \<Rightarrow> (request \<Rightarrow> 'c \<Rightarrow> bool) \<Rightarrow> bool" where
  "invokes h P =
     (\<forall>r s. g_inner (snd (h r s)) = g_inner s \<or> (\<exists>c. P r c \<and> g_inner (snd (h r s)) = g_inner s @ [c]))"

lemma invokesD:
  "invokes h P \<Longrightarrow> g_inner (snd (h r s)) = g_inner s \<or> (\<exists>c. P r c \<and> g_inner (snd (h r s)) = g_inner s @ [c])"
  by (simp add: invokes_def)

locale call_middleware = middleware mw pass
  for mw :: "'c list gateway handler \<Rightarrow> 'c list gateway handler" and pass
begin

lemma invokes_mw:
  assumes "invokes next P"
  shows "invokes (mw next) (\<lambda>r c. \<exists>r'. pass r r' \<and> P r' c)"
  unfolding invokes_def
proof (intro allI)
  fix r s
  from forwards [of "next" r s]
  show "g_inner (snd (mw next r s)) = g_inner s \<or>
      (\<exists>c. (\<exists>r'. pass r r' \<and> P r' c) \<and> g_inner (snd (mw next r s)) = g_inner s @ [c])"
    using invokesD [OF assms] by metis
qed

end

definition authPass :: "('kf, 'key) jwtLib \<Rightarrow> 'kf provider list option \<Rightarrow> request \<Rightarrow> request \<Rightarrow> bool" where
  "authPass lib mgr r r' =
     (r' = r \<or> (\<exists>ps tc. mgr = Some ps \<and> Manager_Authenticate lib ps r = Inr tc \<and> r' = ContextWithTenant r tc))"

interpretation realIP: call_middleware RealIP "\<lambda>r r'. r' = realIPRequest r"
  by unfold_locales (auto simp: RealIP_def)

interpretation reqLog: call_middleware RequestLogger "\<lambda>r r'. r' = r"
  by unfold_locales (auto simp: RequestLogger_def split: prod.splits outcome.splits)

interpretation recov: call_middleware Recovery "\<lambda>r r'. r' = r"
  by unfold_locales (auto simp: Recovery_def split: prod.splits outcome.splits)

interpretation cors: call_middleware CORS "\<lambda>r r'. r' = r"
  by unfold_locales (auto simp: CORS_def split: prod.splits)

interpretation authMW: call_middleware "AuthMW lib mgr" "authPass lib mgr"
  by unfold_locales (auto simp: AuthMW_def authPass_def split: option.splits sum.splits)

interpretation rateMW: call_middleware "RateLimitMW ts" "\<lambda>r r'. r' = r"
proof unfold_locales
  fix "next" :: "'c list gateway handler" and r s
  show "g_inner (snd (RateLimitMW ts next r s)) = g_inner s \<or>
      (\<exists>r' s1. r' = r \<and> g_inner s1 = g_inner s \<and> g_inner (snd (RateLimitMW ts next r s)) = g_inner (snd (next r' s1)))"
  proof (cases "healthPath (rq_Path r)")
    case False
    obtain b rl where a: "auth_RateLimiter_Allow (g_limiter s) (rateKey r) ts = (b, rl)" by fastforce
    show ?thesis
      by (cases b) (use False a in \<open>auto simp: RateLimitMW_def intro!: exI [of _ "s\<lparr>g_limiter := rl\<rparr>"]\<close>)
  qed (auto simp: RateLimitMW_def)
qed

interpretation auditMW: call_middleware AuditLog "\<lambda>r r'. r' = r"
  by unfold_locales (auto simp: AuditLog_def Let_def split: prod.splits outcome.splits)

section \<open>No handler without its scope\<close>

text \<open>Handlers that record their calls and answer with a given function.\<close>

definition recorded :: "(string \<Rightarrow> request \<Rightarrow> outcome) \<Rightarrow> string \<Rightarrow> (string \<times> request) list handler" where
  "recorded out h r calls = (out h r, calls @ [(h, r)])"

definition routed :: "pick \<Rightarrow> AuthProviderConfig list \<Rightarrow> request \<Rightarrow> string \<times> request \<Rightarrow> bool" where
  "routed pick providers r c =
     (\<exists>rt. pick (rq_Method r) (rq_Path r) = Some rt \<and> c = (rt_Handler rt, r) \<and>
        (\<forall>sc. rt_Scope rt = Some sc \<longrightarrow> providers = [] \<or> HasScope (rq_Tenant r) sc))"

lemma dispatch_invokes: "invokes (dispatch pick providers (recorded out)) (routed pick providers)"
  by (auto simp: invokes_def dispatch_def routed_def authorized_def recorded_def TenantFromContext_def Let_def
      split: option.splits)

lemma serveHTTP_invokes:
  "invokes (serveHTTP lib mgr pick providers (recorded out) ts)
     (\<lambda>r c. \<exists>r'. authPass lib mgr (realIPRequest r) r' \<and> routed pick providers r' c)"
proof -
  note dispatch_invokes [of pick providers out]
  note auditMW.invokes_mw [OF this]
  note rateMW.invokes_mw [OF this, of ts]
  note authMW.invokes_mw [OF this, of lib mgr]
  note cors.invokes_mw [OF this]
  note recov.invokes_mw [OF this]
  note reqLog.invokes_mw [OF this]
  note realIP.invokes_mw [OF this]
  then show ?thesis unfolding serveHTTP_def by simp
qed

definition registered :: "pick \<Rightarrow> bool" where
  "registered pick = (\<forall>m p rt. pick m p = Some rt \<longrightarrow> rt \<in> set buildRouter)"

definition unscopedHandlers :: "string list" where
  "unscopedHandlers = [''HealthHandler'', ''ReadyHandler'', ''envdProxyHandler'']"

lemma unscoped_routes:
  "list_all (\<lambda>rt. rt_Scope rt = None \<longrightarrow> rt_Handler rt \<in> set unscopedHandlers) buildRouter"
  by code_simp

lemma realIP_tenant [simp]: "rq_Tenant (realIPRequest r) = rq_Tenant r"
  by (simp add: realIPRequest_def Let_def)

text \<open>
  C1: No control-plane handler runs without authentication and its scope.  With at least one provider
  configured, whatever request arrives (health paths and requests with a sandbox-id header, which the
  authentication middleware waves through, included), a handler other than the health checks and the
  sandbox proxy runs only for a request that a provider authenticated, and only when
  the authenticated tenant holds the scope of the handler's route.
\<close>

theorem control_plane_needs_scope:
  assumes "providers \<noteq> []" and "registered pick" and "rq_Tenant r = None" and "ps \<noteq> []"
    and "serveHTTP lib (Some ps) pick providers (recorded out) ts r s = (response, s')"
    and "g_inner s = []" and "(h, r') \<in> set (g_inner s')" and "h \<notin> set unscopedHandlers"
  shows "\<exists>rt sc tc p. rt \<in> set buildRouter \<and> rt_Handler rt = h \<and> rt_Scope rt = Some sc \<and>
           p \<in> set ps \<and> Provider_Authenticate lib p (realIPRequest r) = Inr tc \<and>
           rq_Tenant r' = Some tc \<and> HasScope (Some tc) sc"
proof -
  obtain q where q: "authPass lib (Some ps) (realIPRequest r) q" "routed pick providers q (h, r')"
    using invokesD [OF serveHTTP_invokes, of lib "Some ps" pick providers out ts r s] assms(5-7) by auto
  obtain rt where rt: "pick (rq_Method q) (rq_Path q) = Some rt" "h = rt_Handler rt" "r' = q"
    and sc: "\<And>sc. rt_Scope rt = Some sc \<Longrightarrow> HasScope (rq_Tenant q) sc"
    using q(2) assms(1) by (auto simp: routed_def)
  have mem: "rt \<in> set buildRouter" using assms(2) rt(1) by (auto simp: registered_def)
  then obtain scope where s: "rt_Scope rt = Some scope"
    using unscoped_routes assms(8) rt(2) by (auto simp: list_all_iff)
  then have h: "HasScope (rq_Tenant q) scope" by (rule sc)
  then have "q \<noteq> realIPRequest r" using assms(3) by (auto simp: HasScope_def)
  then obtain tc where tc: "Manager_Authenticate lib ps (realIPRequest r) = Inr tc" "q = ContextWithTenant (realIPRequest r) tc"
    using q(1) by (auto simp: authPass_def)
  then obtain p where "p \<in> set ps" "Provider_Authenticate lib p (realIPRequest r) = Inr tc"
    using firstTenant_Some assms(4) by (metis Manager_Authenticate_Inr)
  then show ?thesis using mem rt s h tc by (auto simp: ContextWithTenant_def)
qed

definition sample_pick :: pick where
  "sample_pick m p =
     (if (m, p) = (''GET'', ''/sandboxes'') then find (\<lambda>rt. rt_Method rt = m \<and> rt_Pattern rt = p) buildRouter else None)"

lemma sample_pick_registered: "registered sample_pick"
  by (auto simp: registered_def sample_pick_def split: if_splits dest: find_SomeD)

definition sample_gateway :: "(string \<times> request) list gateway" where
  "sample_gateway =
     \<lparr>g_limiter = auth_NewRateLimiter (sample_limits\<lparr>rlc_Enabled := False\<rparr>), g_requestLog = [], g_auditLog = [], g_inner = []\<rparr>"

definition sample_out :: "string \<Rightarrow> request \<Rightarrow> outcome" where
  "sample_out h r = Responded \<lparr>rs_Status = 200, rs_Header = [], rs_Message = h\<rparr>"

definition sample_serve :: "strmap \<Rightarrow> outcome \<times> (string \<times> request) list gateway" where
  "sample_serve h =
     serveHTTP sample_lib (Some [APIKey (NewAPIKeyProvider sample_provider)]) sample_pick [sample_provider]
       (recorded sample_out) (0, 0) (sample_request h) sample_gateway"

lemma sample_serve_calls:
  "map fst (g_inner (snd (sample_serve [(''x-api-key'', ''k1'')]))) = [''ListSandboxesHandler'']"
  by code_simp

theorem control_plane_needs_scope_witness:
  "\<exists>rt sc tc p. rt \<in> set buildRouter \<and> rt_Handler rt = ''ListSandboxesHandler'' \<and> rt_Scope rt = Some sc \<and>
     p \<in> set [APIKey (NewAPIKeyProvider sample_provider)] \<and>
     Provider_Authenticate sample_lib p (realIPRequest (sample_request [(''x-api-key'', ''k1'')])) = Inr tc \<and>
     HasScope (Some tc) sc"
proof -
  let ?r = "sample_request [(''x-api-key'', ''k1'')]"
  obtain o' s' where sv: "serveHTTP sample_lib (Some [APIKey (NewAPIKeyProvider sample_provider)]) sample_pick [sample_provider]
       (recorded sample_out) (0, 0) ?r sample_gateway = (o', s')" by fastforce
  obtain r' where m: "(''ListSandboxesHandler'', r') \<in> set (g_inner s')"
    using sample_serve_calls sv by (auto simp: sample_serve_def)
  have t: "rq_Tenant ?r = None" "g_inner sample_gateway = []" "''ListSandboxesHandler'' \<notin> set unscopedHandlers"
    by (simp_all add: sample_request_def sample_gateway_def unscopedHandlers_def)
  from control_plane_needs_scope [OF _ sample_pick_registered t(1) _ sv t(2) m t(3)] show ?thesis by blast
qed

text \<open>
  The permission matrix of the control plane, by handler name: handlers that get, list, read or download need
  the read scope of their resource, all others (and the one that hands out access tokens) the write
  scope.
\<close>

definition mentions :: "string \<Rightarrow> string \<Rightarrow> bool" where
  "mentions h w = list_ex (\<lambda>n. take (length w) (drop n h) = w) [0..<length h]"

definition resourceOf :: "string \<Rightarrow> string" where
  "resourceOf h =
     (if mentions h ''WarmPool'' then ''warm-pool''
      else if list_ex (mentions h) [''Template'', ''Build'', ''Alias'', ''Tag''] then ''template''
      else ''sandbox'')"

definition readsOnly :: "string \<Rightarrow> bool" where
  "readsOnly h = (list_ex (HasPrefix h) [''Get'', ''List'', ''Read'', ''Download''] \<and> h \<noteq> ''GetAccessTokenHandler'')"

definition requiredScope :: "string \<Rightarrow> string option" where
  "requiredScope h =
     (if h \<in> set unscopedHandlers then None
      else Some (resourceOf h @ (if readsOnly h then '':read'' else '':write'')))"


text \<open>No route serves the documented metrics path; it reaches the sandbox proxy, exempt from rate limiting.\<close>

lemma no_metrics_route: "list_all (\<lambda>rt. rt_Pattern rt \<noteq> ''/metrics'') buildRouter"
  by code_simp

section \<open>The answer to a control-plane request\<close>

lemma statusOf_withHeaders [simp]: "statusOf (withHeaders hs out) = statusOf out"
  by (cases out) simp_all

lemma statusOf_WriteError [simp]: "statusOf (WriteError c m) = c"
  by (simp add: WriteError_def)

lemma WriteError_not_panic [simp]: "WriteError c m \<noteq> Panicked h"
  by (simp add: WriteError_def)

lemma withHeaders_panic [simp]: "withHeaders hs out = Panicked h \<longleftrightarrow> (\<exists>h'. out = Panicked h' \<and> h = gm_copy hs h')"
  by (cases out) auto

text \<open>The status a client sees for an outcome: a panic becomes 500.\<close>

fun visibleStatus :: "outcome \<Rightarrow> int" where
  "visibleStatus (Responded rs) = rs_Status rs"
| "visibleStatus (Panicked _) = 500"

lemma visibleStatus_withHeaders [simp]: "visibleStatus (withHeaders hs out) = visibleStatus out"
  by (cases out) simp_all

lemma visibleStatus_WriteError [simp]: "visibleStatus (WriteError c m) = c"
  by (simp add: WriteError_def)

lemma serveHTTP_status:
  "statusOf (fst (serveHTTP lib mgr pick providers run ts r s))
     = visibleStatus (fst (CORS (AuthMW lib mgr (RateLimitMW ts (AuditLog (dispatch pick providers run)))) (realIPRequest r) s))"
  by (auto simp: serveHTTP_def RealIP_def RequestLogger_def Recovery_def WriteError_def split: prod.splits outcome.splits)

lemma AuditLog_status: "visibleStatus (fst (AuditLog next r s)) = visibleStatus (fst (next r s))"
  by (simp add: AuditLog_def Let_def split: prod.splits outcome.splits)

lemma realIP_method [simp]:
  "rq_Method (realIPRequest r) = rq_Method r" "rq_Path (realIPRequest r) = rq_Path r"
  "Header_Get (realIPRequest r) n = Header_Get r n"
  by (simp_all add: realIPRequest_def Let_def Header_Get_def)

text \<open>
  C2: The order of the checks on a control-plane route.  For a request that is not a CORS preflight, to
  a path with a scoped route and without the sandbox-id header, the client sees 401 when
  no provider accepts its credentials; else 429 when its tenant's bucket is empty; else 403 when the tenant
  lacks the scope; else the handler's own status, with a panic shown as 500.
\<close>

theorem control_plane_status:
  assumes "rq_Method r \<noteq> ''OPTIONS''" and "\<not> healthPath (rq_Path r)" and "Header_Get r ''E2b-Sandbox-Id'' = []"
    and "pick (rq_Method r) (rq_Path r) = Some rt" and "rt_Scope rt = Some sc" and "providers \<noteq> []"
  shows "statusOf (fst (serveHTTP lib (Some ps) pick providers run ts r s)) =
    (case Manager_Authenticate lib ps (realIPRequest r) of
       Inl e \<Rightarrow> 401
     | Inr tc \<Rightarrow>
         if \<not> fst (auth_RateLimiter_Allow (g_limiter s) (tc_TenantID tc) ts) then 429
         else if \<not> HasScope (Some tc) sc then 403
         else visibleStatus (fst (run (rt_Handler rt) (ContextWithTenant (realIPRequest r) tc) (g_inner s))))"
proof (cases "Manager_Authenticate lib ps (realIPRequest r)")
  case (Inl e)
  then show ?thesis using assms by (simp add: serveHTTP_status CORS_def AuthMW_def)
next
  case (Inr tc)
  let ?q = "ContextWithTenant (realIPRequest r) tc"
  obtain b rl where a: "auth_RateLimiter_Allow (g_limiter s) (tc_TenantID tc) ts = (b, rl)" by fastforce
  have q: "rq_Path ?q = rq_Path r" "rq_Method ?q = rq_Method r" "rateKey ?q = tc_TenantID tc" "rq_Tenant ?q = Some tc"
    by (simp_all add: ContextWithTenant_def rateKey_def TenantFromContext_def)
  have d: "visibleStatus (fst (dispatch pick providers run ?q s1)) =
      (if \<not> HasScope (Some tc) sc then 403 else visibleStatus (fst (run (rt_Handler rt) ?q (g_inner s1))))" for s1
    using assms(4-6) q by (simp add: dispatch_def authorized_def TenantFromContext_def split: prod.splits)
  have "statusOf (fst (serveHTTP lib (Some ps) pick providers run ts r s))
      = visibleStatus (fst (RateLimitMW ts (AuditLog (dispatch pick providers run)) ?q s))"
    using assms(1-3) Inr by (simp add: serveHTTP_status CORS_def AuthMW_def split: prod.splits)
  also have "\<dots> = (if \<not> b then 429 else visibleStatus (fst (dispatch pick providers run ?q (s\<lparr>g_limiter := rl\<rparr>))))"
    using assms(2) q a by (simp add: RateLimitMW_def AuditLog_status)
  finally show ?thesis using Inr a d by simp
qed

theorem control_plane_status_witness:
  "statusOf (fst (serveHTTP sample_lib (Some [APIKey (NewAPIKeyProvider sample_provider)]) sample_pick [sample_provider]
       (recorded sample_out) (0, 0) (sample_request [(''x-api-key'', ''nope'')]) sample_gateway)) = 401"
proof -
  let ?r = "sample_request [(''x-api-key'', ''nope'')]"
  have m: "Manager_Authenticate sample_lib [APIKey (NewAPIKeyProvider sample_provider)] (realIPRequest ?r)
      = Inl (Errorf ''authentication failed: no valid credentials'' [])" by code_simp
  obtain rt sc where rt: "sample_pick (rq_Method ?r) (rq_Path ?r) = Some rt" "rt_Scope rt = Some sc"
  proof -
    have "sample_pick (rq_Method ?r) (rq_Path ?r) = Some (scoped ''GET'' ''/sandboxes'' ''sandbox:read'' ''ListSandboxesHandler'')"
      by code_simp
    then show ?thesis using that by (simp add: scoped_def)
  qed
  have h: "rq_Method ?r \<noteq> ''OPTIONS''" "\<not> healthPath (rq_Path ?r)" "Header_Get ?r ''E2b-Sandbox-Id'' = []" by code_simp+
  show ?thesis by (subst control_plane_status [where pick = sample_pick, OF h rt]) (simp_all add: m)
qed

section \<open>Logs and panics\<close>

lemma dispatch_logs [simp]:
  "g_requestLog (snd (dispatch pick providers run r s)) = g_requestLog s"
  "g_auditLog (snd (dispatch pick providers run r s)) = g_auditLog s"
  by (simp_all add: dispatch_def Let_def split: option.splits prod.splits)

lemma AuditLog_requestLog [simp]: "g_requestLog (snd (AuditLog next r s)) = g_requestLog (snd (next r s))"
  by (simp add: AuditLog_def Let_def split: prod.splits outcome.splits)

lemma RateLimitMW_requestLog:
  assumes "\<And>r s. g_requestLog (snd (next r s)) = g_requestLog s"
  shows "g_requestLog (snd (RateLimitMW ts next r s)) = g_requestLog s"
  using assms by (simp add: RateLimitMW_def Let_def split: prod.splits)

lemma AuthMW_requestLog:
  assumes "\<And>r s. g_requestLog (snd (next r s)) = g_requestLog s"
  shows "g_requestLog (snd (AuthMW lib mgr next r s)) = g_requestLog s"
  using assms by (simp add: AuthMW_def split: option.splits sum.splits)

lemma CORS_requestLog:
  assumes "\<And>r s. g_requestLog (snd (next r s)) = g_requestLog s"
  shows "g_requestLog (snd (CORS next r s)) = g_requestLog s"
  using assms [of r s] by (auto simp: CORS_def split: prod.splits)

lemma Recovery_snd [simp]: "snd (Recovery next r s) = snd (next r s)"
  by (simp add: Recovery_def split: prod.splits outcome.splits)

lemma Recovery_responds: "\<exists>rs. fst (Recovery next r s) = Responded rs"
  by (auto simp: Recovery_def WriteError_def split: prod.splits outcome.splits)

lemma RequestLogger_logs:
  assumes "fst (next r s) = Responded rs"
  shows "fst (RequestLogger next r s) = Responded rs"
    and "g_requestLog (snd (RequestLogger next r s)) = g_requestLog (snd (next r s)) @
      [\<lparr>le_Tenant = [], le_Method = rq_Method r, le_Path = rq_Path r, le_Status = rs_Status rs, le_IP = remoteIP r\<rparr>]"
  using assms by (auto simp: RequestLogger_def split: prod.splits)


text \<open>
  An IPv6 client address in the forwarding header becomes a remote address that cannot be split into host and port:
  the rate-limit key is then empty, the same for all such clients.
\<close>

lemma ipv6_clients_share_rate_key:
  assumes "Header_Get r ''X-Forwarded-For'' = ''2001:db8::1''" and "rq_Tenant r = None"
  shows "rateKey (realIPRequest r) = []"
proof -
  have ip: "TrimSpace (takeWhile (\<lambda>ch. ch \<noteq> CHR '','') ''2001:db8::1'') = ''2001:db8::1''" by code_simp
  have "SplitHostPort ''2001:db8::1:0'' = None" by code_simp
  then show ?thesis
    using assms ip by (simp add: rateKey_def TenantFromContext_def remoteIP_def realIPRequest_def Let_def)
qed

end
