(* ===== verification/Envd_Codec.thy ===== *)
theory Envd_Codec
  imports Adapter_Types "HOL-Library.Word"
begin

text \<open>
  The ConnectRPC envelope codec of the envd client (\<open>internal/envd/codec.go\<close>) and the process
  stream built on it (\<open>internal/envd/process.go\<close>).  Bytes are \<open>8 word\<close>, the length field is a
  \<open>32 word\<close>; a reader is the list of bytes it will still deliver before the end of file.  JSON
  coding is a parameter (\<open>marshal\<close>, \<open>unmarshal\<close>).
\<close>

unbundle bit_operations_syntax

type_synonym byte = "8 word"

abbreviation "EnvelopeFlagNone \<equiv> (0x00 :: byte)"
abbreviation "EnvelopeFlagCompressed \<equiv> (0x01 :: byte)"
abbreviation "EnvelopeFlagEndStream \<equiv> (0x02 :: byte)"

definition maxEnvelopePayload :: nat where
  "maxEnvelopePayload = 33554432"

record Envelope =
  e_Flags :: byte
  e_Payload :: "byte list"

section \<open>Big-endian lengths\<close>

definition PutUint32 :: "32 word \<Rightarrow> byte list" where
  "PutUint32 v = [ucast (drop_bit 24 v), ucast (drop_bit 16 v), ucast (drop_bit 8 v), ucast v]"

fun Uint32 :: "byte list \<Rightarrow> 32 word" where
  "Uint32 [b0, b1, b2, b3] =
     ucast b3 OR push_bit 8 (ucast b2) OR push_bit 16 (ucast b1) OR push_bit 24 (ucast b0)"
| "Uint32 _ = 0"

lemma PutUint32_length [simp]: "length (PutUint32 v) = 4"
  by (simp add: PutUint32_def)

lemma Uint32_PutUint32 [simp]: "Uint32 (PutUint32 v) = v"
proof (rule bit_word_eqI)
  fix n assume n: "n < LENGTH(32)"
  consider "n < 8" | "8 \<le> n" "n < 16" | "16 \<le> n" "n < 24" | "24 \<le> n" "n < 32" using n by fastforce
  then show "bit (Uint32 (PutUint32 v)) n = bit v n"
    by cases (auto simp: PutUint32_def bit_simps)
qed

section \<open>Reading\<close>

datatype ioError = EOF | UnexpectedEOF

text \<open>\<open>io.ReadFull\<close>: \<open>EOF\<close> when nothing could be read, \<open>UnexpectedEOF\<close> after a partial read.\<close>

definition ReadFull :: "byte list \<Rightarrow> nat \<Rightarrow> (ioError + byte list) \<times> byte list" where
  "ReadFull rd n =
     (if n \<le> length rd then (Inr (take n rd), drop n rd)
      else if rd = [] then (Inl EOF, []) else (Inl UnexpectedEOF, []))"

datatype codecError =
    ReadingHeader ioError
  | PayloadTooLarge nat
  | ReadingPayload ioError
  | EnvelopeTooShort nat
  | PayloadTruncated nat nat

text \<open>\<open>errors.Is(err, io.EOF)\<close>, through the wrapping of \<open>fmt.Errorf\<close>.\<close>

fun isEOF :: "codecError \<Rightarrow> bool" where
  "isEOF (ReadingHeader e) = (e = EOF)"
| "isEOF (ReadingPayload e) = (e = EOF)"
| "isEOF _ = False"

definition EncodeEnvelope :: "('m \<Rightarrow> go_error + byte list) \<Rightarrow> byte \<Rightarrow> 'm \<Rightarrow> (byte list) go_res" where
  "EncodeEnvelope marshal flags msg =
     (case marshal msg of
        Inl e \<Rightarrow> Inl (Errorf ''marshaling envelope payload: %w'' [])
      | Inr payload \<Rightarrow> Inr ((flags # PutUint32 (word_of_nat (length payload))) @ payload))"

definition DecodeEnvelope :: "byte list \<Rightarrow> (codecError + Envelope) \<times> byte list" where
  "DecodeEnvelope rd =
     (case ReadFull rd 5 of
        (Inl e, rd) \<Rightarrow> (Inl (ReadingHeader e), rd)
      | (Inr header, rd) \<Rightarrow>
          let flags = header ! 0;
              len = unat (Uint32 (drop 1 header))
          in if len > maxEnvelopePayload then (Inl (PayloadTooLarge len), rd)
             else case ReadFull rd len of
                    (Inl e, rd) \<Rightarrow> (Inl (ReadingPayload e), rd)
                  | (Inr payload, rd) \<Rightarrow> (Inr \<lparr>e_Flags = flags, e_Payload = payload\<rparr>, rd))"

text \<open>The comparison with the available bytes is on \<open>uint32\<close>, so it wraps for inputs above 4 GiB.\<close>

definition DecodeEnvelopeFromBytes :: "byte list \<Rightarrow> codecError + Envelope" where
  "DecodeEnvelopeFromBytes bs =
     (if length bs < 5 then Inl (EnvelopeTooShort (length bs))
      else
        let flags = bs ! 0;
            len = Uint32 (take 4 (drop 1 bs))
        in if unat len > maxEnvelopePayload then Inl (PayloadTooLarge (unat len))
           else if (word_of_nat (length bs - 5) :: 32 word) < len then
             Inl (PayloadTruncated (unat len) (length bs - 5))
           else Inr \<lparr>e_Flags = flags, e_Payload = take (unat len) (drop 5 bs)\<rparr>)"

definition IsEndStream :: "Envelope \<Rightarrow> bool" where
  "IsEndStream e = ((e_Flags e AND EnvelopeFlagEndStream) \<noteq> 0)"

record StreamError =
  se_Code :: string
  se_Message :: string

text \<open>The trailer of a stream: \<open>None\<close> when it does not decode, else its error if it has one.\<close>

type_synonym unmarshalTrailer = "byte list \<Rightarrow> StreamError option option"

lemma DecodeEnvelope_shorter:
  "DecodeEnvelope rd = (Inr env, rd') \<Longrightarrow> length rd' < length rd"
  by (auto simp: DecodeEnvelope_def ReadFull_def Let_def split: if_splits prod.splits sum.splits)

datatype streamError =
    DecodingEnvelope codecError
  | HandlerError go_error
  | TrailerError StreamError

text \<open>\<open>ReadStream\<close>: the handler runs on the state \<open>s\<close>; the result is the error, if any, and the state.\<close>

function ReadStream ::
  "unmarshalTrailer \<Rightarrow> (Envelope \<Rightarrow> 's \<Rightarrow> go_error option \<times> 's) \<Rightarrow> byte list \<Rightarrow> 's \<Rightarrow> streamError option \<times> 's" where
  "ReadStream trailer h rd s =
     (case DecodeEnvelope rd of
        (Inl err, rd') \<Rightarrow> if isEOF err then (None, s) else (Some (DecodingEnvelope err), s)
      | (Inr env, rd') \<Rightarrow>
          (case h env s of
             (Some err, s) \<Rightarrow> (Some (HandlerError err), s)
           | (None, s) \<Rightarrow>
               if IsEndStream env then
                 (case trailer (e_Payload env) of
                    Some (Some e) \<Rightarrow> (Some (TrailerError e), s)
                  | _ \<Rightarrow> (None, s))
               else ReadStream trailer h rd' s))"
  by pat_completeness auto
termination
  by (relation "measure (\<lambda>(t, h, rd, s). length rd)") (auto dest!: DecodeEnvelope_shorter [OF sym])

declare ReadStream.simps [simp del]

section \<open>Process streams\<close>

record DataEvent =
  de_Stdout :: string
  de_Stderr :: string
  de_PTY :: string

record EndEvent =
  ee_ExitCode :: "32 word"
  ee_Error :: string

record ProcessEvent =
  pe_Start :: bool
  pe_Data :: "DataEvent option"
  pe_End :: "EndEvent option"
  pe_Keepalive :: bool

text \<open>Standard base64 with padding (\<open>base64.StdEncoding.DecodeString\<close>); line breaks are skipped.\<close>

definition b64val :: "char \<Rightarrow> nat option" where
  "b64val ch =
     (let n = of_char ch :: nat
      in if 65 \<le> n \<and> n \<le> 90 then Some (n - 65)
         else if 97 \<le> n \<and> n \<le> 122 then Some (n - 71)
         else if 48 \<le> n \<and> n \<le> 57 then Some (n + 4)
         else if ch = CHR ''+'' then Some 62
         else if ch = CHR ''/'' then Some 63
         else None)"

fun b64quads :: "string \<Rightarrow> (byte list) option" where
  "b64quads [] = Some []"
| "b64quads (a # b # c # d # rest) =
     (case (b64val a, b64val b) of
        (Some va, Some vb) \<Rightarrow>
          let b0 = word_of_nat (va * 4 + vb div 16) :: byte
          in if c = CHR ''='' then (if d = CHR ''='' \<and> rest = [] then Some [b0] else None)
             else case b64val c of
                    None \<Rightarrow> None
                  | Some vc \<Rightarrow>
                      let b1 = word_of_nat ((vb mod 16) * 16 + vc div 4) :: byte
                      in if d = CHR ''='' then (if rest = [] then Some [b0, b1] else None)
                         else case b64val d of
                                None \<Rightarrow> None
                              | Some vd \<Rightarrow>
                                  let b2 = word_of_nat ((vc mod 4) * 64 + vd) :: byte
                                  in map_option (\<lambda>bs. b0 # b1 # b2 # bs) (b64quads rest)
      | _ \<Rightarrow> None)"
| "b64quads _ = None"

definition DecodeString :: "string \<Rightarrow> (byte list) option" where
  "DecodeString s = b64quads (filter (\<lambda>ch. of_char ch \<noteq> (10 :: nat) \<and> of_char ch \<noteq> (13 :: nat)) s)"

record ProcessStream =
  ps_reader :: "byte list"
  ps_stdout :: "byte list"
  ps_stderr :: "byte list"
  ps_exitCode :: "32 word"
  ps_done :: bool

datatype readError = ReadEOF | ReadDecoding codecError | ReadUnmarshal go_error

type_synonym unmarshalEvent = "byte list \<Rightarrow> go_error + ProcessEvent option"

definition ProcessStream_Read ::
  "unmarshalEvent \<Rightarrow> ProcessStream \<Rightarrow> (readError + ProcessEvent option) \<times> ProcessStream" where
  "ProcessStream_Read unmarshal ps =
     (if ps_done ps then (Inl ReadEOF, ps)
      else case DecodeEnvelope (ps_reader ps) of
             (Inl err, rd) \<Rightarrow>
               if isEOF err then (Inl ReadEOF, ps\<lparr>ps_reader := rd, ps_done := True\<rparr>)
               else (Inl (ReadDecoding err), ps\<lparr>ps_reader := rd\<rparr>)
           | (Inr env, rd) \<Rightarrow>
               (case unmarshal (e_Payload env) of
                  Inl e \<Rightarrow> (Inl (ReadUnmarshal e), ps\<lparr>ps_reader := rd\<rparr>)
                | Inr ev \<Rightarrow>
                    (Inr ev, if IsEndStream env then ps\<lparr>ps_reader := rd, ps_done := True\<rparr>
                             else ps\<lparr>ps_reader := rd\<rparr>)))"

definition appendDecoded :: "byte list \<Rightarrow> string \<Rightarrow> byte list" where
  "appendDecoded buf s =
     (if s = [] then buf else case DecodeString s of None \<Rightarrow> buf | Some bs \<Rightarrow> buf @ bs)"

definition recordData :: "ProcessStream \<Rightarrow> ProcessEvent \<Rightarrow> ProcessStream" where
  "recordData ps ev =
     (case pe_Data ev of
        None \<Rightarrow> ps
      | Some d \<Rightarrow>
          ps\<lparr>ps_stdout := appendDecoded (ps_stdout ps) (de_Stdout d),
             ps_stderr := appendDecoded (ps_stderr ps) (de_Stderr d)\<rparr>)"

datatype readAllError = ReadFailed readError | ProcessError string

record readAllResult =
  ra_stdout :: "byte list"
  ra_stderr :: "byte list"
  ra_exitCode :: "32 word"
  ra_err :: "readAllError option"

lemma ProcessStream_Read_measure:
  assumes "ProcessStream_Read unmarshal ps = (Inr ev, ps')"
  shows "length (ps_reader (recordData ps' e)) < length (ps_reader ps)"
    and "length (ps_reader ps') < length (ps_reader ps)"
  using assms
  by (auto simp: ProcessStream_Read_def recordData_def dest!: DecodeEnvelope_shorter
      split: if_splits prod.splits sum.splits option.splits)

function ReadAll :: "unmarshalEvent \<Rightarrow> ProcessStream \<Rightarrow> readAllResult" where
  "ReadAll unmarshal ps =
     (case ProcessStream_Read unmarshal ps of
        (Inl ReadEOF, ps) \<Rightarrow>
          \<lparr>ra_stdout = ps_stdout ps, ra_stderr = ps_stderr ps, ra_exitCode = ps_exitCode ps, ra_err = None\<rparr>
      | (Inl err, ps) \<Rightarrow> \<lparr>ra_stdout = [], ra_stderr = [], ra_exitCode = -1, ra_err = Some (ReadFailed err)\<rparr>
      | (Inr None, ps) \<Rightarrow> ReadAll unmarshal ps
      | (Inr (Some ev), ps) \<Rightarrow>
          (let ps = recordData ps ev
           in case pe_End ev of
                None \<Rightarrow> ReadAll unmarshal ps
              | Some en \<Rightarrow>
                  let ps = ps\<lparr>ps_exitCode := ee_ExitCode en\<rparr>
                  in if ee_Error en \<noteq> [] then
                       \<lparr>ra_stdout = ps_stdout ps, ra_stderr = ps_stderr ps, ra_exitCode = ps_exitCode ps,
                        ra_err = Some (ProcessError (ee_Error en))\<rparr>
                     else ReadAll unmarshal ps))"
  by pat_completeness auto
termination
  by (relation "measure (\<lambda>(u, ps). length (ps_reader ps))") (auto dest: ProcessStream_Read_measure [OF sym])

declare ReadAll.simps [simp del]

definition NewProcessStream :: "byte list \<Rightarrow> ProcessStream" where
  "NewProcessStream rd = \<lparr>ps_reader = rd, ps_stdout = [], ps_stderr = [], ps_exitCode = 0, ps_done = False\<rparr>"

section \<open>Encoding and decoding\<close>

text \<open>The bytes of an envelope on the wire.\<close>

definition wire :: "Envelope \<Rightarrow> byte list" where
  "wire e = e_Flags e # PutUint32 (word_of_nat (length (e_Payload e))) @ e_Payload e"

definition sendable :: "Envelope \<Rightarrow> bool" where
  "sendable e = (length (e_Payload e) \<le> maxEnvelopePayload)"

lemma sendable_length: "sendable e \<Longrightarrow> unat (word_of_nat (length (e_Payload e)) :: 32 word) = length (e_Payload e)"
  by (simp add: sendable_def maxEnvelopePayload_def unat_of_nat take_bit_eq_mod)

lemma EncodeEnvelope_wire:
  "marshal m = Inr p \<Longrightarrow> EncodeEnvelope marshal f m = Inr (wire \<lparr>e_Flags = f, e_Payload = p\<rparr>)"
  by (simp add: EncodeEnvelope_def wire_def)

lemma DecodeEnvelope_wire:
  assumes "sendable e"
  shows "DecodeEnvelope (wire e @ rest) = (Inr e, rest)"
proof -
  let ?l = "PutUint32 (word_of_nat (length (e_Payload e)))"
  have "ReadFull (wire e @ rest) 5 = (Inr (e_Flags e # ?l), e_Payload e @ rest)"
    by (simp add: ReadFull_def wire_def)
  moreover have "ReadFull (e_Payload e @ rest) (length (e_Payload e)) = (Inr (e_Payload e), rest)"
    by (simp add: ReadFull_def)
  ultimately show ?thesis
    using sendable_length [OF assms] assms by (simp add: DecodeEnvelope_def sendable_def)
qed

text \<open>
  C23: Envelopes survive the wire: what \<open>EncodeEnvelope\<close> writes for a message of at most 32 MiB,
  \<open>DecodeEnvelope\<close> reads back with the same flags and payload, and it consumes exactly those bytes,
  whatever follows.
\<close>

theorem envelope_roundtrip:
  assumes "marshal msg = Inr payload" and "length payload \<le> maxEnvelopePayload"
  shows "\<exists>bs. EncodeEnvelope marshal flags msg = Inr bs \<and>
           DecodeEnvelope (bs @ rest) = (Inr \<lparr>e_Flags = flags, e_Payload = payload\<rparr>, rest)"
  using assms EncodeEnvelope_wire [of marshal msg payload flags]
    DecodeEnvelope_wire [of "\<lparr>e_Flags = flags, e_Payload = payload\<rparr>" rest]
  by (simp add: sendable_def)

theorem envelope_roundtrip_witness:
  "\<exists>bs. EncodeEnvelope (\<lambda>_. Inr [0x7B, 0x7D]) 2 () = Inr bs \<and>
     DecodeEnvelope (bs @ [9]) = (Inr \<lparr>e_Flags = 2, e_Payload = [0x7B, 0x7D]\<rparr>, [9])"
  by (rule envelope_roundtrip) (simp_all add: maxEnvelopePayload_def)

text \<open>
  The two decoders agree: on less than 4 GiB, decoding a byte slice succeeds exactly when
  decoding the same bytes from a reader does, with the same envelope.
\<close>

lemma decoders_agree:
  assumes "length bs < 2 ^ 32 + 5"
  shows "DecodeEnvelopeFromBytes bs = Inr e \<longleftrightarrow> (\<exists>rest. DecodeEnvelope bs = (Inr e, rest))"
proof (cases "length bs < 5")
  case True
  then show ?thesis by (auto simp: DecodeEnvelopeFromBytes_def DecodeEnvelope_def ReadFull_def)
next
  case False
  let ?len = "Uint32 (take 4 (drop 1 bs))"
  have h: "drop (Suc 0) (take 5 bs) = take 4 (drop (Suc 0) bs)" by (simp add: drop_take)
  have w: "(word_of_nat (length bs - 5) :: 32 word) < ?len \<longleftrightarrow> length bs - 5 < unat ?len"
    using assms by (simp add: word_less_nat_alt unat_of_nat take_bit_eq_mod)
  have r: "ReadFull bs 5 = (Inr (take 5 bs), drop 5 bs)" using False by (simp add: ReadFull_def)
  have f: "take 5 bs ! 0 = bs ! 0" by simp
  show ?thesis
  proof (cases "unat ?len > maxEnvelopePayload")
    case True
    then show ?thesis
      using False by (simp add: DecodeEnvelopeFromBytes_def DecodeEnvelope_def r h Let_def)
  next
    case small: False
    show ?thesis
      using False small w
      by (simp add: DecodeEnvelopeFromBytes_def DecodeEnvelope_def r h f Let_def)
        (auto simp: ReadFull_def split: if_splits)
  qed
qed

lemma decoders_agree_witness:
  "DecodeEnvelopeFromBytes [0, 0, 0, 0, 1, 65] = Inr \<lparr>e_Flags = 0, e_Payload = [65]\<rparr> \<longleftrightarrow>
   (\<exists>rest. DecodeEnvelope [0, 0, 0, 0, 1, 65] = (Inr \<lparr>e_Flags = 0, e_Payload = [65]\<rparr>, rest))"
  by (rule decoders_agree) simp

section \<open>Streams\<close>

text \<open>The reference: deliver a list of envelopes to the handler until an error or the end-stream flag.\<close>

fun deliver ::
  "unmarshalTrailer \<Rightarrow> (Envelope \<Rightarrow> 's \<Rightarrow> go_error option \<times> 's) \<Rightarrow> Envelope list \<Rightarrow> 's \<Rightarrow> streamError option \<times> 's" where
  "deliver trailer h [] s = (None, s)"
| "deliver trailer h (e # es) s =
     (case h e s of
        (Some err, s) \<Rightarrow> (Some (HandlerError err), s)
      | (None, s) \<Rightarrow>
          if IsEndStream e then
            (case trailer (e_Payload e) of Some (Some err) \<Rightarrow> (Some (TrailerError err), s) | _ \<Rightarrow> (None, s))
          else deliver trailer h es s)"

lemma DecodeEnvelope_Nil: "DecodeEnvelope [] = (Inl (ReadingHeader EOF), [])"
  by (simp add: DecodeEnvelope_def ReadFull_def)

text \<open>
  C24: Reading a stream of encoded envelopes delivers them, in order, one handler call each, up to the
  first handler error or the first end-stream envelope, whose trailer error, if any, is the result; the
  loop always ends.
\<close>

theorem read_stream_delivers:
  assumes "\<forall>e \<in> set es. sendable e"
  shows "ReadStream trailer h (concat (map wire es)) s = deliver trailer h es s"
  using assms
proof (induction es arbitrary: s)
  case Nil
  then show ?case by (simp add: ReadStream.simps [of _ _ "[]"] DecodeEnvelope_Nil)
next
  case (Cons e es)
  then have "DecodeEnvelope (wire e @ concat (map wire es)) = (Inr e, concat (map wire es))"
    by (simp add: DecodeEnvelope_wire)
  then show ?case
    using Cons by (simp add: ReadStream.simps [of _ _ "wire e @ _"] split: prod.splits option.splits)
qed

theorem read_stream_delivers_witness:
  "ReadStream (\<lambda>_. Some None) (\<lambda>e n. (None, n + length (e_Payload e)))
     (concat (map wire [\<lparr>e_Flags = 0, e_Payload = [1, 2]\<rparr>, \<lparr>e_Flags = 2, e_Payload = []\<rparr>, \<lparr>e_Flags = 0, e_Payload = [3]\<rparr>])) 0
   = (None, 2)"
proof -
  let ?es = "[\<lparr>e_Flags = 0, e_Payload = [1, 2]\<rparr>, \<lparr>e_Flags = 2, e_Payload = []\<rparr>, \<lparr>e_Flags = 0, e_Payload = [3]\<rparr>] :: Envelope list"
  have "\<forall>e \<in> set ?es. sendable e" by (simp add: sendable_def maxEnvelopePayload_def)
  then show ?thesis by (subst read_stream_delivers) (simp_all add: IsEndStream_def)
qed

text \<open>
  A stream that breaks off after the header of an envelope is taken for a complete one: reading the payload
  reports \<open>EOF\<close>, which the loop cannot tell from the end of the stream.
\<close>

lemma truncated_envelope_ends_stream_cleanly:
  assumes "sendable e" and "e_Payload e \<noteq> []"
  shows "ReadStream trailer h (take 5 (wire e)) s = (None, s)"
proof -
  have t: "take 5 (wire e) = e_Flags e # PutUint32 (word_of_nat (length (e_Payload e)))" by (simp add: wire_def)
  have "DecodeEnvelope (take 5 (wire e)) = (Inl (ReadingPayload EOF), [])"
    unfolding t using assms sendable_length [OF assms(1)]
    by (simp add: DecodeEnvelope_def ReadFull_def sendable_def)
  then show ?thesis by (simp add: ReadStream.simps [of _ _ "take 5 _"])
qed

section \<open>Process output\<close>

text \<open>The reference: run through the events of a list of envelopes.\<close>

definition applyEvent :: "ProcessStream \<Rightarrow> ProcessEvent \<Rightarrow> ProcessStream" where
  "applyEvent ps ev =
     (case pe_End ev of
        None \<Rightarrow> recordData ps ev
      | Some en \<Rightarrow> (recordData ps ev)\<lparr>ps_exitCode := ee_ExitCode en\<rparr>)"

definition streamResult :: "ProcessStream \<Rightarrow> readAllError option \<Rightarrow> readAllResult" where
  "streamResult ps err =
     \<lparr>ra_stdout = ps_stdout ps, ra_stderr = ps_stderr ps, ra_exitCode = ps_exitCode ps, ra_err = err\<rparr>"

text \<open>Data events carry base64 text; the output is the concatenation of what decodes.\<close>

definition decodedOf :: "(DataEvent \<Rightarrow> string) \<Rightarrow> ProcessEvent \<Rightarrow> byte list" where
  "decodedOf sel ev = (case pe_Data ev of None \<Rightarrow> [] | Some d \<Rightarrow> (case DecodeString (sel d) of None \<Rightarrow> [] | Some bs \<Rightarrow> bs))"

lemma appendDecoded_eq: "appendDecoded buf s = buf @ (case DecodeString s of None \<Rightarrow> [] | Some bs \<Rightarrow> bs)"
  by (auto simp: appendDecoded_def DecodeString_def split: option.splits)

lemma applyEvent_output:
  "ps_stdout (applyEvent ps ev) = ps_stdout ps @ decodedOf de_Stdout ev"
  "ps_stderr (applyEvent ps ev) = ps_stderr ps @ decodedOf de_Stderr ev"
  "ps_reader (applyEvent ps ev) = ps_reader ps" "ps_done (applyEvent ps ev) = ps_done ps"
  by (auto simp: applyEvent_def recordData_def decodedOf_def appendDecoded_eq split: option.splits)

lemma fold_applyEvent_output:
  "ps_stdout (fold (\<lambda>ev ps. applyEvent ps ev) evs ps) = ps_stdout ps @ concat (map (decodedOf de_Stdout) evs)"
  "ps_stderr (fold (\<lambda>ev ps. applyEvent ps ev) evs ps) = ps_stderr ps @ concat (map (decodedOf de_Stderr) evs)"
  by (induction evs arbitrary: ps) (simp_all add: applyEvent_output)

lemma applyEvent_exitCode:
  "ps_exitCode (applyEvent ps ev) = (case pe_End ev of None \<Rightarrow> ps_exitCode ps | Some en \<Rightarrow> ee_ExitCode en)"
  by (auto simp: applyEvent_def recordData_def split: option.splits)

lemma fold_applyEvent_exitCode:
  "ps_exitCode p = ps_exitCode q \<Longrightarrow>
   ps_exitCode (fold (\<lambda>ev ps. applyEvent ps ev) evs p) = ps_exitCode (fold (\<lambda>ev ps. applyEvent ps ev) evs q)"
proof (induction evs arbitrary: p q)
  case (Cons ev evs)
  have "ps_exitCode (applyEvent p ev) = ps_exitCode (applyEvent q ev)"
    using Cons.prems by (simp add: applyEvent_exitCode split: option.splits)
  from Cons.IH [OF this] show ?case by simp
qed simp

lemma ReadAll_step:
  assumes "sendable e" and "\<not> IsEndStream e" and "unmarshal (e_Payload e) = Inr (Some ev)"
    and "\<forall>en. pe_End ev = Some en \<longrightarrow> ee_Error en = []" and "\<not> ps_done ps" and "ps_reader ps = wire e @ rest"
  shows "ReadAll unmarshal ps = ReadAll unmarshal (applyEvent (ps\<lparr>ps_reader := rest\<rparr>) ev)"
proof -
  have "ProcessStream_Read unmarshal ps = (Inr (Some ev), ps\<lparr>ps_reader := rest\<rparr>)"
    using assms by (simp add: ProcessStream_Read_def DecodeEnvelope_wire)
  then show ?thesis
    using assms(4) by (subst ReadAll.simps) (auto simp: applyEvent_def Let_def split: option.splits)
qed

lemma ReadAll_events:
  assumes "\<forall>e \<in> set es. sendable e \<and> \<not> IsEndStream e"
    and "list_all2 (\<lambda>e ev. unmarshal (e_Payload e) = Inr (Some ev)) es evs"
    and "\<forall>ev \<in> set evs. \<forall>en. pe_End ev = Some en \<longrightarrow> ee_Error en = []"
    and "\<not> ps_done ps" and "ps_reader ps = concat (map wire es)"
  shows "ReadAll unmarshal ps = streamResult (fold (\<lambda>ev ps. applyEvent ps ev) evs ps) None"
  using assms(2,1,3-)
proof (induction es evs arbitrary: ps rule: list_all2_induct)
  case Nil
  have "ProcessStream_Read unmarshal ps = (Inl ReadEOF, ps\<lparr>ps_reader := [], ps_done := True\<rparr>)"
    using Nil by (simp add: ProcessStream_Read_def DecodeEnvelope_Nil)
  then show ?case by (subst ReadAll.simps) (simp add: streamResult_def)
next
  case (Cons e es ev evs)
  let ?rest = "concat (map wire es)"
  have "ReadAll unmarshal ps = ReadAll unmarshal (applyEvent (ps\<lparr>ps_reader := ?rest\<rparr>) ev)"
    using Cons.prems Cons.hyps by (intro ReadAll_step [where e = e]) auto
  also have "\<dots> = streamResult (fold (\<lambda>ev ps. applyEvent ps ev) evs (applyEvent (ps\<lparr>ps_reader := ?rest\<rparr>) ev)) None"
    using Cons.prems by (intro Cons.IH) (auto simp: applyEvent_output)
  also have "\<dots> = streamResult (fold (\<lambda>ev ps. applyEvent ps ev) (ev # evs) ps) None"
    using fold_applyEvent_exitCode [of "applyEvent (ps\<lparr>ps_reader := ?rest\<rparr>) ev" "applyEvent ps ev" evs]
    by (simp add: streamResult_def fold_applyEvent_output applyEvent_output applyEvent_exitCode
        split: option.splits)
  finally show ?case .
qed

lemma exitCode_last:
  assumes "pe_End ev = Some en"
  shows "ps_exitCode (fold (\<lambda>ev ps. applyEvent ps ev) (evs @ [ev]) ps) = ee_ExitCode en"
  using assms by (simp add: applyEvent_def)

text \<open>
  Waiting for a process returns what it printed.  For a stream of events that ends with an end event without
  error, \<open>ReadAll\<close> returns the concatenation of the base64-decoded chunks of standard output and of standard
  error, in order, and the exit code of the end event.
\<close>

lemma read_all_collects_output:
  assumes "\<forall>e \<in> set es. sendable e \<and> \<not> IsEndStream e"
    and "list_all2 (\<lambda>e ev. unmarshal (e_Payload e) = Inr (Some ev)) es (evs @ [ev])"
    and "\<forall>ev \<in> set evs. pe_End ev = None" and "pe_End ev = Some en" and "ee_Error en = []"
  shows "ReadAll unmarshal (NewProcessStream (concat (map wire es))) =
    \<lparr>ra_stdout = concat (map (decodedOf de_Stdout) (evs @ [ev])),
     ra_stderr = concat (map (decodedOf de_Stderr) (evs @ [ev])),
     ra_exitCode = ee_ExitCode en, ra_err = None\<rparr>"
proof -
  let ?ps = "NewProcessStream (concat (map wire es))"
  have "ReadAll unmarshal ?ps = streamResult (fold (\<lambda>ev ps. applyEvent ps ev) (evs @ [ev]) ?ps) None"
    using assms by (intro ReadAll_events) (auto simp: NewProcessStream_def)
  then show ?thesis
    unfolding streamResult_def fold_applyEvent_output exitCode_last [OF assms(4)]
    by (simp add: NewProcessStream_def)
qed

definition sample_events :: unmarshalEvent where
  "sample_events p =
     (if p = [1] then Inr (Some \<lparr>pe_Start = False, pe_Data = Some \<lparr>de_Stdout = ''aGk='', de_Stderr = [], de_PTY = []\<rparr>,
                                 pe_End = None, pe_Keepalive = False\<rparr>)
      else Inr (Some \<lparr>pe_Start = False, pe_Data = None, pe_End = Some \<lparr>ee_ExitCode = 3, ee_Error = []\<rparr>, pe_Keepalive = False\<rparr>))"

lemma read_all_collects_output_witness:
  "ReadAll sample_events
     (NewProcessStream (concat (map wire [\<lparr>e_Flags = 0, e_Payload = [1]\<rparr>, \<lparr>e_Flags = 0, e_Payload = [2]\<rparr>])))
   = \<lparr>ra_stdout = [0x68, 0x69], ra_stderr = [], ra_exitCode = 3, ra_err = None\<rparr>"
proof -
  let ?d = "\<lparr>pe_Start = False, pe_Data = Some \<lparr>de_Stdout = ''aGk='', de_Stderr = [], de_PTY = []\<rparr>, pe_End = None, pe_Keepalive = False\<rparr>"
  let ?x = "\<lparr>pe_Start = False, pe_Data = None, pe_End = Some \<lparr>ee_ExitCode = 3, ee_Error = []\<rparr>, pe_Keepalive = False\<rparr>"
  let ?es = "[\<lparr>e_Flags = 0, e_Payload = [1]\<rparr>, \<lparr>e_Flags = 0, e_Payload = [2]\<rparr>] :: Envelope list"
  have "ReadAll sample_events (NewProcessStream (concat (map wire ?es))) =
    \<lparr>ra_stdout = concat (map (decodedOf de_Stdout) ([?d] @ [?x])),
     ra_stderr = concat (map (decodedOf de_Stderr) ([?d] @ [?x])), ra_exitCode = ee_ExitCode \<lparr>ee_ExitCode = 3, ee_Error = []\<rparr>, ra_err = None\<rparr>"
    by (rule read_all_collects_output)
      (simp_all add: sample_events_def sendable_def maxEnvelopePayload_def IsEndStream_def)
  moreover have "decodedOf de_Stdout ?d = [0x68, 0x69]" "decodedOf de_Stderr ?d = []" by code_simp+
  ultimately show ?thesis by (simp add: decodedOf_def)
qed

text \<open>A connection that drops before the end event is reported as a success with exit code zero.\<close>

lemma dropped_stream_reads_as_success:
  "ReadAll unmarshal (NewProcessStream []) = \<lparr>ra_stdout = [], ra_stderr = [], ra_exitCode = 0, ra_err = None\<rparr>"
  by (subst ReadAll.simps) (simp add: ProcessStream_Read_def NewProcessStream_def DecodeEnvelope_Nil)

text \<open>An end-stream envelope whose payload is a trailer with an error, and no event, is a success as well.\<close>

lemma stream_trailer_error_ignored:
  assumes "sendable e" and "IsEndStream e" and "unmarshal (e_Payload e) = Inr None"
  shows "ReadAll unmarshal (NewProcessStream (wire e))
           = \<lparr>ra_stdout = [], ra_stderr = [], ra_exitCode = 0, ra_err = None\<rparr>"
proof -
  have "ProcessStream_Read unmarshal (NewProcessStream (wire e))
      = (Inr None, (NewProcessStream (wire e))\<lparr>ps_reader := [], ps_done := True\<rparr>)"
    using assms DecodeEnvelope_wire [OF assms(1), of "[]"] by (simp add: ProcessStream_Read_def NewProcessStream_def)
  then show ?thesis
    by (subst ReadAll.simps) (simp, subst ReadAll.simps, simp add: ProcessStream_Read_def NewProcessStream_def)
qed

end
