(* ===== verification/Template_Store.thy ===== *)
theory Template_Store
  imports Adapter_Types
begin

text \<open>
  The contract of the OpenSandbox template store (\<open>internal/adapter/opensandbox/templatestore.go\<close>): the
  entries, the errors, an abstract store with one operation per method of the \<open>TemplateStore\<close> interface, and
  the locale an implementation has to meet.  The in-memory store and the Redis store are its two
  instances.

  An alias belongs to at most one template in the abstract store; the contract of \<open>AddAlias\<close> covers an alias
  that is free or already the template's own, on which the two implementations agree.
\<close>

record TemplateEntry =
  te_TemplateID :: string
  te_Name :: string
  te_ImageURI :: string
  te_Dockerfile :: string
  te_StartCmd :: string
  te_CPUCount :: int
  te_MemoryMB :: int
  te_BuildID :: string
  te_CreatedAt :: time
  te_Metadata :: strmap

datatype storeError =
    ErrTemplateNotFound string
  | ErrTemplateExists string
  | ErrBuildNotFound string
  | ErrAliasNotFound string "string option"
  | ErrTagNotFound string string
  | ErrUpdate go_error
  | ErrStorage string

section \<open>The abstract store\<close>

record astore =
  as_templates :: "string \<rightharpoonup> TemplateEntry"
  as_builds :: "string \<rightharpoonup> BuildStatus"
  as_templateBuilds :: "string \<Rightarrow> string set"
  as_aliases :: "string \<Rightarrow> string set"
  as_aliasReverse :: "string \<rightharpoonup> string"
  as_tags :: "string \<Rightarrow> string \<rightharpoonup> Tag"

definition spec_empty :: astore where
  "spec_empty =
     \<lparr>as_templates = Map.empty, as_builds = Map.empty, as_templateBuilds = (\<lambda>_. {}),
      as_aliases = (\<lambda>_. {}), as_aliasReverse = Map.empty, as_tags = (\<lambda>_. Map.empty)\<rparr>"

definition spec_create :: "TemplateEntry \<Rightarrow> astore \<Rightarrow> storeError option \<times> astore" where
  "spec_create e a =
     (if as_templates a (te_TemplateID e) \<noteq> None then (Some (ErrTemplateExists (te_TemplateID e)), a)
      else (None, a\<lparr>as_templates := (as_templates a)(te_TemplateID e \<mapsto> e)\<rparr>))"

definition spec_get :: "string \<Rightarrow> astore \<Rightarrow> storeError + TemplateEntry" where
  "spec_get t a = (case as_templates a t of None \<Rightarrow> Inl (ErrTemplateNotFound t) | Some e \<Rightarrow> Inr e)"

definition spec_update ::
  "string \<Rightarrow> (TemplateEntry \<Rightarrow> go_error + TemplateEntry) \<Rightarrow> astore \<Rightarrow> storeError option \<times> astore" where
  "spec_update t f a =
     (case as_templates a t of
        None \<Rightarrow> (Some (ErrTemplateNotFound t), a)
      | Some e \<Rightarrow>
          (case f e of
             Inl err \<Rightarrow> (Some (ErrUpdate err), a)
           | Inr e' \<Rightarrow> (None, a\<lparr>as_templates := (as_templates a)(t \<mapsto> e')\<rparr>)))"

definition spec_delete :: "string \<Rightarrow> astore \<Rightarrow> storeError option \<times> astore" where
  "spec_delete t a =
     (if as_templates a t = None then (Some (ErrTemplateNotFound t), a)
      else (None, a\<lparr>as_templates := (as_templates a)(t := None)\<rparr>))"

definition spec_saveBuild :: "string \<Rightarrow> BuildStatus \<Rightarrow> astore \<Rightarrow> astore" where
  "spec_saveBuild t b a =
     a\<lparr>as_builds := (as_builds a)(bs_BuildID b \<mapsto> b),
       as_templateBuilds := (as_templateBuilds a)(t := insert (bs_BuildID b) (as_templateBuilds a t))\<rparr>"

definition spec_getBuild :: "string \<Rightarrow> astore \<Rightarrow> storeError + BuildStatus" where
  "spec_getBuild b a = (case as_builds a b of None \<Rightarrow> Inl (ErrBuildNotFound b) | Some x \<Rightarrow> Inr x)"

definition spec_deleteBuilds :: "string \<Rightarrow> astore \<Rightarrow> astore" where
  "spec_deleteBuilds t a =
     a\<lparr>as_builds := (\<lambda>b. if b \<in> as_templateBuilds a t then None else as_builds a b),
       as_templateBuilds := (as_templateBuilds a)(t := {})\<rparr>"

definition spec_addAlias :: "string \<Rightarrow> string \<Rightarrow> astore \<Rightarrow> astore" where
  "spec_addAlias t al a =
     a\<lparr>as_aliases := (as_aliases a)(t := insert al (as_aliases a t)),
       as_aliasReverse := (as_aliasReverse a)(al \<mapsto> t)\<rparr>"

definition spec_removeAlias :: "string \<Rightarrow> string \<Rightarrow> astore \<Rightarrow> storeError option \<times> astore" where
  "spec_removeAlias t al a =
     (if al \<notin> as_aliases a t then (Some (ErrAliasNotFound al (Some t)), a)
      else (None, a\<lparr>as_aliases := (as_aliases a)(t := as_aliases a t - {al}),
                    as_aliasReverse := (as_aliasReverse a)(al := None)\<rparr>))"

definition spec_resolve :: "string \<Rightarrow> astore \<Rightarrow> storeError + string" where
  "spec_resolve al a = (case as_aliasReverse a al of None \<Rightarrow> Inl (ErrAliasNotFound al None) | Some t \<Rightarrow> Inr t)"

definition spec_deleteAliases :: "string \<Rightarrow> astore \<Rightarrow> astore" where
  "spec_deleteAliases t a =
     a\<lparr>as_aliases := (as_aliases a)(t := {}),
       as_aliasReverse := (\<lambda>al. if al \<in> as_aliases a t then None else as_aliasReverse a al)\<rparr>"

definition spec_saveTag :: "string \<Rightarrow> Tag \<Rightarrow> astore \<Rightarrow> astore" where
  "spec_saveTag t g a = a\<lparr>as_tags := (as_tags a)(t := (as_tags a t)(tag_Name g \<mapsto> g))\<rparr>"

definition spec_deleteTag :: "string \<Rightarrow> string \<Rightarrow> astore \<Rightarrow> storeError option \<times> astore" where
  "spec_deleteTag t n a =
     (if as_tags a t n = None then (Some (ErrTagNotFound n t), a)
      else (None, a\<lparr>as_tags := (as_tags a)(t := (as_tags a t)(n := None))\<rparr>))"

definition spec_deleteTags :: "string \<Rightarrow> astore \<Rightarrow> astore" where
  "spec_deleteTags t a = a\<lparr>as_tags := (as_tags a)(t := Map.empty)\<rparr>"

text \<open>Aliases and their reverse map agree: an alias resolves to the one template that lists it.\<close>

definition alias_consistent :: "astore \<Rightarrow> bool" where
  "alias_consistent a = (\<forall>al t. as_aliasReverse a al = Some t \<longleftrightarrow> al \<in> as_aliases a t)"

definition alias_free :: "string \<Rightarrow> string \<Rightarrow> astore \<Rightarrow> bool" where
  "alias_free t al a = (as_aliasReverse a al \<in> {None, Some t})"

lemma alias_consistent_empty: "alias_consistent spec_empty"
  by (simp add: alias_consistent_def spec_empty_def)

lemma alias_consistent_add:
  assumes "alias_consistent a" and "alias_free t al a"
  shows "alias_consistent (spec_addAlias t al a)"
  using assms unfolding alias_consistent_def alias_free_def spec_addAlias_def
  by simp (metis option.distinct(1) option.inject)

lemma alias_consistent_remove:
  assumes "alias_consistent a"
  shows "alias_consistent (snd (spec_removeAlias t al a))"
  using assms unfolding alias_consistent_def spec_removeAlias_def
  by simp (metis option.inject)

lemma alias_consistent_deleteAliases:
  assumes "alias_consistent a"
  shows "alias_consistent (spec_deleteAliases t a)"
  using assms unfolding alias_consistent_def spec_deleteAliases_def
  by simp (metis option.inject)

section \<open>Calls\<close>

text \<open>The calls on a store, and what they return.\<close>

datatype storeCall =
    CCreate TemplateEntry
  | CGet string
  | CUpdate string "TemplateEntry \<Rightarrow> go_error + TemplateEntry"
  | CDelete string
  | CSaveBuild string BuildStatus
  | CGetBuild string
  | CDeleteBuilds string
  | CAddAlias string string
  | CRemoveAlias string string
  | CResolve string
  | CDeleteAliases string
  | CSaveTag string Tag
  | CDeleteTag string string
  | CDeleteTags string

datatype storeReply =
    RErr "storeError option"
  | RTemplate "storeError + TemplateEntry"
  | RBuild "storeError + BuildStatus"
  | RString "storeError + string"

fun spec_call :: "storeCall \<Rightarrow> astore \<Rightarrow> storeReply \<times> astore" where
  "spec_call (CCreate e) a = apfst RErr (spec_create e a)"
| "spec_call (CGet t) a = (RTemplate (spec_get t a), a)"
| "spec_call (CUpdate t f) a = apfst RErr (spec_update t f a)"
| "spec_call (CDelete t) a = apfst RErr (spec_delete t a)"
| "spec_call (CSaveBuild t b) a = (RErr None, spec_saveBuild t b a)"
| "spec_call (CGetBuild b) a = (RBuild (spec_getBuild b a), a)"
| "spec_call (CDeleteBuilds t) a = (RErr None, spec_deleteBuilds t a)"
| "spec_call (CAddAlias t al) a = (RErr None, spec_addAlias t al a)"
| "spec_call (CRemoveAlias t al) a = apfst RErr (spec_removeAlias t al a)"
| "spec_call (CResolve al) a = (RString (spec_resolve al a), a)"
| "spec_call (CDeleteAliases t) a = (RErr None, spec_deleteAliases t a)"
| "spec_call (CSaveTag t g) a = (RErr None, spec_saveTag t g a)"
| "spec_call (CDeleteTag t n) a = apfst RErr (spec_deleteTag t n a)"
| "spec_call (CDeleteTags t) a = (RErr None, spec_deleteTags t a)"

text \<open>No call claims an alias of another template.\<close>

fun call_ok :: "storeCall \<Rightarrow> astore \<Rightarrow> bool" where
  "call_ok (CAddAlias t al) a = alias_free t al a"
| "call_ok _ a = True"

fun spec_run :: "storeCall list \<Rightarrow> astore \<Rightarrow> storeReply list" where
  "spec_run [] a = []"
| "spec_run (c # cs) a = (case spec_call c a of (r, a) \<Rightarrow> r # spec_run cs a)"

fun calls_ok :: "storeCall list \<Rightarrow> astore \<Rightarrow> bool" where
  "calls_ok [] a = True"
| "calls_ok (c # cs) a = (call_ok c a \<and> calls_ok cs (snd (spec_call c a)))"

fun store_run :: "(storeCall \<Rightarrow> 's \<Rightarrow> storeReply \<times> 's) \<Rightarrow> storeCall list \<Rightarrow> 's \<Rightarrow> storeReply list" where
  "store_run step [] s = []"
| "store_run step (c # cs) s = (case step c s of (r, s) \<Rightarrow> r # store_run step cs s)"

section \<open>What an implementation promises\<close>

text \<open>The methods of an implementation over its state.\<close>

record 's storeOps =
  so_create :: "TemplateEntry \<Rightarrow> 's \<Rightarrow> storeError option \<times> 's"
  so_get :: "string \<Rightarrow> 's \<Rightarrow> (storeError + TemplateEntry) \<times> 's"
  so_update :: "string \<Rightarrow> (TemplateEntry \<Rightarrow> go_error + TemplateEntry) \<Rightarrow> 's \<Rightarrow> storeError option \<times> 's"
  so_delete :: "string \<Rightarrow> 's \<Rightarrow> storeError option \<times> 's"
  so_saveBuild :: "string \<Rightarrow> BuildStatus \<Rightarrow> 's \<Rightarrow> storeError option \<times> 's"
  so_getBuild :: "string \<Rightarrow> 's \<Rightarrow> (storeError + BuildStatus) \<times> 's"
  so_deleteBuilds :: "string \<Rightarrow> 's \<Rightarrow> storeError option \<times> 's"
  so_addAlias :: "string \<Rightarrow> string \<Rightarrow> 's \<Rightarrow> storeError option \<times> 's"
  so_removeAlias :: "string \<Rightarrow> string \<Rightarrow> 's \<Rightarrow> storeError option \<times> 's"
  so_resolve :: "string \<Rightarrow> 's \<Rightarrow> (storeError + string) \<times> 's"
  so_deleteAliases :: "string \<Rightarrow> 's \<Rightarrow> storeError option \<times> 's"
  so_saveTag :: "string \<Rightarrow> Tag \<Rightarrow> 's \<Rightarrow> storeError option \<times> 's"
  so_deleteTag :: "string \<Rightarrow> string \<Rightarrow> 's \<Rightarrow> storeError option \<times> 's"
  so_deleteTags :: "string \<Rightarrow> 's \<Rightarrow> storeError option \<times> 's"

fun call_with :: "'s storeOps \<Rightarrow> storeCall \<Rightarrow> 's \<Rightarrow> storeReply \<times> 's" where
  "call_with ops (CCreate e) s = apfst RErr (so_create ops e s)"
| "call_with ops (CGet t) s = apfst RTemplate (so_get ops t s)"
| "call_with ops (CUpdate t f) s = apfst RErr (so_update ops t f s)"
| "call_with ops (CDelete t) s = apfst RErr (so_delete ops t s)"
| "call_with ops (CSaveBuild t b) s = apfst RErr (so_saveBuild ops t b s)"
| "call_with ops (CGetBuild b) s = apfst RBuild (so_getBuild ops b s)"
| "call_with ops (CDeleteBuilds t) s = apfst RErr (so_deleteBuilds ops t s)"
| "call_with ops (CAddAlias t al) s = apfst RErr (so_addAlias ops t al s)"
| "call_with ops (CRemoveAlias t al) s = apfst RErr (so_removeAlias ops t al s)"
| "call_with ops (CResolve al) s = apfst RString (so_resolve ops al s)"
| "call_with ops (CDeleteAliases t) s = apfst RErr (so_deleteAliases ops t s)"
| "call_with ops (CSaveTag t g) s = apfst RErr (so_saveTag ops t g s)"
| "call_with ops (CDeleteTag t n) s = apfst RErr (so_deleteTag ops t n s)"
| "call_with ops (CDeleteTags t) s = apfst RErr (so_deleteTags ops t s)"

lemma spec_call_consistent:
  assumes "alias_consistent a" and "call_ok c a"
  shows "alias_consistent (snd (spec_call c a))"
proof (cases c)
  case (CAddAlias t al)
  then show ?thesis using assms alias_consistent_add by simp
next
  case (CRemoveAlias t al)
  then show ?thesis using assms alias_consistent_remove by simp
next
  case (CDeleteAliases t)
  then show ?thesis using assms alias_consistent_deleteAliases by simp
qed (use assms in \<open>auto simp: alias_consistent_def spec_create_def spec_update_def spec_delete_def spec_saveBuild_def
    spec_deleteBuilds_def spec_saveTag_def spec_deleteTag_def spec_deleteTags_def split: option.splits sum.splits\<close>)

text \<open>An implementation simulates the abstract store: every call gives the abstract reply and keeps the invariant.
  What the invariant guarantees of the aliases is part of the contract.\<close>

locale template_store =
  fixes absf :: "'s \<Rightarrow> astore"
    and ok :: "'s \<Rightarrow> bool"
    and ops :: "'s storeOps"
  assumes simulates: "ok s \<Longrightarrow> call_ok c (absf s) \<Longrightarrow> call_with ops c s = (r, s') \<Longrightarrow>
                      ok s' \<and> spec_call c (absf s) = (r, absf s')"
    and consistent: "ok s \<Longrightarrow> alias_consistent (absf s)"
begin

lemma run_refines: "ok s \<Longrightarrow> calls_ok cs (absf s) \<Longrightarrow> store_run (call_with ops) cs s = spec_run cs (absf s)"
proof (induction cs arbitrary: s)
  case (Cons c cs)
  obtain r s' where st: "call_with ops c s = (r, s')" by fastforce
  show ?case using simulates [OF Cons.prems(1) _ st] Cons st by simp
qed simp

lemma resolve_owner:
  assumes "ok s" and "so_resolve ops al s = (Inr t, s')"
  shows "al \<in> as_aliases (absf s) t"
proof -
  have "call_with ops (CResolve al) s = (RString (Inr t), s')" using assms(2) by simp
  from simulates [OF assms(1) _ this] have "as_aliasReverse (absf s) al = Some t"
    by (auto simp: spec_resolve_def split: option.splits)
  then show ?thesis using consistent [OF assms(1)] by (simp add: alias_consistent_def)
qed

text \<open>Deleting a template, then its builds, aliases and tags.\<close>

lemma delete_cascade:
  assumes "ok s" and "so_delete ops t s = (r1, s1)" and "so_deleteBuilds ops t s1 = (r2, s2)"
    and "so_deleteAliases ops t s2 = (r3, s3)" and "so_deleteTags ops t s3 = (r4, s4)"
  shows "ok s4 \<and> as_templates (absf s4) t = None \<and> as_templateBuilds (absf s4) t = {} \<and>
         as_tags (absf s4) t = Map.empty \<and> (\<forall>al. as_aliasReverse (absf s4) al \<noteq> Some t)"
proof -
  have 1: "ok s1 \<and> spec_call (CDelete t) (absf s) = (RErr r1, absf s1)"
    using assms by (intro simulates) simp_all
  have 2: "ok s2 \<and> spec_call (CDeleteBuilds t) (absf s1) = (RErr r2, absf s2)"
    using assms 1 by (intro simulates) simp_all
  have 3: "ok s3 \<and> spec_call (CDeleteAliases t) (absf s2) = (RErr r3, absf s3)"
    using assms 2 by (intro simulates) simp_all
  have 4: "ok s4 \<and> spec_call (CDeleteTags t) (absf s3) = (RErr r4, absf s4)"
    using assms 3 by (intro simulates) simp_all
  have a4: "absf s4 = spec_deleteTags t (spec_deleteAliases t (spec_deleteBuilds t (snd (spec_delete t (absf s)))))"
    using 1 2 3 4 by (cases "spec_delete t (absf s)") simp
  have "as_templates (absf s4) t = None" "as_templateBuilds (absf s4) t = {}" "as_tags (absf s4) t = Map.empty"
    "as_aliases (absf s4) t = {}"
    unfolding a4 by (auto simp: spec_deleteTags_def spec_deleteAliases_def spec_deleteBuilds_def spec_delete_def)
  then show ?thesis using 4 consistent [of s4] by (auto simp: alias_consistent_def)
qed

end

end
