(* ===== verification/Memory_Store.thy ===== *)
theory Memory_Store
  imports Template_Store
begin

text \<open>
  The in-memory template store (\<open>internal/adapter/opensandbox/memory_store.go\<close>).  Entries are
  values, so the copies the code takes are the values themselves.  A \<open>range\<close> over a map takes its order as
  an argument.
\<close>

record memStore =
  ms_templates :: "(string, TemplateEntry) gomap"
  ms_builds :: "(string, BuildStatus) gomap"
  ms_templateBuilds :: "(string, (string, unit) gomap) gomap"
  ms_aliases :: "(string, string list) gomap"
  ms_aliasReverse :: "(string, string) gomap"
  ms_tags :: "(string, Tag list) gomap"

definition NewMemoryTemplateStore :: memStore where
  "NewMemoryTemplateStore =
     \<lparr>ms_templates = [], ms_builds = [], ms_templateBuilds = [], ms_aliases = [], ms_aliasReverse = [], ms_tags = []\<rparr>"

section \<open>Templates\<close>

definition Mem_CreateTemplate :: "TemplateEntry \<Rightarrow> memStore \<Rightarrow> storeError option \<times> memStore" where
  "Mem_CreateTemplate entry s =
     (if gm_has (ms_templates s) (te_TemplateID entry) then (Some (ErrTemplateExists (te_TemplateID entry)), s)
      else (None, s\<lparr>ms_templates := gm_set (ms_templates s) (te_TemplateID entry) entry\<rparr>))"

definition Mem_GetTemplate :: "string \<Rightarrow> memStore \<Rightarrow> (storeError + TemplateEntry) \<times> memStore" where
  "Mem_GetTemplate templateID s =
     (case gm_get (ms_templates s) templateID of
        None \<Rightarrow> (Inl (ErrTemplateNotFound templateID), s)
      | Some entry \<Rightarrow> (Inr entry, s))"

definition Mem_ListTemplates :: "string list \<Rightarrow> memStore \<Rightarrow> TemplateEntry list" where
  "Mem_ListTemplates ord s = sort_key te_CreatedAt (map snd (gm_range (ms_templates s) ord))"

definition Mem_UpdateTemplate ::
  "string \<Rightarrow> (TemplateEntry \<Rightarrow> go_error + TemplateEntry) \<Rightarrow> memStore \<Rightarrow> storeError option \<times> memStore" where
  "Mem_UpdateTemplate templateID update s =
     (case gm_get (ms_templates s) templateID of
        None \<Rightarrow> (Some (ErrTemplateNotFound templateID), s)
      | Some entry \<Rightarrow>
          (case update entry of
             Inl err \<Rightarrow> (Some (ErrUpdate err), s)
           | Inr cp \<Rightarrow> (None, s\<lparr>ms_templates := gm_set (ms_templates s) templateID cp\<rparr>)))"

definition Mem_DeleteTemplate :: "string \<Rightarrow> memStore \<Rightarrow> storeError option \<times> memStore" where
  "Mem_DeleteTemplate templateID s =
     (if \<not> gm_has (ms_templates s) templateID then (Some (ErrTemplateNotFound templateID), s)
      else (None, s\<lparr>ms_templates := gm_del (ms_templates s) templateID\<rparr>))"

section \<open>Builds\<close>

definition Mem_SaveBuild :: "string \<Rightarrow> BuildStatus \<Rightarrow> memStore \<Rightarrow> storeError option \<times> memStore" where
  "Mem_SaveBuild templateID build s =
     (let tb = gm_get_or [] (ms_templateBuilds s) templateID
      in (None, s\<lparr>ms_builds := gm_set (ms_builds s) (bs_BuildID build) build,
                  ms_templateBuilds := gm_set (ms_templateBuilds s) templateID (gm_set tb (bs_BuildID build) ())\<rparr>))"

definition Mem_GetBuild :: "string \<Rightarrow> memStore \<Rightarrow> (storeError + BuildStatus) \<times> memStore" where
  "Mem_GetBuild buildID s =
     (case gm_get (ms_builds s) buildID of
        None \<Rightarrow> (Inl (ErrBuildNotFound buildID), s)
      | Some bs \<Rightarrow> (Inr bs, s))"

definition Mem_ListBuilds :: "string list \<Rightarrow> string \<Rightarrow> memStore \<Rightarrow> BuildStatus list" where
  "Mem_ListBuilds ord templateID s =
     List.map_filter (gm_get (ms_builds s))
       (map fst (gm_range (gm_get_or [] (ms_templateBuilds s) templateID) ord))"

definition Mem_DeleteBuilds :: "string \<Rightarrow> memStore \<Rightarrow> storeError option \<times> memStore" where
  "Mem_DeleteBuilds templateID s =
     (None, s\<lparr>ms_builds := fold (\<lambda>buildID m. gm_del m buildID)
                (gm_keys (gm_get_or [] (ms_templateBuilds s) templateID)) (ms_builds s),
              ms_templateBuilds := gm_del (ms_templateBuilds s) templateID\<rparr>)"

section \<open>Aliases\<close>

definition Mem_AddAlias :: "string \<Rightarrow> string \<Rightarrow> memStore \<Rightarrow> storeError option \<times> memStore" where
  "Mem_AddAlias templateID alias s =
     (let aliases = gm_get_or [] (ms_aliases s) templateID
      in if alias \<in> set aliases then (None, s)
         else (None, s\<lparr>ms_aliases := gm_set (ms_aliases s) templateID (aliases @ [alias]),
                       ms_aliasReverse := gm_set (ms_aliasReverse s) alias templateID\<rparr>))"

definition Mem_RemoveAlias :: "string \<Rightarrow> string \<Rightarrow> memStore \<Rightarrow> storeError option \<times> memStore" where
  "Mem_RemoveAlias templateID alias s =
     (let aliases = gm_get_or [] (ms_aliases s) templateID
      in if alias \<notin> set aliases then (Some (ErrAliasNotFound alias (Some templateID)), s)
         else (None, s\<lparr>ms_aliases := gm_set (ms_aliases s) templateID (remove_first (\<lambda>a. a = alias) aliases),
                       ms_aliasReverse := gm_del (ms_aliasReverse s) alias\<rparr>))"

definition Mem_ListAliases :: "string \<Rightarrow> memStore \<Rightarrow> string list" where
  "Mem_ListAliases templateID s = gm_get_or [] (ms_aliases s) templateID"

definition Mem_ResolveAlias :: "string \<Rightarrow> memStore \<Rightarrow> (storeError + string) \<times> memStore" where
  "Mem_ResolveAlias alias s =
     (case gm_get (ms_aliasReverse s) alias of
        None \<Rightarrow> (Inl (ErrAliasNotFound alias None), s)
      | Some templateID \<Rightarrow> (Inr templateID, s))"

definition Mem_DeleteAliases :: "string \<Rightarrow> memStore \<Rightarrow> storeError option \<times> memStore" where
  "Mem_DeleteAliases templateID s =
     (None, s\<lparr>ms_aliasReverse := fold (\<lambda>alias m. gm_del m alias)
                (gm_get_or [] (ms_aliases s) templateID) (ms_aliasReverse s),
              ms_aliases := gm_del (ms_aliases s) templateID\<rparr>)"

section \<open>Tags\<close>

fun putTag :: "Tag \<Rightarrow> Tag list \<Rightarrow> Tag list" where
  "putTag tag [] = [tag]"
| "putTag tag (t # tags) = (if tag_Name t = tag_Name tag then tag # tags else t # putTag tag tags)"

definition Mem_SaveTag :: "string \<Rightarrow> Tag \<Rightarrow> memStore \<Rightarrow> storeError option \<times> memStore" where
  "Mem_SaveTag templateID tag s =
     (None, s\<lparr>ms_tags := gm_set (ms_tags s) templateID (putTag tag (gm_get_or [] (ms_tags s) templateID))\<rparr>)"

definition Mem_ListTags :: "string \<Rightarrow> memStore \<Rightarrow> Tag list" where
  "Mem_ListTags templateID s = gm_get_or [] (ms_tags s) templateID"

definition Mem_DeleteTag :: "string \<Rightarrow> string \<Rightarrow> memStore \<Rightarrow> storeError option \<times> memStore" where
  "Mem_DeleteTag templateID tagName s =
     (let tags = gm_get_or [] (ms_tags s) templateID
      in if find (\<lambda>t. tag_Name t = tagName) tags = None then (Some (ErrTagNotFound tagName templateID), s)
         else (None, s\<lparr>ms_tags := gm_set (ms_tags s) templateID (remove_first (\<lambda>t. tag_Name t = tagName) tags)\<rparr>))"

definition Mem_DeleteTags :: "string \<Rightarrow> memStore \<Rightarrow> storeError option \<times> memStore" where
  "Mem_DeleteTags templateID s = (None, s\<lparr>ms_tags := gm_del (ms_tags s) templateID\<rparr>)"

definition mem_ops :: "memStore storeOps" where
  "mem_ops =
     \<lparr>so_create = Mem_CreateTemplate, so_get = Mem_GetTemplate, so_update = Mem_UpdateTemplate,
      so_delete = Mem_DeleteTemplate, so_saveBuild = Mem_SaveBuild, so_getBuild = Mem_GetBuild,
      so_deleteBuilds = Mem_DeleteBuilds, so_addAlias = Mem_AddAlias, so_removeAlias = Mem_RemoveAlias,
      so_resolve = Mem_ResolveAlias, so_deleteAliases = Mem_DeleteAliases, so_saveTag = Mem_SaveTag,
      so_deleteTag = Mem_DeleteTag, so_deleteTags = Mem_DeleteTags\<rparr>"

section \<open>The store meets the contract\<close>

definition find_tag :: "Tag list \<Rightarrow> string \<rightharpoonup> Tag" where
  "find_tag tags n = find (\<lambda>t. tag_Name t = n) tags"

definition mem_abs :: "memStore \<Rightarrow> astore" where
  "mem_abs s =
     \<lparr>as_templates = gm_get (ms_templates s), as_builds = gm_get (ms_builds s),
      as_templateBuilds = (\<lambda>t. set (gm_keys (gm_get_or [] (ms_templateBuilds s) t))),
      as_aliases = (\<lambda>t. set (gm_get_or [] (ms_aliases s) t)), as_aliasReverse = gm_get (ms_aliasReverse s),
      as_tags = (\<lambda>t. find_tag (gm_get_or [] (ms_tags s) t))\<rparr>"

definition mem_ok :: "memStore \<Rightarrow> bool" where
  "mem_ok s =
     (alias_consistent (mem_abs s) \<and>
      (\<forall>t. distinct (gm_get_or [] (ms_aliases s) t)) \<and>
      (\<forall>t. distinct (map tag_Name (gm_get_or [] (ms_tags s) t))))"

lemma mem_abs_new: "mem_abs NewMemoryTemplateStore = spec_empty"
  by (simp add: mem_abs_def NewMemoryTemplateStore_def spec_empty_def find_tag_def fun_eq_iff gm_keys_def)

lemma mem_ok_new: "mem_ok NewMemoryTemplateStore"
  unfolding mem_ok_def mem_abs_new by (simp add: alias_consistent_empty NewMemoryTemplateStore_def)

lemma gm_get_set_fun: "gm_get (gm_set m k v) = (gm_get m)(k \<mapsto> v)"
  by (simp add: fun_eq_iff)

lemma gm_get_del_fun: "gm_get (gm_del m k) = (gm_get m)(k := None)"
  by (simp add: fun_eq_iff)

lemma gm_get_fold_del: "gm_get (fold (\<lambda>k m. gm_del m k) ks m) k = (if k \<in> set ks then None else gm_get m k)"
  by (induction ks arbitrary: m) auto

lemma gm_keys_set: "set (gm_keys (gm_set m k v)) = insert k (set (gm_keys m))"
proof -
  have "x \<in> set (gm_keys (gm_set m k v)) \<longleftrightarrow> x = k \<or> x \<in> set (gm_keys m)" for x
    by (metis gm.get_put gm_get_keys option.distinct(1))
  then show ?thesis by auto
qed

lemma find_tag_put: "find_tag (putTag g tags) = (find_tag tags)(tag_Name g \<mapsto> g)"
  by (induction tags) (auto simp: find_tag_def fun_eq_iff)

lemma putTag_names:
  "map tag_Name (putTag g tags) =
     (if tag_Name g \<in> set (map tag_Name tags) then map tag_Name tags else map tag_Name tags @ [tag_Name g])"
  by (induction tags) auto

lemma find_tag_remove:
  assumes "distinct (map tag_Name tags)"
  shows "find_tag (remove_first (\<lambda>t. tag_Name t = n) tags) = (find_tag tags)(n := None)"
  using assms
proof (induction tags)
  case (Cons t tags)
  have "find (\<lambda>t. tag_Name t = n) tags = None" if "tag_Name t = n"
    using that Cons.prems by (auto simp: find_None_iff) (metis imageI)
  then show ?case using Cons by (auto simp: find_tag_def fun_eq_iff)
qed (simp add: find_tag_def fun_eq_iff)

lemma set_remove_first_eq: "distinct xs \<Longrightarrow> set (remove_first (\<lambda>a. a = x) xs) = set xs - {x}"
  using remove_first_eq_filter [of "\<lambda>a. a" xs x] by auto

lemmas mem_defs = Mem_CreateTemplate_def Mem_GetTemplate_def Mem_UpdateTemplate_def Mem_DeleteTemplate_def
  Mem_SaveBuild_def Mem_GetBuild_def Mem_DeleteBuilds_def Mem_AddAlias_def Mem_RemoveAlias_def
  Mem_ResolveAlias_def Mem_DeleteAliases_def Mem_SaveTag_def Mem_DeleteTag_def Mem_DeleteTags_def

lemmas spec_defs = spec_create_def spec_get_def spec_update_def spec_delete_def spec_saveBuild_def spec_getBuild_def
  spec_deleteBuilds_def spec_addAlias_def spec_removeAlias_def spec_resolve_def spec_deleteAliases_def
  spec_saveTag_def spec_deleteTag_def spec_deleteTags_def

lemma mem_call_abs:
  assumes "mem_ok s" and "call_ok c (mem_abs s)"
  shows "spec_call c (mem_abs s) = (fst (call_with mem_ops c s), mem_abs (snd (call_with mem_ops c s)))"
proof (cases c)
  case (CAddAlias t al)
  have "al \<in> set (gm_get_or [] (ms_aliases s) t) \<Longrightarrow> gm_get (ms_aliasReverse s) al = Some t"
    using assms(1) by (auto simp: mem_ok_def alias_consistent_def mem_abs_def)
  then show ?thesis
    using CAddAlias
    by (auto simp: mem_ops_def mem_defs spec_defs mem_abs_def Let_def fun_eq_iff gm_get_or_def split: option.splits)
next
  case (CRemoveAlias t al)
  have "distinct (gm_get_or [] (ms_aliases s) t)" using assms(1) by (simp add: mem_ok_def)
  then show ?thesis
    using CRemoveAlias
    by (auto simp: mem_ops_def mem_defs spec_defs mem_abs_def Let_def fun_eq_iff set_remove_first_eq)
next
  case (CDeleteTag t n)
  have "distinct (map tag_Name (gm_get_or [] (ms_tags s) t))" using assms(1) by (simp add: mem_ok_def)
  then show ?thesis
    using CDeleteTag find_tag_remove [of "gm_get_or [] (ms_tags s) t" n]
    by (auto simp: mem_ops_def mem_defs spec_defs mem_abs_def Let_def fun_eq_iff find_tag_def [of _ n])
next
  case (CSaveTag t g)
  then show ?thesis
    by (simp add: mem_ops_def mem_defs spec_defs mem_abs_def fun_eq_iff find_tag_put)
next
  case (CDeleteTags t)
  then show ?thesis
    by (simp add: mem_ops_def mem_defs spec_defs mem_abs_def fun_eq_iff find_tag_def)
next
  case (CSaveBuild t b)
  then show ?thesis
    by (simp add: mem_ops_def mem_defs spec_defs mem_abs_def fun_eq_iff gm_get_set_fun gm_keys_set Let_def)
next
  case (CDeleteBuilds t)
  then show ?thesis
    by (simp add: mem_ops_def mem_defs spec_defs mem_abs_def fun_eq_iff gm_get_fold_del gm_keys_def)
next
  case (CDeleteAliases t)
  then show ?thesis
    by (simp add: mem_ops_def mem_defs spec_defs mem_abs_def fun_eq_iff gm_get_fold_del)
qed (auto simp: mem_ops_def mem_defs spec_defs mem_abs_def gm_has_def gm_get_set_fun gm_get_del_fun
    split: option.splits sum.splits)

lemma mem_call_ok:
  assumes "mem_ok s" and "call_ok c (mem_abs s)"
  shows "mem_ok (snd (call_with mem_ops c s))"
proof -
  have al: "alias_consistent (mem_abs (snd (call_with mem_ops c s)))"
    using spec_call_consistent [OF _ assms(2)] assms(1) mem_call_abs [OF assms] by (simp add: mem_ok_def)
  have d: "distinct (gm_get_or [] (ms_aliases s) t)" "distinct (map tag_Name (gm_get_or [] (ms_tags s) t))" for t
    using assms(1) by (simp_all add: mem_ok_def)
  have "distinct (gm_get_or [] (ms_aliases (snd (call_with mem_ops c s))) t)" for t
    using d by (cases c) (auto simp: mem_ops_def mem_defs Let_def split: option.splits sum.splits)
  moreover have "distinct (map tag_Name (gm_get_or [] (ms_tags (snd (call_with mem_ops c s))) t))" for t
    using d
    by (cases c) (auto simp: mem_ops_def mem_defs Let_def putTag_names distinct_map_remove_first
        split: option.splits sum.splits)
  ultimately show ?thesis using al by (simp add: mem_ok_def)
qed

interpretation mem: template_store mem_abs mem_ok mem_ops
proof unfold_locales
  fix s c r s'
  assume "mem_ok s" and "call_ok c (mem_abs s)" and "call_with mem_ops c s = (r, s')"
  then show "mem_ok s' \<and> spec_call c (mem_abs s) = (r, mem_abs s')"
    using mem_call_abs [of s c] mem_call_ok [of s c] by simp
next
  show "mem_ok s \<Longrightarrow> alias_consistent (mem_abs s)" for s by (simp add: mem_ok_def)
qed

text \<open>
  C20: The in-memory store implements the store contract: every sequence of calls on a new store returns what the
  abstract store returns, errors included, as long as no call claims an alias that another
  template owns.
\<close>

theorem memory_store_refines:
  assumes "calls_ok calls spec_empty"
  shows "store_run (call_with mem_ops) calls NewMemoryTemplateStore = spec_run calls spec_empty"
  using mem.run_refines [OF mem_ok_new, of calls] assms by (simp add: mem_abs_new)

definition sample_entry :: TemplateEntry where
  "sample_entry =
     \<lparr>te_TemplateID = ''t1'', te_Name = ''n'', te_ImageURI = ''img'', te_Dockerfile = [], te_StartCmd = [],
      te_CPUCount = 1, te_MemoryMB = 512, te_BuildID = ''b1'', te_CreatedAt = 7, te_Metadata = []\<rparr>"

definition sample_calls :: "storeCall list" where
  "sample_calls =
     [CCreate sample_entry, CAddAlias ''t1'' ''latest'', CResolve ''latest'', CCreate sample_entry,
      CDelete ''t1'', CDeleteAliases ''t1'', CResolve ''latest'', CGet ''t1'']"

definition sample_replies :: "storeReply list" where
  "sample_replies =
     [RErr None, RErr None, RString (Inr ''t1''), RErr (Some (ErrTemplateExists ''t1'')), RErr None, RErr None,
      RString (Inl (ErrAliasNotFound ''latest'' None)), RTemplate (Inl (ErrTemplateNotFound ''t1''))]"

lemma sample_calls_ok: "calls_ok sample_calls spec_empty"
  by (simp add: sample_calls_def sample_entry_def spec_empty_def alias_free_def spec_defs)

lemma sample_calls_replies: "spec_run sample_calls spec_empty = sample_replies"
  by (simp add: sample_calls_def sample_replies_def sample_entry_def spec_empty_def spec_defs)

theorem memory_store_refines_witness:
  "store_run (call_with mem_ops) sample_calls NewMemoryTemplateStore = sample_replies"
  using memory_store_refines [OF sample_calls_ok] by (simp only: sample_calls_replies)

text \<open>
  Deleting a template with its builds, aliases and tags leaves nothing of it behind in the in-memory store, and
  no alias that still resolves to it.
\<close>

lemma memory_delete_cascade:
  assumes "mem_ok s" and "Mem_DeleteTemplate t s = (r1, s1)" and "Mem_DeleteBuilds t s1 = (r2, s2)"
    and "Mem_DeleteAliases t s2 = (r3, s3)" and "Mem_DeleteTags t s3 = (r4, s4)"
  shows "fst (Mem_GetTemplate t s4) = Inl (ErrTemplateNotFound t) \<and> Mem_ListBuilds ord t s4 = [] \<and>
         Mem_ListTags t s4 = [] \<and> (\<forall>al. fst (Mem_ResolveAlias al s4) \<noteq> Inr t)"
proof -
  have c: "mem_ok s4 \<and> as_templates (mem_abs s4) t = None \<and> as_templateBuilds (mem_abs s4) t = {} \<and>
      as_tags (mem_abs s4) t = Map.empty \<and> (\<forall>al. as_aliasReverse (mem_abs s4) al \<noteq> Some t)"
    using mem.delete_cascade [of s t r1 s1 r2 s2 r3 s3 r4 s4] assms by (simp add: mem_ops_def)
  have "ms_tags s4 = gm_del (ms_tags s3) t" using assms(5) by (auto simp: Mem_DeleteTags_def)
  then have "Mem_ListTags t s4 = []" by (simp add: Mem_ListTags_def)
  moreover have "gm_get_or [] (ms_templateBuilds s4) t = []"
    using c by (simp add: mem_abs_def gm_keys_def)
  then have "Mem_ListBuilds ord t s4 = []"
    by (simp add: Mem_ListBuilds_def gm_range_def gm_get_def List.map_filter_def)
  ultimately show ?thesis
    using c by (auto simp: mem_abs_def Mem_GetTemplate_def Mem_ResolveAlias_def split: option.splits)
qed

lemma memory_delete_cascade_witness:
  "\<exists>s4. fst (Mem_GetTemplate ''t1'' s4) = Inl (ErrTemplateNotFound ''t1'') \<and> Mem_ListBuilds [] ''t1'' s4 = [] \<and>
     Mem_ListTags ''t1'' s4 = [] \<and> (\<forall>al. fst (Mem_ResolveAlias al s4) \<noteq> Inr ''t1'')"
proof -
  obtain r1 s1 where 1: "Mem_DeleteTemplate ''t1'' NewMemoryTemplateStore = (r1, s1)" by fastforce
  obtain r2 s2 where 2: "Mem_DeleteBuilds ''t1'' s1 = (r2, s2)" by fastforce
  obtain r3 s3 where 3: "Mem_DeleteAliases ''t1'' s2 = (r3, s3)" by fastforce
  obtain r4 s4 where 4: "Mem_DeleteTags ''t1'' s3 = (r4, s4)" by fastforce
  from memory_delete_cascade [OF mem_ok_new 1 2 3 4, of "[]"] show ?thesis by blast
qed

text \<open>
  Claiming an alias of another template breaks the agreement: the alias is listed by both templates, resolves to
  the second, and deleting the first template's aliases makes it unresolvable for the second.
\<close>

lemma memory_alias_stolen:
  "store_run (call_with mem_ops)
     [CAddAlias ''a'' ''x'', CAddAlias ''b'' ''x'', CResolve ''x'', CDeleteAliases ''a'', CResolve ''x'']
     NewMemoryTemplateStore
   = [RErr None, RErr None, RString (Inr ''b''), RErr None, RString (Inl (ErrAliasNotFound ''x'' None))]"
  by (simp add: mem_ops_def mem_defs NewMemoryTemplateStore_def Let_def gm_get_or_def)

end
