(* ===== verification/Redis_Store.thy ===== *)
theory Redis_Store
  imports Memory_Store
begin

text \<open>
  The Redis-backed template store (\<open>internal/adapter/opensandbox/redis_store.go\<close>).  The Redis client is not part
  of the repository: its commands are a parameter (\<open>redisClient\<close>) over an unknown server state, and so is
  the JSON coding of the stored values.  What the store relies on is the locale \<open>redis_world\<close>: commands
  succeed and act on hashes and sets as Redis documents them, and decoding inverts encoding.  In every such
  world the store meets the contract of \<open>Template_Store\<close>.

  A pipeline sends its commands in order; its error is that of the first command that failed.
\<close>

record 's redisClient =
  cl_HSetNX :: "string \<Rightarrow> string \<Rightarrow> string \<Rightarrow> 's \<Rightarrow> (string + bool) \<times> 's"
  cl_HSet :: "string \<Rightarrow> string \<Rightarrow> string \<Rightarrow> 's \<Rightarrow> string option \<times> 's"
  cl_HGet :: "string \<Rightarrow> string \<Rightarrow> 's \<Rightarrow> (string + string option) \<times> 's"
  cl_HDel :: "string \<Rightarrow> string list \<Rightarrow> 's \<Rightarrow> (string + nat) \<times> 's"
  cl_HGetAll :: "string \<Rightarrow> 's \<Rightarrow> (string + (string \<times> string) list) \<times> 's"
  cl_HMGet :: "string \<Rightarrow> string list \<Rightarrow> 's \<Rightarrow> (string + string option list) \<times> 's"
  cl_SAdd :: "string \<Rightarrow> string \<Rightarrow> 's \<Rightarrow> string option \<times> 's"
  cl_SRem :: "string \<Rightarrow> string \<Rightarrow> 's \<Rightarrow> (string + nat) \<times> 's"
  cl_SMembers :: "string \<Rightarrow> 's \<Rightarrow> (string + string list) \<times> 's"
  cl_Del :: "string \<Rightarrow> 's \<Rightarrow> string option \<times> 's"

text \<open>\<open>marshalJSON\<close> and \<open>unmarshalJSON\<close> at the three stored types; \<open>None\<close> is their error.\<close>

record jsonCodec =
  js_mTemplate :: "TemplateEntry \<Rightarrow> string option"
  js_uTemplate :: "string \<Rightarrow> TemplateEntry option"
  js_mBuild :: "BuildStatus \<Rightarrow> string option"
  js_uBuild :: "string \<Rightarrow> BuildStatus option"
  js_mTag :: "Tag \<Rightarrow> string option"
  js_uTag :: "string \<Rightarrow> Tag option"

record 's redisStore =
  rs_client :: "'s redisClient"
  rs_codec :: jsonCodec
  rs_keyPrefix :: string

definition NewRedisTemplateStoreWithClient :: "'s redisClient \<Rightarrow> jsonCodec \<Rightarrow> string \<Rightarrow> 's redisStore" where
  "NewRedisTemplateStoreWithClient client codec keyPrefix =
     \<lparr>rs_client = client, rs_codec = codec,
      rs_keyPrefix = (if keyPrefix = [] then ''e2bgateway:opensandbox:'' else keyPrefix)\<rparr>"

definition rkey :: "'s redisStore \<Rightarrow> string \<Rightarrow> string" where
  "rkey st suff = rs_keyPrefix st @ suff"

definition templatesKey :: "'s redisStore \<Rightarrow> string" where
  "templatesKey st = rkey st ''templates''"

definition buildsKey :: "'s redisStore \<Rightarrow> string" where
  "buildsKey st = rkey st ''builds''"

definition aliasesKey :: "'s redisStore \<Rightarrow> string" where
  "aliasesKey st = rkey st ''aliases''"

definition templateBuildsKey :: "'s redisStore \<Rightarrow> string \<Rightarrow> string" where
  "templateBuildsKey st templateID = rkey st (''template_builds:'' @ templateID)"

definition templateAliasesKey :: "'s redisStore \<Rightarrow> string \<Rightarrow> string" where
  "templateAliasesKey st templateID = rkey st (''template_aliases:'' @ templateID)"

definition tagsKey :: "'s redisStore \<Rightarrow> string \<Rightarrow> string" where
  "tagsKey st templateID = rkey st (''tags:'' @ templateID)"

section \<open>Templates\<close>

definition Redis_CreateTemplate :: "'s redisStore \<Rightarrow> TemplateEntry \<Rightarrow> 's \<Rightarrow> storeError option \<times> 's" where
  "Redis_CreateTemplate st entry s =
     (case js_mTemplate (rs_codec st) entry of
        None \<Rightarrow> (Some (ErrStorage ''marshal template''), s)
      | Some value \<Rightarrow>
          (case cl_HSetNX (rs_client st) (templatesKey st) (te_TemplateID entry) value s of
             (Inl err, s) \<Rightarrow> (Some (ErrStorage ''redis HSETNX''), s)
           | (Inr created, s) \<Rightarrow>
               if \<not> created then (Some (ErrTemplateExists (te_TemplateID entry)), s) else (None, s)))"

definition Redis_GetTemplate :: "'s redisStore \<Rightarrow> string \<Rightarrow> 's \<Rightarrow> (storeError + TemplateEntry) \<times> 's" where
  "Redis_GetTemplate st templateID s =
     (case cl_HGet (rs_client st) (templatesKey st) templateID s of
        (Inl err, s) \<Rightarrow> (Inl (ErrStorage ''redis HGET''), s)
      | (Inr None, s) \<Rightarrow> (Inl (ErrTemplateNotFound templateID), s)
      | (Inr (Some value), s) \<Rightarrow>
          (case js_uTemplate (rs_codec st) value of
             None \<Rightarrow> (Inl (ErrStorage ''unmarshal template''), s)
           | Some entry \<Rightarrow> (Inr entry, s)))"

text \<open>Decoding a list of values stops at the first one that does not decode.\<close>

fun decodeAll :: "(string \<Rightarrow> 'x option) \<Rightarrow> string list \<Rightarrow> ('x list) option" where
  "decodeAll u [] = Some []"
| "decodeAll u (v # vs) =
     (case u v of
        None \<Rightarrow> None
      | Some x \<Rightarrow> map_option (\<lambda>xs. x # xs) (decodeAll u vs))"

definition Redis_ListTemplates :: "'s redisStore \<Rightarrow> 's \<Rightarrow> (storeError + TemplateEntry list) \<times> 's" where
  "Redis_ListTemplates st s =
     (case cl_HGetAll (rs_client st) (templatesKey st) s of
        (Inl err, s) \<Rightarrow> (Inl (ErrStorage ''redis HGETALL''), s)
      | (Inr entries, s) \<Rightarrow>
          (case decodeAll (js_uTemplate (rs_codec st)) (map snd entries) of
             None \<Rightarrow> (Inl (ErrStorage ''unmarshal template''), s)
           | Some es \<Rightarrow> (Inr (sort_key te_CreatedAt es), s)))"

definition Redis_UpdateTemplate ::
  "'s redisStore \<Rightarrow> string \<Rightarrow> (TemplateEntry \<Rightarrow> go_error + TemplateEntry) \<Rightarrow> 's \<Rightarrow> storeError option \<times> 's" where
  "Redis_UpdateTemplate st templateID update s =
     (case cl_HGet (rs_client st) (templatesKey st) templateID s of
        (Inl err, s) \<Rightarrow> (Some (ErrStorage ''redis HGET''), s)
      | (Inr None, s) \<Rightarrow> (Some (ErrTemplateNotFound templateID), s)
      | (Inr (Some value), s) \<Rightarrow>
          (case js_uTemplate (rs_codec st) value of
             None \<Rightarrow> (Some (ErrStorage ''unmarshal template''), s)
           | Some entry \<Rightarrow>
               (case update entry of
                  Inl err \<Rightarrow> (Some (ErrUpdate err), s)
                | Inr entry \<Rightarrow>
                    (case js_mTemplate (rs_codec st) entry of
                       None \<Rightarrow> (Some (ErrStorage ''marshal template''), s)
                     | Some encoded \<Rightarrow>
                         (case cl_HSet (rs_client st) (templatesKey st) templateID encoded s of
                            (Some err, s) \<Rightarrow> (Some (ErrStorage ''redis HSET''), s)
                          | (None, s) \<Rightarrow> (None, s))))))"

definition Redis_DeleteTemplate :: "'s redisStore \<Rightarrow> string \<Rightarrow> 's \<Rightarrow> storeError option \<times> 's" where
  "Redis_DeleteTemplate st templateID s =
     (case cl_HDel (rs_client st) (templatesKey st) [templateID] s of
        (Inl err, s) \<Rightarrow> (Some (ErrStorage ''redis HDEL''), s)
      | (Inr n, s) \<Rightarrow> if n = 0 then (Some (ErrTemplateNotFound templateID), s) else (None, s))"

section \<open>Builds\<close>

definition pipeline2 :: "('s \<Rightarrow> string option \<times> 's) \<Rightarrow> ('s \<Rightarrow> string option \<times> 's) \<Rightarrow> 's \<Rightarrow> storeError option \<times> 's" where
  "pipeline2 c1 c2 s =
     (case c1 s of (e1, s) \<Rightarrow>
      case c2 s of (e2, s) \<Rightarrow>
        (if e1 = None \<and> e2 = None then None else Some (ErrStorage ''redis pipeline''), s))"

text \<open>A command whose count is not looked at.\<close>

definition errOnly :: "(string + 'x) \<times> 's \<Rightarrow> string option \<times> 's" where
  "errOnly r = (case r of (Inl e, s) \<Rightarrow> (Some e, s) | (Inr _, s) \<Rightarrow> (None, s))"

definition Redis_SaveBuild :: "'s redisStore \<Rightarrow> string \<Rightarrow> BuildStatus \<Rightarrow> 's \<Rightarrow> storeError option \<times> 's" where
  "Redis_SaveBuild st templateID build s =
     (case js_mBuild (rs_codec st) build of
        None \<Rightarrow> (Some (ErrStorage ''marshal build''), s)
      | Some value \<Rightarrow>
          pipeline2 (cl_HSet (rs_client st) (buildsKey st) (bs_BuildID build) value)
            (cl_SAdd (rs_client st) (templateBuildsKey st templateID) (bs_BuildID build)) s)"

definition Redis_GetBuild :: "'s redisStore \<Rightarrow> string \<Rightarrow> 's \<Rightarrow> (storeError + BuildStatus) \<times> 's" where
  "Redis_GetBuild st buildID s =
     (case cl_HGet (rs_client st) (buildsKey st) buildID s of
        (Inl err, s) \<Rightarrow> (Inl (ErrStorage ''redis HGET''), s)
      | (Inr None, s) \<Rightarrow> (Inl (ErrBuildNotFound buildID), s)
      | (Inr (Some value), s) \<Rightarrow>
          (case js_uBuild (rs_codec st) value of
             None \<Rightarrow> (Inl (ErrStorage ''unmarshal build''), s)
           | Some b \<Rightarrow> (Inr b, s)))"

definition Redis_ListBuilds :: "'s redisStore \<Rightarrow> string \<Rightarrow> 's \<Rightarrow> (storeError + BuildStatus list) \<times> 's" where
  "Redis_ListBuilds st templateID s =
     (case cl_SMembers (rs_client st) (templateBuildsKey st templateID) s of
        (Inl err, s) \<Rightarrow> (Inl (ErrStorage ''redis SMEMBERS''), s)
      | (Inr buildIDs, s) \<Rightarrow>
          if buildIDs = [] then (Inr [], s)
          else
            (case cl_HMGet (rs_client st) (buildsKey st) buildIDs s of
               (Inl err, s) \<Rightarrow> (Inl (ErrStorage ''redis HMGET''), s)
             | (Inr values, s) \<Rightarrow>
                 (case decodeAll (js_uBuild (rs_codec st)) (List.map_filter id values) of
                    None \<Rightarrow> (Inl (ErrStorage ''unmarshal build''), s)
                  | Some bs \<Rightarrow> (Inr bs, s))))"

definition Redis_DeleteBuilds :: "'s redisStore \<Rightarrow> string \<Rightarrow> 's \<Rightarrow> storeError option \<times> 's" where
  "Redis_DeleteBuilds st templateID s =
     (let setKey = templateBuildsKey st templateID
      in case cl_SMembers (rs_client st) setKey s of
           (Inl err, s) \<Rightarrow> (Some (ErrStorage ''redis SMEMBERS''), s)
         | (Inr buildIDs, s) \<Rightarrow>
             if buildIDs = [] then (None, s)
             else pipeline2 (\<lambda>s. errOnly (cl_HDel (rs_client st) (buildsKey st) buildIDs s))
                    (cl_Del (rs_client st) setKey) s)"

section \<open>Aliases\<close>

definition Redis_AddAlias :: "'s redisStore \<Rightarrow> string \<Rightarrow> string \<Rightarrow> 's \<Rightarrow> storeError option \<times> 's" where
  "Redis_AddAlias st templateID alias s =
     pipeline2 (\<lambda>s. errOnly (cl_HSetNX (rs_client st) (aliasesKey st) alias templateID s))
       (cl_SAdd (rs_client st) (templateAliasesKey st templateID) alias) s"

definition Redis_RemoveAlias :: "'s redisStore \<Rightarrow> string \<Rightarrow> string \<Rightarrow> 's \<Rightarrow> storeError option \<times> 's" where
  "Redis_RemoveAlias st templateID alias s =
     (case cl_SRem (rs_client st) (templateAliasesKey st templateID) alias s of
        (Inl err, s) \<Rightarrow> (Some (ErrStorage ''redis SREM''), s)
      | (Inr removed, s) \<Rightarrow>
          if removed = 0 then (Some (ErrAliasNotFound alias (Some templateID)), s)
          else case cl_HDel (rs_client st) (aliasesKey st) [alias] s of (_, s) \<Rightarrow> (None, s))"

definition Redis_ListAliases :: "'s redisStore \<Rightarrow> string \<Rightarrow> 's \<Rightarrow> (storeError + string list) \<times> 's" where
  "Redis_ListAliases st templateID s =
     (case cl_SMembers (rs_client st) (templateAliasesKey st templateID) s of
        (Inl err, s) \<Rightarrow> (Inl (ErrStorage ''redis SMEMBERS''), s)
      | (Inr aliases, s) \<Rightarrow> (Inr aliases, s))"

definition Redis_ResolveAlias :: "'s redisStore \<Rightarrow> string \<Rightarrow> 's \<Rightarrow> (storeError + string) \<times> 's" where
  "Redis_ResolveAlias st alias s =
     (case cl_HGet (rs_client st) (aliasesKey st) alias s of
        (Inl err, s) \<Rightarrow> (Inl (ErrStorage ''redis HGET''), s)
      | (Inr None, s) \<Rightarrow> (Inl (ErrAliasNotFound alias None), s)
      | (Inr (Some templateID), s) \<Rightarrow> (Inr templateID, s))"

definition Redis_DeleteAliases :: "'s redisStore \<Rightarrow> string \<Rightarrow> 's \<Rightarrow> storeError option \<times> 's" where
  "Redis_DeleteAliases st templateID s =
     (let setKey = templateAliasesKey st templateID
      in case cl_SMembers (rs_client st) setKey s of
           (Inl err, s) \<Rightarrow> (Some (ErrStorage ''redis SMEMBERS''), s)
         | (Inr aliases, s) \<Rightarrow>
             if aliases = [] then (None, s)
             else pipeline2 (\<lambda>s. errOnly (cl_HDel (rs_client st) (aliasesKey st) aliases s))
                    (cl_Del (rs_client st) setKey) s)"

section \<open>Tags\<close>

definition Redis_SaveTag :: "'s redisStore \<Rightarrow> string \<Rightarrow> Tag \<Rightarrow> 's \<Rightarrow> storeError option \<times> 's" where
  "Redis_SaveTag st templateID tag s =
     (case js_mTag (rs_codec st) tag of
        None \<Rightarrow> (Some (ErrStorage ''marshal tag''), s)
      | Some value \<Rightarrow>
          (case cl_HSet (rs_client st) (tagsKey st templateID) (tag_Name tag) value s of
             (Some err, s) \<Rightarrow> (Some (ErrStorage ''redis HSET''), s)
           | (None, s) \<Rightarrow> (None, s)))"

definition Redis_ListTags :: "'s redisStore \<Rightarrow> string \<Rightarrow> 's \<Rightarrow> (storeError + Tag list) \<times> 's" where
  "Redis_ListTags st templateID s =
     (case cl_HGetAll (rs_client st) (tagsKey st templateID) s of
        (Inl err, s) \<Rightarrow> (Inl (ErrStorage ''redis HGETALL''), s)
      | (Inr entries, s) \<Rightarrow>
          (case decodeAll (js_uTag (rs_codec st)) (map snd entries) of
             None \<Rightarrow> (Inl (ErrStorage ''unmarshal tag''), s)
           | Some tags \<Rightarrow> (Inr tags, s)))"

definition Redis_DeleteTag :: "'s redisStore \<Rightarrow> string \<Rightarrow> string \<Rightarrow> 's \<Rightarrow> storeError option \<times> 's" where
  "Redis_DeleteTag st templateID tagName s =
     (case cl_HDel (rs_client st) (tagsKey st templateID) [tagName] s of
        (Inl err, s) \<Rightarrow> (Some (ErrStorage ''redis HDEL''), s)
      | (Inr n, s) \<Rightarrow> if n = 0 then (Some (ErrTagNotFound tagName templateID), s) else (None, s))"

definition Redis_DeleteTags :: "'s redisStore \<Rightarrow> string \<Rightarrow> 's \<Rightarrow> storeError option \<times> 's" where
  "Redis_DeleteTags st templateID s =
     (case cl_Del (rs_client st) (tagsKey st templateID) s of
        (Some err, s) \<Rightarrow> (Some (ErrStorage ''redis DEL''), s)
      | (None, s) \<Rightarrow> (None, s))"

definition redis_ops :: "'s redisStore \<Rightarrow> 's storeOps" where
  "redis_ops st =
     \<lparr>so_create = Redis_CreateTemplate st, so_get = Redis_GetTemplate st, so_update = Redis_UpdateTemplate st,
      so_delete = Redis_DeleteTemplate st, so_saveBuild = Redis_SaveBuild st, so_getBuild = Redis_GetBuild st,
      so_deleteBuilds = Redis_DeleteBuilds st, so_addAlias = Redis_AddAlias st, so_removeAlias = Redis_RemoveAlias st,
      so_resolve = Redis_ResolveAlias st, so_deleteAliases = Redis_DeleteAliases st, so_saveTag = Redis_SaveTag st,
      so_deleteTag = Redis_DeleteTag st, so_deleteTags = Redis_DeleteTags st\<rparr>"

section \<open>The world the store relies on\<close>

text \<open>\<open>hv s k\<close> is the hash and \<open>sv s k\<close> the set at the key \<open>k\<close> in the server state \<open>s\<close>.\<close>

definition redis_laws ::
  "'s redisClient \<Rightarrow> ('s \<Rightarrow> string \<Rightarrow> string \<rightharpoonup> string) \<Rightarrow> ('s \<Rightarrow> string \<Rightarrow> string set) \<Rightarrow> bool" where
  "redis_laws c hv sv =
     (\<forall>s k f v fs.
        cl_HGet c k f s = (Inr (hv s k f), s) \<and>
        (\<exists>s'. cl_HSet c k f v s = (None, s') \<and> hv s' = (hv s)(k := (hv s k)(f \<mapsto> v)) \<and> sv s' = sv s) \<and>
        (\<exists>s'. cl_HSetNX c k f v s = (Inr (hv s k f = None), s') \<and> sv s' = sv s \<and>
              hv s' = (if hv s k f = None then (hv s)(k := (hv s k)(f \<mapsto> v)) else hv s)) \<and>
        (\<exists>s'. cl_HDel c k fs s = (Inr (card {f \<in> set fs. hv s k f \<noteq> None}), s') \<and> sv s' = sv s \<and>
              hv s' = (hv s)(k := (\<lambda>f. if f \<in> set fs then None else hv s k f))) \<and>
        (\<exists>l. cl_HGetAll c k s = (Inr l, s) \<and> map_of l = hv s k \<and> distinct (map fst l)) \<and>
        cl_HMGet c k fs s = (Inr (map (hv s k) fs), s) \<and>
        (\<exists>s'. cl_SAdd c k f s = (None, s') \<and> hv s' = hv s \<and> sv s' = (sv s)(k := insert f (sv s k))) \<and>
        (\<exists>s'. cl_SRem c k f s = (Inr (if f \<in> sv s k then 1 else 0), s') \<and> hv s' = hv s \<and>
              sv s' = (sv s)(k := sv s k - {f})) \<and>
        (\<exists>l. cl_SMembers c k s = (Inr l, s) \<and> set l = sv s k \<and> distinct l) \<and>
        (\<exists>s'. cl_Del c k s = (None, s') \<and> hv s' = (hv s)(k := Map.empty) \<and> sv s' = (sv s)(k := {})))"

definition codec_laws :: "jsonCodec \<Rightarrow> bool" where
  "codec_laws j =
     ((\<forall>e. \<exists>v. js_mTemplate j e = Some v \<and> js_uTemplate j v = Some e) \<and>
      (\<forall>b. \<exists>v. js_mBuild j b = Some v \<and> js_uBuild j v = Some b) \<and>
      (\<forall>g. \<exists>v. js_mTag j g = Some v \<and> js_uTag j v = Some g))"

definition redis_abs ::
  "'s redisStore \<Rightarrow> ('s \<Rightarrow> string \<Rightarrow> string \<rightharpoonup> string) \<Rightarrow> ('s \<Rightarrow> string \<Rightarrow> string set) \<Rightarrow> 's \<Rightarrow> astore" where
  "redis_abs st hv sv s =
     \<lparr>as_templates = (\<lambda>t. Option.bind (hv s (templatesKey st) t) (js_uTemplate (rs_codec st))),
      as_builds = (\<lambda>b. Option.bind (hv s (buildsKey st) b) (js_uBuild (rs_codec st))),
      as_templateBuilds = (\<lambda>t. sv s (templateBuildsKey st t)),
      as_aliases = (\<lambda>t. sv s (templateAliasesKey st t)),
      as_aliasReverse = hv s (aliasesKey st),
      as_tags = (\<lambda>t n. Option.bind (hv s (tagsKey st t) n) (js_uTag (rs_codec st)))\<rparr>"

text \<open>Every stored value decodes.\<close>

definition redis_dec :: "'s redisStore \<Rightarrow> ('s \<Rightarrow> string \<Rightarrow> string \<rightharpoonup> string) \<Rightarrow> 's \<Rightarrow> bool" where
  "redis_dec st hv s =
     ((\<forall>t v. hv s (templatesKey st) t = Some v \<longrightarrow> (\<exists>e. js_uTemplate (rs_codec st) v = Some e)) \<and>
      (\<forall>b v. hv s (buildsKey st) b = Some v \<longrightarrow> (\<exists>e. js_uBuild (rs_codec st) v = Some e)) \<and>
      (\<forall>t n v. hv s (tagsKey st t) n = Some v \<longrightarrow> (\<exists>e. js_uTag (rs_codec st) v = Some e)))"

definition redis_ok ::
  "'s redisStore \<Rightarrow> ('s \<Rightarrow> string \<Rightarrow> string \<rightharpoonup> string) \<Rightarrow> ('s \<Rightarrow> string \<Rightarrow> string set) \<Rightarrow> 's \<Rightarrow> bool" where
  "redis_ok st hv sv s = (alias_consistent (redis_abs st hv sv s) \<and> redis_dec st hv s)"

lemma key_distinct [simp]:
  "templatesKey st \<noteq> buildsKey st"
  "templatesKey st \<noteq> aliasesKey st"
  "templatesKey st \<noteq> templateBuildsKey st t'"
  "templatesKey st \<noteq> templateAliasesKey st t'"
  "templatesKey st \<noteq> tagsKey st t'"
  "buildsKey st \<noteq> templatesKey st"
  "buildsKey st \<noteq> aliasesKey st"
  "buildsKey st \<noteq> templateBuildsKey st t'"
  "buildsKey st \<noteq> templateAliasesKey st t'"
  "buildsKey st \<noteq> tagsKey st t'"
  "aliasesKey st \<noteq> templatesKey st"
  "aliasesKey st \<noteq> buildsKey st"
  "aliasesKey st \<noteq> templateBuildsKey st t'"
  "aliasesKey st \<noteq> templateAliasesKey st t'"
  "aliasesKey st \<noteq> tagsKey st t'"
  "templateBuildsKey st t \<noteq> templatesKey st"
  "templateBuildsKey st t \<noteq> buildsKey st"
  "templateBuildsKey st t \<noteq> aliasesKey st"
  "templateBuildsKey st t \<noteq> templateAliasesKey st t'"
  "templateBuildsKey st t \<noteq> tagsKey st t'"
  "templateAliasesKey st t \<noteq> templatesKey st"
  "templateAliasesKey st t \<noteq> buildsKey st"
  "templateAliasesKey st t \<noteq> aliasesKey st"
  "templateAliasesKey st t \<noteq> templateBuildsKey st t'"
  "templateAliasesKey st t \<noteq> tagsKey st t'"
  "tagsKey st t \<noteq> templatesKey st"
  "tagsKey st t \<noteq> buildsKey st"
  "tagsKey st t \<noteq> aliasesKey st"
  "tagsKey st t \<noteq> templateBuildsKey st t'"
  "tagsKey st t \<noteq> templateAliasesKey st t'"
  "templateBuildsKey st t = templateBuildsKey st t' \<longleftrightarrow> t = t'"
  "templateAliasesKey st t = templateAliasesKey st t' \<longleftrightarrow> t = t'"
  "tagsKey st t = tagsKey st t' \<longleftrightarrow> t = t'"
  by (simp_all add: templatesKey_def buildsKey_def aliasesKey_def templateBuildsKey_def templateAliasesKey_def
      tagsKey_def rkey_def)

lemma card_single: "card {f \<in> set [x]. m f \<noteq> None} = (if m x = None then 0 else 1)"
proof -
  have "{f \<in> set [x]. m f \<noteq> None} = (if m x = None then {} else {x})" by auto
  then show ?thesis by simp
qed

locale redis_world =
  fixes st :: "'s redisStore"
    and hv :: "'s \<Rightarrow> string \<Rightarrow> string \<rightharpoonup> string"
    and sv :: "'s \<Rightarrow> string \<Rightarrow> string set"
  assumes laws: "redis_laws (rs_client st) hv sv"
    and codec: "codec_laws (rs_codec st)"
begin

lemma HGet: "cl_HGet (rs_client st) k f s = (Inr (hv s k f), s)"
  using laws unfolding redis_laws_def by blast

lemma HSet:
  obtains s' where "cl_HSet (rs_client st) k f v s = (None, s')" "hv s' = (hv s)(k := (hv s k)(f \<mapsto> v))" "sv s' = sv s"
  using laws unfolding redis_laws_def by blast

lemma HSetNX:
  obtains s' where "cl_HSetNX (rs_client st) k f v s = (Inr (hv s k f = None), s')" "sv s' = sv s"
    "hv s' = (if hv s k f = None then (hv s)(k := (hv s k)(f \<mapsto> v)) else hv s)"
  using laws unfolding redis_laws_def by blast

lemma HDel:
  obtains s' where "cl_HDel (rs_client st) k fs s = (Inr (card {f \<in> set fs. hv s k f \<noteq> None}), s')" "sv s' = sv s"
    "hv s' = (hv s)(k := (\<lambda>f. if f \<in> set fs then None else hv s k f))"
  using laws unfolding redis_laws_def by blast

lemma HDel1:
  obtains s' where "cl_HDel (rs_client st) k [f] s = (Inr (if hv s k f = None then 0 else 1), s')" "sv s' = sv s"
    "hv s' = (hv s)(k := (hv s k)(f := None))"
proof -
  obtain s' where h: "cl_HDel (rs_client st) k [f] s = (Inr (card {g \<in> set [f]. hv s k g \<noteq> None}), s')" "sv s' = sv s"
    "hv s' = (hv s)(k := (\<lambda>g. if g \<in> set [f] then None else hv s k g))" by (rule HDel)
  have "(\<lambda>g. if g \<in> set [f] then None else hv s k g) = (hv s k)(f := None)" by (simp add: fun_eq_iff)
  then show ?thesis using that [of s'] h card_single [of f "hv s k"] by (simp only:)
qed

lemma SAdd:
  obtains s' where "cl_SAdd (rs_client st) k f s = (None, s')" "hv s' = hv s" "sv s' = (sv s)(k := insert f (sv s k))"
  using laws unfolding redis_laws_def by blast

lemma SRem:
  obtains s' where "cl_SRem (rs_client st) k f s = (Inr (if f \<in> sv s k then 1 else 0), s')" "hv s' = hv s"
    "sv s' = (sv s)(k := sv s k - {f})"
  using laws unfolding redis_laws_def by blast

lemma SMembers:
  obtains l where "cl_SMembers (rs_client st) k s = (Inr l, s)" "set l = sv s k" "distinct l"
  using laws unfolding redis_laws_def by blast

lemma Del:
  obtains s' where "cl_Del (rs_client st) k s = (None, s')" "hv s' = (hv s)(k := Map.empty)" "sv s' = (sv s)(k := {})"
  using laws unfolding redis_laws_def by blast

lemma mTemplate: obtains v where "js_mTemplate (rs_codec st) e = Some v" "js_uTemplate (rs_codec st) v = Some e"
  using codec unfolding codec_laws_def by blast

lemma mBuild: obtains v where "js_mBuild (rs_codec st) b = Some v" "js_uBuild (rs_codec st) v = Some b"
  using codec unfolding codec_laws_def by blast

lemma mTag: obtains v where "js_mTag (rs_codec st) g = Some v" "js_uTag (rs_codec st) v = Some g"
  using codec unfolding codec_laws_def by blast

text \<open>What one call has to do: the abstract reply, the abstract state, and values that decode.\<close>

definition sim :: "storeCall \<Rightarrow> 's \<Rightarrow> bool" where
  "sim c s =
     (spec_call c (redis_abs st hv sv s)
        = (fst (call_with (redis_ops st) c s), redis_abs st hv sv (snd (call_with (redis_ops st) c s))) \<and>
      redis_dec st hv (snd (call_with (redis_ops st) c s)))"

lemma sim_create:
  assumes "redis_dec st hv s"
  shows "sim (CCreate e) s"
proof -
  obtain v where v: "js_mTemplate (rs_codec st) e = Some v" "js_uTemplate (rs_codec st) v = Some e" by (rule mTemplate)
  obtain s' where h: "cl_HSetNX (rs_client st) (templatesKey st) (te_TemplateID e) v s
      = (Inr (hv s (templatesKey st) (te_TemplateID e) = None), s')" "sv s' = sv s"
    "hv s' = (if hv s (templatesKey st) (te_TemplateID e) = None
      then (hv s)(templatesKey st := (hv s (templatesKey st))(te_TemplateID e \<mapsto> v)) else hv s)"
    by (rule HSetNX)
  show ?thesis
    using v h assms
    by (cases "hv s (templatesKey st) (te_TemplateID e)")
      (auto simp: sim_def redis_ops_def Redis_CreateTemplate_def redis_abs_def redis_dec_def spec_create_def fun_eq_iff
        bind_eq_None_conv)
qed

lemma sim_get:
  assumes "redis_dec st hv s"
  shows "sim (CGet t) s"
proof (cases "hv s (templatesKey st) t")
  case None
  then show ?thesis using assms by (simp add: sim_def redis_ops_def Redis_GetTemplate_def HGet redis_abs_def spec_get_def)
next
  case (Some v)
  then obtain e where "js_uTemplate (rs_codec st) v = Some e" using assms unfolding redis_dec_def by blast
  then show ?thesis using assms Some by (simp add: sim_def redis_ops_def Redis_GetTemplate_def HGet redis_abs_def spec_get_def)
qed

lemma sim_update:
  assumes "redis_dec st hv s"
  shows "sim (CUpdate t f) s"
proof (cases "hv s (templatesKey st) t")
  case None
  then show ?thesis
    using assms by (simp add: sim_def redis_ops_def Redis_UpdateTemplate_def HGet redis_abs_def spec_update_def)
next
  case (Some v)
  then obtain e where e: "js_uTemplate (rs_codec st) v = Some e" using assms unfolding redis_dec_def by blast
  show ?thesis
  proof (cases "f e")
    case (Inl err)
    then show ?thesis
      using assms Some e by (simp add: sim_def redis_ops_def Redis_UpdateTemplate_def HGet redis_abs_def spec_update_def)
  next
    case (Inr e')
    obtain w where w: "js_mTemplate (rs_codec st) e' = Some w" "js_uTemplate (rs_codec st) w = Some e'" by (rule mTemplate)
    obtain s' where h: "cl_HSet (rs_client st) (templatesKey st) t w s = (None, s')"
      "hv s' = (hv s)(templatesKey st := (hv s (templatesKey st))(t \<mapsto> w))" "sv s' = sv s" by (rule HSet)
    show ?thesis
      using assms Some e Inr w h
      by (auto simp: sim_def redis_ops_def Redis_UpdateTemplate_def HGet redis_abs_def redis_dec_def spec_update_def fun_eq_iff)
  qed
qed

lemma sim_delete:
  assumes "redis_dec st hv s"
  shows "sim (CDelete t) s"
proof -
  obtain s' where h: "cl_HDel (rs_client st) (templatesKey st) [t] s = (Inr (if hv s (templatesKey st) t = None then 0 else 1), s')"
    "sv s' = sv s" "hv s' = (hv s)(templatesKey st := (hv s (templatesKey st))(t := None))" by (rule HDel1)
  show ?thesis
    using assms h
    by (cases "hv s (templatesKey st) t")
      (auto simp: sim_def redis_ops_def Redis_DeleteTemplate_def redis_abs_def redis_dec_def spec_delete_def fun_eq_iff
        bind_eq_None_conv)
qed

lemma sim_saveBuild:
  assumes "redis_dec st hv s"
  shows "sim (CSaveBuild t b) s"
proof -
  obtain v where v: "js_mBuild (rs_codec st) b = Some v" "js_uBuild (rs_codec st) v = Some b" by (rule mBuild)
  obtain s1 where h: "cl_HSet (rs_client st) (buildsKey st) (bs_BuildID b) v s = (None, s1)"
    "hv s1 = (hv s)(buildsKey st := (hv s (buildsKey st))(bs_BuildID b \<mapsto> v))" "sv s1 = sv s" by (rule HSet)
  obtain s2 where a: "cl_SAdd (rs_client st) (templateBuildsKey st t) (bs_BuildID b) s1 = (None, s2)" "hv s2 = hv s1"
    "sv s2 = (sv s1)(templateBuildsKey st t := insert (bs_BuildID b) (sv s1 (templateBuildsKey st t)))" by (rule SAdd)
  show ?thesis
    using assms v h a
    by (auto simp: sim_def redis_ops_def Redis_SaveBuild_def pipeline2_def redis_abs_def redis_dec_def spec_saveBuild_def fun_eq_iff)
qed

lemma sim_getBuild:
  assumes "redis_dec st hv s"
  shows "sim (CGetBuild b) s"
proof (cases "hv s (buildsKey st) b")
  case None
  then show ?thesis using assms by (simp add: sim_def redis_ops_def Redis_GetBuild_def HGet redis_abs_def spec_getBuild_def)
next
  case (Some v)
  then obtain e where "js_uBuild (rs_codec st) v = Some e" using assms unfolding redis_dec_def by blast
  then show ?thesis using assms Some by (simp add: sim_def redis_ops_def Redis_GetBuild_def HGet redis_abs_def spec_getBuild_def)
qed

lemma sim_deleteBuilds:
  assumes "redis_dec st hv s"
  shows "sim (CDeleteBuilds t) s"
proof -
  obtain l where l: "cl_SMembers (rs_client st) (templateBuildsKey st t) s = (Inr l, s)"
    "set l = sv s (templateBuildsKey st t)" "distinct l" by (rule SMembers)
  obtain s1 where h: "cl_HDel (rs_client st) (buildsKey st) l s
      = (Inr (card {f \<in> set l. hv s (buildsKey st) f \<noteq> None}), s1)" "sv s1 = sv s"
    "hv s1 = (hv s)(buildsKey st := (\<lambda>f. if f \<in> set l then None else hv s (buildsKey st) f))" by (rule HDel)
  obtain s2 where d: "cl_Del (rs_client st) (templateBuildsKey st t) s1 = (None, s2)"
    "hv s2 = (hv s1)(templateBuildsKey st t := Map.empty)" "sv s2 = (sv s1)(templateBuildsKey st t := {})" by (rule Del)
  show ?thesis
  proof (cases "l = []")
    case True
    then show ?thesis
      using assms l
      by (auto simp: sim_def redis_ops_def Redis_DeleteBuilds_def Let_def redis_abs_def spec_deleteBuilds_def fun_eq_iff)
  next
    case False
    then show ?thesis
      using assms l h d
      by (auto simp: sim_def redis_ops_def Redis_DeleteBuilds_def Let_def pipeline2_def errOnly_def redis_abs_def
          redis_dec_def spec_deleteBuilds_def fun_eq_iff)
  qed
qed

lemma sim_addAlias:
  assumes "redis_dec st hv s" and "alias_free t al (redis_abs st hv sv s)"
  shows "sim (CAddAlias t al) s"
proof -
  obtain s1 where h: "cl_HSetNX (rs_client st) (aliasesKey st) al t s
      = (Inr (hv s (aliasesKey st) al = None), s1)" "sv s1 = sv s"
    "hv s1 = (if hv s (aliasesKey st) al = None then (hv s)(aliasesKey st := (hv s (aliasesKey st))(al \<mapsto> t)) else hv s)"
    by (rule HSetNX)
  obtain s2 where a: "cl_SAdd (rs_client st) (templateAliasesKey st t) al s1 = (None, s2)" "hv s2 = hv s1"
    "sv s2 = (sv s1)(templateAliasesKey st t := insert al (sv s1 (templateAliasesKey st t)))" by (rule SAdd)
  have "hv s (aliasesKey st) al \<in> {None, Some t}" using assms(2) by (simp add: alias_free_def redis_abs_def)
  then show ?thesis
    using assms(1) h a
    by (auto simp: sim_def redis_ops_def Redis_AddAlias_def pipeline2_def errOnly_def redis_abs_def redis_dec_def
        spec_addAlias_def fun_eq_iff)
qed

lemma sim_removeAlias:
  assumes "redis_dec st hv s"
  shows "sim (CRemoveAlias t al) s"
proof -
  obtain s1 where r: "cl_SRem (rs_client st) (templateAliasesKey st t) al s
      = (Inr (if al \<in> sv s (templateAliasesKey st t) then 1 else 0), s1)" "hv s1 = hv s"
    "sv s1 = (sv s)(templateAliasesKey st t := sv s (templateAliasesKey st t) - {al})" by (rule SRem)
  obtain s2 where h: "cl_HDel (rs_client st) (aliasesKey st) [al] s1 = (Inr (if hv s1 (aliasesKey st) al = None then 0 else 1), s2)"
    "sv s2 = sv s1" "hv s2 = (hv s1)(aliasesKey st := (hv s1 (aliasesKey st))(al := None))" by (rule HDel1)
  show ?thesis
    using assms r h
    by (auto simp: sim_def redis_ops_def Redis_RemoveAlias_def redis_abs_def redis_dec_def spec_removeAlias_def fun_eq_iff)
qed

lemma sim_resolve: "redis_dec st hv s \<Longrightarrow> sim (CResolve al) s"
  by (cases "hv s (aliasesKey st) al")
    (simp_all add: sim_def redis_ops_def Redis_ResolveAlias_def HGet redis_abs_def spec_resolve_def)

lemma sim_deleteAliases:
  assumes "redis_dec st hv s"
  shows "sim (CDeleteAliases t) s"
proof -
  obtain l where l: "cl_SMembers (rs_client st) (templateAliasesKey st t) s = (Inr l, s)"
    "set l = sv s (templateAliasesKey st t)" "distinct l" by (rule SMembers)
  obtain s1 where h: "cl_HDel (rs_client st) (aliasesKey st) l s
      = (Inr (card {f \<in> set l. hv s (aliasesKey st) f \<noteq> None}), s1)" "sv s1 = sv s"
    "hv s1 = (hv s)(aliasesKey st := (\<lambda>f. if f \<in> set l then None else hv s (aliasesKey st) f))" by (rule HDel)
  obtain s2 where d: "cl_Del (rs_client st) (templateAliasesKey st t) s1 = (None, s2)"
    "hv s2 = (hv s1)(templateAliasesKey st t := Map.empty)" "sv s2 = (sv s1)(templateAliasesKey st t := {})" by (rule Del)
  show ?thesis
  proof (cases "l = []")
    case True
    then show ?thesis
      using assms l
      by (auto simp: sim_def redis_ops_def Redis_DeleteAliases_def Let_def redis_abs_def spec_deleteAliases_def fun_eq_iff)
  next
    case False
    then show ?thesis
      using assms l h d
      by (auto simp: sim_def redis_ops_def Redis_DeleteAliases_def Let_def pipeline2_def errOnly_def redis_abs_def
          redis_dec_def spec_deleteAliases_def fun_eq_iff)
  qed
qed

lemma sim_saveTag:
  assumes "redis_dec st hv s"
  shows "sim (CSaveTag t g) s"
proof -
  obtain v where v: "js_mTag (rs_codec st) g = Some v" "js_uTag (rs_codec st) v = Some g" by (rule mTag)
  obtain s' where h: "cl_HSet (rs_client st) (tagsKey st t) (tag_Name g) v s = (None, s')"
    "hv s' = (hv s)(tagsKey st t := (hv s (tagsKey st t))(tag_Name g \<mapsto> v))" "sv s' = sv s" by (rule HSet)
  show ?thesis
    using assms v h
    by (auto simp: sim_def redis_ops_def Redis_SaveTag_def redis_abs_def redis_dec_def spec_saveTag_def fun_eq_iff)
qed

lemma sim_deleteTag:
  assumes "redis_dec st hv s"
  shows "sim (CDeleteTag t n) s"
proof -
  obtain s' where h: "cl_HDel (rs_client st) (tagsKey st t) [n] s = (Inr (if hv s (tagsKey st t) n = None then 0 else 1), s')"
    "sv s' = sv s" "hv s' = (hv s)(tagsKey st t := (hv s (tagsKey st t))(n := None))" by (rule HDel1)
  show ?thesis
    using assms h
    by (cases "hv s (tagsKey st t) n")
      (auto simp: sim_def redis_ops_def Redis_DeleteTag_def redis_abs_def redis_dec_def spec_deleteTag_def fun_eq_iff
        bind_eq_None_conv)
qed

lemma sim_deleteTags:
  assumes "redis_dec st hv s"
  shows "sim (CDeleteTags t) s"
proof -
  obtain s' where d: "cl_Del (rs_client st) (tagsKey st t) s = (None, s')"
    "hv s' = (hv s)(tagsKey st t := Map.empty)" "sv s' = (sv s)(tagsKey st t := {})" by (rule Del)
  show ?thesis
    using assms d
    by (auto simp: sim_def redis_ops_def Redis_DeleteTags_def redis_abs_def redis_dec_def spec_deleteTags_def fun_eq_iff)
qed

lemmas sims = sim_create sim_get sim_update sim_delete sim_saveBuild sim_getBuild sim_deleteBuilds sim_addAlias
  sim_removeAlias sim_resolve sim_deleteAliases sim_saveTag sim_deleteTag sim_deleteTags

lemma sim_call:
  assumes "redis_dec st hv s" and "call_ok c (redis_abs st hv sv s)"
  shows "sim c s"
  using assms by (cases c) (simp_all add: sims)

end

text \<open>A world in which the laws hold gives the contract of a template store.\<close>

sublocale redis_world \<subseteq> rs: template_store "redis_abs st hv sv" "redis_ok st hv sv" "redis_ops st"
proof unfold_locales
  fix s c r s'
  assume ok: "redis_ok st hv sv s" and c: "call_ok c (redis_abs st hv sv s)" and r: "call_with (redis_ops st) c s = (r, s')"
  have "sim c s" using ok c by (intro sim_call) (simp_all add: redis_ok_def)
  then have sp: "spec_call c (redis_abs st hv sv s) = (r, redis_abs st hv sv s')" and d: "redis_dec st hv s'"
    by (simp_all add: sim_def r)
  have "alias_consistent (redis_abs st hv sv s')"
    using spec_call_consistent [OF _ c] ok sp by (simp add: redis_ok_def)
  then show "redis_ok st hv sv s' \<and> spec_call c (redis_abs st hv sv s) = (r, redis_abs st hv sv s')"
    using sp d by (simp add: redis_ok_def)
next
  show "redis_ok st hv sv s \<Longrightarrow> alias_consistent (redis_abs st hv sv s)" for s by (simp add: redis_ok_def)
qed

context redis_world
begin

lemma run_spec:
  "redis_ok st hv sv s \<Longrightarrow> calls_ok cs (redis_abs st hv sv s) \<Longrightarrow>
   store_run (call_with (redis_ops st)) cs s = spec_run cs (redis_abs st hv sv s)"
  by (rule rs.run_refines)

end

section \<open>A Redis server in memory\<close>

text \<open>A server whose state is its keys: a hash and a set for each.  It shows that the laws can be met.\<close>

record memRedis =
  mr_hash :: "string \<Rightarrow> (string, string) gomap"
  mr_set :: "string \<Rightarrow> string list"

definition mem_client :: "memRedis redisClient" where
  "mem_client =
     \<lparr>cl_HSetNX = (\<lambda>k f v s. (Inr (gm_get (mr_hash s k) f = None),
        if gm_get (mr_hash s k) f = None then s\<lparr>mr_hash := (mr_hash s)(k := gm_set (mr_hash s k) f v)\<rparr> else s)),
      cl_HSet = (\<lambda>k f v s. (None, s\<lparr>mr_hash := (mr_hash s)(k := gm_set (mr_hash s k) f v)\<rparr>)),
      cl_HGet = (\<lambda>k f s. (Inr (gm_get (mr_hash s k) f), s)),
      cl_HDel = (\<lambda>k fs s. (Inr (length (filter (\<lambda>f. gm_get (mr_hash s k) f \<noteq> None) (remdups fs))),
        s\<lparr>mr_hash := (mr_hash s)(k := fold (\<lambda>f m. gm_del m f) fs (mr_hash s k))\<rparr>)),
      cl_HGetAll = (\<lambda>k s. (Inr (AList.clearjunk (mr_hash s k)), s)),
      cl_HMGet = (\<lambda>k fs s. (Inr (map (gm_get (mr_hash s k)) fs), s)),
      cl_SAdd = (\<lambda>k m s. (None, s\<lparr>mr_set := (mr_set s)(k := List.insert m (mr_set s k))\<rparr>)),
      cl_SRem = (\<lambda>k m s. (Inr (if m \<in> set (mr_set s k) then 1 else 0),
        s\<lparr>mr_set := (mr_set s)(k := filter (\<lambda>x. x \<noteq> m) (mr_set s k))\<rparr>)),
      cl_SMembers = (\<lambda>k s. (Inr (remdups (mr_set s k)), s)),
      cl_Del = (\<lambda>k s. (None, s\<lparr>mr_hash := (mr_hash s)(k := []), mr_set := (mr_set s)(k := [])\<rparr>))\<rparr>"

definition mem_hv :: "memRedis \<Rightarrow> string \<Rightarrow> string \<rightharpoonup> string" where
  "mem_hv s k = gm_get (mr_hash s k)"

definition mem_sv :: "memRedis \<Rightarrow> string \<Rightarrow> string set" where
  "mem_sv s k = set (mr_set s k)"

lemma mem_hdel_count:
  "length (filter p (remdups fs)) = card {f \<in> set fs. p f}"
proof -
  have "distinct (filter p (remdups fs))" "set (filter p (remdups fs)) = {f \<in> set fs. p f}" by auto
  then show ?thesis by (metis distinct_card)
qed

lemma mem_client_laws: "redis_laws mem_client mem_hv mem_sv"
  unfolding redis_laws_def
proof (intro allI conjI)
  fix s :: memRedis and k f v :: string and fs :: "string list"
  show "cl_HGet mem_client k f s = (Inr (mem_hv s k f), s)" by (simp add: mem_client_def mem_hv_def)
  show "\<exists>s'. cl_HSet mem_client k f v s = (None, s') \<and> mem_hv s' = (mem_hv s)(k := (mem_hv s k)(f \<mapsto> v)) \<and> mem_sv s' = mem_sv s"
    by (simp add: mem_client_def mem_hv_def mem_sv_def fun_eq_iff)
  show "\<exists>s'. cl_HSetNX mem_client k f v s = (Inr (mem_hv s k f = None), s') \<and> mem_sv s' = mem_sv s \<and>
      mem_hv s' = (if mem_hv s k f = None then (mem_hv s)(k := (mem_hv s k)(f \<mapsto> v)) else mem_hv s)"
    by (simp add: mem_client_def mem_hv_def mem_sv_def fun_eq_iff)
  show "\<exists>s'. cl_HDel mem_client k fs s = (Inr (card {f \<in> set fs. mem_hv s k f \<noteq> None}), s') \<and> mem_sv s' = mem_sv s \<and>
      mem_hv s' = (mem_hv s)(k := (\<lambda>f. if f \<in> set fs then None else mem_hv s k f))"
    by (simp add: mem_client_def mem_hv_def mem_sv_def fun_eq_iff gm_get_fold_del mem_hdel_count)
  show "\<exists>l. cl_HGetAll mem_client k s = (Inr l, s) \<and> map_of l = mem_hv s k \<and> distinct (map fst l)"
    by (simp add: mem_client_def mem_hv_def gm_get_def map_of_clearjunk distinct_clearjunk fun_eq_iff)
  show "cl_HMGet mem_client k fs s = (Inr (map (mem_hv s k) fs), s)" by (simp add: mem_client_def mem_hv_def)
  show "\<exists>s'. cl_SAdd mem_client k f s = (None, s') \<and> mem_hv s' = mem_hv s \<and> mem_sv s' = (mem_sv s)(k := insert f (mem_sv s k))"
    by (simp add: mem_client_def mem_hv_def mem_sv_def fun_eq_iff)
  show "\<exists>s'. cl_SRem mem_client k f s = (Inr (if f \<in> mem_sv s k then 1 else 0), s') \<and> mem_hv s' = mem_hv s \<and>
      mem_sv s' = (mem_sv s)(k := mem_sv s k - {f})"
    by (auto simp: mem_client_def mem_hv_def mem_sv_def fun_eq_iff)
  show "\<exists>l. cl_SMembers mem_client k s = (Inr l, s) \<and> set l = mem_sv s k \<and> distinct l"
    by (simp add: mem_client_def mem_sv_def)
  show "\<exists>s'. cl_Del mem_client k s = (None, s') \<and> mem_hv s' = (mem_hv s)(k := Map.empty) \<and> mem_sv s' = (mem_sv s)(k := {})"
    by (simp add: mem_client_def mem_hv_def mem_sv_def fun_eq_iff)
qed

text \<open>A text coding of records as lists of strings, in which every character is marked.\<close>

definition enc_strings :: "string list \<Rightarrow> string" where
  "enc_strings ss = concat (map (\<lambda>s. concat (map (\<lambda>c. [CHR ''c'', c]) s) @ ''.'') ss)"

fun dec_strings :: "string \<Rightarrow> string \<Rightarrow> (string list) option" where
  "dec_strings cur [] = (if cur = [] then Some [] else None)"
| "dec_strings cur [x] = (if x = CHR ''.'' then Some [cur] else None)"
| "dec_strings cur (x # y # r) =
     (if x = CHR ''.'' then map_option (\<lambda>ss. cur # ss) (dec_strings [] (y # r))
      else if x = CHR ''c'' then dec_strings (cur @ [y]) r
      else None)"

lemma dec_dot: "dec_strings cur (CHR ''.'' # r) = map_option (\<lambda>ss. cur # ss) (dec_strings [] r)"
  by (cases r) simp_all

lemma dec_char: "dec_strings cur (CHR ''c'' # y # r) = dec_strings (cur @ [y]) r"
  by simp

lemma dec_string: "dec_strings cur (concat (map (\<lambda>c. [CHR ''c'', c]) s) @ r) = dec_strings (cur @ s) r"
  by (induction s arbitrary: cur) (simp_all add: dec_char del: dec_strings.simps(3))

lemma dec_enc_strings: "dec_strings [] (enc_strings ss) = Some ss"
proof (induction ss)
  case (Cons s ss)
  have "enc_strings (s # ss) = concat (map (\<lambda>c. [CHR ''c'', c]) s) @ CHR ''.'' # enc_strings ss"
    by (simp add: enc_strings_def)
  then show ?case by (simp only: dec_string dec_dot Cons.IH) simp
qed (simp add: enc_strings_def)

definition enc_int :: "int \<Rightarrow> string" where
  "enc_int i = (if i < 0 then CHR ''-'' else CHR ''+'') # replicate (nat \<bar>i\<bar>) (CHR ''1'')"

definition dec_int :: "string \<Rightarrow> int" where
  "dec_int s = (if hd s = CHR ''-'' then - int (length s - 1) else int (length s - 1))"

lemma dec_enc_int [simp]: "dec_int (enc_int i) = i"
  by (simp add: dec_int_def enc_int_def)

fun flat_pairs :: "(string \<times> string) list \<Rightarrow> string list" where
  "flat_pairs [] = []"
| "flat_pairs ((k, v) # ps) = k # v # flat_pairs ps"

fun pair_up :: "string list \<Rightarrow> (string \<times> string) list" where
  "pair_up (k # v # r) = (k, v) # pair_up r"
| "pair_up _ = []"

lemma pair_up_flat [simp]: "pair_up (flat_pairs ps) = ps"
  by (induction ps rule: flat_pairs.induct) simp_all

definition entry_fields :: "TemplateEntry \<Rightarrow> string list" where
  "entry_fields e =
     [te_TemplateID e, te_Name e, te_ImageURI e, te_Dockerfile e, te_StartCmd e, enc_int (te_CPUCount e),
      enc_int (te_MemoryMB e), te_BuildID e, enc_int (te_CreatedAt e)] @ flat_pairs (te_Metadata e)"

fun fields_entry :: "string list \<Rightarrow> TemplateEntry option" where
  "fields_entry (a # b # c # d # e # f # g # h # i # m) =
     Some \<lparr>te_TemplateID = a, te_Name = b, te_ImageURI = c, te_Dockerfile = d, te_StartCmd = e, te_CPUCount = dec_int f,
           te_MemoryMB = dec_int g, te_BuildID = h, te_CreatedAt = dec_int i, te_Metadata = pair_up m\<rparr>"
| "fields_entry _ = None"

fun fields_build :: "string list \<Rightarrow> BuildStatus option" where
  "fields_build [a, b, c, d] = Some \<lparr>bs_BuildID = a, bs_Status = b, bs_Logs = c, bs_Error = d\<rparr>"
| "fields_build _ = None"

fun fields_tag :: "string list \<Rightarrow> Tag option" where
  "fields_tag [a, b, c, d] = Some \<lparr>tag_Name = a, tag_TemplateID = b, tag_BuildID = c, tag_CreatedAt = dec_int d\<rparr>"
| "fields_tag _ = None"

definition text_codec :: jsonCodec where
  "text_codec =
     \<lparr>js_mTemplate = (\<lambda>e. Some (enc_strings (entry_fields e))),
      js_uTemplate = (\<lambda>v. Option.bind (dec_strings [] v) fields_entry),
      js_mBuild = (\<lambda>b. Some (enc_strings [bs_BuildID b, bs_Status b, bs_Logs b, bs_Error b])),
      js_uBuild = (\<lambda>v. Option.bind (dec_strings [] v) fields_build),
      js_mTag = (\<lambda>g. Some (enc_strings [tag_Name g, tag_TemplateID g, tag_BuildID g, enc_int (tag_CreatedAt g)])),
      js_uTag = (\<lambda>v. Option.bind (dec_strings [] v) fields_tag)\<rparr>"

lemma text_codec_laws: "codec_laws text_codec"
  by (simp add: codec_laws_def text_codec_def dec_enc_strings entry_fields_def)

definition demo_redis :: "memRedis redisStore" where
  "demo_redis = NewRedisTemplateStoreWithClient mem_client text_codec []"

interpretation mr: redis_world demo_redis mem_hv mem_sv
  by unfold_locales
    (simp_all add: demo_redis_def NewRedisTemplateStoreWithClient_def mem_client_laws text_codec_laws)

section \<open>The two stores agree\<close>

definition empty_server :: "('s \<Rightarrow> string \<Rightarrow> string \<rightharpoonup> string) \<Rightarrow> ('s \<Rightarrow> string \<Rightarrow> string set) \<Rightarrow> 's \<Rightarrow> bool" where
  "empty_server hv sv s = (\<forall>k. hv s k = Map.empty \<and> sv s k = {})"

lemma redis_empty:
  assumes "empty_server hv sv s"
  shows "redis_abs st hv sv s = spec_empty" and "redis_ok st hv sv s"
proof -
  show a: "redis_abs st hv sv s = spec_empty"
    using assms by (simp add: redis_abs_def spec_empty_def empty_server_def fun_eq_iff)
  show "redis_ok st hv sv s"
    unfolding redis_ok_def a using assms by (simp add: alias_consistent_empty redis_dec_def empty_server_def)
qed


definition empty_memRedis :: memRedis where
  "empty_memRedis = \<lparr>mr_hash = (\<lambda>_. []), mr_set = (\<lambda>_. [])\<rparr>"

lemma empty_memRedis_empty: "empty_server mem_hv mem_sv empty_memRedis"
  by (simp add: empty_server_def mem_hv_def mem_sv_def empty_memRedis_def fun_eq_iff)


text \<open>
  On an alias of another template the stores differ: Redis keeps the first owner in the reverse map, while the in-memory
  store (lemma \<open>memory_alias_stolen\<close>) lets the alias resolve to the second.
\<close>

lemma redis_alias_kept:
  "store_run (call_with (redis_ops demo_redis))
     [CAddAlias ''a'' ''x'', CAddAlias ''b'' ''x'', CResolve ''x''] empty_memRedis
   = [RErr None, RErr None, RString (Inr ''a'')]"
  by (simp add: redis_ops_def Redis_AddAlias_def Redis_ResolveAlias_def pipeline2_def errOnly_def demo_redis_def
      NewRedisTemplateStoreWithClient_def mem_client_def empty_memRedis_def)

end
