(* ===== verification/Mock_Adapter.thy ===== *)
theory Mock_Adapter
  imports Adapter_Types LRU_Cache "HOL-Library.Word"
begin

text \<open>
  The in-memory adapter (\<open>internal/adapter/mock/adapter.go\<close>): the adapter every test and
  the default configuration run on, and the smallest complete implementation of the
  adapter contract.  Its state is a record of Go maps, one per field of the struct, with
  the LRU cache of access tokens; of the shared registry it uses the map from sandboxes
  to backends (\<open>None\<close> is the nil registry).

  A method that changes the adapter returns its result with the new state; a method that
  only reads returns its result.  The methods hold the adapter's mutex from entry to
  return, so a history is a sequence of calls.  Random bytes and the results of
  \<open>time.Now()\<close> are arguments.  A returned pointer is the value it points to at that
  moment: later changes the adapter makes through the same pointer are not reflected in
  values returned earlier.
\<close>

section \<open>State\<close>

record mock =
  m_sandboxes :: "(string, Sandbox) gomap"
  m_templates :: "(string, Template) gomap"
  m_warmPools :: "(string, WarmPool) gomap"
  m_processes :: "(string, ProcessInfo list) gomap"
  m_snapshots :: "(string, Snapshot list) gomap"
  m_builds :: "(string, BuildStatus) gomap"
  m_aliases :: "(string, string list) gomap"
  m_portCount :: "(string, int) gomap"
  m_tags :: "(string, Tag list) gomap"
  m_files :: "(string, strmap) gomap"
  m_envStore :: "(string, strmap) gomap"
  m_tokenCache :: "string cache"
  m_registry :: "SandboxBackendMap option"

abbreviation "defaultTemplateBase \<equiv> ''base''"
abbreviation "defaultTemplateCodeInterpreter \<equiv> ''code-interpreter''"

definition Mock_New :: "SandboxBackendMap option \<Rightarrow> time \<Rightarrow> time \<Rightarrow> mock" where
  "Mock_New registry now1 now2 =
     \<lparr>m_sandboxes = [],
      m_templates =
        [(defaultTemplateBase,
          \<lparr>t_TemplateID = defaultTemplateBase, t_Name = defaultTemplateBase,
           t_Description = ''Base sandbox template'', t_CPUCount = 2, t_MemoryMB = 512,
           t_Public = True, t_BuildID = [], t_Metadata = [], t_CreatedAt = now1\<rparr>),
         (defaultTemplateCodeInterpreter,
          \<lparr>t_TemplateID = defaultTemplateCodeInterpreter, t_Name = defaultTemplateCodeInterpreter,
           t_Description = ''Python code interpreter template'', t_CPUCount = 2, t_MemoryMB = 1024,
           t_Public = True, t_BuildID = [], t_Metadata = [], t_CreatedAt = now2\<rparr>)],
      m_warmPools = [], m_processes = [], m_snapshots = [], m_builds = [], m_aliases = [],
      m_portCount = [], m_tags = [], m_files = [], m_envStore = [],
      m_tokenCache = Cache_New 10000 hour, m_registry = registry\<rparr>"

definition Mock_Name :: string where
  "Mock_Name = ''mock''"

definition Mock_HealthCheck :: "go_error option" where
  "Mock_HealthCheck = None"

section \<open>Helpers\<close>

text \<open>\<open>b\<close> is the six bytes \<open>rand.Read\<close> filled in.\<close>

definition generateMockID :: "string \<Rightarrow> string" where
  "generateMockID b = hexEncode b"

definition sandboxNotFound :: "string \<Rightarrow> go_error" where
  "sandboxNotFound sandboxID = Errorf ''sandbox %q not found'' [sandboxID]"

text \<open>\<open>fmt.Errorf\<close> with one \<open>%w\<close>: the wrapped error's format and arguments follow.\<close>

fun wrapError :: "string \<Rightarrow> go_error \<Rightarrow> go_error" where
  "wrapError fmt (Errorf f args) = Errorf fmt (f # args)"
| "wrapError fmt (StatusError st msg) = Errorf fmt [msg]"

definition templateNotFound :: "string \<Rightarrow> go_error" where
  "templateNotFound templateID = Errorf ''template %q not found'' [templateID]"

definition warmPoolNotFound :: "string \<Rightarrow> go_error" where
  "warmPoolNotFound warmPoolID = Errorf ''warm pool %q not found'' [warmPoolID]"

definition processNotFound :: "string \<Rightarrow> go_error" where
  "processNotFound processID = Errorf ''process %q not found'' [processID]"

section \<open>Sandboxes\<close>

definition Mock_CreateSandbox ::
  "CreateSandboxRequest \<Rightarrow> time \<Rightarrow> time \<Rightarrow> time \<Rightarrow> mock \<Rightarrow> Sandbox go_res \<times> mock" where
  "Mock_CreateSandbox req now1 now2 now3 a =
     (let sbx_id = ''mock-'' @ fmt_nat (gm_len (m_sandboxes a) + 1);
          sbx = \<lparr>sb_SandboxID = sbx_id, sb_TemplateID = csr_TemplateID req, sb_Alias = csr_Alias req,
                 sb_StartedAt = now1, sb_EndAt = now2 + 5 * minute, sb_Status = SandboxStatusRunning,
                 sb_Metadata = csr_Metadata req, sb_ClientID = [], sb_Backend = ''mock''\<rparr>;
          sbx = (if 0 < csr_Timeout req
                 then sbx\<lparr>sb_EndAt := now3 + seconds64 (csr_Timeout req)\<rparr> else sbx);
          a = a\<lparr>m_sandboxes := gm_set (m_sandboxes a) sbx_id sbx\<rparr>;
          a = (case m_registry a of
                 None \<Rightarrow> a
               | Some sbm \<Rightarrow> a\<lparr>m_registry := Some (SandboxBackendMap_Set sbm sbx_id ''mock'')\<rparr>);
          a = (if 0 < gm_len (csr_Envs req)
               then a\<lparr>m_envStore := gm_set (m_envStore a) sbx_id (gm_copy [] (csr_Envs req))\<rparr> else a)
      in (Inr sbx, a))"

definition Mock_ListSandboxes :: "string list \<Rightarrow> mock \<Rightarrow> Sandbox list" where
  "Mock_ListSandboxes ord a = map snd (gm_range (m_sandboxes a) ord)"

definition Mock_GetSandbox :: "string \<Rightarrow> mock \<Rightarrow> Sandbox go_res" where
  "Mock_GetSandbox sandboxID a =
     (case gm_get (m_sandboxes a) sandboxID of
        None \<Rightarrow> Inl (sandboxNotFound sandboxID)
      | Some s \<Rightarrow> Inr s)"

definition Mock_KillSandbox :: "string \<Rightarrow> mock \<Rightarrow> go_error option \<times> mock" where
  "Mock_KillSandbox sandboxID a =
     (if \<not> gm_has (m_sandboxes a) sandboxID then (Some (sandboxNotFound sandboxID), a)
      else let a = a\<lparr>m_sandboxes := gm_del (m_sandboxes a) sandboxID\<rparr>
           in (None,
               case m_registry a of
                 None \<Rightarrow> a
               | Some sbm \<Rightarrow> a\<lparr>m_registry := Some (SandboxBackendMap_Delete sbm sandboxID)\<rparr>))"

definition Mock_PauseSandbox :: "string \<Rightarrow> mock \<Rightarrow> go_error option \<times> mock" where
  "Mock_PauseSandbox sandboxID a =
     (case gm_get (m_sandboxes a) sandboxID of
        None \<Rightarrow> (Some (sandboxNotFound sandboxID), a)
      | Some s \<Rightarrow>
          (None, a\<lparr>m_sandboxes := gm_set (m_sandboxes a) sandboxID (s\<lparr>sb_Status := SandboxStatusPaused\<rparr>)\<rparr>))"

definition Mock_ResumeSandbox :: "string \<Rightarrow> mock \<Rightarrow> Sandbox go_res \<times> mock" where
  "Mock_ResumeSandbox sandboxID a =
     (case gm_get (m_sandboxes a) sandboxID of
        None \<Rightarrow> (Inl (sandboxNotFound sandboxID), a)
      | Some s \<Rightarrow>
          (let s = s\<lparr>sb_Status := SandboxStatusRunning\<rparr>
           in (Inr s, a\<lparr>m_sandboxes := gm_set (m_sandboxes a) sandboxID s\<rparr>)))"

definition Mock_SetTimeout :: "string \<Rightarrow> duration \<Rightarrow> time \<Rightarrow> mock \<Rightarrow> go_error option \<times> mock" where
  "Mock_SetTimeout sandboxID timeout now a =
     (case gm_get (m_sandboxes a) sandboxID of
        None \<Rightarrow> (Some (sandboxNotFound sandboxID), a)
      | Some s \<Rightarrow>
          (None, a\<lparr>m_sandboxes := gm_set (m_sandboxes a) sandboxID (s\<lparr>sb_EndAt := now + timeout\<rparr>)\<rparr>))"

section \<open>Code and commands\<close>

definition Mock_ExecuteCode :: "string \<Rightarrow> CodeExecutionRequest \<Rightarrow> mock \<Rightarrow> CodeExecutionResult go_res" where
  "Mock_ExecuteCode sandboxID req a =
     (if \<not> gm_has (m_sandboxes a) sandboxID then Inl (sandboxNotFound sandboxID)
      else Inr \<lparr>cx_Stdout = ''[mock] executed: '' @ cer_Code req @ [CHR 0x0A], cx_Stderr = [],
                cx_ExitCode = 0, cx_Duration = 100 * 10 ^ 6, cx_Error = []\<rparr>)"

text \<open>
  The messages sent on a stream carry text, an exit code or the text of an error.  The
  stream is the caller's: \<open>closeErr\<close> is what its \<open>Close\<close> returns, and the results of
  \<open>Send\<close> are ignored.
\<close>

datatype streamData =
    DataText string
  | DataError go_error
  | DataExitCode int

record StreamMessage =
  sm_Type :: string
  sm_Data :: streamData

definition Mock_ExecuteCodeStream ::
  "string \<Rightarrow> CodeExecutionRequest \<Rightarrow> go_error option \<Rightarrow> mock \<Rightarrow> StreamMessage list \<times> go_error option" where
  "Mock_ExecuteCodeStream sandboxID req closeErr a =
     (case Mock_ExecuteCode sandboxID req a of
        Inl err \<Rightarrow> ([\<lparr>sm_Type = ''error'', sm_Data = DataError err\<rparr>], Some err)
      | Inr result \<Rightarrow>
          ((if cx_Stdout result \<noteq> [] then [\<lparr>sm_Type = ''stdout'', sm_Data = DataText (cx_Stdout result)\<rparr>] else []) @
           (if cx_Stderr result \<noteq> [] then [\<lparr>sm_Type = ''stderr'', sm_Data = DataText (cx_Stderr result)\<rparr>] else []) @
           [\<lparr>sm_Type = ''result'', sm_Data = DataExitCode (cx_ExitCode result)\<rparr>], closeErr))"

definition Mock_RunCommand :: "string \<Rightarrow> CommandRequest \<Rightarrow> mock \<Rightarrow> CommandResult go_res" where
  "Mock_RunCommand sandboxID req a =
     (if \<not> gm_has (m_sandboxes a) sandboxID then Inl (sandboxNotFound sandboxID)
      else Inr \<lparr>cr_Stdout = ''[mock] ran: '' @ cmd_Command req @ [CHR 0x0A], cr_Stderr = [],
                cr_ExitCode = 0, cr_Error = []\<rparr>)"

section \<open>Files\<close>

definition Mock_WriteFile :: "string \<Rightarrow> FileWriteRequest \<Rightarrow> mock \<Rightarrow> go_error option \<times> mock" where
  "Mock_WriteFile sandboxID req a =
     (if \<not> gm_has (m_sandboxes a) sandboxID then (Some (sandboxNotFound sandboxID), a)
      else (None, a\<lparr>m_files := gm_set (m_files a) sandboxID
                      (gm_set (gm_get_or [] (m_files a) sandboxID) (fw_Path req) (fw_Content req))\<rparr>))"

definition storedFile :: "string \<Rightarrow> string \<Rightarrow> mock \<Rightarrow> string option" where
  "storedFile sandboxID path a =
     (case gm_get (m_files a) sandboxID of
        None \<Rightarrow> None
      | Some files \<Rightarrow> gm_get files path)"

definition Mock_ReadFile :: "string \<Rightarrow> string \<Rightarrow> mock \<Rightarrow> FileContent go_res" where
  "Mock_ReadFile sandboxID path a =
     (if \<not> gm_has (m_sandboxes a) sandboxID then Inl (sandboxNotFound sandboxID)
      else case storedFile sandboxID path a of
             Some content \<Rightarrow> Inr \<lparr>fc_Path = path, fc_Content = content, fc_Size = int (length content)\<rparr>
           | None \<Rightarrow> Inr \<lparr>fc_Path = path, fc_Content = ''[mock file content]'', fc_Size = 19\<rparr>)"

text \<open>The directory of the sandbox is made before the upload is read, so it stays when
  the reader fails.\<close>

definition Mock_UploadFile :: "string \<Rightarrow> FileUploadRequest \<Rightarrow> mock \<Rightarrow> go_error option \<times> mock" where
  "Mock_UploadFile sandboxID req a =
     (if \<not> gm_has (m_sandboxes a) sandboxID then (Some (sandboxNotFound sandboxID), a)
      else let files = gm_get_or [] (m_files a) sandboxID;
               a = a\<lparr>m_files := gm_set (m_files a) sandboxID files\<rparr>
           in case fu_Reader req of
                Inl err \<Rightarrow> (Some (wrapError ''reading upload data: %w'' err), a)
              | Inr content \<Rightarrow>
                  (None, a\<lparr>m_files := gm_set (m_files a) sandboxID (gm_set files (fu_Path req) content)\<rparr>))"

definition Mock_DownloadFile :: "string \<Rightarrow> string \<Rightarrow> mock \<Rightarrow> string go_res" where
  "Mock_DownloadFile sandboxID path a =
     (if \<not> gm_has (m_sandboxes a) sandboxID then Inl (sandboxNotFound sandboxID)
      else case storedFile sandboxID path a of
             Some content \<Rightarrow> Inr content
           | None \<Rightarrow> Inl (Errorf ''file %q not found'' [path]))"

text \<open>\<open>now p\<close> is the clock when the loop visits the file \<open>p\<close>.\<close>

definition listedFile :: "(string \<Rightarrow> time) \<Rightarrow> string \<times> string \<Rightarrow> FileInfo" where
  "listedFile now = (\<lambda>(p, content).
     \<lparr>fi_Name = (let idx = LastIndex p (CHR ''/'') in if 0 \<le> idx then drop (nat idx + 1) p else p),
      fi_Path = p, fi_Size = int (length content), fi_IsDir = False, fi_ModTime = now p\<rparr>)"

definition Mock_ListFiles ::
  "string list \<Rightarrow> (string \<Rightarrow> time) \<Rightarrow> string \<Rightarrow> string \<Rightarrow> mock \<Rightarrow> (FileInfo list) go_res" where
  "Mock_ListFiles ord now sandboxID path a =
     (if \<not> gm_has (m_sandboxes a) sandboxID then Inl (sandboxNotFound sandboxID)
      else Inr (case gm_get (m_files a) sandboxID of
                  None \<Rightarrow> []
                | Some files \<Rightarrow>
                    map (listedFile now)
                      (filter (\<lambda>(p, content). path = ''/'' \<or> path = [] \<or> HasPrefix p path)
                        (gm_range files ord))))"

definition Mock_MakeDir :: "string \<Rightarrow> string \<Rightarrow> mock \<Rightarrow> go_error option" where
  "Mock_MakeDir sandboxID path a =
     (if \<not> gm_has (m_sandboxes a) sandboxID then Some (sandboxNotFound sandboxID) else None)"

definition Mock_RemoveFile :: "string \<Rightarrow> string \<Rightarrow> mock \<Rightarrow> go_error option" where
  "Mock_RemoveFile sandboxID path a =
     (if \<not> gm_has (m_sandboxes a) sandboxID then Some (sandboxNotFound sandboxID) else None)"

definition Mock_MoveFile :: "string \<Rightarrow> string \<Rightarrow> string \<Rightarrow> mock \<Rightarrow> go_error option" where
  "Mock_MoveFile sandboxID src dst a =
     (if \<not> gm_has (m_sandboxes a) sandboxID then Some (sandboxNotFound sandboxID) else None)"

section \<open>Templates, builds, aliases, tags\<close>

definition Mock_ListTemplates :: "string list \<Rightarrow> mock \<Rightarrow> Template list" where
  "Mock_ListTemplates ord a = map snd (gm_range (m_templates a) ord)"

definition Mock_GetTemplate :: "string \<Rightarrow> mock \<Rightarrow> Template go_res" where
  "Mock_GetTemplate templateID a =
     (case gm_get (m_templates a) templateID of
        None \<Rightarrow> Inl (templateNotFound templateID)
      | Some t \<Rightarrow> Inr t)"

definition readyBuild :: "string \<Rightarrow> BuildStatus" where
  "readyBuild buildID = \<lparr>bs_BuildID = buildID, bs_Status = BuildStatusReady, bs_Logs = [], bs_Error = []\<rparr>"

definition Mock_CreateTemplate :: "CreateTemplateRequest \<Rightarrow> string \<Rightarrow> time \<Rightarrow> mock \<Rightarrow> TemplateBuild go_res \<times> mock" where
  "Mock_CreateTemplate req rnd now a =
     (let tid = generateMockID rnd;
          buildID = ''build-'' @ tid
      in (Inr \<lparr>tb_TemplateID = tid, tb_BuildID = buildID, tb_Status = BuildStatusReady\<rparr>,
          a\<lparr>m_templates := gm_set (m_templates a) tid
              \<lparr>t_TemplateID = tid, t_Name = ctr_Name req, t_Description = ''Custom template'',
               t_CPUCount = ctr_CPUCount req, t_MemoryMB = ctr_MemoryMB req, t_Public = False,
               t_BuildID = buildID, t_Metadata = [], t_CreatedAt = now\<rparr>,
            m_builds := gm_set (m_builds a) buildID (readyBuild buildID)\<rparr>))"

definition Mock_DeleteTemplate :: "string \<Rightarrow> mock \<Rightarrow> go_error option \<times> mock" where
  "Mock_DeleteTemplate templateID a =
     (if \<not> gm_has (m_templates a) templateID then (Some (templateNotFound templateID), a)
      else (None, a\<lparr>m_templates := gm_del (m_templates a) templateID\<rparr>))"

definition Mock_TriggerBuild :: "string \<Rightarrow> BuildRequest \<Rightarrow> string \<Rightarrow> mock \<Rightarrow> TemplateBuild go_res \<times> mock" where
  "Mock_TriggerBuild templateID req rnd a =
     (if \<not> gm_has (m_templates a) templateID then (Inl (templateNotFound templateID), a)
      else let buildID = ''build-'' @ generateMockID rnd
           in (Inr \<lparr>tb_TemplateID = templateID, tb_BuildID = buildID, tb_Status = BuildStatusReady\<rparr>,
               a\<lparr>m_builds := gm_set (m_builds a) buildID (readyBuild buildID)\<rparr>))"

definition Mock_GetBuildStatus :: "string \<Rightarrow> string \<Rightarrow> mock \<Rightarrow> BuildStatus go_res" where
  "Mock_GetBuildStatus templateID buildID a =
     (case gm_get (m_builds a) buildID of
        None \<Rightarrow> Inl (Errorf ''build %q not found'' [buildID])
      | Some bs \<Rightarrow> Inr bs)"

definition Mock_CreateAlias :: "string \<Rightarrow> string \<Rightarrow> mock \<Rightarrow> go_error option \<times> mock" where
  "Mock_CreateAlias templateID alias a =
     (if \<not> gm_has (m_templates a) templateID then (Some (templateNotFound templateID), a)
      else (None, a\<lparr>m_aliases := gm_set (m_aliases a) templateID (gm_get_or [] (m_aliases a) templateID @ [alias])\<rparr>))"

definition Mock_DeleteAlias :: "string \<Rightarrow> string \<Rightarrow> mock \<Rightarrow> go_error option \<times> mock" where
  "Mock_DeleteAlias templateID alias a =
     (let aliases = gm_get_or [] (m_aliases a) templateID
      in if alias \<in> set aliases
         then (None, a\<lparr>m_aliases := gm_set (m_aliases a) templateID (remove_first (\<lambda>al. al = alias) aliases)\<rparr>)
         else (Some (Errorf ''alias %q not found for template %q'' [alias, templateID]), a))"

definition Mock_CreateTag :: "string \<Rightarrow> TagRequest \<Rightarrow> time \<Rightarrow> mock \<Rightarrow> Tag go_res \<times> mock" where
  "Mock_CreateTag templateID req now a =
     (if \<not> gm_has (m_templates a) templateID then (Inl (templateNotFound templateID), a)
      else let tag = \<lparr>tag_Name = tr_Name req, tag_TemplateID = templateID,
                      tag_BuildID = tr_BuildID req, tag_CreatedAt = now\<rparr>
           in (Inr tag, a\<lparr>m_tags := gm_set (m_tags a) templateID (gm_get_or [] (m_tags a) templateID @ [tag])\<rparr>))"

definition Mock_ListTags :: "string \<Rightarrow> mock \<Rightarrow> (Tag list) go_res" where
  "Mock_ListTags templateID a =
     (if \<not> gm_has (m_templates a) templateID then Inl (templateNotFound templateID)
      else Inr (gm_get_or [] (m_tags a) templateID))"

definition Mock_DeleteTag :: "string \<Rightarrow> string \<Rightarrow> mock \<Rightarrow> go_error option \<times> mock" where
  "Mock_DeleteTag templateID tagName a =
     (if \<not> gm_has (m_templates a) templateID then (Some (templateNotFound templateID), a)
      else let tags = gm_get_or [] (m_tags a) templateID
           in if \<exists>t \<in> set tags. tag_Name t = tagName
              then (None, a\<lparr>m_tags := gm_set (m_tags a) templateID (remove_first (\<lambda>t. tag_Name t = tagName) tags)\<rparr>)
              else (None, a))"

section \<open>Warm pools\<close>

definition Mock_ListWarmPools :: "string list \<Rightarrow> mock \<Rightarrow> WarmPool list" where
  "Mock_ListWarmPools ord a = map snd (gm_range (m_warmPools a) ord)"

definition Mock_CreateWarmPool :: "WarmPoolCreateRequest \<Rightarrow> string \<Rightarrow> time \<Rightarrow> mock \<Rightarrow> WarmPool go_res \<times> mock" where
  "Mock_CreateWarmPool req rnd now a =
     (let wid = (if wpr_WarmPoolID req = [] then ''wp-'' @ generateMockID rnd else wpr_WarmPoolID req);
          wp = \<lparr>wp_WarmPoolID = wid, wp_TemplateID = wpr_TemplateID req, wp_TargetSize = wpr_TargetSize req,
                wp_CurrentSize = 0, wp_Status = ''active'', wp_CreatedAt = now\<rparr>
      in (Inr wp, a\<lparr>m_warmPools := gm_set (m_warmPools a) wid wp\<rparr>))"

definition Mock_GetWarmPool :: "string \<Rightarrow> mock \<Rightarrow> WarmPool go_res" where
  "Mock_GetWarmPool warmPoolID a =
     (case gm_get (m_warmPools a) warmPoolID of
        None \<Rightarrow> Inl (warmPoolNotFound warmPoolID)
      | Some wp \<Rightarrow> Inr wp)"

definition Mock_DeleteWarmPool :: "string \<Rightarrow> mock \<Rightarrow> go_error option \<times> mock" where
  "Mock_DeleteWarmPool warmPoolID a =
     (if \<not> gm_has (m_warmPools a) warmPoolID then (Some (warmPoolNotFound warmPoolID), a)
      else (None, a\<lparr>m_warmPools := gm_del (m_warmPools a) warmPoolID\<rparr>))"

definition Mock_UpdateWarmPoolSize :: "string \<Rightarrow> int \<Rightarrow> mock \<Rightarrow> go_error option \<times> mock" where
  "Mock_UpdateWarmPoolSize warmPoolID targetSize a =
     (case gm_get (m_warmPools a) warmPoolID of
        None \<Rightarrow> (Some (warmPoolNotFound warmPoolID), a)
      | Some wp \<Rightarrow>
          (None, a\<lparr>m_warmPools := gm_set (m_warmPools a) warmPoolID (wp\<lparr>wp_TargetSize := targetSize\<rparr>)\<rparr>))"

section \<open>Processes, snapshots, ports, logs\<close>

definition Mock_ListProcesses :: "string \<Rightarrow> mock \<Rightarrow> (ProcessInfo list) go_res" where
  "Mock_ListProcesses sandboxID a =
     (if \<not> gm_has (m_sandboxes a) sandboxID then Inl (sandboxNotFound sandboxID)
      else Inr (gm_get_or [] (m_processes a) sandboxID))"

definition Mock_KillProcess :: "string \<Rightarrow> string \<Rightarrow> mock \<Rightarrow> go_error option \<times> mock" where
  "Mock_KillProcess sandboxID processID a =
     (if \<not> gm_has (m_sandboxes a) sandboxID then (Some (sandboxNotFound sandboxID), a)
      else let procs = gm_get_or [] (m_processes a) sandboxID
           in if \<exists>p \<in> set procs. pi_ProcessID p = processID
              then (None, a\<lparr>m_processes := gm_set (m_processes a) sandboxID
                              (remove_first (\<lambda>p. pi_ProcessID p = processID) procs)\<rparr>)
              else (Some (processNotFound processID), a))"

definition Mock_SendStdin :: "string \<Rightarrow> string \<Rightarrow> string \<Rightarrow> mock \<Rightarrow> go_error option" where
  "Mock_SendStdin sandboxID processID input a =
     (if \<not> gm_has (m_sandboxes a) sandboxID then Some (sandboxNotFound sandboxID)
      else if \<exists>p \<in> set (gm_get_or [] (m_processes a) sandboxID). pi_ProcessID p = processID then None
      else Some (processNotFound processID))"

definition Mock_CreateSnapshot :: "string \<Rightarrow> SnapshotRequest \<Rightarrow> string \<Rightarrow> time \<Rightarrow> mock \<Rightarrow> Snapshot go_res \<times> mock" where
  "Mock_CreateSnapshot sandboxID req rnd now a =
     (if \<not> gm_has (m_sandboxes a) sandboxID then (Inl (sandboxNotFound sandboxID), a)
      else let snap = \<lparr>sn_SnapshotID = ''snap-'' @ generateMockID rnd, sn_SandboxID = sandboxID,
                       sn_Name = sr_Name req, sn_Description = sr_Description req,
                       sn_CreatedAt = now, sn_SizeMB = 10\<rparr>
           in (Inr snap, a\<lparr>m_snapshots := gm_set (m_snapshots a) sandboxID
                             (gm_get_or [] (m_snapshots a) sandboxID @ [snap])\<rparr>))"

definition Mock_ListSnapshots :: "string \<Rightarrow> mock \<Rightarrow> (Snapshot list) go_res" where
  "Mock_ListSnapshots sandboxID a =
     (if \<not> gm_has (m_sandboxes a) sandboxID then Inl (sandboxNotFound sandboxID)
      else Inr (gm_get_or [] (m_snapshots a) sandboxID))"

definition Mock_ListPorts :: "string \<Rightarrow> mock \<Rightarrow> (PortInfo list) go_res" where
  "Mock_ListPorts sandboxID a =
     (if \<not> gm_has (m_sandboxes a) sandboxID then Inl (sandboxNotFound sandboxID)
      else Inr [\<lparr>po_Port = 3000, po_Ready = True\<rparr>, \<lparr>po_Port = 8080, po_Ready = True\<rparr>])"

definition Mock_GetPortURL :: "string \<Rightarrow> int \<Rightarrow> mock \<Rightarrow> string go_res" where
  "Mock_GetPortURL sandboxID port a =
     (if \<not> gm_has (m_sandboxes a) sandboxID then Inl (sandboxNotFound sandboxID)
      else Inr (''https://'' @ sandboxID @ ''-'' @ fmt_int port @ ''.mock.e2b.dev''))"

definition Mock_GetLogs :: "string \<Rightarrow> time \<Rightarrow> mock \<Rightarrow> (LogEntry list) go_res" where
  "Mock_GetLogs sandboxID now a =
     (if \<not> gm_has (m_sandboxes a) sandboxID then Inl (sandboxNotFound sandboxID)
      else Inr [\<lparr>le_Timestamp = now, le_Message = ''sandbox started'', le_Level = ''info'',
                 le_Source = ''system''\<rparr>])"

definition Mock_GetEnvdEndpoint :: "string \<Rightarrow> mock \<Rightarrow> (string \<times> string) go_res" where
  "Mock_GetEnvdEndpoint sandboxID a =
     (if \<not> gm_has (m_sandboxes a) sandboxID then Inl (sandboxNotFound sandboxID)
      else Inl (Errorf ''envd not available in mock adapter'' []))"

section \<open>Access tokens and environment\<close>

text \<open>
  \<open>nowGet\<close> and \<open>nowSet\<close> are the clock inside the cache's \<open>Get\<close> and \<open>Set\<close>, \<open>now\<close> the clock
  of the returned expiry, \<open>b\<close> the sixteen random bytes.
\<close>

definition Mock_GetAccessToken ::
  "string \<Rightarrow> string \<Rightarrow> time \<Rightarrow> time \<Rightarrow> time \<Rightarrow> mock \<Rightarrow> AccessToken go_res \<times> mock" where
  "Mock_GetAccessToken sandboxID b nowGet nowSet now a =
     (if \<not> gm_has (m_sandboxes a) sandboxID then (Inl (sandboxNotFound sandboxID), a)
      else case Cache_Get (m_tokenCache a) sandboxID nowGet of
             (Some tokenStr, c) \<Rightarrow>
               (Inr \<lparr>at_Token = tokenStr, at_ExpiresAt = now + hour\<rparr>, a\<lparr>m_tokenCache := c\<rparr>)
           | (None, c) \<Rightarrow>
               (let token = ''envd_'' @ sandboxID @ ''_'' @ hexEncode b
                in (Inr \<lparr>at_Token = token, at_ExpiresAt = now + hour\<rparr>,
                    a\<lparr>m_tokenCache := Cache_Set c sandboxID token nowSet\<rparr>)))"

definition Mock_ValidateAccessToken :: "string \<Rightarrow> string \<Rightarrow> time \<Rightarrow> mock \<Rightarrow> bool \<times> mock" where
  "Mock_ValidateAccessToken sandboxID token now a =
     (case Cache_Get (m_tokenCache a) sandboxID now of
        (None, c) \<Rightarrow> (False, a\<lparr>m_tokenCache := c\<rparr>)
      | (Some cachedToken, c) \<Rightarrow> (cachedToken = token, a\<lparr>m_tokenCache := c\<rparr>))"

definition Mock_SetEnvs :: "string \<Rightarrow> strmap \<Rightarrow> mock \<Rightarrow> go_error option \<times> mock" where
  "Mock_SetEnvs sandboxID envs a =
     (if \<not> gm_has (m_sandboxes a) sandboxID then (Some (sandboxNotFound sandboxID), a)
      else (None, a\<lparr>m_envStore := gm_set (m_envStore a) sandboxID
                      (gm_copy (gm_get_or [] (m_envStore a) sandboxID) envs)\<rparr>))"

definition Mock_StoredEnvs :: "string \<Rightarrow> mock \<Rightarrow> strmap option" where
  "Mock_StoredEnvs sandboxID a =
     (case gm_get (m_envStore a) sandboxID of
        None \<Rightarrow> None
      | Some envs \<Rightarrow> Some (gm_copy [] envs))"

section \<open>Histories\<close>

text \<open>
  The calls that can change the adapter, and the reachable states.  A read-only method
  is no step.
\<close>

datatype mockCall =
    CallCreate CreateSandboxRequest time time time
  | CallKill string
  | CallPause string
  | CallResume string
  | CallSetTimeout string duration time
  | CallWrite string FileWriteRequest
  | CallUpload string FileUploadRequest
  | CallCreateTemplate CreateTemplateRequest string time
  | CallDeleteTemplate string
  | CallTriggerBuild string BuildRequest string
  | CallCreateAlias string string
  | CallDeleteAlias string string
  | CallCreateTag string TagRequest time
  | CallDeleteTag string string
  | CallCreateWarmPool WarmPoolCreateRequest string time
  | CallDeleteWarmPool string
  | CallUpdateWarmPoolSize string int
  | CallKillProcess string string
  | CallCreateSnapshot string SnapshotRequest string time
  | CallGetAccessToken string string time time time
  | CallValidateAccessToken string string time
  | CallSetEnvs string strmap

fun mock_do :: "mockCall \<Rightarrow> mock \<Rightarrow> mock" where
  "mock_do (CallCreate req n1 n2 n3) a = snd (Mock_CreateSandbox req n1 n2 n3 a)"
| "mock_do (CallKill sid) a = snd (Mock_KillSandbox sid a)"
| "mock_do (CallPause sid) a = snd (Mock_PauseSandbox sid a)"
| "mock_do (CallResume sid) a = snd (Mock_ResumeSandbox sid a)"
| "mock_do (CallSetTimeout sid d n) a = snd (Mock_SetTimeout sid d n a)"
| "mock_do (CallWrite sid req) a = snd (Mock_WriteFile sid req a)"
| "mock_do (CallUpload sid req) a = snd (Mock_UploadFile sid req a)"
| "mock_do (CallCreateTemplate req rnd n) a = snd (Mock_CreateTemplate req rnd n a)"
| "mock_do (CallDeleteTemplate tid) a = snd (Mock_DeleteTemplate tid a)"
| "mock_do (CallTriggerBuild tid req rnd) a = snd (Mock_TriggerBuild tid req rnd a)"
| "mock_do (CallCreateAlias tid al) a = snd (Mock_CreateAlias tid al a)"
| "mock_do (CallDeleteAlias tid al) a = snd (Mock_DeleteAlias tid al a)"
| "mock_do (CallCreateTag tid req n) a = snd (Mock_CreateTag tid req n a)"
| "mock_do (CallDeleteTag tid tn) a = snd (Mock_DeleteTag tid tn a)"
| "mock_do (CallCreateWarmPool req rnd n) a = snd (Mock_CreateWarmPool req rnd n a)"
| "mock_do (CallDeleteWarmPool pid) a = snd (Mock_DeleteWarmPool pid a)"
| "mock_do (CallUpdateWarmPoolSize pid k) a = snd (Mock_UpdateWarmPoolSize pid k a)"
| "mock_do (CallKillProcess sid pid) a = snd (Mock_KillProcess sid pid a)"
| "mock_do (CallCreateSnapshot sid req rnd n) a = snd (Mock_CreateSnapshot sid req rnd n a)"
| "mock_do (CallGetAccessToken sid b n1 n2 n3) a = snd (Mock_GetAccessToken sid b n1 n2 n3 a)"
| "mock_do (CallValidateAccessToken sid tok n) a = snd (Mock_ValidateAccessToken sid tok n a)"
| "mock_do (CallSetEnvs sid envs) a = snd (Mock_SetEnvs sid envs a)"

inductive mock_reachable :: "mock \<Rightarrow> bool" where
  init: "mock_reachable (Mock_New (Some NewSandboxBackendMap) n1 n2)"
| step: "mock_reachable a \<Longrightarrow> mock_reachable (mock_do c a)"

text \<open>The calls that may change a file, and the call that ends a sandbox.\<close>

fun writes_file :: "string \<Rightarrow> string \<Rightarrow> mockCall \<Rightarrow> bool" where
  "writes_file sid p (CallWrite sid' req) = (sid' = sid \<and> fw_Path req = p)"
| "writes_file sid p (CallUpload sid' req) = (sid' = sid \<and> fu_Path req = p)"
| "writes_file sid p c = False"

lemmas mock_writer_defs = Mock_CreateSandbox_def Mock_KillSandbox_def Mock_PauseSandbox_def
  Mock_ResumeSandbox_def Mock_SetTimeout_def Mock_WriteFile_def Mock_UploadFile_def
  Mock_CreateTemplate_def Mock_DeleteTemplate_def Mock_TriggerBuild_def Mock_CreateAlias_def
  Mock_DeleteAlias_def Mock_CreateTag_def Mock_DeleteTag_def Mock_CreateWarmPool_def
  Mock_DeleteWarmPool_def Mock_UpdateWarmPoolSize_def Mock_KillProcess_def Mock_CreateSnapshot_def
  Mock_GetAccessToken_def Mock_ValidateAccessToken_def Mock_SetEnvs_def

text \<open>
  The invariant: the routing map names exactly the live sandboxes, all of them with this
  adapter; a sandbox is stored under its own id and a template under its own id; the
  token cache is well-formed and keeps the hour it was made with.
\<close>

definition routed :: "mock \<Rightarrow> bool" where
  "routed a \<longleftrightarrow>
     (\<exists>sbm. m_registry a = Some sbm \<and>
        (\<forall>sid. SandboxBackendMap_Get sbm sid = map_option sb_Backend (gm_get (m_sandboxes a) sid)))"

definition ids_match :: "mock \<Rightarrow> bool" where
  "ids_match a \<longleftrightarrow>
     (\<forall>sid s. gm_get (m_sandboxes a) sid = Some s \<longrightarrow> sb_SandboxID s = sid \<and> sb_Backend s = ''mock'') \<and>
     (\<forall>tid t. gm_get (m_templates a) tid = Some t \<longrightarrow> t_TemplateID t = tid)"

definition tokens_ok :: "mock \<Rightarrow> bool" where
  "tokens_ok a \<longleftrightarrow> cache_inv (m_tokenCache a) \<and> c_defaultTTL (m_tokenCache a) = hour"

lemma cache_Get_config [simp]:
  "c_defaultTTL (snd (Cache_Get c k t)) = c_defaultTTL c"
  by (auto simp: Cache_Get_def split: option.splits)

lemma Cache_Set_config [simp]: "c_defaultTTL (Cache_Set c k v t) = c_defaultTTL c"
  by (auto simp: Cache_Set_def Cache_SetWithTTL_def Let_def split: option.splits)

lemma Cache_Get_pair_inv:
  assumes "Cache_Get c k t = (r, c')" and "cache_inv c"
  shows "cache_inv c'" and "c_defaultTTL c' = c_defaultTTL c"
  using assms lru.inv_lookup [of c k t] cache_Get_config [of c k t] by simp_all

text \<open>A hit leaves the same value in the cache, for every later lookup that hits.\<close>

lemma lru_get_again:
  assumes "cache_inv c" and "Cache_Get c k t = (Some v, c')"
  shows "fst (Cache_Get c' k t) = Some v" and "fst (Cache_Get c' k t') = Some w \<Longrightarrow> w = v"
proof -
  have d: "distinct (map e_key (cache_abs c))" using assms(1) by (simp add: cache_inv_def cache_wf_def)
  have h: "fst (lru_get k t (cache_abs c)) = Some v" "cache_abs c' = snd (lru_get k t (cache_abs c))" "cache_inv c'"
    using Cache_Get_spec [OF assms(1), of k t] assms(2) by simp_all
  have "fst (lru_get k s (cache_abs c')) = Some w \<Longrightarrow> w = v" for s w
    using h(1,2) by (auto simp: lru_get_def split: option.splits if_splits dest!: find_SomeD)
  then show "fst (Cache_Get c' k t') = Some w \<Longrightarrow> w = v"
    using Cache_Get_spec [OF h(3), of k t'] by simp
  have "fst (lru_get k t (cache_abs c')) = Some v"
    using h(1,2) by (auto simp: lru_get_def split: option.splits if_splits dest!: find_SomeD)
  then show "fst (Cache_Get c' k t) = Some v"
    using Cache_Get_spec [OF h(3), of k t] by simp
qed

lemma routed_step: "routed a \<Longrightarrow> routed (mock_do c a)"
  by (cases c)
    (auto simp: routed_def mock_writer_defs Let_def sbm.get_put sbm.get_del
      split: option.splits sum.splits prod.splits if_splits)

lemma ids_match_step: "ids_match a \<Longrightarrow> ids_match (mock_do c a)"
  by (cases c)
    (auto simp: ids_match_def mock_writer_defs Let_def
      split: option.splits sum.splits prod.splits if_splits)

lemma tokens_ok_step: "tokens_ok a \<Longrightarrow> tokens_ok (mock_do c a)"
  by (cases c)
    (auto simp: tokens_ok_def mock_writer_defs Let_def lru.inv_store
      split: option.splits sum.splits prod.splits if_splits dest: Cache_Get_pair_inv)

lemma mock_new_inv:
  "routed (Mock_New (Some NewSandboxBackendMap) n1 n2)" "ids_match (Mock_New r n1 n2)"
  "tokens_ok (Mock_New r n1 n2)"
  using Cache_New_inv [of 10000 hour]
  by (auto simp: routed_def ids_match_def tokens_ok_def Mock_New_def sbm.get_emp Cache_New_def gm_get_def)

lemma mock_reachable_inv:
  "mock_reachable a \<Longrightarrow> routed a \<and> ids_match a \<and> tokens_ok a"
  by (induction rule: mock_reachable.induct)
    (simp_all add: mock_new_inv routed_step ids_match_step tokens_ok_step)

section \<open>Properties\<close>

text \<open>The routing map is exact. In every state that calls can reach from a new adapter, the
  shared map names exactly the sandboxes the adapter would return, each with this
  adapter as its backend and stored under its own id.\<close>

lemma mock_routing_exact:
  assumes "mock_reachable a"
  shows "\<exists>sbm. m_registry a = Some sbm \<and>
           (\<forall>sid. SandboxBackendMap_Get sbm sid =
              (case Mock_GetSandbox sid a of Inl err \<Rightarrow> None | Inr s \<Rightarrow> Some Mock_Name)) \<and>
           (\<forall>sid s. Mock_GetSandbox sid a = Inr s \<longrightarrow> sb_SandboxID s = sid \<and> sb_Backend s = Mock_Name)"
  using mock_reachable_inv [OF assms]
  by (fastforce simp: routed_def ids_match_def Mock_GetSandbox_def Mock_Name_def split: option.splits)

definition demo_create :: CreateSandboxRequest where
  "demo_create = \<lparr>csr_TemplateID = ''base'', csr_Timeout = 60, csr_Alias = [], csr_Envs = [(''A'', ''1'')], csr_Metadata = []\<rparr>"

definition demo_mock :: mock where
  "demo_mock = mock_do (CallCreate demo_create 1 2 3) (Mock_New (Some NewSandboxBackendMap) 0 0)"

lemma demo_mock_reachable: "mock_reachable demo_mock"
  unfolding demo_mock_def by (intro mock_reachable.intros)

lemma fmt_nat_small [simp]: "fmt_nat 1 = ''1''" "fmt_nat 2 = ''2''" "fmt_nat (Suc 0) = ''1''"
  by code_simp+

lemma demo_mock_live: "gm_has (m_sandboxes demo_mock) ''mock-1''"
  by (simp add: demo_mock_def Mock_CreateSandbox_def Mock_New_def demo_create_def Let_def gm_has_def NewSandboxBackendMap_def)

lemma mock_routing_exact_witness:
  "\<exists>sbm. m_registry demo_mock = Some sbm \<and>
     (\<forall>sid. SandboxBackendMap_Get sbm sid =
        (case Mock_GetSandbox sid demo_mock of Inl err \<Rightarrow> None | Inr s \<Rightarrow> Some Mock_Name))"
  using mock_routing_exact [OF demo_mock_reachable] by blast

subsection \<open>Files\<close>

lemma file_kept:
  assumes "gm_has (m_sandboxes a) sid" and "storedFile sid p a = Some content"
    and "c \<noteq> CallKill sid" and "\<not> writes_file sid p c"
  shows "gm_has (m_sandboxes (mock_do c a)) sid \<and> storedFile sid p (mock_do c a) = Some content"
  using assms
  by (cases c)
    (auto simp: mock_writer_defs Let_def gm_has_def storedFile_def gm_get_or_def
      split: option.splits sum.splits prod.splits if_splits)

lemma file_kept_run:
  assumes "gm_has (m_sandboxes a) sid" and "storedFile sid p a = Some content"
    and "\<forall>c \<in> set cs. c \<noteq> CallKill sid \<and> \<not> writes_file sid p c"
  shows "gm_has (m_sandboxes (fold mock_do cs a)) sid \<and> storedFile sid p (fold mock_do cs a) = Some content"
  using assms
proof (induction cs arbitrary: a)
  case (Cons c cs)
  then show ?case using file_kept [of a sid p content c] by simp
qed simp

text \<open>What was written is read back. After a successful write to a file of a sandbox, whatever
  other calls follow, on this and on other sandboxes, as long as none of them writes the
  same file or kills the sandbox, reading and downloading the file give the content.\<close>

lemma mock_file_read_back:
  assumes "Mock_WriteFile sid req a = (None, a')"
    and "\<forall>c \<in> set cs. c \<noteq> CallKill sid \<and> \<not> writes_file sid (fw_Path req) c"
  shows "Mock_ReadFile sid (fw_Path req) (fold mock_do cs a') =
           Inr \<lparr>fc_Path = fw_Path req, fc_Content = fw_Content req, fc_Size = int (length (fw_Content req))\<rparr> \<and>
         Mock_DownloadFile sid (fw_Path req) (fold mock_do cs a') = Inr (fw_Content req)"
proof -
  have "gm_has (m_sandboxes a') sid" "storedFile sid (fw_Path req) a' = Some (fw_Content req)"
    using assms(1) by (auto simp: Mock_WriteFile_def storedFile_def split: if_splits)
  from file_kept_run [OF this assms(2)] show ?thesis
    by (simp add: Mock_ReadFile_def Mock_DownloadFile_def)
qed

definition demo_write :: FileWriteRequest where
  "demo_write = \<lparr>fw_Path = ''/a'', fw_Content = ''hello'', fw_Owner = []\<rparr>"

lemma mock_file_read_back_witness:
  "Mock_DownloadFile ''mock-1'' (fw_Path demo_write)
     (fold mock_do [CallPause ''mock-1'', CallWrite ''mock-1'' (demo_write\<lparr>fw_Path := ''/b''\<rparr>), CallKill ''mock-2'']
        (snd (Mock_WriteFile ''mock-1'' demo_write demo_mock))) = Inr (fw_Content demo_write)"
  by (rule mock_file_read_back [THEN conjunct2])
    (use demo_mock_live in \<open>auto simp: Mock_WriteFile_def demo_write_def\<close>)

subsection \<open>Access tokens\<close>

lemma token_lifetime:
  assumes "mock_reachable a" and "Mock_GetAccessToken sid b nowGet nowSet now a = (Inr tk, a')"
    and "nowGet \<le> nowSet"
  shows "(fst (Mock_ValidateAccessToken sid token t a') \<longrightarrow> token = at_Token tk) \<and>
         fst (Mock_ValidateAccessToken sid (at_Token tk) nowGet a') \<and>
         (fst (Cache_Get (m_tokenCache a) sid nowGet) = None \<longrightarrow>
            fst (Mock_ValidateAccessToken sid (at_Token tk) t a') = (t \<le> nowSet + hour))"
proof -
  have inv: "cache_inv (m_tokenCache a)" and ttl: "c_defaultTTL (m_tokenCache a) = hour"
    using mock_reachable_inv [OF assms(1)] by (simp_all add: tokens_ok_def)
  have val: "fst (Mock_ValidateAccessToken sid tok t a') = (fst (Cache_Get (m_tokenCache a') sid t) = Some tok)" for tok t
    by (auto simp: Mock_ValidateAccessToken_def split: option.splits prod.splits)
  obtain r c where g: "Cache_Get (m_tokenCache a) sid nowGet = (r, c)" by fastforce
  from assms(2,3) g Cache_Get_pair_inv [OF g inv] ttl lru_get_again [OF inv, of sid nowGet _ c]
  show ?thesis
    by (auto simp: val Mock_GetAccessToken_def Let_def lru.lookup_store split: if_splits option.splits)
qed

text \<open>Access tokens. The token a sandbox is given is the only one that validates for it, at any
  time; it validates at once, and a newly made one validates for exactly the hour of the
  token cache.\<close>

lemma mock_access_token:
  assumes "mock_reachable a" and "Mock_GetAccessToken sid b nowGet nowSet now a = (Inr tk, a')"
    and "nowGet \<le> nowSet"
  shows "(fst (Mock_ValidateAccessToken sid token t a') \<longrightarrow> token = at_Token tk) \<and>
         fst (Mock_ValidateAccessToken sid (at_Token tk) nowGet a') \<and>
         (fst (Cache_Get (m_tokenCache a) sid nowGet) = None \<longrightarrow>
            fst (Mock_ValidateAccessToken sid (at_Token tk) t a') = (t \<le> nowSet + hour))"
  using assms by (rule token_lifetime)

definition demo_token :: string where
  "demo_token = at_Token (projr (fst (Mock_GetAccessToken ''mock-1'' ''r'' 10 20 30 demo_mock)))"

lemma demo_token_given:
  "Mock_GetAccessToken ''mock-1'' ''r'' 10 20 30 demo_mock =
     (Inr \<lparr>at_Token = demo_token, at_ExpiresAt = 30 + hour\<rparr>,
      snd (Mock_GetAccessToken ''mock-1'' ''r'' 10 20 30 demo_mock))"
  using demo_mock_live
  by (auto simp: demo_token_def Mock_GetAccessToken_def Let_def split: option.splits prod.splits)

lemma demo_no_token: "m_tokenCache demo_mock = Cache_New 10000 hour"
  by (simp add: demo_mock_def Mock_CreateSandbox_def Mock_New_def demo_create_def Let_def NewSandboxBackendMap_def)

lemma mock_access_token_witness:
  "fst (Mock_ValidateAccessToken ''mock-1'' demo_token (20 + hour)
     (snd (Mock_GetAccessToken ''mock-1'' ''r'' 10 20 30 demo_mock)))"
  using mock_access_token [OF demo_mock_reachable demo_token_given, of _ "20 + hour"]
  by (simp add: demo_no_token Cache_Get_def Cache_New_def)

section \<open>Behaviours worth knowing\<close>

text \<open>The expiry of a token that comes from the cache is an hour from the call, but the
  token stops validating an hour after it was made: asked for again half an hour later,
  the caller is told an expiry at which the token is no longer accepted.\<close>

lemma mock_token_expiry_overstated:
  "let a1 = snd (Mock_GetAccessToken ''mock-1'' ''r'' 0 0 0 demo_mock);
       (r, a2) = Mock_GetAccessToken ''mock-1'' ''r'' (30 * minute) (30 * minute) (30 * minute) a1
   in r = Inr \<lparr>at_Token = ''envd_mock-1_72'', at_ExpiresAt = 90 * minute\<rparr> \<and>
      \<not> fst (Mock_ValidateAccessToken ''mock-1'' ''envd_mock-1_72'' (61 * minute) a2)"
  by code_simp

text \<open>Ids are the number of live sandboxes plus one, so an id is given out again while it is
  still in use: with two sandboxes, killing the first and creating another one replaces
  the second, which is lost.\<close>

lemma mock_id_reused:
  "let a = fold mock_do [CallCreate demo_create 1 2 3, CallKill ''mock-1''] demo_mock;
       (r, a') = Mock_CreateSandbox demo_create 7 8 9 a
   in gm_has (m_sandboxes a) ''mock-2'' \<and>
      map_sum id sb_SandboxID r = Inr ''mock-2'' \<and> gm_len (m_sandboxes a') = 1"
  by code_simp

text \<open>Killing a sandbox leaves its files behind: the next sandbox with that id can read
  them.\<close>

lemma mock_files_survive_kill:
  "Mock_DownloadFile ''mock-1'' ''/a''
     (fold mock_do [CallWrite ''mock-1'' demo_write, CallKill ''mock-1'', CallCreate demo_create 1 2 3] demo_mock) =
   Inr ''hello''"
  by code_simp

end
