(* ===== verification/E2B_DTO.thy ===== *)
theory E2B_DTO
  imports Adapter_Types
begin

text \<open>
  The wire types of the E2B API (\<open>internal/api/dto/e2b.go\<close>) that the control-plane handlers
  read and write.  A type whose name also names a type of the adapter contract has the
  prefix \<open>dto_\<close>.  The JSON tags are not modelled: the body of a request is the result of
  decoding it, the body of a response the value that is encoded.
\<close>

record VolumeMount =
  vm_Name :: string
  vm_Path :: string

record SandboxCreateRequest =
  dcr_TemplateID :: string
  dcr_Alias :: string
  dcr_Timeout :: int
  dcr_MemoryMB :: int
  dcr_CPUCount :: int
  dcr_DiskSizeMB :: int
  dcr_StartCmd :: string
  dcr_EnvVars :: strmap
  dcr_Metadata :: strmap
  dcr_Secure :: bool
  dcr_VolumeMounts :: "VolumeMount list"

record SandboxCreateResponse =
  dcs_SandboxID :: string
  dcs_TemplateID :: string
  dcs_Alias :: string
  dcs_ClientID :: string
  dcs_EnvdVersion :: string
  dcs_EnvdAccessToken :: string
  dcs_SandboxDomain :: string
  dcs_TrafficAccessToken :: string

record SandboxInfo =
  si_SandboxID :: string
  si_TemplateID :: string
  si_Alias :: string
  si_ClientID :: string
  si_StartedAt :: time
  si_EndAt :: time
  si_CPUCount :: int
  si_MemoryMB :: int
  si_DiskSizeMB :: int
  si_State :: string
  si_EnvdVersion :: string
  si_Metadata :: strmap
  si_VolumeMounts :: "VolumeMount list"

record SandboxTimeoutRequest =
  str_Timeout :: int

record CodeExecRequest =
  dce_Code :: string
  dce_Language :: string
  dce_EnvVars :: strmap

record CodeExecResult =
  dcx_Stdout :: string
  dcx_Stderr :: string
  dcx_ExitCode :: int
  dcx_Error :: string

record dto_CommandRequest =
  dcq_Command :: string
  dcq_Cwd :: string
  dcq_EnvVars :: strmap
  dcq_Timeout :: int

record dto_CommandResult =
  dcm_Stdout :: string
  dcm_Stderr :: string
  dcm_ExitCode :: int
  dcm_ProcessID :: string

record dto_FileWriteRequest =
  dfw_Path :: string
  dfw_Content :: string
  dfw_Permissions :: string

record FileListRequest =
  flq_Path :: string

record FileEntry =
  fe_Name :: string
  fe_Type :: string
  fe_Size :: int
  fe_LastModified :: time

record FileListResponse =
  fls_Entries :: "FileEntry list"

record FileRemoveRequest =
  frm_Path :: string

record MakeDirRequest =
  mkd_Path :: string

record TemplateInfo =
  ti_TemplateID :: string
  ti_Aliases :: "string list"
  ti_BuildID :: string
  ti_CPUCount :: int
  ti_MemoryMB :: int
  ti_Public :: bool
  ti_Ready :: bool
  ti_CreatedAt :: time
  ti_StartedAt :: time

record BuildStep =
  bst_Type :: string
  bst_Command :: string
  bst_Path :: string
  bst_Content :: string

record TemplateBuildRequest =
  tbq_Name :: string
  tbq_Dockerfile :: string
  tbq_StartCmd :: string
  tbq_CPUCount :: int
  tbq_MemoryMB :: int
  tbq_Steps :: "BuildStep list"

record TemplateBuildResponse =
  tbs_TemplateID :: string
  tbs_BuildID :: string
  tbs_Status :: string

record ErrorResponse =
  er_Code :: int
  er_Message :: string

record SetEnvsRequest =
  sev_Envs :: strmap

record dto_LogEntry =
  dle_Timestamp :: time
  dle_Message :: string
  dle_Level :: string
  dle_Source :: string

record SandboxLogsResponse =
  slr_Logs :: "dto_LogEntry list"

record SandboxMetrics =
  sme_CPUUsage :: rat
  sme_MemoryUsage :: int
  sme_DiskUsage :: int
  sme_NetworkRx :: int
  sme_NetworkTx :: int
  sme_Timestamp :: time

record MoveFileRequest =
  mvf_Source :: string
  mvf_Destination :: string

record TagInfo =
  tgi_Name :: string
  tgi_TemplateID :: string
  tgi_BuildID :: string
  tgi_CreatedAt :: time

record CreateTagRequest =
  ctg_Name :: string
  ctg_BuildID :: string

record UpdateTemplateRequest =
  utr_Name :: string
  utr_Public :: "bool option"
  utr_CPUCount :: "int option"
  utr_MemoryMB :: "int option"

record V2SandboxListResponse =
  v2s_Sandboxes :: "SandboxInfo list"
  v2s_NextToken :: string

record V2TemplateInfo =
  v2t_TemplateID :: string
  v2t_BuildID :: string
  v2t_Aliases :: "string list"
  v2t_Tags :: "TagInfo list"
  v2t_CPUCount :: int
  v2t_MemoryMB :: int
  v2t_Public :: bool
  v2t_Ready :: bool
  v2t_CreatedAt :: time

record V2TemplateCreateRequest =
  v2c_Name :: string
  v2c_Dockerfile :: string
  v2c_StartCmd :: string
  v2c_CPUCount :: int
  v2c_MemoryMB :: int
  v2c_Steps :: "BuildStep list"
  v2c_Tags :: "string list"

end
