(* ===== verification/Adapter_Interface.thy ===== *)
theory Adapter_Interface
  imports Adapter_Types
begin

text \<open>
  The \<open>SandboxAdapter\<close> interface of \<open>internal/adapter/interface.go\<close> as a record of methods
  over a world \<open>'w\<close>: everything the backends keep, the network included, the clock and
  the random source.  A method returns its result with the world it leaves.

  \<open>backends\<close> is the registry the handlers see.  Its adapters are fixed once the server
  has started; its map from sandboxes to backends is written by the adapters and so is
  part of the world (\<open>None\<close> when the registry has none).

  The handlers look for a sandbox by asking one adapter after the other.  The loops they
  use for that, the lookup through the map (\<open>internal/api/v1/resolve.go\<close>) and the
  contract an adapter has to keep for such a search to be right are here.
\<close>

section \<open>The interface\<close>

text \<open>
  The reader a download returns: the bytes it gives, and the error it ends with, if any.
  An upload consumes its reader: beside the error it returns what reading the same reader
  once more would give.
\<close>

type_synonym reader = "string \<times> go_error option"

record 'w SandboxAdapter =
  ad_Name :: string
  ad_HealthCheck :: "'w \<Rightarrow> go_error option \<times> 'w"
  ad_CreateSandbox :: "CreateSandboxRequest \<Rightarrow> 'w \<Rightarrow> Sandbox go_res \<times> 'w"
  ad_ListSandboxes :: "ListOptions \<Rightarrow> 'w \<Rightarrow> (Sandbox list) go_res \<times> 'w"
  ad_GetSandbox :: "string \<Rightarrow> 'w \<Rightarrow> Sandbox go_res \<times> 'w"
  ad_KillSandbox :: "string \<Rightarrow> 'w \<Rightarrow> go_error option \<times> 'w"
  ad_PauseSandbox :: "string \<Rightarrow> 'w \<Rightarrow> go_error option \<times> 'w"
  ad_ResumeSandbox :: "string \<Rightarrow> 'w \<Rightarrow> Sandbox go_res \<times> 'w"
  ad_SetTimeout :: "string \<Rightarrow> duration \<Rightarrow> 'w \<Rightarrow> go_error option \<times> 'w"
  ad_ExecuteCode :: "string \<Rightarrow> CodeExecutionRequest \<Rightarrow> 'w \<Rightarrow> CodeExecutionResult go_res \<times> 'w"
  ad_RunCommand :: "string \<Rightarrow> CommandRequest \<Rightarrow> 'w \<Rightarrow> CommandResult go_res \<times> 'w"
  ad_WriteFile :: "string \<Rightarrow> FileWriteRequest \<Rightarrow> 'w \<Rightarrow> go_error option \<times> 'w"
  ad_ReadFile :: "string \<Rightarrow> string \<Rightarrow> 'w \<Rightarrow> FileContent go_res \<times> 'w"
  ad_UploadFile :: "string \<Rightarrow> FileUploadRequest \<Rightarrow> 'w \<Rightarrow> (go_error option \<times> string go_res) \<times> 'w"
  ad_DownloadFile :: "string \<Rightarrow> string \<Rightarrow> 'w \<Rightarrow> reader go_res \<times> 'w"
  ad_ListFiles :: "string \<Rightarrow> string \<Rightarrow> 'w \<Rightarrow> (FileInfo list) go_res \<times> 'w"
  ad_MakeDir :: "string \<Rightarrow> string \<Rightarrow> 'w \<Rightarrow> go_error option \<times> 'w"
  ad_RemoveFile :: "string \<Rightarrow> string \<Rightarrow> 'w \<Rightarrow> go_error option \<times> 'w"
  ad_ListTemplates :: "ListOptions \<Rightarrow> 'w \<Rightarrow> (Template list) go_res \<times> 'w"
  ad_GetTemplate :: "string \<Rightarrow> 'w \<Rightarrow> Template go_res \<times> 'w"
  ad_CreateTemplate :: "CreateTemplateRequest \<Rightarrow> 'w \<Rightarrow> TemplateBuild go_res \<times> 'w"
  ad_DeleteTemplate :: "string \<Rightarrow> 'w \<Rightarrow> go_error option \<times> 'w"
  ad_TriggerBuild :: "string \<Rightarrow> BuildRequest \<Rightarrow> 'w \<Rightarrow> TemplateBuild go_res \<times> 'w"
  ad_GetBuildStatus :: "string \<Rightarrow> string \<Rightarrow> 'w \<Rightarrow> BuildStatus go_res \<times> 'w"
  ad_CreateAlias :: "string \<Rightarrow> string \<Rightarrow> 'w \<Rightarrow> go_error option \<times> 'w"
  ad_DeleteAlias :: "string \<Rightarrow> string \<Rightarrow> 'w \<Rightarrow> go_error option \<times> 'w"
  ad_ListWarmPools :: "'w \<Rightarrow> (WarmPool list) go_res \<times> 'w"
  ad_CreateWarmPool :: "WarmPoolCreateRequest \<Rightarrow> 'w \<Rightarrow> WarmPool go_res \<times> 'w"
  ad_GetWarmPool :: "string \<Rightarrow> 'w \<Rightarrow> WarmPool go_res \<times> 'w"
  ad_DeleteWarmPool :: "string \<Rightarrow> 'w \<Rightarrow> go_error option \<times> 'w"
  ad_UpdateWarmPoolSize :: "string \<Rightarrow> int \<Rightarrow> 'w \<Rightarrow> go_error option \<times> 'w"
  ad_ListProcesses :: "string \<Rightarrow> 'w \<Rightarrow> (ProcessInfo list) go_res \<times> 'w"
  ad_KillProcess :: "string \<Rightarrow> string \<Rightarrow> 'w \<Rightarrow> go_error option \<times> 'w"
  ad_SendStdin :: "string \<Rightarrow> string \<Rightarrow> string \<Rightarrow> 'w \<Rightarrow> go_error option \<times> 'w"
  ad_CreateSnapshot :: "string \<Rightarrow> SnapshotRequest \<Rightarrow> 'w \<Rightarrow> Snapshot go_res \<times> 'w"
  ad_ListSnapshots :: "string \<Rightarrow> 'w \<Rightarrow> (Snapshot list) go_res \<times> 'w"
  ad_ListPorts :: "string \<Rightarrow> 'w \<Rightarrow> (PortInfo list) go_res \<times> 'w"
  ad_GetPortURL :: "string \<Rightarrow> int \<Rightarrow> 'w \<Rightarrow> string go_res \<times> 'w"
  ad_GetAccessToken :: "string \<Rightarrow> 'w \<Rightarrow> AccessToken go_res \<times> 'w"
  ad_ValidateAccessToken :: "string \<Rightarrow> string \<Rightarrow> 'w \<Rightarrow> bool go_res \<times> 'w"
  ad_SetEnvs :: "string \<Rightarrow> strmap \<Rightarrow> 'w \<Rightarrow> go_error option \<times> 'w"
  ad_GetLogs :: "string \<Rightarrow> 'w \<Rightarrow> (LogEntry list) go_res \<times> 'w"
  ad_MoveFile :: "string \<Rightarrow> string \<Rightarrow> string \<Rightarrow> 'w \<Rightarrow> go_error option \<times> 'w"
  ad_CreateTag :: "string \<Rightarrow> TagRequest \<Rightarrow> 'w \<Rightarrow> Tag go_res \<times> 'w"
  ad_ListTags :: "string \<Rightarrow> 'w \<Rightarrow> (Tag list) go_res \<times> 'w"
  ad_DeleteTag :: "string \<Rightarrow> string \<Rightarrow> 'w \<Rightarrow> go_error option \<times> 'w"
  ad_GetEnvdEndpoint :: "string \<Rightarrow> 'w \<Rightarrow> (string \<times> string) go_res \<times> 'w"

record 'w backends =
  bk_adapters :: "(string, 'w SandboxAdapter) gomap"
  bk_sandboxBackend :: "'w \<Rightarrow> SandboxBackendMap option"

definition regOf :: "'w backends \<Rightarrow> 'w \<Rightarrow> 'w SandboxAdapter registry" where
  "regOf be w =
     \<lparr>r_adapters = bk_adapters be,
      r_sandboxBackend = (case bk_sandboxBackend be w of None \<Rightarrow> NewSandboxBackendMap | Some m \<Rightarrow> m)\<rparr>"

section \<open>Search loops\<close>

text \<open>The loop of most handlers: ask one adapter after the other, stop at the first one that
  answers without an error.  The world goes through every call that was made.\<close>

fun firstSuccess :: "('a \<Rightarrow> 'w \<Rightarrow> 'x go_res \<times> 'w) \<Rightarrow> 'a list \<Rightarrow> 'w \<Rightarrow> 'x option \<times> 'w" where
  "firstSuccess call [] w = (None, w)"
| "firstSuccess call (a # as) w =
     (case call a w of
        (Inr x, w') \<Rightarrow> (Some x, w')
      | (Inl err, w') \<Rightarrow> firstSuccess call as w')"

text \<open>The loop of the listing handlers: errors are skipped, results are appended.\<close>

fun collectAll :: "('a \<Rightarrow> 'w \<Rightarrow> ('x list) go_res \<times> 'w) \<Rightarrow> 'a list \<Rightarrow> 'w \<Rightarrow> 'x list \<times> 'w" where
  "collectAll call [] w = ([], w)"
| "collectAll call (a # as) w =
     (case call a w of
        (Inl err, w') \<Rightarrow> collectAll call as w'
      | (Inr xs, w') \<Rightarrow> (case collectAll call as w' of (ys, w'') \<Rightarrow> (xs @ ys, w'')))"

text \<open>The loop of the upload handler: all attempts share one reader.\<close>

fun uploadLoop :: "'w SandboxAdapter list \<Rightarrow> string \<Rightarrow> FileUploadRequest \<Rightarrow> 'w \<Rightarrow> unit option \<times> 'w" where
  "uploadLoop [] sandboxID req w = (None, w)"
| "uploadLoop (a # as) sandboxID req w =
     (case ad_UploadFile a sandboxID req w of
        ((None, rd), w') \<Rightarrow> (Some (), w')
      | ((Some err, rd), w') \<Rightarrow> uploadLoop as sandboxID (req\<lparr>fu_Reader := rd\<rparr>) w')"

text \<open>A method that only returns an error, as a result.\<close>

definition errRes :: "go_error option \<times> 'w \<Rightarrow> unit go_res \<times> 'w" where
  "errRes r = (case r of (None, w) \<Rightarrow> (Inr (), w) | (Some err, w) \<Rightarrow> (Inl err, w))"

definition sbmLookup :: "'w backends \<Rightarrow> string \<Rightarrow> 'w \<Rightarrow> 'w SandboxAdapter option" where
  "sbmLookup be sandboxID w =
     (case bk_sandboxBackend be w of
        None \<Rightarrow> None
      | Some m \<Rightarrow>
          (case SandboxBackendMap_Get m sandboxID of
             None \<Rightarrow> None
           | Some backendName \<Rightarrow> Registry_Get (regOf be w) backendName))"

definition resolveAdapterForSandbox ::
  "'w backends \<Rightarrow> string list \<Rightarrow> string \<Rightarrow> 'w \<Rightarrow> 'w SandboxAdapter go_res \<times> 'w" where
  "resolveAdapterForSandbox be ord sandboxID w =
     (case sbmLookup be sandboxID w of
        Some a \<Rightarrow> (Inr a, w)
      | None \<Rightarrow>
          (case firstSuccess (\<lambda>a w. apfst (map_sum id (\<lambda>_. a)) (ad_GetSandbox a sandboxID w))
                  (Registry_List (regOf be w) ord) w of
             (Some a, w') \<Rightarrow> (Inr a, w')
           | (None, w') \<Rightarrow> (Inl (Errorf ''sandbox %q not found'' [sandboxID]), w')))"

section \<open>The contract\<close>

text \<open>
  The calls about one sandbox, and whether a call failed.  What an adapter owes its
  clients is stated once for all of them.
\<close>

datatype sandboxOp =
    SbGet | SbKill | SbPause | SbResume | SbSetTimeout duration
  | SbExecuteCode CodeExecutionRequest | SbRunCommand CommandRequest
  | SbWriteFile FileWriteRequest | SbReadFile string | SbUploadFile FileUploadRequest
  | SbDownloadFile string | SbListFiles string | SbMakeDir string | SbRemoveFile string
  | SbListProcesses | SbKillProcess string | SbSendStdin string string
  | SbCreateSnapshot SnapshotRequest | SbListSnapshots | SbListPorts | SbGetPortURL int
  | SbGetAccessToken | SbSetEnvs strmap | SbGetLogs | SbMoveFile string string

definition failed :: "'x go_res \<times> 'w \<Rightarrow> bool \<times> 'w" where
  "failed = apfst isl"

fun callOp :: "'w SandboxAdapter \<Rightarrow> string \<Rightarrow> sandboxOp \<Rightarrow> 'w \<Rightarrow> bool \<times> 'w" where
  "callOp a sid SbGet w = failed (ad_GetSandbox a sid w)"
| "callOp a sid SbKill w = failed (errRes (ad_KillSandbox a sid w))"
| "callOp a sid SbPause w = failed (errRes (ad_PauseSandbox a sid w))"
| "callOp a sid SbResume w = failed (ad_ResumeSandbox a sid w)"
| "callOp a sid (SbSetTimeout d) w = failed (errRes (ad_SetTimeout a sid d w))"
| "callOp a sid (SbExecuteCode req) w = failed (ad_ExecuteCode a sid req w)"
| "callOp a sid (SbRunCommand creq) w = failed (ad_RunCommand a sid creq w)"
| "callOp a sid (SbWriteFile wreq) w = failed (errRes (ad_WriteFile a sid wreq w))"
| "callOp a sid (SbReadFile p) w = failed (ad_ReadFile a sid p w)"
| "callOp a sid (SbUploadFile ureq) w = failed (errRes (apfst fst (ad_UploadFile a sid ureq w)))"
| "callOp a sid (SbDownloadFile p) w = failed (ad_DownloadFile a sid p w)"
| "callOp a sid (SbListFiles p) w = failed (ad_ListFiles a sid p w)"
| "callOp a sid (SbMakeDir p) w = failed (errRes (ad_MakeDir a sid p w))"
| "callOp a sid (SbRemoveFile p) w = failed (errRes (ad_RemoveFile a sid p w))"
| "callOp a sid SbListProcesses w = failed (ad_ListProcesses a sid w)"
| "callOp a sid (SbKillProcess pid) w = failed (errRes (ad_KillProcess a sid pid w))"
| "callOp a sid (SbSendStdin pid d) w = failed (errRes (ad_SendStdin a sid pid d w))"
| "callOp a sid (SbCreateSnapshot sreq) w = failed (ad_CreateSnapshot a sid sreq w)"
| "callOp a sid SbListSnapshots w = failed (ad_ListSnapshots a sid w)"
| "callOp a sid SbListPorts w = failed (ad_ListPorts a sid w)"
| "callOp a sid (SbGetPortURL n) w = failed (ad_GetPortURL a sid n w)"
| "callOp a sid SbGetAccessToken w = failed (ad_GetAccessToken a sid w)"
| "callOp a sid (SbSetEnvs envs) w = failed (errRes (ad_SetEnvs a sid envs w))"
| "callOp a sid SbGetLogs w = failed (ad_GetLogs a sid w)"
| "callOp a sid (SbMoveFile src dst) w = failed (errRes (ad_MoveFile a sid src dst w))"

text \<open>
  A set of backends in which every sandbox has at most one owner.  An adapter that does
  not own a sandbox fails every call about it and changes nothing; a call of the owner
  that fails does not take the sandbox away; the owner knows its sandboxes; and the
  map from sandboxes to backends never names an adapter that is not the owner.
\<close>

locale owned_backends =
  fixes be :: "'w backends"
    and ok :: "'w \<Rightarrow> bool"
    and owner :: "'w \<Rightarrow> string \<Rightarrow> string option"
  assumes adapters_wf: "gm_wf (bk_adapters be)"
    and owner_registered: "ok w \<Longrightarrow> owner w sid = Some n \<Longrightarrow> \<exists>a. gm_get (bk_adapters be) n = Some a"
    and foreign: "ok w \<Longrightarrow> gm_get (bk_adapters be) n = Some a \<Longrightarrow> owner w sid \<noteq> Some n \<Longrightarrow>
      callOp a sid opn w = (True, w)"
    and foreign_reader: "ok w \<Longrightarrow> gm_get (bk_adapters be) n = Some a \<Longrightarrow> owner w sid \<noteq> Some n \<Longrightarrow>
      snd (fst (ad_UploadFile a sid req w)) = fu_Reader req"
    and failed_keeps: "ok w \<Longrightarrow> gm_get (bk_adapters be) n = Some a \<Longrightarrow> owner w sid = Some n \<Longrightarrow>
      callOp a sid opn w = (True, w') \<Longrightarrow> ok w' \<and> owner w' sid = Some n"
    and owner_knows: "ok w \<Longrightarrow> gm_get (bk_adapters be) n = Some a \<Longrightarrow> owner w sid = Some n \<Longrightarrow>
      callOp a sid SbGet w = (False, w)"
    and map_sound: "ok w \<Longrightarrow> bk_sandboxBackend be w = Some m \<Longrightarrow> SandboxBackendMap_Get m sid = Some n \<Longrightarrow>
      gm_get (bk_adapters be) n \<noteq> None \<Longrightarrow> owner w sid = Some n"
begin

definition owning :: "'w \<Rightarrow> string \<Rightarrow> 'w SandboxAdapter option" where
  "owning w sid = Option.bind (owner w sid) (gm_get (bk_adapters be))"

lemma owning_Some: "ok w \<Longrightarrow> owner w sid = Some n \<Longrightarrow> gm_get (bk_adapters be) n = Some a \<Longrightarrow> owning w sid = Some a"
  by (simp add: owning_def)

text \<open>An adapter list that does not hold the owner: every call fails, nothing changes.\<close>

lemma firstSuccess_foreign:
  assumes "ok w" and "\<And>a. failed (call a w) = callOp a sid opn w"
    and "\<forall>(n, a) \<in> set xs. gm_get (bk_adapters be) n = Some a \<and> owner w sid \<noteq> Some n"
  shows "firstSuccess call (map snd xs @ ys) w = firstSuccess call ys w"
  using assms(3)
proof (induction xs)
  case (Cons x xs)
  obtain n a where x: "x = (n, a)" by fastforce
  with Cons.prems have "failed (call a w) = (True, w)" using foreign [OF assms(1)] assms(2) by auto
  then obtain err where "call a w = (Inl err, w)"
    by (cases "call a w"; cases "fst (call a w)") (auto simp: failed_def)
  with Cons x show ?case by simp
qed simp

lemma uploadLoop_foreign:
  assumes "ok w" and "\<forall>(n, a) \<in> set xs. gm_get (bk_adapters be) n = Some a \<and> owner w sid \<noteq> Some n"
  shows "uploadLoop (map snd xs @ ys) sid req w = uploadLoop ys sid req w"
  using assms(2)
proof (induction xs)
  case (Cons x xs)
  obtain n a where x: "x = (n, a)" by fastforce
  with Cons.prems have a: "gm_get (bk_adapters be) n = Some a" "owner w sid \<noteq> Some n" by auto
  from foreign [OF assms(1) a, of "SbUploadFile req"] foreign_reader [OF assms(1) a, of req]
  obtain err where "ad_UploadFile a sid req w = ((Some err, fu_Reader req), w)"
    by (cases "ad_UploadFile a sid req w") (auto simp: failed_def errRes_def split: option.splits)
  with Cons x show ?case by simp
qed simp

text \<open>The visited adapters around the owner are foreign.\<close>

lemma owner_split:
  assumes "gm_order (bk_adapters be) ord" and "owning w sid = Some a"
  obtains us n vs where "gm_range (bk_adapters be) ord = us @ (n, a) # vs"
    and "owner w sid = Some n" and "gm_get (bk_adapters be) n = Some a"
    and "\<forall>(k, b) \<in> set us. gm_get (bk_adapters be) k = Some b \<and> owner w sid \<noteq> Some k"
    and "\<forall>(k, b) \<in> set vs. gm_get (bk_adapters be) k = Some b \<and> Some n \<noteq> Some k"
proof -
  let ?xs = "gm_range (bk_adapters be) ord"
  obtain n where n: "owner w sid = Some n" "gm_get (bk_adapters be) n = Some a"
    using assms(2) by (auto simp: owning_def bind_eq_Some_conv)
  then have "(n, a) \<in> set ?xs" using gm_range_complete [OF assms(1)] by blast
  then obtain us vs where sp: "?xs = us @ (n, a) # vs" by (meson split_list)
  have reg: "\<forall>(k, b) \<in> set ?xs. gm_get (bk_adapters be) k = Some b"
    by (auto simp: gm_range_mem)
  have "distinct (map fst ?xs)" using gm_range_keys [OF assms(1)] assms(1) by (simp add: gm_order_def)
  then have "\<forall>(k, b) \<in> set us. gm_get (bk_adapters be) k = Some b \<and> owner w sid \<noteq> Some k"
    and "\<forall>(k, b) \<in> set vs. gm_get (bk_adapters be) k = Some b \<and> Some n \<noteq> Some k"
    using reg n(1) unfolding sp by (auto simp: rev_image_eqI image_iff)
  with sp n that show thesis by blast
qed

lemma none_owning:
  "owning w sid = None \<Longrightarrow>
   \<forall>(k, b) \<in> set (gm_range (bk_adapters be) ord). gm_get (bk_adapters be) k = Some b \<and> owner w sid \<noteq> Some k"
  by (auto simp: owning_def gm_range_mem)

lemma Registry_List_range: "Registry_List (regOf be w) ord = map snd (gm_range (bk_adapters be) ord)"
  by (simp add: Registry_List_def regOf_def)

text \<open>The search finds the owner, whatever the order of the adapters.\<close>

lemma firstSuccess_owner:
  assumes ok: "ok w" and call: "\<And>a w. failed (call a w) = callOp a sid opn w"
    and ord: "gm_order (bk_adapters be) ord"
  shows "firstSuccess call (Registry_List (regOf be w0) ord) w =
         (case owning w sid of
            None \<Rightarrow> (None, w)
          | Some a \<Rightarrow> apfst (case_sum (\<lambda>_. None) Some) (call a w))"
proof (cases "owning w sid")
  case None
  with firstSuccess_foreign [of w call sid opn "gm_range (bk_adapters be) ord" "[]", OF ok call none_owning]
  show ?thesis by (simp add: Registry_List_range)
next
  case (Some a)
  from owner_split [OF ord Some] obtain us n vs
    where sp: "gm_range (bk_adapters be) ord = us @ (n, a) # vs"
      and n: "owner w sid = Some n" "gm_get (bk_adapters be) n = Some a"
      and us: "\<forall>(k, b) \<in> set us. gm_get (bk_adapters be) k = Some b \<and> owner w sid \<noteq> Some k"
      and vs: "\<forall>(k, b) \<in> set vs. gm_get (bk_adapters be) k = Some b \<and> Some n \<noteq> Some k" .
  have "firstSuccess call (a # map snd vs) w = apfst (case_sum (\<lambda>_. None) Some) (call a w)"
  proof (cases "call a w")
    case (Pair r w')
    show ?thesis
    proof (cases r)
      case (Inl err)
      then have "callOp a sid opn w = (True, w')" using call [of a w] Pair by (simp add: failed_def)
      from failed_keeps [OF ok n(2,1) this] have "ok w'" "owner w' sid = Some n" by auto
      with vs have "firstSuccess call (map snd vs @ []) w' = (None, w')"
        by (subst firstSuccess_foreign [of w' call sid opn]) (auto simp: call)
      with Pair Inl show ?thesis by simp
    qed (simp add: Pair)
  qed
  then show ?thesis
    using firstSuccess_foreign [of w call sid opn us "a # map snd vs"] ok call us Some sp
    by (simp add: Registry_List_range)
qed

lemma uploadLoop_owner:
  assumes ok: "ok w" and ord: "gm_order (bk_adapters be) ord"
  shows "uploadLoop (Registry_List (regOf be w0) ord) sid req w =
         (case owning w sid of
            None \<Rightarrow> (None, w)
          | Some a \<Rightarrow>
              apfst (case_sum (\<lambda>_. None) Some) (errRes (apfst fst (ad_UploadFile a sid req w))))"
proof (cases "owning w sid")
  case None
  with uploadLoop_foreign [of w "gm_range (bk_adapters be) ord" sid "[]", OF ok none_owning]
  show ?thesis by (simp add: Registry_List_range)
next
  case (Some a)
  from owner_split [OF ord Some] obtain us n vs
    where sp: "gm_range (bk_adapters be) ord = us @ (n, a) # vs"
      and n: "owner w sid = Some n" "gm_get (bk_adapters be) n = Some a"
      and us: "\<forall>(k, b) \<in> set us. gm_get (bk_adapters be) k = Some b \<and> owner w sid \<noteq> Some k"
      and vs: "\<forall>(k, b) \<in> set vs. gm_get (bk_adapters be) k = Some b \<and> Some n \<noteq> Some k" .
  obtain e rd w' where up: "ad_UploadFile a sid req w = ((e, rd), w')" by (metis surj_pair)
  have "uploadLoop (a # map snd vs) sid req w =
        apfst (case_sum (\<lambda>_. None) Some) (errRes (apfst fst (ad_UploadFile a sid req w)))"
  proof (cases e)
    case (Some err)
    with up have "callOp a sid (SbUploadFile req) w = (True, w')" by (simp add: failed_def errRes_def)
    from failed_keeps [OF ok n(2,1) this] vs
    have "uploadLoop (map snd vs @ []) sid (req\<lparr>fu_Reader := rd\<rparr>) w' = (None, w')"
      by (subst uploadLoop_foreign) auto
    with Some up show ?thesis by (simp add: errRes_def)
  qed (simp add: up errRes_def)
  then show ?thesis
    using uploadLoop_foreign [of w us sid "a # map snd vs" req] ok us Some sp
    by (simp add: Registry_List_range)
qed

text \<open>The lookup through the map and the search give the same adapter: the owner.\<close>

lemma resolve_owner:
  assumes ok: "ok w" and ord: "gm_order (bk_adapters be) ord"
  shows "resolveAdapterForSandbox be ord sid w =
         (case owning w sid of
            None \<Rightarrow> (Inl (Errorf ''sandbox %q not found'' [sid]), w)
          | Some a \<Rightarrow> (Inr a, w))"
proof (cases "sbmLookup be sid w")
  case (Some a)
  then obtain m n where "bk_sandboxBackend be w = Some m" "SandboxBackendMap_Get m sid = Some n"
    and a: "gm_get (bk_adapters be) n = Some a"
    by (auto simp: sbmLookup_def Registry_Get_def regOf_def split: option.splits)
  then have "owner w sid = Some n" using map_sound [OF ok] by auto
  with a Some show ?thesis by (simp add: resolveAdapterForSandbox_def owning_def)
next
  case None
  let ?call = "\<lambda>a w. apfst (map_sum id (\<lambda>_. a)) (ad_GetSandbox a sid w)"
  have "failed (?call a w) = callOp a sid SbGet w" for a w
    by (cases "ad_GetSandbox a sid w"; cases "fst (ad_GetSandbox a sid w)") (auto simp: failed_def)
  note found = firstSuccess_owner [OF ok this ord]
  show ?thesis
  proof (cases "owning w sid")
    case (Some a)
    then obtain n where "owner w sid = Some n" "gm_get (bk_adapters be) n = Some a"
      by (auto simp: owning_def bind_eq_Some_conv)
    from owner_knows [OF ok this(2,1)] obtain s where "ad_GetSandbox a sid w = (Inr s, w)"
      by (cases "ad_GetSandbox a sid w"; cases "fst (ad_GetSandbox a sid w)") (auto simp: failed_def)
    with Some None found show ?thesis by (simp add: resolveAdapterForSandbox_def)
  qed (simp add: resolveAdapterForSandbox_def None found)
qed

end

end
