(* ===== verification/Handlers.thy ===== *)
theory Handlers
  imports E2B_DTO Adapter_Interface Router
begin

text \<open>
  The control-plane handlers (\<open>internal/api/v1/handlers.go\<close>), one definition per handler.
  A handler takes the backends, the order in which \<open>registry.List()\<close> returns the adapters,
  the URL and query parameters, the decoded body (the error of the JSON decoder or the
  value) and the world, and returns the reply with the world it leaves.

  A reply is its status and the value that is encoded.  A message is kept as its parts, so
  that the text of an adapter error that reaches a client is visible as such.
\<close>

section \<open>Replies\<close>

datatype msgPart = Lit string | ErrText go_error

type_synonym message = "msgPart list"

type_synonym 'd decoded = "go_error + 'd"

datatype body =
    NoBody
  | ErrorBody int message
  | CreatedBody SandboxCreateResponse
  | SandboxBody SandboxInfo
  | SandboxesBody "SandboxInfo list"
  | SandboxesV2Body V2SandboxListResponse
  | ExecBody CodeExecResult
  | ExecutionBody string CodeExecResult
  | CommandBody dto_CommandResult
  | TextBody string
  | DownloadBody string string
  | BrokenDownloadBody string string go_error
  | FilesBody FileListResponse
  | TemplatesBody "TemplateInfo list"
  | TemplatesV2Body "V2TemplateInfo list"
  | TemplateBody TemplateInfo
  | TemplateV2Body V2TemplateInfo
  | TemplateBuildBody TemplateBuildResponse
  | WarmPoolsBody "WarmPool list"
  | WarmPoolBody WarmPool
  | ProcessesBody "ProcessInfo list"
  | SnapshotBody Snapshot
  | SnapshotsBody "Snapshot list"
  | PortsBody "PortInfo list"
  | URLBody string
  | TokenBody string time
  | BuildBody TemplateBuild
  | BuildStatusBody BuildStatus
  | StatusBody string
  | ReadyBody string "(string, message) gomap"
  | LogsBody SandboxLogsResponse
  | MetricsBody SandboxMetrics
  | TagBody TagInfo
  | TagsBody "TagInfo list"

record reply =
  rp_Status :: int
  rp_Body :: body

definition writeJSON :: "int \<Rightarrow> body \<Rightarrow> reply" where
  "writeJSON status data = \<lparr>rp_Status = status, rp_Body = data\<rparr>"

definition writeError :: "int \<Rightarrow> message \<Rightarrow> reply" where
  "writeError status message = \<lparr>rp_Status = status, rp_Body = ErrorBody status message\<rparr>"

definition statusOnly :: "int \<Rightarrow> reply" where
  "statusOnly status = \<lparr>rp_Status = status, rp_Body = NoBody\<rparr>"

text \<open>\<open>http.StatusText\<close> on the server-error codes.\<close>

definition StatusText5xx :: "int \<Rightarrow> string" where
  "StatusText5xx n =
     (if n = 500 then ''Internal Server Error'' else if n = 501 then ''Not Implemented''
      else if n = 502 then ''Bad Gateway'' else if n = 503 then ''Service Unavailable''
      else if n = 504 then ''Gateway Timeout'' else if n = 505 then ''HTTP Version Not Supported''
      else if n = 506 then ''Variant Also Negotiates'' else if n = 507 then ''Insufficient Storage''
      else if n = 508 then ''Loop Detected'' else if n = 510 then ''Not Extended''
      else if n = 511 then ''Network Authentication Required'' else [])"

text \<open>\<open>errors.As\<close> on an error that carries an HTTP status.\<close>

fun HTTPStatusCode :: "go_error \<Rightarrow> int option" where
  "HTTPStatusCode (StatusError n msg) = Some n"
| "HTTPStatusCode (Errorf f args) = None"

definition writeAdapterError :: "go_error \<Rightarrow> int \<Rightarrow> reply" where
  "writeAdapterError err fallbackStatus =
     (let status = (case HTTPStatusCode err of
                      None \<Rightarrow> fallbackStatus
                    | Some candidate \<Rightarrow> if 400 \<le> candidate \<and> candidate \<le> 599 then candidate else fallbackStatus);
          message = (if 500 \<le> status
                     then [Lit (if StatusText5xx status = [] then ''Internal Server Error'' else StatusText5xx status)]
                     else [ErrText err])
      in writeError status message)"

definition sq :: string where
  "sq = [CHR 0x27]"

definition notFound :: "string \<Rightarrow> string \<Rightarrow> reply" where
  "notFound what name = writeError 404 [Lit (what @ '' '' @ sq @ name @ sq @ '' not found'')]"

definition badBody :: reply where
  "badBody = writeError 400 [Lit ''Invalid request body'']"

definition badBodyErr :: "go_error \<Rightarrow> reply" where
  "badBodyErr err = writeError 400 [Lit ''Invalid request body: '', ErrText err]"

section \<open>Helpers\<close>

definition badKeyChar :: "char \<Rightarrow> bool" where
  "badKeyChar c \<longleftrightarrow> c = CHR ''='' \<or> (of_char c :: nat) < 0x20 \<or> (of_char c :: nat) = 0x7F"

text \<open>\<open>ord\<close> is the order in which the loop ranges over the map.\<close>

definition validateEnvKeys :: "string list \<Rightarrow> strmap \<Rightarrow> go_error option" where
  "validateEnvKeys ord envs =
     (case find (\<lambda>k. k = [] \<or> list_ex badKeyChar k) (map fst (gm_range envs ord)) of
        None \<Rightarrow> None
      | Some k \<Rightarrow> Some (Errorf ''invalid environment variable name: %q'' [k]))"

definition sandboxToDTO :: "Sandbox \<Rightarrow> SandboxInfo" where
  "sandboxToDTO sb =
     (let state = (if sb_Status sb = SandboxStatusRunning then ''running''
                   else if sb_Status sb = SandboxStatusPaused then ''paused''
                   else if sb_Status sb = SandboxStatusStopped then ''stopped''
                   else if sb_Status sb = SandboxStatusError then ''error''
                   else if sb_Status sb = SandboxStatusStarting then ''starting''
                   else ''running'')
      in \<lparr>si_SandboxID = sb_SandboxID sb, si_TemplateID = sb_TemplateID sb, si_Alias = sb_Alias sb,
          si_ClientID = sb_ClientID sb, si_StartedAt = sb_StartedAt sb, si_EndAt = sb_EndAt sb,
          si_CPUCount = 0, si_MemoryMB = 0, si_DiskSizeMB = 0, si_State = state, si_EnvdVersion = [],
          si_Metadata = sb_Metadata sb, si_VolumeMounts = []\<rparr>)"

text \<open>The zero \<open>time.Time\<close> of a field that is not set: the first instant of the year 1, with the
  Unix epoch as instant 0.\<close>

definition zeroTime :: time where
  "zeroTime = - (62135596800 * second)"

definition templateToDTO :: "Template \<Rightarrow> TemplateInfo" where
  "templateToDTO tmpl =
     \<lparr>ti_TemplateID = t_TemplateID tmpl, ti_Aliases = [], ti_BuildID = t_BuildID tmpl,
      ti_CPUCount = t_CPUCount tmpl, ti_MemoryMB = t_MemoryMB tmpl, ti_Public = t_Public tmpl,
      ti_Ready = False, ti_CreatedAt = t_CreatedAt tmpl, ti_StartedAt = zeroTime\<rparr>"

definition generateEnvdToken :: "string \<Rightarrow> string \<Rightarrow> string" where
  "generateEnvdToken rnd sandboxID = ''envd_'' @ sandboxID @ ''_'' @ hexEncode rnd"

definition adapterFileInfosToDTO :: "FileInfo list \<Rightarrow> FileEntry list" where
  "adapterFileInfosToDTO infos =
     map (\<lambda>f. \<lparr>fe_Name = fi_Name f, fe_Type = (if fi_IsDir f then ''dir'' else ''file''),
               fe_Size = fi_Size f, fe_LastModified = fi_ModTime f\<rparr>) infos"

text \<open>The two endings of a search loop: the answer of the adapter that succeeded, or the
  error written after the loop.\<close>

definition searching ::
  "'w backends \<Rightarrow> string list \<Rightarrow> ('w SandboxAdapter \<Rightarrow> 'w \<Rightarrow> 'x go_res \<times> 'w) \<Rightarrow> ('x \<Rightarrow> reply) \<Rightarrow> reply \<Rightarrow>
   'w \<Rightarrow> reply \<times> 'w" where
  "searching be ord call good bad w =
     (case firstSuccess call (Registry_List (regOf be w) ord) w of
        (Some x, w') \<Rightarrow> (good x, w')
      | (None, w') \<Rightarrow> (bad, w'))"

text \<open>A handler that resolves the owner first: 404 when there is none.\<close>

definition resolving ::
  "'w backends \<Rightarrow> string list \<Rightarrow> string \<Rightarrow> ('w SandboxAdapter \<Rightarrow> 'w \<Rightarrow> 'x go_res \<times> 'w) \<Rightarrow> ('x \<Rightarrow> reply) \<Rightarrow>
   (go_error \<Rightarrow> reply) \<Rightarrow> 'w \<Rightarrow> reply \<times> 'w" where
  "resolving be ord sandboxID call good bad w =
     (case resolveAdapterForSandbox be ord sandboxID w of
        (Inl err, w') \<Rightarrow> (writeError 404 [ErrText err], w')
      | (Inr a, w') \<Rightarrow>
          (case call a w' of
             (Inl err, w'') \<Rightarrow> (bad err, w'')
           | (Inr x, w'') \<Rightarrow> (good x, w'')))"

section \<open>Sandbox handlers\<close>

text \<open>
  \<open>envOrd\<close> is the order in which the environment is validated, \<open>ord\<close> the order of the
  registry inside the router, \<open>rnd\<close> the random bytes of the fallback token.
\<close>

definition CreateSandboxHandler ::
  "'w backends \<Rightarrow> string list \<Rightarrow> string list \<Rightarrow> string \<Rightarrow> string \<Rightarrow> SandboxCreateRequest decoded \<Rightarrow>
   'w SandboxAdapter router \<Rightarrow> 'w \<Rightarrow> reply \<times> 'w SandboxAdapter router \<times> 'w" where
  "CreateSandboxHandler be envOrd ord envdDomain rnd reqBody rt w =
     (case reqBody of
        Inl err \<Rightarrow> (badBodyErr err, rt, w)
      | Inr dtoReq \<Rightarrow>
          (case validateEnvKeys envOrd (dcr_EnvVars dtoReq) of
             Some err \<Rightarrow> (writeError 400 [ErrText err], rt, w)
           | None \<Rightarrow>
               (case SelectBackend ad_Name rt
                       \<lparr>rq_TenantID = [], rq_TemplateID = dcr_TemplateID dtoReq, rq_Method = [], rq_Path = []\<rparr> ord of
                  (Inl err, rt') \<Rightarrow> (writeError 503 [ErrText err], rt', w)
                | (Inr backendName, rt') \<Rightarrow>
                    (case Registry_Get (regOf be w) backendName of
                       None \<Rightarrow> (writeError 503 [Lit (''Backend '' @ backendName @ '' not found'')], rt', w)
                     | Some a \<Rightarrow>
                         (case ad_CreateSandbox a
                                 \<lparr>csr_TemplateID = dcr_TemplateID dtoReq, csr_Timeout = dcr_Timeout dtoReq,
                                  csr_Alias = dcr_Alias dtoReq, csr_Envs = dcr_EnvVars dtoReq,
                                  csr_Metadata = dcr_Metadata dtoReq\<rparr> w of
                            (Inl err, w') \<Rightarrow> (writeAdapterError err 500, rt', w')
                          | (Inr sandbox, w') \<Rightarrow>
                              (case ad_GetAccessToken a (sb_SandboxID sandbox) w' of
                                 (tok, w'') \<Rightarrow>
                                   (writeJSON 201 (CreatedBody
                                      \<lparr>dcs_SandboxID = sb_SandboxID sandbox, dcs_TemplateID = sb_TemplateID sandbox,
                                       dcs_Alias = sb_Alias sandbox, dcs_ClientID = sb_ClientID sandbox,
                                       dcs_EnvdVersion = ''0.1.0'',
                                       dcs_EnvdAccessToken =
                                         (case tok of
                                            Inr t \<Rightarrow> at_Token t
                                          | Inl err \<Rightarrow> generateEnvdToken rnd (sb_SandboxID sandbox)),
                                       dcs_SandboxDomain = envdDomain, dcs_TrafficAccessToken = []\<rparr>),
                                    rt', w'')))))))"

definition limitOption :: "string \<Rightarrow> ListOptions" where
  "limitOption limitStr =
     \<lparr>lo_Limit = (if limitStr = [] then 0 else case Atoi limitStr of Some limit \<Rightarrow> limit | None \<Rightarrow> 0),
      lo_Offset = 0, lo_Labels = []\<rparr>"

definition ListSandboxesHandler :: "'w backends \<Rightarrow> string list \<Rightarrow> string \<Rightarrow> 'w \<Rightarrow> reply \<times> 'w" where
  "ListSandboxesHandler be ord limitStr w =
     (case collectAll (\<lambda>a. ad_ListSandboxes a (limitOption limitStr)) (Registry_List (regOf be w) ord) w of
        (sandboxes, w') \<Rightarrow> (writeJSON 200 (SandboxesBody (map sandboxToDTO sandboxes)), w'))"

definition ListSandboxesHandlerV2 :: "'w backends \<Rightarrow> string list \<Rightarrow> string \<Rightarrow> 'w \<Rightarrow> reply \<times> 'w" where
  "ListSandboxesHandlerV2 be ord limitStr w =
     (case collectAll (\<lambda>a. ad_ListSandboxes a (limitOption limitStr)) (Registry_List (regOf be w) ord) w of
        (sandboxes, w') \<Rightarrow>
          (writeJSON 200 (SandboxesV2Body \<lparr>v2s_Sandboxes = map sandboxToDTO sandboxes, v2s_NextToken = []\<rparr>), w'))"

definition GetSandboxHandler :: "'w backends \<Rightarrow> string list \<Rightarrow> string \<Rightarrow> 'w \<Rightarrow> reply \<times> 'w" where
  "GetSandboxHandler be ord sandboxID w =
     resolving be ord sandboxID (\<lambda>a. ad_GetSandbox a sandboxID)
       (\<lambda>sandbox. writeJSON 200 (SandboxBody (sandboxToDTO sandbox)))
       (\<lambda>err. notFound ''Sandbox'' sandboxID) w"

definition KillSandboxHandler :: "'w backends \<Rightarrow> string list \<Rightarrow> string \<Rightarrow> 'w \<Rightarrow> reply \<times> 'w" where
  "KillSandboxHandler be ord sandboxID w =
     resolving be ord sandboxID (\<lambda>a w. errRes (ad_KillSandbox a sandboxID w))
       (\<lambda>_. statusOnly 204) (\<lambda>err. writeError 500 [ErrText err]) w"

definition PauseSandboxHandler :: "'w backends \<Rightarrow> string list \<Rightarrow> string \<Rightarrow> 'w \<Rightarrow> reply \<times> 'w" where
  "PauseSandboxHandler be ord sandboxID w =
     searching be ord (\<lambda>a w. errRes (ad_PauseSandbox a sandboxID w))
       (\<lambda>_. statusOnly 204) (notFound ''Sandbox'' sandboxID) w"

definition ResumeSandboxHandler :: "'w backends \<Rightarrow> string list \<Rightarrow> string \<Rightarrow> 'w \<Rightarrow> reply \<times> 'w" where
  "ResumeSandboxHandler be ord sandboxID w =
     searching be ord (\<lambda>a. ad_ResumeSandbox a sandboxID)
       (\<lambda>sandbox. writeJSON 200 (SandboxBody (sandboxToDTO sandbox))) (notFound ''Sandbox'' sandboxID) w"

definition SetTimeoutHandler ::
  "'w backends \<Rightarrow> string list \<Rightarrow> string \<Rightarrow> SandboxTimeoutRequest decoded \<Rightarrow> 'w \<Rightarrow> reply \<times> 'w" where
  "SetTimeoutHandler be ord sandboxID reqBody w =
     (case reqBody of
        Inl err \<Rightarrow> (badBody, w)
      | Inr req \<Rightarrow>
          searching be ord (\<lambda>a w. errRes (ad_SetTimeout a sandboxID (seconds64 (str_Timeout req)) w))
            (\<lambda>_. statusOnly 204) (notFound ''Sandbox'' sandboxID) w)"

section \<open>Code and commands\<close>

definition execRequest :: "CodeExecRequest \<Rightarrow> CodeExecutionRequest" where
  "execRequest dtoReq =
     \<lparr>cer_Code = dce_Code dtoReq, cer_Language = dce_Language dtoReq, cer_EnvVars = dce_EnvVars dtoReq,
      cer_Cwd = []\<rparr>"

definition execResult :: "CodeExecutionResult \<Rightarrow> CodeExecResult" where
  "execResult result =
     \<lparr>dcx_Stdout = cx_Stdout result, dcx_Stderr = cx_Stderr result, dcx_ExitCode = cx_ExitCode result,
      dcx_Error = cx_Error result\<rparr>"

definition ExecuteCodeHandler ::
  "'w backends \<Rightarrow> string list \<Rightarrow> string \<Rightarrow> CodeExecRequest decoded \<Rightarrow> 'w \<Rightarrow> reply \<times> 'w" where
  "ExecuteCodeHandler be ord sandboxID reqBody w =
     (case reqBody of
        Inl err \<Rightarrow> (badBody, w)
      | Inr dtoReq \<Rightarrow>
          resolving be ord sandboxID (\<lambda>a. ad_ExecuteCode a sandboxID (execRequest dtoReq))
            (\<lambda>result. writeJSON 200 (ExecBody (execResult result))) (\<lambda>err. writeError 500 [ErrText err]) w)"

text \<open>\<open>now\<close> is the Unix time in nanoseconds after the execution.\<close>

definition StartExecutionHandler ::
  "'w backends \<Rightarrow> string list \<Rightarrow> string \<Rightarrow> time \<Rightarrow> CodeExecRequest decoded \<Rightarrow> 'w \<Rightarrow> reply \<times> 'w" where
  "StartExecutionHandler be ord sandboxID now reqBody w =
     (case reqBody of
        Inl err \<Rightarrow> (badBody, w)
      | Inr dtoReq \<Rightarrow>
          searching be ord (\<lambda>a. ad_ExecuteCode a sandboxID (execRequest dtoReq))
            (\<lambda>result. writeJSON 202 (ExecutionBody (''exec-'' @ sandboxID @ ''-'' @ fmt36 now) (execResult result)))
            (notFound ''Sandbox'' sandboxID) w)"

definition GetExecutionHandler :: "'w \<Rightarrow> reply \<times> 'w" where
  "GetExecutionHandler w = (writeError 501 [Lit ''Async executions not yet implemented''], w)"

definition RunCommandHandler ::
  "'w backends \<Rightarrow> string list \<Rightarrow> string \<Rightarrow> dto_CommandRequest decoded \<Rightarrow> 'w \<Rightarrow> reply \<times> 'w" where
  "RunCommandHandler be ord sandboxID reqBody w =
     (case reqBody of
        Inl err \<Rightarrow> (badBody, w)
      | Inr dtoReq \<Rightarrow>
          resolving be ord sandboxID
            (\<lambda>a. ad_RunCommand a sandboxID
                   \<lparr>cmd_Command = dcq_Command dtoReq, cmd_Args = [], cmd_Cwd = dcq_Cwd dtoReq,
                    cmd_EnvVars = dcq_EnvVars dtoReq\<rparr>)
            (\<lambda>result. writeJSON 200 (CommandBody
               \<lparr>dcm_Stdout = cr_Stdout result, dcm_Stderr = cr_Stderr result, dcm_ExitCode = cr_ExitCode result,
                dcm_ProcessID = []\<rparr>))
            (\<lambda>err. writeError 500 [ErrText err]) w)"

section \<open>File handlers\<close>

definition writeRequest :: "string \<Rightarrow> string \<Rightarrow> FileWriteRequest" where
  "writeRequest path content = \<lparr>fw_Path = path, fw_Content = content, fw_Owner = []\<rparr>"

definition writeLoop :: "'w backends \<Rightarrow> string list \<Rightarrow> string \<Rightarrow> FileWriteRequest \<Rightarrow> 'w \<Rightarrow> reply \<times> 'w" where
  "writeLoop be ord sandboxID req w =
     searching be ord (\<lambda>a w. errRes (ad_WriteFile a sandboxID req w))
       (\<lambda>_. statusOnly 204) (notFound ''Sandbox'' sandboxID) w"

definition WriteFileHandler ::
  "'w backends \<Rightarrow> string list \<Rightarrow> string \<Rightarrow> dto_FileWriteRequest decoded \<Rightarrow> 'w \<Rightarrow> reply \<times> 'w" where
  "WriteFileHandler be ord sandboxID reqBody w =
     (case reqBody of
        Inl err \<Rightarrow> (badBody, w)
      | Inr dtoReq \<Rightarrow> writeLoop be ord sandboxID (writeRequest (dfw_Path dtoReq) (dfw_Content dtoReq)) w)"

definition fileMissing :: "string \<Rightarrow> reply" where
  "fileMissing sandboxID = writeError 404 [Lit (''Sandbox '' @ sq @ sandboxID @ sq @ '' or file not found'')]"

definition pathRequired :: reply where
  "pathRequired = writeError 400 [Lit ''path query parameter is required'']"

definition ReadFileHandler :: "'w backends \<Rightarrow> string list \<Rightarrow> string \<Rightarrow> string \<Rightarrow> 'w \<Rightarrow> reply \<times> 'w" where
  "ReadFileHandler be ord sandboxID path w =
     (if path = [] then (pathRequired, w)
      else searching be ord (\<lambda>a. ad_ReadFile a sandboxID path)
             (\<lambda>content. writeJSON 200 (TextBody (fc_Content content))) (fileMissing sandboxID) w)"

text \<open>The multipart form of an upload: not parsed, without a \<open>file\<close> field, or with the name,
  the \<open>path\<close> value and the reader of the file.\<close>

datatype uploadForm =
    FormInvalid
  | FormNoFile
  | FormFile string string "string go_res"

definition UploadFileHandler ::
  "'w backends \<Rightarrow> string list \<Rightarrow> string \<Rightarrow> string \<Rightarrow> (string \<times> string) decoded \<Rightarrow> uploadForm \<Rightarrow> 'w \<Rightarrow> reply \<times> 'w" where
  "UploadFileHandler be ord sandboxID contentType jsonBody form w =
     (if Contains contentType ''application/json'' then
        (case jsonBody of
           Inl err \<Rightarrow> (writeError 400 [Lit ''invalid JSON body''], w)
         | Inr (path, content) \<Rightarrow> writeLoop be ord sandboxID (writeRequest path content) w)
      else
        (case form of
           FormInvalid \<Rightarrow> (writeError 400 [Lit ''Failed to parse multipart form''], w)
         | FormNoFile \<Rightarrow> (writeError 400 [Lit ''file field is required''], w)
         | FormFile filename pathValue rd \<Rightarrow>
             (case uploadLoop (Registry_List (regOf be w) ord) sandboxID
                     \<lparr>fu_Path = (if pathValue = [] then filename else pathValue), fu_Reader = rd\<rparr> w of
                (Some _, w') \<Rightarrow> (statusOnly 204, w')
              | (None, w') \<Rightarrow> (notFound ''Sandbox'' sandboxID, w'))))"

text \<open>
  A download that fails before its first byte is answered with 500.  After the first byte
  the status 200 is on the wire: the error is appended to the content.
\<close>

definition downloadReply :: "string \<Rightarrow> reader \<Rightarrow> reply" where
  "downloadReply path rd =
     (case rd of
        (content, None) \<Rightarrow> writeJSON 200 (DownloadBody path content)
      | (content, Some err) \<Rightarrow>
          if content = [] then writeError 500 [ErrText err]
          else writeJSON 200 (BrokenDownloadBody path content err))"

definition DownloadFileHandler :: "'w backends \<Rightarrow> string list \<Rightarrow> string \<Rightarrow> string \<Rightarrow> 'w \<Rightarrow> reply \<times> 'w" where
  "DownloadFileHandler be ord sandboxID path w =
     (if path = [] then (pathRequired, w)
      else searching be ord (\<lambda>a. ad_DownloadFile a sandboxID path) (downloadReply path) (fileMissing sandboxID) w)"

text \<open>\<open>reqBody\<close> is absent when the request has no body; a body that does not decode is ignored.\<close>

definition listPath :: "FileListRequest decoded option \<Rightarrow> string \<Rightarrow> string" where
  "listPath reqBody qPath =
     (let path = (case reqBody of
                    Some (Inr req) \<Rightarrow> if flq_Path req \<noteq> [] then flq_Path req else ''/''
                  | _ \<Rightarrow> ''/'')
      in if qPath \<noteq> [] then qPath else path)"

definition ListFilesHandler ::
  "'w backends \<Rightarrow> string list \<Rightarrow> string \<Rightarrow> FileListRequest decoded option \<Rightarrow> string \<Rightarrow> 'w \<Rightarrow> reply \<times> 'w" where
  "ListFilesHandler be ord sandboxID reqBody qPath w =
     searching be ord (\<lambda>a. ad_ListFiles a sandboxID (listPath reqBody qPath))
       (\<lambda>files. writeJSON 200 (FilesBody \<lparr>fls_Entries = adapterFileInfosToDTO files\<rparr>))
       (notFound ''Sandbox'' sandboxID) w"

definition MakeDirHandler ::
  "'w backends \<Rightarrow> string list \<Rightarrow> string \<Rightarrow> MakeDirRequest decoded \<Rightarrow> 'w \<Rightarrow> reply \<times> 'w" where
  "MakeDirHandler be ord sandboxID reqBody w =
     (case reqBody of
        Inl err \<Rightarrow> (badBody, w)
      | Inr req \<Rightarrow>
          searching be ord (\<lambda>a w. errRes (ad_MakeDir a sandboxID (mkd_Path req) w))
            (\<lambda>_. statusOnly 204) (notFound ''Sandbox'' sandboxID) w)"

definition RemoveFileHandler ::
  "'w backends \<Rightarrow> string list \<Rightarrow> string \<Rightarrow> FileRemoveRequest decoded \<Rightarrow> 'w \<Rightarrow> reply \<times> 'w" where
  "RemoveFileHandler be ord sandboxID reqBody w =
     (case reqBody of
        Inl err \<Rightarrow> (badBody, w)
      | Inr req \<Rightarrow>
          searching be ord (\<lambda>a w. errRes (ad_RemoveFile a sandboxID (frm_Path req) w))
            (\<lambda>_. statusOnly 204) (notFound ''Sandbox'' sandboxID) w)"

definition MoveFileHandler ::
  "'w backends \<Rightarrow> string list \<Rightarrow> string \<Rightarrow> MoveFileRequest decoded \<Rightarrow> 'w \<Rightarrow> reply \<times> 'w" where
  "MoveFileHandler be ord sandboxID reqBody w =
     (case reqBody of
        Inl err \<Rightarrow> (badBody, w)
      | Inr req \<Rightarrow>
          searching be ord (\<lambda>a w. errRes (ad_MoveFile a sandboxID (mvf_Source req) (mvf_Destination req) w))
            (\<lambda>_. statusOnly 204) (notFound ''Sandbox'' sandboxID) w)"

section \<open>Template handlers\<close>

definition noOptions :: ListOptions where
  "noOptions = \<lparr>lo_Limit = 0, lo_Offset = 0, lo_Labels = []\<rparr>"

definition ListTemplatesHandler :: "'w backends \<Rightarrow> string list \<Rightarrow> 'w \<Rightarrow> reply \<times> 'w" where
  "ListTemplatesHandler be ord w =
     (case collectAll (\<lambda>a. ad_ListTemplates a noOptions) (Registry_List (regOf be w) ord) w of
        (templates, w') \<Rightarrow> (writeJSON 200 (TemplatesBody (map templateToDTO templates)), w'))"

definition templateToV2 :: "Template \<Rightarrow> V2TemplateInfo" where
  "templateToV2 t =
     \<lparr>v2t_TemplateID = t_TemplateID t, v2t_BuildID = t_BuildID t, v2t_Aliases = [], v2t_Tags = [],
      v2t_CPUCount = t_CPUCount t, v2t_MemoryMB = t_MemoryMB t, v2t_Public = t_Public t, v2t_Ready = True,
      v2t_CreatedAt = t_CreatedAt t\<rparr>"

definition ListTemplatesHandlerV2 :: "'w backends \<Rightarrow> string list \<Rightarrow> 'w \<Rightarrow> reply \<times> 'w" where
  "ListTemplatesHandlerV2 be ord w =
     (case collectAll (\<lambda>a. ad_ListTemplates a noOptions) (Registry_List (regOf be w) ord) w of
        (templates, w') \<Rightarrow> (writeJSON 200 (TemplatesV2Body (map templateToV2 templates)), w'))"

definition GetTemplateHandler :: "'w backends \<Rightarrow> string list \<Rightarrow> string \<Rightarrow> 'w \<Rightarrow> reply \<times> 'w" where
  "GetTemplateHandler be ord templateID w =
     searching be ord (\<lambda>a. ad_GetTemplate a templateID)
       (\<lambda>tmpl. writeJSON 200 (TemplateBody (templateToDTO tmpl))) (notFound ''Template'' templateID) w"

definition noTemplateCreation :: reply where
  "noTemplateCreation = writeError 503 [Lit ''No backend supports template creation'']"

definition CreateTemplateHandler ::
  "'w backends \<Rightarrow> string list \<Rightarrow> TemplateBuildRequest decoded \<Rightarrow> 'w \<Rightarrow> reply \<times> 'w" where
  "CreateTemplateHandler be ord reqBody w =
     (case reqBody of
        Inl err \<Rightarrow> (badBodyErr err, w)
      | Inr dtoReq \<Rightarrow>
          searching be ord
            (\<lambda>a. ad_CreateTemplate a
                   \<lparr>ctr_Name = tbq_Name dtoReq, ctr_Dockerfile = tbq_Dockerfile dtoReq,
                    ctr_StartCmd = tbq_StartCmd dtoReq, ctr_CPUCount = tbq_CPUCount dtoReq,
                    ctr_MemoryMB = tbq_MemoryMB dtoReq\<rparr>)
            (\<lambda>build. writeJSON 202 (TemplateBuildBody
               \<lparr>tbs_TemplateID = tb_TemplateID build, tbs_BuildID = tb_BuildID build, tbs_Status = tb_Status build\<rparr>))
            noTemplateCreation w)"

definition CreateTemplateHandlerV2 ::
  "'w backends \<Rightarrow> string list \<Rightarrow> V2TemplateCreateRequest decoded \<Rightarrow> 'w \<Rightarrow> reply \<times> 'w" where
  "CreateTemplateHandlerV2 be ord reqBody w =
     (case reqBody of
        Inl err \<Rightarrow> (badBodyErr err, w)
      | Inr dtoReq \<Rightarrow>
          searching be ord
            (\<lambda>a. ad_CreateTemplate a
                   \<lparr>ctr_Name = v2c_Name dtoReq, ctr_Dockerfile = v2c_Dockerfile dtoReq,
                    ctr_StartCmd = v2c_StartCmd dtoReq, ctr_CPUCount = v2c_CPUCount dtoReq,
                    ctr_MemoryMB = v2c_MemoryMB dtoReq\<rparr>)
            (\<lambda>build. writeJSON 202 (TemplateV2Body
               \<lparr>v2t_TemplateID = tb_TemplateID build, v2t_BuildID = tb_BuildID build, v2t_Aliases = [],
                v2t_Tags = [], v2t_CPUCount = v2c_CPUCount dtoReq, v2t_MemoryMB = v2c_MemoryMB dtoReq,
                v2t_Public = False, v2t_Ready = False, v2t_CreatedAt = zeroTime\<rparr>))
            noTemplateCreation w)"

definition DeleteTemplateHandler :: "'w backends \<Rightarrow> string list \<Rightarrow> string \<Rightarrow> 'w \<Rightarrow> reply \<times> 'w" where
  "DeleteTemplateHandler be ord templateID w =
     searching be ord (\<lambda>a w. errRes (ad_DeleteTemplate a templateID w))
       (\<lambda>_. statusOnly 204) (notFound ''Template'' templateID) w"

definition updatedInfo :: "UpdateTemplateRequest \<Rightarrow> Template \<Rightarrow> TemplateInfo" where
  "updatedInfo req tmpl =
     (let info = templateToDTO tmpl;
          info = (if utr_Name req \<noteq> [] then info\<lparr>ti_TemplateID := t_TemplateID tmpl\<rparr> else info);
          info = (case utr_Public req of None \<Rightarrow> info | Some b \<Rightarrow> info\<lparr>ti_Public := b\<rparr>);
          info = (case utr_CPUCount req of None \<Rightarrow> info | Some n \<Rightarrow> info\<lparr>ti_CPUCount := n\<rparr>)
      in case utr_MemoryMB req of None \<Rightarrow> info | Some n \<Rightarrow> info\<lparr>ti_MemoryMB := n\<rparr>)"

definition UpdateTemplateHandler ::
  "'w backends \<Rightarrow> string list \<Rightarrow> string \<Rightarrow> UpdateTemplateRequest decoded \<Rightarrow> 'w \<Rightarrow> reply \<times> 'w" where
  "UpdateTemplateHandler be ord templateID reqBody w =
     (case reqBody of
        Inl err \<Rightarrow> (badBody, w)
      | Inr req \<Rightarrow>
          searching be ord (\<lambda>a. ad_GetTemplate a templateID)
            (\<lambda>tmpl. writeJSON 200 (TemplateBody (updatedInfo req tmpl))) (notFound ''Template'' templateID) w)"

definition TriggerBuildHandler ::
  "'w backends \<Rightarrow> string list \<Rightarrow> string \<Rightarrow> BuildRequest decoded \<Rightarrow> 'w \<Rightarrow> reply \<times> 'w" where
  "TriggerBuildHandler be ord templateID reqBody w =
     (case reqBody of
        Inl err \<Rightarrow> (badBodyErr err, w)
      | Inr req \<Rightarrow>
          searching be ord (\<lambda>a. ad_TriggerBuild a templateID req) (\<lambda>build. writeJSON 202 (BuildBody build))
            (writeError 503 [Lit ''No backend supports template builds'']) w)"

definition GetBuildStatusHandler :: "'w backends \<Rightarrow> string list \<Rightarrow> string \<Rightarrow> string \<Rightarrow> 'w \<Rightarrow> reply \<times> 'w" where
  "GetBuildStatusHandler be ord templateID buildID w =
     searching be ord (\<lambda>a. ad_GetBuildStatus a templateID buildID)
       (\<lambda>status. writeJSON 200 (BuildStatusBody status)) (notFound ''Build'' buildID) w"

text \<open>The body of an alias request is its single field.\<close>

definition CreateAliasHandler ::
  "'w backends \<Rightarrow> string list \<Rightarrow> string \<Rightarrow> string decoded \<Rightarrow> 'w \<Rightarrow> reply \<times> 'w" where
  "CreateAliasHandler be ord templateID reqBody w =
     (case reqBody of
        Inl err \<Rightarrow> (badBody, w)
      | Inr alias \<Rightarrow>
          searching be ord (\<lambda>a w. errRes (ad_CreateAlias a templateID alias w)) (\<lambda>_. statusOnly 201)
            (writeError 503 [Lit ''No backend supports aliases'']) w)"

definition missingFor :: "string \<Rightarrow> string \<Rightarrow> string \<Rightarrow> reply" where
  "missingFor what name templateID =
     writeError 404 [Lit (what @ '' '' @ sq @ name @ sq @ '' not found for template '' @ sq @ templateID @ sq)]"

definition DeleteAliasHandler :: "'w backends \<Rightarrow> string list \<Rightarrow> string \<Rightarrow> string \<Rightarrow> 'w \<Rightarrow> reply \<times> 'w" where
  "DeleteAliasHandler be ord templateID alias w =
     searching be ord (\<lambda>a w. errRes (ad_DeleteAlias a templateID alias w))
       (\<lambda>_. statusOnly 204) (missingFor ''Alias'' alias templateID) w"

definition tagToDTO :: "string \<Rightarrow> Tag \<Rightarrow> TagInfo" where
  "tagToDTO templateID tag =
     \<lparr>tgi_Name = tag_Name tag, tgi_TemplateID = templateID, tgi_BuildID = tag_BuildID tag,
      tgi_CreatedAt = tag_CreatedAt tag\<rparr>"

definition CreateTagHandler ::
  "'w backends \<Rightarrow> string list \<Rightarrow> string \<Rightarrow> CreateTagRequest decoded \<Rightarrow> 'w \<Rightarrow> reply \<times> 'w" where
  "CreateTagHandler be ord templateID reqBody w =
     (case reqBody of
        Inl err \<Rightarrow> (badBody, w)
      | Inr req \<Rightarrow>
          searching be ord
            (\<lambda>a. ad_CreateTag a templateID \<lparr>tr_Name = ctg_Name req, tr_BuildID = ctg_BuildID req\<rparr>)
            (\<lambda>tag. writeJSON 201 (TagBody (tagToDTO templateID tag)))
            (writeError 503 [Lit ''No backend supports template tags'']) w)"

definition ListTagsHandler :: "'w backends \<Rightarrow> string list \<Rightarrow> string \<Rightarrow> 'w \<Rightarrow> reply \<times> 'w" where
  "ListTagsHandler be ord templateID w =
     searching be ord (\<lambda>a. ad_ListTags a templateID)
       (\<lambda>tags. writeJSON 200 (TagsBody (map (tagToDTO templateID) tags))) (notFound ''Template'' templateID) w"

definition DeleteTagHandler :: "'w backends \<Rightarrow> string list \<Rightarrow> string \<Rightarrow> string \<Rightarrow> 'w \<Rightarrow> reply \<times> 'w" where
  "DeleteTagHandler be ord templateID tagName w =
     searching be ord (\<lambda>a w. errRes (ad_DeleteTag a templateID tagName w))
       (\<lambda>_. statusOnly 204) (missingFor ''Tag'' tagName templateID) w"

section \<open>Warm pools\<close>

definition ListWarmPoolsHandler :: "'w backends \<Rightarrow> string list \<Rightarrow> 'w \<Rightarrow> reply \<times> 'w" where
  "ListWarmPoolsHandler be ord w =
     (case collectAll ad_ListWarmPools (Registry_List (regOf be w) ord) w of
        (pools, w') \<Rightarrow> (writeJSON 200 (WarmPoolsBody pools), w'))"

definition CreateWarmPoolHandler ::
  "'w backends \<Rightarrow> string list \<Rightarrow> WarmPoolCreateRequest decoded \<Rightarrow> 'w \<Rightarrow> reply \<times> 'w" where
  "CreateWarmPoolHandler be ord reqBody w =
     (case reqBody of
        Inl err \<Rightarrow> (badBodyErr err, w)
      | Inr req \<Rightarrow>
          searching be ord (\<lambda>a. ad_CreateWarmPool a req) (\<lambda>pool. writeJSON 201 (WarmPoolBody pool))
            (writeError 503 [Lit ''No backend supports warm pools'']) w)"

definition GetWarmPoolHandler :: "'w backends \<Rightarrow> string list \<Rightarrow> string \<Rightarrow> 'w \<Rightarrow> reply \<times> 'w" where
  "GetWarmPoolHandler be ord warmPoolID w =
     searching be ord (\<lambda>a. ad_GetWarmPool a warmPoolID)
       (\<lambda>pool. writeJSON 200 (WarmPoolBody pool)) (notFound ''Warm pool'' warmPoolID) w"

definition DeleteWarmPoolHandler :: "'w backends \<Rightarrow> string list \<Rightarrow> string \<Rightarrow> 'w \<Rightarrow> reply \<times> 'w" where
  "DeleteWarmPoolHandler be ord warmPoolID w =
     searching be ord (\<lambda>a w. errRes (ad_DeleteWarmPool a warmPoolID w))
       (\<lambda>_. statusOnly 204) (notFound ''Warm pool'' warmPoolID) w"

text \<open>The body of a size request is its single field.\<close>

definition UpdateWarmPoolSizeHandler ::
  "'w backends \<Rightarrow> string list \<Rightarrow> string \<Rightarrow> int decoded \<Rightarrow> 'w \<Rightarrow> reply \<times> 'w" where
  "UpdateWarmPoolSizeHandler be ord warmPoolID reqBody w =
     (case reqBody of
        Inl err \<Rightarrow> (badBody, w)
      | Inr targetSize \<Rightarrow>
          searching be ord (\<lambda>a w. errRes (ad_UpdateWarmPoolSize a warmPoolID targetSize w))
            (\<lambda>_. statusOnly 204) (notFound ''Warm pool'' warmPoolID) w)"

section \<open>Processes, snapshots, ports, tokens\<close>

definition ListProcessesHandler :: "'w backends \<Rightarrow> string list \<Rightarrow> string \<Rightarrow> 'w \<Rightarrow> reply \<times> 'w" where
  "ListProcessesHandler be ord sandboxID w =
     searching be ord (\<lambda>a. ad_ListProcesses a sandboxID)
       (\<lambda>procs. writeJSON 200 (ProcessesBody procs)) (notFound ''Sandbox'' sandboxID) w"

definition processMissing :: "string \<Rightarrow> string \<Rightarrow> reply" where
  "processMissing sandboxID processID =
     writeError 404 [Lit (''Sandbox '' @ sq @ sandboxID @ sq @ '' or process '' @ sq @ processID @ sq @ '' not found'')]"

definition KillProcessHandler :: "'w backends \<Rightarrow> string list \<Rightarrow> string \<Rightarrow> string \<Rightarrow> 'w \<Rightarrow> reply \<times> 'w" where
  "KillProcessHandler be ord sandboxID processID w =
     searching be ord (\<lambda>a w. errRes (ad_KillProcess a sandboxID processID w))
       (\<lambda>_. statusOnly 204) (processMissing sandboxID processID) w"

definition SendStdinHandler ::
  "'w backends \<Rightarrow> string list \<Rightarrow> string \<Rightarrow> string \<Rightarrow> string decoded \<Rightarrow> 'w \<Rightarrow> reply \<times> 'w" where
  "SendStdinHandler be ord sandboxID processID reqBody w =
     (case reqBody of
        Inl err \<Rightarrow> (badBody, w)
      | Inr data \<Rightarrow>
          searching be ord (\<lambda>a w. errRes (ad_SendStdin a sandboxID processID data w))
            (\<lambda>_. statusOnly 204) (processMissing sandboxID processID) w)"

definition CreateSnapshotHandler ::
  "'w backends \<Rightarrow> string list \<Rightarrow> string \<Rightarrow> SnapshotRequest decoded \<Rightarrow> 'w \<Rightarrow> reply \<times> 'w" where
  "CreateSnapshotHandler be ord sandboxID reqBody w =
     (case reqBody of
        Inl err \<Rightarrow> (badBodyErr err, w)
      | Inr req \<Rightarrow>
          searching be ord (\<lambda>a. ad_CreateSnapshot a sandboxID req) (\<lambda>snap. writeJSON 201 (SnapshotBody snap))
            (writeError 503 [Lit ''No backend supports snapshots'']) w)"

definition ListSnapshotsHandler :: "'w backends \<Rightarrow> string list \<Rightarrow> string \<Rightarrow> 'w \<Rightarrow> reply \<times> 'w" where
  "ListSnapshotsHandler be ord sandboxID w =
     searching be ord (\<lambda>a. ad_ListSnapshots a sandboxID)
       (\<lambda>snaps. writeJSON 200 (SnapshotsBody snaps)) (notFound ''Sandbox'' sandboxID) w"

definition ListPortsHandler :: "'w backends \<Rightarrow> string list \<Rightarrow> string \<Rightarrow> 'w \<Rightarrow> reply \<times> 'w" where
  "ListPortsHandler be ord sandboxID w =
     searching be ord (\<lambda>a. ad_ListPorts a sandboxID)
       (\<lambda>ports. writeJSON 200 (PortsBody ports)) (notFound ''Sandbox'' sandboxID) w"

definition GetPortURLHandler :: "'w backends \<Rightarrow> string list \<Rightarrow> string \<Rightarrow> string \<Rightarrow> 'w \<Rightarrow> reply \<times> 'w" where
  "GetPortURLHandler be ord sandboxID portStr w =
     (case Atoi portStr of
        None \<Rightarrow> (writeError 400 [Lit ''Invalid port number''], w)
      | Some port \<Rightarrow>
          searching be ord (\<lambda>a. ad_GetPortURL a sandboxID port) (\<lambda>url. writeJSON 200 (URLBody url))
            (writeError 404 [Lit (''Sandbox '' @ sq @ sandboxID @ sq @ '' or port not found'')]) w)"

definition GetAccessTokenHandler :: "'w backends \<Rightarrow> string list \<Rightarrow> string \<Rightarrow> 'w \<Rightarrow> reply \<times> 'w" where
  "GetAccessTokenHandler be ord sandboxID w =
     searching be ord (\<lambda>a. ad_GetAccessToken a sandboxID)
       (\<lambda>token. writeJSON 200 (TokenBody (at_Token token) (at_ExpiresAt token)))
       (writeError 503 [Lit ''No backend supports access tokens'']) w"

section \<open>Environment, logs, metrics, health\<close>

definition SetEnvsHandler ::
  "'w backends \<Rightarrow> string list \<Rightarrow> string list \<Rightarrow> string \<Rightarrow> SetEnvsRequest decoded \<Rightarrow> 'w \<Rightarrow> reply \<times> 'w" where
  "SetEnvsHandler be envOrd ord sandboxID reqBody w =
     (case reqBody of
        Inl err \<Rightarrow> (badBody, w)
      | Inr req \<Rightarrow>
          (case validateEnvKeys envOrd (sev_Envs req) of
             Some err \<Rightarrow> (writeError 400 [ErrText err], w)
           | None \<Rightarrow>
               searching be ord (\<lambda>a w. errRes (ad_SetEnvs a sandboxID (sev_Envs req) w))
                 (\<lambda>_. statusOnly 204) (notFound ''Sandbox'' sandboxID) w))"

definition GetLogsHandler :: "'w backends \<Rightarrow> string list \<Rightarrow> string \<Rightarrow> 'w \<Rightarrow> reply \<times> 'w" where
  "GetLogsHandler be ord sandboxID w =
     searching be ord (\<lambda>a. ad_GetLogs a sandboxID)
       (\<lambda>logs. writeJSON 200 (LogsBody
          \<lparr>slr_Logs = map (\<lambda>l. \<lparr>dle_Timestamp = le_Timestamp l, dle_Message = le_Message l,
                                dle_Level = le_Level l, dle_Source = le_Source l\<rparr>) logs\<rparr>))
       (notFound ''Sandbox'' sandboxID) w"

definition GetMetricsHandler :: "time \<Rightarrow> 'w \<Rightarrow> reply \<times> 'w" where
  "GetMetricsHandler now w =
     (writeJSON 200 (MetricsBody \<lparr>sme_CPUUsage = 0, sme_MemoryUsage = 0, sme_DiskUsage = 0, sme_NetworkRx = 0,
                                  sme_NetworkTx = 0, sme_Timestamp = now\<rparr>), w)"

definition HealthHandler :: "'w \<Rightarrow> reply \<times> 'w" where
  "HealthHandler w = (writeJSON 200 (StatusBody ''ok''), w)"

text \<open>\<open>HealthCheckAll\<close> with the effects of the checks.\<close>

fun healthAll :: "(string \<times> 'w SandboxAdapter) list \<Rightarrow> 'w \<Rightarrow> (string, go_error option) gomap \<Rightarrow>
  (string, go_error option) gomap \<times> 'w" where
  "healthAll [] w results = (results, w)"
| "healthAll ((name, a) # rest) w results =
     (case ad_HealthCheck a w of (err, w') \<Rightarrow> healthAll rest w' (gm_set results name err))"

definition ReadyHandler :: "'w backends \<Rightarrow> string list \<Rightarrow> string list \<Rightarrow> 'w \<Rightarrow> reply \<times> 'w" where
  "ReadyHandler be ord resOrd w =
     (case healthAll (gm_range (bk_adapters be) ord) w [] of
        (results, w') \<Rightarrow>
          (let visited = gm_range results resOrd;
               allHealthy = list_all (\<lambda>(name, err). err = None) visited;
               backendStatus = fold (\<lambda>(name, err) m. gm_set m name
                  (case err of None \<Rightarrow> [Lit ''healthy''] | Some e \<Rightarrow> [Lit ''unhealthy: '', ErrText e])) visited []
           in (if allHealthy then writeJSON 200 (ReadyBody ''ok'' backendStatus)
               else writeJSON 503 (ReadyBody ''degraded'' backendStatus), w')))"

end
