(* ===== verification/Mock_Backend.thy ===== *)
theory Mock_Backend
  imports Mock_Adapter Adapter_Interface
begin

text \<open>
  The in-memory adapter as a value of the adapter interface, over a world that holds its
  state, the clock and the random bytes of the calls; and a backend that cannot be
  reached.  A gateway with the in-memory adapter and any number of unreachable backends
  keeps the contract of \<open>Adapter_Interface\<close>.
\<close>

record mockWorld =
  mw_mock :: mock
  mw_now :: time
  mw_rnd :: string

definition mwRead :: "(mock \<Rightarrow> 'x) \<Rightarrow> mockWorld \<Rightarrow> 'x \<times> mockWorld" where
  "mwRead f w = (f (mw_mock w), w)"

definition mwStep :: "(mock \<Rightarrow> 'x \<times> mock) \<Rightarrow> mockWorld \<Rightarrow> 'x \<times> mockWorld" where
  "mwStep f w = (case f (mw_mock w) of (r, a) \<Rightarrow> (r, w\<lparr>mw_mock := a\<rparr>))"

text \<open>A reader that was read to its end gives nothing more; one that failed fails again.\<close>

definition mwUpload :: "string \<Rightarrow> FileUploadRequest \<Rightarrow> mock \<Rightarrow> (go_error option \<times> string go_res) \<times> mock" where
  "mwUpload sid req a =
     (case Mock_UploadFile sid req a of
        (r, a') \<Rightarrow>
          ((r, if gm_has (m_sandboxes a) sid then map_sum id (\<lambda>_. []) (fu_Reader req) else fu_Reader req), a'))"

definition mock_adapter :: "mockWorld SandboxAdapter" where
  "mock_adapter =
     \<lparr>ad_Name = Mock_Name,
      ad_HealthCheck = mwRead (\<lambda>_. Mock_HealthCheck),
      ad_CreateSandbox = (\<lambda>req w. mwStep (Mock_CreateSandbox req (mw_now w) (mw_now w) (mw_now w)) w),
      ad_ListSandboxes = (\<lambda>opts. mwRead (\<lambda>a. Inr (Mock_ListSandboxes (gm_keys (m_sandboxes a)) a))),
      ad_GetSandbox = (\<lambda>sid. mwRead (Mock_GetSandbox sid)),
      ad_KillSandbox = (\<lambda>sid. mwStep (Mock_KillSandbox sid)),
      ad_PauseSandbox = (\<lambda>sid. mwStep (Mock_PauseSandbox sid)),
      ad_ResumeSandbox = (\<lambda>sid. mwStep (Mock_ResumeSandbox sid)),
      ad_SetTimeout = (\<lambda>sid d w. mwStep (Mock_SetTimeout sid d (mw_now w)) w),
      ad_ExecuteCode = (\<lambda>sid req. mwRead (Mock_ExecuteCode sid req)),
      ad_RunCommand = (\<lambda>sid req. mwRead (Mock_RunCommand sid req)),
      ad_WriteFile = (\<lambda>sid req. mwStep (Mock_WriteFile sid req)),
      ad_ReadFile = (\<lambda>sid p. mwRead (Mock_ReadFile sid p)),
      ad_UploadFile = (\<lambda>sid req. mwStep (mwUpload sid req)),
      ad_DownloadFile = (\<lambda>sid p. mwRead (\<lambda>a. map_sum id (\<lambda>content. (content, None)) (Mock_DownloadFile sid p a))),
      ad_ListFiles = (\<lambda>sid p w. mwRead (\<lambda>a. Mock_ListFiles (gm_keys (gm_get_or [] (m_files a) sid)) (\<lambda>_. mw_now w) sid p a) w),
      ad_MakeDir = (\<lambda>sid p. mwRead (Mock_MakeDir sid p)),
      ad_RemoveFile = (\<lambda>sid p. mwRead (Mock_RemoveFile sid p)),
      ad_ListTemplates = (\<lambda>opts. mwRead (\<lambda>a. Inr (Mock_ListTemplates (gm_keys (m_templates a)) a))),
      ad_GetTemplate = (\<lambda>tid. mwRead (Mock_GetTemplate tid)),
      ad_CreateTemplate = (\<lambda>req w. mwStep (Mock_CreateTemplate req (mw_rnd w) (mw_now w)) w),
      ad_DeleteTemplate = (\<lambda>tid. mwStep (Mock_DeleteTemplate tid)),
      ad_TriggerBuild = (\<lambda>tid req w. mwStep (Mock_TriggerBuild tid req (mw_rnd w)) w),
      ad_GetBuildStatus = (\<lambda>tid bid. mwRead (Mock_GetBuildStatus tid bid)),
      ad_CreateAlias = (\<lambda>tid al. mwStep (Mock_CreateAlias tid al)),
      ad_DeleteAlias = (\<lambda>tid al. mwStep (Mock_DeleteAlias tid al)),
      ad_ListWarmPools = mwRead (\<lambda>a. Inr (Mock_ListWarmPools (gm_keys (m_warmPools a)) a)),
      ad_CreateWarmPool = (\<lambda>req w. mwStep (Mock_CreateWarmPool req (mw_rnd w) (mw_now w)) w),
      ad_GetWarmPool = (\<lambda>pid. mwRead (Mock_GetWarmPool pid)),
      ad_DeleteWarmPool = (\<lambda>pid. mwStep (Mock_DeleteWarmPool pid)),
      ad_UpdateWarmPoolSize = (\<lambda>pid n. mwStep (Mock_UpdateWarmPoolSize pid n)),
      ad_ListProcesses = (\<lambda>sid. mwRead (Mock_ListProcesses sid)),
      ad_KillProcess = (\<lambda>sid pid. mwStep (Mock_KillProcess sid pid)),
      ad_SendStdin = (\<lambda>sid pid d. mwRead (Mock_SendStdin sid pid d)),
      ad_CreateSnapshot = (\<lambda>sid req w. mwStep (Mock_CreateSnapshot sid req (mw_rnd w) (mw_now w)) w),
      ad_ListSnapshots = (\<lambda>sid. mwRead (Mock_ListSnapshots sid)),
      ad_ListPorts = (\<lambda>sid. mwRead (Mock_ListPorts sid)),
      ad_GetPortURL = (\<lambda>sid n. mwRead (Mock_GetPortURL sid n)),
      ad_GetAccessToken = (\<lambda>sid w. mwStep (Mock_GetAccessToken sid (mw_rnd w) (mw_now w) (mw_now w) (mw_now w)) w),
      ad_ValidateAccessToken = (\<lambda>sid tok w. mwStep (\<lambda>a. apfst Inr (Mock_ValidateAccessToken sid tok (mw_now w) a)) w),
      ad_SetEnvs = (\<lambda>sid envs. mwStep (Mock_SetEnvs sid envs)),
      ad_GetLogs = (\<lambda>sid w. mwRead (Mock_GetLogs sid (mw_now w)) w),
      ad_MoveFile = (\<lambda>sid src dst. mwRead (Mock_MoveFile sid src dst)),
      ad_CreateTag = (\<lambda>tid req w. mwStep (Mock_CreateTag tid req (mw_now w)) w),
      ad_ListTags = (\<lambda>tid. mwRead (Mock_ListTags tid)),
      ad_DeleteTag = (\<lambda>tid tn. mwStep (Mock_DeleteTag tid tn)),
      ad_GetEnvdEndpoint = (\<lambda>sid. mwRead (Mock_GetEnvdEndpoint sid))\<rparr>"

definition refused :: go_error where
  "refused = Errorf ''connection refused'' []"

definition down_adapter :: "string \<Rightarrow> 'w SandboxAdapter" where
  "down_adapter name =
     \<lparr>ad_Name = name, ad_HealthCheck = Pair (Some refused), ad_CreateSandbox = (\<lambda>_. Pair (Inl refused)),
      ad_ListSandboxes = (\<lambda>_. Pair (Inl refused)), ad_GetSandbox = (\<lambda>_. Pair (Inl refused)),
      ad_KillSandbox = (\<lambda>_. Pair (Some refused)), ad_PauseSandbox = (\<lambda>_. Pair (Some refused)),
      ad_ResumeSandbox = (\<lambda>_. Pair (Inl refused)), ad_SetTimeout = (\<lambda>_ _. Pair (Some refused)),
      ad_ExecuteCode = (\<lambda>_ _. Pair (Inl refused)), ad_RunCommand = (\<lambda>_ _. Pair (Inl refused)),
      ad_WriteFile = (\<lambda>_ _. Pair (Some refused)), ad_ReadFile = (\<lambda>_ _. Pair (Inl refused)),
      ad_UploadFile = (\<lambda>_ req. Pair (Some refused, fu_Reader req)), ad_DownloadFile = (\<lambda>_ _. Pair (Inl refused)),
      ad_ListFiles = (\<lambda>_ _. Pair (Inl refused)), ad_MakeDir = (\<lambda>_ _. Pair (Some refused)),
      ad_RemoveFile = (\<lambda>_ _. Pair (Some refused)), ad_ListTemplates = (\<lambda>_. Pair (Inl refused)),
      ad_GetTemplate = (\<lambda>_. Pair (Inl refused)), ad_CreateTemplate = (\<lambda>_. Pair (Inl refused)),
      ad_DeleteTemplate = (\<lambda>_. Pair (Some refused)), ad_TriggerBuild = (\<lambda>_ _. Pair (Inl refused)),
      ad_GetBuildStatus = (\<lambda>_ _. Pair (Inl refused)), ad_CreateAlias = (\<lambda>_ _. Pair (Some refused)),
      ad_DeleteAlias = (\<lambda>_ _. Pair (Some refused)), ad_ListWarmPools = Pair (Inl refused),
      ad_CreateWarmPool = (\<lambda>_. Pair (Inl refused)), ad_GetWarmPool = (\<lambda>_. Pair (Inl refused)),
      ad_DeleteWarmPool = (\<lambda>_. Pair (Some refused)), ad_UpdateWarmPoolSize = (\<lambda>_ _. Pair (Some refused)),
      ad_ListProcesses = (\<lambda>_. Pair (Inl refused)), ad_KillProcess = (\<lambda>_ _. Pair (Some refused)),
      ad_SendStdin = (\<lambda>_ _ _. Pair (Some refused)), ad_CreateSnapshot = (\<lambda>_ _. Pair (Inl refused)),
      ad_ListSnapshots = (\<lambda>_. Pair (Inl refused)), ad_ListPorts = (\<lambda>_. Pair (Inl refused)),
      ad_GetPortURL = (\<lambda>_ _. Pair (Inl refused)), ad_GetAccessToken = (\<lambda>_. Pair (Inl refused)),
      ad_ValidateAccessToken = (\<lambda>_ _. Pair (Inl refused)), ad_SetEnvs = (\<lambda>_ _. Pair (Some refused)),
      ad_GetLogs = (\<lambda>_. Pair (Inl refused)), ad_MoveFile = (\<lambda>_ _ _. Pair (Some refused)),
      ad_CreateTag = (\<lambda>_ _. Pair (Inl refused)), ad_ListTags = (\<lambda>_. Pair (Inl refused)),
      ad_DeleteTag = (\<lambda>_ _. Pair (Some refused)), ad_GetEnvdEndpoint = (\<lambda>_. Pair (Inl refused))\<rparr>"

definition mock_and_down :: "string list \<Rightarrow> mockWorld backends" where
  "mock_and_down downs =
     \<lparr>bk_adapters = (Mock_Name, mock_adapter) # map (\<lambda>n. (n, down_adapter n)) downs,
      bk_sandboxBackend = (\<lambda>w. m_registry (mw_mock w))\<rparr>"

definition mock_ok :: "mockWorld \<Rightarrow> bool" where
  "mock_ok w \<longleftrightarrow> mock_reachable (mw_mock w)"

definition mock_owner :: "mockWorld \<Rightarrow> string \<Rightarrow> string option" where
  "mock_owner w sid = (if gm_has (m_sandboxes (mw_mock w)) sid then Some Mock_Name else None)"

section \<open>The contract\<close>

lemma down_fails: "callOp (down_adapter n) sid opn w = (True, w)"
  by (cases opn) (simp_all add: down_adapter_def failed_def errRes_def)

lemmas mock_reader_defs = Mock_GetSandbox_def Mock_ExecuteCode_def Mock_RunCommand_def Mock_ReadFile_def
  Mock_DownloadFile_def Mock_ListFiles_def Mock_MakeDir_def Mock_RemoveFile_def Mock_MoveFile_def
  Mock_ListProcesses_def Mock_SendStdin_def Mock_ListSnapshots_def Mock_ListPorts_def Mock_GetPortURL_def
  Mock_GetLogs_def

lemma mock_foreign:
  "\<not> gm_has (m_sandboxes (mw_mock w)) sid \<Longrightarrow> callOp mock_adapter sid opn w = (True, w)"
  by (cases opn)
    (simp_all add: mock_adapter_def failed_def errRes_def mwRead_def mwStep_def mwUpload_def
      mock_reader_defs mock_writer_defs gm_has_def)

text \<open>Every call of the mock adapter about a sandbox is a step of the adapter, or changes
  nothing.\<close>

lemma snd_mwStep [simp]: "snd (mwStep f w) = w\<lparr>mw_mock := snd (f (mw_mock w))\<rparr>"
  by (simp add: mwStep_def split: prod.splits)

lemma snd_mwUpload [simp]: "snd (mwUpload sid req a) = snd (Mock_UploadFile sid req a)"
  by (simp add: mwUpload_def split: prod.splits)

lemma snd_errRes [simp]: "snd (errRes r) = snd r"
  by (auto simp: errRes_def split: prod.splits option.splits)

lemma snd_failed [simp]: "snd (failed r) = snd r"
  by (simp add: failed_def)

fun opCall :: "sandboxOp \<Rightarrow> string \<Rightarrow> mockWorld \<Rightarrow> mockCall option" where
  "opCall SbKill sid w = Some (CallKill sid)"
| "opCall SbPause sid w = Some (CallPause sid)"
| "opCall SbResume sid w = Some (CallResume sid)"
| "opCall (SbSetTimeout d) sid w = Some (CallSetTimeout sid d (mw_now w))"
| "opCall (SbWriteFile req) sid w = Some (CallWrite sid req)"
| "opCall (SbUploadFile req) sid w = Some (CallUpload sid req)"
| "opCall (SbKillProcess pid) sid w = Some (CallKillProcess sid pid)"
| "opCall (SbCreateSnapshot req) sid w = Some (CallCreateSnapshot sid req (mw_rnd w) (mw_now w))"
| "opCall SbGetAccessToken sid w = Some (CallGetAccessToken sid (mw_rnd w) (mw_now w) (mw_now w) (mw_now w))"
| "opCall (SbSetEnvs envs) sid w = Some (CallSetEnvs sid envs)"
| "opCall opn sid w = None"

lemma mock_call_step:
  "snd (callOp mock_adapter sid opn w) =
     (case opCall opn sid w of None \<Rightarrow> w | Some c \<Rightarrow> w\<lparr>mw_mock := mock_do c (mw_mock w)\<rparr>)"
  by (cases opn) (simp_all add: mock_adapter_def mwRead_def)

lemma mock_call_ok: "mock_ok w \<Longrightarrow> mock_ok (snd (callOp mock_adapter sid opn w))"
  by (simp add: mock_call_step mock_ok_def mock_reachable.step split: option.splits)

text \<open>No call but a successful kill takes the sandbox away.\<close>

lemma mock_do_keeps:
  "gm_has (m_sandboxes a) sid \<Longrightarrow> c \<noteq> CallKill sid \<Longrightarrow> gm_has (m_sandboxes (mock_do c a)) sid"
  by (cases c)
    (auto simp: mock_writer_defs Let_def gm_has_def split: option.splits sum.splits prod.splits if_splits)

lemma mock_failed_keeps:
  assumes "gm_has (m_sandboxes (mw_mock w)) sid" and "callOp mock_adapter sid opn w = (True, w')"
  shows "gm_has (m_sandboxes (mw_mock w')) sid"
proof -
  have w': "w' = snd (callOp mock_adapter sid opn w)" using assms(2) by simp
  show ?thesis
  proof (cases "opn = SbKill")
    case True
    with assms show ?thesis
      by (auto simp: mock_adapter_def failed_def errRes_def mwStep_def Mock_KillSandbox_def Let_def
          split: prod.splits option.splits if_splits)
  next
    case False
    then have "opCall opn sid w \<noteq> Some (CallKill sid)" by (cases opn) auto
    with assms(1) show ?thesis
      by (auto simp: w' mock_call_step intro: mock_do_keeps split: option.splits)
  qed
qed

lemma mock_get_lookup:
  "gm_get (bk_adapters (mock_and_down downs)) n = Some a \<longleftrightarrow>
   (n = Mock_Name \<and> a = mock_adapter) \<or> (n \<noteq> Mock_Name \<and> n \<in> set downs \<and> a = down_adapter n)"
  by (auto simp: mock_and_down_def gm_get_def map_of_map_restrict restrict_map_def split: if_splits)

lemma mock_down_owned:
  assumes "distinct downs" and "Mock_Name \<notin> set downs"
  shows "owned_backends (mock_and_down downs) mock_ok mock_owner"
proof
  show "gm_wf (bk_adapters (mock_and_down downs))"
    using assms by (simp add: mock_and_down_def gm_wf_def comp_def)
  fix w sid n a opn w' m req
  show "mock_owner w sid = Some n \<Longrightarrow> \<exists>a. gm_get (bk_adapters (mock_and_down downs)) n = Some a"
    by (auto simp: mock_owner_def mock_get_lookup split: if_splits)
  assume ok: "mock_ok w"
  show "bk_sandboxBackend (mock_and_down downs) w = Some m \<Longrightarrow> SandboxBackendMap_Get m sid = Some n \<Longrightarrow>
      mock_owner w sid = Some n"
    using mock_reachable_inv [of "mw_mock w"] ok
    by (fastforce simp: mock_and_down_def mock_ok_def mock_owner_def routed_def ids_match_def gm_has_def Mock_Name_def)
  assume a: "gm_get (bk_adapters (mock_and_down downs)) n = Some a"
  { assume "mock_owner w sid \<noteq> Some n"
    with a show "callOp a sid opn w = (True, w)"
      by (auto simp: mock_get_lookup mock_owner_def down_fails intro!: mock_foreign split: if_splits)
    with a \<open>mock_owner w sid \<noteq> Some n\<close> show "snd (fst (ad_UploadFile a sid req w)) = fu_Reader req"
      by (auto simp: mock_get_lookup mock_owner_def down_adapter_def mock_adapter_def mwStep_def mwUpload_def
          split: if_splits prod.splits)
  }
  assume own: "mock_owner w sid = Some n"
  with a have mock: "a = mock_adapter" "gm_has (m_sandboxes (mw_mock w)) sid" "n = Mock_Name"
    by (auto simp: mock_get_lookup mock_owner_def split: if_splits)
  show "callOp a sid SbGet w = (False, w)"
    using mock by (auto simp: mock_adapter_def failed_def mwRead_def Mock_GetSandbox_def gm_has_def)
  assume "callOp a sid opn w = (True, w')"
  with mock mock_failed_keeps [of w sid opn w'] mock_call_ok [OF ok, of sid opn]
  show "mock_ok w' \<and> mock_owner w' sid = Some n"
    by (simp add: mock_owner_def)
qed

text \<open>The default configuration: the in-memory adapter alone.\<close>

interpretation mb: owned_backends "mock_and_down []" mock_ok mock_owner
  by (rule mock_down_owned) simp_all

end
