(* ===== verification/Handler_Properties.thy ===== *)
theory Handler_Properties
  imports Handlers Mock_Backend
begin

text \<open>
  What the control-plane handlers promise.  The requests about one sandbox are the values
  of a datatype, with the handler of each; over backends that keep the contract of
  \<open>Adapter_Interface\<close> such a request has the effect it would have if the owner of the
  sandbox were the only backend.
\<close>

section \<open>Requests about one sandbox\<close>

datatype sandboxReq =
    ReqGet | ReqKill | ReqPause | ReqResume
  | ReqSetTimeout "SandboxTimeoutRequest decoded"
  | ReqExecuteCode "CodeExecRequest decoded"
  | ReqStartExecution time "CodeExecRequest decoded"
  | ReqRunCommand "dto_CommandRequest decoded"
  | ReqWriteFile "dto_FileWriteRequest decoded"
  | ReqReadFile string
  | ReqUploadFile string "(string \<times> string) decoded" uploadForm
  | ReqDownloadFile string
  | ReqListFiles "FileListRequest decoded option" string
  | ReqMakeDir "MakeDirRequest decoded"
  | ReqRemoveFile "FileRemoveRequest decoded"
  | ReqMoveFile "MoveFileRequest decoded"
  | ReqListProcesses
  | ReqKillProcess string
  | ReqSendStdin string "string decoded"
  | ReqCreateSnapshot "SnapshotRequest decoded"
  | ReqListSnapshots | ReqListPorts
  | ReqGetPortURL string
  | ReqGetAccessToken
  | ReqSetEnvs "string list" "SetEnvsRequest decoded"
  | ReqGetLogs

fun serveSandbox :: "'w backends \<Rightarrow> string list \<Rightarrow> string \<Rightarrow> sandboxReq \<Rightarrow> 'w \<Rightarrow> reply \<times> 'w" where
  "serveSandbox be ord sid ReqGet w = GetSandboxHandler be ord sid w"
| "serveSandbox be ord sid ReqKill w = KillSandboxHandler be ord sid w"
| "serveSandbox be ord sid ReqPause w = PauseSandboxHandler be ord sid w"
| "serveSandbox be ord sid ReqResume w = ResumeSandboxHandler be ord sid w"
| "serveSandbox be ord sid (ReqSetTimeout tb) w = SetTimeoutHandler be ord sid tb w"
| "serveSandbox be ord sid (ReqExecuteCode cb) w = ExecuteCodeHandler be ord sid cb w"
| "serveSandbox be ord sid (ReqStartExecution now cb) w = StartExecutionHandler be ord sid now cb w"
| "serveSandbox be ord sid (ReqRunCommand mb) w = RunCommandHandler be ord sid mb w"
| "serveSandbox be ord sid (ReqWriteFile wb) w = WriteFileHandler be ord sid wb w"
| "serveSandbox be ord sid (ReqReadFile p) w = ReadFileHandler be ord sid p w"
| "serveSandbox be ord sid (ReqUploadFile ct jb form) w = UploadFileHandler be ord sid ct jb form w"
| "serveSandbox be ord sid (ReqDownloadFile p) w = DownloadFileHandler be ord sid p w"
| "serveSandbox be ord sid (ReqListFiles lb q) w = ListFilesHandler be ord sid lb q w"
| "serveSandbox be ord sid (ReqMakeDir db) w = MakeDirHandler be ord sid db w"
| "serveSandbox be ord sid (ReqRemoveFile rb) w = RemoveFileHandler be ord sid rb w"
| "serveSandbox be ord sid (ReqMoveFile vb) w = MoveFileHandler be ord sid vb w"
| "serveSandbox be ord sid ReqListProcesses w = ListProcessesHandler be ord sid w"
| "serveSandbox be ord sid (ReqKillProcess pid) w = KillProcessHandler be ord sid pid w"
| "serveSandbox be ord sid (ReqSendStdin pid ib) w = SendStdinHandler be ord sid pid ib w"
| "serveSandbox be ord sid (ReqCreateSnapshot sb) w = CreateSnapshotHandler be ord sid sb w"
| "serveSandbox be ord sid ReqListSnapshots w = ListSnapshotsHandler be ord sid w"
| "serveSandbox be ord sid ReqListPorts w = ListPortsHandler be ord sid w"
| "serveSandbox be ord sid (ReqGetPortURL p) w = GetPortURLHandler be ord sid p w"
| "serveSandbox be ord sid ReqGetAccessToken w = GetAccessTokenHandler be ord sid w"
| "serveSandbox be ord sid (ReqSetEnvs eo eb) w = SetEnvsHandler be eo ord sid eb w"
| "serveSandbox be ord sid ReqGetLogs w = GetLogsHandler be ord sid w"

lemmas handler_defs = GetSandboxHandler_def KillSandboxHandler_def PauseSandboxHandler_def
  ResumeSandboxHandler_def SetTimeoutHandler_def ExecuteCodeHandler_def StartExecutionHandler_def
  RunCommandHandler_def WriteFileHandler_def writeLoop_def ReadFileHandler_def UploadFileHandler_def
  DownloadFileHandler_def ListFilesHandler_def MakeDirHandler_def RemoveFileHandler_def MoveFileHandler_def
  ListProcessesHandler_def KillProcessHandler_def SendStdinHandler_def CreateSnapshotHandler_def
  ListSnapshotsHandler_def ListPortsHandler_def GetPortURLHandler_def GetAccessTokenHandler_def
  SetEnvsHandler_def GetLogsHandler_def

text \<open>The backends with the owner of a sandbox alone.\<close>

definition ownerOnly :: "'w backends \<Rightarrow> string option \<Rightarrow> 'w backends" where
  "ownerOnly be own =
     be\<lparr>bk_adapters := (case own of
          None \<Rightarrow> []
        | Some n \<Rightarrow> (case gm_get (bk_adapters be) n of None \<Rightarrow> [] | Some a \<Rightarrow> [(n, a)]))\<rparr>"

definition soleOrder :: "'w backends \<Rightarrow> string list" where
  "soleOrder be = gm_keys (bk_adapters be)"

context owned_backends
begin

abbreviation sole :: "'w \<Rightarrow> string \<Rightarrow> 'w backends" where
  "sole w sid \<equiv> ownerOnly be (owner w sid)"

lemma sole_list:
  "Registry_List (regOf (sole w sid) w0) (soleOrder (sole w sid)) =
     (case owning w sid of None \<Rightarrow> [] | Some a \<Rightarrow> [a])"
  by (auto simp: soleOrder_def ownerOnly_def regOf_def Registry_List_def owning_def gm_keys_def gm_range_def
      gm_get_def List.map_filter_simps split: option.splits)

lemma sole_search:
  assumes "ok w" and "gm_order (bk_adapters be) ord" and "\<And>a w. failed (call a w) = callOp a sid opn w"
  shows "searching be ord call good bad w =
         searching (sole w sid) (soleOrder (sole w sid)) call good bad w"
  using firstSuccess_owner [OF assms(1,3,2)]
  by (auto simp: searching_def sole_list split: option.splits sum.splits prod.splits)

lemma sole_upload:
  assumes "ok w" and "gm_order (bk_adapters be) ord"
  shows "uploadLoop (Registry_List (regOf be w) ord) sid req w =
         uploadLoop (Registry_List (regOf (sole w sid) w) (soleOrder (sole w sid))) sid req w"
  using uploadLoop_owner [OF assms]
  by (auto simp: sole_list errRes_def split: option.splits prod.splits)

lemma sole_lookup: "sbmLookup (sole w sid) sid' w = Some a \<Longrightarrow> owning w sid = Some a"
  by (cases "owner w sid")
    (auto simp: sbmLookup_def Registry_Get_def regOf_def ownerOnly_def owning_def gm_get_def
      split: option.splits if_splits)

lemma sole_resolve:
  assumes "ok w" and "gm_order (bk_adapters be) ord"
  shows "resolveAdapterForSandbox be ord sid w =
         resolveAdapterForSandbox (sole w sid) (soleOrder (sole w sid)) sid w"
proof (cases "owning w sid")
  case None
  then have "sbmLookup (sole w sid) sid w = None" using sole_lookup [of w sid sid] by fastforce
  with None resolve_owner [OF assms] show ?thesis
    by (simp add: resolveAdapterForSandbox_def sole_list)
next
  case (Some a)
  then obtain n where "owner w sid = Some n" "gm_get (bk_adapters be) n = Some a"
    by (auto simp: owning_def bind_eq_Some_conv)
  from owner_knows [OF assms(1) this(2,1)] obtain s where "ad_GetSandbox a sid w = (Inr s, w)"
    by (cases "ad_GetSandbox a sid w"; cases "fst (ad_GetSandbox a sid w)") (auto simp: failed_def)
  with Some sole_lookup [of w sid sid] resolve_owner [OF assms] show ?thesis
    by (auto simp: resolveAdapterForSandbox_def sole_list split: option.splits)
qed

lemma sole_resolving:
  assumes "ok w" and "gm_order (bk_adapters be) ord"
  shows "resolving be ord sid call good bad w =
         resolving (sole w sid) (soleOrder (sole w sid)) sid call good bad w"
  by (simp add: resolving_def sole_resolve [OF assms])

lemma serve_owner:
  assumes "ok w" and "gm_order (bk_adapters be) ord"
  shows "serveSandbox be ord sid req w = serveSandbox (sole w sid) (soleOrder (sole w sid)) sid req w"
proof (cases req)
  case ReqPause
  then show ?thesis
    by (auto simp: handler_defs intro!: sole_search [OF assms, where opn = SbPause]
        split: sum.splits option.splits)
next
  case ReqResume
  then show ?thesis
    by (auto simp: handler_defs intro!: sole_search [OF assms, where opn = SbResume]
        split: sum.splits option.splits)
next
  case (ReqSetTimeout tb)
  then show ?thesis
    by (auto simp: handler_defs intro!: sole_search [OF assms, where opn = "SbSetTimeout d" for d]
        split: sum.splits option.splits)
next
  case (ReqStartExecution now cb)
  then show ?thesis
    by (auto simp: handler_defs intro!: sole_search [OF assms, where opn = "SbExecuteCode r" for r]
        split: sum.splits option.splits)
next
  case (ReqWriteFile wb)
  then show ?thesis
    by (auto simp: handler_defs intro!: sole_search [OF assms, where opn = "SbWriteFile r" for r]
        split: sum.splits option.splits)
next
  case (ReqReadFile p)
  then show ?thesis
    by (auto simp: handler_defs intro!: sole_search [OF assms, where opn = "SbReadFile p"]
        split: sum.splits option.splits)
next
  case (ReqUploadFile ct jb form)
  then show ?thesis
    by (auto simp: handler_defs sole_upload [OF assms]
        intro!: sole_search [OF assms, where opn = "SbWriteFile r" for r] split: sum.splits uploadForm.splits)
next
  case (ReqDownloadFile p)
  then show ?thesis
    by (auto simp: handler_defs intro!: sole_search [OF assms, where opn = "SbDownloadFile p"]
        split: sum.splits option.splits)
next
  case (ReqListFiles lb q)
  then show ?thesis
    by (auto simp: handler_defs intro!: sole_search [OF assms, where opn = "SbListFiles (listPath lb q)"]
        split: sum.splits option.splits)
next
  case (ReqMakeDir db)
  then show ?thesis
    by (auto simp: handler_defs intro!: sole_search [OF assms, where opn = "SbMakeDir p" for p]
        split: sum.splits option.splits)
next
  case (ReqRemoveFile rb)
  then show ?thesis
    by (auto simp: handler_defs intro!: sole_search [OF assms, where opn = "SbRemoveFile p" for p]
        split: sum.splits option.splits)
next
  case (ReqMoveFile vb)
  then show ?thesis
    by (auto simp: handler_defs intro!: sole_search [OF assms, where opn = "SbMoveFile p q" for p q]
        split: sum.splits option.splits)
next
  case ReqListProcesses
  then show ?thesis
    by (auto simp: handler_defs intro!: sole_search [OF assms, where opn = SbListProcesses]
        split: sum.splits option.splits)
next
  case (ReqKillProcess pid)
  then show ?thesis
    by (auto simp: handler_defs intro!: sole_search [OF assms, where opn = "SbKillProcess pid"]
        split: sum.splits option.splits)
next
  case (ReqSendStdin pid ib)
  then show ?thesis
    by (auto simp: handler_defs intro!: sole_search [OF assms, where opn = "SbSendStdin p d" for p d]
        split: sum.splits option.splits)
next
  case (ReqCreateSnapshot sb)
  then show ?thesis
    by (auto simp: handler_defs intro!: sole_search [OF assms, where opn = "SbCreateSnapshot r" for r]
        split: sum.splits option.splits)
next
  case ReqListSnapshots
  then show ?thesis
    by (auto simp: handler_defs intro!: sole_search [OF assms, where opn = SbListSnapshots]
        split: sum.splits option.splits)
next
  case ReqListPorts
  then show ?thesis
    by (auto simp: handler_defs intro!: sole_search [OF assms, where opn = SbListPorts]
        split: sum.splits option.splits)
next
  case (ReqGetPortURL p)
  then show ?thesis
    by (auto simp: handler_defs intro!: sole_search [OF assms, where opn = "SbGetPortURL n" for n]
        split: sum.splits option.splits)
next
  case ReqGetAccessToken
  then show ?thesis
    by (auto simp: handler_defs intro!: sole_search [OF assms, where opn = SbGetAccessToken]
        split: sum.splits option.splits)
next
  case (ReqSetEnvs eo eb)
  then show ?thesis
    by (auto simp: handler_defs intro!: sole_search [OF assms, where opn = "SbSetEnvs e" for e]
        split: sum.splits option.splits)
next
  case ReqGetLogs
  then show ?thesis
    by (auto simp: handler_defs intro!: sole_search [OF assms, where opn = SbGetLogs]
        split: sum.splits option.splits)
qed (auto simp: handler_defs sole_resolving [OF assms] split: sum.splits)

end

section \<open>Properties\<close>


definition demo_world :: mockWorld where
  "demo_world = \<lparr>mw_mock = demo_mock, mw_now = 0, mw_rnd = ''r''\<rparr>"

lemma demo_world_ok: "mock_ok demo_world"
  by (simp add: mock_ok_def demo_world_def demo_mock_reachable)

lemma demo_owned: "owned_backends (mock_and_down [''cloud'']) mock_ok mock_owner"
  by (rule mock_down_owned) (simp_all add: Mock_Name_def)

lemma demo_order: "gm_order (bk_adapters (mock_and_down [''cloud''])) [''cloud'', ''mock'']"
  by (auto simp: mock_and_down_def gm_order_def gm_keys_def Mock_Name_def)


lemma serve_nobody:
  assumes "bk_adapters be = []"
  shows "snd (serveSandbox be ord sid req w) = w \<and>
         rp_Status (fst (serveSandbox be ord sid req w)) \<in> {400, 404, 503}"
proof -
  have none: "Registry_List (regOf be w0) ord = []" "sbmLookup be sid w0 = None" for w0
    using assms
    by (auto simp: Registry_List_def regOf_def gm_range_def gm_get_def sbmLookup_def Registry_Get_def
        List.map_filter_def split: option.splits)
  then show ?thesis
    by (cases req)
      (auto simp: handler_defs searching_def resolving_def resolveAdapterForSandbox_def writeError_def
        badBody_def badBodyErr_def notFound_def fileMissing_def pathRequired_def processMissing_def
        split: sum.splits option.splits uploadForm.splits)
qed


lemma demo_unknown: "mock_owner demo_world ''mock-9'' = None"
  by (simp add: mock_owner_def demo_world_def demo_mock_def Mock_CreateSandbox_def Mock_New_def
      demo_create_def Let_def gm_has_def NewSandboxBackendMap_def)


subsection \<open>Environment names\<close>

definition envName :: "string \<Rightarrow> bool" where
  "envName k \<longleftrightarrow> k \<noteq> [] \<and> (\<forall>c \<in> set k. c \<noteq> CHR ''='' \<and> 0x20 \<le> (of_char c :: nat) \<and> (of_char c :: nat) \<noteq> 0x7F)"

lemma bad_key_iff: "k = [] \<or> list_ex badKeyChar k \<longleftrightarrow> \<not> envName k"
  unfolding envName_def badKeyChar_def list_ex_iff not_less [symmetric] by blast

lemma validateEnvKeys_iff:
  assumes "gm_order envs ord"
  shows "validateEnvKeys ord envs = None \<longleftrightarrow> (\<forall>k. gm_get envs k \<noteq> None \<longrightarrow> envName k)"
proof -
  have "validateEnvKeys ord envs = None \<longleftrightarrow> find (\<lambda>k. \<not> envName k) ord = None"
    by (simp add: validateEnvKeys_def gm_range_keys [OF assms] bad_key_iff split: option.splits)
  then show ?thesis
    unfolding find_None_iff using gm_order_get [OF assms] by blast
qed

lemma writeAdapterError_status:
  "rp_Status (writeAdapterError err fb) =
     (case err of StatusError n m \<Rightarrow> if 400 \<le> n \<and> n \<le> 599 then n else fb | Errorf f args \<Rightarrow> fb)"
  by (cases err) (simp_all add: writeAdapterError_def writeError_def Let_def)

text \<open>C5: Bad environment names stop at the gateway. When a name in the environment of a create
  request is empty or contains \<open>=\<close> or a control character, the request is answered with
  400 before a backend is selected or called, whatever order the map is visited in; a
  request whose names are good gets a 400 only when the backend itself answers 400.\<close>

theorem bad_env_names_stop_at_the_gateway:
  assumes "gm_order (dcr_EnvVars req) envOrd"
    and "CreateSandboxHandler be envOrd ord envdDomain rnd (Inr req) rt w = (rep, rt', w')"
  shows "if \<exists>k. gm_get (dcr_EnvVars req) k \<noteq> None \<and> \<not> envName k
         then rp_Status rep = 400 \<and> rt' = rt \<and> w' = w
         else rp_Status rep = 400 \<longrightarrow> 
           (\<exists>n a creq m. gm_get (bk_adapters be) n = Some a \<and> ad_CreateSandbox a creq w = (Inl (StatusError 400 m), w'))"
proof (cases "\<exists>k. gm_get (dcr_EnvVars req) k \<noteq> None \<and> \<not> envName k")
  case True
  then have "validateEnvKeys envOrd (dcr_EnvVars req) \<noteq> None"
    using validateEnvKeys_iff [OF assms(1)] by blast
  with True assms(2) show ?thesis by (auto simp: CreateSandboxHandler_def writeError_def)
next
  case False
  then have "validateEnvKeys envOrd (dcr_EnvVars req) = None"
    using validateEnvKeys_iff [OF assms(1)] by blast
  with assms(2) show ?thesis
    unfolding if_not_P [OF False]
    by (auto simp: CreateSandboxHandler_def writeError_def writeJSON_def writeAdapterError_status
        Registry_Get_def regOf_def split: prod.splits sum.splits option.splits go_error.splits if_splits) metis
qed

definition demo_request :: SandboxCreateRequest where
  "demo_request =
     \<lparr>dcr_TemplateID = ''base'', dcr_Alias = [], dcr_Timeout = 0, dcr_MemoryMB = 0, dcr_CPUCount = 0,
      dcr_DiskSizeMB = 0, dcr_StartCmd = [], dcr_EnvVars = [(''A=B'', ''1'')], dcr_Metadata = [],
      dcr_Secure = False, dcr_VolumeMounts = []\<rparr>"

text \<open>A router with a default backend and nothing else.\<close>

definition demo_routing :: "string list \<Rightarrow> string \<Rightarrow> mockWorld SandboxAdapter router" where
  "demo_routing downs b =
     \<lparr>ro_cfg = \<lparr>rc_DefaultBackend = b, rc_Strategy = ''static'', rc_Strategies = [],
        rc_HealthCheck = \<lparr>hc_Interval = 0, hc_Timeout = 0, hc_UnhealthyThreshold = 0, hc_HealthyThreshold = 0\<rparr>,
        rc_Failover = \<lparr>fo_Enabled = False, fo_Chain = []\<rparr>\<rparr>,
      ro_registry = regOf (mock_and_down downs) demo_world, ro_healthStatus = [], ro_rrCounter = 0\<rparr>"

lemma demo_select_cloud:
  "SelectBackend ad_Name (demo_routing [''cloud''] ''cloud'') rq ord =
     (Inr ''cloud'', demo_routing [''cloud''] ''cloud'')"
  by (simp add: SelectBackend_def demo_routing_def tryStrategies_def selectFallback_def regOf_def Registry_Get_def
      mock_and_down_def gm_get_def Mock_Name_def)

theorem bad_env_names_stop_at_the_gateway_witness:
  "rp_Status (fst (CreateSandboxHandler (mock_and_down []) [''A=B''] [''mock''] [] [] (Inr demo_request) (demo_routing [] ''mock'') demo_world)) = 400"
proof -
  have ord: "gm_order (dcr_EnvVars demo_request) [''A=B'']"
    by (simp add: gm_order_def gm_keys_def demo_request_def)
  have bad: "\<exists>k. gm_get (dcr_EnvVars demo_request) k \<noteq> None \<and> \<not> envName k"
    by (auto simp: demo_request_def gm_get_def envName_def)
  obtain rep rt' w' where
    "CreateSandboxHandler (mock_and_down []) [''A=B''] [''mock''] [] [] (Inr demo_request) (demo_routing [] ''mock'') demo_world = (rep, rt', w')"
    by (metis surj_pair)
  from bad_env_names_stop_at_the_gateway [OF ord this] this bad show ?thesis by simp
qed

subsection \<open>Error texts\<close>

text \<open>Backend failures are not leaked by the create handler. When a backend was selected and
  the reply is a server error, its status is at most 599 and its message is a fixed text:
  no part of the error of the backend reaches the client.\<close>

lemma create_hides_backend_errors:
  assumes "CreateSandboxHandler be envOrd ord envdDomain rnd (Inr req) rt w = (rep, rt', w')"
    and "SelectBackend ad_Name rt
           \<lparr>rq_TenantID = [], rq_TemplateID = dcr_TemplateID req, rq_Method = [], rq_Path = []\<rparr> ord = (Inr b, rt1)"
    and "500 \<le> rp_Status rep"
  shows "rp_Status rep \<le> 599 \<and> (\<exists>t. t \<noteq> [] \<and> rp_Body rep = ErrorBody (rp_Status rep) [Lit t])"
  using assms
  by (auto simp: CreateSandboxHandler_def writeError_def writeJSON_def writeAdapterError_def badBodyErr_def Let_def
      split: prod.splits sum.splits option.splits if_splits)

lemma create_hides_backend_errors_witness:
  "\<exists>t. rp_Body (fst (CreateSandboxHandler (mock_and_down [''cloud'']) [] [''cloud'', ''mock''] [] []
          (Inr (demo_request\<lparr>dcr_EnvVars := []\<rparr>)) (demo_routing [''cloud''] ''cloud'') demo_world)) = ErrorBody 500 [Lit t]"
proof -
  let ?out = "CreateSandboxHandler (mock_and_down [''cloud'']) [] [''cloud'', ''mock''] [] []
    (Inr (demo_request\<lparr>dcr_EnvVars := []\<rparr>)) (demo_routing [''cloud''] ''cloud'') demo_world"
  obtain rep rt' w' where out: "?out = (rep, rt', w')" by (metis surj_pair)
  then have st: "rp_Status rep = 500"
    by (auto simp: CreateSandboxHandler_def demo_select_cloud validateEnvKeys_def gm_range_def List.map_filter_def
        regOf_def Registry_Get_def mock_and_down_def gm_get_def Mock_Name_def down_adapter_def refused_def
        writeAdapterError_status)
  from create_hides_backend_errors [OF out demo_select_cloud] st out show ?thesis by auto
qed

text \<open>The handlers that kill a sandbox or run code answer 500 with the text of the backend's
  error, which \<open>writeAdapterError\<close> would have hidden.\<close>

lemma kill_leaks_backend_error:
  assumes "resolveAdapterForSandbox be ord sid w = (Inr a, w1)" and "ad_KillSandbox a sid w1 = (Some err, w2)"
  shows "KillSandboxHandler be ord sid w = (writeError 500 [ErrText err], w2)"
  using assms by (simp add: KillSandboxHandler_def resolving_def errRes_def)

text \<open>The same template is ready in the second version of the listing and not ready in the
  first.\<close>

lemma template_ready_disagrees: "ti_Ready (templateToDTO t) = False \<and> v2t_Ready (templateToV2 t) = True"
  by (simp add: templateToDTO_def templateToV2_def)

text \<open>An update of a template changes the reply but no backend: the next read shows the old
  values.\<close>

lemma firstSuccess_pure:
  assumes "\<And>a w. snd (call a w) = w"
  shows "snd (firstSuccess call as w) = w"
proof (induction as)
  case (Cons a as)
  obtain r where "call a w = (r, w)" using assms [of a w] by (metis prod.collapse)
  with Cons show ?case by (cases r) simp_all
qed simp

lemma update_template_is_not_stored:
  fixes be :: "'w backends"
  assumes "\<And>(a :: 'w SandboxAdapter) w. snd (ad_GetTemplate a tid w) = w"
  shows "snd (UpdateTemplateHandler be ord tid (Inr req) w) = w"
  using firstSuccess_pure [where call = "\<lambda>a. ad_GetTemplate a tid", OF assms, of "Registry_List (regOf be w) ord" w]
  by (auto simp: UpdateTemplateHandler_def searching_def split: prod.splits option.splits)

end
