(* ===== verification/Envd_Proxy.thy ===== *)
theory Envd_Proxy
  imports Handlers Auth Mock_Backend
begin

text \<open>
  The sandbox proxy (\<open>internal/server/envd_proxy.go\<close>): which sandbox a data-plane request is
  for, which backend serves it, the check of the access token, and the request that is
  forwarded to the sandbox daemon.

  \<open>url.Parse\<close> is the argument \<open>parse\<close>.  Of \<open>httputil.ReverseProxy\<close> the model has what the code
  relies on: the two hooks that rewrite the request, of which exactly one must be set,
  and the error handler.
\<close>

section \<open>The sandbox of a request\<close>

definition stripPort :: "string \<Rightarrow> string" where
  "stripPort host =
     (let idx = LastIndex host (CHR '':'') in if 0 < idx then take (nat idx) host else host)"

definition extractSandboxIDFromHost :: "string \<Rightarrow> string \<Rightarrow> string" where
  "extractSandboxIDFromHost host0 domain =
     (let host = stripPort host0
      in if domain = [] then []
         else if \<not> HasSuffix host (CHR ''.'' # domain) \<and> host \<noteq> domain then []
         else let prefix = TrimSuffix host (CHR ''.'' # domain)
              in if prefix = [] \<or> prefix = ''sandbox'' then []
                 else case cut_on (CHR ''-'') prefix of
                        Some (before, after) \<Rightarrow> after
                      | None \<Rightarrow> prefix)"

definition proxySandboxID :: "string \<Rightarrow> request \<Rightarrow> string" where
  "proxySandboxID envdDomain r =
     (let sandboxID = Header_Get r ''E2b-Sandbox-Id''
      in if sandboxID = [] then extractSandboxIDFromHost (rq_Host r) envdDomain else sandboxID)"

section \<open>Paths\<close>

definition singleJoiningSlash :: "string \<Rightarrow> string \<Rightarrow> string" where
  "singleJoiningSlash a b =
     (let aslash = HasSuffix a ''/''; bslash = HasPrefix b ''/''
      in if aslash \<and> bslash then a @ tl b
         else if \<not> aslash \<and> \<not> bslash then a @ ''/'' @ b
         else a @ b)"

section \<open>The reverse proxy\<close>

record targetURL =
  u_Scheme :: string
  u_Host :: string
  u_Path :: string

record outRequest =
  or_URL :: targetURL
  or_Host :: string
  or_Header :: strmap

record reverseProxy =
  pv_Director :: "(outRequest \<Rightarrow> outRequest) option"
  pv_Rewrite :: "(outRequest \<Rightarrow> outRequest) option"

definition setURL :: "targetURL \<Rightarrow> string \<Rightarrow> outRequest \<Rightarrow> outRequest" where
  "setURL target path out =
     out\<lparr>or_URL := \<lparr>u_Scheme = u_Scheme target, u_Host = u_Host target, u_Path = path\<rparr>\<rparr>"

text \<open>\<open>NewSingleHostReverseProxy\<close> sets the director, which joins the paths.\<close>

definition NewSingleHostReverseProxy :: "targetURL \<Rightarrow> reverseProxy" where
  "NewSingleHostReverseProxy target =
     \<lparr>pv_Director = Some (\<lambda>out. setURL target (singleJoiningSlash (u_Path target) (u_Path (or_URL out))) out),
      pv_Rewrite = None\<rparr>"

datatype proxyOutcome =
    ProxyError int message
  | ForwardTo outRequest

text \<open>\<open>ReverseProxy.ServeHTTP\<close> up to the round trip: a proxy with both hooks or with none calls
  the error handler, here the one that answers 502.\<close>

definition proxyServe :: "reverseProxy \<Rightarrow> outRequest \<Rightarrow> proxyOutcome" where
  "proxyServe p out =
     (case (pv_Director p, pv_Rewrite p) of
        (Some director, None) \<Rightarrow> ForwardTo (director out)
      | (None, Some rewrite) \<Rightarrow> ForwardTo (rewrite out)
      | _ \<Rightarrow> ProxyError 502 [Lit ''envd proxy error: '',
               ErrText (Errorf ''ReverseProxy must have exactly one of Director or Rewrite set'' [])])"

section \<open>The handler\<close>

definition incoming :: "request \<Rightarrow> outRequest" where
  "incoming r =
     \<lparr>or_URL = \<lparr>u_Scheme = [], u_Host = [], u_Path = request.rq_Path r\<rparr>, or_Host = rq_Host r, or_Header = rq_Header r\<rparr>"

text \<open>The hook the handler installs.\<close>

definition envdRewrite :: "targetURL \<Rightarrow> string \<Rightarrow> request \<Rightarrow> outRequest \<Rightarrow> outRequest" where
  "envdRewrite target token r out =
     (let out = setURL target (singleJoiningSlash (u_Path target) (request.rq_Path r)) out;
          out = out\<lparr>or_Host := u_Host target\<rparr>;
          out = out\<lparr>or_Header := gm_set (or_Header out) ''authorization'' (''Bearer '' @ token)\<rparr>;
          ct = Header_Get r ''Content-Type''
      in if ct = [] then out else out\<lparr>or_Header := gm_set (or_Header out) ''content-type'' ct\<rparr>)"

text \<open>Everything before the reverse proxy: an error, or the target and the checked token.\<close>

definition selectProxyBackend ::
  "'w backends \<Rightarrow> string list \<Rightarrow> string \<Rightarrow> 'w SandboxAdapter router \<Rightarrow> 'w \<Rightarrow>
   (int \<times> message + 'w SandboxAdapter) \<times> 'w SandboxAdapter router" where
  "selectProxyBackend be ord sandboxID rt w =
     (case sbmLookup be sandboxID w of
        Some a \<Rightarrow> (Inr a, rt)
      | None \<Rightarrow>
          (case SelectBackend ad_Name rt \<lparr>rq_TenantID = [], rq_TemplateID = [], rq_Method = [], rq_Path = []\<rparr> ord of
             (Inl err, rt') \<Rightarrow> (Inl (503, [ErrText err]), rt')
           | (Inr backendName, rt') \<Rightarrow>
               (case Registry_Get (regOf be w) backendName of
                  None \<Rightarrow> (Inl (503, [Lit ''backend not found'']), rt')
                | Some a \<Rightarrow> (Inr a, rt'))))"

definition checkProxyAccess ::
  "(string \<Rightarrow> targetURL option) \<Rightarrow> 'w SandboxAdapter \<Rightarrow> string \<Rightarrow> string \<Rightarrow> 'w \<Rightarrow>
   (int \<times> message + targetURL) \<times> 'w" where
  "checkProxyAccess parse a sandboxID token w =
     (if token = [] then (Inl (401, [Lit ''missing access token'']), w)
      else case ad_ValidateAccessToken a sandboxID token w of
             (Inl err, w') \<Rightarrow> (Inl (401, [Lit ''invalid access token'']), w')
           | (Inr False, w') \<Rightarrow> (Inl (401, [Lit ''invalid access token'']), w')
           | (Inr True, w') \<Rightarrow>
               (case ad_GetEnvdEndpoint a sandboxID w' of
                  (Inl err, w'') \<Rightarrow> (Inl (502, [ErrText err]), w'')
                | (Inr (envdURL, tok), w'') \<Rightarrow>
                    (case parse envdURL of
                       None \<Rightarrow> (Inl (500, [Lit ''invalid envd endpoint'']), w'')
                     | Some target \<Rightarrow> (Inr target, w''))))"

definition proxyAccess ::
  "(string \<Rightarrow> targetURL option) \<Rightarrow> 'w backends \<Rightarrow> string list \<Rightarrow> string \<Rightarrow> request \<Rightarrow> 'w SandboxAdapter router \<Rightarrow> 'w \<Rightarrow>
   (int \<times> message + targetURL) \<times> 'w SandboxAdapter router \<times> 'w" where
  "proxyAccess parse be ord envdDomain r rt w =
     (let sandboxID = proxySandboxID envdDomain r
      in if sandboxID = [] then (Inl (400, [Lit ''missing sandbox ID'']), rt, w)
         else case selectProxyBackend be ord sandboxID rt w of
                (Inl err, rt') \<Rightarrow> (Inl err, rt', w)
              | (Inr a, rt') \<Rightarrow>
                  (case checkProxyAccess parse a sandboxID (Header_Get r ''X-Access-Token'') w of
                     (res, w') \<Rightarrow> (res, rt', w')))"

definition envdProxyHandler ::
  "(string \<Rightarrow> targetURL option) \<Rightarrow> 'w backends \<Rightarrow> string list \<Rightarrow> string \<Rightarrow> request \<Rightarrow> 'w SandboxAdapter router \<Rightarrow> 'w \<Rightarrow>
   proxyOutcome \<times> 'w SandboxAdapter router \<times> 'w" where
  "envdProxyHandler parse be ord envdDomain r rt w =
     (case proxyAccess parse be ord envdDomain r rt w of
        (Inl (status, msg), rt', w') \<Rightarrow> (ProxyError status msg, rt', w')
      | (Inr target, rt', w') \<Rightarrow>
          (let proxy = (NewSingleHostReverseProxy target)\<lparr>pv_Rewrite := Some (envdRewrite target (Header_Get r ''X-Access-Token'') r)\<rparr>
           in (proxyServe proxy (incoming r), rt', w')))"

section \<open>Host names\<close>

lemma stripPort_none: "CHR '':'' \<notin> set host \<Longrightarrow> stripPort host = host"
  by (simp add: stripPort_def LastIndex_def)

lemma stripPort_port: "host \<noteq> [] \<Longrightarrow> CHR '':'' \<notin> set port \<Longrightarrow> stripPort (host @ CHR '':'' # port) = host"
  by (simp add: stripPort_def LastIndex_append)

lemma extract_prefix:
  assumes "stripPort host = pre @ CHR ''.'' # domain" and "domain \<noteq> []"
  shows "extractSandboxIDFromHost host domain =
         (if pre = [] \<or> pre = ''sandbox'' then []
          else case cut_on (CHR ''-'') pre of Some (before, after) \<Rightarrow> after | None \<Rightarrow> pre)"
  using assms by (simp add: extractSandboxIDFromHost_def Let_def)

text \<open>The sandbox id survives the host name. For the host names the SDK builds,
  \<open>{port}-{sandboxID}.{domain}\<close>, with or without the port of the gateway at the end, the proxy
  recovers the sandbox id, whatever the id is (dashes included), as long as the sandbox
  port has no dash and neither the id nor the domain contains a colon.\<close>

lemma host_name_roundtrip:
  assumes "CHR ''-'' \<notin> set port" and "domain \<noteq> []" and "CHR '':'' \<notin> set (port @ sandboxID @ domain)"
    and "gwPort = [] \<or> (\<exists>p. gwPort = CHR '':'' # p \<and> CHR '':'' \<notin> set p)"
  shows "extractSandboxIDFromHost (port @ ''-'' @ sandboxID @ ''.'' @ domain @ gwPort) domain = sandboxID"
proof -
  let ?pre = "port @ CHR ''-'' # sandboxID"
  have strip: "stripPort (?pre @ CHR ''.'' # domain @ gwPort) = ?pre @ CHR ''.'' # domain"
    using assms(3,4) stripPort_port [of "?pre @ CHR ''.'' # domain"]
    by (auto simp: stripPort_none)
  have "CHR ''-'' \<in> set ?pre" "CHR ''-'' \<notin> set ''sandbox''" by simp_all
  then have "?pre \<noteq> ''sandbox''" by metis
  moreover have "cut_on (CHR ''-'') ?pre = Some (port, sandboxID)"
    by (rule cut_on_append [OF assms(1)])
  ultimately show ?thesis
    using extract_prefix [OF strip assms(2)] by simp
qed

lemma host_name_roundtrip_witness:
  "extractSandboxIDFromHost (''49983'' @ ''-'' @ ''sb-1'' @ ''.'' @ ''e2b.app'' @ '':443'') ''e2b.app'' = ''sb-1''"
  by (rule host_name_roundtrip) simp_all

text \<open>Without a port prefix an id with a dash loses what precedes the dash, and the bare domain
  is taken for a sandbox of that name.\<close>

lemma dashed_id_is_cut: "extractSandboxIDFromHost ''mock-1.e2b.app'' ''e2b.app'' = ''1''"
  by code_simp

lemma bare_domain_is_a_sandbox: "extractSandboxIDFromHost ''e2bapp'' ''e2bapp'' = ''e2bapp''"
  by code_simp

section \<open>Paths\<close>

text \<open>Joining puts exactly one slash between the two parts, with every other character kept.\<close>

lemma singleJoiningSlash_parts:
  assumes "\<not> HasSuffix a ''/''" and "\<not> HasPrefix b ''/''" and "a' = a \<or> a' = a @ ''/''" and "b' = b \<or> b' = ''/'' @ b"
  shows "singleJoiningSlash a' b' = a @ ''/'' @ b"
proof -
  have "HasSuffix (a @ ''/'') ''/''" "HasPrefix (''/'' @ b) ''/''" by (simp_all add: HasPrefix_def)
  then show ?thesis
    using assms by (auto simp: singleJoiningSlash_def Let_def)
qed

section \<open>Access\<close>

text \<open>C6: Nothing is proxied without a valid token. When the proxy reaches the point where it
  forwards a request, the request names a sandbox and carries a token that the chosen
  backend, a registered one, has just declared valid for that sandbox, and the target is
  the endpoint that the same backend gave for the same sandbox.\<close>

theorem proxy_needs_valid_token:
  assumes "proxyAccess parse be ord envdDomain r rt w = (Inr target, rt', w')"
  shows "\<exists>n a sid w1 url tok.
           sid = proxySandboxID envdDomain r \<and> sid \<noteq> [] \<and>
           gm_get (bk_adapters be) n = Some a \<and>
           Header_Get r ''X-Access-Token'' \<noteq> [] \<and>
           ad_ValidateAccessToken a sid (Header_Get r ''X-Access-Token'') w = (Inr True, w1) \<and>
           ad_GetEnvdEndpoint a sid w1 = (Inr (url, tok), w') \<and> parse url = Some target"
proof -
  let ?sid = "proxySandboxID envdDomain r"
  obtain a where sel: "selectProxyBackend be ord ?sid rt w = (Inr a, rt')"
    and chk: "checkProxyAccess parse a ?sid (Header_Get r ''X-Access-Token'') w = (Inr target, w')"
    and sid: "?sid \<noteq> []"
    using assms by (auto simp: proxyAccess_def Let_def split: if_splits prod.splits sum.splits)
  from sel obtain n where "gm_get (bk_adapters be) n = Some a"
    by (auto simp: selectProxyBackend_def sbmLookup_def Registry_Get_def regOf_def
        split: option.splits prod.splits sum.splits)
  moreover from chk obtain w1 url tok where "Header_Get r ''X-Access-Token'' \<noteq> []"
    "ad_ValidateAccessToken a ?sid (Header_Get r ''X-Access-Token'') w = (Inr True, w1)"
    "ad_GetEnvdEndpoint a ?sid w1 = (Inr (url, tok), w')" "parse url = Some target"
    by (auto simp: checkProxyAccess_def split: if_splits prod.splits sum.splits option.splits bool.splits)
  ultimately show ?thesis using sid by blast
qed

text \<open>A backend with one sandbox daemon.\<close>

definition demo_envd :: "unit SandboxAdapter" where
  "demo_envd = (down_adapter ''k8s'')
     \<lparr>ad_ValidateAccessToken := (\<lambda>sid tok w. (Inr (tok = ''t0''), w)),
      ad_GetEnvdEndpoint := (\<lambda>sid w. (Inr (''http://10.0.0.7:49983'', []), w))\<rparr>"

definition demo_backends :: "unit backends" where
  "demo_backends = \<lparr>bk_adapters = [(''k8s'', demo_envd)], bk_sandboxBackend = (\<lambda>_. Some [(''sb1'', ''k8s'')])\<rparr>"

definition demo_target :: targetURL where
  "demo_target = \<lparr>u_Scheme = ''http'', u_Host = ''10.0.0.7:49983'', u_Path = []\<rparr>"

definition demo_call :: request where
  "demo_call =
     \<lparr>rq_Method = ''POST'', rq_Path = ''/process.Process/Start'', rq_Host = ''49983-sb1.e2b.app'', rq_RemoteAddr = [],
      rq_Header = [(''x-access-token'', ''t0'')], rq_Tenant = None\<rparr>"

lemma demo_headers: "Header_Get demo_call ''X-Access-Token'' = ''t0''" "Header_Get demo_call ''E2b-Sandbox-Id'' = []"
  by code_simp+

lemma demo_sandbox: "proxySandboxID ''e2b.app'' demo_call = ''sb1''"
proof -
  have "extractSandboxIDFromHost (rq_Host demo_call) ''e2b.app'' = ''sb1''" by code_simp
  then show ?thesis by (simp add: proxySandboxID_def demo_headers)
qed

theorem proxy_needs_valid_token_witness:
  "\<exists>n a w1. gm_get (bk_adapters demo_backends) n = Some a \<and>
     ad_ValidateAccessToken a ''sb1'' ''t0'' () = (Inr True, w1)"
proof -
  have "proxyAccess (\<lambda>_. Some demo_target) demo_backends [''k8s''] ''e2b.app'' demo_call rt () = (Inr demo_target, rt, ())" for rt
    by (simp add: proxyAccess_def demo_sandbox demo_headers selectProxyBackend_def sbmLookup_def
        demo_backends_def demo_envd_def SandboxBackendMap_Get_def Registry_Get_def regOf_def gm_get_def
        checkProxyAccess_def)
  from proxy_needs_valid_token [OF this] show ?thesis by (auto simp: demo_sandbox demo_headers)
qed

text \<open>The reverse proxy is made with a director and then given a second hook.  It refuses to
  serve with both, so a request that passes every check is still answered with 502: the
  proxy forwards nothing.\<close>

lemma proxy_never_forwards: "fst (envdProxyHandler parse be ord envdDomain r rt w) \<noteq> ForwardTo out"
  by (auto simp: envdProxyHandler_def proxyServe_def NewSingleHostReverseProxy_def Let_def
      split: prod.splits sum.splits)

end
