(* ===== verification/Data_Plane.thy ===== *)
theory Data_Plane
  imports Handler_Properties Envd_Proxy
begin

text \<open>
  The control plane and the data plane together: the sandbox and the token that the create
  handler returns (\<open>internal/api/v1/handlers.go\<close>), the token cache of the adapter, and the check
  in the sandbox proxy (\<open>internal/server/envd_proxy.go\<close>).
\<close>

section \<open>From creation to the data plane\<close>

text \<open>What the in-memory adapter does for a created sandbox: it is routed to the adapter, and
  its token is accepted at the time it was given.\<close>

lemma mock_created:
  assumes "mock_ok w" and "ad_CreateSandbox mock_adapter req w = (Inr sbx, w1)"
  shows "mock_ok w1 \<and> gm_has (m_sandboxes (mw_mock w1)) (sb_SandboxID sbx) \<and> sb_SandboxID sbx \<noteq> []"
proof -
  have "snd (ad_CreateSandbox mock_adapter req w) =
        w\<lparr>mw_mock := mock_do (CallCreate req (mw_now w) (mw_now w) (mw_now w)) (mw_mock w)\<rparr>"
    by (simp add: mock_adapter_def)
  with assms have "mock_ok w1"
    using mock_reachable.step [of "mw_mock w" "CallCreate req (mw_now w) (mw_now w) (mw_now w)"]
    by (simp add: mock_ok_def)
  moreover have "gm_has (m_sandboxes (mw_mock w1)) (sb_SandboxID sbx) \<and> sb_SandboxID sbx \<noteq> []"
    using assms(2)
    by (auto simp: mock_adapter_def mwStep_def Mock_CreateSandbox_def Let_def gm_has_def
        split: option.splits if_splits)
  ultimately show ?thesis by blast
qed

lemma mock_token_given:
  assumes "mock_ok w" and "gm_has (m_sandboxes (mw_mock w)) sid"
  obtains tk w1 where "ad_GetAccessToken mock_adapter sid w = (Inr tk, w1)" and "mock_ok w1"
    and "gm_has (m_sandboxes (mw_mock w1)) sid"
    and "fst (ad_ValidateAccessToken mock_adapter sid (at_Token tk) w1) = Inr True"
    and "mock_ok (snd (ad_ValidateAccessToken mock_adapter sid (at_Token tk) w1))"
    and "gm_has (m_sandboxes (mw_mock (snd (ad_ValidateAccessToken mock_adapter sid (at_Token tk) w1)))) sid"
proof -
  let ?c = "CallGetAccessToken sid (mw_rnd w) (mw_now w) (mw_now w) (mw_now w)"
  obtain r c where "Cache_Get (m_tokenCache (mw_mock w)) sid (mw_now w) = (r, c)" by fastforce
  then obtain tk a
    where tk: "Mock_GetAccessToken sid (mw_rnd w) (mw_now w) (mw_now w) (mw_now w) (mw_mock w) = (Inr tk, a)"
    using assms(2) by (cases r) (auto simp: Mock_GetAccessToken_def Let_def)
  define w1 where "w1 = w\<lparr>mw_mock := a\<rparr>"
  have a: "a = mock_do ?c (mw_mock w)" using tk by simp
  have g: "ad_GetAccessToken mock_adapter sid w = (Inr tk, w1)"
    using tk by (simp add: mock_adapter_def mwStep_def w1_def)
  have ok: "mock_ok w1" using assms(1) mock_reachable.step [of "mw_mock w" ?c] by (simp add: w1_def a mock_ok_def)
  have has: "gm_has (m_sandboxes (mw_mock w1)) sid"
    using mock_do_keeps [OF assms(2), of ?c] by (simp add: w1_def a)
  let ?v = "CallValidateAccessToken sid (at_Token tk) (mw_now w)"
  have v: "snd (ad_ValidateAccessToken mock_adapter sid (at_Token tk) w1) = w1\<lparr>mw_mock := mock_do ?v a\<rparr>"
    by (simp add: mock_adapter_def w1_def)
  have "fst (ad_ValidateAccessToken mock_adapter sid (at_Token tk) w1) = Inr True"
    using token_lifetime [OF _ tk, of "at_Token tk" "mw_now w"] assms(1)
    by (cases "Mock_ValidateAccessToken sid (at_Token tk) (mw_now w) a")
      (simp add: mock_ok_def mock_adapter_def mwStep_def w1_def)
  moreover have "mock_ok (w1\<lparr>mw_mock := mock_do ?v a\<rparr>)"
    using ok mock_reachable.step [of a ?v] by (simp add: w1_def mock_ok_def)
  moreover have "gm_has (m_sandboxes (mock_do ?v a)) sid"
    using mock_do_keeps [of a sid ?v] has by (simp add: w1_def)
  ultimately show thesis using that [OF g ok has] v by simp
qed

lemma mock_lookup:
  assumes "mock_ok w" and "gm_has (m_sandboxes (mw_mock w)) sid"
  shows "sbmLookup (mock_and_down downs) sid w = Some mock_adapter"
  using mock_reachable_inv [of "mw_mock w"] assms
  by (auto simp: sbmLookup_def mock_and_down_def mock_ok_def routed_def ids_match_def gm_has_def Registry_Get_def
      regOf_def gm_get_def Mock_Name_def)

text \<open>Only the in-memory adapter creates sandboxes.\<close>

lemma create_by_mock:
  assumes "CreateSandboxHandler (mock_and_down downs) envOrd ord dmn rnd reqBody rt w = (rep, rt1, w1)"
    and "rp_Body rep = CreatedBody resp"
  obtains creq sbx w0 tok where "ad_CreateSandbox mock_adapter creq w = (Inr sbx, w0)"
    and "ad_GetAccessToken mock_adapter (sb_SandboxID sbx) w0 = (tok, w1)"
    and "dcs_SandboxID resp = sb_SandboxID sbx"
    and "dcs_EnvdAccessToken resp = (case tok of Inr t \<Rightarrow> at_Token t | Inl err \<Rightarrow> generateEnvdToken rnd (sb_SandboxID sbx))"
proof -
  obtain n a creq sbx w0 tok where a: "gm_get (bk_adapters (mock_and_down downs)) n = Some a"
    and c: "ad_CreateSandbox a creq w = (Inr sbx, w0)"
    and t: "ad_GetAccessToken a (sb_SandboxID sbx) w0 = (tok, w1)" "dcs_SandboxID resp = sb_SandboxID sbx"
      "dcs_EnvdAccessToken resp = (case tok of Inr t \<Rightarrow> at_Token t | Inl err \<Rightarrow> generateEnvdToken rnd (sb_SandboxID sbx))"
    using assms
    by (auto simp: CreateSandboxHandler_def writeError_def writeJSON_def writeAdapterError_def badBodyErr_def Let_def
        Registry_Get_def regOf_def split: prod.splits sum.splits option.splits if_splits)
  from a c have "a = mock_adapter" by (auto simp: mock_get_lookup down_adapter_def)
  with c t that show thesis by blast
qed


definition openRequest :: "SandboxCreateResponse \<Rightarrow> request" where
  "openRequest resp =
     \<lparr>rq_Method = ''POST'', rq_Path = ''/process.Process/Start'', rq_Host = ''sandbox.e2b.app'', rq_RemoteAddr = [],
      rq_Header = [(''e2b-sandbox-id'', dcs_SandboxID resp), (''x-access-token'', dcs_EnvdAccessToken resp)],
      rq_Tenant = None\<rparr>"

lemma openRequest_headers:
  "Header_Get (openRequest resp) ''E2b-Sandbox-Id'' = dcs_SandboxID resp"
  "Header_Get (openRequest resp) ''X-Access-Token'' = dcs_EnvdAccessToken resp"
proof -
  have "ToLower ''E2b-Sandbox-Id'' = ''e2b-sandbox-id''" "ToLower ''X-Access-Token'' = ''x-access-token''"
    by code_simp+
  then show "Header_Get (openRequest resp) ''E2b-Sandbox-Id'' = dcs_SandboxID resp"
    "Header_Get (openRequest resp) ''X-Access-Token'' = dcs_EnvdAccessToken resp"
    by (simp_all add: Header_Get_def openRequest_def gm_get_or_def gm_get_def)
qed

lemma demo_select_mock:
  "SelectBackend ad_Name (demo_routing [] ''mock'') rq ord = (Inr ''mock'', demo_routing [] ''mock'')"
  by (simp add: SelectBackend_def demo_routing_def tryStrategies_def selectFallback_def regOf_def Registry_Get_def
      mock_and_down_def gm_get_def Mock_Name_def)

definition demo_good :: SandboxCreateRequest where
  "demo_good = demo_request\<lparr>dcr_EnvVars := []\<rparr>"

text \<open>The mock adapter always creates.\<close>

lemma demo_created:
  obtains resp rt1 w1 where
    "CreateSandboxHandler (mock_and_down []) [] [''mock''] ''e2b.app'' ''r'' (Inr demo_good) (demo_routing [] ''mock'') demo_world =
       (writeJSON 201 (CreatedBody resp), rt1, w1)"
    and "dcs_EnvdAccessToken resp \<noteq> []"
proof -
  obtain creq :: CreateSandboxRequest where creq: "creq =
     \<lparr>csr_TemplateID = dcr_TemplateID demo_good, csr_Timeout = dcr_Timeout demo_good, csr_Alias = dcr_Alias demo_good,
      csr_Envs = dcr_EnvVars demo_good, csr_Metadata = dcr_Metadata demo_good\<rparr>" by blast
  obtain sbx w0 where c: "ad_CreateSandbox mock_adapter creq demo_world = (Inr sbx, w0)"
    by (simp add: mock_adapter_def mwStep_def Mock_CreateSandbox_def Let_def)
  have w0: "mock_ok w0" "gm_has (m_sandboxes (mw_mock w0)) (sb_SandboxID sbx)"
    using mock_created [OF demo_world_ok c] by auto
  obtain tk w1 where t: "ad_GetAccessToken mock_adapter (sb_SandboxID sbx) w0 = (Inr tk, w1)"
    using mock_token_given [OF w0] by metis
  have "m_tokenCache (mw_mock w0) = Cache_New 10000 hour"
    using c by (auto simp: mock_adapter_def mwStep_def Mock_CreateSandbox_def Let_def demo_world_def demo_no_token
        split: option.splits if_splits)
  then have "at_Token tk \<noteq> []"
    using t w0(2)
    by (auto simp: mock_adapter_def mwStep_def Mock_GetAccessToken_def Let_def Cache_Get_def Cache_New_def)
  moreover have "validateEnvKeys [] (dcr_EnvVars demo_good) = None"
    by (simp add: validateEnvKeys_def demo_good_def gm_range_def List.map_filter_def)
  moreover have "Registry_Get (regOf (mock_and_down []) demo_world) ''mock'' = Some mock_adapter"
    by (simp add: Registry_Get_def regOf_def mock_and_down_def gm_get_def Mock_Name_def)
  ultimately have "\<exists>resp rt1 w1.
      CreateSandboxHandler (mock_and_down []) [] [''mock''] ''e2b.app'' ''r'' (Inr demo_good) (demo_routing [] ''mock'') demo_world =
        (writeJSON 201 (CreatedBody resp), rt1, w1) \<and> dcs_EnvdAccessToken resp = at_Token tk \<and> at_Token tk \<noteq> []"
    using c t creq
    by (simp add: CreateSandboxHandler_def demo_select_mock) (intro exI conjI, rule refl, simp)
  then show thesis using that by metis
qed


end
