(* ===== verification/Stream_Frames.thy ===== *)
theory Stream_Frames
  imports Gateway_Config "HOL-Library.Sublist"
begin

text \<open>
  The frames of the streaming layer (\<open>internal/streaming/frame.go\<close>, \<open>normalizer.go\<close>), bounded
  channels, and the contract of everything that moves frames from a channel to a sender:
  the locale \<open>frame_pipe\<close>.  A component keeps the contract when each of its steps is a move
  of an abstract first-in first-out pipe; in-order delivery without loss or duplication is
  then proved once, for the buffer, the buffered sender, the relay and the websocket pump.
\<close>

section \<open>Frames\<close>

abbreviation "FrameCodeExec \<equiv> ''code/exec''"
abbreviation "FrameStdin \<equiv> ''stdin''"
abbreviation "FrameCancel \<equiv> ''cancel''"
abbreviation "FrameStdout \<equiv> ''stdout''"
abbreviation "FrameStderr \<equiv> ''stderr''"
abbreviation "FrameResult \<equiv> ''result''"
abbreviation "FrameError \<equiv> ''error''"
abbreviation "FrameKeepAlive \<equiv> ''keepAlive''"
abbreviation "FrameTermData \<equiv> ''terminal:data''"

record StdoutData =
  so_Content :: string
  so_Timestamp :: time
  so_ExecutionID :: string

record ResultData =
  rs_ExitCode :: int
  rs_ExecutionID :: string
  rs_Duration :: rat

record ErrorData =
  ed_Code :: string
  ed_Message :: string

record CodeExecData =
  ce_Code :: string
  ce_Language :: string

record TermDataPayload =
  td_Data :: string
  td_Timestamp :: time

text \<open>What the \<open>Data\<close> field of a frame holds: nothing, a pointer to one of the payloads, or a
  decoded value.\<close>

datatype frameData =
    NoData
  | StdoutPayload StdoutData
  | ResultPayload ResultData
  | ErrorPayload ErrorData
  | TermPayload TermDataPayload
  | AnyData any

record Frame =
  fr_Type :: string
  fr_Data :: frameData

definition NewStdoutFrame :: "string \<Rightarrow> string \<Rightarrow> time \<Rightarrow> Frame" where
  "NewStdoutFrame content executionID now =
     \<lparr>fr_Type = FrameStdout,
      fr_Data = StdoutPayload \<lparr>so_Content = content, so_Timestamp = now, so_ExecutionID = executionID\<rparr>\<rparr>"

definition NewStderrFrame :: "string \<Rightarrow> string \<Rightarrow> time \<Rightarrow> Frame" where
  "NewStderrFrame content executionID now =
     \<lparr>fr_Type = FrameStderr,
      fr_Data = StdoutPayload \<lparr>so_Content = content, so_Timestamp = now, so_ExecutionID = executionID\<rparr>\<rparr>"

definition NewResultFrame :: "int \<Rightarrow> string \<Rightarrow> rat \<Rightarrow> Frame" where
  "NewResultFrame exitCode executionID dur =
     \<lparr>fr_Type = FrameResult,
      fr_Data = ResultPayload \<lparr>rs_ExitCode = exitCode, rs_ExecutionID = executionID, rs_Duration = dur\<rparr>\<rparr>"

definition NewErrorFrame :: "string \<Rightarrow> string \<Rightarrow> Frame" where
  "NewErrorFrame code msg =
     \<lparr>fr_Type = FrameError, fr_Data = ErrorPayload \<lparr>ed_Code = code, ed_Message = msg\<rparr>\<rparr>"

definition NewKeepAliveFrame :: Frame where
  "NewKeepAliveFrame = \<lparr>fr_Type = FrameKeepAlive, fr_Data = NoData\<rparr>"

definition NewTermDataFrame :: "string \<Rightarrow> time \<Rightarrow> Frame" where
  "NewTermDataFrame data now =
     \<lparr>fr_Type = FrameTermData, fr_Data = TermPayload \<lparr>td_Data = data, td_Timestamp = now\<rparr>\<rparr>"

section \<open>The normalizer\<close>

record Normalizer =
  nz_executionID :: string

definition NewNormalizer :: "string \<Rightarrow> Normalizer" where
  "NewNormalizer executionID = \<lparr>nz_executionID = executionID\<rparr>"

definition NormalizeStdout :: "Normalizer \<Rightarrow> string \<Rightarrow> time \<Rightarrow> Frame" where
  "NormalizeStdout n content now = NewStdoutFrame content (nz_executionID n) now"

definition NormalizeStderr :: "Normalizer \<Rightarrow> string \<Rightarrow> time \<Rightarrow> Frame" where
  "NormalizeStderr n content now = NewStderrFrame content (nz_executionID n) now"

definition NormalizeExitCode :: "Normalizer \<Rightarrow> int \<Rightarrow> rat \<Rightarrow> Frame" where
  "NormalizeExitCode n exitCode dur = NewResultFrame exitCode (nz_executionID n) dur"

definition NormalizeError :: "Normalizer \<Rightarrow> string \<Rightarrow> string \<Rightarrow> Frame" where
  "NormalizeError n code msg = NewErrorFrame code msg"

definition NormalizeTermData :: "Normalizer \<Rightarrow> string \<Rightarrow> time \<Rightarrow> Frame" where
  "NormalizeTermData n data now = NewTermDataFrame data now"

section \<open>Channels\<close>

text \<open>A buffered channel: its capacity and the values sent and not yet received.\<close>

record 'f chan =
  ch_cap :: int
  ch_queue :: "'f list"

definition makeChan :: "int \<Rightarrow> 'f chan" where
  "makeChan n = \<lparr>ch_cap = n, ch_queue = []\<rparr>"

definition chanLen :: "'f chan \<Rightarrow> int" where
  "chanLen c = int (length (ch_queue c))"

definition chanHasRoom :: "'f chan \<Rightarrow> bool" where
  "chanHasRoom c = (chanLen c < ch_cap c)"

definition chanPush :: "'f \<Rightarrow> 'f chan \<Rightarrow> 'f chan" where
  "chanPush f c = c\<lparr>ch_queue := ch_queue c @ [f]\<rparr>"

definition chanPop :: "'f chan \<Rightarrow> ('f \<times> 'f chan) option" where
  "chanPop c = (case ch_queue c of [] \<Rightarrow> None | f # q \<Rightarrow> Some (f, c\<lparr>ch_queue := q\<rparr>))"

lemma chan_simps [simp]:
  "ch_queue (makeChan n) = []" "ch_cap (makeChan n) = n"
  "ch_queue (chanPush f c) = ch_queue c @ [f]" "ch_cap (chanPush f c) = ch_cap c"
  by (simp_all add: makeChan_def chanPush_def)

lemma chanPop_Some: "chanPop c = Some (f, c') \<longleftrightarrow> ch_queue c = f # ch_queue c' \<and> ch_cap c' = ch_cap c"
  by (cases c; cases c') (auto simp: chanPop_def split: list.splits)

lemma chanPop_None: "chanPop c = None \<longleftrightarrow> ch_queue c = []"
  by (simp add: chanPop_def split: list.splits)

section \<open>The contract of a pipe\<close>

text \<open>
  What is observed of a pipe: the frames it accepted, the frames it handed to its sender, the
  frames a goroutine holds on the way, and the frames that wait in the channel.
\<close>

type_synonym 'f pipe = "'f list \<times> 'f list \<times> 'f list \<times> 'f list"

inductive pipe_move :: "'f pipe \<Rightarrow> 'f pipe \<Rightarrow> bool" where
  pipe_stay: "pipe_move p p"
| pipe_put: "pipe_move (acc, han, hel, q) (acc @ [f], han, hel, q @ [f])"
| pipe_take: "pipe_move (acc, han, [], f # q) (acc, han, [f], q)"
| pipe_hand: "pipe_move (acc, han, [f], q) (acc, han @ [f], [], q)"
| pipe_pass: "pipe_move (acc, han, [], f # q) (acc, han @ [f], [], q)"

lemmas pipe_moves = pipe_move.intros

inductive_cases pipe_moveE: "pipe_move (acc, han, hel, q) (acc', han', hel', q')"

fun pipe_ok :: "'f pipe \<Rightarrow> bool" where
  "pipe_ok (acc, han, hel, q) \<longleftrightarrow> acc = han @ hel @ q \<and> length hel \<le> 1"

lemma pipe_move_ok: "pipe_move p p' \<Longrightarrow> pipe_ok p \<Longrightarrow> pipe_ok p'"
  by (induction rule: pipe_move.induct) simp_all

lemma pipe_move_handed: "pipe_move p p' \<Longrightarrow> prefix (fst (snd p)) (fst (snd p'))"
  by (induction rule: pipe_move.induct) simp_all

locale frame_pipe =
  fixes inv :: "'s \<Rightarrow> bool"
    and step :: "'s \<Rightarrow> 's \<Rightarrow> bool"
    and obs :: "'s \<Rightarrow> 'f pipe"
  assumes step_inv: "inv s \<Longrightarrow> step s s' \<Longrightarrow> inv s'"
    and step_move: "inv s \<Longrightarrow> step s s' \<Longrightarrow> pipe_move (obs s) (obs s')"
begin

lemma reach_inv: "rtranclp step s s' \<Longrightarrow> inv s \<Longrightarrow> inv s'"
  by (induction rule: rtranclp_induct) (auto intro: step_inv)

lemma reach_ok: "rtranclp step s s' \<Longrightarrow> inv s \<Longrightarrow> pipe_ok (obs s) \<Longrightarrow> pipe_ok (obs s')"
proof (induction rule: rtranclp_induct)
  case (step y z)
  then show ?case using pipe_move_ok [OF step_move] reach_inv by blast
qed

lemma reach_handed: "rtranclp step s s' \<Longrightarrow> inv s \<Longrightarrow> prefix (fst (snd (obs s))) (fst (snd (obs s')))"
proof (induction rule: rtranclp_induct)
  case (step y z)
  then show ?case
    using pipe_move_handed [OF step_move [of y z]] reach_inv [of s y] by (meson prefix_order.trans)
qed simp

text \<open>From a state in which the pipe is empty and nothing has been observed, the frames handed
  on are at every moment the frames accepted so far, in that order, less those that are held
  or wait.\<close>

lemma in_order:
  assumes "inv s" and "obs s = ([], [], [], [])" and "rtranclp step s s'" and "obs s' = (acc, han, hel, q)"
  shows "acc = han @ hel @ q \<and> length hel \<le> 1"
  using reach_ok [OF assms(3,1)] assms(2,4) by simp

end

end
