(* ===== verification/Backpressure.thy ===== *)
theory Backpressure
  imports Stream_Frames
begin

text \<open>
  The backpressure buffer (\<open>internal/streaming/buffer.go\<close>) with its goroutines.

  The state is the struct plus what the goroutines hold: the channels made so far (\<open>Resize\<close>
  replaces the current one, older ones stay reachable from the goroutines that captured
  them), the drain goroutines with their program counters, and the goroutines that forward
  frames after a \<open>Resize\<close>.  Every access to a channel, an atomic counter or the critical
  section of the mutex is one step, so the steps of different goroutines interleave freely;
  only \<open>Write\<close> keeps the mutex over two steps (the length check and the send), and \<open>bp_mu\<close> is
  the frame of the \<open>Write\<close> that holds it.  Contexts are numbers.  Two lists record what is
  observed: the frames \<open>Write\<close> put into the channel, and the calls of the sender's
  \<open>SendFrame\<close> with their outcome, which the environment chooses.
\<close>

section \<open>State\<close>

record BufferStats =
  st_TotalReceived :: nat
  st_TotalSent :: nat
  st_TotalDropped :: nat

datatype 'f drainPC =
    DTop
  | DLen
  | DRecv nat
  | DSend 'f
  | DSent
  | DCheck
  | DFlush
  | DFlushing nat
  | DFlushSend nat 'f
  | DFlushSent nat
  | DReset
  | DWgDone
  | DGone

text \<open>\<open>drainLoop\<close> has no context, \<open>drainLoopCtx\<close> has one.\<close>

record 'f drainer =
  dr_ctx :: "nat option"
  dr_pc :: "'f drainPC"

record 'f forwarder =
  fw_src :: nat
  fw_dst :: nat
  fw_item :: "'f option"
  fw_gone :: bool

record 'f sendCall =
  sc_flush :: bool
  sc_frame :: 'f
  sc_ok :: bool

record 'f bpb =
  bp_highWatermark :: int
  bp_lowWatermark :: int
  bp_buffer :: nat
  bp_chans :: "'f chan list"
  bp_running :: bool
  bp_stopped :: bool
  bp_closing :: bool
  bp_stopCh :: bool
  bp_wg :: nat
  bp_stats :: BufferStats
  bp_mu :: "'f option"
  bp_drains :: "'f drainer list"
  bp_forwards :: "'f forwarder list"
  bp_cancelled :: "nat list"
  bp_accepted :: "'f list"
  bp_calls :: "'f sendCall list"

text \<open>A nil sender panics.\<close>

definition NewBackpressureBuffer :: "bool \<Rightarrow> int \<Rightarrow> int \<Rightarrow> int \<Rightarrow> 'f bpb option" where
  "NewBackpressureBuffer nilSender bufferCapacity highWM lowWM =
     (if nilSender then None
      else let bufferCapacity = (if bufferCapacity \<le> 0 then 1024 else bufferCapacity);
               highWM = (if highWM \<le> 0 \<or> highWM > bufferCapacity then bufferCapacity else highWM);
               lowWM = (if lowWM < 0 \<or> lowWM > highWM then highWM div 2 else lowWM)
           in Some \<lparr>bp_highWatermark = highWM, bp_lowWatermark = lowWM, bp_buffer = 0,
                    bp_chans = [makeChan bufferCapacity], bp_running = False, bp_stopped = False,
                    bp_closing = False, bp_stopCh = False, bp_wg = 0,
                    bp_stats = \<lparr>st_TotalReceived = 0, st_TotalSent = 0, st_TotalDropped = 0\<rparr>,
                    bp_mu = None, bp_drains = [], bp_forwards = [], bp_cancelled = [],
                    bp_accepted = [], bp_calls = []\<rparr>)"

definition theChan :: "'f bpb \<Rightarrow> 'f chan" where
  "theChan b = bp_chans b ! bp_buffer b"

definition spawnDrain :: "nat option \<Rightarrow> 'f bpb \<Rightarrow> 'f bpb" where
  "spawnDrain ctx b =
     b\<lparr>bp_running := True, bp_wg := bp_wg b + 1, bp_drains := bp_drains b @ [\<lparr>dr_ctx = ctx, dr_pc = DTop\<rparr>]\<rparr>"

section \<open>The operations\<close>

text \<open>
  \<open>Write\<close>.  The first step takes the mutex and either answers (an error when stopped, nothing
  when the frame is dropped) or goes on to the send with the mutex held; the send blocks
  while the channel is full.
\<close>

definition Write_enter :: "'f \<Rightarrow> 'f bpb \<Rightarrow> (go_error option \<times> 'f bpb) option" where
  "Write_enter frame b =
     (if bp_mu b \<noteq> None then None
      else if bp_stopped b then Some (Some (Errorf ''buffer is stopped'' []), b)
      else let b = b\<lparr>bp_stats := (bp_stats b)\<lparr>st_TotalReceived := st_TotalReceived (bp_stats b) + 1\<rparr>\<rparr>
           in if chanLen (theChan b) \<ge> bp_highWatermark b
              then Some (None, b\<lparr>bp_stats := (bp_stats b)\<lparr>st_TotalDropped := st_TotalDropped (bp_stats b) + 1\<rparr>\<rparr>)
              else Some (None, b\<lparr>bp_mu := Some frame\<rparr>))"

definition Write_send :: "'f bpb \<Rightarrow> 'f bpb option" where
  "Write_send b =
     (case bp_mu b of
        None \<Rightarrow> None
      | Some frame \<Rightarrow>
          if \<not> chanHasRoom (theChan b) then None
          else let b = b\<lparr>bp_chans := (bp_chans b)[bp_buffer b := chanPush frame (theChan b)],
                         bp_accepted := bp_accepted b @ [frame], bp_mu := None\<rparr>
               in Some (if bp_running b then b else spawnDrain None b))"

definition BP_Start :: "nat \<Rightarrow> 'f bpb \<Rightarrow> 'f bpb option" where
  "BP_Start ctx b =
     (if bp_mu b \<noteq> None then None
      else if bp_running b \<or> bp_stopped b then Some b
      else Some (spawnDrain (Some ctx) b))"

text \<open>\<open>Stop\<close>: the flag under the mutex, then the channel is closed, then it waits for the group.\<close>

definition Stop_enter :: "'f bpb \<Rightarrow> 'f bpb option" where
  "Stop_enter b =
     (if bp_mu b \<noteq> None then None
      else Some (if bp_stopped b then b else b\<lparr>bp_stopped := True, bp_closing := True\<rparr>))"

definition Stop_close :: "'f bpb \<Rightarrow> 'f bpb option" where
  "Stop_close b = (if bp_closing b then Some (b\<lparr>bp_stopCh := True, bp_closing := False\<rparr>) else None)"

text \<open>\<open>wg.Wait\<close> returns: the end of \<open>Stop\<close> and of \<open>WaitDrain\<close>.\<close>

definition drained :: "'f bpb \<Rightarrow> bool" where
  "drained b = (bp_wg b = 0)"

definition BP_Resize :: "int \<Rightarrow> int \<Rightarrow> int \<Rightarrow> 'f bpb \<Rightarrow> 'f bpb option" where
  "BP_Resize newCapacity newHighWM newLowWM b =
     (if bp_mu b \<noteq> None then None
      else let newCapacity = (if newCapacity \<le> 0 then ch_cap (theChan b) else newCapacity);
               newHighWM = (if newHighWM \<le> 0 \<or> newHighWM > newCapacity then newCapacity else newHighWM);
               newLowWM = (if newLowWM < 0 \<or> newLowWM > newHighWM then newHighWM div 2 else newLowWM);
               newBuf = length (bp_chans b);
               oldBuf = bp_buffer b
           in Some (b\<lparr>bp_chans := bp_chans b @ [makeChan newCapacity], bp_buffer := newBuf,
                      bp_highWatermark := newHighWM, bp_lowWatermark := newLowWM,
                      bp_forwards := bp_forwards b @ [\<lparr>fw_src = oldBuf, fw_dst = newBuf, fw_item = None, fw_gone = False\<rparr>]\<rparr>))"

definition BP_Stats :: "'f bpb \<Rightarrow> BufferStats" where
  "BP_Stats b = bp_stats b"

section \<open>The goroutines\<close>

definition stopRequested :: "'f drainer \<Rightarrow> 'f bpb \<Rightarrow> bool" where
  "stopRequested d b =
     (bp_stopCh b \<or> (case dr_ctx d of None \<Rightarrow> False | Some ctx \<Rightarrow> ctx \<in> set (bp_cancelled b)))"

definition countSent :: "'f bpb \<Rightarrow> 'f bpb" where
  "countSent b = b\<lparr>bp_stats := (bp_stats b)\<lparr>st_TotalSent := st_TotalSent (bp_stats b) + 1\<rparr>\<rparr>"

definition SendFrame :: "bool \<Rightarrow> 'f \<Rightarrow> bool \<Rightarrow> 'f bpb \<Rightarrow> 'f bpb" where
  "SendFrame flush frame ok b = b\<lparr>bp_calls := bp_calls b @ [\<lparr>sc_flush = flush, sc_frame = frame, sc_ok = ok\<rparr>]\<rparr>"

text \<open>
  One step of \<open>drainLoop\<close> or \<open>drainLoopCtx\<close>, \<open>flushRemaining\<close> included.  The argument \<open>go\<close> is the
  choice of the environment: in the receiving \<open>select\<close>, whether the channel or the stop
  signal is taken; at a call of the sender, whether it succeeds.  The result is None when
  the goroutine cannot take that step.
\<close>

definition drainStep :: "bool \<Rightarrow> 'f drainer \<Rightarrow> 'f bpb \<Rightarrow> ('f drainPC \<times> 'f bpb) option" where
  "drainStep go d b =
     (case dr_pc d of
        DTop \<Rightarrow> Some (if stopRequested d b then DFlush else DLen, b)
      | DLen \<Rightarrow>
          if bp_mu b \<noteq> None then None
          else Some (if chanLen (theChan b) = 0 then DReset else DRecv (bp_buffer b), b)
      | DRecv buf \<Rightarrow>
          if go then
            (case chanPop (bp_chans b ! buf) of
               None \<Rightarrow> None
             | Some (frame, c) \<Rightarrow> Some (DSend frame, b\<lparr>bp_chans := (bp_chans b)[buf := c]\<rparr>))
          else if stopRequested d b then Some (DFlush, b) else None
      | DSend frame \<Rightarrow> Some (if go then DSent else DReset, SendFrame False frame go b)
      | DSent \<Rightarrow> Some (DCheck, countSent b)
      | DCheck \<Rightarrow>
          if bp_mu b \<noteq> None then None
          else Some (if chanLen (theChan b) \<le> bp_lowWatermark b then DReset else DTop, b)
      | DFlush \<Rightarrow> if bp_mu b \<noteq> None then None else Some (DFlushing (bp_buffer b), b)
      | DFlushing buf \<Rightarrow>
          (case chanPop (bp_chans b ! buf) of
             None \<Rightarrow> Some (DReset, b)
           | Some (frame, c) \<Rightarrow> Some (DFlushSend buf frame, b\<lparr>bp_chans := (bp_chans b)[buf := c]\<rparr>))
      | DFlushSend buf frame \<Rightarrow> Some (DFlushSent buf, SendFrame True frame go b)
      | DFlushSent buf \<Rightarrow> Some (DFlushing buf, countSent b)
      | DReset \<Rightarrow> if bp_mu b \<noteq> None then None else Some (DWgDone, b\<lparr>bp_running := False\<rparr>)
      | DWgDone \<Rightarrow> Some (DGone, b\<lparr>bp_wg := bp_wg b - 1\<rparr>)
      | DGone \<Rightarrow> None)"

definition runDrain :: "nat \<Rightarrow> bool \<Rightarrow> 'f bpb \<Rightarrow> 'f bpb option" where
  "runDrain i go b =
     (if i < length (bp_drains b)
      then case drainStep go (bp_drains b ! i) b of
             None \<Rightarrow> None
           | Some (pc, b') \<Rightarrow> Some (b'\<lparr>bp_drains := (bp_drains b)[i := (bp_drains b ! i)\<lparr>dr_pc := pc\<rparr>]\<rparr>)
      else None)"

text \<open>One step of \<open>forwardItems\<close>: receive from the old channel, then send to the new one or count
  a drop.\<close>

definition forwardItems :: "'f forwarder \<Rightarrow> 'f bpb \<Rightarrow> ('f forwarder \<times> 'f bpb) option" where
  "forwardItems fw b =
     (if fw_gone fw then None
      else case fw_item fw of
             None \<Rightarrow>
               (case chanPop (bp_chans b ! fw_src fw) of
                  None \<Rightarrow> Some (fw\<lparr>fw_gone := True\<rparr>, b)
                | Some (item, c) \<Rightarrow> Some (fw\<lparr>fw_item := Some item\<rparr>, b\<lparr>bp_chans := (bp_chans b)[fw_src fw := c]\<rparr>))
           | Some item \<Rightarrow>
               let dst = bp_chans b ! fw_dst fw
               in Some (fw\<lparr>fw_item := None\<rparr>,
                    if chanHasRoom dst then b\<lparr>bp_chans := (bp_chans b)[fw_dst fw := chanPush item dst]\<rparr>
                    else b\<lparr>bp_stats := (bp_stats b)\<lparr>st_TotalDropped := st_TotalDropped (bp_stats b) + 1\<rparr>\<rparr>))"

definition runForward :: "nat \<Rightarrow> 'f bpb \<Rightarrow> 'f bpb option" where
  "runForward i b =
     (if i < length (bp_forwards b)
      then case forwardItems (bp_forwards b ! i) b of
             None \<Rightarrow> None
           | Some (fw, b') \<Rightarrow> Some (b'\<lparr>bp_forwards := (bp_forwards b)[i := fw]\<rparr>)
      else None)"

section \<open>The interleaved system\<close>

datatype 'f bpAction =
    AWrite 'f
  | AWriteSend
  | AStart nat
  | AStop
  | AStopClose
  | AResize int int int
  | ACancel nat
  | ADrain nat bool
  | AForward nat

fun bp_act :: "'f bpAction \<Rightarrow> 'f bpb \<Rightarrow> 'f bpb option" where
  "bp_act (AWrite f) b = map_option snd (Write_enter f b)"
| "bp_act AWriteSend b = Write_send b"
| "bp_act (AStart ctx) b = BP_Start ctx b"
| "bp_act AStop b = Stop_enter b"
| "bp_act AStopClose b = Stop_close b"
| "bp_act (AResize n h l) b = BP_Resize n h l b"
| "bp_act (ACancel ctx) b = Some (b\<lparr>bp_cancelled := ctx # bp_cancelled b\<rparr>)"
| "bp_act (ADrain i go) b = runDrain i go b"
| "bp_act (AForward i) b = runForward i b"

inductive bp_step :: "'f bpb \<Rightarrow> 'f bpb \<Rightarrow> bool" where
  bp_stepI: "bp_act a b = Some b' \<Longrightarrow> bp_step b b'"

inductive_cases bp_stepE: "bp_step b b'"

text \<open>The same without \<open>Resize\<close>.\<close>

fun isResize :: "'f bpAction \<Rightarrow> bool" where
  "isResize (AResize n h l) = True"
| "isResize _ = False"

inductive bp_step_fixed :: "'f bpb \<Rightarrow> 'f bpb \<Rightarrow> bool" where
  bp_step_fixedI: "\<not> isResize a \<Longrightarrow> bp_act a b = Some b' \<Longrightarrow> bp_step_fixed b b'"

inductive_cases bp_step_fixedE: "bp_step_fixed b b'"

text \<open>Several actions in a row, for concrete schedules.\<close>

fun bp_acts :: "'f bpAction list \<Rightarrow> 'f bpb \<Rightarrow> 'f bpb option" where
  "bp_acts [] b = Some b"
| "bp_acts (a # as) b = (case bp_act a b of None \<Rightarrow> None | Some b' \<Rightarrow> bp_acts as b')"

lemma bp_acts_reach: "bp_acts as b = Some b' \<Longrightarrow> rtranclp bp_step b b'"
  by (induction as arbitrary: b) (auto split: option.splits intro: bp_stepI converse_rtranclp_into_rtranclp)

lemma bp_acts_the: "bp_acts as b \<noteq> None \<Longrightarrow> rtranclp bp_step b (the (bp_acts as b))"
  by (rule bp_acts_reach) (simp add: option.collapse)

section \<open>Counting over the goroutines\<close>

fun active :: "'f drainPC \<Rightarrow> bool" where
  "active DWgDone = False"
| "active DGone = False"
| "active _ = True"

fun heldBy :: "'f drainPC \<Rightarrow> 'f list" where
  "heldBy (DSend f) = [f]"
| "heldBy (DFlushSend buf f) = [f]"
| "heldBy _ = []"

fun pendingCount :: "'f drainPC \<Rightarrow> nat" where
  "pendingCount DSent = 1"
| "pendingCount (DFlushSent buf) = 1"
| "pendingCount _ = 0"

fun pcChan :: "'f drainPC \<Rightarrow> nat" where
  "pcChan (DRecv buf) = buf"
| "pcChan (DFlushing buf) = buf"
| "pcChan (DFlushSend buf f) = buf"
| "pcChan (DFlushSent buf) = buf"
| "pcChan _ = 0"

text \<open>The sum of a measure over a list, and what an update of one element does to it.\<close>

definition total :: "('a \<Rightarrow> nat) \<Rightarrow> 'a list \<Rightarrow> nat" where
  "total f xs = sum_list (map f xs)"

lemma total_simps [simp]:
  "total f [] = 0" "total f (x # xs) = f x + total f xs" "total f (xs @ ys) = total f xs + total f ys"
  by (simp_all add: total_def)

lemma total_update:
  assumes "i < length xs"
  shows "total f (xs[i := x]) + f (xs ! i) = total f xs + f x"
proof -
  have "total f xs = total f (take i xs @ xs ! i # drop (Suc i) xs)"
    using id_take_nth_drop [OF assms] by simp
  moreover have "total f (xs[i := x]) = total f (take i xs @ x # drop (Suc i) xs)"
    using upd_conv_take_nth_drop [OF assms] by simp
  ultimately show ?thesis by simp
qed

lemma total_ge: "i < length xs \<Longrightarrow> f (xs ! i) \<le> total f xs"
  using total_update [of i xs f "xs ! i"] by (simp add: total_def) (metis elem_le_sum_list length_map nth_map)

lemma total_zero_iff: "total f xs = 0 \<longleftrightarrow> (\<forall>x \<in> set xs. f x = 0)"
  by (simp add: total_def)

text \<open>The frames that are on their way and the goroutines that are alive.\<close>

definition inChannels :: "'f bpb \<Rightarrow> nat" where
  "inChannels b = total (\<lambda>c. length (ch_queue c)) (bp_chans b)"

definition inFlight :: "'f bpb \<Rightarrow> nat" where
  "inFlight b =
     (case bp_mu b of None \<Rightarrow> 0 | Some f \<Rightarrow> 1) +
     total (\<lambda>d. length (heldBy (dr_pc d))) (bp_drains b) +
     total (\<lambda>fw. if fw_item fw = None then 0 else 1) (bp_forwards b)"

definition countedCalls :: "'f bpb \<Rightarrow> nat" where
  "countedCalls b = length (filter (\<lambda>c. sc_flush c \<or> sc_ok c) (bp_calls b))"

definition failedCalls :: "'f bpb \<Rightarrow> nat" where
  "failedCalls b = length (filter (\<lambda>c. \<not> (sc_flush c \<or> sc_ok c)) (bp_calls b))"

lemma calls_split: "length (bp_calls b) = countedCalls b + failedCalls b"
  unfolding countedCalls_def failedCalls_def by (rule sum_length_filter_compl [symmetric])

section \<open>The invariant\<close>

definition bp_scoped :: "'f bpb \<Rightarrow> bool" where
  "bp_scoped b \<longleftrightarrow>
     bp_buffer b < length (bp_chans b) \<and>
     (\<forall>d \<in> set (bp_drains b). pcChan (dr_pc d) < length (bp_chans b)) \<and>
     (\<forall>fw \<in> set (bp_forwards b). fw_src fw < length (bp_chans b) \<and> fw_dst fw < length (bp_chans b))"

definition bp_threads :: "'f bpb \<Rightarrow> bool" where
  "bp_threads b \<longleftrightarrow>
     total (\<lambda>d. of_bool (active (dr_pc d))) (bp_drains b) = of_bool (bp_running b) \<and>
     total (\<lambda>d. of_bool (dr_pc d \<noteq> DGone)) (bp_drains b) = bp_wg b"

definition bp_account :: "'f bpb \<Rightarrow> bool" where
  "bp_account b \<longleftrightarrow>
     st_TotalReceived (bp_stats b) =
       st_TotalDropped (bp_stats b) + inChannels b + inFlight b + length (bp_calls b) \<and>
     st_TotalSent (bp_stats b) + total (\<lambda>d. pendingCount (dr_pc d)) (bp_drains b) = countedCalls b"

definition bp_inv :: "'f bpb \<Rightarrow> bool" where
  "bp_inv b \<longleftrightarrow> bp_scoped b \<and> bp_threads b \<and> bp_account b"

lemmas bp_inv_defs = bp_inv_def bp_scoped_def bp_threads_def bp_account_def

lemmas count_defs = inChannels_def inFlight_def countedCalls_def

lemma new_buffer_inv: "NewBackpressureBuffer nilSender cap h l = Some b \<Longrightarrow> bp_inv b"
  by (auto simp: NewBackpressureBuffer_def bp_inv_defs count_defs Let_def split: if_splits)

lemma chans_update:
  assumes "i < length (bp_chans b)"
  shows "inChannels (b\<lparr>bp_chans := (bp_chans b)[i := c]\<rparr>) + length (ch_queue (bp_chans b ! i)) =
         inChannels b + length (ch_queue c)"
  using total_update [OF assms, of "\<lambda>c. length (ch_queue c)" c] by (simp add: inChannels_def)

lemma Write_enter_inv: "Write_enter f b = Some (r, b') \<Longrightarrow> bp_inv b \<Longrightarrow> bp_inv b'"
  by (auto simp: Write_enter_def bp_inv_defs count_defs Let_def split: if_splits)

lemma spawnDrain_inv: "bp_inv b \<Longrightarrow> \<not> bp_running b \<Longrightarrow> bp_inv (spawnDrain ctx b)"
  by (auto simp: spawnDrain_def bp_inv_defs count_defs)

lemma Write_send_inv:
  assumes "Write_send b = Some b'" and "bp_inv b"
  shows "bp_inv b'"
proof -
  obtain f where f: "bp_mu b = Some f"
    using assms(1) by (auto simp: Write_send_def split: option.splits)
  let ?b = "b\<lparr>bp_chans := (bp_chans b)[bp_buffer b := chanPush f (theChan b)],
              bp_accepted := bp_accepted b @ [f], bp_mu := None\<rparr>"
  have "bp_inv ?b"
    using assms(2) f total_update [of "bp_buffer b" "bp_chans b" "\<lambda>c. length (ch_queue c)" "chanPush f (theChan b)"]
    by (auto simp: bp_inv_defs count_defs theChan_def)
  then show ?thesis
    using assms(1) f spawnDrain_inv [of ?b] by (auto simp: Write_send_def Let_def split: if_splits)
qed

lemma control_inv:
  "BP_Start ctx b = Some b' \<Longrightarrow> bp_inv b \<Longrightarrow> bp_inv b'"
  "Stop_enter b = Some b' \<Longrightarrow> bp_inv b \<Longrightarrow> bp_inv b'"
  "Stop_close b = Some b' \<Longrightarrow> bp_inv b \<Longrightarrow> bp_inv b'"
  "bp_inv b \<Longrightarrow> bp_inv (b\<lparr>bp_cancelled := cs\<rparr>)"
     apply (auto simp: BP_Start_def split: if_splits intro: spawnDrain_inv)[1]
    apply (auto simp: Stop_enter_def bp_inv_defs count_defs split: if_splits)[1]
   apply (auto simp: Stop_close_def bp_inv_defs count_defs split: if_splits)[1]
  apply (auto simp: bp_inv_defs count_defs)[1]
  done

lemma Resize_inv:
  assumes "BP_Resize n h l b = Some b'" and "bp_inv b"
  shows "bp_inv b'"
proof -
  obtain n' h' l' where "b' = b\<lparr>bp_chans := bp_chans b @ [makeChan n'], bp_buffer := length (bp_chans b),
      bp_highWatermark := h', bp_lowWatermark := l',
      bp_forwards := bp_forwards b @ [\<lparr>fw_src = bp_buffer b, fw_dst = length (bp_chans b), fw_item = None, fw_gone = False\<rparr>]\<rparr>"
    using assms(1) unfolding BP_Resize_def Let_def
    by (cases "bp_mu b = None") (auto split del: if_split)
  then show ?thesis
    using assms(2) by (auto simp: bp_inv_defs count_defs)
qed

lemma forwardItems_cases:
  assumes "forwardItems fw b = Some (fw', b')"
  obtains (finish) "fw' = fw\<lparr>fw_gone := True\<rparr>" "b' = b"
  | (take) f c where "fw_item fw = None" "fw' = fw\<lparr>fw_item := Some f\<rparr>" "ch_queue (bp_chans b ! fw_src fw) = f # ch_queue c"
      "b' = b\<lparr>bp_chans := (bp_chans b)[fw_src fw := c]\<rparr>"
  | (put) f where "fw_item fw = Some f" "fw' = fw\<lparr>fw_item := None\<rparr>"
      "b' = b\<lparr>bp_chans := (bp_chans b)[fw_dst fw := chanPush f (bp_chans b ! fw_dst fw)]\<rparr>"
  | (lose) f where "fw_item fw = Some f" "fw' = fw\<lparr>fw_item := None\<rparr>"
      "b' = b\<lparr>bp_stats := (bp_stats b)\<lparr>st_TotalDropped := st_TotalDropped (bp_stats b) + 1\<rparr>\<rparr>"
proof (cases "fw_item fw")
  case None
  show thesis
  proof (cases "chanPop (bp_chans b ! fw_src fw)")
    case None
    with \<open>fw_item fw = None\<close> assms finish show thesis by (simp add: forwardItems_def split: if_splits)
  next
    case (Some p)
    then obtain f c where pop: "chanPop (bp_chans b ! fw_src fw) = Some (f, c)" by (cases p) simp
    moreover from pop have "ch_queue (bp_chans b ! fw_src fw) = f # ch_queue c" by (simp add: chanPop_Some)
    ultimately show thesis
      using \<open>fw_item fw = None\<close> assms take [of f c] by (simp add: forwardItems_def split: if_splits)
  qed
next
  case (Some f)
  with assms put lose show thesis
    by (cases "chanHasRoom (bp_chans b ! fw_dst fw)") (simp_all add: forwardItems_def Let_def split: if_splits)
qed

lemma forward_inv:
  assumes "runForward i b = Some b'" and "bp_inv b"
  shows "bp_inv b'"
proof -
  let ?fw = "bp_forwards b ! i"
  have i: "i < length (bp_forwards b)" using assms(1) by (simp add: runForward_def split: if_splits)
  obtain fw b1 where fw: "forwardItems ?fw b = Some (fw, b1)" and b': "b' = b1\<lparr>bp_forwards := (bp_forwards b)[i := fw]\<rparr>"
    using assms(1) i by (auto simp: runForward_def split: option.splits)
  have sc: "fw_src ?fw < length (bp_chans b)" "fw_dst ?fw < length (bp_chans b)"
    using assms(2) i by (auto simp: bp_inv_defs)
  have sub: "set ((bp_forwards b)[i := fw]) \<subseteq> insert fw (set (bp_forwards b))" by (rule set_update_subset_insert)
  note it = total_update [OF i, of "\<lambda>fw. if fw_item fw = None then 0 else (1 :: nat)" fw]
  from fw show ?thesis
  proof (cases rule: forwardItems_cases)
    case finish
    then show ?thesis using b' assms(2) it sub sc by (auto simp: bp_inv_defs count_defs)
  next
    case (take f c)
    then show ?thesis
      using b' assms(2) it sub sc total_update [OF sc(1), of "\<lambda>c. length (ch_queue c)" c]
      by (auto simp: bp_inv_defs count_defs)
  next
    case (put f)
    then show ?thesis
      using b' assms(2) it sub sc
        total_update [OF sc(2), of "\<lambda>c. length (ch_queue c)" "chanPush f (bp_chans b ! fw_dst ?fw)"]
      by (auto simp: bp_inv_defs count_defs)
  next
    case (lose f)
    then show ?thesis using b' assms(2) it sub sc by (auto simp: bp_inv_defs count_defs)
  qed
qed

text \<open>The steps of a drain goroutine, by what they do to the buffer.\<close>

lemma drainStep_cases:
  assumes "drainStep go d b = Some (pc, b')"
  obtains (jump) "b' = b" "active (dr_pc d)" "active pc" "heldBy (dr_pc d) = []" "heldBy pc = []"
      "pendingCount (dr_pc d) = 0" "pendingCount pc = 0" "pcChan pc \<in> {pcChan (dr_pc d), bp_buffer b, 0}"
  | (take) buf f c where "dr_pc d = DRecv buf \<and> pc = DSend f \<or> dr_pc d = DFlushing buf \<and> pc = DFlushSend buf f"
      "ch_queue (bp_chans b ! buf) = f # ch_queue c" "ch_cap c = ch_cap (bp_chans b ! buf)" "b' = b\<lparr>bp_chans := (bp_chans b)[buf := c]\<rparr>"
  | (send) f where "dr_pc d = DSend f" "pc = (if go then DSent else DReset)" "b' = SendFrame False f go b"
  | (flush) buf f where "dr_pc d = DFlushSend buf f" "pc = DFlushSent buf" "b' = SendFrame True f go b"
  | (counted) "pendingCount (dr_pc d) = 1" "active (dr_pc d)" "active pc" "heldBy (dr_pc d) = []" "heldBy pc = []"
      "pendingCount pc = 0" "pcChan pc = pcChan (dr_pc d)" "b' = countSent b"
  | (reset) "dr_pc d = DReset" "pc = DWgDone" "bp_mu b = None" "b' = b\<lparr>bp_running := False\<rparr>"
  | (gone) "dr_pc d = DWgDone" "pc = DGone" "b' = b\<lparr>bp_wg := bp_wg b - 1\<rparr>"
proof (cases "dr_pc d")
  case (DRecv buf)
  show thesis
  proof (cases go)
    case True
    with DRecv assms obtain f c where pop: "chanPop (bp_chans b ! buf) = Some (f, c)"
      and b': "pc = DSend f" "b' = b\<lparr>bp_chans := (bp_chans b)[buf := c]\<rparr>"
      by (auto simp: drainStep_def split: option.splits)
    from pop have "ch_queue (bp_chans b ! buf) = f # ch_queue c" "ch_cap c = ch_cap (bp_chans b ! buf)"
      by (simp_all add: chanPop_Some)
    with DRecv b' show thesis using take by blast
  next
    case False
    with DRecv assms jump show thesis by (simp add: drainStep_def split: if_splits)
  qed
next
  case (DFlushing buf)
  show thesis
  proof (cases "chanPop (bp_chans b ! buf)")
    case None
    with DFlushing assms jump show thesis by (simp add: drainStep_def)
  next
    case (Some p)
    then obtain f c where pop: "chanPop (bp_chans b ! buf) = Some (f, c)" by (cases p) simp
    moreover from pop have "ch_queue (bp_chans b ! buf) = f # ch_queue c" "ch_cap c = ch_cap (bp_chans b ! buf)"
      by (simp_all add: chanPop_Some)
    ultimately show thesis
      using DFlushing assms take [of buf f c] by (simp add: drainStep_def)
  qed
next
  case DTop
  with assms jump show thesis by (simp add: drainStep_def split: if_splits)
next
  case DLen
  with assms jump show thesis by (auto simp: drainStep_def split: if_splits)
next
  case (DSend f)
  with assms send show thesis by (simp add: drainStep_def)
next
  case DSent
  with assms counted show thesis by (simp add: drainStep_def)
next
  case DCheck
  with assms jump show thesis by (simp add: drainStep_def split: if_splits)
next
  case DFlush
  with assms jump show thesis by (auto simp: drainStep_def split: if_splits)
next
  case (DFlushSend buf f)
  with assms flush show thesis by (simp add: drainStep_def)
next
  case (DFlushSent buf)
  with assms counted show thesis by (auto simp: drainStep_def)
next
  case DReset
  with assms reset show thesis by (simp add: drainStep_def split: if_splits)
next
  case DWgDone
  with assms gone show thesis by (simp add: drainStep_def)
next
  case DGone
  with assms show thesis by (simp add: drainStep_def)
qed

lemma active_not_gone: "active pc \<Longrightarrow> pc \<noteq> DGone"
  by auto

lemma drain_inv:
  assumes "runDrain i go b = Some b'" and "bp_inv b"
  shows "bp_inv b'"
proof -
  let ?d = "bp_drains b ! i"
  have i: "i < length (bp_drains b)" using assms(1) by (simp add: runDrain_def split: if_splits)
  obtain pc b1 where st: "drainStep go ?d b = Some (pc, b1)"
    and b': "b' = b1\<lparr>bp_drains := (bp_drains b)[i := ?d\<lparr>dr_pc := pc\<rparr>]\<rparr>"
    using assms(1) i by (auto simp: runDrain_def split: option.splits)
  have sub: "set ((bp_drains b)[i := ?d\<lparr>dr_pc := pc\<rparr>]) \<subseteq> insert (?d\<lparr>dr_pc := pc\<rparr>) (set (bp_drains b))"
    by (rule set_update_subset_insert)
  have sc: "pcChan (dr_pc ?d) < length (bp_chans b)"
    using assms(2) i by (auto simp: bp_inv_defs)
  have pos: "bp_buffer b < length (bp_chans b)" "0 < length (bp_chans b)"
    using assms(2) by (auto simp: bp_inv_defs)
  from st have "pcChan pc < length (bp_chans b)"
    by (cases rule: drainStep_cases) (use sc pos in \<open>auto split: if_splits\<close>)
  then have scoped: "\<forall>d \<in> set ((bp_drains b)[i := ?d\<lparr>dr_pc := pc\<rparr>]). pcChan (dr_pc d) < length (bp_chans b)"
    using sub assms(2) by (auto simp: bp_inv_defs)
  note upd = total_update [OF i, of _ "?d\<lparr>dr_pc := pc\<rparr>"]
  note act = upd [of "\<lambda>d. of_bool (active (dr_pc d))"]
  note alive = upd [of "\<lambda>d. of_bool (dr_pc d \<noteq> DGone)"]
  note held = upd [of "\<lambda>d. length (heldBy (dr_pc d))"]
  note pend = upd [of "\<lambda>d. pendingCount (dr_pc d)"]
  note facts = assms(2) [unfolded bp_inv_defs count_defs] act alive held pend scoped sc
  from st show ?thesis
  proof (cases rule: drainStep_cases)
    case jump
    then show ?thesis using b' facts by (auto simp: bp_inv_defs count_defs active_not_gone)
  next
    case (take buf f c)
    then show ?thesis
      using b' facts total_update [of buf "bp_chans b" "\<lambda>c. length (ch_queue c)" c]
      by (auto simp: bp_inv_defs count_defs)
  next
    case (send f)
    then show ?thesis using b' facts by (auto simp: bp_inv_defs count_defs SendFrame_def)
  next
    case (flush buf f)
    then show ?thesis using b' facts by (auto simp: bp_inv_defs count_defs SendFrame_def)
  next
    case counted
    then show ?thesis using b' facts by (auto simp: bp_inv_defs count_defs countSent_def active_not_gone)
  next
    case reset
    then show ?thesis
      using b' facts by (auto simp: bp_inv_defs count_defs of_bool_def split: if_splits)
  next
    case gone
    then show ?thesis using b' facts by (auto simp: bp_inv_defs count_defs)
  qed
qed

lemma bp_step_inv: "bp_step b b' \<Longrightarrow> bp_inv b \<Longrightarrow> bp_inv b'"
proof (induction rule: bp_step.induct)
  case (bp_stepI a b b')
  then show ?case
    by (cases a) (auto intro: Write_enter_inv Write_send_inv control_inv Resize_inv drain_inv forward_inv)
qed

lemma bp_reach_inv: "rtranclp bp_step b b' \<Longrightarrow> bp_inv b \<Longrightarrow> bp_inv b'"
  by (induction rule: rtranclp_induct) (auto intro: bp_step_inv)

section \<open>Order\<close>

definition heldIn :: "'f drainer list \<Rightarrow> 'f list" where
  "heldIn ds = concat (map (\<lambda>d. heldBy (dr_pc d)) ds)"

definition heldFrames :: "'f bpb \<Rightarrow> 'f list" where
  "heldFrames b = heldIn (bp_drains b)"

lemma heldIn_simps [simp]:
  "heldIn [] = []" "heldIn (d # ds) = heldBy (dr_pc d) @ heldIn ds" "heldIn (xs @ ys) = heldIn xs @ heldIn ys"
  by (simp_all add: heldIn_def)

lemma heldIn_idle: "(\<And>d. d \<in> set ds \<Longrightarrow> heldBy (dr_pc d) = []) \<Longrightarrow> heldIn ds = []"
  by (simp add: heldIn_def)

definition bp_obs :: "'f bpb \<Rightarrow> 'f pipe" where
  "bp_obs b = (bp_accepted b, map sc_frame (bp_calls b), heldFrames b, ch_queue (theChan b))"

text \<open>Without \<open>Resize\<close> there is one channel, nothing is forwarded, and the channel has room for
  every frame below the high watermark.\<close>

definition bp_fixed :: "'f bpb \<Rightarrow> bool" where
  "bp_fixed b \<longleftrightarrow>
     bp_inv b \<and> bp_buffer b = 0 \<and> length (bp_chans b) = 1 \<and> bp_forwards b = [] \<and>
     chanLen (theChan b) + (if bp_mu b = None then 0 else 1) \<le> bp_highWatermark b \<and>
     bp_highWatermark b \<le> ch_cap (theChan b)"

lemma inactive_holds_nothing: "\<not> active pc \<Longrightarrow> heldBy pc = []"
  by (cases pc) auto

lemma held_update:
  assumes "bp_threads b" and "i < length (bp_drains b)" and "active (dr_pc (bp_drains b ! i))"
  shows "heldIn ((bp_drains b)[i := d']) = heldBy (dr_pc d')"
proof -
  let ?ds = "bp_drains b"
  let ?A = "\<lambda>d. of_bool (active (dr_pc d)) :: nat"
  have "total ?A ?ds = total ?A (take i ?ds @ ?ds ! i # drop (Suc i) ?ds)"
    using id_take_nth_drop [OF assms(2)] by simp
  then have "total ?A (take i ?ds) = 0" "total ?A (drop (Suc i) ?ds) = 0"
    using assms(1,3) by (auto simp: bp_threads_def of_bool_def split: if_splits)
  then have "heldIn (take i ?ds) = []"
    "heldIn (drop (Suc i) ?ds) = []"
    by (auto simp: total_zero_iff inactive_holds_nothing intro!: heldIn_idle)
  then show ?thesis
    by (simp add: upd_conv_take_nth_drop [OF assms(2)])
qed

lemma held_now:
  assumes "bp_threads b" and "i < length (bp_drains b)" and "active (dr_pc (bp_drains b ! i))"
  shows "heldFrames b = heldBy (dr_pc (bp_drains b ! i))"
  using held_update [OF assms, of "bp_drains b ! i"] by (simp add: heldFrames_def)

lemma heldFrames_simps [simp]:
  "heldFrames (spawnDrain ctx b) = heldFrames b"
  by (simp add: heldFrames_def spawnDrain_def)

lemma fixed_chan: "bp_fixed b \<Longrightarrow> theChan b = bp_chans b ! 0"
  by (simp add: bp_fixed_def theChan_def)

lemma drain_fixed:
  assumes "runDrain i go b = Some b'" and "bp_fixed b"
  shows "bp_fixed b' \<and> pipe_move (bp_obs b) (bp_obs b')"
proof -
  let ?d = "bp_drains b ! i"
  have i: "i < length (bp_drains b)" using assms(1) by (simp add: runDrain_def split: if_splits)
  obtain pc b1 where st: "drainStep go ?d b = Some (pc, b1)"
    and b': "b' = b1\<lparr>bp_drains := (bp_drains b)[i := ?d\<lparr>dr_pc := pc\<rparr>]\<rparr>"
    using assms(1) i by (auto simp: runDrain_def split: option.splits)
  have inv: "bp_inv b'" using drain_inv [OF assms(1)] assms(2) by (simp add: bp_fixed_def)
  have thr: "bp_threads b" and one: "bp_buffer b = 0" "length (bp_chans b) = 1" "bp_forwards b = []"
    and room: "chanLen (theChan b) + (if bp_mu b = None then 0 else 1) \<le> bp_highWatermark b"
      "bp_highWatermark b \<le> ch_cap (theChan b)"
    using assms(2) by (simp_all add: bp_fixed_def bp_inv_def)
  have buf: "pcChan (dr_pc ?d) = 0"
    using assms(2) i by (auto simp: bp_fixed_def bp_inv_defs)
  have act: "active (dr_pc ?d) \<Longrightarrow> heldFrames b = heldBy (dr_pc ?d)"
    "active (dr_pc ?d) \<Longrightarrow> heldIn ((bp_drains b)[i := ?d\<lparr>dr_pc := pc\<rparr>]) = heldBy pc"
    using held_now [OF thr i] held_update [OF thr i] by simp_all
  from st show ?thesis
  proof (cases rule: drainStep_cases)
    case jump
    then show ?thesis
      using b' inv one room act
      by (auto simp: bp_fixed_def bp_obs_def heldFrames_def theChan_def chanLen_def intro: pipe_stay)
  next
    case (take buf f c)
    have "buf = 0" "active (dr_pc ?d)" "heldBy (dr_pc ?d) = []" "heldBy pc = [f]" using take buf by auto
    then show ?thesis
      using b' inv one room act take
      by (auto simp: bp_fixed_def bp_obs_def heldFrames_def theChan_def chanLen_def intro: pipe_take)
  next
    case (send f)
    then show ?thesis
      using b' inv one room act
      by (auto simp: bp_fixed_def bp_obs_def heldFrames_def theChan_def chanLen_def SendFrame_def intro: pipe_hand)
  next
    case (flush buf f)
    then show ?thesis
      using b' inv one room act
      by (auto simp: bp_fixed_def bp_obs_def heldFrames_def theChan_def chanLen_def SendFrame_def intro: pipe_hand)
  next
    case counted
    then show ?thesis
      using b' inv one room act
      by (auto simp: bp_fixed_def bp_obs_def heldFrames_def theChan_def chanLen_def countSent_def intro: pipe_stay)
  next
    case reset
    then show ?thesis
      using b' inv one room act
      by (auto simp: bp_fixed_def bp_obs_def heldFrames_def theChan_def chanLen_def intro: pipe_stay)
  next
    case gone
    have "heldIn ((bp_drains b)[i := ?d\<lparr>dr_pc := pc\<rparr>]) = heldFrames b"
      using gone list_update_id [of "map (\<lambda>d. heldBy (dr_pc d)) (bp_drains b)" i] i
      by (simp add: heldFrames_def heldIn_def map_update)
    then show ?thesis
      using b' inv one room gone
      by (auto simp: bp_fixed_def bp_obs_def heldFrames_def theChan_def chanLen_def intro: pipe_stay)
  qed
qed

lemma fixed_step:
  assumes "bp_fixed b" and "bp_step_fixed b b'"
  shows "bp_fixed b' \<and> pipe_move (bp_obs b) (bp_obs b')"
proof -
  obtain a where a: "\<not> isResize a" "bp_act a b = Some b'"
    using assms(2) by (elim bp_step_fixedE)
  have inv: "bp_inv b'" using bp_step_inv [OF bp_stepI [OF a(2)]] assms(1) by (simp add: bp_fixed_def)
  note unfold = bp_fixed_def bp_obs_def heldFrames_def theChan_def chanLen_def
  show ?thesis
  proof (cases a)
    case (AWrite f)
    then show ?thesis
      using a assms(1) inv
      by (auto simp: Write_enter_def Let_def unfold intro: pipe_stay split: if_splits)
  next
    case AWriteSend
    then obtain f where f: "bp_mu b = Some f" "chanHasRoom (theChan b)"
      using a by (auto simp: Write_send_def split: option.splits if_splits)
    then show ?thesis
      using AWriteSend a assms(1) inv
      by (auto simp: Write_send_def Let_def spawnDrain_def unfold intro: pipe_put split: if_splits)
  next
    case (AStart ctx)
    then show ?thesis
      using a assms(1) inv by (auto simp: BP_Start_def spawnDrain_def unfold intro: pipe_stay split: if_splits)
  next
    case AStop
    then show ?thesis
      using a assms(1) inv by (auto simp: Stop_enter_def unfold intro: pipe_stay split: if_splits)
  next
    case AStopClose
    then show ?thesis
      using a assms(1) inv by (auto simp: Stop_close_def unfold intro: pipe_stay split: if_splits)
  next
    case (ACancel ctx)
    then show ?thesis
      using a assms(1) inv by (auto simp: unfold intro: pipe_stay)
  next
    case (ADrain i go)
    then show ?thesis using a drain_fixed assms(1) by simp
  next
    case (AForward i)
    then show ?thesis using a assms(1) by (simp add: runForward_def bp_fixed_def)
  qed (use a in simp)
qed

interpretation bpp: frame_pipe bp_fixed bp_step_fixed bp_obs
  by unfold_locales (use fixed_step in blast)+

lemma new_buffer_fixed:
  assumes "NewBackpressureBuffer nilSender cap h l = Some b"
  shows "bp_fixed b \<and> bp_obs b = ([], [], [], [])"
  using new_buffer_inv [OF assms] assms
  by (auto simp: NewBackpressureBuffer_def bp_fixed_def bp_obs_def heldFrames_def theChan_def chanLen_def Let_def
      split: if_splits)

lemma fixed_write_not_blocked: "bp_fixed b \<Longrightarrow> bp_mu b \<noteq> None \<Longrightarrow> Write_send b \<noteq> None"
  by (auto simp: bp_fixed_def Write_send_def chanHasRoom_def Let_def split: option.splits)

section \<open>Properties\<close>

text \<open>C9: Frames go through the buffer in order, none lost and none twice. In every interleaving
  of writers, drain goroutines, \<open>Start\<close>, \<open>Stop\<close> and cancellations (without \<open>Resize\<close>), the frames
  given to the sender are the frames the channel accepted, in the order of the writes, less
  at most one that a drain goroutine holds and those that still wait; the frames that wait
  never exceed the high watermark, and a \<open>Write\<close> that passed the length check is never
  blocked on the channel while it holds the mutex.\<close>

theorem backpressure_in_order:
  assumes "NewBackpressureBuffer nilSender cap h l = Some b0" and "rtranclp bp_step_fixed b0 b"
  shows "bp_accepted b = map sc_frame (bp_calls b) @ heldFrames b @ ch_queue (theChan b) \<and>
         length (heldFrames b) \<le> 1 \<and>
         chanLen (theChan b) \<le> bp_highWatermark b \<and>
         (bp_mu b \<noteq> None \<longrightarrow> Write_send b \<noteq> None)"
proof -
  have new: "bp_fixed b0" "bp_obs b0 = ([], [], [], [])" using new_buffer_fixed [OF assms(1)] by auto
  have fixed: "bp_fixed b" by (rule bpp.reach_inv [OF assms(2) new(1)])
  then have "chanLen (theChan b) \<le> bp_highWatermark b" by (simp add: bp_fixed_def split: if_splits)
  then show ?thesis
    using bpp.in_order [OF new assms(2)] fixed_write_not_blocked [OF fixed] by (simp add: bp_obs_def)
qed

lemma bp_acts_fixed:
  "bp_acts as b = Some b' \<Longrightarrow> list_all (\<lambda>a. \<not> isResize a) as \<Longrightarrow> rtranclp bp_step_fixed b b'"
  by (induction as arbitrary: b)
    (auto split: option.splits intro: bp_step_fixedI converse_rtranclp_into_rtranclp)

text \<open>Three frames are written, then the drain goroutine runs.\<close>

definition demo_buffer :: "nat bpb" where
  "demo_buffer = the (NewBackpressureBuffer False 4 4 2)"

definition demo_writes :: "nat bpAction list" where
  "demo_writes = [AWrite 1, AWriteSend, AWrite 2, AWriteSend, AWrite 3, AWriteSend]"

definition demo_drained :: "nat bpb" where
  "demo_drained = the (bp_acts (demo_writes @ replicate 8 (ADrain 0 True)) demo_buffer)"

lemma demo_buffer_new: "NewBackpressureBuffer False 4 4 2 = Some demo_buffer"
  by (simp add: demo_buffer_def NewBackpressureBuffer_def)

lemma demo_acts: "bp_acts (demo_writes @ replicate 8 (ADrain 0 True)) demo_buffer = Some demo_drained"
proof -
  have "bp_acts (demo_writes @ replicate 8 (ADrain 0 True)) demo_buffer \<noteq> None" by code_simp
  then show ?thesis by (simp add: demo_drained_def)
qed

lemma demo_state:
  "map sc_frame (bp_calls demo_drained) = [1]" "ch_queue (theChan demo_drained) = [2, 3]"
  "bp_wg demo_drained = 0" "bp_running demo_drained = False"
  by code_simp+

theorem backpressure_in_order_witness:
  "bp_accepted demo_drained = [1, 2, 3] \<and> heldFrames demo_drained = []"
proof -
  have "rtranclp bp_step_fixed demo_buffer demo_drained"
    by (rule bp_acts_fixed [OF demo_acts]) (simp add: demo_writes_def numeral_eq_Suc)
  moreover have "heldFrames demo_drained = []" by code_simp
  ultimately show ?thesis
    using backpressure_in_order [OF demo_buffer_new] by (simp add: demo_state)
qed

text \<open>C10: The statistics account for every frame. In every interleaving, \<open>Resize\<close> included, the
  frames received are the frames dropped, plus the frames waiting in a channel, plus the
  frames a goroutine holds, plus the calls of the sender; once no goroutine is left and no
  \<open>Write\<close> is under way, that is received = sent + dropped + waiting + the sends that failed
  outside the final flush.\<close>

theorem backpressure_stats_account:
  assumes "NewBackpressureBuffer nilSender cap h l = Some b0" and "rtranclp bp_step b0 b"
  shows "st_TotalReceived (BP_Stats b) =
           st_TotalDropped (BP_Stats b) + inChannels b + inFlight b + length (bp_calls b) \<and>
         (drained b \<and> inFlight b = 0 \<longrightarrow>
            st_TotalReceived (BP_Stats b) =
              st_TotalSent (BP_Stats b) + st_TotalDropped (BP_Stats b) + inChannels b + failedCalls b)"
proof -
  have inv: "bp_inv b" using bp_reach_inv [OF assms(2) new_buffer_inv [OF assms(1)]] .
  have "total (\<lambda>d. pendingCount (dr_pc d)) (bp_drains b) = 0" if "drained b"
    using inv that by (auto simp: bp_inv_defs drained_def total_zero_iff)
  then show ?thesis
    using inv calls_split [of b] by (auto simp: bp_inv_defs BP_Stats_def)
qed

text \<open>The frame that is written, sent and lost on a failing connection.\<close>

definition demo_failed :: "nat bpb" where
  "demo_failed =
     the (bp_acts [AWrite 1, AWriteSend, ADrain 0 True, ADrain 0 True, ADrain 0 True, ADrain 0 False,
                   ADrain 0 True, ADrain 0 True] demo_buffer)"

theorem backpressure_stats_account_witness:
  "st_TotalReceived (BP_Stats demo_failed) = 1 \<and> st_TotalSent (BP_Stats demo_failed) = 0 \<and> failedCalls demo_failed = 1"
proof -
  have "bp_acts [AWrite 1, AWriteSend, ADrain 0 True, ADrain 0 True, ADrain 0 True, ADrain 0 False,
      ADrain 0 True, ADrain 0 True] demo_buffer \<noteq> None" by code_simp
  then have "rtranclp bp_step demo_buffer demo_failed"
    unfolding demo_failed_def by (rule bp_acts_the)
  from backpressure_stats_account [OF demo_buffer_new this]
  have acc: "drained demo_failed \<and> inFlight demo_failed = 0 \<longrightarrow>
      st_TotalReceived (BP_Stats demo_failed) =
        st_TotalSent (BP_Stats demo_failed) + st_TotalDropped (BP_Stats demo_failed) + inChannels demo_failed + failedCalls demo_failed"
    by blast
  have "drained demo_failed" "inFlight demo_failed = 0" "inChannels demo_failed = 0"
    "st_TotalSent (BP_Stats demo_failed) = 0" "st_TotalDropped (BP_Stats demo_failed) = 0" "failedCalls demo_failed = 1"
    by code_simp+
  with acc show ?thesis by simp
qed

text \<open>A stopped buffer takes no frame, whether or not a goroutine still runs.\<close>

lemma stopped_unlocked:
  "rtranclp bp_step b0 b \<Longrightarrow> (bp_stopped b0 \<longrightarrow> bp_mu b0 = None) \<Longrightarrow> bp_stopped b \<longrightarrow> bp_mu b = None"
proof (induction rule: rtranclp_induct)
  case (step y z)
  from step(2) obtain a where "bp_act a y = Some z" by (elim bp_stepE)
  with step show ?case
    by (cases a)
      (auto simp: Write_enter_def Write_send_def BP_Start_def Stop_enter_def Stop_close_def BP_Resize_def spawnDrain_def
        runDrain_def runForward_def Let_def SendFrame_def countSent_def split: if_splits option.splits
        elim!: drainStep_cases forwardItems_cases)
qed simp

definition bp_ended :: "'f bpb \<Rightarrow> bool" where
  "bp_ended b \<longleftrightarrow> bp_stopped b \<and> bp_mu b = None \<and> (\<forall>d \<in> set (bp_drains b). dr_pc d = DGone)"

lemma ended_step:
  assumes "bp_step b b'" and "bp_ended b"
  shows "bp_ended b' \<and> bp_calls b' = bp_calls b \<and> bp_accepted b' = bp_accepted b"
proof -
  from assms(1) obtain a where a: "bp_act a b = Some b'" by (elim bp_stepE)
  have "runDrain i go b = None" for i go
    using assms(2) by (auto simp: runDrain_def drainStep_def bp_ended_def)
  then show ?thesis
    using a assms(2)
    by (cases a)
      (auto simp: bp_ended_def Write_enter_def Write_send_def BP_Start_def Stop_enter_def Stop_close_def BP_Resize_def
        runForward_def Let_def split: if_splits option.splits elim!: forwardItems_cases)
qed

lemma ended_steps:
  "rtranclp bp_step b b' \<Longrightarrow> bp_ended b \<Longrightarrow> bp_ended b' \<and> bp_calls b' = bp_calls b \<and> bp_accepted b' = bp_accepted b"
proof (induction rule: rtranclp_induct)
  case (step y z)
  then show ?case using ended_step [of y z] by auto
qed simp

text \<open>C11: \<open>Stop\<close> is final. Once \<open>Stop\<close> has returned (the buffer is stopped and its wait for the
  drain goroutines is over), the sender is never called again and no frame is accepted,
  whatever is called or runs afterwards: every later \<open>Write\<close> is answered with the error that
  the buffer is stopped.\<close>

theorem backpressure_stop_final:
  assumes "NewBackpressureBuffer nilSender cap h l = Some b0" and "rtranclp bp_step b0 b"
    and "bp_stopped b" and "drained b" and "rtranclp bp_step b b'"
  shows "bp_calls b' = bp_calls b \<and> bp_accepted b' = bp_accepted b \<and>
         Write_enter f b' = Some (Some (Errorf ''buffer is stopped'' []), b')"
proof -
  have inv: "bp_inv b" using bp_reach_inv [OF assms(2) new_buffer_inv [OF assms(1)]] .
  have "bp_mu b0 = None" using assms(1) by (auto simp: NewBackpressureBuffer_def Let_def split: if_splits)
  then have "bp_ended b"
    using inv assms(3,4) stopped_unlocked [OF assms(2)]
    by (auto simp: bp_ended_def bp_inv_defs drained_def total_zero_iff)
  then show ?thesis
    using ended_steps [OF assms(5)] by (auto simp: bp_ended_def Write_enter_def)
qed

definition demo_stopped :: "nat bpb" where
  "demo_stopped = the (bp_acts [AStop, AStopClose] demo_drained)"

lemma demo_stopped_reach: "rtranclp bp_step demo_buffer demo_stopped"
proof -
  have "bp_acts [AStop, AStopClose] demo_drained \<noteq> None" by code_simp
  then have "rtranclp bp_step demo_drained demo_stopped"
    unfolding demo_stopped_def by (rule bp_acts_the)
  with bp_acts_reach [OF demo_acts] show ?thesis by (rule rtranclp_trans)
qed

theorem backpressure_stop_final_witness:
  "Write_enter 4 demo_stopped = Some (Some (Errorf ''buffer is stopped'' []), demo_stopped)"
proof -
  have "bp_stopped demo_stopped" "drained demo_stopped" by code_simp+
  from backpressure_stop_final [OF demo_buffer_new demo_stopped_reach this rtranclp.rtrancl_refl] show ?thesis by blast
qed

section \<open>What the buffer does not do\<close>

text \<open>A drain goroutine ends at the low watermark; frames at or below it wait for the next \<open>Write\<close>,
  and a \<open>Stop\<close> that finds no goroutine running returns without sending them.\<close>

lemma tail_left_behind:
  "bp_accepted demo_stopped = [1, 2, 3]" "map sc_frame (bp_calls demo_stopped) = [1]"
  "drained demo_stopped" "bp_stopCh demo_stopped"
  by code_simp+

text \<open>A \<open>Resize\<close> between the length check of a drain goroutine and its receive strands it on the
  old channel once that has been emptied into the new one: it still counts as running, so
  no \<open>Write\<close> starts another, and nothing is sent until the buffer is stopped.\<close>

definition demo_stranded :: "nat bpb" where
  "demo_stranded =
     the (bp_acts [AWrite 1, AWriteSend, ADrain 0 True, ADrain 0 True, AResize 8 8 2,
                   AForward 0, AForward 0, AForward 0] demo_buffer)"

lemma resize_strands_drain:
  "runDrain 0 True demo_stranded = None" "runDrain 0 False demo_stranded = None"
  "bp_running demo_stranded" "ch_queue (theChan demo_stranded) = [1]" "bp_calls demo_stranded = []"
  by code_simp+

end
