(* ===== verification/Buffered_Sender.thy ===== *)
theory Buffered_Sender
  imports Stream_Frames
begin

text \<open>
  The buffered sender (\<open>BufferedSender\<close> in \<open>internal/streaming/frame.go\<close>): callers of \<open>Send\<close> and
  one goroutine that forwards to the underlying sender.  The outcome of a call of the
  underlying sender and the choice between two ready cases of a \<open>select\<close> are arguments.
\<close>

section \<open>State and operations\<close>

datatype 'f runPC =
    RunSelect
  | RunSend 'f
  | RunDrain
  | RunDrainSend 'f
  | RunEnd

record 'f bufferedSender =
  bs_ch :: "'f chan"
  bs_done :: bool
  bs_pc :: "'f runPC"
  bs_accepted :: "'f list"
  bs_calls :: "('f \<times> bool) list"

definition NewBufferedSender :: "int \<Rightarrow> 'f bufferedSender" where
  "NewBufferedSender bufferSize =
     (let bufferSize = (if bufferSize \<le> 0 then 1024 else bufferSize)
      in \<lparr>bs_ch = makeChan bufferSize, bs_done = False, bs_pc = RunSelect, bs_accepted = [], bs_calls = []\<rparr>)"

text \<open>With room in the channel and the sender closed, the runtime chooses (\<open>pick\<close>).\<close>

definition BufferedSender_Send :: "bool \<Rightarrow> 'f \<Rightarrow> 'f bufferedSender \<Rightarrow> go_error option \<times> 'f bufferedSender" where
  "BufferedSender_Send pick frame bs =
     (if chanHasRoom (bs_ch bs) \<and> (pick \<or> \<not> bs_done bs)
      then (None, bs\<lparr>bs_ch := chanPush frame (bs_ch bs), bs_accepted := bs_accepted bs @ [frame]\<rparr>)
      else if bs_done bs then (Some (Errorf ''sender closed'' []), bs)
      else (Some (Errorf ''buffer full, frame dropped'' []), bs))"

definition BufferedSender_Close :: "'f bufferedSender \<Rightarrow> 'f bufferedSender" where
  "BufferedSender_Close bs = bs\<lparr>bs_done := True\<rparr>"

text \<open>One step of \<open>run\<close>: \<open>go\<close> chooses the case of the first \<open>select\<close>, or is the outcome of a call.\<close>

definition BufferedSender_run :: "bool \<Rightarrow> 'f bufferedSender \<Rightarrow> 'f bufferedSender option" where
  "BufferedSender_run go bs =
     (case bs_pc bs of
        RunSelect \<Rightarrow>
          if go then
            (case chanPop (bs_ch bs) of
               None \<Rightarrow> None
             | Some (frame, c) \<Rightarrow> Some (bs\<lparr>bs_ch := c, bs_pc := RunSend frame\<rparr>))
          else if bs_done bs then Some (bs\<lparr>bs_pc := RunDrain\<rparr>) else None
      | RunSend frame \<Rightarrow>
          Some (bs\<lparr>bs_calls := bs_calls bs @ [(frame, go)], bs_pc := (if go then RunSelect else RunEnd)\<rparr>)
      | RunDrain \<Rightarrow>
          (case chanPop (bs_ch bs) of
             None \<Rightarrow> Some (bs\<lparr>bs_pc := RunEnd\<rparr>)
           | Some (frame, c) \<Rightarrow> Some (bs\<lparr>bs_ch := c, bs_pc := RunDrainSend frame\<rparr>))
      | RunDrainSend frame \<Rightarrow> Some (bs\<lparr>bs_calls := bs_calls bs @ [(frame, go)], bs_pc := RunDrain\<rparr>)
      | RunEnd \<Rightarrow> None)"

inductive bs_step :: "'f bufferedSender \<Rightarrow> 'f bufferedSender \<Rightarrow> bool" where
  bs_send: "bs_step bs (snd (BufferedSender_Send pick frame bs))"
| bs_close: "bs_step bs (BufferedSender_Close bs)"
| bs_run: "BufferedSender_run go bs = Some bs' \<Longrightarrow> bs_step bs bs'"

section \<open>Order\<close>

fun runHolds :: "'f runPC \<Rightarrow> 'f list" where
  "runHolds (RunSend f) = [f]"
| "runHolds (RunDrainSend f) = [f]"
| "runHolds _ = []"

definition bs_obs :: "'f bufferedSender \<Rightarrow> 'f pipe" where
  "bs_obs bs = (bs_accepted bs, map fst (bs_calls bs), runHolds (bs_pc bs), ch_queue (bs_ch bs))"

definition bs_ok :: "'f bufferedSender \<Rightarrow> bool" where
  "bs_ok bs \<longleftrightarrow> chanLen (bs_ch bs) \<le> ch_cap (bs_ch bs)"

lemma bs_step_pipe:
  assumes "bs_step bs bs'" and "bs_ok bs"
  shows "bs_ok bs' \<and> pipe_move (bs_obs bs) (bs_obs bs')"
  using assms
proof (cases rule: bs_step.cases)
  case (bs_send pick frame)
  then show ?thesis
    using assms(2)
    by (auto simp: BufferedSender_Send_def bs_obs_def bs_ok_def chanHasRoom_def chanLen_def intro: pipe_moves)
next
  case bs_close
  then show ?thesis
    using assms(2) by (auto simp: BufferedSender_Close_def bs_obs_def bs_ok_def intro: pipe_stay)
next
  case (bs_run go)
  then show ?thesis
  proof (cases "bs_pc bs")
    case RunSelect
    then show ?thesis
      using bs_run assms(2)
      by (auto simp: BufferedSender_run_def bs_ok_def chanPop_Some chanLen_def bs_obs_def
          split: if_splits option.splits intro: pipe_moves)
  next
    case RunDrain
    then show ?thesis
      using bs_run assms(2)
      by (auto simp: BufferedSender_run_def bs_ok_def chanPop_Some chanLen_def bs_obs_def
          split: if_splits option.splits intro: pipe_moves)
  qed (use bs_run assms(2) in \<open>auto simp: BufferedSender_run_def bs_ok_def bs_obs_def intro: pipe_moves\<close>)
qed

interpretation bsp: frame_pipe bs_ok bs_step bs_obs
  by unfold_locales (use bs_step_pipe in blast)+

lemma new_sender: "bs_ok (NewBufferedSender n) \<and> bs_obs (NewBufferedSender n) = ([], [], [], [])"
  by (auto simp: NewBufferedSender_def bs_ok_def bs_obs_def chanLen_def Let_def)

text \<open>A frame can be accepted after \<open>Close\<close>, and even after the goroutine has ended: \<open>Send\<close> answers
  without an error and the frame is never sent.\<close>

lemma send_after_close_is_lost:
  assumes "bs_pc bs = RunEnd" and "chanHasRoom (bs_ch bs)"
  shows "fst (BufferedSender_Send True f bs) = None \<and>
         BufferedSender_run go (snd (BufferedSender_Send True f bs)) = None"
  using assms by (simp add: BufferedSender_Send_def BufferedSender_run_def)

section \<open>The property\<close>

text \<open>The buffered sender is a first-in first-out queue of bounded length. Whatever the order in
  which callers send, the sender is closed and the goroutine runs, the frames passed to the
  underlying sender are the accepted frames in the order of acceptance, less at most one
  in the hands of the goroutine and those that wait, which never exceed the capacity; \<open>Send\<close>
  answers without an error exactly when it accepts the frame.\<close>

lemma buffered_sender_in_order:
  assumes "rtranclp bs_step (NewBufferedSender n) bs"
  shows "bs_accepted bs = map fst (bs_calls bs) @ runHolds (bs_pc bs) @ ch_queue (bs_ch bs) \<and>
         length (runHolds (bs_pc bs)) \<le> 1 \<and> chanLen (bs_ch bs) \<le> ch_cap (bs_ch bs) \<and>
         (fst (BufferedSender_Send pick f bs) = None \<longleftrightarrow>
            bs_accepted (snd (BufferedSender_Send pick f bs)) = bs_accepted bs @ [f])"
proof -
  have "bs_ok bs" using bsp.reach_inv [OF assms] new_sender by blast
  then show ?thesis
    using bsp.in_order [OF conjunct1 [OF new_sender] conjunct2 [OF new_sender] assms]
    by (simp add: bs_obs_def bs_ok_def BufferedSender_Send_def)
qed

definition demo_sender :: "nat bufferedSender" where
  "demo_sender =
     the (BufferedSender_run True (snd (BufferedSender_Send True 8 (snd (BufferedSender_Send True 7 (NewBufferedSender 2))))))"

lemma buffered_sender_in_order_witness:
  "bs_accepted demo_sender = map fst (bs_calls demo_sender) @ [7] @ [8]"
proof -
  let ?s = "snd (BufferedSender_Send True 8 (snd (BufferedSender_Send True 7 (NewBufferedSender 2))))"
  have "BufferedSender_run True ?s \<noteq> (None :: nat bufferedSender option)" by code_simp
  then have "bs_step ?s demo_sender" by (auto simp: demo_sender_def intro: bs_run)
  then have "rtranclp bs_step (NewBufferedSender 2) demo_sender"
    by (meson bs_send rtranclp.rtrancl_into_rtrancl rtranclp.rtrancl_refl)
  moreover have "runHolds (bs_pc demo_sender) = [7]" "ch_queue (bs_ch demo_sender) = [8]" by code_simp+
  ultimately show ?thesis using buffered_sender_in_order by metis
qed

end
