(* ===== verification/Relay.thy ===== *)
theory Relay
  imports Stream_Frames
begin

text \<open>
  The relay between a client and a backend (\<open>internal/streaming/relay.go\<close>): two bounded
  channels, the goroutine that forwards in both directions with keep-alive heartbeats, and
  the life cycle (\<open>Start\<close>, \<open>Stop\<close>).

  The two channels are local to the relay and no code closes them, so a receive always
  delivers a frame.  The environment chooses which ready case a \<open>select\<close> takes, when the ticker
  fires, when the context is cancelled, and the outcome of every call of a sender.
\<close>

section \<open>State\<close>

datatype relayPC =
    RTop
  | RSelect
  | RToBackend Frame
  | RToClient Frame
  | RBeatClient
  | RBeatBackend
  | RDrainClient
  | RDrainClientSend Frame
  | RDrainBackend
  | RDrainBackendSend Frame
  | REnd

text \<open>A call of a sender: a forwarded frame or a heartbeat.\<close>

datatype relayed = Forwarded Frame | Heartbeat Frame

record relay =
  re_fromClient :: "Frame chan"
  re_fromBackend :: "Frame chan"
  re_stopCh :: bool
  re_started :: bool
  re_stopped :: bool
  re_closing :: bool
  re_cancelled :: bool
  re_connections :: int
  re_keepAlive :: duration
  re_clientClosed :: bool
  re_backendClosed :: bool
  re_loop :: "relayPC option"
  re_inClient :: "Frame list"
  re_inBackend :: "Frame list"
  re_outClient :: "relayed list"
  re_outBackend :: "relayed list"

definition NewRelay :: "duration \<Rightarrow> relay" where
  "NewRelay keepAliveInterval =
     \<lparr>re_fromClient = makeChan 256, re_fromBackend = makeChan 256, re_stopCh = False, re_started = False,
      re_stopped = False, re_closing = False, re_cancelled = False, re_connections = 0,
      re_keepAlive = (if keepAliveInterval \<le> 0 then 30 * 10 ^ 9 else keepAliveInterval),
      re_clientClosed = False, re_backendClosed = False, re_loop = None,
      re_inClient = [], re_inBackend = [], re_outClient = [], re_outBackend = []\<rparr>"

section \<open>Operations\<close>

definition relayFull :: go_error where
  "relayFull = Errorf ''relay channel full, frame dropped'' []"

text \<open>\<open>SendFrame\<close> of the senders that \<open>ClientSender\<close> and \<open>BackendSender\<close> return.\<close>

definition ClientSender_SendFrame :: "Frame \<Rightarrow> relay \<Rightarrow> go_error option \<times> relay" where
  "ClientSender_SendFrame f r =
     (if chanHasRoom (re_fromClient r)
      then (None, r\<lparr>re_fromClient := chanPush f (re_fromClient r), re_inClient := re_inClient r @ [f]\<rparr>)
      else (Some relayFull, r))"

definition BackendSender_SendFrame :: "Frame \<Rightarrow> relay \<Rightarrow> go_error option \<times> relay" where
  "BackendSender_SendFrame f r =
     (if chanHasRoom (re_fromBackend r)
      then (None, r\<lparr>re_fromBackend := chanPush f (re_fromBackend r), re_inBackend := re_inBackend r @ [f]\<rparr>)
      else (Some relayFull, r))"

definition Relay_Start :: "relay \<Rightarrow> go_error option \<times> relay" where
  "Relay_Start r =
     (if re_started r then (Some (Errorf ''relay already started'' []), r)
      else if re_stopCh r then (Some (Errorf ''relay already stopped'' []), r)
      else (None, r\<lparr>re_started := True, re_connections := re_connections r + 1, re_loop := Some RTop\<rparr>))"

text \<open>The end of \<open>Start\<close>: the loop has returned.\<close>

definition Relay_StartReturns :: "relay \<Rightarrow> relay option" where
  "Relay_StartReturns r =
     (if re_loop r = Some REnd then Some (r\<lparr>re_loop := None, re_connections := re_connections r - 1\<rparr>) else None)"

definition Relay_Stop :: "relay \<Rightarrow> relay" where
  "Relay_Stop r = (if re_stopped r then r else r\<lparr>re_stopped := True, re_closing := True\<rparr>)"

definition Relay_StopClose :: "relay \<Rightarrow> relay option" where
  "Relay_StopClose r = (if re_closing r then Some (r\<lparr>re_stopCh := True, re_closing := False\<rparr>) else None)"

definition ActiveConnections :: "relay \<Rightarrow> int" where
  "ActiveConnections r = re_connections r"

section \<open>The forwarding loop\<close>

datatype relayCase = CaseClient | CaseBackend | CaseTick | CaseStop | CaseCtx

definition toBackend :: "relayed \<Rightarrow> relay \<Rightarrow> relay" where
  "toBackend x r = r\<lparr>re_outBackend := re_outBackend r @ [x]\<rparr>"

definition toClient :: "relayed \<Rightarrow> relay \<Rightarrow> relay" where
  "toClient x r = r\<lparr>re_outClient := re_outClient r @ [x]\<rparr>"

text \<open>The \<open>select\<close> of the loop: the chosen case, if it is ready.\<close>

definition relaySelect :: "relayCase \<Rightarrow> relay \<Rightarrow> (relayPC \<times> relay) option" where
  "relaySelect cs r =
     (case cs of
        CaseClient \<Rightarrow>
          (case chanPop (re_fromClient r) of
             None \<Rightarrow> None
           | Some (frame, c) \<Rightarrow> Some (RToBackend frame, r\<lparr>re_fromClient := c\<rparr>))
      | CaseBackend \<Rightarrow>
          (case chanPop (re_fromBackend r) of
             None \<Rightarrow> None
           | Some (frame, c) \<Rightarrow> Some (RToClient frame, r\<lparr>re_fromBackend := c\<rparr>))
      | CaseTick \<Rightarrow> if re_keepAlive r > 0 then Some (RBeatClient, r) else None
      | CaseStop \<Rightarrow> if re_stopCh r then Some (RDrainClient, r) else None
      | CaseCtx \<Rightarrow> if re_cancelled r then Some (RDrainClient, r) else None)"

text \<open>One step of \<open>relayLoop\<close>, \<open>drainChannel\<close> included; \<open>ok\<close> is the outcome of a call of a sender.\<close>

definition relayLoop :: "relayCase \<Rightarrow> bool \<Rightarrow> relayPC \<Rightarrow> relay \<Rightarrow> (relayPC \<times> relay) option" where
  "relayLoop cs ok pc r =
     (case pc of
        RTop \<Rightarrow> Some (if re_clientClosed r \<and> re_backendClosed r then REnd else RSelect, r)
      | RSelect \<Rightarrow> relaySelect cs r
      | RToBackend frame \<Rightarrow>
          Some (RTop, (toBackend (Forwarded frame) r)\<lparr>re_backendClosed := re_backendClosed r \<or> \<not> ok\<rparr>)
      | RToClient frame \<Rightarrow>
          Some (RTop, (toClient (Forwarded frame) r)\<lparr>re_clientClosed := re_clientClosed r \<or> \<not> ok\<rparr>)
      | RBeatClient \<Rightarrow> Some (RBeatBackend, toClient (Heartbeat NewKeepAliveFrame) r)
      | RBeatBackend \<Rightarrow> Some (RTop, toBackend (Heartbeat NewKeepAliveFrame) r)
      | RDrainClient \<Rightarrow>
          (case chanPop (re_fromClient r) of
             None \<Rightarrow> Some (RDrainBackend, r)
           | Some (frame, c) \<Rightarrow> Some (RDrainClientSend frame, r\<lparr>re_fromClient := c\<rparr>))
      | RDrainClientSend frame \<Rightarrow> Some (RDrainClient, toBackend (Forwarded frame) r)
      | RDrainBackend \<Rightarrow>
          (case chanPop (re_fromBackend r) of
             None \<Rightarrow> Some (REnd, r)
           | Some (frame, c) \<Rightarrow> Some (RDrainBackendSend frame, r\<lparr>re_fromBackend := c\<rparr>))
      | RDrainBackendSend frame \<Rightarrow> Some (RDrainBackend, toClient (Forwarded frame) r)
      | REnd \<Rightarrow> None)"

definition runLoop :: "relayCase \<Rightarrow> bool \<Rightarrow> relay \<Rightarrow> relay option" where
  "runLoop cs ok r =
     (case re_loop r of
        None \<Rightarrow> None
      | Some pc \<Rightarrow> map_option (\<lambda>(pc', r'). r'\<lparr>re_loop := Some pc'\<rparr>) (relayLoop cs ok pc r))"

inductive relay_step :: "relay \<Rightarrow> relay \<Rightarrow> bool" where
  relay_client: "relay_step r (snd (ClientSender_SendFrame f r))"
| relay_backend: "relay_step r (snd (BackendSender_SendFrame f r))"
| relay_start: "relay_step r (snd (Relay_Start r))"
| relay_stop: "relay_step r (Relay_Stop r)"
| relay_close: "Relay_StopClose r = Some r' \<Longrightarrow> relay_step r r'"
| relay_cancel: "relay_step r (r\<lparr>re_cancelled := True\<rparr>)"
| relay_loop: "runLoop cs ok r = Some r' \<Longrightarrow> relay_step r r'"
| relay_return: "Relay_StartReturns r = Some r' \<Longrightarrow> relay_step r r'"

section \<open>Order in both directions\<close>

fun forwarded :: "relayed list \<Rightarrow> Frame list" where
  "forwarded [] = []"
| "forwarded (Forwarded f # xs) = f # forwarded xs"
| "forwarded (Heartbeat f # xs) = forwarded xs"

lemma forwarded_append [simp]: "forwarded (xs @ ys) = forwarded xs @ forwarded ys"
  by (induction xs rule: forwarded.induct) simp_all

fun heldForBackend :: "relayPC option \<Rightarrow> Frame list" where
  "heldForBackend (Some (RToBackend f)) = [f]"
| "heldForBackend (Some (RDrainClientSend f)) = [f]"
| "heldForBackend _ = []"

fun heldForClient :: "relayPC option \<Rightarrow> Frame list" where
  "heldForClient (Some (RToClient f)) = [f]"
| "heldForClient (Some (RDrainBackendSend f)) = [f]"
| "heldForClient _ = []"

definition upstream :: "relay \<Rightarrow> Frame pipe" where
  "upstream r = (re_inClient r, forwarded (re_outBackend r), heldForBackend (re_loop r), ch_queue (re_fromClient r))"

definition downstream :: "relay \<Rightarrow> Frame pipe" where
  "downstream r = (re_inBackend r, forwarded (re_outClient r), heldForClient (re_loop r), ch_queue (re_fromBackend r))"

text \<open>There is a loop only between the start and the return of \<open>Start\<close>, once.\<close>

definition relay_ok :: "relay \<Rightarrow> bool" where
  "relay_ok r \<longleftrightarrow>
     (re_loop r \<noteq> None \<longrightarrow> re_started r) \<and>
     re_connections r = (if re_loop r = None then 0 else 1) \<and>
     chanLen (re_fromClient r) \<le> ch_cap (re_fromClient r) \<and> chanLen (re_fromBackend r) \<le> ch_cap (re_fromBackend r)"

lemmas relay_defs = relay_ok_def upstream_def downstream_def chanHasRoom_def chanLen_def

lemma relay_loop_pipe:
  assumes "runLoop cs ok r = Some r'" and "relay_ok r"
  shows "relay_ok r' \<and> pipe_move (upstream r) (upstream r') \<and> pipe_move (downstream r) (downstream r')"
proof -
  obtain pc where pc: "re_loop r = Some pc" using assms(1) by (auto simp: runLoop_def split: option.splits)
  show ?thesis
  proof (cases pc)
    case RSelect
    then show ?thesis
      using assms pc
      by (cases cs)
        (auto simp: runLoop_def relayLoop_def relaySelect_def relay_defs chanPop_Some
          pipe_moves split: option.splits if_splits)
  qed (use assms pc in \<open>auto simp: runLoop_def relayLoop_def relay_defs chanPop_Some toBackend_def toClient_def
        pipe_moves split: option.splits if_splits\<close>)
qed

lemma relay_step_pipe:
  assumes "relay_step r r'" and "relay_ok r"
  shows "relay_ok r' \<and> pipe_move (upstream r) (upstream r') \<and> pipe_move (downstream r) (downstream r')"
  using assms
proof (cases rule: relay_step.cases)
  case (relay_loop cs ok)
  then show ?thesis using relay_loop_pipe assms(2) by blast
qed (use assms(2) in \<open>auto simp: ClientSender_SendFrame_def BackendSender_SendFrame_def Relay_Start_def Relay_Stop_def
      Relay_StopClose_def Relay_StartReturns_def relay_defs pipe_moves split: if_splits\<close>)

interpretation up: frame_pipe relay_ok relay_step upstream
  by unfold_locales (use relay_step_pipe in blast)+

interpretation down: frame_pipe relay_ok relay_step downstream
  by unfold_locales (use relay_step_pipe in blast)+

lemma new_relay: "relay_ok (NewRelay k) \<and> upstream (NewRelay k) = ([], [], [], []) \<and> downstream (NewRelay k) = ([], [], [], [])"
  by (simp add: NewRelay_def relay_defs)

section \<open>The drain on stop\<close>

text \<open>The loop running alone, with the choices of the environment in a list.\<close>

fun runLoops :: "(relayCase \<times> bool) list \<Rightarrow> relay \<Rightarrow> relay option" where
  "runLoops [] r = Some r"
| "runLoops ((cs, ok) # xs) r = (case runLoop cs ok r of None \<Rightarrow> None | Some r' \<Rightarrow> runLoops xs r')"

lemma runLoops_append:
  "runLoops (xs @ ys) r = (case runLoops xs r of None \<Rightarrow> None | Some r' \<Rightarrow> runLoops ys r')"
  by (induction xs r rule: runLoops.induct) (simp_all split: option.splits)

lemma runLoops_reach: "runLoops xs r = Some r' \<Longrightarrow> rtranclp relay_step r r'"
  by (induction xs r rule: runLoops.induct)
    (auto split: option.splits intro: relay_loop converse_rtranclp_into_rtranclp)

lemma chanPop_cases:
  "ch_queue c = [] \<Longrightarrow> chanPop c = None"
  "ch_queue c = f # q \<Longrightarrow> chanPop c = Some (f, c\<lparr>ch_queue := q\<rparr>)"
  by (simp_all add: chanPop_def)

text \<open>Two steps for each frame and one to see that the channel is empty.\<close>

lemma drain_backend:
  assumes "re_loop r = Some RDrainBackend" and "ch_queue (re_fromBackend r) = q" and "length xs = 2 * length q + 1"
  shows "runLoops xs r =
         Some (r\<lparr>re_loop := Some REnd, re_fromBackend := (re_fromBackend r)\<lparr>ch_queue := []\<rparr>,
                 re_outClient := re_outClient r @ map Forwarded q\<rparr>)"
  using assms
proof (induction q arbitrary: r xs)
  case Nil
  then obtain cs ok where "xs = [(cs, ok)]" by (metis One_nat_def length_0_conv length_Suc_conv mult_0_right list.size(3) add_0 surj_pair)
  with Nil show ?case by (cases r) (simp add: runLoop_def relayLoop_def chanPop_cases)
next
  case (Cons f q)
  then obtain c1 o1 c2 o2 ys where xs: "xs = (c1, o1) # (c2, o2) # ys" "length ys = 2 * length q + 1"
    by (cases xs; cases "tl xs") auto
  let ?r = "r\<lparr>re_fromBackend := (re_fromBackend r)\<lparr>ch_queue := q\<rparr>, re_outClient := re_outClient r @ [Forwarded f],
              re_loop := Some RDrainBackend\<rparr>"
  have "runLoops xs r = runLoops ys ?r"
    using Cons.prems xs by (simp add: runLoop_def relayLoop_def chanPop_cases toClient_def)
  also have "\<dots> = Some (?r\<lparr>re_loop := Some REnd, re_fromBackend := (re_fromBackend ?r)\<lparr>ch_queue := []\<rparr>,
      re_outClient := re_outClient ?r @ map Forwarded q\<rparr>)"
    by (rule Cons.IH) (simp_all add: xs)
  finally show ?case by simp
qed

lemma drain_client:
  assumes "re_loop r = Some RDrainClient" and "ch_queue (re_fromClient r) = q" and "length xs = 2 * length q + 1"
  shows "runLoops xs r =
         Some (r\<lparr>re_loop := Some RDrainBackend, re_fromClient := (re_fromClient r)\<lparr>ch_queue := []\<rparr>,
                 re_outBackend := re_outBackend r @ map Forwarded q\<rparr>)"
  using assms
proof (induction q arbitrary: r xs)
  case Nil
  then obtain cs ok where "xs = [(cs, ok)]" by (metis One_nat_def length_0_conv length_Suc_conv mult_0_right list.size(3) add_0 surj_pair)
  with Nil show ?case by (cases r) (simp add: runLoop_def relayLoop_def chanPop_cases)
next
  case (Cons f q)
  then obtain c1 o1 c2 o2 ys where xs: "xs = (c1, o1) # (c2, o2) # ys" "length ys = 2 * length q + 1"
    by (cases xs; cases "tl xs") auto
  let ?r = "r\<lparr>re_fromClient := (re_fromClient r)\<lparr>ch_queue := q\<rparr>, re_outBackend := re_outBackend r @ [Forwarded f],
              re_loop := Some RDrainClient\<rparr>"
  have "runLoops xs r = runLoops ys ?r"
    using Cons.prems xs by (simp add: runLoop_def relayLoop_def chanPop_cases toBackend_def)
  also have "\<dots> = Some (?r\<lparr>re_loop := Some RDrainBackend, re_fromClient := (re_fromClient ?r)\<lparr>ch_queue := []\<rparr>,
      re_outBackend := re_outBackend ?r @ map Forwarded q\<rparr>)"
    by (rule Cons.IH) (simp_all add: xs)
  finally show ?case by simp
qed

lemma forwarded_map [simp]: "forwarded (map Forwarded q) = q"
  by (induction q) simp_all

section \<open>Properties\<close>

text \<open>C12: The relay forwards in order in both directions. Whatever the interleaving of the two
  sides, the loop, the heartbeats, \<open>Start\<close>, \<open>Stop\<close> and cancellation, the frames passed to the
  backend are the frames accepted from the client in the order of acceptance, less at most
  one in the hands of the loop and those that wait, and the same from the backend to the
  client; heartbeats displace nothing, and at most one loop is active.\<close>

theorem relay_in_order:
  assumes "rtranclp relay_step (NewRelay k) r"
  shows "re_inClient r = forwarded (re_outBackend r) @ heldForBackend (re_loop r) @ ch_queue (re_fromClient r) \<and>
         re_inBackend r = forwarded (re_outClient r) @ heldForClient (re_loop r) @ ch_queue (re_fromBackend r) \<and>
         length (heldForBackend (re_loop r) @ heldForClient (re_loop r)) \<le> 1 \<and>
         ActiveConnections r = (if re_loop r = None then 0 else 1)"
proof -
  have new: "relay_ok (NewRelay k)" "upstream (NewRelay k) = ([], [], [], [])" "downstream (NewRelay k) = ([], [], [], [])"
    using new_relay by auto
  have "relay_ok r" by (rule up.reach_inv [OF assms new(1)])
  moreover have "length (heldForBackend p @ heldForClient p) \<le> 1" for p
    by (cases p rule: heldForBackend.cases) simp_all
  ultimately show ?thesis
    using up.in_order [OF new(1,2) assms] down.in_order [OF new(1,3) assms]
    by (simp add: upstream_def downstream_def ActiveConnections_def relay_ok_def)
qed

definition demo_relay :: relay where
  "demo_relay = snd (Relay_Start (snd (BackendSender_SendFrame NewKeepAliveFrame
     (snd (ClientSender_SendFrame (NewErrorFrame ''c'' ''m'') (NewRelay 0))))))"

lemma demo_relay_reach: "rtranclp relay_step (NewRelay 0) demo_relay"
  unfolding demo_relay_def
  by (meson relay_backend relay_client relay_start rtranclp.rtrancl_into_rtrancl rtranclp.rtrancl_refl)

theorem relay_in_order_witness:
  "re_inClient demo_relay = [] @ [] @ [NewErrorFrame ''c'' ''m''] \<and> ActiveConnections demo_relay = 1"
proof -
  have "re_outBackend demo_relay = []" "re_loop demo_relay = Some RTop"
    "ch_queue (re_fromClient demo_relay) = [NewErrorFrame ''c'' ''m'']"
    by code_simp+
  with relay_in_order [OF demo_relay_reach] show ?thesis by simp
qed


definition demo_stopping :: relay where
  "demo_stopping = the (runLoop CaseTick True (the (Relay_StopClose (Relay_Stop demo_relay))))"

lemma demo_stopping_reach: "rtranclp relay_step (NewRelay 0) demo_stopping"
proof -
  let ?a = "Relay_Stop demo_relay" and ?b = "the (Relay_StopClose (Relay_Stop demo_relay))"
  have "Relay_StopClose ?a \<noteq> None" "runLoop CaseTick True ?b \<noteq> None" by code_simp+
  then have "relay_step ?a ?b" "relay_step ?b demo_stopping"
    by (auto simp: demo_stopping_def intro: relay_close relay_loop)
  with demo_relay_reach show ?thesis
    by (meson relay_stop rtranclp.rtrancl_into_rtrancl)
qed


text \<open>A relay whose loop has returned still accepts frames, and cannot be started again: they are
  never forwarded.\<close>

lemma relay_accepts_after_end:
  assumes "re_started r" and "re_loop r = None" and "chanHasRoom (re_fromClient r)"
  shows "fst (ClientSender_SendFrame f r) = None \<and>
         fst (Relay_Start (snd (ClientSender_SendFrame f r))) \<noteq> None \<and>
         runLoop cs ok (snd (ClientSender_SendFrame f r)) = None"
  using assms by (simp add: ClientSender_SendFrame_def Relay_Start_def runLoop_def)

end
