(* ===== verification/WS_Handler.thy ===== *)
theory WS_Handler
  imports Stream_Frames
begin

text \<open>
  The websocket handler of the streaming layer (\<open>internal/streaming/ws_handler.go\<close>): the read pump,
  the write pump, the sender it gives out, and \<open>close\<close>.

  \<open>marshal\<close> and \<open>unmarshal\<close> are the JSON coding of frames.  The environment chooses the incoming
  messages, the outcome of every write, the case a \<open>select\<close> with several ready cases takes and
  the expiry of a timer.  The two nested \<open>select\<close> statements of \<open>SendFrame\<close> without a timeout are
  one step: a close between them gives an answer one of the two orders gives as well.
\<close>

section \<open>State\<close>

datatype writePC =
    WSelect
  | WFrame Frame
  | WDrain
  | WDrainFrame Frame
  | WEnd

datatype writeResult = NotMarshalled | Written string | WriteFailed string

record wsHandler =
  wh_readCh :: "Frame chan"
  wh_writeCh :: "Frame chan"
  wh_conn :: bool
  wh_closed :: bool
  wh_closeCh :: bool
  wh_connClosed :: bool
  wh_writeTimeout :: duration
  wh_reading :: bool
  wh_write :: "writePC option"
  wh_accepted :: "Frame list"
  wh_written :: "(Frame \<times> writeResult) list"

definition NewWSHandler :: "int \<Rightarrow> int \<Rightarrow> duration \<Rightarrow> wsHandler" where
  "NewWSHandler readBufferSize writeBufferSize writeTimeout =
     \<lparr>wh_readCh = makeChan (if readBufferSize \<le> 0 then 256 else readBufferSize),
      wh_writeCh = makeChan (if writeBufferSize \<le> 0 then 256 else writeBufferSize),
      wh_conn = False, wh_closed = False, wh_closeCh = False, wh_connClosed = False, wh_writeTimeout = writeTimeout,
      wh_reading = False, wh_write = None, wh_accepted = [], wh_written = []\<rparr>"

section \<open>Operations\<close>

definition WSHandler_close :: "wsHandler \<Rightarrow> wsHandler" where
  "WSHandler_close h =
     (if wh_closed h then h
      else let h = h\<lparr>wh_closed := True, wh_closeCh := True\<rparr>
           in if wh_conn h then h\<lparr>wh_connClosed := True\<rparr> else h)"

text \<open>The first half of \<open>ServeHTTP\<close>, after the upgrade: the pumps are started unless the handler is
  closed already; and its end, when a pump or the context is done.\<close>

definition ServeHTTP_begin :: "wsHandler \<Rightarrow> wsHandler" where
  "ServeHTTP_begin h =
     (if wh_closed h then h\<lparr>wh_connClosed := True\<rparr>
      else h\<lparr>wh_conn := True, wh_reading := True, wh_write := Some WSelect\<rparr>)"

definition ServeHTTP_end :: "bool \<Rightarrow> wsHandler \<Rightarrow> wsHandler option" where
  "ServeHTTP_end ctxDone h =
     (if wh_conn h \<and> (\<not> wh_reading h \<or> wh_write h = Some WEnd \<or> ctxDone)
      then Some ((WSHandler_close h)\<lparr>wh_connClosed := True\<rparr>) else None)"

text \<open>\<open>SendFrame\<close> of the sender: None while it blocks.\<close>

datatype sendCase = SendCase | TimerCase | CloseCase

definition wsFrameSender_SendFrame :: "sendCase \<Rightarrow> Frame \<Rightarrow> wsHandler \<Rightarrow> (go_error option \<times> wsHandler) option" where
  "wsFrameSender_SendFrame cs frame h =
     (let accept = (None, h\<lparr>wh_writeCh := chanPush frame (wh_writeCh h), wh_accepted := wh_accepted h @ [frame]\<rparr>)
      in if wh_writeTimeout h > 0 then
           (case cs of
              SendCase \<Rightarrow> if chanHasRoom (wh_writeCh h) then Some accept else None
            | TimerCase \<Rightarrow> Some (Some (Errorf ''send frame timed out'' []), h)
            | CloseCase \<Rightarrow> if wh_closeCh h then Some (Some (Errorf ''connection closed'' []), h) else None)
         else if wh_closeCh h then Some (Some (Errorf ''connection closed'' []), h)
         else if chanHasRoom (wh_writeCh h) then Some accept
         else Some (Some (Errorf ''write buffer full'' []), h))"

text \<open>One round of the read pump: a message or a read error (None); a frame that does not unmarshal is
  skipped, one that finds the channel full is dropped.\<close>

definition readPump :: "(string \<Rightarrow> Frame option) \<Rightarrow> bool \<Rightarrow> string option \<Rightarrow> wsHandler \<Rightarrow> wsHandler option" where
  "readPump unmarshal pick msg h =
     (if \<not> wh_reading h then None
      else case msg of
             None \<Rightarrow> Some (h\<lparr>wh_reading := False\<rparr>)
           | Some m \<Rightarrow>
               (case unmarshal m of
                  None \<Rightarrow> Some h
                | Some frame \<Rightarrow>
                    if chanHasRoom (wh_readCh h) \<and> (pick \<or> \<not> wh_closeCh h)
                    then Some (h\<lparr>wh_readCh := chanPush frame (wh_readCh h)\<rparr>)
                    else if wh_closeCh h then Some (h\<lparr>wh_reading := False\<rparr>)
                    else Some h))"

text \<open>The consumer of \<open>ReadCh\<close>.\<close>

definition ReadCh_receive :: "wsHandler \<Rightarrow> (Frame \<times> wsHandler) option" where
  "ReadCh_receive h = map_option (\<lambda>(f, c). (f, h\<lparr>wh_readCh := c\<rparr>)) (chanPop (wh_readCh h))"

definition logWrite :: "Frame \<Rightarrow> writeResult \<Rightarrow> wsHandler \<Rightarrow> wsHandler" where
  "logWrite f res h = h\<lparr>wh_written := wh_written h @ [(f, res)]\<rparr>"

text \<open>One step of the write pump; \<open>go\<close> chooses the case of the \<open>select\<close>, or is the outcome of a write.\<close>

definition writePump :: "(Frame \<Rightarrow> string option) \<Rightarrow> bool \<Rightarrow> wsHandler \<Rightarrow> wsHandler option" where
  "writePump marshal go h =
     (case wh_write h of
        Some WSelect \<Rightarrow>
          if go then
            (case chanPop (wh_writeCh h) of
               None \<Rightarrow> None
             | Some (frame, c) \<Rightarrow> Some (h\<lparr>wh_writeCh := c, wh_write := Some (WFrame frame)\<rparr>))
          else if wh_closeCh h then Some (h\<lparr>wh_write := Some WDrain\<rparr>) else None
      | Some (WFrame frame) \<Rightarrow>
          (case marshal frame of
             None \<Rightarrow> Some ((logWrite frame NotMarshalled h)\<lparr>wh_write := Some WSelect\<rparr>)
           | Some data \<Rightarrow>
               if go then Some ((logWrite frame (Written data) h)\<lparr>wh_write := Some WSelect\<rparr>)
               else Some ((logWrite frame (WriteFailed data) h)\<lparr>wh_write := Some WEnd\<rparr>))
      | Some WDrain \<Rightarrow>
          (case chanPop (wh_writeCh h) of
             None \<Rightarrow> Some (h\<lparr>wh_write := Some WEnd\<rparr>)
           | Some (frame, c) \<Rightarrow> Some (h\<lparr>wh_writeCh := c, wh_write := Some (WDrainFrame frame)\<rparr>))
      | Some (WDrainFrame frame) \<Rightarrow>
          (case marshal frame of
             None \<Rightarrow> Some ((logWrite frame NotMarshalled h)\<lparr>wh_write := Some WDrain\<rparr>)
           | Some data \<Rightarrow>
               Some ((logWrite frame (if go then Written data else WriteFailed data) h)\<lparr>wh_write := Some WDrain\<rparr>))
      | _ \<Rightarrow> None)"

section \<open>Order\<close>

inductive wh_step :: "(Frame \<Rightarrow> string option) \<Rightarrow> (string \<Rightarrow> Frame option) \<Rightarrow> wsHandler \<Rightarrow> wsHandler \<Rightarrow> bool"
  for marshal unmarshal where
  wh_send: "wsFrameSender_SendFrame cs f h = Some (e, h') \<Longrightarrow> wh_step marshal unmarshal h h'"
| wh_begin: "\<not> wh_conn h \<Longrightarrow> wh_step marshal unmarshal h (ServeHTTP_begin h)"
| wh_end: "ServeHTTP_end ctxDone h = Some h' \<Longrightarrow> wh_step marshal unmarshal h h'"
| wh_close: "wh_step marshal unmarshal h (WSHandler_close h)"
| wh_read: "readPump unmarshal pick msg h = Some h' \<Longrightarrow> wh_step marshal unmarshal h h'"
| wh_receive: "ReadCh_receive h = Some (f, h') \<Longrightarrow> wh_step marshal unmarshal h h'"
| wh_pump: "writePump marshal go h = Some h' \<Longrightarrow> wh_step marshal unmarshal h h'"

fun writeHolds :: "writePC option \<Rightarrow> Frame list" where
  "writeHolds (Some (WFrame f)) = [f]"
| "writeHolds (Some (WDrainFrame f)) = [f]"
| "writeHolds _ = []"

definition wh_obs :: "wsHandler \<Rightarrow> Frame pipe" where
  "wh_obs h = (wh_accepted h, map fst (wh_written h), writeHolds (wh_write h), ch_queue (wh_writeCh h))"

definition wh_ok :: "wsHandler \<Rightarrow> bool" where
  "wh_ok h \<longleftrightarrow>
     (\<not> wh_conn h \<longrightarrow> wh_write h = None) \<and> (wh_closed h \<longleftrightarrow> wh_closeCh h) \<and>
     chanLen (wh_writeCh h) \<le> ch_cap (wh_writeCh h) \<and> chanLen (wh_readCh h) \<le> ch_cap (wh_readCh h)"

lemmas wh_defs = wh_ok_def wh_obs_def chanLen_def chanHasRoom_def

lemma write_pump_pipe:
  assumes "writePump marshal go h = Some h'" and "wh_ok h"
  shows "wh_ok h' \<and> pipe_move (wh_obs h) (wh_obs h')"
proof -
  obtain pc where pc: "wh_write h = Some pc" using assms(1) by (auto simp: writePump_def split: option.splits)
  then show ?thesis
    by (cases pc)
      (use assms in \<open>auto simp: writePump_def logWrite_def wh_defs chanPop_Some pipe_moves split: option.splits if_splits\<close>)
qed

lemma wh_step_pipe:
  assumes "wh_step marshal unmarshal h h'" and "wh_ok h"
  shows "wh_ok h' \<and> pipe_move (wh_obs h) (wh_obs h')"
  using assms
proof (cases rule: wh_step.cases)
  case (wh_pump go)
  then show ?thesis using write_pump_pipe assms(2) by blast
qed (use assms(2) in \<open>auto simp: wsFrameSender_SendFrame_def ServeHTTP_begin_def ServeHTTP_end_def WSHandler_close_def
      readPump_def ReadCh_receive_def wh_defs chanPop_Some pipe_moves Let_def
      split: if_splits option.splits sendCase.splits\<close>)

interpretation wsp: frame_pipe wh_ok "wh_step marshal unmarshal" wh_obs for marshal unmarshal
  by unfold_locales (use wh_step_pipe in blast)+

lemma new_handler: "wh_ok (NewWSHandler a b t) \<and> wh_obs (NewWSHandler a b t) = ([], [], [], [])"
  by (simp add: NewWSHandler_def wh_defs)

text \<open>Frames are written in the order in which \<open>SendFrame\<close> accepted them, and a sender without a timeout
  accepts none once the handler is closed.\<close>

lemma ws_write_order:
  assumes "rtranclp (wh_step marshal unmarshal) (NewWSHandler a b t) h"
  shows "wh_accepted h = map fst (wh_written h) @ writeHolds (wh_write h) @ ch_queue (wh_writeCh h)"
  using wsp.in_order [OF conjunct1 [OF new_handler] conjunct2 [OF new_handler] assms] by (simp add: wh_obs_def)

lemma ws_closed_refuses:
  assumes "rtranclp (wh_step marshal unmarshal) (NewWSHandler a b t) h" and "wh_closed h" and "wh_writeTimeout h \<le> 0"
  shows "wsFrameSender_SendFrame cs f h = Some (Some (Errorf ''connection closed'' []), h)"
proof -
  have "wh_ok h" using wsp.reach_inv [OF assms(1)] new_handler by blast
  with assms(2,3) show ?thesis by (simp add: wh_ok_def wsFrameSender_SendFrame_def Let_def)
qed

end
