(* ===== verification/WS_Exec.thy ===== *)
theory WS_Exec
  imports Stream_Frames Handlers Auth Mock_Backend
begin

text \<open>
  Streaming code execution over a websocket (\<open>internal/api/v1/ws_handler.go\<close>): the choice of the
  backend, the dispatch of client frames, and the bridge that turns the messages of an
  adapter into frames.

  The reader of the connection and the executions it starts run concurrently; every method
  of the bridge holds the bridge's mutex, so each is one step.  What is written to the
  connection is the list \<open>wc_out\<close>.  The outcome of a write, the results of \<open>json.Marshal\<close> and the
  text of an error are arguments.  A client frame comes from \<open>json.Unmarshal\<close>, whose
  dynamically typed values are never \<open>json.RawMessage\<close>, so that branch of \<open>parseCodeExecData\<close> is
  not modelled.
\<close>

section \<open>Payloads\<close>

record streamMessage =
  ms_Type :: string
  ms_Data :: any

definition mapField :: "any \<Rightarrow> string \<Rightarrow> any option" where
  "mapField data k = (case data of AMap m \<Rightarrow> map_of m k | _ \<Rightarrow> None)"

definition parseCodeExecData :: "any \<Rightarrow> CodeExecData" where
  "parseCodeExecData data =
     \<lparr>ce_Code = (case mapField data ''code'' of Some (AString s) \<Rightarrow> s | _ \<Rightarrow> []),
      ce_Language = (case mapField data ''language'' of Some (AString s) \<Rightarrow> s | _ \<Rightarrow> [])\<rparr>"

text \<open>\<open>marshal\<close> is \<open>json.Marshal\<close> on a value, \<open>sprint\<close> the \<open>%v\<close> format.\<close>

definition extractStringData :: "(any \<Rightarrow> string option) \<Rightarrow> (any \<Rightarrow> string) \<Rightarrow> any \<Rightarrow> string" where
  "extractStringData marshal sprint data =
     (case data of
        AString s \<Rightarrow> s
      | ABytes s \<Rightarrow> s
      | _ \<Rightarrow> (case marshal data of None \<Rightarrow> sprint data | Some b \<Rightarrow> b))"

definition parseResultData :: "any \<Rightarrow> int \<times> rat" where
  "parseResultData data =
     ((case mapField data ''exitCode'' of Some (AInt n) \<Rightarrow> n | _ \<Rightarrow> 0),
      (case mapField data ''duration'' of Some (AFloat d) \<Rightarrow> d | _ \<Rightarrow> 0))"

definition parseErrorData :: "any \<Rightarrow> string \<times> string" where
  "parseErrorData data =
     (case data of
        AMap m \<Rightarrow> ((case map_of m ''code'' of Some (AString c) \<Rightarrow> c | _ \<Rightarrow> ''unknown''),
                   (case map_of m ''message'' of Some (AString s) \<Rightarrow> s | _ \<Rightarrow> []))
      | AString s \<Rightarrow> (''unknown'', s)
      | _ \<Rightarrow> (''unknown'', []))"

section \<open>The bridge\<close>

datatype wsOut = OutFrame Frame | OutClose

record wsCodeStream =
  wc_executionID :: string
  wc_norm :: Normalizer
  wc_canceled :: bool
  wc_closed :: bool
  wc_out :: "wsOut list"

definition newWSCodeStream :: "string \<Rightarrow> wsCodeStream" where
  "newWSCodeStream executionID =
     \<lparr>wc_executionID = executionID, wc_norm = NewNormalizer executionID, wc_canceled = False, wc_closed = False, wc_out = []\<rparr>"

definition wc_reset :: "wsCodeStream \<Rightarrow> wsCodeStream" where
  "wc_reset w = w\<lparr>wc_canceled := False\<rparr>"

definition wc_cancel :: "wsCodeStream \<Rightarrow> wsCodeStream" where
  "wc_cancel w = w\<lparr>wc_canceled := True\<rparr>"

definition writeOut :: "wsOut \<Rightarrow> wsCodeStream \<Rightarrow> wsCodeStream" where
  "writeOut x w = w\<lparr>wc_out := wc_out w @ [x]\<rparr>"

text \<open>What the environment decides: the clock, \<open>json.Marshal\<close> and the \<open>%v\<close> format on values, whether a
  frame marshals, the outcome of a write, and the text of an error.\<close>

record wsEnv =
  we_now :: time
  we_marshal :: "any \<Rightarrow> string option"
  we_sprint :: "any \<Rightarrow> string"
  we_marshals :: "Frame \<Rightarrow> bool"
  we_write :: "go_error option"
  we_errText :: "go_error \<Rightarrow> string"

definition buildFrame :: "wsEnv \<Rightarrow> wsCodeStream \<Rightarrow> streamMessage \<Rightarrow> Frame" where
  "buildFrame env w msg =
     (let typ = ms_Type msg; data = ms_Data msg; text = extractStringData (we_marshal env) (we_sprint env) data
      in if typ = ''stdout'' then NormalizeStdout (wc_norm w) text (we_now env)
         else if typ = ''stderr'' then NormalizeStderr (wc_norm w) text (we_now env)
         else if typ = ''result'' then
           (case parseResultData data of (exitCode, dur) \<Rightarrow> NormalizeExitCode (wc_norm w) exitCode dur)
         else if typ = ''error'' then
           (case parseErrorData data of (code, msg) \<Rightarrow> NormalizeError (wc_norm w) code msg)
         else \<lparr>fr_Type = typ, fr_Data = AnyData data\<rparr>)"

definition wc_Send :: "wsEnv \<Rightarrow> streamMessage \<Rightarrow> wsCodeStream \<Rightarrow> go_error option \<times> wsCodeStream" where
  "wc_Send env msg w =
     (if wc_closed w \<or> wc_canceled w then (None, w)
      else let frame = buildFrame env w msg
           in if \<not> we_marshals env frame then (Some (Errorf ''marshaling frame: %w'' []), w)
              else (we_write env, writeOut (OutFrame frame) w))"

definition wc_close :: "wsEnv \<Rightarrow> wsCodeStream \<Rightarrow> go_error option \<times> wsCodeStream" where
  "wc_close env w = (if wc_closed w then (None, w) else (we_write env, writeOut OutClose (w\<lparr>wc_closed := True\<rparr>)))"

definition wc_sendError :: "string \<Rightarrow> string \<Rightarrow> wsCodeStream \<Rightarrow> wsCodeStream" where
  "wc_sendError code msg w =
     (if wc_closed w then w else writeOut (OutFrame (NormalizeError (wc_norm w) code msg)) w)"

definition wc_sendKeepAlive :: "wsCodeStream \<Rightarrow> wsCodeStream" where
  "wc_sendKeepAlive w = (if wc_closed w then w else writeOut (OutFrame NewKeepAliveFrame) w)"

section \<open>The connection\<close>

text \<open>The choice of the adapter.  The token is that of the header or of the query.\<close>

definition resolveAdapter ::
  "'w backends \<Rightarrow> string list \<Rightarrow> request \<Rightarrow> string \<Rightarrow> string \<Rightarrow> 'w SandboxAdapter router \<Rightarrow> 'w \<Rightarrow>
   (reply + 'w SandboxAdapter) \<times> 'w SandboxAdapter router \<times> 'w" where
  "resolveAdapter be ord r queryToken sandboxID rt w =
     (let token = (if Header_Get r ''X-Access-Token'' = [] then queryToken else Header_Get r ''X-Access-Token'');
          (sel, rt', w1) =
            (case resolveAdapterForSandbox be ord sandboxID w of
               (Inr a, w1) \<Rightarrow> (Inr a, rt, w1)
             | (Inl err, w1) \<Rightarrow>
                 (case SelectBackend ad_Name rt \<lparr>rq_TenantID = [], rq_TemplateID = [], rq_Method = [], rq_Path = []\<rparr> ord of
                    (Inl rerr, rt') \<Rightarrow> (Inl (writeError 503 [ErrText rerr]), rt', w1)
                  | (Inr backendName, rt') \<Rightarrow>
                      (case Registry_Get (regOf be w1) backendName of
                         None \<Rightarrow> (Inl (writeError 503 [Lit ''backend not found'']), rt', w1)
                       | Some a \<Rightarrow> (Inr a, rt', w1))))
      in case sel of
           Inl rep \<Rightarrow> (Inl rep, rt', w1)
         | Inr a \<Rightarrow>
             if token = [] then (Inr a, rt', w1)
             else case ad_ValidateAccessToken a sandboxID token w1 of
                    (Inr True, w2) \<Rightarrow> (Inr a, rt', w2)
                  | (_, w2) \<Rightarrow> (Inl (writeError 401 [Lit ''invalid access token'']), rt', w2))"

text \<open>What a client frame makes the reader do.\<close>

datatype clientAction =
    StartExec CodeExecutionRequest
  | CancelExec
  | EchoKeepAlive
  | IgnoreFrame

definition execRequestOf :: "any \<Rightarrow> CodeExecutionRequest" where
  "execRequestOf data =
     (let execData = parseCodeExecData data
      in \<lparr>cer_Code = ce_Code execData, cer_Language = ce_Language execData, cer_EnvVars = [], cer_Cwd = []\<rparr>)"

definition dispatchFrame :: "string \<Rightarrow> any \<Rightarrow> clientAction" where
  "dispatchFrame typ data =
     (if typ = FrameCodeExec then StartExec (execRequestOf data)
      else if typ = FrameCancel then CancelExec
      else if typ = FrameKeepAlive then EchoKeepAlive
      else IgnoreFrame)"

text \<open>A message that does not unmarshal is skipped.\<close>

definition readLoop :: "(string \<Rightarrow> (string \<times> any) option) \<Rightarrow> string \<Rightarrow> clientAction" where
  "readLoop unmarshal msg = (case unmarshal msg of None \<Rightarrow> IgnoreFrame | Some (typ, data) \<Rightarrow> dispatchFrame typ data)"

text \<open>
  The connection: the bridge, the executions whose goroutine has not started, and
  those that run.  An execution is the call of
  \<open>ExecuteCodeStream\<close> of an adapter, which sends messages on the bridge, may close it, and returns.
\<close>

record wsConn =
  cn_bridge :: wsCodeStream
  cn_pending :: "CodeExecutionRequest list"
  cn_execs :: "CodeExecutionRequest list"

inductive ws_step :: "wsConn \<Rightarrow> wsConn \<Rightarrow> bool" where
  ws_exec: "readLoop unmarshal msg = StartExec req \<Longrightarrow> ws_step c (c\<lparr>cn_pending := cn_pending c @ [req]\<rparr>)"
| ws_begin: "req \<in> set (cn_pending c) \<Longrightarrow>
     ws_step c (c\<lparr>cn_bridge := wc_reset (cn_bridge c), cn_pending := remove1 req (cn_pending c), cn_execs := req # cn_execs c\<rparr>)"
| ws_cancel: "readLoop unmarshal msg = CancelExec \<Longrightarrow> ws_step c (c\<lparr>cn_bridge := wc_cancel (cn_bridge c)\<rparr>)"
| ws_keepalive: "readLoop unmarshal msg = EchoKeepAlive \<Longrightarrow> ws_step c (c\<lparr>cn_bridge := wc_sendKeepAlive (cn_bridge c)\<rparr>)"
| ws_send: "req \<in> set (cn_execs c) \<Longrightarrow> ws_step c (c\<lparr>cn_bridge := snd (wc_Send env msg (cn_bridge c))\<rparr>)"
| ws_close: "req \<in> set (cn_execs c) \<Longrightarrow> ws_step c (c\<lparr>cn_bridge := snd (wc_close env (cn_bridge c))\<rparr>)"
| ws_failed: "req \<in> set (cn_execs c) \<Longrightarrow>
     ws_step c (c\<lparr>cn_bridge := wc_sendError ''execution_error'' errText (cn_bridge c)\<rparr>)"
| ws_ended: "req \<in> set (cn_execs c) \<Longrightarrow>
     ws_step c (c\<lparr>cn_bridge := wc_sendKeepAlive (cn_bridge c), cn_execs := remove1 req (cn_execs c)\<rparr>)"
| ws_disconnect: "ws_step c (c\<lparr>cn_bridge := snd (wc_close env (cn_bridge c))\<rparr>)"

definition newConn :: "string \<Rightarrow> wsConn" where
  "newConn executionID = \<lparr>cn_bridge = newWSCodeStream executionID, cn_pending = [], cn_execs = []\<rparr>"

text \<open>
  \<open>handleCodeExec\<close> when nothing else runs: the adapter's calls on the bridge in order, then its
  result.
\<close>

datatype streamCall = CallSend streamMessage | CallClose

fun bridgeCalls :: "wsEnv \<Rightarrow> streamCall list \<Rightarrow> wsCodeStream \<Rightarrow> wsCodeStream" where
  "bridgeCalls env [] w = w"
| "bridgeCalls env (CallSend msg # cs) w = bridgeCalls env cs (snd (wc_Send env msg w))"
| "bridgeCalls env (CallClose # cs) w = bridgeCalls env cs (snd (wc_close env w))"

definition handleCodeExec ::
  "wsEnv \<Rightarrow> (CodeExecutionRequest \<Rightarrow> streamCall list \<times> go_error option) \<Rightarrow> any \<Rightarrow> wsCodeStream \<Rightarrow> wsCodeStream" where
  "handleCodeExec env executeCodeStream data w =
     (let w = wc_reset w;
          (calls, err) = executeCodeStream (execRequestOf data);
          w = bridgeCalls env calls w;
          w = (case err of None \<Rightarrow> w | Some e \<Rightarrow> wc_sendError ''execution_error'' (we_errText env e) w)
      in wc_sendKeepAlive w)"

text \<open>The whole handler: an error reply, or the connection it serves (None when the upgrade fails).\<close>

definition ExecuteCodeStreamHandler ::
  "'w backends \<Rightarrow> string list \<Rightarrow> request \<Rightarrow> string \<Rightarrow> string \<Rightarrow> bool \<Rightarrow> time \<Rightarrow> 'w SandboxAdapter router \<Rightarrow> 'w \<Rightarrow>
   (reply + (wsConn \<times> 'w SandboxAdapter) option) \<times> 'w SandboxAdapter router \<times> 'w" where
  "ExecuteCodeStreamHandler be ord r queryToken sandboxID upgraded now rt w =
     (if sandboxID = [] then (Inl (writeError 400 [Lit ''missing sandboxID'']), rt, w)
      else case resolveAdapter be ord r queryToken sandboxID rt w of
             (Inl rep, rt', w') \<Rightarrow> (Inl rep, rt', w')
           | (Inr a, rt', w') \<Rightarrow>
               if \<not> upgraded then (Inr None, rt', w')
               else (Inr (Some (newConn (''exec-'' @ sandboxID @ ''-'' @ fmt_int now), a)), rt', w'))"

section \<open>What is written\<close>

lemmas bridge_defs = wc_reset_def wc_cancel_def wc_Send_def wc_close_def wc_sendError_def wc_sendKeepAlive_def
  writeOut_def Let_def

text \<open>Only frames before the bridge is closed, and one close message at the end afterwards.\<close>

definition out_ok :: "wsCodeStream \<Rightarrow> bool" where
  "out_ok w \<longleftrightarrow> (if wc_closed w then wc_out w \<noteq> [] \<and> last (wc_out w) = OutClose \<and> OutClose \<notin> set (butlast (wc_out w))
               else OutClose \<notin> set (wc_out w))"

lemma bridge_out_ok:
  assumes "out_ok w"
  shows "out_ok (wc_reset w)" "out_ok (wc_cancel w)" "out_ok (snd (wc_Send env msg w))" "out_ok (snd (wc_close env w))"
    "out_ok (wc_sendError code m w)" "out_ok (wc_sendKeepAlive w)"
  using assms by (auto simp: out_ok_def bridge_defs split: if_splits)

lemma ws_reach_out:
  "rtranclp ws_step c c' \<Longrightarrow> out_ok (cn_bridge c) \<Longrightarrow> out_ok (cn_bridge c')"
proof (induction rule: rtranclp_induct)
  case (step y z)
  from step(2,3,4) show ?case by (cases rule: ws_step.cases) (auto intro: bridge_out_ok)
qed

lemma ws_step_after_close:
  "ws_step c c' \<Longrightarrow> wc_closed (cn_bridge c) \<Longrightarrow> wc_closed (cn_bridge c') \<and> wc_out (cn_bridge c') = wc_out (cn_bridge c)"
  by (erule ws_step.cases) (auto simp: bridge_defs)

lemma ws_steps_after_close:
  "rtranclp ws_step c c' \<Longrightarrow> wc_closed (cn_bridge c) \<Longrightarrow> wc_closed (cn_bridge c') \<and> wc_out (cn_bridge c') = wc_out (cn_bridge c)"
proof (induction rule: rtranclp_induct)
  case (step y z)
  then show ?case using ws_step_after_close [of y z] by auto
qed simp

text \<open>C14: Nothing follows the close message. On a websocket connection, in every interleaving of client
  frames and executions, the close message is written at most once and is the last thing
  written, and once it is written no later frame, cancellation, execution or disconnect
  writes anything.\<close>

theorem ws_nothing_after_close:
  assumes "rtranclp ws_step (newConn executionID) c" and "rtranclp ws_step c c'"
  shows "OutClose \<notin> set (butlast (wc_out (cn_bridge c))) \<and>
         (OutClose \<in> set (wc_out (cn_bridge c)) \<longrightarrow> wc_out (cn_bridge c') = wc_out (cn_bridge c))"
proof -
  have "out_ok (cn_bridge (newConn executionID))" by (simp add: newConn_def newWSCodeStream_def out_ok_def)
  then have ok: "out_ok (cn_bridge c)" by (rule ws_reach_out [OF assms(1)])
  then have "OutClose \<notin> set (butlast (wc_out (cn_bridge c)))"
    by (auto simp: out_ok_def split: if_splits dest: in_set_butlastD)
  moreover have "wc_closed (cn_bridge c)" if "OutClose \<in> set (wc_out (cn_bridge c))"
    using ok that by (simp add: out_ok_def split: if_splits)
  ultimately show ?thesis using ws_steps_after_close [OF assms(2)] by blast
qed

definition demo_env :: wsEnv where
  "demo_env = \<lparr>we_now = 0, we_marshal = (\<lambda>_. None), we_sprint = (\<lambda>_. []), we_marshals = (\<lambda>_. True), we_write = None,
     we_errText = (\<lambda>_. [])\<rparr>"

definition demo_closed :: wsConn where
  "demo_closed = (newConn ''e'')\<lparr>cn_bridge := snd (wc_close demo_env (cn_bridge (newConn ''e'')))\<rparr>"

theorem ws_nothing_after_close_witness:
  "wc_out (cn_bridge (demo_closed\<lparr>cn_bridge := wc_cancel (cn_bridge demo_closed)\<rparr>)) = [OutClose]"
proof -
  have "rtranclp ws_step (newConn ''e'') demo_closed"
    unfolding demo_closed_def by (rule r_into_rtranclp) (rule ws_disconnect)
  moreover have "rtranclp ws_step demo_closed (demo_closed\<lparr>cn_bridge := wc_cancel (cn_bridge demo_closed)\<rparr>)"
    by (rule r_into_rtranclp)
      (rule ws_cancel [where unmarshal = "\<lambda>_. Some (FrameCancel, ANil)" and msg = "[]"],
       simp add: readLoop_def dispatchFrame_def)
  moreover have "wc_out (cn_bridge demo_closed) = [OutClose]" by code_simp
  ultimately show ?thesis using ws_nothing_after_close by (metis list.set_intros(1))
qed

section \<open>One execution\<close>

lemma buildFrame_norm: "wc_norm v = wc_norm w \<Longrightarrow> buildFrame env v = buildFrame env w"
  by (rule ext) (simp only: buildFrame_def)

text \<open>The frames of the messages of one execution, on a bridge that stays open.\<close>

lemma bridge_sends:
  assumes "\<not> wc_closed w" and "\<not> wc_canceled w" and "\<And>f. we_marshals env f"
  shows "bridgeCalls env (map CallSend msgs) w = w\<lparr>wc_out := wc_out w @ map (\<lambda>m. OutFrame (buildFrame env w m)) msgs\<rparr>"
  using assms
proof (induction msgs arbitrary: w)
  case (Cons m ms)
  let ?w = "writeOut (OutFrame (buildFrame env w m)) w"
  have "buildFrame env ?w = buildFrame env w" by (rule buildFrame_norm) (simp add: writeOut_def)
  moreover have "bridgeCalls env (map CallSend (m # ms)) w = bridgeCalls env (map CallSend ms) ?w"
    using Cons.prems by (simp add: wc_Send_def Let_def)
  moreover have "bridgeCalls env (map CallSend ms) ?w =
      ?w\<lparr>wc_out := wc_out ?w @ map (\<lambda>m. OutFrame (buildFrame env ?w m)) ms\<rparr>"
    by (rule Cons.IH) (use Cons.prems in \<open>simp_all add: writeOut_def\<close>)
  ultimately show ?case by (simp add: writeOut_def)
qed simp



section \<open>What the bridge does not do\<close>

text \<open>An adapter that closes the stream when it is done, as the in-memory adapter does, closes the
  connection's bridge for good: the frames of every later execution are dropped.\<close>

lemma closed_bridge_is_silent:
  assumes "wc_closed w"
  shows "wc_out (handleCodeExec env executeCodeStream data w) = wc_out w"
proof -
  have "wc_closed (bridgeCalls env cs v) \<and> wc_out (bridgeCalls env cs v) = wc_out v" if "wc_closed v" for cs v
    using that by (induction env cs v rule: bridgeCalls.induct) (auto simp: bridge_defs)
  from this [of "wc_reset w"] assms show ?thesis
    by (auto simp: handleCodeExec_def Let_def wc_reset_def wc_sendKeepAlive_def wc_sendError_def split: prod.splits option.splits)
qed

lemma second_execution_is_silent:
  "wc_out (handleCodeExec env exec2 data2 (handleCodeExec env (\<lambda>_. ([CallSend m, CallClose], None)) data1 w)) =
   wc_out (handleCodeExec env (\<lambda>_. ([CallSend m, CallClose], None)) data1 w)"
  by (rule closed_bridge_is_silent) (simp add: handleCodeExec_def bridge_defs)

text \<open>A cancellation that arrives before the goroutine of the execution has reset the bridge is
  forgotten.\<close>

lemma early_cancel_is_lost: "wc_canceled (wc_reset (wc_cancel w)) = False"
  by (simp add: wc_reset_def)

text \<open>A request without a token is not checked at all.\<close>

lemma missing_token_is_accepted:
  assumes "Header_Get r ''X-Access-Token'' = []" and "resolveAdapterForSandbox be ord sid w = (Inr a, w1)"
  shows "resolveAdapter be ord r [] sid rt w = (Inr a, rt, w1)"
  using assms by (simp add: resolveAdapter_def)

end
