(* ===== verification/Adapter_Util.thy ===== *)
theory Adapter_Util
  imports Gateway_Config Go_Strings
begin

text \<open>
  The helpers the adapters share (\<open>internal/adapter/util/helpers.go\<close>, \<open>config.go\<close>): identifiers,
  shell quoting, the base image of a Dockerfile, and lookups in a decoded configuration.

  A Go string is a list of bytes; \<open>strings.Map\<close> works on the runes of its UTF-8 decoding, so the
  model decodes runes as Go does (an invalid byte is one replacement rune).  Random bytes are
  an argument.
\<close>

section \<open>Runes\<close>

definition byteIn :: "nat \<Rightarrow> nat \<Rightarrow> char \<Rightarrow> bool" where
  "byteIn lo hi c = (lo \<le> (of_char c :: nat) \<and> (of_char c :: nat) \<le> hi)"

text \<open>The number of bytes of the first rune of a non-empty string.\<close>

definition runeLen :: "string \<Rightarrow> nat" where
  "runeLen s =
     (case s of
        b # c1 # c2 # c3 # rest \<Rightarrow>
          if byteIn 0xC2 0xDF b \<and> byteIn 0x80 0xBF c1 then 2
          else if byteIn 0xE0 0xEF b \<and> byteIn (if b = CHR 0xE0 then 0xA0 else 0x80) (if b = CHR 0xED then 0x9F else 0xBF) c1
                  \<and> byteIn 0x80 0xBF c2 then 3
          else if byteIn 0xF0 0xF4 b \<and> byteIn (if b = CHR 0xF0 then 0x90 else 0x80) (if b = CHR 0xF4 then 0x8F else 0xBF) c1
                  \<and> byteIn 0x80 0xBF c2 \<and> byteIn 0x80 0xBF c3 then 4
          else 1
      | [b, c1, c2] \<Rightarrow>
          if byteIn 0xC2 0xDF b \<and> byteIn 0x80 0xBF c1 then 2
          else if byteIn 0xE0 0xEF b \<and> byteIn (if b = CHR 0xE0 then 0xA0 else 0x80) (if b = CHR 0xED then 0x9F else 0xBF) c1
                  \<and> byteIn 0x80 0xBF c2 then 3
          else 1
      | [b, c1] \<Rightarrow> if byteIn 0xC2 0xDF b \<and> byteIn 0x80 0xBF c1 then 2 else 1
      | _ \<Rightarrow> 1)"

lemma runeLen_pos: "0 < runeLen s"
  by (simp add: runeLen_def split: list.splits)

section \<open>Identifiers\<close>

definition sanitizeChar :: "char \<Rightarrow> char" where
  "sanitizeChar c =
     (if byteIn 97 122 c \<or> byteIn 48 57 c \<or> c = CHR ''-'' then c
      else if byteIn 65 90 c then char_of ((of_char c :: nat) + 32)
      else CHR ''-'')"

text \<open>\<open>strings.Map\<close> with the mapping of \<open>GenerateTemplateID\<close>: one character for every rune.\<close>

function sanitizeRunes :: "string \<Rightarrow> string" where
  "sanitizeRunes s = (if s = [] then [] else sanitizeChar (hd s) # sanitizeRunes (drop (runeLen s) s))"
  by pat_completeness auto
termination
  by (relation "measure length") (use runeLen_pos in auto)

declare sanitizeRunes.simps [simp del]

definition TrimChar :: "char \<Rightarrow> string \<Rightarrow> string" where
  "TrimChar c s = rev (dropWhile (\<lambda>x. x = c) (rev (dropWhile (\<lambda>x. x = c) s)))"

definition GenerateE2BID :: "string go_res \<Rightarrow> string go_res" where
  "GenerateE2BID random6 =
     (case random6 of Inl err \<Rightarrow> Inl (Errorf ''generating E2B ID: %w'' []) | Inr b \<Rightarrow> Inr (hexEncode b))"

definition MustGenerateE2BID :: "string go_res \<Rightarrow> string option" where
  "MustGenerateE2BID random6 = (case GenerateE2BID random6 of Inl err \<Rightarrow> None | Inr i \<Rightarrow> Some i)"

definition GenerateTemplateID :: "string \<Rightarrow> string go_res \<Rightarrow> string go_res" where
  "GenerateTemplateID name random6 =
     (let sanitized = TrimChar (CHR ''-'') (sanitizeRunes name);
          sanitized = (if sanitized = [] then ''template'' else sanitized)
      in case GenerateE2BID random6 of
           Inl err \<Rightarrow> Inl err
         | Inr sfx \<Rightarrow> Inr (sanitized @ ''-'' @ sfx))"

definition MustGenerateTemplateID :: "string \<Rightarrow> string go_res \<Rightarrow> string option" where
  "MustGenerateTemplateID name random6 = (case GenerateTemplateID name random6 of Inl err \<Rightarrow> None | Inr i \<Rightarrow> Some i)"

section \<open>Dockerfiles and commands\<close>

definition fromStep :: "string \<Rightarrow> string \<Rightarrow> string" where
  "fromStep line lastFrom =
     (let line = TrimSpace line
      in if HasPrefix (ToUpper line) ''FROM '' \<and> 2 \<le> length (Fields line) then Fields line ! 1 else lastFrom)"

definition ParseDockerfileFrom :: "string \<Rightarrow> string" where
  "ParseDockerfileFrom dockerfile = fold fromStep (split_on (CHR 0x0A) dockerfile) []"

definition ShellQuote :: "string \<Rightarrow> string" where
  "ShellQuote s =
     [CHR 0x27] @ concat (map (\<lambda>c. if c = CHR 0x27 then [CHR 0x27, CHR 0x5C, CHR 0x27, CHR 0x27] else [c]) s) @ [CHR 0x27]"

text \<open>
  The \<open>%q\<close> format: a double-quoted Go literal.  On ASCII text it is written out here; what it does
  with other text (which runes are printable) is the argument \<open>quoteOther\<close>.
\<close>

definition quoteChar :: "char \<Rightarrow> string" where
  "quoteChar c =
     (if c = CHR 0x22 \<or> c = CHR 0x5C then [CHR 0x5C, c]
      else if byteIn 0x20 0x7E c then [c]
      else if c = CHR 0x07 then [CHR 0x5C, CHR ''a'']
      else if c = CHR 0x08 then [CHR 0x5C, CHR ''b'']
      else if c = CHR 0x0C then [CHR 0x5C, CHR ''f'']
      else if c = CHR 0x0A then [CHR 0x5C, CHR ''n'']
      else if c = CHR 0x0D then [CHR 0x5C, CHR ''r'']
      else if c = CHR 0x09 then [CHR 0x5C, CHR ''t'']
      else if c = CHR 0x0B then [CHR 0x5C, CHR ''v'']
      else [CHR 0x5C, CHR ''x''] @ hexEncode [c])"

definition goQuote :: "(string \<Rightarrow> string) \<Rightarrow> string \<Rightarrow> string" where
  "goQuote quoteOther s =
     (if list_all (byteIn 0 0x7F) s then [CHR 0x22] @ concat (map quoteChar s) @ [CHR 0x22] else quoteOther s)"

definition WrapCodeInCommand :: "(string \<Rightarrow> string) \<Rightarrow> string \<Rightarrow> string \<Rightarrow> string" where
  "WrapCodeInCommand quoteOther code language =
     (let l = ToLower language
      in if l = ''python'' \<or> l = ''python3'' \<or> l = [] then ''python3 -c '' @ goQuote quoteOther code
         else if l = ''javascript'' \<or> l = ''node'' then ''node -e '' @ goQuote quoteOther code
         else if l = ''bash'' \<or> l = ''sh'' then code
         else language @ '' -c '' @ goQuote quoteOther code)"

text \<open>\<open>scan\<close> is \<open>fmt.Sscanf\<close> with the format of an integer and a word: the number of items read, the integer and the
  text of the error.\<close>

definition ValidatePID :: "(string \<Rightarrow> nat \<times> int \<times> string option) \<Rightarrow> string \<Rightarrow> int go_res" where
  "ValidatePID scan processID =
     (case scan processID of
        (n, pid, err) \<Rightarrow>
          if n \<noteq> 1 \<or> (err \<noteq> None \<and> err \<noteq> Some ''EOF'')
          then Inl (Errorf ''invalid process ID: must be numeric, got %q'' [processID])
          else Inr pid)"

section \<open>Configuration lookups\<close>

fun LookupString :: "(string, any) gomap \<Rightarrow> string list \<Rightarrow> string option" where
  "LookupString m [] = None"
| "LookupString m (k # ks) = (case gm_get m k of Some (AString v) \<Rightarrow> Some v | _ \<Rightarrow> LookupString m ks)"

definition StringVal :: "(string, any) gomap \<Rightarrow> string list \<Rightarrow> string" where
  "StringVal m keys = (case LookupString m keys of None \<Rightarrow> [] | Some v \<Rightarrow> v)"

fun LookupBool :: "(string, any) gomap \<Rightarrow> string list \<Rightarrow> bool option" where
  "LookupBool m [] = None"
| "LookupBool m (k # ks) = (case gm_get m k of Some (ABool v) \<Rightarrow> Some v | _ \<Rightarrow> LookupBool m ks)"

text \<open>The entries of a map that are strings.\<close>

definition stringEntries :: "(string \<times> any) list \<Rightarrow> (string, string) gomap" where
  "stringEntries raw = List.map_filter (\<lambda>(k, v). case v of AString s \<Rightarrow> Some (k, s) | _ \<Rightarrow> None) raw"

fun LookupStringMap :: "(string, any) gomap \<Rightarrow> string list \<Rightarrow> (string, string) gomap option" where
  "LookupStringMap m [] = None"
| "LookupStringMap m (k # ks) =
     (case gm_get m k of Some (AMap raw) \<Rightarrow> Some (stringEntries raw) | _ \<Rightarrow> LookupStringMap m ks)"

section \<open>Identifiers are host-name labels\<close>

definition labelChar :: "char \<Rightarrow> bool" where
  "labelChar c \<longleftrightarrow> byteIn 97 122 c \<or> byteIn 48 57 c \<or> c = CHR ''-''"

lemma sanitizeChar_label: "labelChar (sanitizeChar c)"
proof (cases "byteIn 65 90 c")
  case True
  then have "(of_char c :: nat) + 32 < 256" by (simp add: byteIn_def)
  then have "of_char (char_of ((of_char c :: nat) + 32) :: char) = (of_char c :: nat) + 32" by simp
  with True show ?thesis by (auto simp: sanitizeChar_def labelChar_def byteIn_def)
qed (auto simp: sanitizeChar_def labelChar_def)

lemma sanitizeRunes_label: "c \<in> set (sanitizeRunes s) \<Longrightarrow> labelChar c"
proof (induction s rule: sanitizeRunes.induct)
  case (1 s)
  show ?case
  proof (cases "s = []")
    case True
    with 1(2) show ?thesis by (simp add: sanitizeRunes.simps)
  next
    case False
    with 1 show ?thesis
      by (subst (asm) (2) sanitizeRunes.simps) (auto simp: sanitizeChar_label)
  qed
qed

lemma TrimChar_sub: "set (TrimChar c s) \<subseteq> set s"
  unfolding TrimChar_def using set_mono_suffix [OF suffix_dropWhile] by (metis (no_types, lifting) set_rev subset_trans)

lemma TrimChar_hd: "TrimChar c s \<noteq> [] \<Longrightarrow> hd (TrimChar c s) \<noteq> c"
proof -
  assume ne: "TrimChar c s \<noteq> []"
  let ?t = "dropWhile (\<lambda>x. x = c) s"
  have "?t \<noteq> []"
  proof
    assume "?t = []"
    with ne show False by (simp only: TrimChar_def dropWhile.simps rev.simps)
  qed
  then have hd: "hd ?t \<noteq> c" by (metis (full_types) hd_dropWhile)
  obtain zs where zs: "?t = TrimChar c s @ zs"
  proof -
    have "rev ?t = takeWhile (\<lambda>x. x = c) (rev ?t) @ dropWhile (\<lambda>x. x = c) (rev ?t)" by simp
    then have "?t = rev (dropWhile (\<lambda>x. x = c) (rev ?t)) @ rev (takeWhile (\<lambda>x. x = c) (rev ?t))"
      by (metis rev_append rev_rev_ident)
    then show thesis using that by (simp add: TrimChar_def)
  qed
  with ne hd show ?thesis by (metis hd_append2)
qed

lemma hex_digit_label: "labelChar (hex_digit n) \<and> hex_digit n \<noteq> CHR ''-''" if "n < 16"
proof -
  have code: "of_char (hex_digit n) = (if n < 10 then 48 + n else 87 + n :: nat)"
    using that by (simp add: hex_digit_def)
  moreover have "hex_digit n \<noteq> CHR ''-''"
  proof
    assume "hex_digit n = CHR ''-''"
    then have "(of_char (hex_digit n) :: nat) = 45" by simp
    with code show False by (simp split: if_splits)
  qed
  ultimately show ?thesis using that by (auto simp: labelChar_def byteIn_def)
qed

lemma hexEncode_label: "c \<in> set (hexEncode b) \<Longrightarrow> labelChar c \<and> c \<noteq> CHR ''-''"
proof (induction b rule: hexEncode.induct)
  case (2 x xs)
  have "(of_char x :: nat) div 16 < 16" "(of_char x :: nat) mod 16 < 16"
    by (simp_all add: less_mult_imp_div_less)
  with 2 show ?case using hex_digit_label by auto
qed simp

lemma length_hexEncode [simp]: "length (hexEncode b) = 2 * length b"
  by (induction b rule: hexEncode.induct) simp_all

section \<open>Shell words\<close>

text \<open>
  How a POSIX shell reads one word: single quotes keep everything, double quotes keep everything
  but the backslash before four characters, a backslash keeps the next character.  None: the
  word ends early, an expansion takes place, or a quotation is not closed.
\<close>

datatype shellMode = Unquoted | Single | Double

definition shellSpecial :: "char \<Rightarrow> bool" where
  "shellSpecial c \<longleftrightarrow> isSpace c \<or> c \<in> set ''|&;<>()$`*?[#~%''"

fun shellWord :: "shellMode \<Rightarrow> string \<Rightarrow> string option" where
  "shellWord Unquoted [] = Some []"
| "shellWord Single [] = None"
| "shellWord Double [] = None"
| "shellWord Single (c # cs) =
     (if c = CHR 0x27 then shellWord Unquoted cs else map_option (Cons c) (shellWord Single cs))"
| "shellWord Unquoted (c # cs) =
     (if c = CHR 0x27 then shellWord Single cs
      else if c = CHR 0x22 then shellWord Double cs
      else if c = CHR 0x5C then (case cs of [] \<Rightarrow> None | d # ds \<Rightarrow> map_option (Cons d) (shellWord Unquoted ds))
      else if shellSpecial c then None
      else map_option (Cons c) (shellWord Unquoted cs))"
| "shellWord Double (c # cs) =
     (if c = CHR 0x22 then shellWord Unquoted cs
      else if c = CHR ''$'' \<or> c = CHR 0x60 then None
      else if c = CHR 0x5C then
        (case cs of
           [] \<Rightarrow> None
         | d # ds \<Rightarrow>
             if d = CHR 0x22 \<or> d = CHR 0x5C \<or> d = CHR ''$'' \<or> d = CHR 0x60
             then map_option (Cons d) (shellWord Double ds)
             else map_option (\<lambda>w. c # d # w) (shellWord Double ds))
      else map_option (Cons c) (shellWord Double cs))"

lemma shellWord_single:
  "shellWord Single (concat (map (\<lambda>c. if c = CHR 0x27 then [CHR 0x27, CHR 0x5C, CHR 0x27, CHR 0x27] else [c]) s) @ CHR 0x27 # rest) =
     map_option (append s) (shellWord Unquoted rest)"
  by (induction s) (auto simp: option.map_comp comp_def option.map_ident)

section \<open>Properties\<close>

text \<open>Shell quoting is exact. Whatever the text, a POSIX shell reads the quoted text as one word
  whose value is that text: nothing is expanded, nothing splits the word, and the quotation
  ends exactly where it should, so that what follows is read as if it stood alone.\<close>

lemma shell_quote_exact:
  "shellWord Unquoted (ShellQuote s @ rest) = map_option (append s) (shellWord Unquoted rest)"
  using shellWord_single [of s rest] by (simp add: ShellQuote_def)

text \<open>C16: Template identifiers are host-name labels. The identifier made for any name, in any encoding,
  consists of lower-case letters, digits and dashes, neither begins nor ends with a dash, and
  ends with the twelve hexadecimal digits of the random bytes, so that different random bytes
  give different identifiers.\<close>

theorem template_id_label:
  assumes "length bytes = 6"
  shows "\<exists>i stem. GenerateTemplateID name (Inr bytes) = Inr i \<and> i = stem @ ''-'' @ hexEncode bytes \<and>
           list_all labelChar i \<and> stem \<noteq> [] \<and> hd i \<noteq> CHR ''-'' \<and> last i \<noteq> CHR ''-'' \<and> length (hexEncode bytes) = 12"
proof -
  let ?t = "TrimChar (CHR ''-'') (sanitizeRunes name)"
  define stem where "stem = (if ?t = [] then ''template'' else ?t)"
  have "\<forall>c \<in> set ?t. labelChar c" using TrimChar_sub sanitizeRunes_label by blast
  moreover have "list_all labelChar ''template''" by (simp add: labelChar_def byteIn_def)
  ultimately have stem: "list_all labelChar stem" "stem \<noteq> []" "hd stem \<noteq> CHR ''-''"
    using TrimChar_hd [of "CHR ''-''" "sanitizeRunes name"] by (auto simp: stem_def list_all_iff)
  have hex: "list_all labelChar (hexEncode bytes)" "hexEncode bytes \<noteq> []" "length (hexEncode bytes) = 12"
    using hexEncode_label assms by (auto simp: list_all_iff simp flip: length_greater_0_conv)
  then have "last (hexEncode bytes) \<noteq> CHR ''-''" using hexEncode_label last_in_set by blast
  with stem hex show ?thesis
    by (intro exI [of _ "stem @ ''-'' @ hexEncode bytes"] exI [of _ stem])
      (simp add: GenerateTemplateID_def GenerateE2BID_def stem_def labelChar_def Let_def)
qed

theorem template_id_label_witness:
  "\<exists>i stem. GenerateTemplateID ''My App'' (Inr ''abcdef'') = Inr i \<and> i = stem @ ''-'' @ hexEncode ''abcdef'' \<and>
     list_all labelChar i \<and> stem \<noteq> [] \<and> hd i \<noteq> CHR ''-'' \<and> last i \<noteq> CHR ''-'' \<and> length (hexEncode ''abcdef'') = 12"
  by (rule template_id_label) simp

section \<open>What the helpers do not do\<close>

text \<open>Code is wrapped as a Go literal, not as a shell word: a program of two lines reaches the
  interpreter with a backslash and an n in place of the line break, and a dollar sign is
  expanded by the shell.\<close>

lemma wrapped_newline_is_lost:
  "shellWord Unquoted (goQuote q [CHR ''a'', CHR 0x0A, CHR ''b'']) = Some [CHR ''a'', CHR 0x5C, CHR ''n'', CHR ''b'']"
  by (simp add: goQuote_def quoteChar_def byteIn_def)

lemma wrapped_dollar_is_expanded: "shellWord Unquoted (goQuote q ''$HOME'') = None"
  by (simp add: goQuote_def quoteChar_def byteIn_def)

text \<open>The flag of a \<open>FROM\<close> line is taken for the image.\<close>

lemma platform_flag_is_the_image:
  "ParseDockerfileFrom ''FROM --platform=linux/amd64 python:3.12'' = ''--platform=linux/amd64''"
  by code_simp

end
