(* ===== verification/Backend_Factories.thy ===== *)
theory Backend_Factories
  imports Adapter_Util Redis_Store Float64
begin

text \<open>
  The factories that turn the decoded configuration of a backend into the configuration of an
  adapter (\<open>internal/adapter/opensandbox/factory.go\<close>, \<open>internal/adapter/agentsandbox/factory.go\<close>), and
  the construction of the Redis template store.

  \<open>time.ParseDuration\<close> and the connection to Redis (\<open>redis.NewClient\<close> and its ping) are arguments.
\<close>

section \<open>Lookups of the OpenSandbox factory\<close>

fun lookupString :: "(string, any) gomap \<Rightarrow> string list \<Rightarrow> string option" where
  "lookupString m [] = None"
| "lookupString m (k # ks) =
     (case gm_get m k of Some (AString s) \<Rightarrow> if s \<noteq> [] then Some s else lookupString m ks | _ \<Rightarrow> lookupString m ks)"

fun lookupMap :: "(string, any) gomap \<Rightarrow> string list \<Rightarrow> (string, any) gomap option" where
  "lookupMap m [] = None"
| "lookupMap m (k # ks) = (case gm_get m k of Some (AMap sub) \<Rightarrow> Some sub | _ \<Rightarrow> lookupMap m ks)"

text \<open>The conversion of a float to an integer type drops the fraction.\<close>

definition truncRat :: "rat \<Rightarrow> int" where
  "truncRat x = (if 0 \<le> x then \<lfloor>x\<rfloor> else \<lceil>x\<rceil>)"

definition lookupInt :: "(string, any) gomap \<Rightarrow> string \<Rightarrow> int option" where
  "lookupInt m key =
     (case gm_get m key of
        Some (AInt n) \<Rightarrow> Some n
      | Some (AFloat x) \<Rightarrow> Some (truncRat x)
      | _ \<Rightarrow> None)"

fun lookupDuration :: "(string \<Rightarrow> duration option) \<Rightarrow> (string, any) gomap \<Rightarrow> string list \<Rightarrow> duration option" where
  "lookupDuration parseDuration m [] = None"
| "lookupDuration parseDuration m (k # ks) =
     (case gm_get m k of
        Some (AString d) \<Rightarrow>
          (case parseDuration d of Some parsed \<Rightarrow> Some parsed | None \<Rightarrow> lookupDuration parseDuration m ks)
      | Some (AInt d) \<Rightarrow> Some (d * second)
      | Some (AFloat d) \<Rightarrow> Some (truncRat (fl64 (d * of_int second)))
      | _ \<Rightarrow> lookupDuration parseDuration m ks)"

section \<open>Template stores\<close>

record osRedisConfig =
  orc_Addr :: string
  orc_Password :: string
  orc_DB :: int
  orc_KeyPrefix :: string
  orc_DialTimeout :: duration
  orc_ReadTimeout :: duration
  orc_WriteTimeout :: duration

definition redisDefaults :: "osRedisConfig \<Rightarrow> osRedisConfig" where
  "redisDefaults cfg =
     cfg\<lparr>orc_DialTimeout := (if orc_DialTimeout cfg = 0 then 5 * second else orc_DialTimeout cfg),
         orc_ReadTimeout := (if orc_ReadTimeout cfg = 0 then 3 * second else orc_ReadTimeout cfg),
         orc_WriteTimeout := (if orc_WriteTimeout cfg = 0 then 3 * second else orc_WriteTimeout cfg),
         orc_KeyPrefix := (if orc_KeyPrefix cfg = [] then ''e2bgateway:opensandbox:'' else orc_KeyPrefix cfg)\<rparr>"

definition NewRedisTemplateStore ::
  "(osRedisConfig \<Rightarrow> go_error + 's redisClient) \<Rightarrow> jsonCodec \<Rightarrow> osRedisConfig \<Rightarrow> 's redisStore go_res" where
  "NewRedisTemplateStore connect codec cfg0 =
     (if orc_Addr cfg0 = [] then Inl (Errorf ''redis addr is required'' [])
      else let cfg = redisDefaults cfg0
           in case connect cfg of
                Inl err \<Rightarrow> Inl (Errorf ''redis ping: %w'' [])
              | Inr client \<Rightarrow> Inr \<lparr>rs_client = client, rs_codec = codec, rs_keyPrefix = orc_KeyPrefix cfg\<rparr>)"

text \<open>A store as the adapter holds it.\<close>

datatype 's templateStore = MemoryTS memStore | RedisTS "'s redisStore"

definition orZero :: "'a \<Rightarrow> 'a option \<Rightarrow> 'a" where
  "orZero z v = (case v of None \<Rightarrow> z | Some x \<Rightarrow> x)"

definition buildRedisStore ::
  "(string \<Rightarrow> duration option) \<Rightarrow> (osRedisConfig \<Rightarrow> go_error + 's redisClient) \<Rightarrow> jsonCodec \<Rightarrow> (string, any) gomap \<Rightarrow> 's redisStore go_res" where
  "buildRedisStore parseDuration connect codec storeCfg =
     (case (case lookupString storeCfg [''addr''] of Some v \<Rightarrow> Some v | None \<Rightarrow> lookupString storeCfg [''address'']) of
        None \<Rightarrow> Inl (Errorf ''redis addr is required'' [])
      | Some addr \<Rightarrow>
          NewRedisTemplateStore connect codec
            \<lparr>orc_Addr = addr,
             orc_Password = orZero [] (lookupString storeCfg [''password'']),
             orc_DB = orZero 0 (lookupInt storeCfg ''db''),
             orc_KeyPrefix = orZero [] (lookupString storeCfg [''keyprefix'', ''keyPrefix'']),
             orc_DialTimeout = orZero 0 (lookupDuration parseDuration storeCfg [''dialtimeout'', ''dialTimeout'']),
             orc_ReadTimeout = orZero 0 (lookupDuration parseDuration storeCfg [''readtimeout'', ''readTimeout'']),
             orc_WriteTimeout = orZero 0 (lookupDuration parseDuration storeCfg [''writetimeout'', ''writeTimeout''])\<rparr>)"

definition buildTemplateStore ::
  "(string \<Rightarrow> duration option) \<Rightarrow> (osRedisConfig \<Rightarrow> go_error + 's redisClient) \<Rightarrow> jsonCodec \<Rightarrow> (string, any) gomap \<Rightarrow> 's templateStore go_res" where
  "buildTemplateStore parseDuration connect codec storeCfg =
     (let storeType = orZero [] (lookupString storeCfg [''type'']);
          storeType = (if storeType = [] then ''memory'' else storeType)
      in if storeType = ''memory'' then Inr (MemoryTS NewMemoryTemplateStore)
         else if storeType = ''redis'' then map_sum id RedisTS (buildRedisStore parseDuration connect codec storeCfg)
         else Inl (Errorf ''unknown templateStore type %q (supported: memory, redis)'' [storeType]))"

section \<open>The OpenSandbox adapter's configuration\<close>

record 's osAdapterConfig =
  oc_Name :: string
  oc_BaseURL :: string
  oc_APIKey :: string
  oc_ExecdURL :: string
  oc_ExecdToken :: string
  oc_TemplateToImage :: "(string, string) gomap option"
  oc_UseSignedEndpoint :: bool
  oc_TemplateStore :: "'s templateStore option"

text \<open>\<open>NewAdapterFromConfig\<close> up to the call of \<open>New\<close>.\<close>

definition openSandboxConfig ::
  "(string \<Rightarrow> duration option) \<Rightarrow> (osRedisConfig \<Rightarrow> go_error + 's redisClient) \<Rightarrow> jsonCodec \<Rightarrow> BackendConfig \<Rightarrow> 's osAdapterConfig go_res" where
  "openSandboxConfig parseDuration connect codec bcfg =
     (let m = b_Config bcfg
      in case LookupString m [''baseurl'', ''baseURL''] of
           None \<Rightarrow> Inl (Errorf ''baseURL is required for OpenSandbox adapter'' [])
         | Some url \<Rightarrow>
             let cfg = \<lparr>oc_Name = b_Name bcfg, oc_BaseURL = url,
                        oc_APIKey = StringVal m [''apikey'', ''apiKey''],
                        oc_ExecdURL = StringVal m [''execdurl'', ''execdURL''],
                        oc_ExecdToken = StringVal m [''execdtoken'', ''execdToken''],
                        oc_TemplateToImage = LookupStringMap m [''templatetoimage'', ''templateToImage''],
                        oc_UseSignedEndpoint = orZero False (LookupBool m [''usesignedendpoint'', ''useSignedEndpoint'']),
                        oc_TemplateStore = None\<rparr>
             in case lookupMap m [''templatestore'', ''templateStore''] of
                  None \<Rightarrow> Inr cfg
                | Some storeCfg \<Rightarrow>
                    (case buildTemplateStore parseDuration connect codec storeCfg of
                       Inl err \<Rightarrow> Inl (Errorf ''templateStore: %w'' [])
                     | Inr store \<Rightarrow> Inr (cfg\<lparr>oc_TemplateStore := Some store\<rparr>)))"

section \<open>The agent-sandbox adapter's configuration\<close>

record asAdapterConfig =
  ac_Name :: string
  ac_Namespace :: string
  ac_GatewayName :: string
  ac_GatewayNamespace :: string
  ac_APIURL :: string
  ac_WarmPoolName :: string
  ac_TemplateToWarmPool :: "(string, string) gomap"
  ac_UseEnvdDataPlane :: bool

definition mapVal :: "(string, any) gomap \<Rightarrow> string list \<Rightarrow> (string, string) gomap option" where
  "mapVal m keys = LookupStringMap m keys"

definition boolVal :: "(string, any) gomap \<Rightarrow> bool \<Rightarrow> string list \<Rightarrow> bool" where
  "boolVal m defaultValue keys = (case LookupBool m keys of None \<Rightarrow> defaultValue | Some v \<Rightarrow> v)"

definition parseBackendConfig :: "string \<Rightarrow> (string, any) gomap \<Rightarrow> asAdapterConfig" where
  "parseBackendConfig name raw =
     \<lparr>ac_Name = name, ac_Namespace = StringVal raw [''namespace''],
      ac_GatewayName = StringVal raw [''gatewayname'', ''gatewayName''],
      ac_GatewayNamespace = StringVal raw [''gatewaynamespace'', ''gatewayNamespace''],
      ac_APIURL = StringVal raw [''apiurl'', ''apiURL''],
      ac_WarmPoolName = StringVal raw [''warmpoolname'', ''warmPoolName''],
      ac_TemplateToWarmPool = orZero [] (mapVal raw [''templatetowarmpool'', ''templateToWarmPool'']),
      ac_UseEnvdDataPlane = boolVal raw True [''useenvddataplane'', ''useEnvdDataPlane'']\<rparr>"

section \<open>What the factories accept\<close>

text \<open>The string lookups of the factory differ from the shared ones on empty values only.\<close>

lemma lookupString_nonempty: "lookupString m ks = Some s \<Longrightarrow> s \<noteq> []"
  by (induction ks) (auto split: option.splits any.splits if_splits)

text \<open>A Redis store that the factory builds has the key prefix of the configuration or the default
  one, never an empty one.\<close>

lemma new_redis_store_prefix:
  assumes "NewRedisTemplateStore connect codec cfg = Inr st"
  shows "rs_keyPrefix st \<noteq> []"
  using assms by (auto simp: NewRedisTemplateStore_def redisDefaults_def Let_def split: sum.splits if_splits)

lemma built_redis_store_prefix:
  assumes "buildRedisStore parseDuration connect codec storeCfg = Inr st"
  shows "rs_keyPrefix st \<noteq> []"
proof -
  obtain cfg where "NewRedisTemplateStore connect codec cfg = Inr st"
    using assms unfolding buildRedisStore_def by (simp split: option.split_asm)
  then show ?thesis by (rule new_redis_store_prefix)
qed

text \<open>The factory fails exactly for a missing base URL, an unknown kind of store, a Redis store without
  an address or one that cannot be reached.\<close>

lemma openSandboxConfig_ok_iff:
  "(\<exists>cfg. openSandboxConfig parseDuration connect codec bcfg = Inr cfg) \<longleftrightarrow>
     LookupString (b_Config bcfg) [''baseurl'', ''baseURL''] \<noteq> None \<and>
     (\<forall>storeCfg. lookupMap (b_Config bcfg) [''templatestore'', ''templateStore''] = Some storeCfg \<longrightarrow>
        (\<exists>store. buildTemplateStore parseDuration connect codec storeCfg = Inr store))"
proof (cases "LookupString (b_Config bcfg) [''baseurl'', ''baseURL'']")
  case None
  then show ?thesis unfolding openSandboxConfig_def Let_def by (simp del: LookupString.simps)
next
  case url: (Some url)
  show ?thesis
  proof (cases "lookupMap (b_Config bcfg) [''templatestore'', ''templateStore'']")
    case None
    with url show ?thesis unfolding openSandboxConfig_def Let_def by (simp del: LookupString.simps lookupMap.simps)
  next
    case (Some storeCfg)
    with url show ?thesis
      unfolding openSandboxConfig_def Let_def
      by (cases "buildTemplateStore parseDuration connect codec storeCfg") (simp_all del: LookupString.simps lookupMap.simps)
  qed
qed

end
