(* ===== verification/Redis_Cache.thy ===== *)
theory Redis_Cache
  imports Adapter_Types
begin

text \<open>
  The Redis-backed cache (\<open>internal/cache/redis.go\<close>).  The client is a record of functions over the
  state of the server; what the cache relies on is the locale \<open>cache_client\<close>.
\<close>

record 's cacheClient =
  cc_Set :: "string \<Rightarrow> string \<Rightarrow> duration \<Rightarrow> 's \<Rightarrow> go_error option \<times> 's"
  cc_Get :: "string \<Rightarrow> 's \<Rightarrow> string go_res \<times> 's"
  cc_Del :: "string \<Rightarrow> 's \<Rightarrow> go_error option \<times> 's"
  cc_Exists :: "string \<Rightarrow> 's \<Rightarrow> int go_res \<times> 's"

record 's redisCache =
  rca_client :: "'s cacheClient"
  rca_prefix :: string
  rca_defaultTTL :: duration

definition NewRedisCache :: "'s cacheClient \<Rightarrow> string \<Rightarrow> duration \<Rightarrow> 's redisCache" where
  "NewRedisCache client pfx defaultTTL =
     \<lparr>rca_client = client, rca_prefix = pfx, rca_defaultTTL = (if defaultTTL \<le> 0 then 30 * second else defaultTTL)\<rparr>"

definition prefixed :: "'s redisCache \<Rightarrow> string \<Rightarrow> string" where
  "prefixed rc key = (if rca_prefix rc = [] then key else rca_prefix rc @ '':'' @ key)"

text \<open>A hit is \<open>Inr (Some value)\<close>, a miss \<open>Inr None\<close>.\<close>

definition RedisCache_Get :: "'s redisCache \<Rightarrow> string \<Rightarrow> 's \<Rightarrow> (string option) go_res \<times> 's" where
  "RedisCache_Get rc key s =
     (case cc_Get (rca_client rc) (prefixed rc key) s of
        (Inl err, s') \<Rightarrow> (Inl err, s')
      | (Inr val, s') \<Rightarrow> (Inr (if val = [] then None else Some val), s'))"

definition RedisCache_SetWithTTL :: "'s redisCache \<Rightarrow> string \<Rightarrow> string \<Rightarrow> duration \<Rightarrow> 's \<Rightarrow> go_error option \<times> 's" where
  "RedisCache_SetWithTTL rc key value ttl s =
     cc_Set (rca_client rc) (prefixed rc key) value (if ttl \<le> 0 then rca_defaultTTL rc else ttl) s"

definition RedisCache_Set :: "'s redisCache \<Rightarrow> string \<Rightarrow> string \<Rightarrow> 's \<Rightarrow> go_error option \<times> 's" where
  "RedisCache_Set rc key value s = RedisCache_SetWithTTL rc key value (rca_defaultTTL rc) s"

definition RedisCache_Delete :: "'s redisCache \<Rightarrow> string \<Rightarrow> 's \<Rightarrow> go_error option \<times> 's" where
  "RedisCache_Delete rc key s = cc_Del (rca_client rc) (prefixed rc key) s"

definition RedisCache_Exists :: "'s redisCache \<Rightarrow> string \<Rightarrow> 's \<Rightarrow> bool go_res \<times> 's" where
  "RedisCache_Exists rc key s =
     (case cc_Exists (rca_client rc) (prefixed rc key) s of
        (Inl err, s') \<Rightarrow> (Inl err, s')
      | (Inr n, s') \<Rightarrow> (Inr (n > 0), s'))"

lemma prefixed_inj: "prefixed rc k = prefixed rc k' \<longleftrightarrow> k = k'"
  by (simp add: prefixed_def)

section \<open>What the cache relies on\<close>

text \<open>A client that answers from a map of live keys: a missing key reads as the empty string.\<close>

locale cache_client =
  fixes client :: "'s cacheClient" and live :: "'s \<Rightarrow> string \<Rightarrow> string option"
  assumes set_live: "cc_Set client k v ttl s = (None, s') \<Longrightarrow> 0 < ttl \<Longrightarrow> live s' = (live s)(k \<mapsto> v)"
    and del_live: "cc_Del client k s = (None, s') \<Longrightarrow> live s' = (live s)(k := None)"
    and get_live: "cc_Get client k s = (Inr v, s') \<Longrightarrow> v = (case live s k of None \<Rightarrow> [] | Some x \<Rightarrow> x) \<and> live s' = live s"
    and exists_live: "cc_Exists client k s = (Inr n, s') \<Longrightarrow> (n > 0 \<longleftrightarrow> live s k \<noteq> None) \<and> live s' = live s"
begin

lemma get_after_set:
  assumes "RedisCache_SetWithTTL (NewRedisCache client p d) key value ttl s = (None, s1)"
    and "RedisCache_Get (NewRedisCache client p d) key' s1 = (Inr r, s2)"
  shows "r = (if key' = key then (if value = [] then None else Some value)
              else case live s (prefixed (NewRedisCache client p d) key') of
                     None \<Rightarrow> None | Some x \<Rightarrow> if x = [] then None else Some x)"
proof -
  let ?rc = "NewRedisCache client p d"
  have c: "rca_client ?rc = client" "0 < rca_defaultTTL ?rc"
    by (simp_all add: NewRedisCache_def)
  have "live s1 = (live s)(prefixed ?rc key \<mapsto> value)"
    by (rule set_live [where ttl = "if ttl \<le> 0 then rca_defaultTTL ?rc else ttl"])
      (use assms(1) c in \<open>simp_all add: RedisCache_SetWithTTL_def split: if_splits\<close>)
  moreover obtain v where "cc_Get client (prefixed ?rc key') s1 = (Inr v, s2)" "r = (if v = [] then None else Some v)"
    using assms(2) c by (auto simp: RedisCache_Get_def split: prod.splits sum.splits)
  ultimately show ?thesis
    using get_live [of "prefixed ?rc key'" s1 v s2] by (auto simp: prefixed_inj split: option.splits)
qed

lemma miss_after_delete:
  assumes "RedisCache_Delete (NewRedisCache client p d) key s = (None, s1)"
    and "RedisCache_Get (NewRedisCache client p d) key s1 = (Inr r, s2)"
  shows "r = None"
proof -
  let ?rc = "NewRedisCache client p d"
  have c: "rca_client ?rc = client" by (simp add: NewRedisCache_def)
  have "live s1 = (live s)(prefixed ?rc key := None)"
    by (rule del_live) (use assms(1) c in \<open>simp add: RedisCache_Delete_def\<close>)
  moreover obtain v where "cc_Get client (prefixed ?rc key) s1 = (Inr v, s2)" "r = (if v = [] then None else Some v)"
    using assms(2) c by (auto simp: RedisCache_Get_def split: prod.splits sum.splits)
  ultimately show ?thesis
    using get_live [of "prefixed ?rc key" s1 v s2] by auto
qed

text \<open>A cached empty string exists and yet reads as a miss.\<close>

lemma empty_value_is_a_miss:
  assumes "RedisCache_Set (NewRedisCache client p d) key [] s = (None, s1)"
    and "RedisCache_Get (NewRedisCache client p d) key s1 = (Inr r, s2)"
    and "RedisCache_Exists (NewRedisCache client p d) key s1 = (Inr e, s3)"
  shows "r = None \<and> e"
proof -
  let ?rc = "NewRedisCache client p d"
  have c: "rca_client ?rc = client" "0 < rca_defaultTTL ?rc" by (simp_all add: NewRedisCache_def)
  have "live s1 = (live s)(prefixed ?rc key \<mapsto> [])"
    by (rule set_live [where ttl = "rca_defaultTTL ?rc"])
      (use assms(1) c in \<open>simp_all add: RedisCache_Set_def RedisCache_SetWithTTL_def\<close>)
  moreover obtain n where "cc_Exists client (prefixed ?rc key) s1 = (Inr n, s3)" "e = (n > 0)"
    using assms(3) c by (auto simp: RedisCache_Exists_def split: prod.splits sum.splits)
  ultimately have "e" using exists_live [of "prefixed ?rc key" s1 n s3] by simp
  moreover have "r = None"
    using get_after_set [of p d key "[]" "rca_defaultTTL ?rc" s s1 key r s2] assms(1,2)
    by (simp add: RedisCache_Set_def)
  ultimately show ?thesis by simp
qed

end

section \<open>A server in memory\<close>

definition mem_cache :: "((string, string) gomap) cacheClient" where
  "mem_cache =
     \<lparr>cc_Set = (\<lambda>k v ttl s. (None, gm_set s k v)),
      cc_Get = (\<lambda>k s. (Inr (gm_get_or [] s k), s)),
      cc_Del = (\<lambda>k s. (None, gm_del s k)),
      cc_Exists = (\<lambda>k s. (Inr (if gm_has s k then 1 else 0), s))\<rparr>"

interpretation mc: cache_client mem_cache gm_get
  by unfold_locales
    (auto simp: mem_cache_def fun_eq_iff gm_set_def gm_del_def gm_get_update gm_get_delete gm_get_or_def gm_has_def split: if_splits option.splits)

end
