(* ===== verification/OpenSandbox_Adapter.thy ===== *)
theory OpenSandbox_Adapter
  imports Backend_Factories Handlers WS_Exec LRU_Cache
begin

text \<open>
  The OpenSandbox adapter (\<open>internal/adapter/opensandbox/adapter.go\<close>): sandboxes of an OpenSandbox
  server, templates of the gateway's own template store.

  The clients of the OpenSandbox SDK are the record \<open>osServices\<close> of functions over a state \<open>'w\<close> of
  the outside world; a client of the daemon in a sandbox is the value the SDK constructs it
  from.  The template store is a record of operations over its own state (\<open>storeOps\<close>, with the
  two listings beside it), so that the in-memory and the Redis store can both be plugged in.
  Random bytes are arguments; \<open>clk\<close> gives the successive readings of the clock of one call.  A
  streamed command is the list of its events and the error it ends with.
\<close>

section \<open>The SDK\<close>

datatype osState =
    StatePending
  | StateRunning
  | StatePausing
  | StatePaused
  | StateStopping
  | StateTerminated
  | StateFailed
  | StateOther string

record osInfo =
  oi_ID :: string
  oi_Image :: string
  oi_State :: osState
  oi_CreatedAt :: time

record osEndpoint =
  oe_Endpoint :: string
  oe_Headers :: strmap

record osCreate =
  ok_Image :: string
  ok_Entrypoint :: "string list"
  ok_ResourceLimits :: strmap
  ok_Timeout :: int
  ok_Env :: strmap
  ok_Metadata :: strmap

record execdClient =
  xc_URL :: string
  xc_Token :: string
  xc_Headers :: strmap

record osFile =
  of_Path :: string
  of_Size :: int
  of_Type :: string

record streamEvent =
  ev_Event :: string
  ev_Data :: string

record 'w osServices =
  lc_ListSandboxes :: "int \<Rightarrow> 'w \<Rightarrow> (osInfo list) go_res \<times> 'w"
  lc_CreateSandbox :: "osCreate \<Rightarrow> 'w \<Rightarrow> osInfo go_res \<times> 'w"
  lc_GetSandbox :: "string \<Rightarrow> 'w \<Rightarrow> osInfo go_res \<times> 'w"
  lc_DeleteSandbox :: "string \<Rightarrow> 'w \<Rightarrow> go_error option \<times> 'w"
  lc_PauseSandbox :: "string \<Rightarrow> 'w \<Rightarrow> go_error option \<times> 'w"
  lc_ResumeSandbox :: "string \<Rightarrow> 'w \<Rightarrow> go_error option \<times> 'w"
  lc_RenewExpiration :: "string \<Rightarrow> time \<Rightarrow> 'w \<Rightarrow> go_error option \<times> 'w"
  lc_GetEndpoint :: "string \<Rightarrow> int \<Rightarrow> 'w \<Rightarrow> osEndpoint go_res \<times> 'w"
  lc_GetSignedEndpoint :: "string \<Rightarrow> int \<Rightarrow> time \<Rightarrow> 'w \<Rightarrow> osEndpoint go_res \<times> 'w"
  xd_RunCommand :: "execdClient \<Rightarrow> string \<Rightarrow> 'w \<Rightarrow> (streamEvent list \<times> go_error option) \<times> 'w"
  xd_DownloadFile :: "execdClient \<Rightarrow> string \<Rightarrow> 'w \<Rightarrow> reader go_res \<times> 'w"
  xd_UploadFile :: "execdClient \<Rightarrow> string \<Rightarrow> string go_res \<Rightarrow> 'w \<Rightarrow> go_error option \<times> 'w"
  xd_ListDirectory :: "execdClient \<Rightarrow> string \<Rightarrow> 'w \<Rightarrow> (osFile list) go_res \<times> 'w"
  xd_CreateDirectory :: "execdClient \<Rightarrow> string \<Rightarrow> 'w \<Rightarrow> go_error option \<times> 'w"
  xd_DeleteFiles :: "execdClient \<Rightarrow> string list \<Rightarrow> 'w \<Rightarrow> go_error option \<times> 'w"
  xd_MoveFiles :: "execdClient \<Rightarrow> string \<Rightarrow> string \<Rightarrow> 'w \<Rightarrow> go_error option \<times> 'w"
  sdk_DefaultExecdPort :: int
  sdk_DefaultEntrypoint :: "string list"
  sdk_DefaultResourceLimits :: strmap
  sdk_DefaultTimeoutSeconds :: int

text \<open>\<open>extractText\<close> decodes an event with \<open>json.Unmarshal\<close>, the argument \<open>textOf\<close>: the field \<open>text\<close> of the
  object, or None for malformed JSON.\<close>

definition extractText :: "(string \<Rightarrow> string option) \<Rightarrow> string \<Rightarrow> string" where
  "extractText textOf data =
     (if data = [] \<or> hd data \<noteq> CHR ''{'' then data
      else case textOf data of None \<Rightarrow> data | Some t \<Rightarrow> if t \<noteq> [] then t else data)"

definition mapState :: "osState \<Rightarrow> string" where
  "mapState state =
     (case state of
        StateRunning \<Rightarrow> SandboxStatusRunning
      | StatePaused \<Rightarrow> SandboxStatusPaused
      | StateTerminated \<Rightarrow> SandboxStatusStopped
      | StatePending \<Rightarrow> SandboxStatusStarting
      | StatePausing \<Rightarrow> SandboxStatusStarting
      | StateStopping \<Rightarrow> SandboxStatusStarting
      | StateFailed \<Rightarrow> SandboxStatusStopped
      | StateOther s \<Rightarrow> SandboxStatusStarting)"

section \<open>State\<close>

text \<open>The error of an operation: one of the adapter's or the clients' own, or one of the store.\<close>

datatype osError = OsErr go_error | OsStore storeError

record 't osAdapter =
  os_name :: string
  os_templateToImage :: strmap
  os_execdClients :: "(string, execdClient) gomap"
  os_tokenCache :: "string cache"
  os_useSignedEndpoint :: bool
  os_endpointHeaders :: "strmap cache"
  os_portTracker :: "(string, (int, bool) gomap) gomap"
  os_registry :: "SandboxBackendMap option"
  os_templates :: 't

text \<open>\<open>New\<close>, with the template store chosen by the caller.\<close>

definition OS_New :: "'s osAdapterConfig \<Rightarrow> SandboxBackendMap option \<Rightarrow> 't \<Rightarrow> ('t osAdapter) go_res" where
  "OS_New cfg registry templates =
     (if oc_BaseURL cfg = [] then Inl (Errorf ''baseURL is required'' [])
      else Inr \<lparr>os_name = oc_Name cfg, os_templateToImage = orZero [] (oc_TemplateToImage cfg), os_execdClients = [],
                os_tokenCache = Cache_New 10000 hour, os_useSignedEndpoint = oc_UseSignedEndpoint cfg,
                os_endpointHeaders = Cache_New 10000 hour, os_portTracker = [], os_registry = registry,
                os_templates = templates\<rparr>)"

section \<open>Waiting for a sandbox\<close>

text \<open>
  \<open>waitRunning\<close>: the loop polls the server; it ends when the sandbox runs, has failed, the
  deadline has passed or the context is done.  The world of round \<open>i\<close> answers the poll,
  says whether the context is done, and how much longer than the delay the wait and the poll
  took (\<open>lag i\<close>).  The loop has no bound of its own: its result is an option, None if it never
  returned.
\<close>

partial_function (option) waitLoop ::
  "(string \<Rightarrow> 'w \<Rightarrow> osInfo go_res \<times> 'w) \<Rightarrow> (nat \<Rightarrow> bool) \<Rightarrow> (nat \<Rightarrow> nat) \<Rightarrow> string \<Rightarrow> time \<Rightarrow> nat \<Rightarrow> duration \<Rightarrow> time \<Rightarrow> 'w \<Rightarrow>
   (osInfo go_res \<times> nat \<times> 'w) option" where
  "waitLoop getSandbox ctxDone lag sandboxID deadline i delay now w =
     (case getSandbox sandboxID w of
        (res, w') \<Rightarrow>
          (case (case res of
                   Inr info \<Rightarrow>
                     (case oi_State info of
                        StateRunning \<Rightarrow> Some (Inr info)
                      | StateFailed \<Rightarrow> Some (Inl (Errorf ''sandbox %q entered state %s'' [sandboxID, ''Failed'']))
                      | StateTerminated \<Rightarrow> Some (Inl (Errorf ''sandbox %q entered state %s'' [sandboxID, ''Terminated'']))
                      | _ \<Rightarrow> None)
                 | Inl err \<Rightarrow> None) of
             Some out \<Rightarrow> Some (out, i, w')
           | None \<Rightarrow>
               if now > deadline
               then Some (Inl (Errorf ''timed out waiting for sandbox %q to become Running'' [sandboxID]), i, w')
               else if ctxDone i then Some (Inl (Errorf ''context canceled'' []), i, w')
               else waitLoop getSandbox ctxDone lag sandboxID deadline (i + 1)
                      (if delay < 2 * second then 2 * delay else delay) (now + delay + int (lag i)) w'))"

definition waitRunning ::
  "(string \<Rightarrow> 'w \<Rightarrow> osInfo go_res \<times> 'w) \<Rightarrow> (nat \<Rightarrow> bool) \<Rightarrow> (nat \<Rightarrow> nat) \<Rightarrow> string \<Rightarrow> time \<Rightarrow> 'w \<Rightarrow>
   (osInfo go_res \<times> nat \<times> 'w) option" where
  "waitRunning getSandbox ctxDone lag sandboxID now w =
     waitLoop getSandbox ctxDone lag sandboxID (now + 60 * second) 0 (200 * 10 ^ 6) now w"

text \<open>One round: the loop ends here, or it goes on after the delay.\<close>

lemma waitLoop_round:
  obtains (ends) out w' where "waitLoop getSandbox ctxDone lag sid deadline i delay now w = Some (out, i, w')"
  | (continues) w' where "now \<le> deadline"
      "waitLoop getSandbox ctxDone lag sid deadline i delay now w =
       waitLoop getSandbox ctxDone lag sid deadline (i + 1) (if delay < 2 * second then 2 * delay else delay)
         (now + delay + int (lag i)) w'"
proof -
  obtain res w' where g: "getSandbox sid w = (res, w')" by fastforce
  show thesis
  proof (cases "(\<exists>info. res = Inr info \<and> oi_State info \<in> {StateRunning, StateFailed, StateTerminated}) \<or>
      now > deadline \<or> ctxDone i")
    case True
    then have "\<exists>out. waitLoop getSandbox ctxDone lag sid deadline i delay now w = Some (out, i, w')"
      using g by (subst waitLoop.simps) (auto split: sum.splits osState.splits)
    then show thesis using ends by blast
  next
    case False
    then have "waitLoop getSandbox ctxDone lag sid deadline i delay now w =
        waitLoop getSandbox ctxDone lag sid deadline (i + 1) (if delay < 2 * second then 2 * delay else delay)
          (now + delay + int (lag i)) w'"
      using g by (subst waitLoop.simps) (auto split: sum.splits osState.splits)
    with False show thesis using continues by simp
  qed
qed

text \<open>Enough rounds are left when the rounds at the current delay pass the deadline.\<close>

lemma waitLoop_returns:
  assumes "0 < D" and "int D \<le> delay" and "deadline - now < int (D * n)"
  shows "\<exists>out k w'. waitLoop getSandbox ctxDone lag sid deadline i delay now w = Some (out, k, w') \<and> i \<le> k \<and> k \<le> i + n"
  using assms(2,3)
proof (induction n arbitrary: i delay now w)
  case 0
  then show ?case
    by (cases rule: waitLoop_round [of getSandbox ctxDone lag sid deadline i delay now w]) auto
next
  case (Suc n)
  show ?case
  proof (cases rule: waitLoop_round [of getSandbox ctxDone lag sid deadline i delay now w])
    case (ends out w')
    then show ?thesis by auto
  next
    case (continues w')
    let ?d = "if delay < 2 * second then 2 * delay else delay"
    have "int D \<le> ?d" using Suc.prems(1) by simp
    moreover have "deadline - (now + delay + int (lag i)) < int (D * n)" using Suc.prems by (simp add: algebra_simps)
    ultimately obtain out k w2 where "waitLoop getSandbox ctxDone lag sid deadline (i + 1) ?d (now + delay + int (lag i)) w' = Some (out, k, w2)"
      "i + 1 \<le> k" "k \<le> i + 1 + n"
      using Suc.IH by blast
    with continues(2) show ?thesis by auto
  qed
qed

text \<open>A round more, at a smaller delay.\<close>

lemma waitLoop_stage:
  assumes "d' = (if d < 2 * second then 2 * d else d)" and "T' = T - d"
    and "\<And>i now w. deadline - now \<le> T' \<Longrightarrow>
      \<exists>out k w'. waitLoop getSandbox ctxDone lag sid deadline i d' now w = Some (out, k, w') \<and> i \<le> k \<and> k \<le> i + n"
    and "deadline - now \<le> T" and "m = Suc n"
  shows "\<exists>out k w'. waitLoop getSandbox ctxDone lag sid deadline i d now w = Some (out, k, w') \<and> i \<le> k \<and> k \<le> i + m"
proof (cases rule: waitLoop_round [of getSandbox ctxDone lag sid deadline i d now w])
  case (continues w')
  have "deadline - (now + d + int (lag i)) \<le> T'" using assms(2,4) by simp
  then show ?thesis
    using assms(3) [of "now + d + int (lag i)" "i + 1" w'] continues(2) unfolding assms(1,5) by auto
qed auto

text \<open>The delay goes from 200 ms through 400 ms, 800 ms and 1.6 s to 3.2 s, and stays there: three
  seconds of the minute are gone, and eighteen rounds pass the rest.\<close>

lemma waitRunning_returns:
  "\<exists>out k w'. waitRunning getSandbox ctxDone lag sid now w = Some (out, k, w') \<and> k \<le> 22"
proof -
  define dl where "dl = now + 60 * second"
  let ?fin = "\<lambda>i d now' w n. \<exists>out k w'. waitLoop getSandbox ctxDone lag sid dl i d now' w = Some (out, k, w') \<and>
      i \<le> k \<and> k \<le> i + n"
  have 5: "?fin i (3200 * 10 ^ 6) now' w 18" if "dl - now' \<le> 57 * 10 ^ 9" for i now' w
    using waitLoop_returns [of "3200 * 10 ^ 6" "3200 * 10 ^ 6" dl now' 18] that by simp
  have 4: "?fin i (1600 * 10 ^ 6) now' w 19" if "dl - now' \<le> 58600 * 10 ^ 6" for i now' w
    by (rule waitLoop_stage [OF _ _ 5 that]) simp_all
  have 3: "?fin i (800 * 10 ^ 6) now' w 20" if "dl - now' \<le> 59400 * 10 ^ 6" for i now' w
    by (rule waitLoop_stage [OF _ _ 4 that]) simp_all
  have 2: "?fin i (400 * 10 ^ 6) now' w 21" if "dl - now' \<le> 59800 * 10 ^ 6" for i now' w
    by (rule waitLoop_stage [OF _ _ 3 that]) simp_all
  have 1: "dl - now \<le> 60000 * 10 ^ 6" by (simp add: dl_def)
  have "?fin 0 (200 * 10 ^ 6) now w 22"
    by (rule waitLoop_stage [OF _ _ 2 1]) simp_all
  then show ?thesis by (simp add: waitRunning_def dl_def)
qed

text \<open>A successful wait ends with a running sandbox.\<close>

lemma waitLoop_running:
  assumes "waitLoop getSandbox ctxDone lag sid deadline i d now w = Some (Inr info, k, w')"
  shows "oi_State info = StateRunning"
proof -
  have "case r of (out, _) \<Rightarrow> \<forall>info. out = Inr info \<longrightarrow> oi_State info = StateRunning"
    if "waitLoop getSandbox ctxDone lag sid deadline i d now w = Some r" for r
    using that
    by (rule waitLoop.raw_induct [where P = "\<lambda>_ _ _ _ _ _ _ _ _ r. case r of (out, _) \<Rightarrow>
            \<forall>info. out = Inr info \<longrightarrow> oi_State info = StateRunning", rotated])
      (auto split: prod.splits option.splits sum.splits osState.splits if_splits)
  from this [OF assms] show ?thesis by simp
qed

section \<open>The client of the daemon in a sandbox\<close>

text \<open>An endpoint without a scheme is reached over plain HTTP.\<close>

definition withScheme :: "string \<Rightarrow> string" where
  "withScheme u = (if \<not> HasPrefix u ''http'' then ''http://'' @ u else u)"

text \<open>The endpoint of a port, signed or through the server's proxy; the first reading of the clock
  is used only for the signed one.\<close>

definition getEndpointFor ::
  "'w osServices \<Rightarrow> 't osAdapter \<Rightarrow> string \<Rightarrow> int \<Rightarrow> time \<Rightarrow> 'w \<Rightarrow> osEndpoint go_res \<times> 'w" where
  "getEndpointFor svc a sandboxID port now w =
     (if os_useSignedEndpoint a then lc_GetSignedEndpoint svc sandboxID port (now + hour) w
      else lc_GetEndpoint svc sandboxID port w)"

text \<open>The insertion under the write lock: a client another goroutine has put there wins.\<close>

definition installExecd :: "string \<Rightarrow> execdClient \<Rightarrow> 't osAdapter \<Rightarrow> execdClient \<times> 't osAdapter" where
  "installExecd sandboxID ec a =
     (case gm_get (os_execdClients a) sandboxID of
        Some existing \<Rightarrow> (existing, a)
      | None \<Rightarrow> (ec, a\<lparr>os_execdClients := gm_set (os_execdClients a) sandboxID ec\<rparr>))"

definition getOrCreateExecdClient ::
  "'w osServices \<Rightarrow> string \<Rightarrow> (nat \<Rightarrow> time) \<Rightarrow> 't osAdapter \<times> 'w \<Rightarrow> execdClient go_res \<times> 't osAdapter \<times> 'w" where
  "getOrCreateExecdClient svc sandboxID clk st =
     (case st of (a, w) \<Rightarrow>
        (case gm_get (os_execdClients a) sandboxID of
           Some ec \<Rightarrow> (Inr ec, a, w)
         | None \<Rightarrow>
             (case getEndpointFor svc a sandboxID (sdk_DefaultExecdPort svc) (clk 0) w of
                (Inl err, w) \<Rightarrow> (Inl (Errorf ''getting execd endpoint for sandbox %q: %w'' [sandboxID]), a, w)
              | (Inr ep, w) \<Rightarrow>
                  (case Cache_Get (os_endpointHeaders a) sandboxID (clk 1) of
                     (cachedHeaders, hc) \<Rightarrow>
                       (case Cache_Get (os_tokenCache a) sandboxID (clk 2) of
                          (cachedToken, tc) \<Rightarrow>
                            let ec = \<lparr>xc_URL = withScheme (oe_Endpoint ep), xc_Token = orZero [] cachedToken,
                                      xc_Headers = gm_copy (gm_copy [] (orZero [] cachedHeaders)) (oe_Headers ep)\<rparr>
                            in case installExecd sandboxID ec (a\<lparr>os_endpointHeaders := hc, os_tokenCache := tc\<rparr>) of
                                 (ec, a) \<Rightarrow> (Inr ec, a, w))))))"

text \<open>The methods that use the client all begin this way.\<close>

definition withExecd ::
  "'w osServices \<Rightarrow> string \<Rightarrow> (nat \<Rightarrow> time) \<Rightarrow> (execdClient \<Rightarrow> 'w \<Rightarrow> 'x go_res \<times> 'w) \<Rightarrow> 't osAdapter \<times> 'w \<Rightarrow>
   'x go_res \<times> 't osAdapter \<times> 'w" where
  "withExecd svc sandboxID clk call st =
     (case getOrCreateExecdClient svc sandboxID clk st of
        (Inl err, st) \<Rightarrow> (Inl err, st)
      | (Inr ec, a, w) \<Rightarrow> (case call ec w of (res, w) \<Rightarrow> (res, a, w)))"

definition HealthCheck_OS :: "'w osServices \<Rightarrow> 'w \<Rightarrow> go_error option \<times> 'w" where
  "HealthCheck_OS svc w = (case lc_ListSandboxes svc 1 w of (Inl err, w) \<Rightarrow> (Some err, w) | (Inr _, w) \<Rightarrow> (None, w))"

section \<open>Lifecycle\<close>

text \<open>The image of a template: the configured map, then the store, then an alias, then the
  identifier itself.\<close>

definition resolveImage ::
  "'t storeOps \<Rightarrow> string \<Rightarrow> 't osAdapter \<Rightarrow> (osError + string) \<times> 't osAdapter" where
  "resolveImage sops templateID a =
     (case gm_get (os_templateToImage a) templateID of
        Some mapped \<Rightarrow> (Inr mapped, a)
      | None \<Rightarrow>
          (case so_get sops templateID (os_templates a) of
             (res, t) \<Rightarrow>
               (case (case res of
                        Inr entry \<Rightarrow> Inr (te_ImageURI entry)
                      | Inl (ErrTemplateNotFound i) \<Rightarrow> Inr templateID
                      | Inl err \<Rightarrow> Inl (OsErr (Errorf ''looking up template %q: %w'' [templateID]))) of
                  Inl err \<Rightarrow> (Inl err, a\<lparr>os_templates := t\<rparr>)
                | Inr imageURI \<Rightarrow>
                    if imageURI \<noteq> templateID then (Inr imageURI, a\<lparr>os_templates := t\<rparr>)
                    else
                      (case so_resolve sops templateID t of
                         (Inl err, t) \<Rightarrow> (Inr imageURI, a\<lparr>os_templates := t\<rparr>)
                       | (Inr resolvedID, t) \<Rightarrow>
                           (case so_get sops resolvedID t of
                              (Inl err, t) \<Rightarrow> (Inr imageURI, a\<lparr>os_templates := t\<rparr>)
                            | (Inr entry, t) \<Rightarrow> (Inr (te_ImageURI entry), a\<lparr>os_templates := t\<rparr>))))))"

definition registerSandbox :: "string \<Rightarrow> 't osAdapter \<Rightarrow> 't osAdapter" where
  "registerSandbox sandboxID a =
     a\<lparr>os_registry := map_option (\<lambda>m. SandboxBackendMap_Set m sandboxID (os_name a)) (os_registry a)\<rparr>"

text \<open>\<open>CreateSandbox\<close>: None if the wait for the sandbox never ended.  \<open>now\<close> is the instant the wait
  begins, \<open>ctxDone\<close> and \<open>lag\<close> are the rounds of the wait.\<close>

definition OS_CreateSandbox ::
  "'w osServices \<Rightarrow> 't storeOps \<Rightarrow> (nat \<Rightarrow> bool) \<Rightarrow> (nat \<Rightarrow> nat) \<Rightarrow> time \<Rightarrow> CreateSandboxRequest \<Rightarrow> 't osAdapter \<times> 'w \<Rightarrow>
   ((osError + Sandbox) \<times> 't osAdapter \<times> 'w) option" where
  "OS_CreateSandbox svc sops ctxDone lag now req st =
     (case st of (a, w) \<Rightarrow>
        (case resolveImage sops (csr_TemplateID req) a of
           (Inl err, a) \<Rightarrow> Some (Inl err, a, w)
         | (Inr imageURI, a) \<Rightarrow>
             (case lc_CreateSandbox svc
                     \<lparr>ok_Image = imageURI, ok_Entrypoint = sdk_DefaultEntrypoint svc,
                      ok_ResourceLimits = sdk_DefaultResourceLimits svc, ok_Timeout = sdk_DefaultTimeoutSeconds svc,
                      ok_Env = csr_Envs req, ok_Metadata = csr_Metadata req\<rparr> w of
                (Inl err, w) \<Rightarrow> Some (Inl (OsErr (Errorf ''creating sandbox: %w'' [])), a, w)
              | (Inr sbx, w) \<Rightarrow>
                  Option.bind
                    (if oi_State sbx \<noteq> StateRunning
                     then waitRunning (lc_GetSandbox svc) ctxDone lag (oi_ID sbx) now w
                     else Some (Inr sbx, 0, w))
                    (\<lambda>(res, _, w).
                       case res of
                         Inl err \<Rightarrow> (case lc_DeleteSandbox svc (oi_ID sbx) w of (_, w) \<Rightarrow> Some (Inl (OsErr err), a, w))
                       | Inr info \<Rightarrow>
                           Some (Inr \<lparr>sb_SandboxID = oi_ID info, sb_TemplateID = csr_TemplateID req, sb_Alias = [],
                                      sb_StartedAt = oi_CreatedAt info, sb_EndAt = zeroTime,
                                      sb_Status = mapState (oi_State info), sb_Metadata = csr_Metadata req,
                                      sb_ClientID = [], sb_Backend = os_name a\<rparr>,
                                 registerSandbox (oi_ID info) a, w)))))"

definition sandboxOf :: "'t osAdapter \<Rightarrow> osInfo \<Rightarrow> Sandbox" where
  "sandboxOf a sbx =
     \<lparr>sb_SandboxID = oi_ID sbx, sb_TemplateID = oi_Image sbx, sb_Alias = [], sb_StartedAt = oi_CreatedAt sbx,
      sb_EndAt = zeroTime, sb_Status = mapState (oi_State sbx), sb_Metadata = [], sb_ClientID = [],
      sb_Backend = os_name a\<rparr>"

definition OS_ListSandboxes ::
  "'w osServices \<Rightarrow> ListOptions \<Rightarrow> 't osAdapter \<times> 'w \<Rightarrow> (Sandbox list) go_res \<times> 't osAdapter \<times> 'w" where
  "OS_ListSandboxes svc opts st =
     (case st of (a, w) \<Rightarrow>
        (case lc_ListSandboxes svc (lo_Limit opts) w of
           (Inl err, w) \<Rightarrow> (Inl (Errorf ''listing sandboxes: %w'' []), a, w)
         | (Inr items, w) \<Rightarrow> (Inr (map (sandboxOf a) items), a, w)))"

definition OS_GetSandbox ::
  "'w osServices \<Rightarrow> string \<Rightarrow> 't osAdapter \<times> 'w \<Rightarrow> Sandbox go_res \<times> 't osAdapter \<times> 'w" where
  "OS_GetSandbox svc sandboxID st =
     (case st of (a, w) \<Rightarrow>
        (case lc_GetSandbox svc sandboxID w of
           (Inl err, w) \<Rightarrow> (Inl (Errorf ''getting sandbox: %w'' []), a, w)
         | (Inr sbx, w) \<Rightarrow> (Inr (sandboxOf a sbx), a, w)))"

definition OS_KillSandbox ::
  "'w osServices \<Rightarrow> string \<Rightarrow> 't osAdapter \<times> 'w \<Rightarrow> go_error option \<times> 't osAdapter \<times> 'w" where
  "OS_KillSandbox svc sandboxID st =
     (case st of (a, w) \<Rightarrow>
        (case lc_DeleteSandbox svc sandboxID w of
           (Some err, w) \<Rightarrow> (Some err, a, w)
         | (None, w) \<Rightarrow>
             (None,
              a\<lparr>os_execdClients := gm_del (os_execdClients a) sandboxID,
                os_portTracker := gm_del (os_portTracker a) sandboxID,
                os_registry := map_option (\<lambda>m. SandboxBackendMap_Delete m sandboxID) (os_registry a)\<rparr>, w)))"

definition OS_PauseSandbox ::
  "'w osServices \<Rightarrow> string \<Rightarrow> 't osAdapter \<times> 'w \<Rightarrow> go_error option \<times> 't osAdapter \<times> 'w" where
  "OS_PauseSandbox svc sandboxID st = (case st of (a, w) \<Rightarrow> (case lc_PauseSandbox svc sandboxID w of (e, w) \<Rightarrow> (e, a, w)))"

definition OS_ResumeSandbox ::
  "'w osServices \<Rightarrow> string \<Rightarrow> 't osAdapter \<times> 'w \<Rightarrow> Sandbox go_res \<times> 't osAdapter \<times> 'w" where
  "OS_ResumeSandbox svc sandboxID st =
     (case st of (a, w) \<Rightarrow>
        (case lc_ResumeSandbox svc sandboxID w of
           (Some err, w) \<Rightarrow> (Inl err, a, w)
         | (None, w) \<Rightarrow> OS_GetSandbox svc sandboxID (a, w)))"

definition OS_SetTimeout ::
  "'w osServices \<Rightarrow> string \<Rightarrow> duration \<Rightarrow> time \<Rightarrow> 't osAdapter \<times> 'w \<Rightarrow> go_error option \<times> 't osAdapter \<times> 'w" where
  "OS_SetTimeout svc sandboxID timeout now st =
     (case st of (a, w) \<Rightarrow> (case lc_RenewExpiration svc sandboxID (now + timeout) w of (e, w) \<Rightarrow> (e, a, w)))"

section \<open>Execution\<close>

text \<open>What the handler of a command's events appends to a stream.\<close>

definition collectStream :: "(string \<Rightarrow> string option) \<Rightarrow> string \<Rightarrow> streamEvent list \<Rightarrow> string" where
  "collectStream textOf name events =
     concat (map (\<lambda>ev. extractText textOf (ev_Data ev)) (filter (\<lambda>ev. ev_Event ev = name) events))"

definition exitCodeOf :: "go_error option \<Rightarrow> int" where
  "exitCodeOf err = (if err \<noteq> None then 1 else 0)"

definition defaultLang :: "string \<Rightarrow> string" where
  "defaultLang lang = (if lang = [] then ''python'' else lang)"

definition OS_ExecuteCode ::
  "(string \<Rightarrow> string) \<Rightarrow> (string \<Rightarrow> string option) \<Rightarrow> 'w osServices \<Rightarrow> string \<Rightarrow> CodeExecutionRequest \<Rightarrow> (nat \<Rightarrow> time) \<Rightarrow>
   't osAdapter \<times> 'w \<Rightarrow> CodeExecutionResult go_res \<times> 't osAdapter \<times> 'w" where
  "OS_ExecuteCode quoteOther textOf svc sandboxID req clk =
     withExecd svc sandboxID clk
       (\<lambda>ec w.
          case xd_RunCommand svc ec (WrapCodeInCommand quoteOther (cer_Code req) (defaultLang (cer_Language req))) w of
            ((events, err), w) \<Rightarrow>
              (Inr \<lparr>cx_Stdout = collectStream textOf ''stdout'' events, cx_Stderr = collectStream textOf ''stderr'' events,
                    cx_ExitCode = exitCodeOf err, cx_Duration = 0, cx_Error = []\<rparr>, w))"

text \<open>
  \<open>ExecuteCodeStream\<close>: \<open>run\<close> is the SDK's \<open>RunCommand\<close> with the handler of the events; the handler
  sends on the stream, whose state is \<open>'h\<close>.
\<close>

definition OS_ExecuteCodeStream ::
  "(string \<Rightarrow> string) \<Rightarrow> (string \<Rightarrow> string option) \<Rightarrow> (go_error \<Rightarrow> string) \<Rightarrow> 'w osServices \<Rightarrow>
   (execdClient \<Rightarrow> string \<Rightarrow> (streamEvent \<Rightarrow> 'h \<Rightarrow> go_error option \<times> 'h) \<Rightarrow> 'h \<times> 'w \<Rightarrow> go_error option \<times> 'h \<times> 'w) \<Rightarrow>
   (streamMessage \<Rightarrow> 'h \<Rightarrow> go_error option \<times> 'h) \<Rightarrow> string \<Rightarrow> CodeExecutionRequest \<Rightarrow> (nat \<Rightarrow> time) \<Rightarrow>
   't osAdapter \<times> 'w \<times> 'h \<Rightarrow> go_error option \<times> 't osAdapter \<times> 'w \<times> 'h" where
  "OS_ExecuteCodeStream quoteOther textOf errStr svc run send sandboxID req clk st =
     (case st of (a, w, h) \<Rightarrow>
        (case getOrCreateExecdClient svc sandboxID clk (a, w) of
           (Inl err, a, w) \<Rightarrow>
             (case send \<lparr>ms_Type = ''error'', ms_Data = AString (errStr err)\<rparr> h of (e, h) \<Rightarrow> (e, a, w, h))
         | (Inr ec, a, w) \<Rightarrow>
             (case run ec (WrapCodeInCommand quoteOther (cer_Code req) (defaultLang (cer_Language req)))
                     (\<lambda>ev. send \<lparr>ms_Type = ev_Event ev, ms_Data = AString (extractText textOf (ev_Data ev))\<rparr>) (h, w) of
                (Some err, h, w) \<Rightarrow>
                  (case send \<lparr>ms_Type = ''error'', ms_Data = AString (errStr err)\<rparr> h of (e, h) \<Rightarrow> (e, a, w, h))
              | (None, h, w) \<Rightarrow>
                  (case send \<lparr>ms_Type = ''result'', ms_Data = AMap [(''exitCode'', AInt 0)]\<rparr> h of
                     (e, h) \<Rightarrow> (e, a, w, h)))))"

fun joinSep :: "string \<Rightarrow> string list \<Rightarrow> string" where
  "joinSep sep [] = []"
| "joinSep sep [x] = x"
| "joinSep sep (x # y # xs) = x @ sep @ joinSep sep (y # xs)"

definition commandLine :: "CommandRequest \<Rightarrow> string" where
  "commandLine req =
     (if cmd_Args req \<noteq> [] then cmd_Command req @ '' '' @ joinSep '' '' (cmd_Args req) else cmd_Command req)"

definition OS_RunCommand ::
  "(string \<Rightarrow> string option) \<Rightarrow> 'w osServices \<Rightarrow> string \<Rightarrow> CommandRequest \<Rightarrow> (nat \<Rightarrow> time) \<Rightarrow>
   't osAdapter \<times> 'w \<Rightarrow> CommandResult go_res \<times> 't osAdapter \<times> 'w" where
  "OS_RunCommand textOf svc sandboxID req clk =
     withExecd svc sandboxID clk
       (\<lambda>ec w.
          case xd_RunCommand svc ec (commandLine req) w of
            ((events, err), w) \<Rightarrow>
              (Inr \<lparr>cr_Stdout = collectStream textOf ''stdout'' events, cr_Stderr = collectStream textOf ''stderr'' events,
                    cr_ExitCode = exitCodeOf err, cr_Error = []\<rparr>, w))"

section \<open>Files\<close>

definition OS_UploadFile ::
  "'w osServices \<Rightarrow> string \<Rightarrow> FileUploadRequest \<Rightarrow> (nat \<Rightarrow> time) \<Rightarrow> 't osAdapter \<times> 'w \<Rightarrow> unit go_res \<times> 't osAdapter \<times> 'w" where
  "OS_UploadFile svc sandboxID req clk =
     withExecd svc sandboxID clk (\<lambda>ec w. errRes (xd_UploadFile svc ec (fu_Path req) (fu_Reader req) w))"

definition OS_WriteFile ::
  "'w osServices \<Rightarrow> string \<Rightarrow> FileWriteRequest \<Rightarrow> (nat \<Rightarrow> time) \<Rightarrow> 't osAdapter \<times> 'w \<Rightarrow> unit go_res \<times> 't osAdapter \<times> 'w" where
  "OS_WriteFile svc sandboxID req clk =
     OS_UploadFile svc sandboxID \<lparr>fu_Path = fw_Path req, fu_Reader = Inr (fw_Content req)\<rparr> clk"

definition OS_DownloadFile ::
  "'w osServices \<Rightarrow> string \<Rightarrow> string \<Rightarrow> (nat \<Rightarrow> time) \<Rightarrow> 't osAdapter \<times> 'w \<Rightarrow> reader go_res \<times> 't osAdapter \<times> 'w" where
  "OS_DownloadFile svc sandboxID path clk = withExecd svc sandboxID clk (\<lambda>ec. xd_DownloadFile svc ec path)"

definition OS_ReadFile ::
  "'w osServices \<Rightarrow> string \<Rightarrow> string \<Rightarrow> (nat \<Rightarrow> time) \<Rightarrow> 't osAdapter \<times> 'w \<Rightarrow> FileContent go_res \<times> 't osAdapter \<times> 'w" where
  "OS_ReadFile svc sandboxID path clk =
     withExecd svc sandboxID clk
       (\<lambda>ec w.
          case xd_DownloadFile svc ec path w of
            (Inl err, w) \<Rightarrow> (Inl err, w)
          | (Inr (data, Some err), w) \<Rightarrow> (Inl err, w)
          | (Inr (data, None), w) \<Rightarrow> (Inr \<lparr>fc_Path = path, fc_Content = data, fc_Size = int (length data)\<rparr>, w))"

definition OS_ListFiles ::
  "'w osServices \<Rightarrow> string \<Rightarrow> string \<Rightarrow> (nat \<Rightarrow> time) \<Rightarrow> 't osAdapter \<times> 'w \<Rightarrow> (FileInfo list) go_res \<times> 't osAdapter \<times> 'w" where
  "OS_ListFiles svc sandboxID path clk =
     withExecd svc sandboxID clk
       (\<lambda>ec w.
          case xd_ListDirectory svc ec path w of
            (Inl err, w) \<Rightarrow> (Inl err, w)
          | (Inr entries, w) \<Rightarrow>
              (Inr (map (\<lambda>e. \<lparr>fi_Name = of_Path e, fi_Path = of_Path e, fi_Size = of_Size e,
                              fi_IsDir = (of_Type e = ''directory''), fi_ModTime = zeroTime\<rparr>) entries), w))"

definition OS_MakeDir ::
  "'w osServices \<Rightarrow> string \<Rightarrow> string \<Rightarrow> (nat \<Rightarrow> time) \<Rightarrow> 't osAdapter \<times> 'w \<Rightarrow> unit go_res \<times> 't osAdapter \<times> 'w" where
  "OS_MakeDir svc sandboxID path clk = withExecd svc sandboxID clk (\<lambda>ec w. errRes (xd_CreateDirectory svc ec path w))"

definition OS_RemoveFile ::
  "'w osServices \<Rightarrow> string \<Rightarrow> string \<Rightarrow> (nat \<Rightarrow> time) \<Rightarrow> 't osAdapter \<times> 'w \<Rightarrow> unit go_res \<times> 't osAdapter \<times> 'w" where
  "OS_RemoveFile svc sandboxID path clk = withExecd svc sandboxID clk (\<lambda>ec w. errRes (xd_DeleteFiles svc ec [path] w))"

definition OS_MoveFile ::
  "'w osServices \<Rightarrow> string \<Rightarrow> string \<Rightarrow> string \<Rightarrow> (nat \<Rightarrow> time) \<Rightarrow> 't osAdapter \<times> 'w \<Rightarrow> unit go_res \<times> 't osAdapter \<times> 'w" where
  "OS_MoveFile svc sandboxID src dst clk = withExecd svc sandboxID clk (\<lambda>ec w. errRes (xd_MoveFiles svc ec src dst w))"

section \<open>Processes\<close>

text \<open>\<open>scanInt\<close> is \<open>fmt.Sscanf\<close> with the format \<open>%d\<close>.\<close>

definition processOf :: "(string \<Rightarrow> int option) \<Rightarrow> time \<Rightarrow> string \<Rightarrow> ProcessInfo option" where
  "processOf scanInt now line =
     (let line = TrimSpace line; fields = Fields line
      in if line = [] \<or> length fields < 11 then None
         else case scanInt (fields ! 1) of
                None \<Rightarrow> None
              | Some pid \<Rightarrow>
                  Some \<lparr>pi_ProcessID = fields ! 1, pi_Command = joinSep '' '' (drop 10 fields), pi_PID = pid,
                        pi_Status = fields ! 7, pi_StartedAt = now\<rparr>)"

definition simpleCommand :: "string \<Rightarrow> CommandRequest" where
  "simpleCommand c = \<lparr>cmd_Command = c, cmd_Args = [], cmd_Cwd = [], cmd_EnvVars = []\<rparr>"

text \<open>The instant of every process is its own reading of the clock.\<close>

definition OS_ListProcesses ::
  "(string \<Rightarrow> int option) \<Rightarrow> (string \<Rightarrow> string option) \<Rightarrow> (string \<Rightarrow> time) \<Rightarrow> 'w osServices \<Rightarrow> string \<Rightarrow> (nat \<Rightarrow> time) \<Rightarrow>
   't osAdapter \<times> 'w \<Rightarrow> (ProcessInfo list) go_res \<times> 't osAdapter \<times> 'w" where
  "OS_ListProcesses scanInt textOf now svc sandboxID clk st =
     (case OS_RunCommand textOf svc sandboxID (simpleCommand ''ps aux --no-headers'') clk st of
        (Inl err, st) \<Rightarrow> (Inl (Errorf ''listing processes: %w'' []), st)
      | (Inr result, st) \<Rightarrow>
          (Inr (List.map_filter (\<lambda>line. processOf scanInt (now line) line) (split_on (CHR 0x0A) (cr_Stdout result))), st))"

text \<open>\<open>scanPID\<close> is \<open>fmt.Sscanf\<close> with the format \<open>%d%s\<close>: the number of items it stored, the integer, and its
  error.\<close>

abbreviation "io_EOF \<equiv> Errorf ''EOF'' []"

definition OS_KillProcess ::
  "(string \<Rightarrow> nat \<times> int \<times> go_error option) \<Rightarrow> (string \<Rightarrow> string option) \<Rightarrow> 'w osServices \<Rightarrow> string \<Rightarrow> string \<Rightarrow> (nat \<Rightarrow> time) \<Rightarrow>
   't osAdapter \<times> 'w \<Rightarrow> go_error option \<times> 't osAdapter \<times> 'w" where
  "OS_KillProcess scanPID textOf svc sandboxID processID clk st =
     (case scanPID processID of
        (n, pid, err) \<Rightarrow>
          if n \<noteq> 1 \<or> err \<notin> {None, Some io_EOF}
          then (Some (Errorf ''invalid process ID %q: must be a numeric PID'' [processID]), st)
          else case OS_RunCommand textOf svc sandboxID (simpleCommand (''kill -9 '' @ fmt_int pid)) clk st of
                 (Inl err, st) \<Rightarrow> (Some err, st)
               | (Inr _, st) \<Rightarrow> (None, st))"

section \<open>Ports\<close>

definition OS_ListPorts :: "int list \<Rightarrow> 't osAdapter \<Rightarrow> string \<Rightarrow> PortInfo list" where
  "OS_ListPorts ord a sandboxID =
     (case gm_get (os_portTracker a) sandboxID of
        None \<Rightarrow> []
      | Some ports \<Rightarrow> map (\<lambda>(port, ready). \<lparr>po_Port = port, po_Ready = ready\<rparr>) (gm_range ports ord))"

definition OS_GetPortURL ::
  "'w osServices \<Rightarrow> string \<Rightarrow> int \<Rightarrow> (nat \<Rightarrow> time) \<Rightarrow> 't osAdapter \<times> 'w \<Rightarrow> string go_res \<times> 't osAdapter \<times> 'w" where
  "OS_GetPortURL svc sandboxID port clk st =
     (case st of (a, w) \<Rightarrow>
        (case getEndpointFor svc a sandboxID port (clk 0) w of
           (Inl err, w) \<Rightarrow> (Inl (Errorf ''getting endpoint for port %d in sandbox %q: %w'' [fmt_int port, sandboxID]), a, w)
         | (Inr ep, w) \<Rightarrow>
             (Inr (withScheme (oe_Endpoint ep)),
              a\<lparr>os_endpointHeaders :=
                  (if oe_Headers ep \<noteq> []
                   then Cache_Set (os_endpointHeaders a) (sandboxID @ ''-'' @ fmt_int port) (oe_Headers ep) (clk 1)
                   else os_endpointHeaders a),
                os_portTracker :=
                  gm_set (os_portTracker a) sandboxID (gm_set (gm_get_or [] (os_portTracker a) sandboxID) port True)\<rparr>, w)))"

section \<open>Access tokens\<close>

definition getSignedAccessToken ::
  "'w osServices \<Rightarrow> string \<Rightarrow> (nat \<Rightarrow> time) \<Rightarrow> 't osAdapter \<times> 'w \<Rightarrow> AccessToken go_res \<times> 't osAdapter \<times> 'w" where
  "getSignedAccessToken svc sandboxID clk st =
     (case st of (a, w) \<Rightarrow>
        (case lc_GetSignedEndpoint svc sandboxID 49983 (clk 1 + hour) w of
           (Inl err, w) \<Rightarrow> (Inl (Errorf ''getting signed endpoint for sandbox %q: %w'' [sandboxID]), a, w)
         | (Inr ep, w) \<Rightarrow>
             (let token = withScheme (oe_Endpoint ep)
              in (Inr \<lparr>at_Token = token, at_ExpiresAt = clk 4 + hour\<rparr>,
                  a\<lparr>os_tokenCache := Cache_Set (os_tokenCache a) sandboxID token (clk 2),
                    os_endpointHeaders :=
                      (if oe_Headers ep \<noteq> [] then Cache_Set (os_endpointHeaders a) sandboxID (oe_Headers ep) (clk 3)
                       else os_endpointHeaders a)\<rparr>, w))))"

definition generateRandomToken_OS ::
  "string go_res \<Rightarrow> string \<Rightarrow> (nat \<Rightarrow> time) \<Rightarrow> 't osAdapter \<Rightarrow> AccessToken go_res \<times> 't osAdapter" where
  "generateRandomToken_OS random16 sandboxID clk a =
     (case random16 of
        Inl err \<Rightarrow> (Inl (Errorf ''generating token: %w'' []), a)
      | Inr b \<Rightarrow>
          (let token = ''envd_'' @ sandboxID @ ''_'' @ hexEncode b
           in (Inr \<lparr>at_Token = token, at_ExpiresAt = clk 2 + hour\<rparr>,
               a\<lparr>os_tokenCache := Cache_Set (os_tokenCache a) sandboxID token (clk 1)\<rparr>)))"

definition OS_GetAccessToken ::
  "'w osServices \<Rightarrow> string go_res \<Rightarrow> string \<Rightarrow> (nat \<Rightarrow> time) \<Rightarrow> 't osAdapter \<times> 'w \<Rightarrow> AccessToken go_res \<times> 't osAdapter \<times> 'w" where
  "OS_GetAccessToken svc random16 sandboxID clk st =
     (case st of (a, w) \<Rightarrow>
        (case Cache_Get (os_tokenCache a) sandboxID (clk 0) of
           (Some tokenStr, tc) \<Rightarrow> (Inr \<lparr>at_Token = tokenStr, at_ExpiresAt = clk 1 + hour\<rparr>, a\<lparr>os_tokenCache := tc\<rparr>, w)
         | (None, tc) \<Rightarrow>
             if os_useSignedEndpoint a then getSignedAccessToken svc sandboxID clk (a\<lparr>os_tokenCache := tc\<rparr>, w)
             else case generateRandomToken_OS random16 sandboxID clk (a\<lparr>os_tokenCache := tc\<rparr>) of
                    (res, a) \<Rightarrow> (res, a, w)))"

definition OS_ValidateAccessToken :: "string \<Rightarrow> string \<Rightarrow> time \<Rightarrow> 't osAdapter \<Rightarrow> bool \<times> 't osAdapter" where
  "OS_ValidateAccessToken sandboxID token now a =
     (case Cache_Get (os_tokenCache a) sandboxID now of
        (cached, tc) \<Rightarrow>
          ((case cached of None \<Rightarrow> False | Some cachedToken \<Rightarrow> cachedToken = token), a\<lparr>os_tokenCache := tc\<rparr>))"

section \<open>Environment variables\<close>

text \<open>The order of the variables is that of the range over the map.\<close>

definition buildSetEnvsCommand :: "(string \<Rightarrow> string) \<Rightarrow> string list \<Rightarrow> strmap \<Rightarrow> string" where
  "buildSetEnvsCommand quoteOther ord envs =
     (let envLines = map (\<lambda>(k, v). k @ ''='' @ goQuote quoteOther v) (gm_range envs ord);
          content = joinSep [CHR 0x0A] envLines @ [CHR 0x0A]
      in ''echo '' @ ShellQuote content @ '' >> /etc/environment'')"

definition runCommandQuiet ::
  "(string \<Rightarrow> string option) \<Rightarrow> 'w osServices \<Rightarrow> execdClient \<Rightarrow> string \<Rightarrow> 'w \<Rightarrow> (CommandResult \<times> go_error option) \<times> 'w" where
  "runCommandQuiet textOf svc ec command w =
     (case xd_RunCommand svc ec command w of
        ((events, err), w) \<Rightarrow>
          ((\<lparr>cr_Stdout = collectStream textOf ''stdout'' events, cr_Stderr = collectStream textOf ''stderr'' events,
             cr_ExitCode = exitCodeOf err, cr_Error = []\<rparr>, err), w))"

definition OS_SetEnvs ::
  "(string \<Rightarrow> string) \<Rightarrow> (string \<Rightarrow> string option) \<Rightarrow> string list \<Rightarrow> 'w osServices \<Rightarrow> string \<Rightarrow> strmap \<Rightarrow> (nat \<Rightarrow> time) \<Rightarrow>
   't osAdapter \<times> 'w \<Rightarrow> unit go_res \<times> 't osAdapter \<times> 'w" where
  "OS_SetEnvs quoteOther textOf ord svc sandboxID envs clk st =
     (if envs = [] then (Inr (), st)
      else withExecd svc sandboxID clk
             (\<lambda>ec w. case runCommandQuiet textOf svc ec (buildSetEnvsCommand quoteOther ord envs) w of
                       ((_, err), w) \<Rightarrow> errRes (err, w)) st)"

section \<open>The endpoint of the data plane\<close>

definition OS_GetEnvdEndpoint ::
  "'w osServices \<Rightarrow> string \<Rightarrow> (nat \<Rightarrow> time) \<Rightarrow> 't osAdapter \<times> 'w \<Rightarrow> (string \<times> string) go_res \<times> 't osAdapter \<times> 'w" where
  "OS_GetEnvdEndpoint svc sandboxID clk st =
     (case st of (a, w) \<Rightarrow>
        (case getEndpointFor svc a sandboxID 49983 (clk 0) w of
           (Inl err, w) \<Rightarrow> (Inl (Errorf ''getting envd endpoint for sandbox %q: %w'' [sandboxID]), a, w)
         | (Inr ep, w) \<Rightarrow>
             (let a = (if oe_Headers ep \<noteq> []
                       then a\<lparr>os_endpointHeaders := Cache_Set (os_endpointHeaders a) sandboxID (oe_Headers ep) (clk 1)\<rparr>
                       else a)
              in case Cache_Get (os_tokenCache a) sandboxID (clk 2) of
                   (cached, tc) \<Rightarrow>
                     (Inr (withScheme (oe_Endpoint ep), orZero [] cached), a\<lparr>os_tokenCache := tc\<rparr>, w))))"

end
