(* ===== verification/Paging.thy ===== *)
theory Paging
  imports Adapter_Types
begin

text \<open>
  The client-side pagination the adapters apply to a complete listing
  (\<open>ListTemplates\<close> of \<open>internal/adapter/opensandbox/adapter.go\<close>, \<open>ListSandboxes\<close> and \<open>ListTemplates\<close> of
  \<open>internal/adapter/e2bcloud/adapter.go\<close>).  The sum of the offset and the limit wraps at 64 bits; a slice
  whose end is before its start panics, the result None.
\<close>

definition pageOf :: "ListOptions \<Rightarrow> 'x list \<Rightarrow> 'x list option" where
  "pageOf opts xs =
     (let start = max (lo_Offset opts) 0; n = int (length xs)
      in if start \<ge> n then Some []
         else let e = sint (word_of_int (start + lo_Limit opts) :: 64 word);
                  stop = (if lo_Limit opts > 0 \<and> e < n then e else n)
              in if stop < start then None else Some (take (nat (stop - start)) (drop (nat start) xs)))"

lemma sint_word64: "- (2 ^ 63) \<le> x \<Longrightarrow> x < 2 ^ 63 \<Longrightarrow> sint (word_of_int x :: 64 word) = x"
  by (simp add: sint_sbintrunc' signed_take_bit_int_eq_self_iff)

text \<open>Without wrap-around a page is the slice of the listing, and nothing panics.\<close>

lemma pageOf_slice:
  assumes "0 < l" and "off + l < 2 ^ 63"
  shows "pageOf \<lparr>lo_Limit = int l, lo_Offset = int off, lo_Labels = lb\<rparr> xs = Some (take l (drop off xs))"
proof -
  have "sint (word_of_int (int off + int l) :: 64 word) = int (off + l)" using assms by (subst sint_word64) auto
  then show ?thesis using assms(1) by (auto simp: pageOf_def Let_def nat_diff_distrib nat_add_distrib)
qed

lemma concat_slices: "length xs \<le> l * k \<Longrightarrow> concat (map (\<lambda>i. take l (drop (i * l) xs)) [0..<k]) = xs"
proof (induction k arbitrary: xs)
  case (Suc k)
  have "concat (map (\<lambda>i. take l (drop (i * l) (drop l xs))) [0..<k]) = drop l xs"
    using Suc.prems by (intro Suc.IH) simp
  moreover have "map (\<lambda>i. take l (drop (i * l) xs)) [0..<Suc k] =
      take l xs # map (\<lambda>i. take l (drop (i * l) (drop l xs))) [0..<k]"
    by (simp add: upt_conv_Cons map_Suc_upt [symmetric] add.commute del: upt_Suc)
  ultimately show ?case by simp
qed simp

text \<open>A limit that makes the sum wrap panics at every offset but zero.\<close>

lemma page_overflow_panics:
  "pageOf \<lparr>lo_Limit = 2 ^ 63 - 1, lo_Offset = 1, lo_Labels = []\<rparr> [x, y] = None"
  by (simp add: pageOf_def Let_def sint_sbintrunc' signed_take_bit_eq_if_negative bit_iff_odd)

end
