(* ===== verification/OpenSandbox_Templates.thy ===== *)
theory OpenSandbox_Templates
  imports OpenSandbox_Adapter Paging
begin

text \<open>
  The templates, builds, aliases and tags of the OpenSandbox adapter
  (\<open>internal/adapter/opensandbox/adapter.go\<close>), on top of any template store, the operations the
  backend does not support, and the properties of the adapter.

  The methods of the store are the record \<open>storeOps\<close>; its listings, which the contract of the store
  does not cover, are arguments.  A failing random source makes \<open>MustGenerateE2BID\<close> panic: the
  result is None.
\<close>

section \<open>Templates\<close>

definition onStore :: "('t \<Rightarrow> 'x \<times> 't) \<Rightarrow> 't osAdapter \<Rightarrow> 'x \<times> 't osAdapter" where
  "onStore f a = (case f (os_templates a) of (x, t) \<Rightarrow> (x, a\<lparr>os_templates := t\<rparr>))"

definition entryToTemplate :: "TemplateEntry \<Rightarrow> Template" where
  "entryToTemplate entry =
     \<lparr>t_TemplateID = te_TemplateID entry, t_Name = te_Name entry, t_Description = [], t_CPUCount = te_CPUCount entry,
      t_MemoryMB = te_MemoryMB entry, t_Public = False, t_BuildID = te_BuildID entry, t_Metadata = te_Metadata entry,
      t_CreatedAt = te_CreatedAt entry\<rparr>"

definition OS_ListTemplates ::
  "('t \<Rightarrow> (storeError + TemplateEntry list) \<times> 't) \<Rightarrow> ListOptions \<Rightarrow> 't osAdapter \<Rightarrow>
   ((osError + Template list) \<times> 't osAdapter) option" where
  "OS_ListTemplates listTemplates opts a =
     (case onStore listTemplates a of
        (Inl err, a) \<Rightarrow> Some (Inl (OsStore err), a)
      | (Inr entries, a) \<Rightarrow> map_option (\<lambda>page. (Inr page, a)) (pageOf opts (map entryToTemplate entries)))"

definition OS_GetTemplate ::
  "'t storeOps \<Rightarrow> string \<Rightarrow> time \<Rightarrow> 't osAdapter \<Rightarrow> (osError + Template) \<times> 't osAdapter" where
  "OS_GetTemplate sops templateID now a =
     (case onStore (so_get sops templateID) a of
        (Inr entry, a) \<Rightarrow> (Inr (entryToTemplate entry), a)
      | (Inl (ErrTemplateNotFound _), a) \<Rightarrow>
          (Inr \<lparr>t_TemplateID = templateID, t_Name = templateID, t_Description = [], t_CPUCount = 0, t_MemoryMB = 0,
                t_Public = False, t_BuildID = [], t_Metadata = [], t_CreatedAt = now\<rparr>, a)
      | (Inl err, a) \<Rightarrow> (Inl (OsStore err), a))"

definition osReadyBuild :: "string \<Rightarrow> BuildStatus" where
  "osReadyBuild buildID = \<lparr>bs_BuildID = buildID, bs_Status = BuildStatusReady, bs_Logs = [], bs_Error = []\<rparr>"

definition imageFrom :: "string \<Rightarrow> string \<Rightarrow> string" where
  "imageFrom dflt dockerfile =
     (if dockerfile \<noteq> [] \<and> ParseDockerfileFrom dockerfile \<noteq> [] then ParseDockerfileFrom dockerfile else dflt)"

definition OS_CreateTemplate ::
  "'t storeOps \<Rightarrow> string go_res \<Rightarrow> string go_res \<Rightarrow> time \<Rightarrow> CreateTemplateRequest \<Rightarrow> 't osAdapter \<Rightarrow>
   ((osError + TemplateBuild) \<times> 't osAdapter) option" where
  "OS_CreateTemplate sops random1 random2 now req a =
     (if ctr_Name req = [] then Some (Inl (OsErr (Errorf ''template name is required'' [])), a)
      else
        case (MustGenerateTemplateID (ctr_Name req) random1, MustGenerateE2BID random2) of
          (Some templateID, Some sfx) \<Rightarrow>
            (let buildID = ''build-'' @ sfx;
                 entry = \<lparr>te_TemplateID = templateID, te_Name = ctr_Name req,
                          te_ImageURI = imageFrom ''python:3.11-slim'' (ctr_Dockerfile req),
                          te_Dockerfile = ctr_Dockerfile req, te_StartCmd = ctr_StartCmd req,
                          te_CPUCount = ctr_CPUCount req, te_MemoryMB = ctr_MemoryMB req, te_BuildID = buildID,
                          te_CreatedAt = now, te_Metadata = []\<rparr>
             in case onStore (so_create sops entry) a of
                  (Some err, a) \<Rightarrow> Some (Inl (OsStore err), a)
                | (None, a) \<Rightarrow>
                    (case onStore (so_saveBuild sops templateID (osReadyBuild buildID)) a of
                       (Some err, a) \<Rightarrow> Some (Inl (OsStore err), a)
                     | (None, a) \<Rightarrow>
                         Some (Inr \<lparr>tb_TemplateID = templateID, tb_BuildID = buildID, tb_Status = BuildStatusReady\<rparr>, a)))
        | _ \<Rightarrow> None)"

definition OS_DeleteTemplate :: "'t storeOps \<Rightarrow> string \<Rightarrow> 't osAdapter \<Rightarrow> storeError option \<times> 't osAdapter" where
  "OS_DeleteTemplate sops templateID a =
     (let a = snd (onStore (so_deleteAliases sops templateID) a);
          a = snd (onStore (so_deleteTags sops templateID) a);
          a = snd (onStore (so_deleteBuilds sops templateID) a)
      in onStore (so_delete sops templateID) a)"

definition buildUpdate :: "string \<Rightarrow> BuildRequest \<Rightarrow> TemplateEntry \<Rightarrow> go_error + TemplateEntry" where
  "buildUpdate buildID req entry =
     Inr (entry\<lparr>te_BuildID := buildID,
                te_Dockerfile := (if br_Dockerfile req \<noteq> [] then br_Dockerfile req else te_Dockerfile entry),
                te_ImageURI := imageFrom (te_ImageURI entry) (br_Dockerfile req),
                te_StartCmd := (if br_StartCmd req \<noteq> [] then br_StartCmd req else te_StartCmd entry)\<rparr>)"

definition OS_TriggerBuild ::
  "'t storeOps \<Rightarrow> string go_res \<Rightarrow> string \<Rightarrow> BuildRequest \<Rightarrow> 't osAdapter \<Rightarrow>
   ((osError + TemplateBuild) \<times> 't osAdapter) option" where
  "OS_TriggerBuild sops random6 templateID req a =
     (case MustGenerateE2BID random6 of
        None \<Rightarrow> None
      | Some sfx \<Rightarrow>
          (let buildID = ''build-'' @ sfx
           in case onStore (so_update sops templateID (buildUpdate buildID req)) a of
                (Some err, a) \<Rightarrow> Some (Inl (OsStore err), a)
              | (None, a) \<Rightarrow>
                  (case onStore (so_saveBuild sops templateID (osReadyBuild buildID)) a of
                     (Some err, a) \<Rightarrow> Some (Inl (OsStore err), a)
                   | (None, a) \<Rightarrow>
                       Some (Inr \<lparr>tb_TemplateID = templateID, tb_BuildID = buildID, tb_Status = BuildStatusReady\<rparr>, a))))"

definition OS_GetBuildStatus ::
  "'t storeOps \<Rightarrow> string \<Rightarrow> string \<Rightarrow> 't osAdapter \<Rightarrow> (storeError + BuildStatus) \<times> 't osAdapter" where
  "OS_GetBuildStatus sops templateID buildID = onStore (so_getBuild sops buildID)"

section \<open>Aliases and tags\<close>

definition storeErr :: "storeError option \<times> 'a \<Rightarrow> osError option \<times> 'a" where
  "storeErr = apfst (map_option OsStore)"

definition OS_CreateAlias :: "'t storeOps \<Rightarrow> string \<Rightarrow> string \<Rightarrow> 't osAdapter \<Rightarrow> osError option \<times> 't osAdapter" where
  "OS_CreateAlias sops templateID alias a =
     (if alias = [] then (Some (OsErr (Errorf ''alias is required'' [])), a)
      else case onStore (so_get sops templateID) a of
             (Inl err, a) \<Rightarrow> (Some (OsErr (Errorf ''template %q not found'' [templateID])), a)
           | (Inr _, a) \<Rightarrow> storeErr (onStore (so_addAlias sops templateID alias) a))"

definition OS_DeleteAlias :: "'t storeOps \<Rightarrow> string \<Rightarrow> string \<Rightarrow> 't osAdapter \<Rightarrow> osError option \<times> 't osAdapter" where
  "OS_DeleteAlias sops templateID alias a = storeErr (onStore (so_removeAlias sops templateID alias) a)"

definition OS_CreateTag ::
  "'t storeOps \<Rightarrow> time \<Rightarrow> string \<Rightarrow> TagRequest \<Rightarrow> 't osAdapter \<Rightarrow> (osError + Tag) \<times> 't osAdapter" where
  "OS_CreateTag sops now templateID req a =
     (if tr_Name req = [] then (Inl (OsErr (Errorf ''tag name is required'' [])), a)
      else case onStore (so_get sops templateID) a of
             (Inl err, a) \<Rightarrow> (Inl (OsErr (Errorf ''template %q not found'' [templateID])), a)
           | (Inr _, a) \<Rightarrow>
               (let tag = \<lparr>tag_Name = tr_Name req, tag_TemplateID = templateID, tag_BuildID = tr_BuildID req, tag_CreatedAt = now\<rparr>
                in case onStore (so_saveTag sops templateID tag) a of
                     (Some err, a) \<Rightarrow> (Inl (OsStore err), a)
                   | (None, a) \<Rightarrow> (Inr tag, a)))"

definition OS_ListTags ::
  "(string \<Rightarrow> 't \<Rightarrow> (storeError + Tag list) \<times> 't) \<Rightarrow> string \<Rightarrow> 't osAdapter \<Rightarrow> (storeError + Tag list) \<times> 't osAdapter" where
  "OS_ListTags listTags templateID = onStore (listTags templateID)"

definition OS_DeleteTag :: "'t storeOps \<Rightarrow> string \<Rightarrow> string \<Rightarrow> 't osAdapter \<Rightarrow> osError option \<times> 't osAdapter" where
  "OS_DeleteTag sops templateID tagName a = storeErr (onStore (so_deleteTag sops templateID tagName) a)"

section \<open>Operations the backend does not support\<close>

definition OS_ListWarmPools :: "(WarmPool list) go_res" where
  "OS_ListWarmPools = Inr []"

definition OS_CreateWarmPool :: "WarmPoolCreateRequest \<Rightarrow> WarmPool go_res" where
  "OS_CreateWarmPool req = Inl (Errorf ''create warm pool not supported by opensandbox backend'' [])"

definition OS_GetWarmPool :: "string \<Rightarrow> WarmPool go_res" where
  "OS_GetWarmPool warmPoolID = Inl (Errorf ''get warm pool not supported by opensandbox backend'' [])"

definition OS_DeleteWarmPool :: "string \<Rightarrow> go_error option" where
  "OS_DeleteWarmPool warmPoolID = Some (Errorf ''delete warm pool not supported by opensandbox backend'' [])"

definition OS_UpdateWarmPoolSize :: "string \<Rightarrow> int \<Rightarrow> go_error option" where
  "OS_UpdateWarmPoolSize warmPoolID size0 = Some (Errorf ''update warm pool size not supported by opensandbox backend'' [])"

definition OS_SendStdin :: "string \<Rightarrow> string \<Rightarrow> string \<Rightarrow> go_error option" where
  "OS_SendStdin sandboxID processID data = Some (Errorf ''send stdin not supported by opensandbox backend'' [])"

definition OS_CreateSnapshot :: "string \<Rightarrow> SnapshotRequest \<Rightarrow> Snapshot go_res" where
  "OS_CreateSnapshot sandboxID req = Inl (Errorf ''create snapshot not supported by opensandbox backend'' [])"

definition OS_ListSnapshots :: "string \<Rightarrow> (Snapshot list) go_res" where
  "OS_ListSnapshots sandboxID = Inr []"

definition OS_GetLogs :: "string \<Rightarrow> (LogEntry list) go_res" where
  "OS_GetLogs sandboxID = Inr []"

section \<open>The image of a template\<close>

text \<open>What the precedence means on the abstract store.\<close>

definition spec_image :: "strmap \<Rightarrow> string \<Rightarrow> astore \<Rightarrow> string" where
  "spec_image m t s =
     (case gm_get m t of
        Some img \<Rightarrow> img
      | None \<Rightarrow>
          (case as_templates s t of
             Some e \<Rightarrow> if te_ImageURI e \<noteq> t then te_ImageURI e
                       else (case Option.bind (as_aliasReverse s t) (as_templates s) of Some e' \<Rightarrow> te_ImageURI e' | None \<Rightarrow> t)
           | None \<Rightarrow> (case Option.bind (as_aliasReverse s t) (as_templates s) of Some e' \<Rightarrow> te_ImageURI e' | None \<Rightarrow> t)))"

context template_store
begin

lemma get_spec:
  assumes "ok s"
  shows "\<exists>s'. so_get ops t s = (spec_get t (absf s), s') \<and> ok s' \<and> absf s' = absf s"
proof -
  obtain r s' where "so_get ops t s = (r, s')" by fastforce
  then show ?thesis using simulates [OF assms, of "CGet t" "RTemplate r" s'] by auto
qed

lemma resolve_spec:
  assumes "ok s"
  shows "\<exists>s'. so_resolve ops al s = (spec_resolve al (absf s), s') \<and> ok s' \<and> absf s' = absf s"
proof -
  obtain r s' where "so_resolve ops al s = (r, s')" by fastforce
  then show ?thesis using simulates [OF assms, of "CResolve al" "RString r" s'] by auto
qed

lemma resolveImage_spec:
  assumes "ok (os_templates a)"
  shows "\<exists>a'. resolveImage ops t a = (Inr (spec_image (os_templateToImage a) t (absf (os_templates a))), a') \<and>
           ok (os_templates a') \<and> absf (os_templates a') = absf (os_templates a) \<and> a' = a\<lparr>os_templates := os_templates a'\<rparr>"
proof (cases "gm_get (os_templateToImage a) t")
  case (Some img)
  then show ?thesis using assms by (simp add: resolveImage_def spec_image_def)
next
  case None
  obtain s1 where 1: "so_get ops t (os_templates a) = (spec_get t (absf (os_templates a)), s1)" "ok s1"
    "absf s1 = absf (os_templates a)" using get_spec [OF assms] by blast
  obtain s2 where 2: "so_resolve ops t s1 = (spec_resolve t (absf (os_templates a)), s2)" "ok s2"
    "absf s2 = absf (os_templates a)" using resolve_spec [OF 1(2), of t] 1(3) by auto
  show ?thesis
  proof (cases "as_aliasReverse (absf (os_templates a)) t")
    case None
    then show ?thesis
      using \<open>gm_get (os_templateToImage a) t = None\<close> 1 2
      by (auto simp: resolveImage_def spec_image_def spec_get_def spec_resolve_def split: option.splits)
  next
    case (Some r)
    obtain s3 where 3: "so_get ops r s2 = (spec_get r (absf (os_templates a)), s3)" "ok s3"
      "absf s3 = absf (os_templates a)" using get_spec [OF 2(2), of r] 2(3) by auto
    show ?thesis
      using \<open>gm_get (os_templateToImage a) t = None\<close> Some 1 2 3
      by (auto simp: resolveImage_def spec_image_def spec_get_def spec_resolve_def split: option.splits)
  qed
qed

text \<open>Deleting a template through the adapter.\<close>

lemma adapter_delete_cascade:
  assumes "ok (os_templates a)" and "OS_DeleteTemplate ops t a = (err, a')"
  shows "ok (os_templates a') \<and>
         absf (os_templates a') = snd (spec_delete t (spec_deleteBuilds t (spec_deleteTags t (spec_deleteAliases t (absf (os_templates a)))))) \<and>
         err = (if as_templates (absf (os_templates a)) t = None then Some (ErrTemplateNotFound t) else None)"
proof -
  obtain r1 s1 where s1: "so_deleteAliases ops t (os_templates a) = (r1, s1)" by fastforce
  obtain r2 s2 where s2: "so_deleteTags ops t s1 = (r2, s2)" by fastforce
  obtain r3 s3 where s3: "so_deleteBuilds ops t s2 = (r3, s3)" by fastforce
  obtain r4 s4 where s4: "so_delete ops t s3 = (r4, s4)" by fastforce
  have 1: "ok s1 \<and> spec_call (CDeleteAliases t) (absf (os_templates a)) = (RErr r1, absf s1)"
    using assms s1 by (intro simulates) simp_all
  have 2: "ok s2 \<and> spec_call (CDeleteTags t) (absf s1) = (RErr r2, absf s2)"
    using s2 1 by (intro simulates) simp_all
  have 3: "ok s3 \<and> spec_call (CDeleteBuilds t) (absf s2) = (RErr r3, absf s3)"
    using s3 2 by (intro simulates) simp_all
  have 4: "ok s4 \<and> spec_call (CDelete t) (absf s3) = (RErr r4, absf s4)"
    using s4 3 by (intro simulates) simp_all
  have "os_templates a' = s4" "err = r4"
    using assms(2) s1 s2 s3 s4 by (auto simp: OS_DeleteTemplate_def onStore_def)
  moreover have "spec_delete t (absf s3) = (r4, absf s4)" using 4 by (cases "spec_delete t (absf s3)") simp
  moreover have a3: "absf s3 = spec_deleteBuilds t (spec_deleteTags t (spec_deleteAliases t (absf (os_templates a))))"
    using 1 2 3 by simp
  moreover have "as_templates (absf s3) t = as_templates (absf (os_templates a)) t"
    unfolding a3 by (simp add: spec_deleteBuilds_def spec_deleteTags_def spec_deleteAliases_def)
  ultimately show ?thesis using 4 by (auto simp: spec_delete_def split: if_splits)
qed

end

section \<open>Properties\<close>

lemma registerSandbox_name: "os_name (registerSandbox i b) = os_name b"
  by (simp add: registerSandbox_def)

lemma registerSandbox_map: "os_registry (registerSandbox i b) = Some m \<Longrightarrow> SandboxBackendMap_Get m i = Some (os_name b)"
  by (auto simp: registerSandbox_def SandboxBackendMap_Get_def SandboxBackendMap_Set_def)

text \<open>C30: Creating a sandbox comes to an end, and what is handed out runs. Whatever the server answers to the
  polls, the wait for the sandbox is over after at most 23 of them; a sandbox that is returned
  is running and belongs to this backend, in its answer and in the map from sandboxes to
  backends.\<close>

theorem os_create_returns:
  "\<exists>res a' w'. OS_CreateSandbox svc sops ctxDone lag now req (a, w) = Some (res, a', w') \<and>
     (\<forall>sb. res = Inr sb \<longrightarrow>
        sb_Status sb = SandboxStatusRunning \<and> sb_TemplateID sb = csr_TemplateID req \<and> sb_Backend sb = os_name a' \<and>
        (\<forall>m. os_registry a' = Some m \<longrightarrow> SandboxBackendMap_Get m (sb_SandboxID sb) = Some (os_name a')))"
proof -
  obtain r1 a1 where r: "resolveImage sops (csr_TemplateID req) a = (r1, a1)" by fastforce
  show ?thesis
  proof (cases r1)
    case (Inr imageURI)
    let ?req = "\<lparr>ok_Image = imageURI, ok_Entrypoint = sdk_DefaultEntrypoint svc,
      ok_ResourceLimits = sdk_DefaultResourceLimits svc, ok_Timeout = sdk_DefaultTimeoutSeconds svc,
      ok_Env = csr_Envs req, ok_Metadata = csr_Metadata req\<rparr>"
    obtain r2 w2 where c: "lc_CreateSandbox svc ?req w = (r2, w2)" by fastforce
    show ?thesis
    proof (cases r2)
      case (Inr sbx)
      obtain out k w3 where wr: "waitRunning (lc_GetSandbox svc) ctxDone lag (oi_ID sbx) now w2 = Some (out, k, w3)"
        using waitRunning_returns [of "lc_GetSandbox svc" ctxDone lag "oi_ID sbx" now w2] by auto
      have run: "oi_State info = StateRunning" if "out = Inr info" for info
        using wr that unfolding waitRunning_def by (metis waitLoop_running)
      show ?thesis
        using r \<open>r1 = Inr imageURI\<close> c Inr wr run
        by (cases "oi_State sbx = StateRunning"; cases out)
          (auto simp: OS_CreateSandbox_def mapState_def registerSandbox_name dest: registerSandbox_map split: prod.splits)
    qed (use r Inr c in \<open>simp add: OS_CreateSandbox_def\<close>)
  qed (use r in \<open>simp add: OS_CreateSandbox_def\<close>)
qed

text \<open>The image of a sandbox is the one its template names. With the in-memory store, the image is looked up
  in the configured map, then in the store, then through an alias of the store, and is the identifier
  itself when none of them knows it; the lookup never fails and changes nothing in the store.\<close>

lemma os_image_resolution:
  assumes "mem_ok (os_templates a)"
  shows "\<exists>a'. resolveImage mem_ops t a = (Inr (spec_image (os_templateToImage a) t (mem_abs (os_templates a))), a') \<and>
           mem_abs (os_templates a') = mem_abs (os_templates a)"
  using mem.resolveImage_spec [OF assms] by blast

definition demo_adapter :: "memStore osAdapter" where
  "demo_adapter =
     \<lparr>os_name = ''os'', os_templateToImage = [(''base'', ''img:base'')], os_execdClients = [], os_tokenCache = Cache_New 10000 hour,
      os_useSignedEndpoint = False, os_endpointHeaders = Cache_New 10000 hour, os_portTracker = [], os_registry = Some [],
      os_templates = snd (Mem_AddAlias ''t1'' ''latest'' (snd (Mem_CreateTemplate sample_entry NewMemoryTemplateStore)))\<rparr>"

lemma demo_adapter_ok: "mem_ok (os_templates demo_adapter)"
proof -
  have 1: "mem_ok (snd (Mem_CreateTemplate sample_entry NewMemoryTemplateStore))"
    using mem_call_ok [OF mem_ok_new, of "CCreate sample_entry"] by (simp add: mem_ops_def)
  have "call_ok (CAddAlias ''t1'' ''latest'') (mem_abs (snd (Mem_CreateTemplate sample_entry NewMemoryTemplateStore)))"
    by (simp add: Mem_CreateTemplate_def NewMemoryTemplateStore_def alias_free_def mem_abs_def gm_has_def)
  from mem_call_ok [OF 1 this] show ?thesis by (simp add: demo_adapter_def mem_ops_def)
qed

lemma os_image_resolution_witness:
  "(\<exists>a'. resolveImage mem_ops ''latest'' demo_adapter = (Inr ''img'', a')) \<and>
   (\<exists>a'. resolveImage mem_ops ''base'' demo_adapter = (Inr ''img:base'', a')) \<and>
   (\<exists>a'. resolveImage mem_ops ''other'' demo_adapter = (Inr ''other'', a'))"
proof -
  have "spec_image (os_templateToImage demo_adapter) ''latest'' (mem_abs (os_templates demo_adapter)) = ''img''"
    "spec_image (os_templateToImage demo_adapter) ''base'' (mem_abs (os_templates demo_adapter)) = ''img:base''"
    "spec_image (os_templateToImage demo_adapter) ''other'' (mem_abs (os_templates demo_adapter)) = ''other''"
    by (simp_all add: demo_adapter_def spec_image_def mem_abs_def Mem_AddAlias_def Mem_CreateTemplate_def NewMemoryTemplateStore_def
        sample_entry_def gomap_eval)
  then show ?thesis
    using os_image_resolution [OF demo_adapter_ok, of "''latest''"] os_image_resolution [OF demo_adapter_ok, of "''base''"]
      os_image_resolution [OF demo_adapter_ok, of "''other''"] by auto
qed

text \<open>A deleted template is gone. After a template of the in-memory store was deleted through the adapter,
  the store knows neither it nor a build, a tag or an alias of it, whether or not it existed; a
  sandbox asked for by its identifier gets the identifier as image, unless the configuration or
  another template's alias names one. All other templates are as before.\<close>

lemma os_delete_template_gone:
  assumes "mem_ok (os_templates a)" and "OS_DeleteTemplate mem_ops t a = (err, a')"
  shows "fst (Mem_GetTemplate t (os_templates a')) = Inl (ErrTemplateNotFound t) \<and>
         (\<forall>al. fst (Mem_ResolveAlias al (os_templates a')) \<noteq> Inr t) \<and>
         Mem_ListTags t (os_templates a') = [] \<and> Mem_ListBuilds ord t (os_templates a') = [] \<and>
         (err = None \<longleftrightarrow> gm_has (ms_templates (os_templates a)) t) \<and>
         (\<forall>u. u \<noteq> t \<longrightarrow> fst (Mem_GetTemplate u (os_templates a')) = fst (Mem_GetTemplate u (os_templates a)))"
proof -
  let ?s = "os_templates a" and ?s' = "os_templates a'"
  have c: "mem_ok ?s'"
    "mem_abs ?s' = snd (spec_delete t (spec_deleteBuilds t (spec_deleteTags t (spec_deleteAliases t (mem_abs ?s)))))"
    "err = (if as_templates (mem_abs ?s) t = None then Some (ErrTemplateNotFound t) else None)"
    using mem.adapter_delete_cascade [OF assms] by simp_all
  have abs: "as_templates (mem_abs ?s') = (as_templates (mem_abs ?s))(t := None)" "as_templateBuilds (mem_abs ?s') t = {}"
    "as_aliases (mem_abs ?s') t = {}"
    unfolding c(2) by (simp_all add: spec_delete_def spec_deleteBuilds_def spec_deleteTags_def spec_deleteAliases_def fun_eq_iff)
  have tags: "Mem_ListTags t ?s' = []"
    using assms(2)
    by (auto simp: OS_DeleteTemplate_def onStore_def mem_ops_def Let_def Mem_ListTags_def Mem_DeleteAliases_def Mem_DeleteTags_def
        Mem_DeleteBuilds_def Mem_DeleteTemplate_def split: if_splits)
  have "gm_get_or [] (ms_templateBuilds ?s') t = []" using abs(2) by (simp add: mem_abs_def gm_keys_def)
  then have builds: "Mem_ListBuilds ord t ?s' = []"
    by (simp add: Mem_ListBuilds_def gm_range_def gm_get_def List.map_filter_def)
  have get: "fst (Mem_GetTemplate u s) = (case as_templates (mem_abs s) u of None \<Rightarrow> Inl (ErrTemplateNotFound u) | Some e \<Rightarrow> Inr e)"
    for u s by (simp add: Mem_GetTemplate_def mem_abs_def split: option.splits)
  have "alias_consistent (mem_abs ?s')" using c(1) by (simp add: mem_ok_def)
  then have "fst (Mem_ResolveAlias al ?s') \<noteq> Inr t" for al
    using abs(3) by (auto simp: alias_consistent_def Mem_ResolveAlias_def mem_abs_def split: option.splits)
  with tags builds show ?thesis unfolding get abs(1) c(3) by (simp add: mem_abs_def gm_has_def)
qed

lemma os_delete_template_gone_witness:
  "\<exists>a'. OS_DeleteTemplate mem_ops ''t1'' demo_adapter = (None, a') \<and>
     fst (Mem_GetTemplate ''t1'' (os_templates a')) = Inl (ErrTemplateNotFound ''t1'') \<and>
     (\<forall>al. fst (Mem_ResolveAlias al (os_templates a')) \<noteq> Inr ''t1'')"
proof -
  obtain err a' where d: "OS_DeleteTemplate mem_ops ''t1'' demo_adapter = (err, a')" by fastforce
  have "gm_has (ms_templates (os_templates demo_adapter)) ''t1''"
    by (simp add: demo_adapter_def Mem_AddAlias_def Mem_CreateTemplate_def NewMemoryTemplateStore_def sample_entry_def gm_has_def)
  with os_delete_template_gone [OF demo_adapter_ok d, of "[]"] d show ?thesis by blast
qed

text \<open>The pages of the template listing cover it. When the store does not change, the pages of a fixed
  positive size, asked for one after the other, are the complete listing cut into pieces: none
  fails, nothing is missing, nothing comes twice.\<close>

lemma os_template_pages:
  assumes "listTemplates (os_templates a) = (Inr entries, os_templates a)" and "0 < l"
    and "length entries \<le> l * k" and "l * k < 2 ^ 63"
  shows "\<exists>pages. map (\<lambda>i. OS_ListTemplates listTemplates \<lparr>lo_Limit = int l, lo_Offset = int (i * l), lo_Labels = []\<rparr> a) [0..<k] =
           map (\<lambda>page. Some (Inr page, a)) pages \<and> concat pages = map entryToTemplate entries"
proof (intro exI conjI)
  let ?xs = "map entryToTemplate entries"
  let ?pages = "map (\<lambda>i. take l (drop (i * l) ?xs)) [0..<k]"
  have "pageOf \<lparr>lo_Limit = int l, lo_Offset = int (i * l), lo_Labels = []\<rparr> ?xs = Some (take l (drop (i * l) ?xs))" if "i < k" for i
  proof (rule pageOf_slice [OF assms(2)])
    have "Suc i * l \<le> k * l" using that by (intro mult_le_mono1) simp
    then show "i * l + l < 2 ^ 63" using assms(4) by (simp add: algebra_simps)
  qed
  then show "map (\<lambda>i. OS_ListTemplates listTemplates \<lparr>lo_Limit = int l, lo_Offset = int (i * l), lo_Labels = []\<rparr> a) [0..<k] =
      map (\<lambda>page. Some (Inr page, a)) ?pages"
    using assms(1) by (simp add: OS_ListTemplates_def onStore_def)
  show "concat ?pages = ?xs" using concat_slices [of ?xs l k] assms(3) by simp
qed

lemma os_template_pages_witness:
  "\<exists>pages. map (\<lambda>i. OS_ListTemplates (\<lambda>s. (Inr [sample_entry, sample_entry, sample_entry], s))
       \<lparr>lo_Limit = int 2, lo_Offset = int (i * 2), lo_Labels = []\<rparr> demo_adapter) [0..<2] =
     map (\<lambda>page. Some (Inr page, demo_adapter)) pages \<and> concat pages = replicate 3 (entryToTemplate sample_entry)"
  using os_template_pages [of "\<lambda>s. (Inr [sample_entry, sample_entry, sample_entry], s)" demo_adapter
      "[sample_entry, sample_entry, sample_entry]" 2 2]
  by (simp add: numeral_3_eq_3)

text \<open>A server that accepts a sandbox at once and has it running at the first poll.\<close>

definition demo_info :: "osState \<Rightarrow> osInfo" where
  "demo_info state = \<lparr>oi_ID = ''s1'', oi_Image = ''img'', oi_State = state, oi_CreatedAt = 3\<rparr>"

definition demo_services :: "unit osServices" where
  "demo_services =
     \<lparr>lc_ListSandboxes = (\<lambda>n w. (Inr [], w)), lc_CreateSandbox = (\<lambda>r w. (Inr (demo_info StatePending), w)),
      lc_GetSandbox = (\<lambda>i w. (Inr (demo_info StateRunning), w)), lc_DeleteSandbox = (\<lambda>i w. (None, w)),
      lc_PauseSandbox = (\<lambda>i w. (None, w)), lc_ResumeSandbox = (\<lambda>i w. (None, w)), lc_RenewExpiration = (\<lambda>i t w. (None, w)),
      lc_GetEndpoint = (\<lambda>i n w. (Inl (Errorf [] []), w)), lc_GetSignedEndpoint = (\<lambda>i n t w. (Inl (Errorf [] []), w)),
      xd_RunCommand = (\<lambda>c m w. (([], None), w)), xd_DownloadFile = (\<lambda>c p w. (Inr ([], None), w)),
      xd_UploadFile = (\<lambda>c p r w. (None, w)), xd_ListDirectory = (\<lambda>c p w. (Inr [], w)),
      xd_CreateDirectory = (\<lambda>c p w. (None, w)), xd_DeleteFiles = (\<lambda>c p w. (None, w)), xd_MoveFiles = (\<lambda>c p q w. (None, w)),
      sdk_DefaultExecdPort = 44772, sdk_DefaultEntrypoint = [], sdk_DefaultResourceLimits = [], sdk_DefaultTimeoutSeconds = 600\<rparr>"

definition demo_create_request :: CreateSandboxRequest where
  "demo_create_request = \<lparr>csr_TemplateID = ''base'', csr_Timeout = 0, csr_Alias = [], csr_Envs = [], csr_Metadata = []\<rparr>"

theorem os_create_returns_witness:
  "\<exists>sb a'. OS_CreateSandbox demo_services mem_ops (\<lambda>_. False) (\<lambda>_. 0) 0 demo_create_request (demo_adapter, ()) = Some (Inr sb, a', ()) \<and>
     sb_Status sb = SandboxStatusRunning \<and> os_registry a' = Some [(''s1'', ''os'')] \<and>
     SandboxBackendMap_Get [(''s1'', ''os'')] (sb_SandboxID sb) = Some (os_name a')"
proof -
  have "resolveImage mem_ops ''base'' demo_adapter = (Inr ''img:base'', demo_adapter)"
    by (simp add: resolveImage_def demo_adapter_def gomap_eval)
  moreover have "waitRunning (lc_GetSandbox demo_services) (\<lambda>_. False) (\<lambda>_. 0) ''s1'' 0 () = Some (Inr (demo_info StateRunning), 0, ())"
    unfolding waitRunning_def by (subst waitLoop.simps) (simp add: demo_services_def demo_info_def)
  moreover have "lc_CreateSandbox demo_services q () = (Inr (demo_info StatePending), ())" for q
    by (simp add: demo_services_def)
  moreover have "oi_ID (demo_info st) = ''s1''" "oi_State (demo_info st) = st" for st
    by (simp_all add: demo_info_def)
  moreover have "os_name demo_adapter = ''os''" "os_registry demo_adapter = Some []" by (simp_all add: demo_adapter_def)
  ultimately have "\<exists>sb a'. OS_CreateSandbox demo_services mem_ops (\<lambda>_. False) (\<lambda>_. 0) 0 demo_create_request (demo_adapter, ()) =
      Some (Inr sb, a', ()) \<and> os_registry a' = Some [(''s1'', ''os'')]"
    by (simp add: OS_CreateSandbox_def demo_create_request_def registerSandbox_def SandboxBackendMap_Set_def gomap_eval)
  then show ?thesis
    using os_create_returns [of demo_services mem_ops "\<lambda>_. False" "\<lambda>_. 0" 0 demo_create_request demo_adapter "()"] by auto
qed

text \<open>C31: A random access token opens its own sandbox only, and only for an hour. The token handed out for a sandbox
  that had none is the text with the sandbox and the random bytes; until the hour after the
  call that made it, exactly this text is accepted for the sandbox, afterwards none is.\<close>

theorem os_random_token_exact:
  assumes "cache_inv (os_tokenCache a)" and "c_defaultTTL (os_tokenCache a) = hour" and "\<not> os_useSignedEndpoint a"
    and "fst (Cache_Get (os_tokenCache a) sid (clk 0)) = None"
    and "OS_GetAccessToken svc (Inr bytes) sid clk (a, w) = (res, a', w')"
  shows "res = Inr \<lparr>at_Token = ''envd_'' @ sid @ ''_'' @ hexEncode bytes, at_ExpiresAt = clk 2 + hour\<rparr> \<and> w' = w \<and>
         (fst (OS_ValidateAccessToken sid tok t a') \<longleftrightarrow> tok = ''envd_'' @ sid @ ''_'' @ hexEncode bytes \<and> t \<le> clk 1 + hour)"
proof -
  obtain tc where g: "Cache_Get (os_tokenCache a) sid (clk 0) = (None, tc)" using assms(4) by (metis prod.collapse)
  have inv: "cache_inv tc" using Cache_Get_spec [OF assms(1), of sid "clk 0"] g by simp
  have ttl: "c_defaultTTL tc = hour" using g assms(2) by (auto simp: Cache_Get_def removeLocked_def split: option.splits if_splits)
  let ?tok = "''envd_'' @ sid @ ''_'' @ hexEncode bytes"
  have a': "res = Inr \<lparr>at_Token = ?tok, at_ExpiresAt = clk 2 + hour\<rparr>" "w' = w"
    "os_tokenCache a' = Cache_Set tc sid ?tok (clk 1)"
    using assms(3,5) g by (auto simp: OS_GetAccessToken_def generateRandomToken_OS_def Let_def)
  have "fst (Cache_Get (os_tokenCache a') sid t) = (if clk 1 + hour < t then None else Some ?tok)"
    unfolding a'(3) using lru.lookup_store [OF inv, of sid ?tok "clk 1" t] ttl by simp
  then show ?thesis using a'(1,2) by (auto simp: OS_ValidateAccessToken_def split: prod.splits if_splits)
qed

theorem os_random_token_exact_witness:
  "fst (OS_ValidateAccessToken ''s1'' ''envd_s1_616263'' 3600000000005
      (fst (snd (OS_GetAccessToken (undefined :: unit osServices) (Inr ''abc'') ''s1'' (\<lambda>i. int i + 4) (demo_adapter, ()))))) \<and>
   \<not> fst (OS_ValidateAccessToken ''s1'' ''envd_s1_616264'' 3600000000005
      (fst (snd (OS_GetAccessToken (undefined :: unit osServices) (Inr ''abc'') ''s1'' (\<lambda>i. int i + 4) (demo_adapter, ())))))"
proof -
  have hyps: "cache_inv (os_tokenCache demo_adapter)" "c_defaultTTL (os_tokenCache demo_adapter) = hour"
    "\<not> os_useSignedEndpoint demo_adapter" "fst (Cache_Get (os_tokenCache demo_adapter) ''s1'' 4) = None"
    by (auto simp: demo_adapter_def Cache_New_inv) (simp_all add: Cache_New_def Cache_Get_def)
  obtain res a' w' where g: "OS_GetAccessToken (undefined :: unit osServices) (Inr ''abc'') ''s1'' (\<lambda>i. int i + 4) (demo_adapter, ()) = (res, a', w')"
    by (metis prod_cases3)
  have hex: "hexEncode ''abc'' = ''616263''" by code_simp
  show ?thesis
    using os_random_token_exact [OF hyps(1-3) _ g, of "''envd_s1_616263''" 3600000000005]
      os_random_token_exact [OF hyps(1-3) _ g, of "''envd_s1_616264''" 3600000000005] hyps(4)
    by (simp add: g hex del: hexEncode.simps)
qed

section \<open>What the adapter does not do\<close>

text \<open>A killed sandbox keeps its token: what was accepted before is accepted afterwards.\<close>

lemma os_kill_keeps_token:
  assumes "OS_KillSandbox svc sid (a, w) = (None, a', w')"
  shows "fst (OS_ValidateAccessToken sid tok t a') = fst (OS_ValidateAccessToken sid tok t a)"
  using assms by (auto simp: OS_KillSandbox_def OS_ValidateAccessToken_def split: prod.splits option.splits)

text \<open>The answer for a cached token promises a whole hour, whenever the token was made.\<close>

lemma os_cached_token_expiry:
  assumes "Cache_Get (os_tokenCache a) sid (clk 0) = (Some tok, tc)"
  shows "fst (OS_GetAccessToken svc r sid clk (a, w)) = Inr \<lparr>at_Token = tok, at_ExpiresAt = clk 1 + hour\<rparr>"
  using assms by (simp add: OS_GetAccessToken_def)

text \<open>The arguments of a command are joined with blanks: an argument with a shell operator ends the
  command.\<close>

lemma os_args_unquoted:
  "commandLine \<lparr>cmd_Command = ''ls'', cmd_Args = [''x; rm y''], cmd_Cwd = [], cmd_EnvVars = []\<rparr> = ''ls x; rm y''"
  by (simp add: commandLine_def)

text \<open>The timeout of the request reaches the server in no way.\<close>

lemma os_timeout_ignored:
  "OS_CreateSandbox svc sops ctxDone lag now (req\<lparr>csr_Timeout := n\<rparr>) st = OS_CreateSandbox svc sops ctxDone lag now req st"
proof -
  have eqs: "csr_TemplateID (req\<lparr>csr_Timeout := n\<rparr>) = csr_TemplateID req" "csr_Envs (req\<lparr>csr_Timeout := n\<rparr>) = csr_Envs req"
    "csr_Metadata (req\<lparr>csr_Timeout := n\<rparr>) = csr_Metadata req" by simp_all
  show ?thesis unfolding OS_CreateSandbox_def eqs ..
qed

text \<open>A client that was made before the token exists keeps the empty token.\<close>

lemma os_client_keeps_token:
  assumes "gm_get (os_execdClients a) sid = Some ec"
  shows "getOrCreateExecdClient svc sid clk (a, w) = (Inr ec, a, w)"
  using assms by (simp add: getOrCreateExecdClient_def)

text \<open>The error of an execution is reduced to the exit code: the result does not depend on which
  error it was.\<close>

lemma os_execute_hides_error:
  assumes "gm_get (os_execdClients a) sid = Some ec"
    and "xd_RunCommand svc ec (WrapCodeInCommand q (cer_Code req) (defaultLang (cer_Language req))) w = ((events, Some err), w')"
  shows "\<exists>res. OS_ExecuteCode q textOf svc sid req clk (a, w) = (Inr res, a, w') \<and> cx_ExitCode res = 1 \<and> cx_Error res = []"
  using assms by (simp add: OS_ExecuteCode_def withExecd_def getOrCreateExecdClient_def exitCodeOf_def)

text \<open>Process -1 is every process of the sandbox.\<close>

lemma os_kill_all_processes:
  assumes "scanPID ''-1'' = (1, -1, Some io_EOF)" and "gm_get (os_execdClients a) sid = Some ec"
  shows "fst (OS_KillProcess scanPID textOf svc sid ''-1'' clk (a, w)) = None \<and>
         snd (snd (OS_KillProcess scanPID textOf svc sid ''-1'' clk (a, w))) = snd (xd_RunCommand svc ec ''kill -9 -1'' w)"
proof -
  have "commandLine (simpleCommand (''kill -9 '' @ fmt_int (-1))) = ''kill -9 -1''" by code_simp
  then show ?thesis
    using assms by (auto simp: OS_KillProcess_def OS_RunCommand_def withExecd_def getOrCreateExecdClient_def split: prod.splits)
qed

end
