(* ===== verification/Cloud_DTO.thy ===== *)
theory Cloud_DTO
  imports E2B_DTO Handlers
begin

text \<open>
  The wire types of the E2B API (\<open>internal/api/dto/e2b.go\<close>) that only the client of the E2B cloud
  exchanges, and the zero values of the types it decodes into.
\<close>

record SandboxResumeRequest =
  srr_Timeout :: int

record dto_ProcessInfo =
  dpi_ProcessID :: string
  dpi_Command :: string
  dpi_PID :: int
  dpi_Status :: string
  dpi_StartedAt :: time

record SendStdinRequest =
  ssr_Data :: string

record dto_PortInfo =
  dpo_Port :: int
  dpo_Ready :: bool

record PortsResponse =
  prs_Ports :: "dto_PortInfo list"

record PortURLResponse =
  pur_URL :: string

record SnapshotCreateRequest =
  snc_Name :: string
  snc_Description :: string

record SnapshotInfo =
  sni_SnapshotID :: string
  sni_SandboxID :: string
  sni_Name :: string
  sni_Description :: string
  sni_CreatedAt :: time
  sni_SizeMB :: int

record AccessTokenResponse =
  atr_AccessToken :: string
  atr_ExpiresAt :: time

record BuildStatusResponse =
  bsr_BuildID :: string
  bsr_Status :: string
  bsr_Logs :: string
  bsr_Error :: string

record AliasRequest =
  alr_Alias :: string

record WarmPoolInfo =
  wpi_WarmPoolID :: string
  wpi_TemplateID :: string
  wpi_TargetSize :: int
  wpi_CurrentSize :: int
  wpi_Status :: string
  wpi_CreatedAt :: time

record dto_WarmPoolCreateRequest =
  dwp_TemplateID :: string
  dwp_TargetSize :: int
  dwp_WarmPoolID :: string

record WarmPoolSizeRequest =
  wps_TargetSize :: int

section \<open>Zero values\<close>

definition zeroSandboxCreateResponse :: SandboxCreateResponse where
  "zeroSandboxCreateResponse =
     \<lparr>dcs_SandboxID = [], dcs_TemplateID = [], dcs_Alias = [], dcs_ClientID = [], dcs_EnvdVersion = [],
      dcs_EnvdAccessToken = [], dcs_SandboxDomain = [], dcs_TrafficAccessToken = []\<rparr>"

definition zeroSandboxInfo :: SandboxInfo where
  "zeroSandboxInfo =
     \<lparr>si_SandboxID = [], si_TemplateID = [], si_Alias = [], si_ClientID = [], si_StartedAt = zeroTime, si_EndAt = zeroTime,
      si_CPUCount = 0, si_MemoryMB = 0, si_DiskSizeMB = 0, si_State = [], si_EnvdVersion = [], si_Metadata = [],
      si_VolumeMounts = []\<rparr>"

definition zeroCodeExecResult :: CodeExecResult where
  "zeroCodeExecResult = \<lparr>dcx_Stdout = [], dcx_Stderr = [], dcx_ExitCode = 0, dcx_Error = []\<rparr>"

definition zeroCommandResult :: dto_CommandResult where
  "zeroCommandResult = \<lparr>dcm_Stdout = [], dcm_Stderr = [], dcm_ExitCode = 0, dcm_ProcessID = []\<rparr>"

definition zeroSnapshotInfo :: SnapshotInfo where
  "zeroSnapshotInfo =
     \<lparr>sni_SnapshotID = [], sni_SandboxID = [], sni_Name = [], sni_Description = [], sni_CreatedAt = zeroTime, sni_SizeMB = 0\<rparr>"

definition zeroTagInfo :: TagInfo where
  "zeroTagInfo = \<lparr>tgi_Name = [], tgi_TemplateID = [], tgi_BuildID = [], tgi_CreatedAt = zeroTime\<rparr>"

definition zeroTemplateInfo :: TemplateInfo where
  "zeroTemplateInfo =
     \<lparr>ti_TemplateID = [], ti_Aliases = [], ti_BuildID = [], ti_CPUCount = 0, ti_MemoryMB = 0, ti_Public = False,
      ti_Ready = False, ti_CreatedAt = zeroTime, ti_StartedAt = zeroTime\<rparr>"

definition zeroTemplateBuildResponse :: TemplateBuildResponse where
  "zeroTemplateBuildResponse = \<lparr>tbs_TemplateID = [], tbs_BuildID = [], tbs_Status = []\<rparr>"

definition zeroBuildStatusResponse :: BuildStatusResponse where
  "zeroBuildStatusResponse = \<lparr>bsr_BuildID = [], bsr_Status = [], bsr_Logs = [], bsr_Error = []\<rparr>"

definition zeroWarmPoolInfo :: WarmPoolInfo where
  "zeroWarmPoolInfo =
     \<lparr>wpi_WarmPoolID = [], wpi_TemplateID = [], wpi_TargetSize = 0, wpi_CurrentSize = 0, wpi_Status = [], wpi_CreatedAt = zeroTime\<rparr>"

end
