(* ===== verification/Cloud_Client.thy ===== *)
theory Cloud_Client
  imports Cloud_DTO "HOL-Library.Word"
begin

text \<open>
  The HTTP client of the E2B cloud API (\<open>internal/adapter/e2bcloud/client.go\<close>): the request with its
  retries, the raw request, and one method per route.

  The HTTP transport, the context of a call and the JSON coding are the record \<open>cloudEnv\<close> of functions over
  the outside world \<open>'w\<close>.  A body is a value of \<open>cloudBody\<close>; decoding is a function to an option, a
  result that is not decoded has its zero value.
\<close>

section \<open>Transport\<close>

record httpRequest =
  hq_Method :: string
  hq_URL :: string
  hq_Headers :: "(string \<times> string) list"
  hq_Body :: "string option"

record httpResponse =
  hs_StatusCode :: int
  hs_Body :: string

datatype cloudBody =
    BSandboxCreate SandboxCreateRequest
  | BSandboxResume SandboxResumeRequest
  | BSandboxTimeout SandboxTimeoutRequest
  | BCodeExec CodeExecRequest
  | BCommand dto_CommandRequest
  | BFileWrite dto_FileWriteRequest
  | BFileList FileListRequest
  | BMakeDir MakeDirRequest
  | BFileRemove FileRemoveRequest
  | BSendStdin SendStdinRequest
  | BSnapshotCreate SnapshotCreateRequest
  | BEnvs strmap
  | BMoveFile MoveFileRequest
  | BCreateTag CreateTagRequest
  | BTemplateBuild TemplateBuildRequest
  | BAlias AliasRequest
  | BWarmPoolCreate dto_WarmPoolCreateRequest
  | BWarmPoolSize WarmPoolSizeRequest

text \<open>
  \<open>ce_newRequest\<close>: whether \<open>http.NewRequestWithContext\<close> accepts the method and the URL; \<open>ce_http\<close>: the exchange;
  \<open>ce_readBody\<close>: reading a body to its end; \<open>ce_ctxErr\<close>: whether the context is done; \<open>ce_backoff\<close>: waiting, with
  whether the context ended the wait.
\<close>

record 'w cloudEnv =
  ce_newRequest :: "string \<Rightarrow> string \<Rightarrow> bool"
  ce_http :: "httpRequest \<Rightarrow> 'w \<Rightarrow> httpResponse go_res \<times> 'w"
  ce_readBody :: "httpResponse \<Rightarrow> 'w \<Rightarrow> string go_res \<times> 'w"
  ce_ctxErr :: "'w \<Rightarrow> bool"
  ce_backoff :: "duration \<Rightarrow> 'w \<Rightarrow> bool \<times> 'w"
  ce_marshal :: "cloudBody \<Rightarrow> string go_res"
  ce_errorBody :: "string \<Rightarrow> ErrorResponse"
  de_SandboxCreateResponse :: "string \<Rightarrow> SandboxCreateResponse option"
  de_SandboxInfo :: "string \<Rightarrow> SandboxInfo option"
  de_SandboxInfos :: "string \<Rightarrow> (SandboxInfo list) option"
  de_CodeExecResult :: "string \<Rightarrow> CodeExecResult option"
  de_CommandResult :: "string \<Rightarrow> dto_CommandResult option"
  de_FileListResponse :: "string \<Rightarrow> FileListResponse option"
  de_ProcessInfos :: "string \<Rightarrow> (dto_ProcessInfo list) option"
  de_PortsResponse :: "string \<Rightarrow> PortsResponse option"
  de_PortURLResponse :: "string \<Rightarrow> PortURLResponse option"
  de_SnapshotInfo :: "string \<Rightarrow> SnapshotInfo option"
  de_SnapshotInfos :: "string \<Rightarrow> (SnapshotInfo list) option"
  de_AccessTokenResponse :: "string \<Rightarrow> AccessTokenResponse option"
  de_SandboxLogsResponse :: "string \<Rightarrow> SandboxLogsResponse option"
  de_TagInfo :: "string \<Rightarrow> TagInfo option"
  de_TagInfos :: "string \<Rightarrow> (TagInfo list) option"
  de_TemplateInfo :: "string \<Rightarrow> TemplateInfo option"
  de_TemplateInfos :: "string \<Rightarrow> (TemplateInfo list) option"
  de_TemplateBuildResponse :: "string \<Rightarrow> TemplateBuildResponse option"
  de_BuildStatusResponse :: "string \<Rightarrow> BuildStatusResponse option"
  de_WarmPoolInfo :: "string \<Rightarrow> WarmPoolInfo option"
  de_WarmPoolInfos :: "string \<Rightarrow> (WarmPoolInfo list) option"

section \<open>The client\<close>

record ClientConfig =
  clc_Endpoint :: string
  clc_APIKey :: string
  clc_Timeout :: duration
  clc_MaxRetries :: int

record cloudClient =
  cc_baseURL :: string
  cc_apiKey :: string
  cc_maxRetries :: int
  cc_timeout :: duration

definition NewClient :: "ClientConfig \<Rightarrow> cloudClient" where
  "NewClient cfg =
     \<lparr>cc_baseURL = (if clc_Endpoint cfg = [] then ''https://api.e2b.dev'' else clc_Endpoint cfg),
      cc_apiKey = clc_APIKey cfg,
      cc_maxRetries = (if clc_MaxRetries cfg = 0 then 3 else clc_MaxRetries cfg),
      cc_timeout = (if clc_Timeout cfg = 0 then 60 * second else clc_Timeout cfg)\<rparr>"

definition APIError :: "int \<Rightarrow> ErrorResponse \<Rightarrow> go_error" where
  "APIError status errResp =
     StatusError status (''e2b api error (status='' @ fmt_int status @ '', code='' @ fmt_int (er_Code errResp) @ ''): '' @ er_Message errResp)"

text \<open>An error wrapped with \<open>%w\<close>: \<open>errors.As\<close> still finds the status of an API error.\<close>

definition wrapError :: "string \<Rightarrow> go_error \<Rightarrow> go_error" where
  "wrapError context err =
     (case err of StatusError status msg \<Rightarrow> StatusError status (context @ msg) | Errorf fmt args \<Rightarrow> Errorf (context @ fmt) args)"

definition buildRequest :: "cloudClient \<Rightarrow> string \<Rightarrow> string \<Rightarrow> string option \<Rightarrow> httpRequest" where
  "buildRequest c method path bodyBytes =
     \<lparr>hq_Method = method, hq_URL = cc_baseURL c @ path,
      hq_Headers = [(''X-API-Key'', cc_apiKey c), (''Content-Type'', ''application/json''), (''Accept'', ''application/json'')],
      hq_Body = bodyBytes\<rparr>"

text \<open>The failure of a response carries whether the request is tried again.\<close>

definition handleResponse ::
  "'w cloudEnv \<Rightarrow> (string \<Rightarrow> 'r option) option \<Rightarrow> 'r \<Rightarrow> httpResponse \<Rightarrow> (bool \<times> go_error) + 'r" where
  "handleResponse env decode zero resp =
     (if hs_StatusCode resp \<ge> 400
      then Inl (hs_StatusCode resp = 429 \<or> hs_StatusCode resp \<ge> 500, APIError (hs_StatusCode resp) (ce_errorBody env (hs_Body resp)))
      else case decode of
             None \<Rightarrow> Inr zero
           | Some d \<Rightarrow>
               if hs_StatusCode resp = 204 then Inr zero
               else case d (hs_Body resp) of
                      None \<Rightarrow> Inl (False, Errorf ''decoding response: %w'' [])
                    | Some r \<Rightarrow> Inr r)"

text \<open>The wait before attempt \<open>n\<close>: \<open>time.Duration(1<<(n-1)) * 100 * time.Millisecond\<close>, at 64 bits.\<close>

definition backoffOf :: "nat \<Rightarrow> duration" where
  "backoffOf attempt = sint (word_of_int (2 ^ (attempt - 1) * (100 * 10 ^ 6)) :: 64 word)"

text \<open>The loop over the attempts, with the number that is left.\<close>

fun doLoop ::
  "'w cloudEnv \<Rightarrow> cloudClient \<Rightarrow> (string \<Rightarrow> 'r option) option \<Rightarrow> 'r \<Rightarrow> httpRequest \<Rightarrow> nat \<Rightarrow> nat \<Rightarrow> go_error option \<Rightarrow> 'w \<Rightarrow> 'r go_res \<times> 'w" where
  "doLoop env c decode zero req 0 attempt lastErr w =
     (Inl (case lastErr of
             Some err \<Rightarrow> wrapError (''request failed after '' @ fmt_int (cc_maxRetries c + 1) @ '' attempts: '') err
           | None \<Rightarrow> Errorf ''request failed after %d attempts'' [fmt_int (cc_maxRetries c + 1)]), w)"
| "doLoop env c decode zero req (Suc left) attempt lastErr w =
     (if ce_ctxErr env w then (Inl (Errorf ''context canceled: %w'' []), w)
      else
        (case (if attempt > 0 then ce_backoff env (backoffOf attempt) w else (False, w)) of
           (True, w) \<Rightarrow> (Inl (Errorf ''context canceled during backoff: %w'' []), w)
         | (False, w) \<Rightarrow>
             if \<not> ce_newRequest env (hq_Method req) (hq_URL req) then (Inl (Errorf ''creating request: %w'' []), w)
             else
               (case ce_http env req w of
                  (Inl err, w) \<Rightarrow>
                    doLoop env c decode zero req left (attempt + 1) (Some (wrapError ''executing request: '' err)) w
                | (Inr resp, w) \<Rightarrow>
                    (case handleResponse env decode zero resp of
                       Inl (shouldRetry, err) \<Rightarrow>
                         if shouldRetry then doLoop env c decode zero req left (attempt + 1) (Some err) w
                         else (Inl err, w)
                     | Inr r \<Rightarrow> (Inr r, w)))))"

definition client_do ::
  "'w cloudEnv \<Rightarrow> cloudClient \<Rightarrow> string \<Rightarrow> string \<Rightarrow> cloudBody option \<Rightarrow> (string \<Rightarrow> 'r option) option \<Rightarrow> 'r \<Rightarrow> 'w \<Rightarrow> 'r go_res \<times> 'w" where
  "client_do env c method path body decode zero w =
     (case (case body of None \<Rightarrow> Inr None | Some b \<Rightarrow> map_sum id Some (ce_marshal env b)) of
        Inl err \<Rightarrow> (Inl (Errorf ''marshaling request: %w'' []), w)
      | Inr bodyBytes \<Rightarrow>
          doLoop env c decode zero (buildRequest c method path bodyBytes) (nat (cc_maxRetries c + 1)) 0 None w)"

definition client_doErr ::
  "'w cloudEnv \<Rightarrow> cloudClient \<Rightarrow> string \<Rightarrow> string \<Rightarrow> cloudBody option \<Rightarrow> 'w \<Rightarrow> go_error option \<times> 'w" where
  "client_doErr env c method path body w =
     (case client_do env c method path body None () w of (Inl err, w) \<Rightarrow> (Some err, w) | (Inr _, w) \<Rightarrow> (None, w))"

text \<open>A body that is a reader is what reading it gives; a reader that fails makes the exchange fail.\<close>

definition client_doRaw ::
  "'w cloudEnv \<Rightarrow> cloudClient \<Rightarrow> string \<Rightarrow> string \<Rightarrow> string go_res option \<Rightarrow> string \<Rightarrow> 'w \<Rightarrow> string go_res \<times> 'w" where
  "client_doRaw env c method path body contentType w =
     (if \<not> ce_newRequest env method (cc_baseURL c @ path) then (Inl (Errorf ''creating request: %w'' []), w)
      else
        (case (case body of
                 Some (Inl err) \<Rightarrow> (Inl err, w)
               | _ \<Rightarrow> ce_http env
                        \<lparr>hq_Method = method, hq_URL = cc_baseURL c @ path,
                         hq_Headers = (''X-API-Key'', cc_apiKey c) #
                           (if contentType \<noteq> [] then [(''Content-Type'', contentType)] else []),
                         hq_Body = map_option projr body\<rparr> w) of
           (Inl err, w) \<Rightarrow> (Inl (wrapError ''executing request: '' err), w)
         | (Inr resp, w) \<Rightarrow>
             (case ce_readBody env resp w of
                (Inl err, w) \<Rightarrow> (Inl (wrapError ''reading response: '' err), w)
              | (Inr respBody, w) \<Rightarrow>
                  if hs_StatusCode resp \<ge> 400
                  then (Inl (APIError (hs_StatusCode resp) (ce_errorBody env respBody)), w)
                  else (Inr respBody, w))))"

abbreviation "MethodGet \<equiv> ''GET''"
abbreviation "MethodPost \<equiv> ''POST''"
abbreviation "MethodDelete \<equiv> ''DELETE''"

abbreviation "sandboxPath sandboxID \<equiv> ''/sandboxes/'' @ sandboxID"
abbreviation "templatePath templateID \<equiv> ''/templates/'' @ templateID"

section \<open>Sandboxes\<close>

definition Client_CreateSandbox ::
  "'w cloudEnv \<Rightarrow> cloudClient \<Rightarrow> SandboxCreateRequest \<Rightarrow> 'w \<Rightarrow> SandboxCreateResponse go_res \<times> 'w" where
  "Client_CreateSandbox env c req =
     client_do env c MethodPost (''/sandboxes'') (Some (BSandboxCreate req)) (Some (de_SandboxCreateResponse env)) zeroSandboxCreateResponse"

definition Client_ListSandboxes ::
  "'w cloudEnv \<Rightarrow> cloudClient \<Rightarrow> 'w \<Rightarrow> (SandboxInfo list) go_res \<times> 'w" where
  "Client_ListSandboxes env c =
     client_do env c MethodGet (''/sandboxes'') None (Some (de_SandboxInfos env)) []"

definition Client_GetSandbox ::
  "'w cloudEnv \<Rightarrow> cloudClient \<Rightarrow> string \<Rightarrow> 'w \<Rightarrow> SandboxInfo go_res \<times> 'w" where
  "Client_GetSandbox env c sandboxID =
     client_do env c MethodGet (sandboxPath sandboxID) None (Some (de_SandboxInfo env)) zeroSandboxInfo"

definition Client_KillSandbox ::
  "'w cloudEnv \<Rightarrow> cloudClient \<Rightarrow> string \<Rightarrow> 'w \<Rightarrow> go_error option \<times> 'w" where
  "Client_KillSandbox env c sandboxID =
     client_doErr env c MethodDelete (sandboxPath sandboxID) None"

definition Client_PauseSandbox ::
  "'w cloudEnv \<Rightarrow> cloudClient \<Rightarrow> string \<Rightarrow> 'w \<Rightarrow> go_error option \<times> 'w" where
  "Client_PauseSandbox env c sandboxID =
     client_doErr env c MethodPost (sandboxPath sandboxID @ ''/pause'') None"

definition Client_ResumeSandbox ::
  "'w cloudEnv \<Rightarrow> cloudClient \<Rightarrow> string \<Rightarrow> SandboxResumeRequest \<Rightarrow> 'w \<Rightarrow> SandboxCreateResponse go_res \<times> 'w" where
  "Client_ResumeSandbox env c sandboxID req =
     client_do env c MethodPost (sandboxPath sandboxID @ ''/resume'') (Some (BSandboxResume req)) (Some (de_SandboxCreateResponse env)) zeroSandboxCreateResponse"

definition Client_SetTimeout ::
  "'w cloudEnv \<Rightarrow> cloudClient \<Rightarrow> string \<Rightarrow> SandboxTimeoutRequest \<Rightarrow> 'w \<Rightarrow> go_error option \<times> 'w" where
  "Client_SetTimeout env c sandboxID req =
     client_doErr env c MethodPost (sandboxPath sandboxID @ ''/timeout'') (Some (BSandboxTimeout req))"

section \<open>Code and commands\<close>

definition Client_ExecuteCode ::
  "'w cloudEnv \<Rightarrow> cloudClient \<Rightarrow> string \<Rightarrow> CodeExecRequest \<Rightarrow> 'w \<Rightarrow> CodeExecResult go_res \<times> 'w" where
  "Client_ExecuteCode env c sandboxID req =
     client_do env c MethodPost (sandboxPath sandboxID @ ''/code'') (Some (BCodeExec req)) (Some (de_CodeExecResult env)) zeroCodeExecResult"

definition Client_RunCommand ::
  "'w cloudEnv \<Rightarrow> cloudClient \<Rightarrow> string \<Rightarrow> dto_CommandRequest \<Rightarrow> 'w \<Rightarrow> dto_CommandResult go_res \<times> 'w" where
  "Client_RunCommand env c sandboxID req =
     client_do env c MethodPost (sandboxPath sandboxID @ ''/commands'') (Some (BCommand req)) (Some (de_CommandResult env)) zeroCommandResult"

section \<open>Files\<close>

definition Client_WriteFile ::
  "'w cloudEnv \<Rightarrow> cloudClient \<Rightarrow> string \<Rightarrow> dto_FileWriteRequest \<Rightarrow> 'w \<Rightarrow> go_error option \<times> 'w" where
  "Client_WriteFile env c sandboxID req =
     client_doErr env c MethodPost (sandboxPath sandboxID @ ''/files'') (Some (BFileWrite req))"

definition Client_ReadFile ::
  "'w cloudEnv \<Rightarrow> cloudClient \<Rightarrow> string \<Rightarrow> string \<Rightarrow> 'w \<Rightarrow> string go_res \<times> 'w" where
  "Client_ReadFile env c sandboxID path =
     client_doRaw env c MethodGet (sandboxPath sandboxID @ ''/files?path='' @ path) None []"

definition Client_ListFiles ::
  "'w cloudEnv \<Rightarrow> cloudClient \<Rightarrow> string \<Rightarrow> FileListRequest \<Rightarrow> 'w \<Rightarrow> FileListResponse go_res \<times> 'w" where
  "Client_ListFiles env c sandboxID req =
     client_do env c MethodPost (sandboxPath sandboxID @ ''/files/list'') (Some (BFileList req)) (Some (de_FileListResponse env)) \<lparr>fls_Entries = []\<rparr>"

definition Client_MakeDir ::
  "'w cloudEnv \<Rightarrow> cloudClient \<Rightarrow> string \<Rightarrow> MakeDirRequest \<Rightarrow> 'w \<Rightarrow> go_error option \<times> 'w" where
  "Client_MakeDir env c sandboxID req =
     client_doErr env c MethodPost (sandboxPath sandboxID @ ''/files/make-dir'') (Some (BMakeDir req))"

definition Client_RemoveFile ::
  "'w cloudEnv \<Rightarrow> cloudClient \<Rightarrow> string \<Rightarrow> FileRemoveRequest \<Rightarrow> 'w \<Rightarrow> go_error option \<times> 'w" where
  "Client_RemoveFile env c sandboxID req =
     client_doErr env c MethodPost (sandboxPath sandboxID @ ''/files/remove'') (Some (BFileRemove req))"

definition Client_UploadFile ::
  "'w cloudEnv \<Rightarrow> cloudClient \<Rightarrow> string \<Rightarrow> string \<Rightarrow> string go_res \<Rightarrow> 'w \<Rightarrow> go_error option \<times> 'w" where
  "Client_UploadFile env c sandboxID path content w =
     (case client_doRaw env c MethodPost (sandboxPath sandboxID @ ''/files/upload?path='' @ path) (Some content)
             ''application/octet-stream'' w of
        (Inl err, w) \<Rightarrow> (Some err, w)
      | (Inr _, w) \<Rightarrow> (None, w))"

definition Client_DownloadFile ::
  "'w cloudEnv \<Rightarrow> cloudClient \<Rightarrow> string \<Rightarrow> string \<Rightarrow> 'w \<Rightarrow> string go_res \<times> 'w" where
  "Client_DownloadFile env c sandboxID path =
     client_doRaw env c MethodGet (sandboxPath sandboxID @ ''/files/download?path='' @ path) None []"

definition Client_MoveFile ::
  "'w cloudEnv \<Rightarrow> cloudClient \<Rightarrow> string \<Rightarrow> string \<Rightarrow> string \<Rightarrow> 'w \<Rightarrow> go_error option \<times> 'w" where
  "Client_MoveFile env c sandboxID src dst =
     client_doErr env c MethodPost (sandboxPath sandboxID @ ''/filesystem/move'') (Some (BMoveFile \<lparr>mvf_Source = src, mvf_Destination = dst\<rparr>))"

section \<open>Processes, ports, snapshots\<close>

definition Client_ListProcesses ::
  "'w cloudEnv \<Rightarrow> cloudClient \<Rightarrow> string \<Rightarrow> 'w \<Rightarrow> (dto_ProcessInfo list) go_res \<times> 'w" where
  "Client_ListProcesses env c sandboxID =
     client_do env c MethodGet (sandboxPath sandboxID @ ''/processes'') None (Some (de_ProcessInfos env)) []"

definition Client_KillProcess ::
  "'w cloudEnv \<Rightarrow> cloudClient \<Rightarrow> string \<Rightarrow> string \<Rightarrow> 'w \<Rightarrow> go_error option \<times> 'w" where
  "Client_KillProcess env c sandboxID processID =
     client_doErr env c MethodPost (sandboxPath sandboxID @ ''/processes/'' @ processID @ ''/kill'') None"

definition Client_SendStdin ::
  "'w cloudEnv \<Rightarrow> cloudClient \<Rightarrow> string \<Rightarrow> string \<Rightarrow> SendStdinRequest \<Rightarrow> 'w \<Rightarrow> go_error option \<times> 'w" where
  "Client_SendStdin env c sandboxID processID req =
     client_doErr env c MethodPost (sandboxPath sandboxID @ ''/processes/'' @ processID @ ''/stdin'') (Some (BSendStdin req))"

definition Client_ListPorts ::
  "'w cloudEnv \<Rightarrow> cloudClient \<Rightarrow> string \<Rightarrow> 'w \<Rightarrow> PortsResponse go_res \<times> 'w" where
  "Client_ListPorts env c sandboxID =
     client_do env c MethodGet (sandboxPath sandboxID @ ''/ports'') None (Some (de_PortsResponse env)) \<lparr>prs_Ports = []\<rparr>"

definition Client_GetPortURL ::
  "'w cloudEnv \<Rightarrow> cloudClient \<Rightarrow> string \<Rightarrow> int \<Rightarrow> 'w \<Rightarrow> PortURLResponse go_res \<times> 'w" where
  "Client_GetPortURL env c sandboxID port =
     client_do env c MethodGet (sandboxPath sandboxID @ ''/ports/'' @ fmt_int port) None (Some (de_PortURLResponse env)) \<lparr>pur_URL = []\<rparr>"

definition Client_CreateSnapshot ::
  "'w cloudEnv \<Rightarrow> cloudClient \<Rightarrow> string \<Rightarrow> SnapshotCreateRequest \<Rightarrow> 'w \<Rightarrow> SnapshotInfo go_res \<times> 'w" where
  "Client_CreateSnapshot env c sandboxID req =
     client_do env c MethodPost (sandboxPath sandboxID @ ''/snapshots'') (Some (BSnapshotCreate req)) (Some (de_SnapshotInfo env)) zeroSnapshotInfo"

definition Client_ListSnapshots ::
  "'w cloudEnv \<Rightarrow> cloudClient \<Rightarrow> string \<Rightarrow> 'w \<Rightarrow> (SnapshotInfo list) go_res \<times> 'w" where
  "Client_ListSnapshots env c sandboxID =
     client_do env c MethodGet (sandboxPath sandboxID @ ''/snapshots'') None (Some (de_SnapshotInfos env)) []"

section \<open>Tokens, environment, logs\<close>

definition Client_GetAccessToken ::
  "'w cloudEnv \<Rightarrow> cloudClient \<Rightarrow> string \<Rightarrow> 'w \<Rightarrow> AccessTokenResponse go_res \<times> 'w" where
  "Client_GetAccessToken env c sandboxID =
     client_do env c MethodPost (sandboxPath sandboxID @ ''/access-token'') None (Some (de_AccessTokenResponse env)) \<lparr>atr_AccessToken = [], atr_ExpiresAt = zeroTime\<rparr>"

definition Client_SetEnvs ::
  "'w cloudEnv \<Rightarrow> cloudClient \<Rightarrow> string \<Rightarrow> strmap \<Rightarrow> 'w \<Rightarrow> go_error option \<times> 'w" where
  "Client_SetEnvs env c sandboxID envs =
     client_doErr env c MethodPost (sandboxPath sandboxID @ ''/envs'') (Some (BEnvs envs))"

definition Client_GetLogs ::
  "'w cloudEnv \<Rightarrow> cloudClient \<Rightarrow> string \<Rightarrow> 'w \<Rightarrow> (dto_LogEntry list) go_res \<times> 'w" where
  "Client_GetLogs env c sandboxID w =
     apfst (map_sum id slr_Logs) (client_do env c MethodGet (sandboxPath sandboxID @ ''/logs'') None (Some (de_SandboxLogsResponse env)) \<lparr>slr_Logs = []\<rparr> w)"

section \<open>Templates\<close>

definition Client_CreateTag ::
  "'w cloudEnv \<Rightarrow> cloudClient \<Rightarrow> string \<Rightarrow> CreateTagRequest \<Rightarrow> 'w \<Rightarrow> TagInfo go_res \<times> 'w" where
  "Client_CreateTag env c templateID req =
     client_do env c MethodPost (templatePath templateID @ ''/tags'') (Some (BCreateTag req)) (Some (de_TagInfo env)) zeroTagInfo"

definition Client_ListTags ::
  "'w cloudEnv \<Rightarrow> cloudClient \<Rightarrow> string \<Rightarrow> 'w \<Rightarrow> (TagInfo list) go_res \<times> 'w" where
  "Client_ListTags env c templateID =
     client_do env c MethodGet (templatePath templateID @ ''/tags'') None (Some (de_TagInfos env)) []"

definition Client_DeleteTag ::
  "'w cloudEnv \<Rightarrow> cloudClient \<Rightarrow> string \<Rightarrow> string \<Rightarrow> 'w \<Rightarrow> go_error option \<times> 'w" where
  "Client_DeleteTag env c templateID tagName =
     client_doErr env c MethodDelete (templatePath templateID @ ''/tags/'' @ tagName) None"

definition Client_ListTemplates ::
  "'w cloudEnv \<Rightarrow> cloudClient \<Rightarrow> 'w \<Rightarrow> (TemplateInfo list) go_res \<times> 'w" where
  "Client_ListTemplates env c =
     client_do env c MethodGet (''/templates'') None (Some (de_TemplateInfos env)) []"

definition Client_GetTemplate ::
  "'w cloudEnv \<Rightarrow> cloudClient \<Rightarrow> string \<Rightarrow> 'w \<Rightarrow> TemplateInfo go_res \<times> 'w" where
  "Client_GetTemplate env c templateID =
     client_do env c MethodGet (templatePath templateID) None (Some (de_TemplateInfo env)) zeroTemplateInfo"

definition Client_CreateTemplate ::
  "'w cloudEnv \<Rightarrow> cloudClient \<Rightarrow> TemplateBuildRequest \<Rightarrow> 'w \<Rightarrow> TemplateBuildResponse go_res \<times> 'w" where
  "Client_CreateTemplate env c req =
     client_do env c MethodPost (''/templates'') (Some (BTemplateBuild req)) (Some (de_TemplateBuildResponse env)) zeroTemplateBuildResponse"

definition Client_DeleteTemplate ::
  "'w cloudEnv \<Rightarrow> cloudClient \<Rightarrow> string \<Rightarrow> 'w \<Rightarrow> go_error option \<times> 'w" where
  "Client_DeleteTemplate env c templateID =
     client_doErr env c MethodDelete (templatePath templateID) None"

definition Client_GetBuildStatus ::
  "'w cloudEnv \<Rightarrow> cloudClient \<Rightarrow> string \<Rightarrow> string \<Rightarrow> 'w \<Rightarrow> BuildStatusResponse go_res \<times> 'w" where
  "Client_GetBuildStatus env c templateID buildID =
     client_do env c MethodPost (templatePath templateID @ ''/builds/'' @ buildID @ ''/status'') None (Some (de_BuildStatusResponse env)) zeroBuildStatusResponse"

definition Client_CreateAlias ::
  "'w cloudEnv \<Rightarrow> cloudClient \<Rightarrow> string \<Rightarrow> AliasRequest \<Rightarrow> 'w \<Rightarrow> go_error option \<times> 'w" where
  "Client_CreateAlias env c templateID req =
     client_doErr env c MethodPost (templatePath templateID @ ''/aliases'') (Some (BAlias req))"

definition Client_DeleteAlias ::
  "'w cloudEnv \<Rightarrow> cloudClient \<Rightarrow> string \<Rightarrow> string \<Rightarrow> 'w \<Rightarrow> go_error option \<times> 'w" where
  "Client_DeleteAlias env c templateID alias =
     client_doErr env c MethodDelete (templatePath templateID @ ''/aliases/'' @ alias) None"

section \<open>Warm pools\<close>

definition Client_ListWarmPools ::
  "'w cloudEnv \<Rightarrow> cloudClient \<Rightarrow> 'w \<Rightarrow> (WarmPoolInfo list) go_res \<times> 'w" where
  "Client_ListWarmPools env c =
     client_do env c MethodGet (''/warm-pools'') None (Some (de_WarmPoolInfos env)) []"

definition Client_CreateWarmPool ::
  "'w cloudEnv \<Rightarrow> cloudClient \<Rightarrow> dto_WarmPoolCreateRequest \<Rightarrow> 'w \<Rightarrow> WarmPoolInfo go_res \<times> 'w" where
  "Client_CreateWarmPool env c req =
     client_do env c MethodPost (''/warm-pools'') (Some (BWarmPoolCreate req)) (Some (de_WarmPoolInfo env)) zeroWarmPoolInfo"

definition Client_DeleteWarmPool ::
  "'w cloudEnv \<Rightarrow> cloudClient \<Rightarrow> string \<Rightarrow> 'w \<Rightarrow> go_error option \<times> 'w" where
  "Client_DeleteWarmPool env c warmPoolID =
     client_doErr env c MethodDelete (''/warm-pools/'' @ warmPoolID) None"

definition Client_UpdateWarmPoolSize ::
  "'w cloudEnv \<Rightarrow> cloudClient \<Rightarrow> string \<Rightarrow> WarmPoolSizeRequest \<Rightarrow> 'w \<Rightarrow> go_error option \<times> 'w" where
  "Client_UpdateWarmPoolSize env c warmPoolID req =
     client_doErr env c MethodPost (''/warm-pools/'' @ warmPoolID @ ''/size'') (Some (BWarmPoolSize req))"

section \<open>What the retries amount to\<close>

text \<open>One attempt is decisive or is followed by another.\<close>

datatype 'r attempt = Retry go_error | Done "'r go_res"

definition attemptOf ::
  "'w cloudEnv \<Rightarrow> (string \<Rightarrow> 'r option) option \<Rightarrow> 'r \<Rightarrow> httpRequest \<Rightarrow> 'w \<Rightarrow> 'r attempt" where
  "attemptOf env decode zero req w =
     (case fst (ce_http env req w) of
        Inl err \<Rightarrow> Retry (wrapError ''executing request: '' err)
      | Inr resp \<Rightarrow>
          (case handleResponse env decode zero resp of
             Inl (shouldRetry, err) \<Rightarrow> if shouldRetry then Retry err else Done (Inl err)
           | Inr r \<Rightarrow> Done (Inr r)))"

text \<open>The world in which attempt \<open>a + i\<close> is made, when the attempts before it were not decisive and no
  context ended.\<close>

definition waitFor :: "'w cloudEnv \<Rightarrow> nat \<Rightarrow> 'w \<Rightarrow> 'w" where
  "waitFor env attempt w = (if attempt > 0 then snd (ce_backoff env (backoffOf attempt) w) else w)"

fun worldAt :: "'w cloudEnv \<Rightarrow> httpRequest \<Rightarrow> nat \<Rightarrow> nat \<Rightarrow> 'w \<Rightarrow> 'w" where
  "worldAt env req a 0 w = waitFor env a w"
| "worldAt env req a (Suc i) w = worldAt env req (a + 1) i (snd (ce_http env req (waitFor env a w)))"

text \<open>The result of the first decisive attempt, or the last failure.\<close>

definition firstDecisive ::
  "'w cloudEnv \<Rightarrow> (string \<Rightarrow> 'r option) option \<Rightarrow> 'r \<Rightarrow> httpRequest \<Rightarrow> nat \<Rightarrow> 'w \<Rightarrow> 'r go_res \<times> 'w" where
  "firstDecisive env decode zero req n w =
     (case find (\<lambda>i. case attemptOf env decode zero req (worldAt env req 0 i w) of Retry _ \<Rightarrow> False | Done _ \<Rightarrow> True) [0..<n] of
        Some k \<Rightarrow>
          (case attemptOf env decode zero req (worldAt env req 0 k w) of
             Done r \<Rightarrow> r | Retry err \<Rightarrow> Inl err, snd (ce_http env req (worldAt env req 0 k w)))
      | None \<Rightarrow>
          (case attemptOf env decode zero req (worldAt env req 0 (n - 1) w) of
             Retry err \<Rightarrow> Inl (wrapError (''request failed after '' @ fmt_int (int n) @ '' attempts: '') err) | Done r \<Rightarrow> r,
           snd (ce_http env req (worldAt env req 0 (n - 1) w))))"

definition neverCanceled :: "'w cloudEnv \<Rightarrow> bool" where
  "neverCanceled env = (\<forall>w d. \<not> ce_ctxErr env w \<and> \<not> fst (ce_backoff env d w))"

lemma doLoop_attempt:
  assumes "neverCanceled env" and "ce_newRequest env (hq_Method req) (hq_URL req)"
  shows "doLoop env c decode zero req (Suc left) a le w =
     (case attemptOf env decode zero req (waitFor env a w) of
        Done r \<Rightarrow> (r, snd (ce_http env req (waitFor env a w)))
      | Retry err \<Rightarrow> doLoop env c decode zero req left (a + 1) (Some err) (snd (ce_http env req (waitFor env a w))))"
proof -
  have w: "(if a > 0 then ce_backoff env (backoffOf a) w else (False, w)) = (False, waitFor env a w)"
    using assms(1) by (auto simp: neverCanceled_def waitFor_def prod_eq_iff)
  have "\<not> ce_ctxErr env w" using assms(1) by (simp add: neverCanceled_def)
  then show ?thesis
    unfolding doLoop.simps w using assms(2)
    by (auto simp: attemptOf_def split: prod.splits sum.splits)
qed

declare doLoop.simps(2) [simp del]

lemma doLoop_done:
  assumes "neverCanceled env" and "ce_newRequest env (hq_Method req) (hq_URL req)"
  shows "k < left \<Longrightarrow> \<forall>i<k. \<exists>err. attemptOf env decode zero req (worldAt env req a i w) = Retry err \<Longrightarrow>
    attemptOf env decode zero req (worldAt env req a k w) = Done r \<Longrightarrow>
    doLoop env c decode zero req left a le w = (r, snd (ce_http env req (worldAt env req a k w)))"
proof (induction k arbitrary: left a le w)
  case 0
  then obtain n where "left = Suc n" by (cases left) auto
  then show ?case using 0 by (simp add: doLoop_attempt [OF assms])
next
  case (Suc k)
  then obtain n where left: "left = Suc n" by (cases left) auto
  let ?w = "snd (ce_http env req (waitFor env a w))"
  obtain err where "attemptOf env decode zero req (waitFor env a w) = Retry err" using Suc.prems(2) by fastforce
  then have "doLoop env c decode zero req left a le w = doLoop env c decode zero req n (a + 1) (Some err) ?w"
    unfolding left doLoop_attempt [OF assms] by simp
  also have "\<dots> = (r, snd (ce_http env req (worldAt env req (a + 1) k ?w)))"
    using Suc.prems left by (intro Suc.IH) auto
  finally show ?case by simp
qed

lemma doLoop_exhausted:
  assumes "neverCanceled env" and "ce_newRequest env (hq_Method req) (hq_URL req)"
  shows "\<forall>i<Suc n. \<exists>err. attemptOf env decode zero req (worldAt env req a i w) = Retry err \<Longrightarrow>
    attemptOf env decode zero req (worldAt env req a n w) = Retry err \<Longrightarrow>
    doLoop env c decode zero req (Suc n) a le w =
      (Inl (wrapError (''request failed after '' @ fmt_int (cc_maxRetries c + 1) @ '' attempts: '') err),
       snd (ce_http env req (worldAt env req a n w)))"
proof (induction n arbitrary: a le w)
  case 0
  then show ?case by (simp add: doLoop_attempt [OF assms])
next
  case (Suc n)
  let ?w = "snd (ce_http env req (waitFor env a w))"
  obtain e where "attemptOf env decode zero req (waitFor env a w) = Retry e" using Suc.prems(1) by fastforce
  then have "doLoop env c decode zero req (Suc (Suc n)) a le w = doLoop env c decode zero req (Suc n) (a + 1) (Some e) ?w"
    unfolding doLoop_attempt [OF assms] by simp
  also have "\<dots> = (Inl (wrapError (''request failed after '' @ fmt_int (cc_maxRetries c + 1) @ '' attempts: '') err),
      snd (ce_http env req (worldAt env req (a + 1) n ?w)))"
    using Suc.prems by (intro Suc.IH) auto
  finally show ?case by simp
qed

lemma doLoop_firstDecisive:
  assumes "neverCanceled env" and "ce_newRequest env (hq_Method req) (hq_URL req)" and "0 \<le> cc_maxRetries c"
  shows "doLoop env c decode zero req (nat (cc_maxRetries c + 1)) 0 None w =
    firstDecisive env decode zero req (nat (cc_maxRetries c + 1)) w"
proof -
  let ?n = "nat (cc_maxRetries c + 1)"
  let ?at = "\<lambda>i. attemptOf env decode zero req (worldAt env req 0 i w)"
  let ?done = "\<lambda>i. case ?at i of Retry _ \<Rightarrow> False | Done _ \<Rightarrow> True"
  obtain m where m: "?n = Suc m" using assms(3) by (metis Suc_nat_eq_nat_zadd1 add.commute)
  have n: "int ?n = cc_maxRetries c + 1" using assms(3) by simp
  show ?thesis
  proof (cases "find ?done [0..<?n]")
    case None
    then have all: "\<forall>i<Suc m. \<exists>err. ?at i = Retry err"
      unfolding m by (auto simp: find_None_iff split: attempt.splits) (metis attempt.exhaust less_Suc_eq)
    then obtain err where err: "?at m = Retry err" by blast
    have "firstDecisive env decode zero req ?n w =
        (Inl (wrapError (''request failed after '' @ fmt_int (cc_maxRetries c + 1) @ '' attempts: '') err),
         snd (ce_http env req (worldAt env req 0 m w)))"
      unfolding firstDecisive_def None n using err m by simp
    then show ?thesis unfolding m using doLoop_exhausted [OF assms(1,2) all err] by simp
  next
    case (Some k)
    then have k: "k < ?n" "?done k" "\<forall>j<k. \<not> ?done j" by (auto simp: find_Some_iff)
    then obtain r where r: "?at k = Done r" by (auto split: attempt.splits)
    have "\<forall>i<k. \<exists>err. ?at i = Retry err" using k(3) by (auto split: attempt.splits) (metis attempt.exhaust)
    then show ?thesis using doLoop_done [OF assms(1,2) k(1) _ r] Some r by (simp add: firstDecisive_def)
  qed
qed


text \<open>A cloud whose first answer is lost; the world counts the exchanges and keeps the requests.\<close>

definition zeroError :: ErrorResponse where
  "zeroError = \<lparr>er_Code = 0, er_Message = []\<rparr>"

definition lossyEnv :: "(nat \<times> httpRequest list) cloudEnv" where
  "lossyEnv =
     \<lparr>ce_newRequest = (\<lambda>m u. True),
      ce_http = (\<lambda>req (n, log). (if n = 0 then Inl (Errorf ''connection reset'' []) else Inr \<lparr>hs_StatusCode = 200, hs_Body = []\<rparr>,
                                  n + 1, log @ [req])),
      ce_readBody = (\<lambda>resp w. (Inr (hs_Body resp), w)), ce_ctxErr = (\<lambda>w. False), ce_backoff = (\<lambda>d w. (False, w)),
      ce_marshal = (\<lambda>b. Inr ''{}''), ce_errorBody = (\<lambda>s. zeroError),
      de_SandboxCreateResponse = (\<lambda>s. Some zeroSandboxCreateResponse), de_SandboxInfo = (\<lambda>s. Some zeroSandboxInfo),
      de_SandboxInfos = (\<lambda>s. Some []), de_CodeExecResult = (\<lambda>s. Some zeroCodeExecResult),
      de_CommandResult = (\<lambda>s. Some zeroCommandResult), de_FileListResponse = (\<lambda>s. None), de_ProcessInfos = (\<lambda>s. Some []),
      de_PortsResponse = (\<lambda>s. None), de_PortURLResponse = (\<lambda>s. None), de_SnapshotInfo = (\<lambda>s. None),
      de_SnapshotInfos = (\<lambda>s. Some []), de_AccessTokenResponse = (\<lambda>s. None), de_SandboxLogsResponse = (\<lambda>s. None),
      de_TagInfo = (\<lambda>s. None), de_TagInfos = (\<lambda>s. Some []), de_TemplateInfo = (\<lambda>s. None), de_TemplateInfos = (\<lambda>s. Some []),
      de_TemplateBuildResponse = (\<lambda>s. None), de_BuildStatusResponse = (\<lambda>s. None), de_WarmPoolInfo = (\<lambda>s. None),
      de_WarmPoolInfos = (\<lambda>s. Some [])\<rparr>"

definition demo_client :: cloudClient where
  "demo_client = NewClient \<lparr>clc_Endpoint = [], clc_APIKey = ''k'', clc_Timeout = 0, clc_MaxRetries = 0\<rparr>"

definition demo_code :: CodeExecRequest where
  "demo_code = \<lparr>dce_Code = ''x'', dce_Language = [], dce_EnvVars = []\<rparr>"

abbreviation "demo_code_request \<equiv> buildRequest demo_client MethodPost ''/sandboxes/s1/code'' (Some ''{}'')"

lemma lossy_decisive:
  "firstDecisive lossyEnv (Some (de_CodeExecResult lossyEnv)) zeroCodeExecResult demo_code_request 4 (0, []) =
     (Inr zeroCodeExecResult, 2, [demo_code_request, demo_code_request])"
  by (simp add: firstDecisive_def attemptOf_def handleResponse_def waitFor_def upt_rec numeral_2_eq_2 lossyEnv_def)


section \<open>What the client does not do\<close>

text \<open>A request that is not idempotent is repeated like any other: when the answer to an execution is
  lost, the program runs again.\<close>

lemma cloud_post_is_repeated:
  "Client_ExecuteCode lossyEnv demo_client ''s1'' demo_code (0, []) =
     (Inr zeroCodeExecResult, 2, [demo_code_request, demo_code_request])"
proof -
  have cfg: "cc_maxRetries demo_client = 3" by (simp add: demo_client_def NewClient_def)
  have "neverCanceled lossyEnv" "ce_newRequest lossyEnv m u" "ce_marshal lossyEnv b = Inr ''{}''" for m u b
    by (simp_all add: neverCanceled_def lossyEnv_def)
  then show ?thesis
    using doLoop_firstDecisive [of lossyEnv demo_code_request demo_client "Some (de_CodeExecResult lossyEnv)" zeroCodeExecResult "(0, [])"]
      lossy_decisive
    by (simp add: Client_ExecuteCode_def client_do_def cfg)
qed

text \<open>The path of a file is put into the query as it is: a path with an ampersand is cut there.\<close>

lemma cloud_path_unescaped:
  "Client_ReadFile env c ''s1'' ''/a&b=c'' = client_doRaw env c MethodGet ''/sandboxes/s1/files?path=/a&b=c'' None []"
  by (simp add: Client_ReadFile_def)

end
