(* ===== verification/Cloud_Adapter.thy ===== *)
theory Cloud_Adapter
  imports Cloud_Client Paging Backend_Factories WS_Exec Token_Bucket
begin

text \<open>
  The E2B cloud adapter (\<open>internal/adapter/e2bcloud/adapter.go\<close>): the translation between the adapter
  contract and the wire types, the registration of sandboxes, the client-side pagination and
  the synchronous fall-back of a streamed execution (the stream itself is in \<open>Cloud_Stream\<close>).
\<close>

record cloudAdapter =
  ca_client :: cloudClient
  ca_name :: string
  ca_registry :: "SandboxBackendMap option"

definition Cloud_NewAdapter :: "BackendConfig \<Rightarrow> SandboxBackendMap option \<Rightarrow> cloudAdapter" where
  "Cloud_NewAdapter cfg registry =
     (let endpoint = (case gm_get (b_Config cfg) ''endpoint'' of Some (AString s) \<Rightarrow> s | _ \<Rightarrow> []);
          apiKey = StringVal (b_Config cfg) [''apiKey'', ''apikey''];
          endpoint = (if endpoint = [] then ''https://api.e2b.dev'' else endpoint)
      in \<lparr>ca_client = NewClient \<lparr>clc_Endpoint = endpoint, clc_APIKey = apiKey, clc_Timeout = 0, clc_MaxRetries = 0\<rparr>,
          ca_name = b_Name cfg, ca_registry = registry\<rparr>)"

definition Cloud_NewAdapterWithClient :: "string \<Rightarrow> cloudClient \<Rightarrow> SandboxBackendMap option \<Rightarrow> cloudAdapter" where
  "Cloud_NewAdapterWithClient name client registry = \<lparr>ca_client = client, ca_name = name, ca_registry = registry\<rparr>"

section \<open>Translation\<close>

definition dtoToSandbox :: "SandboxInfo \<Rightarrow> string \<Rightarrow> Sandbox" where
  "dtoToSandbox info backend =
     (let state = si_State info;
          status = (if state = ''running'' then SandboxStatusRunning
                    else if state = ''paused'' \<or> state = ''pausing'' then SandboxStatusPaused
                    else if state = ''stopped'' then SandboxStatusStopped
                    else if state = ''error'' then SandboxStatusError
                    else SandboxStatusRunning)
      in \<lparr>sb_SandboxID = si_SandboxID info, sb_TemplateID = si_TemplateID info, sb_Alias = si_Alias info,
          sb_StartedAt = si_StartedAt info, sb_EndAt = si_EndAt info, sb_Status = status, sb_Metadata = si_Metadata info,
          sb_ClientID = si_ClientID info, sb_Backend = backend\<rparr>)"

definition dtoToTemplate :: "TemplateInfo \<Rightarrow> Template" where
  "dtoToTemplate info =
     \<lparr>t_TemplateID = ti_TemplateID info, t_Name = (case ti_Aliases info of [] \<Rightarrow> ti_TemplateID info | al # _ \<Rightarrow> al),
      t_Description = [], t_CPUCount = ti_CPUCount info, t_MemoryMB = ti_MemoryMB info, t_Public = ti_Public info,
      t_BuildID = ti_BuildID info, t_Metadata = [], t_CreatedAt = ti_CreatedAt info\<rparr>"

definition warmPoolOf :: "WarmPoolInfo \<Rightarrow> WarmPool" where
  "warmPoolOf info =
     \<lparr>wp_WarmPoolID = wpi_WarmPoolID info, wp_TemplateID = wpi_TemplateID info, wp_TargetSize = wpi_TargetSize info,
      wp_CurrentSize = wpi_CurrentSize info, wp_Status = wpi_Status info, wp_CreatedAt = wpi_CreatedAt info\<rparr>"

definition processInfoOf :: "dto_ProcessInfo \<Rightarrow> ProcessInfo" where
  "processInfoOf info =
     \<lparr>pi_ProcessID = dpi_ProcessID info, pi_Command = dpi_Command info, pi_PID = dpi_PID info, pi_Status = dpi_Status info,
      pi_StartedAt = dpi_StartedAt info\<rparr>"

definition snapshotOf :: "SnapshotInfo \<Rightarrow> Snapshot" where
  "snapshotOf info =
     \<lparr>sn_SnapshotID = sni_SnapshotID info, sn_SandboxID = sni_SandboxID info, sn_Name = sni_Name info,
      sn_Description = sni_Description info, sn_CreatedAt = sni_CreatedAt info, sn_SizeMB = sni_SizeMB info\<rparr>"

definition logEntryOf :: "dto_LogEntry \<Rightarrow> LogEntry" where
  "logEntryOf l =
     \<lparr>le_Timestamp = dle_Timestamp l, le_Message = dle_Message l, le_Level = dle_Level l, le_Source = dle_Source l\<rparr>"

definition tagOf :: "string \<Rightarrow> TagInfo \<Rightarrow> Tag" where
  "tagOf templateID t =
     \<lparr>tag_Name = tgi_Name t, tag_TemplateID = templateID, tag_BuildID = tgi_BuildID t, tag_CreatedAt = tgi_CreatedAt t\<rparr>"

section \<open>Lifecycle\<close>

definition Cloud_HealthCheck :: "'w cloudEnv \<Rightarrow> cloudAdapter \<Rightarrow> 'w \<Rightarrow> go_error option \<times> 'w" where
  "Cloud_HealthCheck env a w =
     (case Client_ListSandboxes env (ca_client a) w of (Inl err, w) \<Rightarrow> (Some err, w) | (Inr _, w) \<Rightarrow> (None, w))"

definition cloudRegister :: "string \<Rightarrow> cloudAdapter \<Rightarrow> cloudAdapter" where
  "cloudRegister sandboxID a =
     a\<lparr>ca_registry := map_option (\<lambda>m. SandboxBackendMap_Set m sandboxID (ca_name a)) (ca_registry a)\<rparr>"

text \<open>What is known of a sandbox when its details cannot be fetched.\<close>

definition partialSandbox :: "string \<Rightarrow> SandboxCreateResponse \<Rightarrow> string \<Rightarrow> Sandbox" where
  "partialSandbox alias resp backend =
     \<lparr>sb_SandboxID = dcs_SandboxID resp, sb_TemplateID = dcs_TemplateID resp, sb_Alias = alias, sb_StartedAt = zeroTime,
      sb_EndAt = zeroTime, sb_Status = SandboxStatusStarting, sb_Metadata = [], sb_ClientID = [], sb_Backend = backend\<rparr>"

definition createRequestOf :: "CreateSandboxRequest \<Rightarrow> SandboxCreateRequest" where
  "createRequestOf req =
     \<lparr>dcr_TemplateID = csr_TemplateID req, dcr_Alias = csr_Alias req, dcr_Timeout = csr_Timeout req, dcr_MemoryMB = 0,
      dcr_CPUCount = 0, dcr_DiskSizeMB = 0, dcr_StartCmd = [], dcr_EnvVars = csr_Envs req, dcr_Metadata = csr_Metadata req,
      dcr_Secure = False, dcr_VolumeMounts = []\<rparr>"

definition Cloud_CreateSandbox ::
  "'w cloudEnv \<Rightarrow> CreateSandboxRequest \<Rightarrow> cloudAdapter \<times> 'w \<Rightarrow> Sandbox go_res \<times> cloudAdapter \<times> 'w" where
  "Cloud_CreateSandbox env req st =
     (case st of (a, w) \<Rightarrow>
        (case Client_CreateSandbox env (ca_client a) (createRequestOf req) w of
           (Inl err, w) \<Rightarrow> (Inl err, a, w)
         | (Inr resp, w) \<Rightarrow>
             (case Client_GetSandbox env (ca_client a) (dcs_SandboxID resp) w of
                (Inl err, w) \<Rightarrow>
                  (Inr (partialSandbox (dcs_Alias resp) resp (ca_name a)), cloudRegister (dcs_SandboxID resp) a, w)
              | (Inr info, w) \<Rightarrow>
                  (let sbx = dtoToSandbox info (ca_name a) in (Inr sbx, cloudRegister (sb_SandboxID sbx) a, w)))))"

definition Cloud_ListSandboxes ::
  "'w cloudEnv \<Rightarrow> cloudAdapter \<Rightarrow> ListOptions \<Rightarrow> 'w \<Rightarrow> ((Sandbox list) go_res \<times> 'w) option" where
  "Cloud_ListSandboxes env a opts w =
     (case Client_ListSandboxes env (ca_client a) w of
        (Inl err, w) \<Rightarrow> Some (Inl err, w)
      | (Inr infos, w) \<Rightarrow> map_option (\<lambda>page. (Inr page, w)) (pageOf opts (map (\<lambda>info. dtoToSandbox info (ca_name a)) infos)))"

definition Cloud_GetSandbox :: "'w cloudEnv \<Rightarrow> cloudAdapter \<Rightarrow> string \<Rightarrow> 'w \<Rightarrow> Sandbox go_res \<times> 'w" where
  "Cloud_GetSandbox env a sandboxID w =
     apfst (map_sum id (\<lambda>info. dtoToSandbox info (ca_name a))) (Client_GetSandbox env (ca_client a) sandboxID w)"

definition Cloud_KillSandbox ::
  "'w cloudEnv \<Rightarrow> string \<Rightarrow> cloudAdapter \<times> 'w \<Rightarrow> go_error option \<times> cloudAdapter \<times> 'w" where
  "Cloud_KillSandbox env sandboxID st =
     (case st of (a, w) \<Rightarrow>
        (case Client_KillSandbox env (ca_client a) sandboxID w of
           (Some err, w) \<Rightarrow> (Some err, a, w)
         | (None, w) \<Rightarrow>
             (None, a\<lparr>ca_registry := map_option (\<lambda>m. SandboxBackendMap_Delete m sandboxID) (ca_registry a)\<rparr>, w)))"

definition Cloud_PauseSandbox :: "'w cloudEnv \<Rightarrow> cloudAdapter \<Rightarrow> string \<Rightarrow> 'w \<Rightarrow> go_error option \<times> 'w" where
  "Cloud_PauseSandbox env a sandboxID = Client_PauseSandbox env (ca_client a) sandboxID"

definition Cloud_ResumeSandbox :: "'w cloudEnv \<Rightarrow> cloudAdapter \<Rightarrow> string \<Rightarrow> 'w \<Rightarrow> Sandbox go_res \<times> 'w" where
  "Cloud_ResumeSandbox env a sandboxID w =
     (case Client_ResumeSandbox env (ca_client a) sandboxID \<lparr>srr_Timeout = 0\<rparr> w of
        (Inl err, w) \<Rightarrow> (Inl err, w)
      | (Inr resp, w) \<Rightarrow>
          (case Client_GetSandbox env (ca_client a) (dcs_SandboxID resp) w of
             (Inl err, w) \<Rightarrow> (Inr (partialSandbox [] resp (ca_name a)), w)
           | (Inr info, w) \<Rightarrow> (Inr (dtoToSandbox info (ca_name a)), w)))"

text \<open>The seconds of a duration, as \<open>int(timeout.Seconds())\<close>: the whole seconds of the float64 value.\<close>

definition wholeSeconds :: "duration \<Rightarrow> int" where
  "wholeSeconds d = truncRat (Duration_Seconds d)"

definition Cloud_SetTimeout :: "'w cloudEnv \<Rightarrow> cloudAdapter \<Rightarrow> string \<Rightarrow> duration \<Rightarrow> 'w \<Rightarrow> go_error option \<times> 'w" where
  "Cloud_SetTimeout env a sandboxID timeout =
     Client_SetTimeout env (ca_client a) sandboxID \<lparr>str_Timeout = wholeSeconds timeout\<rparr>"

section \<open>Execution\<close>

definition Cloud_ExecuteCode ::
  "'w cloudEnv \<Rightarrow> cloudAdapter \<Rightarrow> string \<Rightarrow> CodeExecutionRequest \<Rightarrow> 'w \<Rightarrow> CodeExecutionResult go_res \<times> 'w" where
  "Cloud_ExecuteCode env a sandboxID req w =
     apfst (map_sum id (\<lambda>resp. \<lparr>cx_Stdout = dcx_Stdout resp, cx_Stderr = dcx_Stderr resp, cx_ExitCode = dcx_ExitCode resp,
                                cx_Duration = 0, cx_Error = dcx_Error resp\<rparr>))
       (Client_ExecuteCode env (ca_client a) sandboxID
          \<lparr>dce_Code = cer_Code req, dce_Language = cer_Language req, dce_EnvVars = cer_EnvVars req\<rparr> w)"

text \<open>\<open>streamFromSync\<close>, on a stream whose state is \<open>'h\<close>, given by its \<open>Send\<close> and \<open>Close\<close>.  The stream is closed
  on every return.\<close>

definition streamFromSync ::
  "(go_error \<Rightarrow> string) \<Rightarrow> 'w cloudEnv \<Rightarrow> (streamMessage \<Rightarrow> 'h \<Rightarrow> go_error option \<times> 'h) \<Rightarrow> ('h \<Rightarrow> 'h) \<Rightarrow> cloudAdapter \<Rightarrow> string \<Rightarrow>
   CodeExecutionRequest \<Rightarrow> 'h \<times> 'w \<Rightarrow> go_error option \<times> 'h \<times> 'w" where
  "streamFromSync errStr env send close a sandboxID req st =
     (case st of (h, w) \<Rightarrow>
        (case Cloud_ExecuteCode env a sandboxID req w of
           (Inl err, w) \<Rightarrow>
             (Some err, close (snd (send \<lparr>ms_Type = ''error'', ms_Data = AString (errStr err)\<rparr> h)), w)
         | (Inr res, w) \<Rightarrow>
             (let h = (if cx_Stdout res \<noteq> [] then snd (send \<lparr>ms_Type = ''stdout'', ms_Data = AString (cx_Stdout res)\<rparr> h) else h);
                  h = (if cx_Stderr res \<noteq> [] then snd (send \<lparr>ms_Type = ''stderr'', ms_Data = AString (cx_Stderr res)\<rparr> h) else h)
              in case send \<lparr>ms_Type = ''result'', ms_Data = AMap [(''exitCode'', AInt (cx_ExitCode res))]\<rparr> h of
                   (e, h) \<Rightarrow> (e, close h, w))))"

text \<open>\<open>canceled\<close> says whether the error is the end of the context (\<open>errors.Is\<close>).\<close>

definition isWebSocketNotAvailable :: "(go_error \<Rightarrow> bool) \<Rightarrow> (go_error \<Rightarrow> string) \<Rightarrow> go_error option \<Rightarrow> bool" where
  "isWebSocketNotAvailable canceled errStr err =
     (case err of
        None \<Rightarrow> False
      | Some e \<Rightarrow>
          \<not> canceled e \<and>
          (let msg = errStr e
           in Contains msg ''dial'' \<or> Contains msg ''connection refused'' \<or> Contains msg ''no such host'' \<or>
              Contains msg ''websocket: bad handshake''))"

definition Cloud_RunCommand ::
  "'w cloudEnv \<Rightarrow> cloudAdapter \<Rightarrow> string \<Rightarrow> CommandRequest \<Rightarrow> 'w \<Rightarrow> CommandResult go_res \<times> 'w" where
  "Cloud_RunCommand env a sandboxID req w =
     apfst (map_sum id (\<lambda>resp. \<lparr>cr_Stdout = dcm_Stdout resp, cr_Stderr = dcm_Stderr resp, cr_ExitCode = dcm_ExitCode resp,
                                cr_Error = []\<rparr>))
       (Client_RunCommand env (ca_client a) sandboxID
          \<lparr>dcq_Command = cmd_Command req, dcq_Cwd = cmd_Cwd req, dcq_EnvVars = cmd_EnvVars req, dcq_Timeout = 0\<rparr> w)"

section \<open>Files\<close>

definition Cloud_WriteFile :: "'w cloudEnv \<Rightarrow> cloudAdapter \<Rightarrow> string \<Rightarrow> FileWriteRequest \<Rightarrow> 'w \<Rightarrow> go_error option \<times> 'w" where
  "Cloud_WriteFile env a sandboxID req =
     Client_WriteFile env (ca_client a) sandboxID \<lparr>dfw_Path = fw_Path req, dfw_Content = fw_Content req, dfw_Permissions = []\<rparr>"

definition Cloud_ReadFile :: "'w cloudEnv \<Rightarrow> cloudAdapter \<Rightarrow> string \<Rightarrow> string \<Rightarrow> 'w \<Rightarrow> FileContent go_res \<times> 'w" where
  "Cloud_ReadFile env a sandboxID path w =
     apfst (map_sum id (\<lambda>data. \<lparr>fc_Path = path, fc_Content = data, fc_Size = int (length data)\<rparr>))
       (Client_ReadFile env (ca_client a) sandboxID path w)"

definition Cloud_UploadFile :: "'w cloudEnv \<Rightarrow> cloudAdapter \<Rightarrow> string \<Rightarrow> FileUploadRequest \<Rightarrow> 'w \<Rightarrow> go_error option \<times> 'w" where
  "Cloud_UploadFile env a sandboxID req = Client_UploadFile env (ca_client a) sandboxID (fu_Path req) (fu_Reader req)"

definition Cloud_DownloadFile :: "'w cloudEnv \<Rightarrow> cloudAdapter \<Rightarrow> string \<Rightarrow> string \<Rightarrow> 'w \<Rightarrow> reader go_res \<times> 'w" where
  "Cloud_DownloadFile env a sandboxID path w =
     apfst (map_sum id (\<lambda>data. (data, None))) (Client_DownloadFile env (ca_client a) sandboxID path w)"

definition Cloud_ListFiles :: "'w cloudEnv \<Rightarrow> cloudAdapter \<Rightarrow> string \<Rightarrow> string \<Rightarrow> 'w \<Rightarrow> (FileInfo list) go_res \<times> 'w" where
  "Cloud_ListFiles env a sandboxID path w =
     apfst (map_sum id (\<lambda>resp. map (\<lambda>e. \<lparr>fi_Name = fe_Name e, fi_Path = path @ ''/'' @ fe_Name e, fi_Size = fe_Size e,
                                         fi_IsDir = (fe_Type e = ''dir''), fi_ModTime = fe_LastModified e\<rparr>) (fls_Entries resp)))
       (Client_ListFiles env (ca_client a) sandboxID \<lparr>flq_Path = path\<rparr> w)"

definition Cloud_MakeDir :: "'w cloudEnv \<Rightarrow> cloudAdapter \<Rightarrow> string \<Rightarrow> string \<Rightarrow> 'w \<Rightarrow> go_error option \<times> 'w" where
  "Cloud_MakeDir env a sandboxID path = Client_MakeDir env (ca_client a) sandboxID \<lparr>mkd_Path = path\<rparr>"

definition Cloud_RemoveFile :: "'w cloudEnv \<Rightarrow> cloudAdapter \<Rightarrow> string \<Rightarrow> string \<Rightarrow> 'w \<Rightarrow> go_error option \<times> 'w" where
  "Cloud_RemoveFile env a sandboxID path = Client_RemoveFile env (ca_client a) sandboxID \<lparr>frm_Path = path\<rparr>"

definition Cloud_MoveFile :: "'w cloudEnv \<Rightarrow> cloudAdapter \<Rightarrow> string \<Rightarrow> string \<Rightarrow> string \<Rightarrow> 'w \<Rightarrow> go_error option \<times> 'w" where
  "Cloud_MoveFile env a sandboxID src dst = Client_MoveFile env (ca_client a) sandboxID src dst"

section \<open>Templates\<close>

definition Cloud_ListTemplates ::
  "'w cloudEnv \<Rightarrow> cloudAdapter \<Rightarrow> ListOptions \<Rightarrow> 'w \<Rightarrow> ((Template list) go_res \<times> 'w) option" where
  "Cloud_ListTemplates env a opts w =
     (case Client_ListTemplates env (ca_client a) w of
        (Inl err, w) \<Rightarrow> Some (Inl err, w)
      | (Inr infos, w) \<Rightarrow> map_option (\<lambda>page. (Inr page, w)) (pageOf opts (map dtoToTemplate infos)))"

definition Cloud_GetTemplate :: "'w cloudEnv \<Rightarrow> cloudAdapter \<Rightarrow> string \<Rightarrow> 'w \<Rightarrow> Template go_res \<times> 'w" where
  "Cloud_GetTemplate env a templateID w =
     apfst (map_sum id dtoToTemplate) (Client_GetTemplate env (ca_client a) templateID w)"

definition Cloud_CreateTemplate ::
  "'w cloudEnv \<Rightarrow> cloudAdapter \<Rightarrow> CreateTemplateRequest \<Rightarrow> 'w \<Rightarrow> TemplateBuild go_res \<times> 'w" where
  "Cloud_CreateTemplate env a req w =
     apfst (map_sum id (\<lambda>resp. \<lparr>tb_TemplateID = tbs_TemplateID resp, tb_BuildID = tbs_BuildID resp, tb_Status = tbs_Status resp\<rparr>))
       (Client_CreateTemplate env (ca_client a)
          \<lparr>tbq_Name = ctr_Name req, tbq_Dockerfile = ctr_Dockerfile req, tbq_StartCmd = ctr_StartCmd req,
           tbq_CPUCount = ctr_CPUCount req, tbq_MemoryMB = ctr_MemoryMB req, tbq_Steps = []\<rparr> w)"

definition Cloud_DeleteTemplate :: "'w cloudEnv \<Rightarrow> cloudAdapter \<Rightarrow> string \<Rightarrow> 'w \<Rightarrow> go_error option \<times> 'w" where
  "Cloud_DeleteTemplate env a templateID = Client_DeleteTemplate env (ca_client a) templateID"

definition Cloud_TriggerBuild ::
  "'w cloudEnv \<Rightarrow> cloudAdapter \<Rightarrow> string \<Rightarrow> BuildRequest \<Rightarrow> 'w \<Rightarrow> TemplateBuild go_res \<times> 'w" where
  "Cloud_TriggerBuild env a templateID req w =
     apfst (map_sum id (\<lambda>resp. \<lparr>tb_TemplateID = templateID, tb_BuildID = tbs_BuildID resp, tb_Status = tbs_Status resp\<rparr>))
       (Client_CreateTemplate env (ca_client a)
          \<lparr>tbq_Name = [], tbq_Dockerfile = br_Dockerfile req, tbq_StartCmd = br_StartCmd req,
           tbq_CPUCount = 0, tbq_MemoryMB = 0, tbq_Steps = []\<rparr> w)"

definition Cloud_GetBuildStatus ::
  "'w cloudEnv \<Rightarrow> cloudAdapter \<Rightarrow> string \<Rightarrow> string \<Rightarrow> 'w \<Rightarrow> BuildStatus go_res \<times> 'w" where
  "Cloud_GetBuildStatus env a templateID buildID w =
     apfst (map_sum id (\<lambda>resp. \<lparr>bs_BuildID = bsr_BuildID resp, bs_Status = bsr_Status resp, bs_Logs = bsr_Logs resp, bs_Error = bsr_Error resp\<rparr>))
       (Client_GetBuildStatus env (ca_client a) templateID buildID w)"

definition Cloud_CreateAlias :: "'w cloudEnv \<Rightarrow> cloudAdapter \<Rightarrow> string \<Rightarrow> string \<Rightarrow> 'w \<Rightarrow> go_error option \<times> 'w" where
  "Cloud_CreateAlias env a templateID alias = Client_CreateAlias env (ca_client a) templateID \<lparr>alr_Alias = alias\<rparr>"

definition Cloud_DeleteAlias :: "'w cloudEnv \<Rightarrow> cloudAdapter \<Rightarrow> string \<Rightarrow> string \<Rightarrow> 'w \<Rightarrow> go_error option \<times> 'w" where
  "Cloud_DeleteAlias env a templateID alias = Client_DeleteAlias env (ca_client a) templateID alias"

definition Cloud_CreateTag :: "'w cloudEnv \<Rightarrow> cloudAdapter \<Rightarrow> string \<Rightarrow> TagRequest \<Rightarrow> 'w \<Rightarrow> Tag go_res \<times> 'w" where
  "Cloud_CreateTag env a templateID req w =
     apfst (map_sum id (tagOf templateID))
       (Client_CreateTag env (ca_client a) templateID \<lparr>ctg_Name = tr_Name req, ctg_BuildID = tr_BuildID req\<rparr> w)"

definition Cloud_ListTags :: "'w cloudEnv \<Rightarrow> cloudAdapter \<Rightarrow> string \<Rightarrow> 'w \<Rightarrow> (Tag list) go_res \<times> 'w" where
  "Cloud_ListTags env a templateID w =
     apfst (map_sum id (map (tagOf templateID))) (Client_ListTags env (ca_client a) templateID w)"

definition Cloud_DeleteTag :: "'w cloudEnv \<Rightarrow> cloudAdapter \<Rightarrow> string \<Rightarrow> string \<Rightarrow> 'w \<Rightarrow> go_error option \<times> 'w" where
  "Cloud_DeleteTag env a templateID tagName = Client_DeleteTag env (ca_client a) templateID tagName"

section \<open>Warm pools\<close>

definition Cloud_ListWarmPools :: "'w cloudEnv \<Rightarrow> cloudAdapter \<Rightarrow> 'w \<Rightarrow> (WarmPool list) go_res \<times> 'w" where
  "Cloud_ListWarmPools env a w = apfst (map_sum id (map warmPoolOf)) (Client_ListWarmPools env (ca_client a) w)"

definition Cloud_CreateWarmPool ::
  "'w cloudEnv \<Rightarrow> cloudAdapter \<Rightarrow> WarmPoolCreateRequest \<Rightarrow> 'w \<Rightarrow> WarmPool go_res \<times> 'w" where
  "Cloud_CreateWarmPool env a req w =
     apfst (map_sum id warmPoolOf)
       (Client_CreateWarmPool env (ca_client a)
          \<lparr>dwp_TemplateID = wpr_TemplateID req, dwp_TargetSize = wpr_TargetSize req, dwp_WarmPoolID = wpr_WarmPoolID req\<rparr> w)"

definition Cloud_GetWarmPool :: "'w cloudEnv \<Rightarrow> cloudAdapter \<Rightarrow> string \<Rightarrow> 'w \<Rightarrow> WarmPool go_res \<times> 'w" where
  "Cloud_GetWarmPool env a warmPoolID w =
     (case Client_ListWarmPools env (ca_client a) w of
        (Inl err, w) \<Rightarrow> (Inl err, w)
      | (Inr pools, w) \<Rightarrow>
          (case find (\<lambda>p. wpi_WarmPoolID p = warmPoolID) pools of
             Some p \<Rightarrow> (Inr (warmPoolOf p), w)
           | None \<Rightarrow> (Inl (Errorf ''warm pool %q not found'' [warmPoolID]), w)))"

definition Cloud_DeleteWarmPool :: "'w cloudEnv \<Rightarrow> cloudAdapter \<Rightarrow> string \<Rightarrow> 'w \<Rightarrow> go_error option \<times> 'w" where
  "Cloud_DeleteWarmPool env a warmPoolID = Client_DeleteWarmPool env (ca_client a) warmPoolID"

definition Cloud_UpdateWarmPoolSize :: "'w cloudEnv \<Rightarrow> cloudAdapter \<Rightarrow> string \<Rightarrow> int \<Rightarrow> 'w \<Rightarrow> go_error option \<times> 'w" where
  "Cloud_UpdateWarmPoolSize env a warmPoolID targetSize =
     Client_UpdateWarmPoolSize env (ca_client a) warmPoolID \<lparr>wps_TargetSize = targetSize\<rparr>"

section \<open>Processes, snapshots, ports, environment, logs, tokens\<close>

definition Cloud_ListProcesses :: "'w cloudEnv \<Rightarrow> cloudAdapter \<Rightarrow> string \<Rightarrow> 'w \<Rightarrow> (ProcessInfo list) go_res \<times> 'w" where
  "Cloud_ListProcesses env a sandboxID w =
     apfst (map_sum id (map processInfoOf)) (Client_ListProcesses env (ca_client a) sandboxID w)"

definition Cloud_KillProcess :: "'w cloudEnv \<Rightarrow> cloudAdapter \<Rightarrow> string \<Rightarrow> string \<Rightarrow> 'w \<Rightarrow> go_error option \<times> 'w" where
  "Cloud_KillProcess env a sandboxID processID = Client_KillProcess env (ca_client a) sandboxID processID"

definition Cloud_SendStdin :: "'w cloudEnv \<Rightarrow> cloudAdapter \<Rightarrow> string \<Rightarrow> string \<Rightarrow> string \<Rightarrow> 'w \<Rightarrow> go_error option \<times> 'w" where
  "Cloud_SendStdin env a sandboxID processID data =
     Client_SendStdin env (ca_client a) sandboxID processID \<lparr>ssr_Data = data\<rparr>"

definition Cloud_CreateSnapshot ::
  "'w cloudEnv \<Rightarrow> cloudAdapter \<Rightarrow> string \<Rightarrow> SnapshotRequest \<Rightarrow> 'w \<Rightarrow> Snapshot go_res \<times> 'w" where
  "Cloud_CreateSnapshot env a sandboxID req w =
     apfst (map_sum id snapshotOf)
       (Client_CreateSnapshot env (ca_client a) sandboxID \<lparr>snc_Name = sr_Name req, snc_Description = sr_Description req\<rparr> w)"

definition Cloud_ListSnapshots :: "'w cloudEnv \<Rightarrow> cloudAdapter \<Rightarrow> string \<Rightarrow> 'w \<Rightarrow> (Snapshot list) go_res \<times> 'w" where
  "Cloud_ListSnapshots env a sandboxID w =
     apfst (map_sum id (map snapshotOf)) (Client_ListSnapshots env (ca_client a) sandboxID w)"

definition Cloud_ListPorts :: "'w cloudEnv \<Rightarrow> cloudAdapter \<Rightarrow> string \<Rightarrow> 'w \<Rightarrow> (PortInfo list) go_res \<times> 'w" where
  "Cloud_ListPorts env a sandboxID w =
     apfst (map_sum id (\<lambda>resp. map (\<lambda>p. \<lparr>po_Port = dpo_Port p, po_Ready = dpo_Ready p\<rparr>) (prs_Ports resp)))
       (Client_ListPorts env (ca_client a) sandboxID w)"

definition Cloud_GetPortURL :: "'w cloudEnv \<Rightarrow> cloudAdapter \<Rightarrow> string \<Rightarrow> int \<Rightarrow> 'w \<Rightarrow> string go_res \<times> 'w" where
  "Cloud_GetPortURL env a sandboxID port w =
     apfst (map_sum id pur_URL) (Client_GetPortURL env (ca_client a) sandboxID port w)"

definition Cloud_SetEnvs :: "'w cloudEnv \<Rightarrow> cloudAdapter \<Rightarrow> string \<Rightarrow> strmap \<Rightarrow> 'w \<Rightarrow> go_error option \<times> 'w" where
  "Cloud_SetEnvs env a sandboxID envs = Client_SetEnvs env (ca_client a) sandboxID envs"

definition Cloud_GetLogs :: "'w cloudEnv \<Rightarrow> cloudAdapter \<Rightarrow> string \<Rightarrow> 'w \<Rightarrow> (LogEntry list) go_res \<times> 'w" where
  "Cloud_GetLogs env a sandboxID w =
     apfst (map_sum id (map logEntryOf)) (Client_GetLogs env (ca_client a) sandboxID w)"

definition Cloud_GetEnvdEndpoint :: "string \<Rightarrow> (string \<times> string) go_res" where
  "Cloud_GetEnvdEndpoint sandboxID = Inl (Errorf ''e2b-cloud adapter: SDK connects to envd directly via sandboxDomain'' [])"

definition Cloud_GetAccessToken :: "'w cloudEnv \<Rightarrow> cloudAdapter \<Rightarrow> string \<Rightarrow> 'w \<Rightarrow> AccessToken go_res \<times> 'w" where
  "Cloud_GetAccessToken env a sandboxID w =
     apfst (map_sum id (\<lambda>resp. \<lparr>at_Token = atr_AccessToken resp, at_ExpiresAt = atr_ExpiresAt resp\<rparr>))
       (Client_GetAccessToken env (ca_client a) sandboxID w)"

definition Cloud_ValidateAccessToken :: "string \<Rightarrow> string \<Rightarrow> bool go_res" where
  "Cloud_ValidateAccessToken sandboxID token = Inr True"

section \<open>Properties\<close>

lemma cloudRegister_Get:
  "ca_registry (cloudRegister i a) = Some m \<Longrightarrow> SandboxBackendMap_Get m i = Some (ca_name a)"
  by (auto simp: cloudRegister_def SandboxBackendMap_Get_def SandboxBackendMap_Set_def)

lemma sandbox_fields [simp]:
  "sb_SandboxID (partialSandbox al resp b) = dcs_SandboxID resp" "sb_Backend (partialSandbox al resp b) = b"
  "sb_SandboxID (dtoToSandbox info b) = si_SandboxID info" "sb_Backend (dtoToSandbox info b) = b"
  by (simp_all add: partialSandbox_def dtoToSandbox_def Let_def)

text \<open>A sandbox created in the cloud is found again. Whatever the cloud answers to the request for its
  details, a sandbox that was created is returned with this backend's name and is registered
  under it; an error means that the creation itself failed, and then nothing is registered.\<close>

lemma cloud_create_registers:
  assumes "Cloud_CreateSandbox env req (a, w) = (res, a', w')"
  shows "(case res of
            Inl err \<Rightarrow> a' = a \<and> fst (Client_CreateSandbox env (ca_client a) (createRequestOf req) w) = Inl err
          | Inr sb \<Rightarrow> a' = cloudRegister (sb_SandboxID sb) a \<and> sb_Backend sb = ca_name a)"
  using assms
  by (auto simp: Cloud_CreateSandbox_def split: prod.splits sum.splits)

definition demo_cloud :: cloudAdapter where
  "demo_cloud = \<lparr>ca_client = demo_client, ca_name = ''cloud'', ca_registry = Some []\<rparr>"

definition demo_cloud_request :: CreateSandboxRequest where
  "demo_cloud_request = \<lparr>csr_TemplateID = ''base'', csr_Timeout = 0, csr_Alias = [], csr_Envs = [], csr_Metadata = []\<rparr>"

lemma cloud_create_registers_witness:
  "\<exists>res a' w'. Cloud_CreateSandbox lossyEnv demo_cloud_request (demo_cloud, (0, [])) = (res, a', w') \<and>
     (case res of
        Inl err \<Rightarrow> a' = demo_cloud \<and>
          fst (Client_CreateSandbox lossyEnv (ca_client demo_cloud) (createRequestOf demo_cloud_request) (0, [])) = Inl err
      | Inr sb \<Rightarrow> a' = cloudRegister (sb_SandboxID sb) demo_cloud \<and> sb_Backend sb = ca_name demo_cloud)"
proof -
  obtain res a' w' where c: "Cloud_CreateSandbox lossyEnv demo_cloud_request (demo_cloud, (0, [])) = (res, a', w')"
    by (metis prod_cases3)
  from cloud_create_registers [OF c] c show ?thesis by blast
qed

section \<open>What the adapter does not do\<close>

text \<open>A build of a template is sent as the creation of another one: the request does not name the
  template.\<close>

lemma cloud_build_ignores_template:
  "snd (Cloud_TriggerBuild env a t1 req w) = snd (Cloud_TriggerBuild env a t2 req w)"
  by (simp add: Cloud_TriggerBuild_def)

text \<open>The arguments of a command are dropped.\<close>

lemma cloud_args_dropped: "Cloud_RunCommand env a sid (req\<lparr>cmd_Args := args\<rparr>) w = Cloud_RunCommand env a sid req w"
  by (simp add: Cloud_RunCommand_def)

text \<open>A state the gateway does not know is reported as running.\<close>

lemma cloud_unknown_state_runs: "sb_Status (dtoToSandbox (info\<lparr>si_State := ''killed''\<rparr>) b) = SandboxStatusRunning"
  by (simp add: dtoToSandbox_def Let_def)

text \<open>Every token is accepted.\<close>

lemma cloud_any_token: "Cloud_ValidateAccessToken sid token = Inr True"
  by (simp add: Cloud_ValidateAccessToken_def)

end
