(* ===== verification/Cloud_Stream.thy ===== *)
theory Cloud_Stream
  imports Cloud_Adapter
begin

text \<open>
  Streaming with the E2B cloud: the code streamer (\<open>internal/adapter/e2bcloud/streamer.go\<close>) and the
  websocket proxy (\<open>internal/adapter/e2bcloud/websocket.go\<close>).

  A stream is given by its \<open>Send\<close> and \<open>Close\<close> over a state \<open>'h\<close>.  The JSON coding of frames and the
  \<open>net/url\<close> package are the record \<open>wsCodec\<close>.  What the connection delivers is the list of the outcomes of
  \<open>ReadMessage\<close>; a loop that still waits for the next one has the result None.
\<close>

section \<open>The code streamer\<close>

record envdWSFrame =
  ef_Type :: string
  ef_ID :: string
  ef_Data :: string

text \<open>
  \<open>wj_frame\<close> decodes a frame; \<open>wj_stdout\<close>, \<open>wj_result\<close> and \<open>wj_error\<close> decode its data, zero values included;
  \<open>wj_execPayload\<close> and \<open>wj_execFrame\<close> encode a request.  \<open>wj_scheme\<close> is the scheme of a URL, None if it
  does not parse; \<open>wj_url\<close> is the URL with another scheme, path and access token.
\<close>

record wsCodec =
  wj_frame :: "string \<Rightarrow> envdWSFrame option"
  wj_stdout :: "string \<Rightarrow> string"
  wj_result :: "string \<Rightarrow> int \<times> rat"
  wj_error :: "string \<Rightarrow> string \<times> string"
  wj_execPayload :: "string \<Rightarrow> string \<Rightarrow> string go_res"
  wj_execFrame :: "envdWSFrame \<Rightarrow> string go_res"
  wj_scheme :: "string \<Rightarrow> string option"
  wj_url :: "string \<Rightarrow> string \<Rightarrow> string \<Rightarrow> string \<Rightarrow> string"

definition errorMsg :: "string \<Rightarrow> string \<Rightarrow> streamMessage" where
  "errorMsg code msg = \<lparr>ms_Type = ''error'', ms_Data = AMap [(''code'', AString code), (''message'', AString msg)]\<rparr>"

definition textMsg :: "string \<Rightarrow> string \<Rightarrow> streamMessage" where
  "textMsg typ content = \<lparr>ms_Type = typ, ms_Data = AString content\<rparr>"

definition resultMsg :: "int \<Rightarrow> rat \<Rightarrow> streamMessage" where
  "resultMsg exitCode dur = \<lparr>ms_Type = ''result'', ms_Data = AMap [(''exitCode'', AInt exitCode), (''duration'', AFloat dur)]\<rparr>"

definition isAuthError :: "(go_error \<Rightarrow> string) \<Rightarrow> go_error option \<Rightarrow> bool" where
  "isAuthError errStr err =
     (case err of None \<Rightarrow> False | Some e \<Rightarrow> Contains (errStr e) ''access token'' \<or> Contains (errStr e) ''auth'')"

text \<open>None: the base URL does not parse and the method panics.\<close>

definition buildEnvdWSURL :: "wsCodec \<Rightarrow> cloudClient \<Rightarrow> string \<Rightarrow> string \<Rightarrow> string option" where
  "buildEnvdWSURL cd c sandboxID accessToken =
     map_option (\<lambda>scheme. wj_url cd (cc_baseURL c) (if scheme = ''https'' then ''wss'' else ''ws'')
                            (''/sandboxes/'' @ sandboxID @ ''/ws'') accessToken) (wj_scheme cd (cc_baseURL c))"

text \<open>\<open>dial\<close> opens the connection; \<open>now\<close> is the reading of the clock in nanoseconds.\<close>

definition streamConnect ::
  "'w cloudEnv \<Rightarrow> wsCodec \<Rightarrow> (string \<Rightarrow> 'w \<Rightarrow> go_error option \<times> 'w) \<Rightarrow> cloudClient \<Rightarrow> string \<Rightarrow> time \<Rightarrow> 'w \<Rightarrow> (string go_res \<times> 'w) option" where
  "streamConnect env cd dial c sandboxID now w =
     (case Client_GetAccessToken env c sandboxID w of
        (Inl err, w) \<Rightarrow> Some (Inl (wrapError ''getting access token: '' err), w)
      | (Inr tokenResp, w) \<Rightarrow>
          (case buildEnvdWSURL cd c sandboxID (atr_AccessToken tokenResp) of
             None \<Rightarrow> None
           | Some wsURL \<Rightarrow>
               (case dial wsURL w of
                  (Some err, w) \<Rightarrow> Some (Inl (wrapError ''connecting to envd WebSocket: '' err), w)
                | (None, w) \<Rightarrow> Some (Inr (''exec-'' @ sandboxID @ ''-'' @ fmt_int now), w))))"

definition sendExecFrame ::
  "wsCodec \<Rightarrow> (string \<Rightarrow> 'w \<Rightarrow> go_error option \<times> 'w) \<Rightarrow> CodeExecutionRequest \<Rightarrow> string \<Rightarrow> 'w \<Rightarrow> go_error option \<times> 'w" where
  "sendExecFrame cd writeMessage req executionID w =
     (case wj_execPayload cd (cer_Code req) (cer_Language req) of
        Inl err \<Rightarrow> (Some (wrapError ''marshaling exec payload: '' err), w)
      | Inr execData \<Rightarrow>
          (case wj_execFrame cd \<lparr>ef_Type = ''code/exec'', ef_ID = executionID, ef_Data = execData\<rparr> of
             Inl err \<Rightarrow> (Some (wrapError ''marshaling exec frame: '' err), w)
           | Inr frameBytes \<Rightarrow>
               (case writeMessage frameBytes w of
                  (Some err, w) \<Rightarrow> (Some (wrapError ''sending exec frame: '' err), w)
                | (None, w) \<Rightarrow> (None, w))))"

text \<open>\<open>handleFrame\<close>: whether the execution is complete, and an error.  \<open>elapsed\<close> is the time since the
  loop began, in seconds.\<close>

definition handleFrame ::
  "wsCodec \<Rightarrow> (streamMessage \<Rightarrow> 'h \<Rightarrow> go_error option \<times> 'h) \<Rightarrow> string \<Rightarrow> rat \<Rightarrow> 'h \<Rightarrow> (bool \<times> go_error option) \<times> 'h" where
  "handleFrame cd send msg elapsed h =
     (case wj_frame cd msg of
        None \<Rightarrow> ((False, None), h)
      | Some frame \<Rightarrow>
          if ef_Type frame = ''stdout'' then
            (case send (textMsg ''stdout'' (wj_stdout cd (ef_Data frame))) h of
               (Some err, h) \<Rightarrow> ((False, Some (wrapError ''sending stdout: '' err)), h)
             | (None, h) \<Rightarrow> ((False, None), h))
          else if ef_Type frame = ''stderr'' then
            (case send (textMsg ''stderr'' (wj_stdout cd (ef_Data frame))) h of
               (Some err, h) \<Rightarrow> ((False, Some (wrapError ''sending stderr: '' err)), h)
             | (None, h) \<Rightarrow> ((False, None), h))
          else if ef_Type frame = ''result'' then
            (case wj_result cd (ef_Data frame) of
               (exitCode, dur) \<Rightarrow>
                 ((True, None), snd (send (resultMsg exitCode (if dur = 0 then elapsed else dur)) h)))
          else if ef_Type frame = ''error'' then
            (case wj_error cd (ef_Data frame) of
               (code, message) \<Rightarrow>
                 ((False, Some (Errorf ''envd execution error: %s: %s'' [code, message])), snd (send (errorMsg code message) h)))
          else ((False, None), h))"

text \<open>One round of the loop: whether the context is done when it begins, what \<open>ReadMessage\<close> gives, whether an
  error is a normal closure, whether the context is done then, and the time that has passed.\<close>

record wsRead =
  wr_ctxBefore :: bool
  wr_read :: "string go_res"
  wr_isClose :: bool
  wr_ctxAfter :: bool
  wr_elapsed :: rat

abbreviation "ctxCanceled \<equiv> Errorf ''context canceled'' []"

definition sendCanceled ::
  "(streamMessage \<Rightarrow> 'h \<Rightarrow> go_error option \<times> 'h) \<Rightarrow> 'h \<Rightarrow> go_error option \<times> 'h" where
  "sendCanceled send h = (Some ctxCanceled, snd (send (errorMsg ''canceled'' ''execution canceled'') h))"

definition handleReadError ::
  "(go_error \<Rightarrow> string) \<Rightarrow> (streamMessage \<Rightarrow> 'h \<Rightarrow> go_error option \<times> 'h) \<Rightarrow> wsRead \<Rightarrow> go_error \<Rightarrow> 'h \<Rightarrow> go_error option \<times> 'h" where
  "handleReadError errStr send r err h =
     (if wr_ctxAfter r then sendCanceled send h
      else if wr_isClose r then (None, h)
      else (Some (wrapError ''reading from envd WebSocket: '' err),
            snd (send (errorMsg ''read_error'' (''reading from envd: '' @ errStr err)) h)))"

fun cloudReadLoop ::
  "wsCodec \<Rightarrow> (go_error \<Rightarrow> string) \<Rightarrow> (streamMessage \<Rightarrow> 'h \<Rightarrow> go_error option \<times> 'h) \<Rightarrow> wsRead list \<Rightarrow> 'h \<Rightarrow> go_error option option \<times> 'h" where
  "cloudReadLoop cd errStr send [] h = (None, h)"
| "cloudReadLoop cd errStr send (r # rs) h =
     (if wr_ctxBefore r then apfst Some (sendCanceled send h)
      else
        (case wr_read r of
           Inl err \<Rightarrow> apfst Some (handleReadError errStr send r err h)
         | Inr msg \<Rightarrow>
             (case handleFrame cd send msg (wr_elapsed r) h of
                ((_, Some err), h) \<Rightarrow> (Some (Some err), h)
              | ((True, None), h) \<Rightarrow> (Some None, h)
              | ((False, None), h) \<Rightarrow> cloudReadLoop cd errStr send rs h)))"

text \<open>\<open>Stream\<close>: \<open>reads\<close> is what the connection delivers in a world.  The outer None is a panic, the inner one a
  loop that still waits; the stream is closed on every return.\<close>

definition Stream_cloud ::
  "'w cloudEnv \<Rightarrow> wsCodec \<Rightarrow> (go_error \<Rightarrow> string) \<Rightarrow> (string \<Rightarrow> 'w \<Rightarrow> go_error option \<times> 'w) \<Rightarrow> (string \<Rightarrow> 'w \<Rightarrow> go_error option \<times> 'w) \<Rightarrow>
   ('w \<Rightarrow> wsRead list) \<Rightarrow> (streamMessage \<Rightarrow> 'h \<Rightarrow> go_error option \<times> 'h) \<Rightarrow> ('h \<Rightarrow> 'h) \<Rightarrow> time \<Rightarrow> cloudClient \<Rightarrow> string \<Rightarrow>
   CodeExecutionRequest \<Rightarrow> 'h \<times> 'w \<Rightarrow> (go_error option option \<times> 'h \<times> 'w) option" where
  "Stream_cloud env cd errStr dial writeMessage reads send close now c sandboxID req st =
     (case st of (h, w) \<Rightarrow>
        (case streamConnect env cd dial c sandboxID now w of
           None \<Rightarrow> None
         | Some (Inl err, w) \<Rightarrow>
             (let code = (if isAuthError errStr (Some err) then ''auth_error'' else ''connection_error'')
              in Some (Some (Some err), close (snd (send (errorMsg code (errStr err)) h)), w))
         | Some (Inr executionID, w) \<Rightarrow>
             (case sendExecFrame cd writeMessage req executionID w of
                (Some err, w) \<Rightarrow> Some (Some (Some err), close (snd (send (errorMsg ''write_error'' (errStr err)) h)), w)
              | (None, w) \<Rightarrow>
                  (case cloudReadLoop cd errStr send (reads w) h of
                     (None, h) \<Rightarrow> Some (None, h, w)
                   | (Some res, h) \<Rightarrow> Some (Some res, close h, w)))))"

text \<open>\<open>ExecuteCodeStream\<close> of the adapter: a connection that cannot be made falls back to the synchronous call.\<close>

definition Cloud_ExecuteCodeStream ::
  "'w cloudEnv \<Rightarrow> wsCodec \<Rightarrow> (go_error \<Rightarrow> bool) \<Rightarrow> (go_error \<Rightarrow> string) \<Rightarrow> (string \<Rightarrow> 'w \<Rightarrow> go_error option \<times> 'w) \<Rightarrow>
   (string \<Rightarrow> 'w \<Rightarrow> go_error option \<times> 'w) \<Rightarrow> ('w \<Rightarrow> wsRead list) \<Rightarrow> (streamMessage \<Rightarrow> 'h \<Rightarrow> go_error option \<times> 'h) \<Rightarrow> ('h \<Rightarrow> 'h) \<Rightarrow> time \<Rightarrow>
   cloudAdapter \<Rightarrow> string \<Rightarrow> CodeExecutionRequest \<Rightarrow> 'h \<times> 'w \<Rightarrow> (go_error option option \<times> 'h \<times> 'w) option" where
  "Cloud_ExecuteCodeStream env cd canceled errStr dial writeMessage reads send close now a sandboxID req st =
     (case Stream_cloud env cd errStr dial writeMessage reads send close now (ca_client a) sandboxID req st of
        Some (Some err, st) \<Rightarrow>
          if isWebSocketNotAvailable canceled errStr err
          then (case streamFromSync errStr env send close a sandboxID req st of (e, st) \<Rightarrow> Some (Some e, st))
          else Some (Some err, st)
      | out \<Rightarrow> out)"

section \<open>What is streamed\<close>

text \<open>What one frame makes the streamer send, for frames that do not end the execution.\<close>

definition frameMsgs :: "wsCodec \<Rightarrow> string \<Rightarrow> streamMessage list" where
  "frameMsgs cd msg =
     (case wj_frame cd msg of
        None \<Rightarrow> []
      | Some f \<Rightarrow> if ef_Type f \<in> {''stdout'', ''stderr''} then [textMsg (ef_Type f) (wj_stdout cd (ef_Data f))] else [])"

definition endsExecution :: "wsCodec \<Rightarrow> string \<Rightarrow> bool" where
  "endsExecution cd msg = (case wj_frame cd msg of None \<Rightarrow> False | Some f \<Rightarrow> ef_Type f \<in> {''result'', ''error''})"

definition delivered :: "string \<Rightarrow> wsRead" where
  "delivered msg = \<lparr>wr_ctxBefore = False, wr_read = Inr msg, wr_isClose = False, wr_ctxAfter = False, wr_elapsed = 0\<rparr>"

text \<open>A stream that takes every message.\<close>

definition takeAll :: "streamMessage \<Rightarrow> streamMessage list \<Rightarrow> go_error option \<times> streamMessage list" where
  "takeAll m h = (None, h @ [m])"

lemma handleFrame_output:
  assumes "\<not> endsExecution cd msg"
  shows "handleFrame cd takeAll msg t h = ((False, None), h @ frameMsgs cd msg)"
  using assms by (auto simp: handleFrame_def frameMsgs_def endsExecution_def takeAll_def textMsg_def split: option.splits)

lemma readLoop_output:
  assumes "list_all (\<lambda>m. \<not> endsExecution cd m) msgs"
  shows "cloudReadLoop cd errStr takeAll (map delivered msgs @ rest) h =
    cloudReadLoop cd errStr takeAll rest (h @ concat (map (frameMsgs cd) msgs))"
  using assms
proof (induction msgs arbitrary: h)
  case (Cons m msgs)
  then show ?case using handleFrame_output [of cd m 0 h] by (simp add: delivered_def)
qed simp

text \<open>The output of a program in the cloud is streamed completely and in order. When the daemon sends
  any frames that do not end the execution and then a result, the stream gets one message for
  every frame of output, in their order, with its content, then the result, and nothing that
  the daemon sends afterwards; malformed and unknown frames are skipped.\<close>

lemma cloud_stream_in_order:
  assumes "list_all (\<lambda>m. \<not> endsExecution cd m) msgs" and "wj_frame cd res = Some f" and "ef_Type f = ''result''"
    and "wj_result cd (ef_Data f) = (exitCode, dur)" and "dur \<noteq> 0"
  shows "cloudReadLoop cd errStr takeAll (map delivered msgs @ delivered res # rest) h =
    (Some None, h @ concat (map (frameMsgs cd) msgs) @ [resultMsg exitCode dur])"
  using readLoop_output [OF assms(1)] assms(2-)
  by (simp add: delivered_def handleFrame_def takeAll_def)

definition demo_codec :: wsCodec where
  "demo_codec =
     \<lparr>wj_frame = (\<lambda>s. case s of [] \<Rightarrow> None | c # cs \<Rightarrow>
         Some \<lparr>ef_Type = (if c = CHR ''o'' then ''stdout'' else if c = CHR ''e'' then ''stderr'' else if c = CHR ''r'' then ''result'' else ''keepAlive''),
               ef_ID = [], ef_Data = cs\<rparr>),
      wj_stdout = (\<lambda>s. s), wj_result = (\<lambda>s. (0, 1)), wj_error = (\<lambda>s. ([], s)),
      wj_execPayload = (\<lambda>c l. Inr c), wj_execFrame = (\<lambda>f. Inr (ef_Data f)),
      wj_scheme = (\<lambda>u. Some ''https''), wj_url = (\<lambda>b s p t. s @ p)\<rparr>"

lemma cloud_stream_in_order_witness:
  "cloudReadLoop demo_codec (\<lambda>_. []) takeAll (map delivered [''oa'', ''k'', ''eb'', [], ''oc''] @ delivered ''r'' # [delivered ''oz'']) [] =
    (Some None, [textMsg ''stdout'' ''a'', textMsg ''stderr'' ''b'', textMsg ''stdout'' ''c'', resultMsg 0 1])"
proof -
  have "list_all (\<lambda>m. \<not> endsExecution demo_codec m) [''oa'', ''k'', ''eb'', [], ''oc'']"
    by (simp add: endsExecution_def demo_codec_def)
  moreover have "wj_frame demo_codec ''r'' = Some \<lparr>ef_Type = ''result'', ef_ID = [], ef_Data = []\<rparr>" by (simp add: demo_codec_def)
  moreover have "wj_result demo_codec [] = (0, 1)" by (simp add: demo_codec_def)
  moreover have "concat (map (frameMsgs demo_codec) [''oa'', ''k'', ''eb'', [], ''oc'']) =
      [textMsg ''stdout'' ''a'', textMsg ''stderr'' ''b'', textMsg ''stdout'' ''c'']"
    by (simp add: frameMsgs_def demo_codec_def)
  ultimately show ?thesis
    using cloud_stream_in_order [of demo_codec "[''oa'', ''k'', ''eb'', [], ''oc'']" "''r''"
        "\<lparr>ef_Type = ''result'', ef_ID = [], ef_Data = []\<rparr>" 0 1 "\<lambda>_. []" "[delivered ''oz'']" "[]"]
    by (simp del: concat.simps list.map)
qed

section \<open>The fall-back\<close>

lemma bridge_closed_send: "wc_closed w \<Longrightarrow> wc_Send env m w = (None, w)"
  by (simp add: wc_Send_def)

lemma bridge_closed_close: "wc_closed w \<Longrightarrow> snd (wc_close env w) = w"
  by (simp add: wc_close_def)

lemma bridge_close_closes: "wc_closed (snd (wc_close env w))"
  by (simp add: wc_close_def writeOut_def)

text \<open>On a closed stream the fall-back has no effect the client can see.\<close>

lemma sync_on_closed:
  assumes "wc_closed h" and "streamFromSync errStr env (wc_Send e) (\<lambda>h. snd (wc_close e h)) a sid req (h, w) = (err, h', w')"
  shows "h' = h"
  using assms by (auto simp: streamFromSync_def bridge_closed_send bridge_closed_close Let_def split: prod.splits sum.splits)

text \<open>The fall-back of \<open>ExecuteCodeStream\<close> never reaches a websocket client: the streamer has closed the stream
  when it reports that the connection cannot be made, so the client gets the error frame and the
  close, and the output of the second, synchronous execution is dropped.\<close>

lemma cloud_fallback_is_silent:
  assumes "Stream_cloud env cd errStr dial wm reads (wc_Send e) (\<lambda>h. snd (wc_close e h)) now (ca_client a) sid req (h, w) =
      Some (Some err, h1, w1)"
    and "Cloud_ExecuteCodeStream env cd canceled errStr dial wm reads (wc_Send e) (\<lambda>h. snd (wc_close e h)) now a sid req (h, w) =
      Some (Some err', h2, w2)"
  shows "wc_out h2 = wc_out h1"
proof -
  have closed: "wc_closed h1"
    using assms(1) by (auto simp: Stream_cloud_def bridge_close_closes Let_def split: prod.splits sum.splits option.splits)
  show ?thesis
  proof (cases "isWebSocketNotAvailable canceled errStr err")
    case True
    then show ?thesis
      using assms sync_on_closed [OF closed, of errStr env e a sid req w1]
      by (auto simp: Cloud_ExecuteCodeStream_def split: prod.splits)
  next
    case False
    then show ?thesis using assms by (simp add: Cloud_ExecuteCodeStream_def)
  qed
qed

section \<open>The websocket proxy\<close>

text \<open>The URL of the proxy is always a secure one, unlike that of the streamer.\<close>

definition buildEnvdURL :: "wsCodec \<Rightarrow> cloudClient \<Rightarrow> string \<Rightarrow> string \<Rightarrow> string option" where
  "buildEnvdURL cd c sandboxID accessToken =
     (case wj_scheme cd (cc_baseURL c) of
        None \<Rightarrow> None
      | Some _ \<Rightarrow> Some (wj_url cd (cc_baseURL c) ''wss'' (''/sandboxes/'' @ sandboxID @ ''/ws'') accessToken))"

text \<open>\<open>ProxyCodeStream\<close> up to the relay: \<open>upgrade\<close> answers the client's request.  An error is returned, None is a
  panic.\<close>

definition ProxyCodeStream ::
  "'w cloudEnv \<Rightarrow> wsCodec \<Rightarrow> ('w \<Rightarrow> go_error option \<times> 'w) \<Rightarrow> (string \<Rightarrow> 'w \<Rightarrow> go_error option \<times> 'w) \<Rightarrow> cloudClient \<Rightarrow> string \<Rightarrow> 'w \<Rightarrow>
   (go_error option \<times> 'w) option" where
  "ProxyCodeStream env cd upgrade dial c sandboxID w =
     (case Client_GetAccessToken env c sandboxID w of
        (Inl err, w) \<Rightarrow> Some (Some (wrapError ''getting access token: '' err), w)
      | (Inr tokenResp, w) \<Rightarrow>
          (case upgrade w of
             (Some err, w) \<Rightarrow> Some (Some (wrapError ''upgrading client connection: '' err), w)
           | (None, w) \<Rightarrow>
               (case buildEnvdURL cd c sandboxID (atr_AccessToken tokenResp) of
                  None \<Rightarrow> None
                | Some envdURL \<Rightarrow>
                    (case dial envdURL w of
                       (Some err, w) \<Rightarrow> Some (Some (wrapError ''connecting to envd: '' err), w)
                     | (None, w) \<Rightarrow> Some (None, w)))))"

text \<open>One direction of the relay.  A goroutine reads, holds a message until it is written, sends an
  error on the channel, sends nil when it returns, and is over.  \<open>dr_read\<close> is everything it has read.\<close>

datatype dirPC = DirReading | DirHolding string | DirSendErr | DirSendNil | DirOver

record relayDir =
  dr_pc :: dirPC
  dr_read :: "string list"
  dr_written :: "string list"

record proxyRelay =
  px_toBackend :: relayDir
  px_toClient :: relayDir
  px_chan :: nat
  px_returned :: bool

definition newDir :: relayDir where
  "newDir = \<lparr>dr_pc = DirReading, dr_read = [], dr_written = []\<rparr>"

definition newProxyRelay :: proxyRelay where
  "newProxyRelay = \<lparr>px_toBackend = newDir, px_toClient = newDir, px_chan = 0, px_returned = False\<rparr>"

text \<open>What the connections do: deliver a message, fail a read with a normal closure or with another
  error, take a message or refuse it.\<close>

datatype dirEvent = DeliverMsg string | ReadClosed | ReadFailed | WriteOk | WriteRefused | ChanSend

fun dirStep :: "dirEvent \<Rightarrow> relayDir \<Rightarrow> nat \<Rightarrow> (relayDir \<times> nat) option" where
  "dirStep (DeliverMsg m) d ch =
     (if dr_pc d = DirReading then Some (d\<lparr>dr_pc := DirHolding m, dr_read := dr_read d @ [m]\<rparr>, ch) else None)"
| "dirStep ReadClosed d ch = (if dr_pc d = DirReading then Some (d\<lparr>dr_pc := DirSendNil\<rparr>, ch) else None)"
| "dirStep ReadFailed d ch = (if dr_pc d = DirReading then Some (d\<lparr>dr_pc := DirSendErr\<rparr>, ch) else None)"
| "dirStep WriteOk d ch =
     (case dr_pc d of DirHolding m \<Rightarrow> Some (d\<lparr>dr_pc := DirReading, dr_written := dr_written d @ [m]\<rparr>, ch) | _ \<Rightarrow> None)"
| "dirStep WriteRefused d ch = (case dr_pc d of DirHolding m \<Rightarrow> Some (d\<lparr>dr_pc := DirSendErr\<rparr>, ch) | _ \<Rightarrow> None)"
| "dirStep ChanSend d ch =
     (if ch \<ge> 2 then None
      else case dr_pc d of
             DirSendErr \<Rightarrow> Some (d\<lparr>dr_pc := DirSendNil\<rparr>, ch + 1)
           | DirSendNil \<Rightarrow> Some (d\<lparr>dr_pc := DirOver\<rparr>, ch + 1)
           | _ \<Rightarrow> None)"

inductive proxy_step :: "proxyRelay \<Rightarrow> proxyRelay \<Rightarrow> bool" where
  toBackend: "dirStep ev (px_toBackend p) (px_chan p) = Some (d, ch) \<Longrightarrow> proxy_step p (p\<lparr>px_toBackend := d, px_chan := ch\<rparr>)"
| toClient: "dirStep ev (px_toClient p) (px_chan p) = Some (d, ch) \<Longrightarrow> proxy_step p (p\<lparr>px_toClient := d, px_chan := ch\<rparr>)"
| returns: "\<not> px_returned p \<Longrightarrow> 0 < px_chan p \<Longrightarrow> proxy_step p (p\<lparr>px_chan := px_chan p - 1, px_returned := True\<rparr>)"

abbreviation "proxy_steps \<equiv> proxy_step\<^sup>*\<^sup>*"

definition dirOk :: "relayDir \<Rightarrow> bool" where
  "dirOk d = (case dr_pc d of
                DirReading \<Rightarrow> dr_read d = dr_written d
              | DirHolding m \<Rightarrow> dr_read d = dr_written d @ [m]
              | _ \<Rightarrow> dr_read d = dr_written d \<or> (\<exists>m. dr_read d = dr_written d @ [m]))"

lemma dirStep_ok: "dirOk d \<Longrightarrow> dirStep ev d ch = Some (d', ch') \<Longrightarrow> dirOk d'"
  by (cases ev) (auto simp: dirOk_def split: if_splits dirPC.splits)

lemma proxy_reach_ok:
  assumes "proxy_steps newProxyRelay p"
  shows "dirOk (px_toBackend p) \<and> dirOk (px_toClient p)"
  using assms
proof (induction rule: rtranclp_induct)
  case base
  then show ?case by (simp add: newProxyRelay_def newDir_def dirOk_def)
next
  case (step p q)
  from step(2) step.IH show ?case by cases (auto dest: dirStep_ok)
qed

text \<open>C33: The websocket proxy forwards unchanged. Whatever the two connections do, in every reachable state the
  messages written to a side are the messages read from the other one, in the same order and
  without a gap; at most the last one read is missing.\<close>

theorem proxy_relay_forwards:
  assumes "proxy_steps newProxyRelay p" and "d \<in> {px_toBackend p, px_toClient p}"
  shows "\<exists>pending. dr_read d = dr_written d @ pending \<and> length pending \<le> 1"
  using proxy_reach_ok [OF assms(1)] assms(2)
  by (auto simp: dirOk_def split: dirPC.splits)

text \<open>Runs of the relay, as lists of actions.\<close>

datatype proxyAction = ToBackend dirEvent | ToClient dirEvent | RelayReturns

fun proxyAct :: "proxyAction \<Rightarrow> proxyRelay \<Rightarrow> proxyRelay option" where
  "proxyAct (ToBackend ev) p =
     map_option (\<lambda>(d, ch). p\<lparr>px_toBackend := d, px_chan := ch\<rparr>) (dirStep ev (px_toBackend p) (px_chan p))"
| "proxyAct (ToClient ev) p =
     map_option (\<lambda>(d, ch). p\<lparr>px_toClient := d, px_chan := ch\<rparr>) (dirStep ev (px_toClient p) (px_chan p))"
| "proxyAct RelayReturns p =
     (if \<not> px_returned p \<and> 0 < px_chan p then Some (p\<lparr>px_chan := px_chan p - 1, px_returned := True\<rparr>) else None)"

fun proxyActs :: "proxyAction list \<Rightarrow> proxyRelay \<Rightarrow> proxyRelay option" where
  "proxyActs [] p = Some p"
| "proxyActs (x # xs) p = Option.bind (proxyAct x p) (proxyActs xs)"

lemma proxyAct_step: "proxyAct x p = Some q \<Longrightarrow> proxy_step p q"
  by (cases x) (auto intro: proxy_step.intros proxy_step.returns [unfolded One_nat_def] split: if_splits)

lemma proxyActs_steps: "proxyActs xs p = Some q \<Longrightarrow> proxy_steps p q"
proof (induction xs arbitrary: p)
  case (Cons x xs)
  then obtain r where "proxyAct x p = Some r" "proxyActs xs r = Some q" by (auto simp: bind_eq_Some_conv)
  then show ?case using Cons.IH proxyAct_step by (meson converse_rtranclp_into_rtranclp)
qed simp

definition demo_proxy_run :: "proxyAction list" where
  "demo_proxy_run = [ToBackend (DeliverMsg ''a''), ToBackend WriteOk, ToClient (DeliverMsg ''x''), ToBackend (DeliverMsg ''b'')]"

theorem proxy_relay_forwards_witness:
  "\<exists>p pending. proxyActs demo_proxy_run newProxyRelay = Some p \<and> dr_written (px_toBackend p) = [''a''] \<and>
     dr_read (px_toBackend p) = dr_written (px_toBackend p) @ pending \<and> length pending \<le> 1"
proof -
  obtain p where p: "proxyActs demo_proxy_run newProxyRelay = Some p" "dr_written (px_toBackend p) = [''a'']"
    by (simp add: demo_proxy_run_def newProxyRelay_def newDir_def)
  from proxy_relay_forwards [OF proxyActs_steps [OF p(1)], of "px_toBackend p"] p show ?thesis by blast
qed

text \<open>When both directions end with an error, four values are sent on a channel of two places from which
  one is received: the goroutine that comes last waits for ever.\<close>

lemma stuck_step:
  assumes "proxy_step p q" and "px_returned p" and "px_chan p = 2" and "dr_pc (px_toClient p) = DirSendNil"
    and "dr_pc (px_toBackend p) = DirOver"
  shows "px_returned q \<and> px_chan q = 2 \<and> dr_pc (px_toClient q) = DirSendNil \<and> dr_pc (px_toBackend q) = DirOver"
  using assms(1)
proof cases
  case (toBackend ev d ch)
  then show ?thesis using assms by (cases ev) auto
next
  case (toClient ev d ch)
  then show ?thesis using assms by (cases ev) auto
qed (use assms in auto)

lemma proxy_goroutine_leaks:
  "\<exists>p. proxy_steps newProxyRelay p \<and> px_returned p \<and> (\<forall>q. proxy_steps p q \<longrightarrow> dr_pc (px_toClient q) = DirSendNil)"
proof -
  obtain p where p: "proxyActs [ToBackend ReadFailed, ToBackend ChanSend, RelayReturns, ToBackend ChanSend,
      ToClient ReadFailed, ToClient ChanSend] newProxyRelay = Some p"
    "px_returned p" "px_chan p = 2" "dr_pc (px_toClient p) = DirSendNil" "dr_pc (px_toBackend p) = DirOver"
    by (simp add: newProxyRelay_def newDir_def)
  have "px_returned q \<and> px_chan q = 2 \<and> dr_pc (px_toClient q) = DirSendNil \<and> dr_pc (px_toBackend q) = DirOver"
    if "proxy_steps p q" for q
    using that by (induction rule: rtranclp_induct) (use p stuck_step in blast)+
  then show ?thesis using p proxyActs_steps by blast
qed

section \<open>Counters\<close>

text \<open>\<open>RelayStats\<close>: the counters wrap at 64 bits.\<close>

record RelayStats =
  rst_ClientToBackend :: "64 word"
  rst_BackendToClient :: "64 word"
  rst_BytesSent :: "64 word"
  rst_BytesReceived :: "64 word"
  rst_StartedAt :: time

definition NewRelayStats :: "time \<Rightarrow> RelayStats" where
  "NewRelayStats now =
     \<lparr>rst_ClientToBackend = 0, rst_BackendToClient = 0, rst_BytesSent = 0, rst_BytesReceived = 0, rst_StartedAt = now\<rparr>"

definition RecordClientToBackend :: "64 word \<Rightarrow> RelayStats \<Rightarrow> RelayStats" where
  "RecordClientToBackend bytes s =
     s\<lparr>rst_ClientToBackend := rst_ClientToBackend s + 1, rst_BytesSent := rst_BytesSent s + bytes\<rparr>"

definition RecordBackendToClient :: "64 word \<Rightarrow> RelayStats \<Rightarrow> RelayStats" where
  "RecordBackendToClient bytes s =
     s\<lparr>rst_BackendToClient := rst_BackendToClient s + 1, rst_BytesReceived := rst_BytesReceived s + bytes\<rparr>"

definition NormalizeFrame :: "string \<Rightarrow> string \<Rightarrow> string go_res" where
  "NormalizeFrame data executionID = Inr data"

end
