(* ===== verification/Envd_Client.thy ===== *)
theory Envd_Client
  imports Adapter_Interface Envd_Codec
begin

text \<open>
  The client of the daemon \<open>envd\<close> in a sandbox (\<open>internal/envd/client.go\<close>, \<open>filesystem.go\<close>, \<open>transfer.go\<close> and
  the calls of \<open>process.go\<close>): unary and streaming ConnectRPC calls, and file transfer over REST.

  The HTTP transport and the JSON coding are the record \<open>envdEnv\<close> of functions over the outside world
  \<open>'w\<close>.  The body of a response is the list of bytes it delivers and the error that reading it to the
  end meets, if any; the body of a process stream is read up to its end of file.  A pointer that may
  be nil is an option.
\<close>

section \<open>Bytes, escapes and paths\<close>

definition bytesOf :: "string \<Rightarrow> byte list" where
  "bytesOf s = map (\<lambda>ch. word_of_nat (of_char ch)) s"

definition stringOf :: "byte list \<Rightarrow> string" where
  "stringOf bs = map (\<lambda>b. char_of (unat b)) bs"

lemma stringOf_bytesOf [simp]: "stringOf (bytesOf s) = s"
proof -
  have "char_of (unat (word_of_nat (of_char ch) :: byte)) = ch" for ch :: char
    by (simp add: unat_of_nat take_bit_eq_mod)
  then show ?thesis by (simp add: stringOf_def bytesOf_def comp_def)
qed

text \<open>\<open>truncate\<close> cuts at a number of bytes.\<close>

definition truncateStr :: "string \<Rightarrow> nat \<Rightarrow> string" where
  "truncateStr s maxLen = (if length s \<le> maxLen then s else take maxLen s @ ''...'')"

lemma truncateStr_bound: "length (truncateStr s n) \<le> n + 3 \<and> take n (truncateStr s n) = take n s"
  by (simp add: truncateStr_def)

text \<open>\<open>url.QueryEscape\<close>: letters, digits and \<open>-_.~\<close> stay, a space becomes a plus sign, every other byte its
  two upper-case hexadecimal digits.\<close>

definition upperHex :: "nat \<Rightarrow> char" where
  "upperHex d = (if d < 10 then char_of (48 + d) else char_of (55 + d))"

definition unreserved :: "char \<Rightarrow> bool" where
  "unreserved ch =
     (let n = of_char ch :: nat
      in (97 \<le> n \<and> n \<le> 122) \<or> (65 \<le> n \<and> n \<le> 90) \<or> (48 \<le> n \<and> n \<le> 57) \<or> ch \<in> set ''-_.~'')"

definition queryEscapeChar :: "char \<Rightarrow> string" where
  "queryEscapeChar ch =
     (if unreserved ch then [ch]
      else if ch = CHR '' '' then ''+''
      else [CHR ''%'', upperHex (of_char ch div 16), upperHex (of_char ch mod 16)])"

definition QueryEscape :: "string \<Rightarrow> string" where
  "QueryEscape s = concat (map queryEscapeChar s)"

abbreviation "queryParamPath \<equiv> ''path''"

text \<open>\<open>url.Values{queryParamPath: {path}}.Encode()\<close>.\<close>

definition pathQuery :: "string \<Rightarrow> string" where
  "pathQuery path = queryParamPath @ ''='' @ QueryEscape path"

text \<open>\<open>filepath.Base\<close>: the last element, after the trailing slashes are stripped.\<close>

definition filepathBase :: "string \<Rightarrow> string" where
  "filepathBase path =
     (if path = [] then ''.''
      else let stripped = rev (dropWhile (\<lambda>ch. ch = CHR ''/'') (rev path));
               base = rev (takeWhile (\<lambda>ch. ch \<noteq> CHR ''/'') (rev stripped))
           in if base = [] then ''/'' else base)"

section \<open>Messages\<close>

record envd_StatRequest =
  sr_Path :: string

record envd_ListDirRequest =
  ldr_Path :: string
  ldr_Depth :: "32 word"

record envd_MakeDirRequest =
  mdr_Path :: string

record envd_RemoveRequest =
  rmr_Path :: string

record envd_MoveRequest =
  mvr_Source :: string
  mvr_Destination :: string

record envd_FileInfo =
  ei_Name :: string
  ei_Path :: string
  ei_Type :: string
  ei_Size :: string
  ei_Mode :: "32 word"
  ei_Permissions :: string
  ei_Owner :: string
  ei_Group :: string
  ei_ModifiedTime :: string
  ei_SymlinkTarget :: string

record ProcessConfig =
  pc_Cmd :: string
  pc_Args :: "string list"
  pc_Envs :: strmap
  pc_Cwd :: string

record PTYSize =
  pty_Cols :: "32 word"
  pty_Rows :: "32 word"

text \<open>\<open>PTYConfig\<close> is its only field, the size, which may be nil.\<close>

record StartProcessRequest =
  spr_Process :: "ProcessConfig option"
  spr_PTY :: "PTYSize option option"
  spr_Tag :: string
  spr_Stdin :: bool

record envd_ProcessInfo =
  epi_PID :: "32 word"
  epi_Tag :: string
  epi_Config :: "ProcessConfig option"

record ProcessSelector =
  psel_PID :: "32 word"
  psel_Tag :: string

record SendSignalRequest =
  ssr_Process :: "ProcessSelector option"
  ssr_Signal :: "32 word"

text \<open>The requests that are coded as JSON.\<close>

datatype envdMessage =
    MStat envd_StatRequest
  | MListDir envd_ListDirRequest
  | MMakeDir envd_MakeDirRequest
  | MRemove envd_RemoveRequest
  | MMove envd_MoveRequest
  | MStart StartProcessRequest
  | MListProcesses
  | MSendSignal SendSignalRequest

section \<open>Transport\<close>

record envdRequest =
  eq_Method :: string
  eq_URL :: string
  eq_Header :: strmap
  eq_Body :: "byte list"

record envdResponse =
  es_StatusCode :: int
  es_Body :: "byte list"
  es_ReadErr :: "go_error option"

text \<open>
  \<open>en_newRequest\<close>: whether \<open>http.NewRequestWithContext\<close> accepts the method and the URL; \<open>en_http\<close>: the exchange,
  under the client's timeout; \<open>en_boundary\<close>: the random boundary of a multipart body; \<open>en_escapeQuotes\<close>: the
  escaping of a file name in its header; the decoders are \<open>json.Unmarshal\<close> into a response.
\<close>

record 'w envdEnv =
  en_newRequest :: "string \<Rightarrow> string \<Rightarrow> bool"
  en_http :: "duration \<Rightarrow> envdRequest \<Rightarrow> 'w \<Rightarrow> envdResponse go_res \<times> 'w"
  en_marshal :: "envdMessage \<Rightarrow> (byte list) go_res"
  en_boundary :: string
  en_escapeQuotes :: "string \<Rightarrow> string"
  en_StatResponse :: "string \<Rightarrow> (envd_FileInfo option) go_res"
  en_ListDirResponse :: "string \<Rightarrow> (envd_FileInfo option list) go_res"
  en_ListProcessesResponse :: "string \<Rightarrow> (envd_ProcessInfo option list) go_res"
  en_event :: unmarshalEvent

text \<open>An error wrapped with \<open>%w\<close> after the other arguments of the format; the status of an error that has one
  stays visible.\<close>

definition wrapf :: "string \<Rightarrow> string list \<Rightarrow> go_error \<Rightarrow> go_error" where
  "wrapf fmt args err =
     (case err of Errorf f as \<Rightarrow> Errorf fmt (args @ f # as) | StatusError status msg \<Rightarrow> StatusError status (fmt @ msg))"

section \<open>The client\<close>

record envd_ClientConfig =
  ecf_BaseURL :: string
  ecf_AccessToken :: string
  ecf_SandboxID :: string
  ecf_Timeout :: duration

record envdClient =
  ec_baseURL :: string
  ec_accessToken :: string
  ec_sandboxID :: string
  ec_timeout :: duration

definition envd_NewClient :: "envd_ClientConfig \<Rightarrow> envdClient" where
  "envd_NewClient cfg =
     \<lparr>ec_baseURL = ecf_BaseURL cfg, ec_accessToken = ecf_AccessToken cfg, ec_sandboxID = ecf_SandboxID cfg,
      ec_timeout = (if ecf_Timeout cfg = 0 then 30 * second else ecf_Timeout cfg)\<rparr>"

definition BaseURL :: "envdClient \<Rightarrow> string" where
  "BaseURL c = ec_baseURL c"

definition SandboxID :: "envdClient \<Rightarrow> string" where
  "SandboxID c = ec_sandboxID c"

text \<open>\<open>Header.Set\<close> on keys that are in canonical form already.\<close>

definition identityHeader :: "envdClient \<Rightarrow> strmap \<Rightarrow> strmap" where
  "identityHeader c h =
     (let h = gm_set (gm_set h ''E2b-Sandbox-Id'' (ec_sandboxID c)) ''E2b-Sandbox-Port'' ''49983''
      in if ec_accessToken c \<noteq> []
         then gm_set (gm_set h ''X-Access-Token'' (ec_accessToken c)) ''Authorization'' (''Bearer '' @ ec_accessToken c)
         else h)"

definition rpcHeader :: "envdClient \<Rightarrow> string \<Rightarrow> strmap" where
  "rpcHeader c contentType =
     identityHeader c (gm_set (gm_set [] ''Content-Type'' contentType) ''Connect-Protocol-Version'' ''1'')"

definition rpcURL :: "envdClient \<Rightarrow> string \<Rightarrow> string \<Rightarrow> string" where
  "rpcURL c service method = ec_baseURL c @ ''/'' @ service @ ''/'' @ method"

definition statusError :: "string \<Rightarrow> envdResponse \<Rightarrow> go_error" where
  "statusError fmt resp = Errorf fmt [fmt_int (es_StatusCode resp), stringOf (es_Body resp)]"

text \<open>\<open>doConnectRPC\<close>: \<open>decode\<close> is None when the caller passes no response to fill.\<close>

definition doConnectRPC ::
  "'w envdEnv \<Rightarrow> envdClient \<Rightarrow> string \<Rightarrow> string \<Rightarrow> envdMessage \<Rightarrow> (string \<Rightarrow> 'r go_res) option \<Rightarrow> 'r \<Rightarrow> 'w \<Rightarrow> 'r go_res \<times> 'w" where
  "doConnectRPC env c service method req decode zero w =
     (case en_marshal env req of
        Inl err \<Rightarrow> (Inl (wrapf ''marshaling request: %w'' [] err), w)
      | Inr body \<Rightarrow>
          if \<not> en_newRequest env ''POST'' (rpcURL c service method) then (Inl (Errorf ''creating request: %w'' []), w)
          else
            (case en_http env (ec_timeout c)
                    \<lparr>eq_Method = ''POST'', eq_URL = rpcURL c service method,
                     eq_Header = rpcHeader c ''application/json'', eq_Body = body\<rparr> w of
               (Inl err, w) \<Rightarrow> (Inl (wrapf ''sending request: %w'' [] err), w)
             | (Inr httpResp, w) \<Rightarrow>
                 if es_StatusCode httpResp \<noteq> 200 then (Inl (statusError ''unexpected status %d: %s'' httpResp), w)
                 else
                   (case decode of
                      None \<Rightarrow> (Inr zero, w)
                    | Some d \<Rightarrow>
                        (case es_ReadErr httpResp of
                           Some err \<Rightarrow> (Inl (wrapf ''reading response body: %w'' [] err), w)
                         | None \<Rightarrow>
                             (case d (stringOf (es_Body httpResp)) of
                                Inl err \<Rightarrow>
                                  (Inl (wrapf ''decoding response (body=%q): %w''
                                          [truncateStr (stringOf (es_Body httpResp)) 500] err), w)
                              | Inr r \<Rightarrow> (Inr r, w))))))"

definition doConnectRPCStream ::
  "'w envdEnv \<Rightarrow> envdClient \<Rightarrow> string \<Rightarrow> string \<Rightarrow> envdMessage \<Rightarrow> 'w \<Rightarrow> (byte list) go_res \<times> 'w" where
  "doConnectRPCStream env c service method req w =
     (case EncodeEnvelope (en_marshal env) EnvelopeFlagNone req of
        Inl err \<Rightarrow> (Inl (wrapf ''encoding request envelope: %w'' [] err), w)
      | Inr envelope \<Rightarrow>
          if \<not> en_newRequest env ''POST'' (rpcURL c service method) then (Inl (Errorf ''creating request: %w'' []), w)
          else
            (case en_http env (ec_timeout c)
                    \<lparr>eq_Method = ''POST'', eq_URL = rpcURL c service method,
                     eq_Header = rpcHeader c ''application/connect+json'', eq_Body = envelope\<rparr> w of
               (Inl err, w) \<Rightarrow> (Inl (wrapf ''sending request: %w'' [] err), w)
             | (Inr httpResp, w) \<Rightarrow>
                 if es_StatusCode httpResp \<noteq> 200 then (Inl (statusError ''unexpected status %d: %s'' httpResp), w)
                 else (Inr (es_Body httpResp), w)))"

section \<open>The filesystem service\<close>

abbreviation "FilesystemService \<equiv> ''filesystem.Filesystem''"

text \<open>\<open>SizeInt64\<close>: \<open>scanInt\<close> is \<open>fmt.Sscanf\<close> with the format \<open>%d\<close> into an \<open>int64\<close>.\<close>

definition SizeInt64 :: "(string \<Rightarrow> int option) \<Rightarrow> envd_FileInfo option \<Rightarrow> int" where
  "SizeInt64 scanInt fi =
     (case fi of
        None \<Rightarrow> 0
      | Some f \<Rightarrow> if ei_Size f = [] then 0 else case scanInt (ei_Size f) of Some n \<Rightarrow> n | None \<Rightarrow> 0)"

definition envd_IsDir :: "envd_FileInfo \<Rightarrow> bool" where
  "envd_IsDir fi = (ei_Type fi = ''FILE_TYPE_DIRECTORY'')"

definition wrapRes :: "string \<Rightarrow> string list \<Rightarrow> 'r go_res \<times> 'w \<Rightarrow> 'r go_res \<times> 'w" where
  "wrapRes fmt args rw = (case rw of (Inl err, w) \<Rightarrow> (Inl (wrapf fmt args err), w) | (Inr r, w) \<Rightarrow> (Inr r, w))"

definition Envd_Stat :: "'w envdEnv \<Rightarrow> envdClient \<Rightarrow> string \<Rightarrow> 'w \<Rightarrow> (envd_FileInfo option) go_res \<times> 'w" where
  "Envd_Stat env c path w =
     wrapRes ''stat %q: %w'' [path]
       (doConnectRPC env c FilesystemService ''Stat'' (MStat \<lparr>sr_Path = path\<rparr>) (Some (en_StatResponse env)) None w)"

definition Envd_ListDir :: "'w envdEnv \<Rightarrow> envdClient \<Rightarrow> string \<Rightarrow> 32 word \<Rightarrow> 'w \<Rightarrow> (envd_FileInfo option list) go_res \<times> 'w" where
  "Envd_ListDir env c path depth w =
     wrapRes ''list dir %q: %w'' [path]
       (doConnectRPC env c FilesystemService ''ListDir'' (MListDir \<lparr>ldr_Path = path, ldr_Depth = depth\<rparr>)
          (Some (en_ListDirResponse env)) [] w)"

definition Envd_MakeDir :: "'w envdEnv \<Rightarrow> envdClient \<Rightarrow> string \<Rightarrow> 'w \<Rightarrow> unit go_res \<times> 'w" where
  "Envd_MakeDir env c path w =
     wrapRes ''make dir %q: %w'' [path]
       (doConnectRPC env c FilesystemService ''MakeDir'' (MMakeDir \<lparr>mdr_Path = path\<rparr>) None () w)"

definition Envd_Remove :: "'w envdEnv \<Rightarrow> envdClient \<Rightarrow> string \<Rightarrow> 'w \<Rightarrow> unit go_res \<times> 'w" where
  "Envd_Remove env c path w =
     wrapRes ''remove %q: %w'' [path]
       (doConnectRPC env c FilesystemService ''Remove'' (MRemove \<lparr>rmr_Path = path\<rparr>) None () w)"

definition Envd_Move :: "'w envdEnv \<Rightarrow> envdClient \<Rightarrow> string \<Rightarrow> string \<Rightarrow> 'w \<Rightarrow> unit go_res \<times> 'w" where
  "Envd_Move env c src dst w =
     wrapRes ''move %q to %q: %w'' [src, dst]
       (doConnectRPC env c FilesystemService ''Move'' (MMove \<lparr>mvr_Source = src, mvr_Destination = dst\<rparr>) None () w)"

section \<open>File transfer\<close>

abbreviation "crlf \<equiv> [CHR 0x0D, CHR 0x0A]"
abbreviation "dquote \<equiv> [CHR 0x22]"

text \<open>The multipart body with the one part of the file, and its content type.\<close>

definition multipartBody :: "'w envdEnv \<Rightarrow> string \<Rightarrow> string \<Rightarrow> byte list" where
  "multipartBody env filename content =
     bytesOf (''--'' @ en_boundary env @ crlf @
       ''Content-Disposition: form-data; name='' @ dquote @ ''file'' @ dquote @ ''; filename='' @ dquote @
         en_escapeQuotes env filename @ dquote @ crlf @
       ''Content-Type: application/octet-stream'' @ crlf @ crlf @
       content @ crlf @ ''--'' @ en_boundary env @ ''--'' @ crlf)"

definition multipartType :: "'w envdEnv \<Rightarrow> string" where
  "multipartType env = ''multipart/form-data; boundary='' @ en_boundary env"

definition filesURL :: "envdClient \<Rightarrow> string \<Rightarrow> string" where
  "filesURL c path = ec_baseURL c @ ''/files?'' @ pathQuery path"

record UploadFileOptions =
  ufo_Path :: string
  ufo_Reader :: "string go_res"
  ufo_Username :: string
  ufo_Gzip :: bool
  ufo_Metadata :: strmap

text \<open>\<open>CanonicalHeaderKey\<close>, which \<open>Header.Set\<close> applies: a key of token characters has the letters at
  its beginning and after each hyphen in upper case and the other letters in lower case.\<close>

definition tokenChar :: "char \<Rightarrow> bool" where
  "tokenChar ch =
     (let n = of_char ch :: nat
      in (97 \<le> n \<and> n \<le> 122) \<or> (65 \<le> n \<and> n \<le> 90) \<or> (48 \<le> n \<and> n \<le> 57) \<or>
         n \<in> {33, 35, 36, 37, 38, 39, 42, 43, 45, 46, 94, 95, 96, 124, 126})"

fun canonicalRest :: "bool \<Rightarrow> string \<Rightarrow> string" where
  "canonicalRest up [] = []"
| "canonicalRest up (ch # s) = (if up then ToUpper [ch] else ToLower [ch]) @ canonicalRest (ch = CHR ''-'') s"

definition CanonicalHeaderKey :: "string \<Rightarrow> string" where
  "CanonicalHeaderKey k = (if list_all tokenChar k then canonicalRest True k else k)"

definition metadataHeader :: "(string \<times> string) list \<Rightarrow> strmap \<Rightarrow> strmap" where
  "metadataHeader kvs h = fold (\<lambda>(k, v) h. gm_set h (CanonicalHeaderKey (''X-Metadata-'' @ k)) v) kvs h"

text \<open>The headers of an upload with options; \<open>ord\<close> is the order of the range over the metadata.\<close>

definition uploadHeader :: "'w envdEnv \<Rightarrow> envdClient \<Rightarrow> string list \<Rightarrow> UploadFileOptions \<Rightarrow> strmap" where
  "uploadHeader env c ord opts =
     (let h = identityHeader c (gm_set [] ''Content-Type'' (multipartType env));
          h = (if ufo_Username opts \<noteq> [] then gm_set h ''X-Username'' (ufo_Username opts) else h);
          h = metadataHeader (gm_range (ufo_Metadata opts) ord) h
      in if ufo_Gzip opts then gm_set h ''Content-Encoding'' ''gzip'' else h)"

text \<open>The upload, after the headers are chosen: the body, the request and the reading of the status.\<close>

definition sendUpload :: "'w envdEnv \<Rightarrow> envdClient \<Rightarrow> strmap \<Rightarrow> string \<Rightarrow> string go_res \<Rightarrow> 'w \<Rightarrow> unit go_res \<times> 'w" where
  "sendUpload env c header path reader w =
     (case reader of
        Inl err \<Rightarrow> (Inl (wrapf ''copying file data: %w'' [] err), w)
      | Inr content \<Rightarrow>
          if \<not> en_newRequest env ''POST'' (filesURL c path) then (Inl (Errorf ''creating request: %w'' []), w)
          else
            (case en_http env (ec_timeout c)
                    \<lparr>eq_Method = ''POST'', eq_URL = filesURL c path, eq_Header = header,
                     eq_Body = multipartBody env (filepathBase path) content\<rparr> w of
               (Inl err, w) \<Rightarrow> (Inl (wrapf ''sending request: %w'' [] err), w)
             | (Inr resp, w) \<Rightarrow>
                 if es_StatusCode resp \<noteq> 200 \<and> es_StatusCode resp \<noteq> 201 \<and> es_StatusCode resp \<noteq> 204
                 then (Inl (statusError ''upload failed with status %d: %s'' resp), w)
                 else (Inr (), w)))"

definition Envd_UploadFile :: "'w envdEnv \<Rightarrow> envdClient \<Rightarrow> string \<Rightarrow> string go_res \<Rightarrow> 'w \<Rightarrow> unit go_res \<times> 'w" where
  "Envd_UploadFile env c path reader w =
     sendUpload env c (identityHeader c (gm_set [] ''Content-Type'' (multipartType env))) path reader w"

definition UploadFileWithOptions ::
  "'w envdEnv \<Rightarrow> envdClient \<Rightarrow> string list \<Rightarrow> UploadFileOptions \<Rightarrow> 'w \<Rightarrow> unit go_res \<times> 'w" where
  "UploadFileWithOptions env c ord opts w = sendUpload env c (uploadHeader env c ord opts) (ufo_Path opts) (ufo_Reader opts) w"

definition Envd_DownloadFile :: "'w envdEnv \<Rightarrow> envdClient \<Rightarrow> string \<Rightarrow> 'w \<Rightarrow> reader go_res \<times> 'w" where
  "Envd_DownloadFile env c path w =
     (if \<not> en_newRequest env ''GET'' (filesURL c path) then (Inl (Errorf ''creating request: %w'' []), w)
      else
        (case en_http env (ec_timeout c)
                \<lparr>eq_Method = ''GET'', eq_URL = filesURL c path, eq_Header = identityHeader c [], eq_Body = []\<rparr> w of
           (Inl err, w) \<Rightarrow> (Inl (wrapf ''sending request: %w'' [] err), w)
         | (Inr resp, w) \<Rightarrow>
             if es_StatusCode resp \<noteq> 200 then (Inl (statusError ''download failed with status %d: %s'' resp), w)
             else (Inr (stringOf (es_Body resp), es_ReadErr resp), w)))"

text \<open>The writer is a function over its own state; the copy writes what was read before an error.\<close>

definition DownloadFileToWriter ::
  "'w envdEnv \<Rightarrow> envdClient \<Rightarrow> (string \<Rightarrow> 'h \<Rightarrow> go_error option \<times> 'h) \<Rightarrow> string \<Rightarrow> 'w \<times> 'h \<Rightarrow> unit go_res \<times> 'w \<times> 'h" where
  "DownloadFileToWriter env c write path st =
     (case st of (w, h) \<Rightarrow>
        (case Envd_DownloadFile env c path w of
           (Inl err, w) \<Rightarrow> (Inl err, w, h)
         | (Inr (data, rerr), w) \<Rightarrow>
             (case (if data = [] then (None, h) else write data h) of
                (Some err, h) \<Rightarrow> (Inl (wrapf ''copying file data: %w'' [] err), w, h)
              | (None, h) \<Rightarrow>
                  (case rerr of
                     Some err \<Rightarrow> (Inl (wrapf ''copying file data: %w'' [] err), w, h)
                   | None \<Rightarrow> (Inr (), w, h)))))"

section \<open>The process service\<close>

abbreviation "ProcessService \<equiv> ''process.Process''"

definition StartProcess :: "'w envdEnv \<Rightarrow> envdClient \<Rightarrow> StartProcessRequest \<Rightarrow> 'w \<Rightarrow> ProcessStream go_res \<times> 'w" where
  "StartProcess env c req w =
     (case doConnectRPCStream env c ProcessService ''Start'' (MStart req) w of
        (Inl err, w) \<Rightarrow> (Inl (wrapf ''starting process: %w'' [] err), w)
      | (Inr stream, w) \<Rightarrow> (Inr (NewProcessStream stream), w))"

datatype waitError = NotStarted go_error | StreamFailed readAllError

record waitResult =
  wr_stdout :: string
  wr_stderr :: string
  wr_exitCode :: "32 word"
  wr_err :: "waitError option"

definition waitResultOf :: "readAllResult \<Rightarrow> waitResult" where
  "waitResultOf r =
     \<lparr>wr_stdout = stringOf (ra_stdout r), wr_stderr = stringOf (ra_stderr r), wr_exitCode = ra_exitCode r,
      wr_err = map_option StreamFailed (ra_err r)\<rparr>"

definition StartProcessAndWait :: "'w envdEnv \<Rightarrow> envdClient \<Rightarrow> StartProcessRequest \<Rightarrow> 'w \<Rightarrow> waitResult \<times> 'w" where
  "StartProcessAndWait env c req w =
     (case StartProcess env c req w of
        (Inl err, w) \<Rightarrow> (\<lparr>wr_stdout = [], wr_stderr = [], wr_exitCode = -1, wr_err = Some (NotStarted err)\<rparr>, w)
      | (Inr stream, w) \<Rightarrow> (waitResultOf (ReadAll (en_event env) stream), w))"

definition shellRequest :: "string \<Rightarrow> string \<Rightarrow> strmap \<Rightarrow> StartProcessRequest" where
  "shellRequest command cwd envs =
     \<lparr>spr_Process = Some \<lparr>pc_Cmd = ''/bin/bash'', pc_Args = [''-l'', ''-c'', command], pc_Envs = envs, pc_Cwd = cwd\<rparr>,
      spr_PTY = None, spr_Tag = [], spr_Stdin = False\<rparr>"

definition Envd_RunCommand :: "'w envdEnv \<Rightarrow> envdClient \<Rightarrow> string \<Rightarrow> string \<Rightarrow> strmap \<Rightarrow> 'w \<Rightarrow> waitResult \<times> 'w" where
  "Envd_RunCommand env c command cwd envs w = StartProcessAndWait env c (shellRequest command cwd envs) w"

definition Envd_ListProcesses :: "'w envdEnv \<Rightarrow> envdClient \<Rightarrow> 'w \<Rightarrow> (envd_ProcessInfo option list) go_res \<times> 'w" where
  "Envd_ListProcesses env c w =
     wrapRes ''listing processes: %w'' []
       (doConnectRPC env c ProcessService ''List'' MListProcesses (Some (en_ListProcessesResponse env)) [] w)"

definition SendSignal :: "'w envdEnv \<Rightarrow> envdClient \<Rightarrow> 32 word \<Rightarrow> 32 word \<Rightarrow> 'w \<Rightarrow> unit go_res \<times> 'w" where
  "SendSignal env c pid signal w =
     wrapRes ''sending signal: %w'' []
       (doConnectRPC env c ProcessService ''SendSignal''
          (MSendSignal \<lparr>ssr_Process = Some \<lparr>psel_PID = pid, psel_Tag = []\<rparr>, ssr_Signal = signal\<rparr>) None () w)"

section \<open>Every request is the sandbox's own\<close>

text \<open>A request of a client: it goes to the client's endpoint, names its sandbox, and carries the access token
  exactly when the client has one.\<close>

definition identified :: "envdClient \<Rightarrow> envdRequest \<Rightarrow> bool" where
  "identified c q =
     (HasPrefix (eq_URL q) (ec_baseURL c) \<and>
      gm_get (eq_Header q) ''E2b-Sandbox-Id'' = Some (ec_sandboxID c) \<and>
      gm_get (eq_Header q) ''E2b-Sandbox-Port'' = Some ''49983'' \<and>
      gm_get (eq_Header q) ''X-Access-Token'' = (if ec_accessToken c = [] then None else Some (ec_accessToken c)) \<and>
      gm_get (eq_Header q) ''Authorization'' =
        (if ec_accessToken c = [] then None else Some (''Bearer '' @ ec_accessToken c)))"

text \<open>The transport keeps the property \<open>P\<close> of the world on the requests of the client.\<close>

definition keeps :: "'w envdEnv \<Rightarrow> envdClient \<Rightarrow> ('w \<Rightarrow> bool) \<Rightarrow> bool" where
  "keeps env c P = (\<forall>q w. identified c q \<longrightarrow> P w \<longrightarrow> P (snd (en_http env (ec_timeout c) q w)))"

lemma keepsD: "keeps env c P \<Longrightarrow> identified c q \<Longrightarrow> P w \<Longrightarrow> en_http env (ec_timeout c) q w = (r, w') \<Longrightarrow> P w'"
  unfolding keeps_def by (metis snd_conv)

definition identityKeys :: "string list" where
  "identityKeys = [''E2b-Sandbox-Id'', ''E2b-Sandbox-Port'', ''X-Access-Token'', ''Authorization'']"

lemma gm_get_identityHeader:
  "gm_get (identityHeader c h) k =
     (if k = ''E2b-Sandbox-Id'' then Some (ec_sandboxID c)
      else if k = ''E2b-Sandbox-Port'' then Some ''49983''
      else if ec_accessToken c \<noteq> [] \<and> k = ''X-Access-Token'' then Some (ec_accessToken c)
      else if ec_accessToken c \<noteq> [] \<and> k = ''Authorization'' then Some (''Bearer '' @ ec_accessToken c)
      else gm_get h k)"
  by (simp add: identityHeader_def Let_def gm_set_def gm_get_update)

lemma identified_header:
  assumes "\<forall>k \<in> set identityKeys. gm_get (eq_Header q) k = gm_get (identityHeader c h) k"
    and "gm_get h ''X-Access-Token'' = None" and "gm_get h ''Authorization'' = None"
    and "HasPrefix (eq_URL q) (ec_baseURL c)"
  shows "identified c q"
  using assms unfolding identified_def identityKeys_def by (simp add: gm_get_identityHeader)

lemma HasPrefix_rpcURL [simp]: "HasPrefix (rpcURL c service method) (ec_baseURL c)"
  unfolding rpcURL_def by (rule HasPrefix_append)

lemma HasPrefix_filesURL [simp]: "HasPrefix (filesURL c path) (ec_baseURL c)"
  unfolding filesURL_def by (rule HasPrefix_append)

lemma rpc_identified:
  "identified c \<lparr>eq_Method = m, eq_URL = rpcURL c service method, eq_Header = rpcHeader c ct, eq_Body = body\<rparr>"
  by (rule identified_header [where h = "gm_set (gm_set [] ''Content-Type'' ct) ''Connect-Protocol-Version'' ''1''"])
    (simp_all add: rpcHeader_def gm_set_def gm_get_update gm_get_def)

text \<open>Metadata never overwrites the identity of the request.\<close>

lemma canonicalRest_append:
  "s \<noteq> [] \<Longrightarrow> canonicalRest up (s @ t) = canonicalRest up s @ canonicalRest (last s = CHR ''-'') t"
proof (induction s arbitrary: up)
  case (Cons ch s)
  then show ?case by (cases s) simp_all
qed simp

lemma metadata_key:
  "\<exists>t. CanonicalHeaderKey (''X-Metadata-'' @ k) = ''X-Metadata-'' @ t"
proof (cases "list_all tokenChar (''X-Metadata-'' @ k)")
  case True
  have "canonicalRest True ''X-Metadata-'' = ''X-Metadata-''" by code_simp
  then have "canonicalRest True (''X-Metadata-'' @ k) = ''X-Metadata-'' @ canonicalRest True k"
    using canonicalRest_append [of "''X-Metadata-''" True k] by simp
  then show ?thesis using True unfolding CanonicalHeaderKey_def by metis
next
  case False
  then show ?thesis unfolding CanonicalHeaderKey_def by metis
qed

lemma metadata_key_other:
  assumes "j \<in> set identityKeys"
  shows "j \<noteq> CanonicalHeaderKey (''X-Metadata-'' @ k)"
proof -
  obtain t where "CanonicalHeaderKey (''X-Metadata-'' @ k) = ''X-Metadata-'' @ t" using metadata_key by blast
  with assms show ?thesis by (auto simp: identityKeys_def)
qed

lemma metadataHeader_get:
  assumes "j \<in> set identityKeys"
  shows "gm_get (metadataHeader kvs h) j = gm_get h j"
  unfolding metadataHeader_def
proof (induction kvs arbitrary: h)
  case (Cons kv kvs)
  then show ?case using metadata_key_other [OF assms, of "fst kv"]
    by (simp add: gm_set_def gm_get_update case_prod_beta)
qed simp

lemma uploadHeader_identity:
  assumes "j \<in> set identityKeys"
  shows "gm_get (uploadHeader env c ord opts) j = gm_get (identityHeader c (gm_set [] ''Content-Type'' (multipartType env))) j"
proof -
  have "j \<noteq> ''X-Username''" "j \<noteq> ''Content-Encoding''" using assms by (auto simp: identityKeys_def)
  then show ?thesis
    using metadataHeader_get [OF assms] by (simp add: uploadHeader_def Let_def gm_set_def gm_get_update)
qed

lemma upload_identified:
  assumes "\<forall>k \<in> set identityKeys. gm_get h k = gm_get (identityHeader c (gm_set [] ''Content-Type'' (multipartType env))) k"
  shows "identified c \<lparr>eq_Method = m, eq_URL = filesURL c path, eq_Header = h, eq_Body = body\<rparr>"
  by (rule identified_header [where h = "gm_set [] ''Content-Type'' (multipartType env)"])
    (use assms in \<open>simp_all add: gm_set_def gm_get_def\<close>)

lemma download_identified:
  "identified c \<lparr>eq_Method = m, eq_URL = filesURL c path, eq_Header = identityHeader c [], eq_Body = body\<rparr>"
  by (rule identified_header [where h = "[]"]) (simp_all add: gm_get_def)

lemma doConnectRPC_keeps:
  "keeps env c P \<Longrightarrow> P w \<Longrightarrow> P (snd (doConnectRPC env c service method req decode zero w))"
  using keepsD [OF _ rpc_identified, of env c P w]
  by (fastforce simp: doConnectRPC_def split: sum.splits prod.splits option.splits)

lemma doConnectRPCStream_keeps:
  "keeps env c P \<Longrightarrow> P w \<Longrightarrow> P (snd (doConnectRPCStream env c service method req w))"
  using keepsD [OF _ rpc_identified, of env c P w]
  by (fastforce simp: doConnectRPCStream_def split: sum.splits prod.splits)

lemma sendUpload_keeps:
  assumes "\<forall>k \<in> set identityKeys. gm_get h k = gm_get (identityHeader c (gm_set [] ''Content-Type'' (multipartType env))) k"
    and "keeps env c P" and "P w"
  shows "P (snd (sendUpload env c h path reader w))"
  using keepsD [OF assms(2) upload_identified [OF assms(1)] assms(3)] assms(3)
  by (fastforce simp: sendUpload_def split: sum.splits prod.splits)

lemma DownloadFile_keeps: "keeps env c P \<Longrightarrow> P w \<Longrightarrow> P (snd (Envd_DownloadFile env c path w))"
  using keepsD [OF _ download_identified, of env c P w]
  by (fastforce simp: Envd_DownloadFile_def split: sum.splits prod.splits)

lemma snd_wrapRes [simp]: "snd (wrapRes fmt args rw) = snd rw"
  by (auto simp: wrapRes_def split: prod.splits sum.splits)

text \<open>The calls of a client, for sequences of them.\<close>

datatype envdCall =
    CStat string
  | CListDir string "32 word"
  | CMakeDir string
  | CRemove string
  | CMove string string
  | CUpload string "string go_res"
  | CUploadWithOptions "string list" UploadFileOptions
  | CDownload string
  | CStartAndWait StartProcessRequest
  | CRun string string strmap
  | CListProcesses
  | CSendSignal "32 word" "32 word"

fun runCall :: "'w envdEnv \<Rightarrow> envdClient \<Rightarrow> envdCall \<Rightarrow> 'w \<Rightarrow> 'w" where
  "runCall env c (CStat path) w = snd (Envd_Stat env c path w)"
| "runCall env c (CListDir path depth) w = snd (Envd_ListDir env c path depth w)"
| "runCall env c (CMakeDir path) w = snd (Envd_MakeDir env c path w)"
| "runCall env c (CRemove path) w = snd (Envd_Remove env c path w)"
| "runCall env c (CMove src dst) w = snd (Envd_Move env c src dst w)"
| "runCall env c (CUpload path reader) w = snd (Envd_UploadFile env c path reader w)"
| "runCall env c (CUploadWithOptions ord opts) w = snd (UploadFileWithOptions env c ord opts w)"
| "runCall env c (CDownload path) w = snd (Envd_DownloadFile env c path w)"
| "runCall env c (CStartAndWait req) w = snd (StartProcessAndWait env c req w)"
| "runCall env c (CRun command cwd envs) w = snd (Envd_RunCommand env c command cwd envs w)"
| "runCall env c CListProcesses w = snd (Envd_ListProcesses env c w)"
| "runCall env c (CSendSignal pid signal) w = snd (SendSignal env c pid signal w)"

lemma StartProcessAndWait_keeps:
  assumes "keeps env c P" and "P w"
  shows "P (snd (StartProcessAndWait env c req w))"
  using doConnectRPCStream_keeps [OF assms, of ProcessService "''Start''" "MStart req"]
  by (auto simp: StartProcessAndWait_def StartProcess_def split: sum.splits prod.splits)

lemma runCall_keeps: "keeps env c P \<Longrightarrow> P w \<Longrightarrow> P (runCall env c op w)"
  by (cases op)
    (simp_all add: Envd_Stat_def Envd_ListDir_def Envd_MakeDir_def Envd_Remove_def Envd_Move_def Envd_UploadFile_def
      UploadFileWithOptions_def Envd_RunCommand_def Envd_ListProcesses_def SendSignal_def doConnectRPC_keeps
      sendUpload_keeps uploadHeader_identity DownloadFile_keeps StartProcessAndWait_keeps)

text \<open>
  C36: Everything an envd client sends is addressed to its own sandbox and authenticated as it was configured.
  In any sequence of calls (metadata, directories, uploads with any options, downloads, processes, signals),
  every HTTP request the transport sees goes to the client's endpoint, carries the headers of its sandbox,
  and carries the access token, in both headers, exactly when the client has one: so any property of the world that the
  transport keeps on such requests holds after the calls.
\<close>

theorem envd_requests_identified:
  assumes "keeps env c P" and "P w"
  shows "P (fold (runCall env c) calls w)"
  using assms(2) runCall_keeps [OF assms(1)] by (induction calls arbitrary: w) simp_all

text \<open>The transport that records the requests and answers all of them.\<close>

definition recordingEnv :: "(envdRequest list) envdEnv" where
  "recordingEnv =
     \<lparr>en_newRequest = (\<lambda>_ _. True), en_http = (\<lambda>t q log. (Inr \<lparr>es_StatusCode = 200, es_Body = [], es_ReadErr = None\<rparr>, log @ [q])),
      en_marshal = (\<lambda>_. Inr []), en_boundary = ''b'', en_escapeQuotes = (\<lambda>s. s),
      en_StatResponse = (\<lambda>_. Inr None), en_ListDirResponse = (\<lambda>_. Inr []), en_ListProcessesResponse = (\<lambda>_. Inr []),
      en_event = (\<lambda>_. Inr None)\<rparr>"

definition sampleClient :: envdClient where
  "sampleClient = envd_NewClient \<lparr>ecf_BaseURL = ''http://10.0.0.7:49983'', ecf_AccessToken = ''t'', ecf_SandboxID = ''sbx'', ecf_Timeout = 0\<rparr>"

theorem envd_requests_identified_witness:
  "list_all (identified sampleClient)
     (fold (runCall recordingEnv sampleClient)
        [CMakeDir ''/tmp/a b'', CUploadWithOptions [''authorization''] \<lparr>ufo_Path = ''/x'', ufo_Reader = Inr ''data'', ufo_Username = ''u'',
           ufo_Gzip = True, ufo_Metadata = [(''authorization'', ''evil'')]\<rparr>, CDownload ''/x''] [])"
  by (rule envd_requests_identified) (simp_all add: keeps_def recordingEnv_def)

text \<open>Enough requests were recorded for that to mean something.\<close>

lemma recording_records:
  "length (fold (runCall recordingEnv c) [CMakeDir p, CUpload q (Inr d), CDownload r] []) = 3"
  by (simp add: Envd_MakeDir_def Envd_UploadFile_def sendUpload_def Envd_DownloadFile_def doConnectRPC_def recordingEnv_def)

section \<open>A command and its output\<close>

text \<open>
  A command the daemon runs: when it answers with the events of a process that ended without error, the caller
  gets the decoded output and the exit code.
\<close>

lemma run_command_output:
  assumes "en_marshal env (MStart (shellRequest command cwd envs)) = Inr body"
    and "en_newRequest env ''POST'' (rpcURL c ProcessService ''Start'')"
    and "\<And>q. identified c q \<Longrightarrow> eq_Method q = ''POST'' \<Longrightarrow> eq_Body q = wire \<lparr>e_Flags = 0, e_Payload = body\<rparr> \<Longrightarrow>
           en_http env (ec_timeout c) q w = (Inr \<lparr>es_StatusCode = 200, es_Body = concat (map wire es), es_ReadErr = None\<rparr>, w')"
    and "\<forall>e \<in> set es. sendable e \<and> \<not> IsEndStream e"
    and "list_all2 (\<lambda>e ev. en_event env (e_Payload e) = Inr (Some ev)) es (evs @ [ev])"
    and "\<forall>ev \<in> set evs. pe_End ev = None" and "pe_End ev = Some en" and "ee_Error en = []"
  shows "Envd_RunCommand env c command cwd envs w =
    (\<lparr>wr_stdout = stringOf (concat (map (decodedOf de_Stdout) (evs @ [ev]))),
      wr_stderr = stringOf (concat (map (decodedOf de_Stderr) (evs @ [ev]))),
      wr_exitCode = ee_ExitCode en, wr_err = None\<rparr>, w')"
proof -
  have "doConnectRPCStream env c ProcessService ''Start'' (MStart (shellRequest command cwd envs)) w = (Inr (concat (map wire es)), w')"
    using assms(1,2) by (simp add: doConnectRPCStream_def EncodeEnvelope_wire assms(3) rpc_identified)
  then show ?thesis
    using read_all_collects_output [OF assms(4-8)]
    by (simp add: Envd_RunCommand_def StartProcessAndWait_def StartProcess_def waitResultOf_def)
qed

section \<open>Observations\<close>

text \<open>With the option Gzip the request is declared as compressed, and its body is the plain multipart body all the same.\<close>

lemma gzip_is_only_declared:
  "gm_get (uploadHeader env c ord (opts\<lparr>ufo_Gzip := True\<rparr>)) ''Content-Encoding'' = Some ''gzip'' \<and>
   snd (UploadFileWithOptions recordingEnv c ord (\<lparr>ufo_Path = p, ufo_Reader = Inr d, ufo_Username = u, ufo_Gzip = True, ufo_Metadata = m\<rparr>) []) =
     [\<lparr>eq_Method = ''POST'', eq_URL = filesURL c p,
       eq_Header = uploadHeader recordingEnv c ord \<lparr>ufo_Path = p, ufo_Reader = Inr d, ufo_Username = u, ufo_Gzip = True, ufo_Metadata = m\<rparr>,
       eq_Body = multipartBody recordingEnv (filepathBase p) d\<rparr>]"
  by (simp add: uploadHeader_def Let_def gm_set_def gm_get_update UploadFileWithOptions_def sendUpload_def recordingEnv_def)

text \<open>The exit code and the output of a command whose stream broke are not those of the command: -1 and nothing.\<close>

lemma run_command_not_started:
  "\<not> en_newRequest env ''POST'' (rpcURL c ProcessService ''Start'') \<Longrightarrow>
   wr_exitCode (fst (Envd_RunCommand env c command cwd envs w)) = -1 \<and> wr_err (fst (Envd_RunCommand env c command cwd envs w)) \<noteq> None"
  by (auto simp: Envd_RunCommand_def StartProcessAndWait_def StartProcess_def doConnectRPCStream_def split: sum.splits prod.splits)

end
