(* ===== verification/Agent_Sandbox.thy ===== *)
theory Agent_Sandbox
  imports OpenSandbox_Adapter Envd_Client
begin

text \<open>
  The adapter of the Kubernetes agent-sandbox (\<open>internal/adapter/agentsandbox/adapter.go\<close>): sandboxes are claims
  on warm pools, templates are custom resources, and the data plane is either the daemon \<open>envd\<close> in the pod or
  the handle of the agent-sandbox SDK.

  The SDK and the Kubernetes clients are the record \<open>agentServices\<close> of functions over the outside world \<open>'w\<close>;
  a sandbox object of the SDK is a value of \<open>'s\<close>.  A quantity of the Kubernetes library is the text it
  was parsed from.  Random bytes are arguments and \<open>clk\<close> gives the successive readings of the clock of one
  call; the order of a range over a map is an argument.  A panic is the result None.
\<close>

section \<open>The SDK and the Kubernetes clients\<close>

record sdkOptions =
  op_WarmPoolName :: string
  op_Namespace :: string
  op_GatewayName :: string
  op_GatewayNamespace :: string
  op_APIURL :: string
  op_Quiet :: bool
  op_Env :: "(string \<times> string) list"

record sdkResult =
  sx_Stdout :: string
  sx_Stderr :: string
  sx_ExitCode :: int

record sdkFile =
  sf_Name :: string
  sf_Size :: int
  sf_IsDirectory :: bool

record k8sContainer =
  co_Name :: string
  co_Image :: string
  co_Requests :: strmap

record SandboxTemplate =
  ct_Name :: string
  ct_Namespace :: string
  ct_CreatedAt :: time
  ct_Annotations :: "strmap option"
  ct_Containers :: "k8sContainer list"
  ct_RestartPolicy :: string

record k8sPod =
  pod_IP :: string
  pod_Phase :: string

text \<open>\<open>k8_GetClaim\<close> gives the name of the sandbox bound to the claim; \<open>as_timeJSON\<close> is \<open>json.Marshal\<close> on an
  instant; \<open>as_Value\<close> and \<open>as_MilliValue\<close> read a quantity; \<open>as_scanInt\<close> and \<open>as_scanPID\<close> are \<open>fmt.Sscanf\<close> with the
  formats \<open>%d\<close> and \<open>%d%s\<close>.\<close>

record ('s, 'w) agentServices =
  sk_New :: "sdkOptions \<Rightarrow> 'w \<Rightarrow> 's go_res \<times> 'w"
  sk_Open :: "'s \<Rightarrow> 'w \<Rightarrow> go_error option \<times> 'w"
  sk_ClaimName :: "'s \<Rightarrow> 'w \<Rightarrow> string"
  sk_IsReady :: "'s \<Rightarrow> 'w \<Rightarrow> bool"
  sk_CreateSandbox :: "string \<Rightarrow> string \<Rightarrow> 'w \<Rightarrow> 's go_res \<times> 'w"
  sk_ListAllSandboxes :: "string \<Rightarrow> 'w \<Rightarrow> (string list) go_res \<times> 'w"
  sk_GetSandbox :: "string \<Rightarrow> string \<Rightarrow> 'w \<Rightarrow> 's go_res \<times> 'w"
  sk_DeleteSandbox :: "string \<Rightarrow> string \<Rightarrow> 'w \<Rightarrow> go_error option \<times> 'w"
  sk_Run :: "'s \<Rightarrow> string \<Rightarrow> 'w \<Rightarrow> sdkResult go_res \<times> 'w"
  sk_Write :: "'s \<Rightarrow> string \<Rightarrow> string \<Rightarrow> 'w \<Rightarrow> go_error option \<times> 'w"
  sk_Read :: "'s \<Rightarrow> string \<Rightarrow> 'w \<Rightarrow> string go_res \<times> 'w"
  sk_List :: "'s \<Rightarrow> string \<Rightarrow> 'w \<Rightarrow> (sdkFile list) go_res \<times> 'w"
  k8_PatchSandbox :: "string \<Rightarrow> string \<Rightarrow> string \<Rightarrow> 'w \<Rightarrow> go_error option \<times> 'w"
  k8_PatchClaim :: "string \<Rightarrow> string \<Rightarrow> string \<Rightarrow> 'w \<Rightarrow> go_error option \<times> 'w"
  k8_GetClaim :: "string \<Rightarrow> string \<Rightarrow> 'w \<Rightarrow> string go_res \<times> 'w"
  k8_GetPod :: "string \<Rightarrow> string \<Rightarrow> 'w \<Rightarrow> k8sPod go_res \<times> 'w"
  k8_ListTemplates :: "string \<Rightarrow> 'w \<Rightarrow> (SandboxTemplate list) go_res \<times> 'w"
  k8_GetTemplate :: "string \<Rightarrow> string \<Rightarrow> 'w \<Rightarrow> SandboxTemplate go_res \<times> 'w"
  k8_CreateTemplate :: "string \<Rightarrow> SandboxTemplate \<Rightarrow> 'w \<Rightarrow> SandboxTemplate go_res \<times> 'w"
  k8_UpdateTemplate :: "string \<Rightarrow> SandboxTemplate \<Rightarrow> 'w \<Rightarrow> go_error option \<times> 'w"
  k8_DeleteTemplate :: "string \<Rightarrow> string \<Rightarrow> 'w \<Rightarrow> go_error option \<times> 'w"
  as_timeJSON :: "time \<Rightarrow> string go_res"
  as_Value :: "string \<Rightarrow> int"
  as_MilliValue :: "string \<Rightarrow> int"
  as_quoteOther :: "string \<Rightarrow> string"
  as_scanInt :: "string \<Rightarrow> int option"
  as_scanPID :: "string \<Rightarrow> nat \<times> int \<times> go_error option"
  as_envd :: "'w envdEnv"

section \<open>State\<close>

record sandboxEntry =
  se_claimName :: string
  se_templateID :: string
  se_createdAt :: time
  se_metadata :: strmap

record envdClientEntry =
  ece_client :: envdClient
  ece_createdAt :: time

definition envdClientTTL :: duration where
  "envdClientTTL = 5 * minute"

record agentAdapter =
  ag_name :: string
  ag_namespace :: string
  ag_idMap :: "(string, sandboxEntry) gomap"
  ag_warmPoolMap :: strmap
  ag_tokenCache :: "string cache"
  ag_portTracker :: "(string, (int, bool) gomap) gomap"
  ag_envdClients :: "(string, envdClientEntry) gomap"
  ag_useEnvdDataPlane :: bool
  ag_registry :: "SandboxBackendMap option"
  ag_baseOpts :: sdkOptions

definition envsToEnvVarList :: "string list \<Rightarrow> strmap \<Rightarrow> (string \<times> string) list" where
  "envsToEnvVarList ord envs = (if gm_len envs = 0 then [] else gm_range envs ord)"

definition optionsWithEnv :: "string list \<Rightarrow> sdkOptions \<Rightarrow> string \<Rightarrow> string \<Rightarrow> strmap \<Rightarrow> sdkOptions" where
  "optionsWithEnv ord base warmPool namespace envs =
     base\<lparr>op_WarmPoolName := warmPool, op_Namespace := namespace, op_Env := envsToEnvVarList ord envs\<rparr>"

text \<open>\<open>New\<close>: the first two arguments are the errors of the helper's and of the client's constructors.\<close>

definition Agent_New ::
  "go_error option \<Rightarrow> (sdkOptions \<Rightarrow> go_error option) \<Rightarrow> asAdapterConfig \<Rightarrow> SandboxBackendMap option \<Rightarrow> agentAdapter go_res" where
  "Agent_New newHelper newClient cfg registry =
     (let namespace = (if ac_Namespace cfg = [] then ''default'' else ac_Namespace cfg);
          gatewayNamespace = (if ac_GatewayNamespace cfg = [] then ''default'' else ac_GatewayNamespace cfg);
          opts = \<lparr>op_WarmPoolName = ac_WarmPoolName cfg, op_Namespace = namespace, op_GatewayName = ac_GatewayName cfg,
                  op_GatewayNamespace = gatewayNamespace, op_APIURL = ac_APIURL cfg, op_Quiet = True, op_Env = []\<rparr>
      in case newHelper of
           Some err \<Rightarrow> Inl (wrapf ''creating k8s helper: %w'' [] err)
         | None \<Rightarrow>
             (case newClient opts of
                Some err \<Rightarrow> Inl (wrapf ''creating sandbox client: %w'' [] err)
              | None \<Rightarrow>
                  Inr \<lparr>ag_name = ac_Name cfg, ag_namespace = namespace, ag_idMap = [],
                       ag_warmPoolMap = gm_copy [] (ac_TemplateToWarmPool cfg), ag_tokenCache = Cache_New 10000 hour,
                       ag_portTracker = [], ag_envdClients = [], ag_useEnvdDataPlane = ac_UseEnvdDataPlane cfg,
                       ag_registry = registry, ag_baseOpts = opts\<rparr>))"

section \<open>Resolving names\<close>

definition resolveWarmPool :: "agentAdapter \<Rightarrow> string \<Rightarrow> string" where
  "resolveWarmPool a templateID = (case gm_get (ag_warmPoolMap a) templateID of Some wp \<Rightarrow> wp | None \<Rightarrow> templateID)"

text \<open>The error of \<open>resolveClaimName\<close> is always nil.\<close>

definition resolveClaimName :: "agentAdapter \<Rightarrow> string \<Rightarrow> string" where
  "resolveClaimName a sandboxID =
     (case gm_get (ag_idMap a) sandboxID of Some entry \<Rightarrow> se_claimName entry | None \<Rightarrow> sandboxID)"

definition resolveSandboxCRName ::
  "('s, 'w) agentServices \<Rightarrow> agentAdapter \<Rightarrow> string \<Rightarrow> 'w \<Rightarrow> string go_res \<times> 'w" where
  "resolveSandboxCRName svc a sandboxID w =
     (case k8_GetClaim svc (ag_namespace a) (resolveClaimName a sandboxID) w of
        (Inl err, w) \<Rightarrow> (Inl (wrapf ''getting claim: %w'' [] err), w)
      | (Inr name, w) \<Rightarrow>
          if name = [] then (Inl (Errorf ''sandbox not yet bound to claim %s'' [resolveClaimName a sandboxID]), w)
          else (Inr name, w))"

definition getHandle :: "('s, 'w) agentServices \<Rightarrow> agentAdapter \<Rightarrow> string \<Rightarrow> 'w \<Rightarrow> 's go_res \<times> 'w" where
  "getHandle svc a sandboxID w =
     (case sk_GetSandbox svc (resolveClaimName a sandboxID) (ag_namespace a) w of
        (Inl err, w) \<Rightarrow> (Inl (wrapf ''getting sandbox handle: %w'' [] err), w)
      | (Inr sb, w) \<Rightarrow>
          if \<not> sk_IsReady svc sb w
          then (case sk_Open svc sb w of
                  (Some err, w) \<Rightarrow> (Inl (wrapf ''opening sandbox connection: %w'' [] err), w)
                | (None, w) \<Rightarrow> (Inr sb, w))
          else (Inr sb, w))"

section \<open>Access tokens\<close>

definition AG_GetAccessToken ::
  "string go_res \<Rightarrow> string \<Rightarrow> (nat \<Rightarrow> time) \<Rightarrow> agentAdapter \<Rightarrow> AccessToken go_res \<times> agentAdapter" where
  "AG_GetAccessToken random16 sandboxID clk a =
     (case Cache_Get (ag_tokenCache a) sandboxID (clk 0) of
        (Some tokenStr, tc) \<Rightarrow> (Inr \<lparr>at_Token = tokenStr, at_ExpiresAt = clk 1 + hour\<rparr>, a\<lparr>ag_tokenCache := tc\<rparr>)
      | (None, tc) \<Rightarrow>
          (case random16 of
             Inl err \<Rightarrow> (Inl (wrapf ''generating token: %w'' [] err), a\<lparr>ag_tokenCache := tc\<rparr>)
           | Inr b \<Rightarrow>
               (let token = ''envd_'' @ sandboxID @ ''_'' @ hexEncode b
                in (Inr \<lparr>at_Token = token, at_ExpiresAt = clk 2 + hour\<rparr>,
                    a\<lparr>ag_tokenCache := Cache_Set tc sandboxID token (clk 1)\<rparr>))))"

definition AG_ValidateAccessToken :: "string \<Rightarrow> string \<Rightarrow> time \<Rightarrow> agentAdapter \<Rightarrow> bool \<times> agentAdapter" where
  "AG_ValidateAccessToken sandboxID token now a =
     (case Cache_Get (ag_tokenCache a) sandboxID now of
        (cached, tc) \<Rightarrow>
          ((case cached of None \<Rightarrow> False | Some cachedToken \<Rightarrow> cachedToken = token), a\<lparr>ag_tokenCache := tc\<rparr>))"

section \<open>Endpoints\<close>

definition noPodIP :: "string \<Rightarrow> k8sPod \<Rightarrow> go_error" where
  "noPodIP podName pod = Errorf ''pod %q has no IP yet (phase=%s)'' [podName, pod_Phase pod]"

definition AG_GetEnvdEndpoint ::
  "('s, 'w) agentServices \<Rightarrow> string go_res \<Rightarrow> string \<Rightarrow> (nat \<Rightarrow> time) \<Rightarrow> agentAdapter \<times> 'w \<Rightarrow>
   (string \<times> string) go_res \<times> agentAdapter \<times> 'w" where
  "AG_GetEnvdEndpoint svc random16 sandboxID clk st =
     (case st of (a, w) \<Rightarrow>
        (case resolveSandboxCRName svc a sandboxID w of
           (Inl err, w) \<Rightarrow> (Inl (wrapf ''resolving sandbox pod for envd endpoint (sandbox %q): %w'' [sandboxID] err), a, w)
         | (Inr podName, w) \<Rightarrow>
             (case k8_GetPod svc (ag_namespace a) podName w of
                (Inl err, w) \<Rightarrow> (Inl (wrapf ''getting pod %q for envd endpoint: %w'' [podName] err), a, w)
              | (Inr pod, w) \<Rightarrow>
                  if pod_IP pod = [] then (Inl (noPodIP podName pod), a, w)
                  else (case AG_GetAccessToken random16 sandboxID clk a of
                          (tok, a) \<Rightarrow>
                            (Inr (''http://'' @ pod_IP pod @ '':49983'',
                                  case tok of Inl err \<Rightarrow> [] | Inr t \<Rightarrow> at_Token t), a, w)))))"

definition AG_GetPortURL ::
  "('s, 'w) agentServices \<Rightarrow> string \<Rightarrow> int \<Rightarrow> agentAdapter \<times> 'w \<Rightarrow> string go_res \<times> agentAdapter \<times> 'w" where
  "AG_GetPortURL svc sandboxID port st =
     (case st of (a, w) \<Rightarrow>
        (case resolveSandboxCRName svc a sandboxID w of
           (Inl err, w) \<Rightarrow>
             (Inl (wrapf ''resolving sandbox pod for port %d (sandbox %q): %w'' [fmt_int port, sandboxID] err), a, w)
         | (Inr podName, w) \<Rightarrow>
             (case k8_GetPod svc (ag_namespace a) podName w of
                (Inl err, w) \<Rightarrow> (Inl (wrapf ''getting pod %q for port %d: %w'' [podName, fmt_int port] err), a, w)
              | (Inr pod, w) \<Rightarrow>
                  if pod_IP pod = [] then (Inl (noPodIP podName pod), a, w)
                  else (Inr (''http://'' @ pod_IP pod @ '':'' @ fmt_int port),
                        a\<lparr>ag_portTracker :=
                            gm_set (ag_portTracker a) sandboxID (gm_set (gm_get_or [] (ag_portTracker a) sandboxID) port True)\<rparr>,
                        w))))"

definition AG_ListPorts :: "int list \<Rightarrow> agentAdapter \<Rightarrow> string \<Rightarrow> PortInfo list" where
  "AG_ListPorts ord a sandboxID =
     (case gm_get (ag_portTracker a) sandboxID of
        None \<Rightarrow> []
      | Some ports \<Rightarrow> map (\<lambda>(port, ready). \<lparr>po_Port = port, po_Ready = ready\<rparr>) (gm_range ports ord))"

section \<open>The client of the daemon\<close>

text \<open>A cached client that is younger than the time to live.\<close>

definition freshClient :: "agentAdapter \<Rightarrow> string \<Rightarrow> time \<Rightarrow> envdClient option" where
  "freshClient a sandboxID now =
     (case gm_get (ag_envdClients a) sandboxID of
        None \<Rightarrow> None
      | Some entry \<Rightarrow> if now - ece_createdAt entry < envdClientTTL then Some (ece_client entry) else None)"

text \<open>The insertion under the write lock, after the second check.\<close>

definition installEnvd :: "string \<Rightarrow> envdClient \<Rightarrow> time \<Rightarrow> time \<Rightarrow> agentAdapter \<Rightarrow> envdClient \<times> agentAdapter" where
  "installEnvd sandboxID ec checkedAt now a =
     (case freshClient a sandboxID checkedAt of
        Some existing \<Rightarrow> (existing, a)
      | None \<Rightarrow> (ec, a\<lparr>ag_envdClients := gm_set (ag_envdClients a) sandboxID \<lparr>ece_client = ec, ece_createdAt = now\<rparr>\<rparr>))"

text \<open>The readings of the clock: 0 for the first check, 1 to 3 for the token, 4 for the second check, 5 for the entry.\<close>

definition getOrCreateEnvdClient ::
  "('s, 'w) agentServices \<Rightarrow> string go_res \<Rightarrow> string \<Rightarrow> (nat \<Rightarrow> time) \<Rightarrow> agentAdapter \<times> 'w \<Rightarrow>
   envdClient go_res \<times> agentAdapter \<times> 'w" where
  "getOrCreateEnvdClient svc random16 sandboxID clk st =
     (case freshClient (fst st) sandboxID (clk 0) of
        Some client \<Rightarrow> (Inr client, st)
      | None \<Rightarrow>
          (case AG_GetEnvdEndpoint svc random16 sandboxID (\<lambda>i. clk (i + 1)) st of
             (Inl err, st) \<Rightarrow> (Inl (wrapf ''getting envd endpoint: %w'' [] err), st)
           | (Inr (envdURL, token), a, w) \<Rightarrow>
               (case installEnvd sandboxID
                       (envd_NewClient \<lparr>ecf_BaseURL = envdURL, ecf_AccessToken = token, ecf_SandboxID = sandboxID, ecf_Timeout = 0\<rparr>)
                       (clk 4) (clk 5) a of
                  (ec, a) \<Rightarrow> (Inr ec, a, w))))"

text \<open>The methods of the data plane begin with one of these two.\<close>

definition withEnvd ::
  "('s, 'w) agentServices \<Rightarrow> string go_res \<Rightarrow> string \<Rightarrow> (nat \<Rightarrow> time) \<Rightarrow> (envdClient \<Rightarrow> 'w \<Rightarrow> 'x go_res \<times> 'w) \<Rightarrow>
   agentAdapter \<times> 'w \<Rightarrow> 'x go_res \<times> agentAdapter \<times> 'w" where
  "withEnvd svc random16 sandboxID clk call st =
     (case getOrCreateEnvdClient svc random16 sandboxID clk st of
        (Inl err, st) \<Rightarrow> (Inl err, st)
      | (Inr ec, a, w) \<Rightarrow> (case call ec w of (res, w) \<Rightarrow> (res, a, w)))"

definition withHandle ::
  "('s, 'w) agentServices \<Rightarrow> string \<Rightarrow> ('s \<Rightarrow> 'w \<Rightarrow> 'x go_res \<times> 'w) \<Rightarrow> agentAdapter \<times> 'w \<Rightarrow> 'x go_res \<times> agentAdapter \<times> 'w" where
  "withHandle svc sandboxID call st =
     (case st of (a, w) \<Rightarrow>
        (case getHandle svc a sandboxID w of
           (Inl err, w) \<Rightarrow> (Inl err, a, w)
         | (Inr handle, w) \<Rightarrow> (case call handle w of (res, w) \<Rightarrow> (res, a, w))))"

section \<open>Lifecycle\<close>

definition AG_HealthCheck :: "('s, 'w) agentServices \<Rightarrow> agentAdapter \<Rightarrow> 'w \<Rightarrow> go_error option \<times> 'w" where
  "AG_HealthCheck svc a w =
     (case sk_ListAllSandboxes svc (ag_namespace a) w of (Inl err, w) \<Rightarrow> (Some err, w) | (Inr _, w) \<Rightarrow> (None, w))"

definition claimSandbox ::
  "('s, 'w) agentServices \<Rightarrow> string list \<Rightarrow> CreateSandboxRequest \<Rightarrow> agentAdapter \<Rightarrow> 'w \<Rightarrow> 's go_res \<times> 'w" where
  "claimSandbox svc ord req a w =
     (let warmPool = resolveWarmPool a (csr_TemplateID req)
      in if gm_len (csr_Envs req) > 0
         then (case sk_New svc (optionsWithEnv ord (ag_baseOpts a) warmPool (ag_namespace a) (csr_Envs req)) w of
                 (Inl err, w) \<Rightarrow> (Inl (wrapf ''creating sandbox with envs: %w'' [] err), w)
               | (Inr handle, w) \<Rightarrow>
                   (case sk_Open svc handle w of
                      (Some err, w) \<Rightarrow> (Inl (wrapf ''opening sandbox with envs: %w'' [] err), w)
                    | (None, w) \<Rightarrow> (Inr handle, w)))
         else (case sk_CreateSandbox svc warmPool (ag_namespace a) w of
                 (Inl err, w) \<Rightarrow> (Inl (wrapf ''creating sandbox: %w'' [] err), w)
               | (Inr sb, w) \<Rightarrow> (Inr sb, w)))"

text \<open>\<open>CreateSandbox\<close>: None when the random source fails and \<open>MustGenerateE2BID\<close> panics.\<close>

definition AG_CreateSandbox ::
  "('s, 'w) agentServices \<Rightarrow> string list \<Rightarrow> string go_res \<Rightarrow> (nat \<Rightarrow> time) \<Rightarrow> CreateSandboxRequest \<Rightarrow> agentAdapter \<times> 'w \<Rightarrow>
   (Sandbox go_res \<times> agentAdapter \<times> 'w) option" where
  "AG_CreateSandbox svc ord random6 clk req st =
     (case st of (a, w) \<Rightarrow>
        (case claimSandbox svc ord req a w of
           (Inl err, w) \<Rightarrow> Some (Inl err, a, w)
         | (Inr sb, w) \<Rightarrow>
             (case MustGenerateE2BID random6 of
                None \<Rightarrow> None
              | Some e2bID \<Rightarrow>
                  Some (Inr \<lparr>sb_SandboxID = e2bID, sb_TemplateID = csr_TemplateID req, sb_Alias = [], sb_StartedAt = clk 1,
                             sb_EndAt = zeroTime, sb_Status = SandboxStatusRunning, sb_Metadata = csr_Metadata req,
                             sb_ClientID = [], sb_Backend = ag_name a\<rparr>,
                        a\<lparr>ag_idMap := gm_set (ag_idMap a) e2bID
                             \<lparr>se_claimName = sk_ClaimName svc sb w, se_templateID = csr_TemplateID req, se_createdAt = clk 0,
                              se_metadata = csr_Metadata req\<rparr>,
                          ag_registry := map_option (\<lambda>m. SandboxBackendMap_Set m e2bID (ag_name a)) (ag_registry a)\<rparr>, w))))"

text \<open>The sandbox as it is reported, with the data of its entry if it has one.\<close>

definition reported :: "agentAdapter \<Rightarrow> string \<Rightarrow> string \<Rightarrow> Sandbox" where
  "reported a sandboxID status =
     (case gm_get (ag_idMap a) sandboxID of
        None \<Rightarrow>
          \<lparr>sb_SandboxID = sandboxID, sb_TemplateID = [], sb_Alias = [], sb_StartedAt = zeroTime, sb_EndAt = zeroTime,
           sb_Status = status, sb_Metadata = [], sb_ClientID = [], sb_Backend = ag_name a\<rparr>
      | Some entry \<Rightarrow>
          \<lparr>sb_SandboxID = sandboxID, sb_TemplateID = se_templateID entry, sb_Alias = [], sb_StartedAt = se_createdAt entry,
           sb_EndAt = zeroTime, sb_Status = status, sb_Metadata = se_metadata entry, sb_ClientID = [], sb_Backend = ag_name a\<rparr>)"

definition claimToID :: "string list \<Rightarrow> agentAdapter \<Rightarrow> strmap" where
  "claimToID ord a = fold (\<lambda>(id, e) m. gm_set m (se_claimName e) id) (gm_range (ag_idMap a) ord) []"

definition idOfClaim :: "strmap \<Rightarrow> string \<Rightarrow> string" where
  "idOfClaim m claimName = (let e2bID = gm_get_or [] m claimName in if e2bID = [] then claimName else e2bID)"

definition AG_ListSandboxes ::
  "('s, 'w) agentServices \<Rightarrow> string list \<Rightarrow> ListOptions \<Rightarrow> agentAdapter \<times> 'w \<Rightarrow> (Sandbox list) go_res \<times> agentAdapter \<times> 'w" where
  "AG_ListSandboxes svc ord opts st =
     (case st of (a, w) \<Rightarrow>
        (case sk_ListAllSandboxes svc (ag_namespace a) w of
           (Inl err, w) \<Rightarrow> (Inl (wrapf ''listing sandboxes: %w'' [] err), a, w)
         | (Inr claims, w) \<Rightarrow>
             (Inr (map (\<lambda>claimName. reported a (idOfClaim (claimToID ord a) claimName) SandboxStatusRunning) claims), a, w)))"

definition AG_GetSandbox ::
  "('s, 'w) agentServices \<Rightarrow> string \<Rightarrow> agentAdapter \<times> 'w \<Rightarrow> Sandbox go_res \<times> agentAdapter \<times> 'w" where
  "AG_GetSandbox svc sandboxID st =
     (case st of (a, w) \<Rightarrow>
        (case sk_GetSandbox svc (resolveClaimName a sandboxID) (ag_namespace a) w of
           (Inl err, w) \<Rightarrow> (Inl (wrapf ''getting sandbox: %w'' [] err), a, w)
         | (Inr sb, w) \<Rightarrow>
             (Inr (reported a sandboxID (if sk_IsReady svc sb w then SandboxStatusRunning else SandboxStatusStarting)), a, w)))"

definition AG_KillSandbox ::
  "('s, 'w) agentServices \<Rightarrow> string \<Rightarrow> agentAdapter \<times> 'w \<Rightarrow> go_error option \<times> agentAdapter \<times> 'w" where
  "AG_KillSandbox svc sandboxID st =
     (case st of (a, w) \<Rightarrow>
        (case sk_DeleteSandbox svc (resolveClaimName a sandboxID) (ag_namespace a) w of
           (Some err, w) \<Rightarrow> (Some (wrapf ''deleting sandbox: %w'' [] err), a, w)
         | (None, w) \<Rightarrow>
             (None,
              a\<lparr>ag_idMap := gm_del (ag_idMap a) sandboxID,
                ag_portTracker := gm_del (ag_portTracker a) sandboxID,
                ag_envdClients := gm_del (ag_envdClients a) sandboxID,
                ag_registry := map_option (\<lambda>m. SandboxBackendMap_Delete m sandboxID) (ag_registry a)\<rparr>, w)))"

definition modePatch :: "string \<Rightarrow> string" where
  "modePatch mode =
     [CHR ''{'', CHR 0x22] @ ''spec'' @ [CHR 0x22] @ '':{'' @ [CHR 0x22] @ ''operatingMode'' @ [CHR 0x22, CHR '':'', CHR 0x22] @ mode @
     [CHR 0x22] @ ''}}''"

definition AG_PauseSandbox ::
  "('s, 'w) agentServices \<Rightarrow> string \<Rightarrow> agentAdapter \<times> 'w \<Rightarrow> go_error option \<times> agentAdapter \<times> 'w" where
  "AG_PauseSandbox svc sandboxID st =
     (case st of (a, w) \<Rightarrow>
        (case resolveSandboxCRName svc a sandboxID w of
           (Inl err, w) \<Rightarrow> (Some err, a, w)
         | (Inr sandboxName, w) \<Rightarrow>
             (case k8_PatchSandbox svc (ag_namespace a) sandboxName (modePatch ''Suspended'') w of (err, w) \<Rightarrow> (err, a, w))))"

definition AG_ResumeSandbox ::
  "('s, 'w) agentServices \<Rightarrow> string \<Rightarrow> agentAdapter \<times> 'w \<Rightarrow> Sandbox go_res \<times> agentAdapter \<times> 'w" where
  "AG_ResumeSandbox svc sandboxID st =
     (case st of (a, w) \<Rightarrow>
        (case resolveSandboxCRName svc a sandboxID w of
           (Inl err, w) \<Rightarrow> (Inl err, a, w)
         | (Inr sandboxName, w) \<Rightarrow>
             (case k8_PatchSandbox svc (ag_namespace a) sandboxName (modePatch ''Running'') w of
                (Some err, w) \<Rightarrow> (Inl err, a, w)
              | (None, w) \<Rightarrow> AG_GetSandbox svc sandboxID (a, w))))"

definition shutdownPatch :: "string \<Rightarrow> string" where
  "shutdownPatch tsJSON =
     [CHR ''{'', CHR 0x22] @ ''spec'' @ [CHR 0x22] @ '':{'' @ [CHR 0x22] @ ''lifecycle'' @ [CHR 0x22] @ '':{'' @ [CHR 0x22] @ ''shutdownTime'' @
     [CHR 0x22, CHR '':''] @ tsJSON @ ''}}}''"

definition AG_SetTimeout ::
  "('s, 'w) agentServices \<Rightarrow> string \<Rightarrow> duration \<Rightarrow> time \<Rightarrow> agentAdapter \<times> 'w \<Rightarrow> go_error option \<times> agentAdapter \<times> 'w" where
  "AG_SetTimeout svc sandboxID timeout now st =
     (case st of (a, w) \<Rightarrow>
        (case as_timeJSON svc (now + timeout) of
           Inl err \<Rightarrow> (Some (wrapf ''marshaling shutdown time: %w'' [] err), a, w)
         | Inr tsJSON \<Rightarrow>
             (case k8_PatchClaim svc (ag_namespace a) (resolveClaimName a sandboxID) (shutdownPatch tsJSON) w of
                (err, w) \<Rightarrow> (err, a, w))))"

end
