(* ===== verification/Agent_DataPlane.thy ===== *)
theory Agent_DataPlane
  imports Agent_Sandbox
begin

text \<open>
  The data plane of the agent-sandbox adapter (\<open>internal/adapter/agentsandbox/adapter.go\<close>): code, commands, files,
  processes and environment variables, each through the daemon \<open>envd\<close> or through the handle of the SDK, by the
  adapter's switch \<open>useEnvdDataPlane\<close>.
\<close>

section \<open>Code and commands\<close>

text \<open>A finished command of the daemon; an error of any kind takes the place of the result.\<close>

definition envdCommand ::
  "('s, 'w) agentServices \<Rightarrow> string \<Rightarrow> string \<Rightarrow> string \<Rightarrow> strmap \<Rightarrow> (waitResult \<Rightarrow> 'x) \<Rightarrow> envdClient \<Rightarrow> 'w \<Rightarrow> 'x go_res \<times> 'w" where
  "envdCommand svc errFmt command cwd envs out ec w =
     (case Envd_RunCommand (as_envd svc) ec command cwd envs w of
        (r, w) \<Rightarrow> (if wr_err r \<noteq> None then Inl (Errorf errFmt []) else Inr (out r), w))"

definition handleCommand ::
  "('s, 'w) agentServices \<Rightarrow> string \<Rightarrow> string \<Rightarrow> (sdkResult \<Rightarrow> 'x) \<Rightarrow> 's \<Rightarrow> 'w \<Rightarrow> 'x go_res \<times> 'w" where
  "handleCommand svc errFmt command out handle w =
     (case sk_Run svc handle command w of
        (Inl err, w) \<Rightarrow> (Inl (wrapf errFmt [] err), w)
      | (Inr r, w) \<Rightarrow> (Inr (out r), w))"

definition codeResult :: "waitResult \<Rightarrow> CodeExecutionResult" where
  "codeResult r =
     \<lparr>cx_Stdout = wr_stdout r, cx_Stderr = wr_stderr r, cx_ExitCode = sint (wr_exitCode r), cx_Duration = 0, cx_Error = []\<rparr>"

definition executeCodeViaEnvd ::
  "('s, 'w) agentServices \<Rightarrow> string go_res \<Rightarrow> string \<Rightarrow> CodeExecutionRequest \<Rightarrow> (nat \<Rightarrow> time) \<Rightarrow> agentAdapter \<times> 'w \<Rightarrow>
   CodeExecutionResult go_res \<times> agentAdapter \<times> 'w" where
  "executeCodeViaEnvd svc random16 sandboxID req clk =
     withEnvd svc random16 sandboxID clk
       (envdCommand svc ''executing code via envd: %w'' (WrapCodeInCommand (as_quoteOther svc) (cer_Code req) (cer_Language req))
          (cer_Cwd req) (cer_EnvVars req) codeResult)"

definition executeCodeViaHandle ::
  "('s, 'w) agentServices \<Rightarrow> string \<Rightarrow> CodeExecutionRequest \<Rightarrow> agentAdapter \<times> 'w \<Rightarrow> CodeExecutionResult go_res \<times> agentAdapter \<times> 'w" where
  "executeCodeViaHandle svc sandboxID req =
     withHandle svc sandboxID
       (handleCommand svc ''executing code: %w'' (WrapCodeInCommand (as_quoteOther svc) (cer_Code req) (cer_Language req))
          (\<lambda>r. \<lparr>cx_Stdout = sx_Stdout r, cx_Stderr = sx_Stderr r, cx_ExitCode = sx_ExitCode r, cx_Duration = 0, cx_Error = []\<rparr>))"

definition AG_ExecuteCode ::
  "('s, 'w) agentServices \<Rightarrow> string go_res \<Rightarrow> string \<Rightarrow> CodeExecutionRequest \<Rightarrow> (nat \<Rightarrow> time) \<Rightarrow> agentAdapter \<times> 'w \<Rightarrow>
   CodeExecutionResult go_res \<times> agentAdapter \<times> 'w" where
  "AG_ExecuteCode svc random16 sandboxID req clk st =
     (if ag_useEnvdDataPlane (fst st) then executeCodeViaEnvd svc random16 sandboxID req clk st
      else executeCodeViaHandle svc sandboxID req st)"

text \<open>The stream's state is \<open>'h\<close>; the failures of the two middle sends are ignored.\<close>

definition AG_ExecuteCodeStream ::
  "('s, 'w) agentServices \<Rightarrow> (go_error \<Rightarrow> string) \<Rightarrow> string go_res \<Rightarrow> (streamMessage \<Rightarrow> 'h \<Rightarrow> go_error option \<times> 'h) \<Rightarrow> string \<Rightarrow>
   CodeExecutionRequest \<Rightarrow> (nat \<Rightarrow> time) \<Rightarrow> agentAdapter \<times> 'w \<times> 'h \<Rightarrow> go_error option \<times> agentAdapter \<times> 'w \<times> 'h" where
  "AG_ExecuteCodeStream svc errStr random16 send sandboxID req clk st =
     (case st of (a, w, h) \<Rightarrow>
        (case AG_ExecuteCode svc random16 sandboxID req clk (a, w) of
           (Inl err, a, w) \<Rightarrow>
             (case send \<lparr>ms_Type = ''error'', ms_Data = AString (errStr err)\<rparr> h of (e, h) \<Rightarrow> (e, a, w, h))
         | (Inr result, a, w) \<Rightarrow>
             (let h = (if cx_Stdout result \<noteq> []
                       then snd (send \<lparr>ms_Type = ''stdout'', ms_Data = AString (cx_Stdout result)\<rparr> h) else h);
                  h = (if cx_Stderr result \<noteq> []
                       then snd (send \<lparr>ms_Type = ''stderr'', ms_Data = AString (cx_Stderr result)\<rparr> h) else h)
              in case send \<lparr>ms_Type = ''result'', ms_Data = AMap [(''exitCode'', AInt (cx_ExitCode result))]\<rparr> h of
                   (e, h) \<Rightarrow> (e, a, w, h))))"

definition quotedCommand :: "CommandRequest \<Rightarrow> string" where
  "quotedCommand req =
     (if cmd_Args req \<noteq> [] then cmd_Command req @ '' '' @ joinSep '' '' (map ShellQuote (cmd_Args req)) else cmd_Command req)"

definition runCommandViaEnvd ::
  "('s, 'w) agentServices \<Rightarrow> string go_res \<Rightarrow> string \<Rightarrow> CommandRequest \<Rightarrow> (nat \<Rightarrow> time) \<Rightarrow> agentAdapter \<times> 'w \<Rightarrow>
   CommandResult go_res \<times> agentAdapter \<times> 'w" where
  "runCommandViaEnvd svc random16 sandboxID req clk =
     withEnvd svc random16 sandboxID clk
       (envdCommand svc ''running command via envd: %w'' (quotedCommand req) (cmd_Cwd req) (cmd_EnvVars req)
          (\<lambda>r. \<lparr>cr_Stdout = wr_stdout r, cr_Stderr = wr_stderr r, cr_ExitCode = sint (wr_exitCode r), cr_Error = []\<rparr>))"

definition runCommandViaHandle ::
  "('s, 'w) agentServices \<Rightarrow> string \<Rightarrow> CommandRequest \<Rightarrow> agentAdapter \<times> 'w \<Rightarrow> CommandResult go_res \<times> agentAdapter \<times> 'w" where
  "runCommandViaHandle svc sandboxID req =
     withHandle svc sandboxID
       (handleCommand svc ''running command: %w'' (quotedCommand req)
          (\<lambda>r. \<lparr>cr_Stdout = sx_Stdout r, cr_Stderr = sx_Stderr r, cr_ExitCode = sx_ExitCode r, cr_Error = []\<rparr>))"

definition AG_RunCommand ::
  "('s, 'w) agentServices \<Rightarrow> string go_res \<Rightarrow> string \<Rightarrow> CommandRequest \<Rightarrow> (nat \<Rightarrow> time) \<Rightarrow> agentAdapter \<times> 'w \<Rightarrow>
   CommandResult go_res \<times> agentAdapter \<times> 'w" where
  "AG_RunCommand svc random16 sandboxID req clk st =
     (if ag_useEnvdDataPlane (fst st) then runCommandViaEnvd svc random16 sandboxID req clk st
      else runCommandViaHandle svc sandboxID req st)"

section \<open>Files\<close>

definition writeFileViaEnvd ::
  "('s, 'w) agentServices \<Rightarrow> string go_res \<Rightarrow> string \<Rightarrow> FileWriteRequest \<Rightarrow> (nat \<Rightarrow> time) \<Rightarrow> agentAdapter \<times> 'w \<Rightarrow> unit go_res \<times> agentAdapter \<times> 'w" where
  "writeFileViaEnvd svc random16 sandboxID req clk =
     withEnvd svc random16 sandboxID clk (\<lambda>ec. Envd_UploadFile (as_envd svc) ec (fw_Path req) (Inr (fw_Content req)))"

definition writeFileViaHandle ::
  "('s, 'w) agentServices \<Rightarrow> string \<Rightarrow> FileWriteRequest \<Rightarrow> agentAdapter \<times> 'w \<Rightarrow> unit go_res \<times> agentAdapter \<times> 'w" where
  "writeFileViaHandle svc sandboxID req =
     withHandle svc sandboxID (\<lambda>handle w. errRes (sk_Write svc handle (fw_Path req) (fw_Content req) w))"

definition AG_WriteFile ::
  "('s, 'w) agentServices \<Rightarrow> string go_res \<Rightarrow> string \<Rightarrow> FileWriteRequest \<Rightarrow> (nat \<Rightarrow> time) \<Rightarrow> agentAdapter \<times> 'w \<Rightarrow> unit go_res \<times> agentAdapter \<times> 'w" where
  "AG_WriteFile svc random16 sandboxID req clk st =
     (if ag_useEnvdDataPlane (fst st) then writeFileViaEnvd svc random16 sandboxID req clk st
      else writeFileViaHandle svc sandboxID req st)"

definition fileContent :: "string \<Rightarrow> string \<Rightarrow> FileContent" where
  "fileContent path data = \<lparr>fc_Path = path, fc_Content = data, fc_Size = int (length data)\<rparr>"

definition readFileViaEnvd ::
  "('s, 'w) agentServices \<Rightarrow> string go_res \<Rightarrow> string \<Rightarrow> string \<Rightarrow> (nat \<Rightarrow> time) \<Rightarrow> agentAdapter \<times> 'w \<Rightarrow> FileContent go_res \<times> agentAdapter \<times> 'w" where
  "readFileViaEnvd svc random16 sandboxID path clk =
     withEnvd svc random16 sandboxID clk
       (\<lambda>ec w.
          case Envd_DownloadFile (as_envd svc) ec path w of
            (Inl err, w) \<Rightarrow> (Inl err, w)
          | (Inr (data, Some err), w) \<Rightarrow> (Inl err, w)
          | (Inr (data, None), w) \<Rightarrow> (Inr (fileContent path data), w))"

definition readFileViaHandle ::
  "('s, 'w) agentServices \<Rightarrow> string \<Rightarrow> string \<Rightarrow> agentAdapter \<times> 'w \<Rightarrow> FileContent go_res \<times> agentAdapter \<times> 'w" where
  "readFileViaHandle svc sandboxID path =
     withHandle svc sandboxID
       (\<lambda>handle w. case sk_Read svc handle path w of (res, w) \<Rightarrow> (map_sum id (fileContent path) res, w))"

definition AG_ReadFile ::
  "('s, 'w) agentServices \<Rightarrow> string go_res \<Rightarrow> string \<Rightarrow> string \<Rightarrow> (nat \<Rightarrow> time) \<Rightarrow> agentAdapter \<times> 'w \<Rightarrow> FileContent go_res \<times> agentAdapter \<times> 'w" where
  "AG_ReadFile svc random16 sandboxID path clk st =
     (if ag_useEnvdDataPlane (fst st) then readFileViaEnvd svc random16 sandboxID path clk st
      else readFileViaHandle svc sandboxID path st)"

definition uploadFileViaEnvd ::
  "('s, 'w) agentServices \<Rightarrow> string go_res \<Rightarrow> string \<Rightarrow> FileUploadRequest \<Rightarrow> (nat \<Rightarrow> time) \<Rightarrow> agentAdapter \<times> 'w \<Rightarrow> unit go_res \<times> agentAdapter \<times> 'w" where
  "uploadFileViaEnvd svc random16 sandboxID req clk =
     withEnvd svc random16 sandboxID clk (\<lambda>ec. Envd_UploadFile (as_envd svc) ec (fu_Path req) (fu_Reader req))"

definition uploadFileViaHandle ::
  "('s, 'w) agentServices \<Rightarrow> string \<Rightarrow> FileUploadRequest \<Rightarrow> agentAdapter \<times> 'w \<Rightarrow> unit go_res \<times> agentAdapter \<times> 'w" where
  "uploadFileViaHandle svc sandboxID req =
     withHandle svc sandboxID
       (\<lambda>handle w.
          case fu_Reader req of
            Inl err \<Rightarrow> (Inl err, w)
          | Inr data \<Rightarrow> errRes (sk_Write svc handle (fu_Path req) data w))"

definition AG_UploadFile ::
  "('s, 'w) agentServices \<Rightarrow> string go_res \<Rightarrow> string \<Rightarrow> FileUploadRequest \<Rightarrow> (nat \<Rightarrow> time) \<Rightarrow> agentAdapter \<times> 'w \<Rightarrow> unit go_res \<times> agentAdapter \<times> 'w" where
  "AG_UploadFile svc random16 sandboxID req clk st =
     (if ag_useEnvdDataPlane (fst st) then uploadFileViaEnvd svc random16 sandboxID req clk st
      else uploadFileViaHandle svc sandboxID req st)"

definition downloadFileViaEnvd ::
  "('s, 'w) agentServices \<Rightarrow> string go_res \<Rightarrow> string \<Rightarrow> string \<Rightarrow> (nat \<Rightarrow> time) \<Rightarrow> agentAdapter \<times> 'w \<Rightarrow> reader go_res \<times> agentAdapter \<times> 'w" where
  "downloadFileViaEnvd svc random16 sandboxID path clk =
     withEnvd svc random16 sandboxID clk (\<lambda>ec. Envd_DownloadFile (as_envd svc) ec path)"

definition downloadFileViaHandle ::
  "('s, 'w) agentServices \<Rightarrow> string \<Rightarrow> string \<Rightarrow> agentAdapter \<times> 'w \<Rightarrow> reader go_res \<times> agentAdapter \<times> 'w" where
  "downloadFileViaHandle svc sandboxID path =
     withHandle svc sandboxID
       (\<lambda>handle w. case sk_Read svc handle path w of (res, w) \<Rightarrow> (map_sum id (\<lambda>data. (data, None)) res, w))"

definition AG_DownloadFile ::
  "('s, 'w) agentServices \<Rightarrow> string go_res \<Rightarrow> string \<Rightarrow> string \<Rightarrow> (nat \<Rightarrow> time) \<Rightarrow> agentAdapter \<times> 'w \<Rightarrow> reader go_res \<times> agentAdapter \<times> 'w" where
  "AG_DownloadFile svc random16 sandboxID path clk st =
     (if ag_useEnvdDataPlane (fst st) then downloadFileViaEnvd svc random16 sandboxID path clk st
      else downloadFileViaHandle svc sandboxID path st)"

text \<open>The name of an entry that is nil is read: None is that panic.\<close>

definition envdListing :: "(string \<Rightarrow> int option) \<Rightarrow> envd_FileInfo option list \<Rightarrow> (FileInfo list) option" where
  "envdListing scanInt entries =
     (if None \<in> set entries then None
      else Some (map (\<lambda>e. \<lparr>fi_Name = ei_Name (the e), fi_Path = ei_Path (the e), fi_Size = SizeInt64 scanInt e,
                           fi_IsDir = envd_IsDir (the e), fi_ModTime = zeroTime\<rparr>) entries))"

definition listFilesViaEnvd ::
  "('s, 'w) agentServices \<Rightarrow> string go_res \<Rightarrow> string \<Rightarrow> string \<Rightarrow> (nat \<Rightarrow> time) \<Rightarrow> agentAdapter \<times> 'w \<Rightarrow>
   ((FileInfo list) go_res \<times> agentAdapter \<times> 'w) option" where
  "listFilesViaEnvd svc random16 sandboxID path clk st =
     (case withEnvd svc random16 sandboxID clk (\<lambda>ec. Envd_ListDir (as_envd svc) ec path 1) st of
        (Inl err, st) \<Rightarrow> Some (Inl err, st)
      | (Inr entries, st) \<Rightarrow> map_option (\<lambda>fs. (Inr fs, st)) (envdListing (as_scanInt svc) entries))"

definition listFilesViaHandle ::
  "('s, 'w) agentServices \<Rightarrow> string \<Rightarrow> string \<Rightarrow> agentAdapter \<times> 'w \<Rightarrow> (FileInfo list) go_res \<times> agentAdapter \<times> 'w" where
  "listFilesViaHandle svc sandboxID path =
     withHandle svc sandboxID
       (\<lambda>handle w.
          case sk_List svc handle path w of
            (Inl err, w) \<Rightarrow> (Inl err, w)
          | (Inr entries, w) \<Rightarrow>
              (Inr (map (\<lambda>e. \<lparr>fi_Name = sf_Name e, fi_Path = path @ ''/'' @ sf_Name e, fi_Size = sf_Size e,
                              fi_IsDir = sf_IsDirectory e, fi_ModTime = zeroTime\<rparr>) entries), w))"

definition AG_ListFiles ::
  "('s, 'w) agentServices \<Rightarrow> string go_res \<Rightarrow> string \<Rightarrow> string \<Rightarrow> (nat \<Rightarrow> time) \<Rightarrow> agentAdapter \<times> 'w \<Rightarrow>
   ((FileInfo list) go_res \<times> agentAdapter \<times> 'w) option" where
  "AG_ListFiles svc random16 sandboxID path clk st =
     (if ag_useEnvdDataPlane (fst st) then listFilesViaEnvd svc random16 sandboxID path clk st
      else Some (listFilesViaHandle svc sandboxID path st))"

text \<open>A command of the handle whose output is dropped.\<close>

definition runQuiet :: "('s, 'w) agentServices \<Rightarrow> string \<Rightarrow> 's \<Rightarrow> 'w \<Rightarrow> unit go_res \<times> 'w" where
  "runQuiet svc command handle w = (case sk_Run svc handle command w of (res, w) \<Rightarrow> (map_sum id (\<lambda>_. ()) res, w))"

definition makeDirViaEnvd ::
  "('s, 'w) agentServices \<Rightarrow> string go_res \<Rightarrow> string \<Rightarrow> string \<Rightarrow> (nat \<Rightarrow> time) \<Rightarrow> agentAdapter \<times> 'w \<Rightarrow> unit go_res \<times> agentAdapter \<times> 'w" where
  "makeDirViaEnvd svc random16 sandboxID path clk =
     withEnvd svc random16 sandboxID clk (\<lambda>ec. Envd_MakeDir (as_envd svc) ec path)"

definition makeDirViaHandle ::
  "('s, 'w) agentServices \<Rightarrow> string \<Rightarrow> string \<Rightarrow> agentAdapter \<times> 'w \<Rightarrow> unit go_res \<times> agentAdapter \<times> 'w" where
  "makeDirViaHandle svc sandboxID path = withHandle svc sandboxID (runQuiet svc (''mkdir -p '' @ ShellQuote path))"

definition AG_MakeDir ::
  "('s, 'w) agentServices \<Rightarrow> string go_res \<Rightarrow> string \<Rightarrow> string \<Rightarrow> (nat \<Rightarrow> time) \<Rightarrow> agentAdapter \<times> 'w \<Rightarrow> unit go_res \<times> agentAdapter \<times> 'w" where
  "AG_MakeDir svc random16 sandboxID path clk st =
     (if ag_useEnvdDataPlane (fst st) then makeDirViaEnvd svc random16 sandboxID path clk st
      else makeDirViaHandle svc sandboxID path st)"

definition removeFileViaEnvd ::
  "('s, 'w) agentServices \<Rightarrow> string go_res \<Rightarrow> string \<Rightarrow> string \<Rightarrow> (nat \<Rightarrow> time) \<Rightarrow> agentAdapter \<times> 'w \<Rightarrow> unit go_res \<times> agentAdapter \<times> 'w" where
  "removeFileViaEnvd svc random16 sandboxID path clk =
     withEnvd svc random16 sandboxID clk (\<lambda>ec. Envd_Remove (as_envd svc) ec path)"

definition removeFileViaHandle ::
  "('s, 'w) agentServices \<Rightarrow> string \<Rightarrow> string \<Rightarrow> agentAdapter \<times> 'w \<Rightarrow> unit go_res \<times> agentAdapter \<times> 'w" where
  "removeFileViaHandle svc sandboxID path = withHandle svc sandboxID (runQuiet svc (''rm -rf '' @ ShellQuote path))"

definition AG_RemoveFile ::
  "('s, 'w) agentServices \<Rightarrow> string go_res \<Rightarrow> string \<Rightarrow> string \<Rightarrow> (nat \<Rightarrow> time) \<Rightarrow> agentAdapter \<times> 'w \<Rightarrow> unit go_res \<times> agentAdapter \<times> 'w" where
  "AG_RemoveFile svc random16 sandboxID path clk st =
     (if ag_useEnvdDataPlane (fst st) then removeFileViaEnvd svc random16 sandboxID path clk st
      else removeFileViaHandle svc sandboxID path st)"

definition moveFileViaEnvd ::
  "('s, 'w) agentServices \<Rightarrow> string go_res \<Rightarrow> string \<Rightarrow> string \<Rightarrow> string \<Rightarrow> (nat \<Rightarrow> time) \<Rightarrow> agentAdapter \<times> 'w \<Rightarrow> unit go_res \<times> agentAdapter \<times> 'w" where
  "moveFileViaEnvd svc random16 sandboxID src dst clk =
     withEnvd svc random16 sandboxID clk (\<lambda>ec. Envd_Move (as_envd svc) ec src dst)"

definition moveFileViaHandle ::
  "('s, 'w) agentServices \<Rightarrow> string \<Rightarrow> string \<Rightarrow> string \<Rightarrow> agentAdapter \<times> 'w \<Rightarrow> unit go_res \<times> agentAdapter \<times> 'w" where
  "moveFileViaHandle svc sandboxID src dst =
     withHandle svc sandboxID
       (runQuiet svc (''mv '' @ goQuote (as_quoteOther svc) src @ '' '' @ goQuote (as_quoteOther svc) dst))"

definition AG_MoveFile ::
  "('s, 'w) agentServices \<Rightarrow> string go_res \<Rightarrow> string \<Rightarrow> string \<Rightarrow> string \<Rightarrow> (nat \<Rightarrow> time) \<Rightarrow> agentAdapter \<times> 'w \<Rightarrow> unit go_res \<times> agentAdapter \<times> 'w" where
  "AG_MoveFile svc random16 sandboxID src dst clk st =
     (if ag_useEnvdDataPlane (fst st) then moveFileViaEnvd svc random16 sandboxID src dst clk st
      else moveFileViaHandle svc sandboxID src dst st)"

section \<open>Processes\<close>

definition AG_ListProcesses ::
  "('s, 'w) agentServices \<Rightarrow> (string \<Rightarrow> time) \<Rightarrow> string \<Rightarrow> agentAdapter \<times> 'w \<Rightarrow> (ProcessInfo list) go_res \<times> agentAdapter \<times> 'w" where
  "AG_ListProcesses svc now sandboxID =
     withHandle svc sandboxID
       (handleCommand svc ''listing processes: %w'' ''ps aux --no-headers''
          (\<lambda>r. List.map_filter (\<lambda>line. processOf (as_scanInt svc) (now line) line) (split_on (CHR 0x0A) (sx_Stdout r))))"

definition AG_KillProcess ::
  "('s, 'w) agentServices \<Rightarrow> string \<Rightarrow> string \<Rightarrow> agentAdapter \<times> 'w \<Rightarrow> unit go_res \<times> agentAdapter \<times> 'w" where
  "AG_KillProcess svc sandboxID processID =
     withHandle svc sandboxID
       (\<lambda>handle w.
          case as_scanPID svc processID of
            (n, pid, err) \<Rightarrow>
              if n \<noteq> 1 \<or> err \<notin> {None, Some io_EOF}
              then (Inl (Errorf ''invalid process ID %q: must be a numeric PID'' [processID]), w)
              else runQuiet svc (''kill -9 '' @ fmt_int pid) handle w)"

section \<open>Environment variables\<close>

definition buildEtcEnvironmentCmd :: "(string \<Rightarrow> string) \<Rightarrow> string list \<Rightarrow> strmap \<Rightarrow> string" where
  "buildEtcEnvironmentCmd quoteOther ord envs =
     (let envLines = map (\<lambda>(k, v). k @ ''='' @ goQuote quoteOther v) (gm_range envs ord);
          content = joinSep [CHR 0x0A] envLines @ [CHR 0x0A]
      in ''echo '' @ ShellQuote content @ '' >> /etc/environment'')"

definition etcError :: "go_error \<Rightarrow> go_error" where
  "etcError err = wrapf ''writing to /etc/environment: %w'' [] err"

definition setEnvsViaEnvd ::
  "('s, 'w) agentServices \<Rightarrow> string list \<Rightarrow> string go_res \<Rightarrow> string \<Rightarrow> strmap \<Rightarrow> (nat \<Rightarrow> time) \<Rightarrow> agentAdapter \<times> 'w \<Rightarrow>
   unit go_res \<times> agentAdapter \<times> 'w" where
  "setEnvsViaEnvd svc ord random16 sandboxID envs clk =
     withEnvd svc random16 sandboxID clk
       (envdCommand svc ''writing to /etc/environment: %w'' (buildEtcEnvironmentCmd (as_quoteOther svc) ord envs) [] [] (\<lambda>_. ()))"

fun exportAll :: "('s, 'w) agentServices \<Rightarrow> 's \<Rightarrow> (string \<times> string) list \<Rightarrow> 'w \<Rightarrow> unit go_res \<times> 'w" where
  "exportAll svc handle [] w = (Inr (), w)"
| "exportAll svc handle ((k, v) # kvs) w =
     (case runQuiet svc (''export '' @ k @ ''='' @ ShellQuote v) handle w of
        (Inl err, w) \<Rightarrow> (Inl err, w)
      | (Inr _, w) \<Rightarrow> exportAll svc handle kvs w)"

text \<open>The two ranges over the map each have their own order.\<close>

definition setEnvsViaHandle ::
  "('s, 'w) agentServices \<Rightarrow> string list \<Rightarrow> string list \<Rightarrow> string \<Rightarrow> strmap \<Rightarrow> agentAdapter \<times> 'w \<Rightarrow> unit go_res \<times> agentAdapter \<times> 'w" where
  "setEnvsViaHandle svc ord1 ord2 sandboxID envs =
     withHandle svc sandboxID
       (\<lambda>handle w.
          case runQuiet svc (buildEtcEnvironmentCmd (as_quoteOther svc) ord1 envs) handle w of
            (Inl err, w) \<Rightarrow> (Inl (etcError err), w)
          | (Inr _, w) \<Rightarrow> exportAll svc handle (gm_range envs ord2) w)"

definition AG_SetEnvs ::
  "('s, 'w) agentServices \<Rightarrow> string list \<Rightarrow> string list \<Rightarrow> string go_res \<Rightarrow> string \<Rightarrow> strmap \<Rightarrow> (nat \<Rightarrow> time) \<Rightarrow> agentAdapter \<times> 'w \<Rightarrow>
   unit go_res \<times> agentAdapter \<times> 'w" where
  "AG_SetEnvs svc ord1 ord2 random16 sandboxID envs clk st =
     (if ag_useEnvdDataPlane (fst st) then setEnvsViaEnvd svc ord1 random16 sandboxID envs clk st
      else setEnvsViaHandle svc ord1 ord2 sandboxID envs st)"

end
