(* ===== verification/Agent_Templates.thy ===== *)
theory Agent_Templates
  imports Agent_DataPlane
begin

text \<open>
  The templates of the agent-sandbox adapter, which are custom resources of Kubernetes
  (\<open>internal/adapter/agentsandbox/adapter.go\<close>), and the operations the backend does not support.
\<close>

section \<open>Templates\<close>

abbreviation "annotationBuildID \<equiv> ''e2bgateway.io/build-id''"
abbreviation "annotationDockerfile \<equiv> ''e2bgateway.io/dockerfile''"
abbreviation "annotationStartCmd \<equiv> ''e2bgateway.io/start-cmd''"
abbreviation "annotationAliases \<equiv> ''e2bgateway.io/aliases''"
abbreviation "annotationMetadataPrefix \<equiv> ''e2bgateway.io/meta-''"

definition cpuCount :: "('s, 'w) agentServices \<Rightarrow> string \<Rightarrow> int" where
  "cpuCount svc cpuQ =
     (if as_MilliValue svc cpuQ > 0 \<and> as_Value svc cpuQ = 0 then 1 else max 1 (as_Value svc cpuQ))"

text \<open>Go's division of integers truncates toward zero.\<close>

definition memoryMB :: "('s, 'w) agentServices \<Rightarrow> string \<Rightarrow> int" where
  "memoryMB svc memQ =
     (let v = as_Value svc memQ in if v < 0 then - (- v div (1024 * 1024)) else v div (1024 * 1024))"

definition metadataOf :: "string list \<Rightarrow> strmap \<Rightarrow> strmap" where
  "metadataOf ord annotations =
     fold (\<lambda>(k, v) m. if HasPrefix k annotationMetadataPrefix then gm_set m (TrimPrefix k annotationMetadataPrefix) v else m)
       (gm_range annotations ord) []"

definition templateToDomain :: "('s, 'w) agentServices \<Rightarrow> string list \<Rightarrow> SandboxTemplate \<Rightarrow> Template" where
  "templateToDomain svc ord t =
     (let requests = (case ct_Containers t of [] \<Rightarrow> [] | co # _ \<Rightarrow> co_Requests co)
      in \<lparr>t_TemplateID = ct_Name t, t_Name = ct_Name t, t_Description = [],
          t_CPUCount = (case gm_get requests ''cpu'' of None \<Rightarrow> 0 | Some q \<Rightarrow> cpuCount svc q),
          t_MemoryMB = (case gm_get requests ''memory'' of None \<Rightarrow> 0 | Some q \<Rightarrow> memoryMB svc q),
          t_Public = False,
          t_BuildID = (case ct_Annotations t of None \<Rightarrow> [] | Some an \<Rightarrow> gm_get_or [] an annotationBuildID),
          t_Metadata = (case ct_Annotations t of None \<Rightarrow> [] | Some an \<Rightarrow> metadataOf ord an),
          t_CreatedAt = ct_CreatedAt t\<rparr>)"

text \<open>The order of the range over the annotations of a template is \<open>ord\<close> of its name.\<close>

definition AG_ListTemplates ::
  "('s, 'w) agentServices \<Rightarrow> (string \<Rightarrow> string list) \<Rightarrow> ListOptions \<Rightarrow> agentAdapter \<times> 'w \<Rightarrow> (Template list) go_res \<times> agentAdapter \<times> 'w" where
  "AG_ListTemplates svc ord opts st =
     (case st of (a, w) \<Rightarrow>
        (case k8_ListTemplates svc (ag_namespace a) w of
           (Inl err, w) \<Rightarrow> (Inl (wrapf ''listing templates: %w'' [] err), a, w)
         | (Inr items, w) \<Rightarrow> (Inr (map (\<lambda>t. templateToDomain svc (ord (ct_Name t)) t) items), a, w)))"

definition AG_GetTemplate ::
  "('s, 'w) agentServices \<Rightarrow> string list \<Rightarrow> string \<Rightarrow> agentAdapter \<times> 'w \<Rightarrow> Template go_res \<times> agentAdapter \<times> 'w" where
  "AG_GetTemplate svc ord templateID st =
     (case st of (a, w) \<Rightarrow>
        (case k8_GetTemplate svc (ag_namespace a) templateID w of
           (Inl err, w) \<Rightarrow> (Inl (wrapf ''getting template: %w'' [] err), a, w)
         | (Inr t, w) \<Rightarrow> (Inr (templateToDomain svc ord t), a, w)))"

definition setUnlessEmpty :: "string \<Rightarrow> string \<Rightarrow> strmap \<Rightarrow> strmap" where
  "setUnlessEmpty k v m = (if v \<noteq> [] then gm_set m k v else m)"

definition newTemplate :: "string \<Rightarrow> string \<Rightarrow> string \<Rightarrow> CreateTemplateRequest \<Rightarrow> SandboxTemplate" where
  "newTemplate namespace templateID buildID req =
     \<lparr>ct_Name = templateID, ct_Namespace = namespace, ct_CreatedAt = zeroTime,
      ct_Annotations =
        Some (setUnlessEmpty annotationStartCmd (ctr_StartCmd req)
               (setUnlessEmpty annotationDockerfile (ctr_Dockerfile req) [(annotationBuildID, buildID)])),
      ct_Containers =
        [\<lparr>co_Name = ''sandbox'', co_Image = ''python:3.11-slim'',
          co_Requests =
            [(''cpu'', if ctr_CPUCount req > 0 then fmt_int (ctr_CPUCount req) else ''500m''),
             (''memory'', if ctr_MemoryMB req > 0 then fmt_int (ctr_MemoryMB req) @ ''Mi'' else ''512Mi'')]\<rparr>],
      ct_RestartPolicy = ''Always''\<rparr>"

text \<open>\<open>CreateTemplate\<close>: None when one of the two generators of identifiers panics.\<close>

definition AG_CreateTemplate ::
  "('s, 'w) agentServices \<Rightarrow> string go_res \<Rightarrow> string go_res \<Rightarrow> CreateTemplateRequest \<Rightarrow> agentAdapter \<times> 'w \<Rightarrow>
   (TemplateBuild go_res \<times> agentAdapter \<times> 'w) option" where
  "AG_CreateTemplate svc random6a random6b req st =
     (case st of (a, w) \<Rightarrow>
        if ctr_Name req = [] then Some (Inl (Errorf ''template name is required'' []), a, w)
        else
          (case (MustGenerateTemplateID (ctr_Name req) random6a, MustGenerateE2BID random6b) of
             (Some templateID, Some bid) \<Rightarrow>
               (case k8_CreateTemplate svc (ag_namespace a) (newTemplate (ag_namespace a) templateID (''build-'' @ bid) req) w of
                  (Inl err, w) \<Rightarrow> Some (Inl (wrapf ''creating sandbox template: %w'' [] err), a, w)
                | (Inr created, w) \<Rightarrow>
                    Some (Inr \<lparr>tb_TemplateID = ct_Name created, tb_BuildID = ''build-'' @ bid, tb_Status = BuildStatusReady\<rparr>, a, w))
           | _ \<Rightarrow> None))"

definition AG_DeleteTemplate ::
  "('s, 'w) agentServices \<Rightarrow> string \<Rightarrow> agentAdapter \<times> 'w \<Rightarrow> go_error option \<times> agentAdapter \<times> 'w" where
  "AG_DeleteTemplate svc templateID st =
     (case st of (a, w) \<Rightarrow>
        (case k8_DeleteTemplate svc (ag_namespace a) templateID w of
           (err, w) \<Rightarrow> (map_option (wrapf ''deleting sandbox template %q: %w'' [templateID]) err, a, w)))"

definition annotationsOf :: "SandboxTemplate \<Rightarrow> strmap" where
  "annotationsOf t = (case ct_Annotations t of None \<Rightarrow> [] | Some an \<Rightarrow> an)"

definition getTemplateError :: "string \<Rightarrow> go_error \<Rightarrow> go_error" where
  "getTemplateError templateID err = wrapf ''getting sandbox template %q: %w'' [templateID] err"

definition AG_TriggerBuild ::
  "('s, 'w) agentServices \<Rightarrow> string go_res \<Rightarrow> string \<Rightarrow> BuildRequest \<Rightarrow> agentAdapter \<times> 'w \<Rightarrow>
   (TemplateBuild go_res \<times> agentAdapter \<times> 'w) option" where
  "AG_TriggerBuild svc random6 templateID req st =
     (case st of (a, w) \<Rightarrow>
        (case k8_GetTemplate svc (ag_namespace a) templateID w of
           (Inl err, w) \<Rightarrow> Some (Inl (getTemplateError templateID err), a, w)
         | (Inr tmpl, w) \<Rightarrow>
             (case MustGenerateE2BID random6 of
                None \<Rightarrow> None
              | Some bid \<Rightarrow>
                  (case k8_UpdateTemplate svc (ag_namespace a)
                          (tmpl\<lparr>ct_Annotations :=
                             Some (setUnlessEmpty annotationStartCmd (br_StartCmd req)
                                    (setUnlessEmpty annotationDockerfile (br_Dockerfile req)
                                      (gm_set (annotationsOf tmpl) annotationBuildID (''build-'' @ bid))))\<rparr>) w of
                     (Some err, w) \<Rightarrow> Some (Inl (wrapf ''updating sandbox template build: %w'' [] err), a, w)
                   | (None, w) \<Rightarrow>
                       Some (Inr \<lparr>tb_TemplateID = templateID, tb_BuildID = ''build-'' @ bid, tb_Status = BuildStatusReady\<rparr>, a, w)))))"

definition AG_GetBuildStatus ::
  "('s, 'w) agentServices \<Rightarrow> string \<Rightarrow> string \<Rightarrow> agentAdapter \<times> 'w \<Rightarrow> BuildStatus go_res \<times> agentAdapter \<times> 'w" where
  "AG_GetBuildStatus svc templateID buildID st =
     (case st of (a, w) \<Rightarrow>
        (case k8_GetTemplate svc (ag_namespace a) templateID w of
           (Inl err, w) \<Rightarrow> (Inl (getTemplateError templateID err), a, w)
         | (Inr tmpl, w) \<Rightarrow>
             (let currentBuildID = gm_get_or [] (annotationsOf tmpl) annotationBuildID
              in if buildID \<noteq> [] \<and> currentBuildID \<noteq> [] \<and> buildID \<noteq> currentBuildID
                 then (Inr \<lparr>bs_BuildID = buildID, bs_Status = BuildStatusReady, bs_Logs = [], bs_Error = []\<rparr>, a, w)
                 else (Inr \<lparr>bs_BuildID = currentBuildID, bs_Status = BuildStatusReady, bs_Logs = [], bs_Error = []\<rparr>, a, w))))"

section \<open>Aliases\<close>

abbreviation "comma \<equiv> CHR '',''"

definition existingAliases :: "SandboxTemplate \<Rightarrow> string" where
  "existingAliases t = gm_get_or [] (annotationsOf t) annotationAliases"

definition withAliases :: "SandboxTemplate \<Rightarrow> string \<Rightarrow> SandboxTemplate" where
  "withAliases t s = t\<lparr>ct_Annotations := Some (gm_set (annotationsOf t) annotationAliases s)\<rparr>"

definition updateAliases ::
  "('s, 'w) agentServices \<Rightarrow> SandboxTemplate \<Rightarrow> agentAdapter \<times> 'w \<Rightarrow> go_error option \<times> agentAdapter \<times> 'w" where
  "updateAliases svc t st =
     (case st of (a, w) \<Rightarrow>
        (case k8_UpdateTemplate svc (ag_namespace a) t w of
           (err, w) \<Rightarrow> (map_option (wrapf ''updating sandbox template aliases: %w'' []) err, a, w)))"

definition AG_CreateAlias ::
  "('s, 'w) agentServices \<Rightarrow> string \<Rightarrow> string \<Rightarrow> agentAdapter \<times> 'w \<Rightarrow> go_error option \<times> agentAdapter \<times> 'w" where
  "AG_CreateAlias svc templateID alias st =
     (case st of (a, w) \<Rightarrow>
        if alias = [] then (Some (Errorf ''alias is required'' []), a, w)
        else
          (case k8_GetTemplate svc (ag_namespace a) templateID w of
             (Inl err, w) \<Rightarrow> (Some (getTemplateError templateID err), a, w)
           | (Inr tmpl, w) \<Rightarrow>
               (let existing = existingAliases tmpl
                in if list_ex (\<lambda>x. TrimSpace x = alias) (split_on comma existing) then (None, a, w)
                   else updateAliases svc
                          (withAliases tmpl (if existing \<noteq> [] then existing @ '','' @ alias else alias)) (a, w))))"

definition aliasNotFound :: "string \<Rightarrow> string \<Rightarrow> go_error" where
  "aliasNotFound alias templateID = Errorf ''alias %q not found for template %q'' [alias, templateID]"

definition AG_DeleteAlias ::
  "('s, 'w) agentServices \<Rightarrow> string \<Rightarrow> string \<Rightarrow> agentAdapter \<times> 'w \<Rightarrow> go_error option \<times> agentAdapter \<times> 'w" where
  "AG_DeleteAlias svc templateID alias st =
     (case st of (a, w) \<Rightarrow>
        (case k8_GetTemplate svc (ag_namespace a) templateID w of
           (Inl err, w) \<Rightarrow> (Some (getTemplateError templateID err), a, w)
         | (Inr tmpl, w) \<Rightarrow>
             if ct_Annotations tmpl = None then (Some (aliasNotFound alias templateID), a, w)
             else (let parts = map TrimSpace (split_on comma (existingAliases tmpl))
                   in if alias \<notin> set parts then (Some (aliasNotFound alias templateID), a, w)
                      else updateAliases svc
                             (withAliases tmpl (joinSep '','' (filter (\<lambda>x. x \<noteq> alias \<and> x \<noteq> []) parts))) (a, w))))"

section \<open>What the backend does not support\<close>

definition unsupported :: "string \<Rightarrow> go_error" where
  "unsupported what = Errorf (what @ '' not supported by agent-sandbox backend'') []"

definition AG_ListWarmPools :: "WarmPool list" where "AG_ListWarmPools = []"
definition AG_CreateWarmPool :: "WarmPoolCreateRequest \<Rightarrow> WarmPool go_res" where "AG_CreateWarmPool req = Inl (unsupported ''create warm pool'')"
definition AG_GetWarmPool :: "string \<Rightarrow> WarmPool go_res" where "AG_GetWarmPool i = Inl (unsupported ''get warm pool'')"
definition AG_DeleteWarmPool :: "string \<Rightarrow> go_error option" where "AG_DeleteWarmPool i = Some (unsupported ''delete warm pool'')"
definition AG_UpdateWarmPoolSize :: "string \<Rightarrow> int \<Rightarrow> go_error option" where "AG_UpdateWarmPoolSize i n = Some (unsupported ''update warm pool size'')"
definition AG_SendStdin :: "string \<Rightarrow> string \<Rightarrow> string \<Rightarrow> go_error option" where "AG_SendStdin s p d = Some (unsupported ''send stdin'')"
definition AG_CreateSnapshot :: "string \<Rightarrow> SnapshotRequest \<Rightarrow> Snapshot go_res" where "AG_CreateSnapshot s req = Inl (unsupported ''create snapshot'')"
definition AG_ListSnapshots :: "string \<Rightarrow> Snapshot list" where "AG_ListSnapshots s = []"
definition AG_GetLogs :: "string \<Rightarrow> LogEntry list" where "AG_GetLogs s = []"
definition AG_CreateTag :: "string \<Rightarrow> TagRequest \<Rightarrow> Tag go_res" where "AG_CreateTag t req = Inl (unsupported ''create tag'')"
definition AG_ListTags :: "string \<Rightarrow> Tag list" where "AG_ListTags t = []"
definition AG_DeleteTag :: "string \<Rightarrow> string \<Rightarrow> go_error option" where "AG_DeleteTag t n = Some (unsupported ''delete tag'')"

end
