(* ===== verification/Agent_Properties.thy ===== *)
theory Agent_Properties
  imports Agent_Templates
begin

text \<open>
  The properties of the agent-sandbox adapter: the cached clients of the daemon, the life of a sandbox in the adapter's
  maps, the arguments of a command as a shell reads them, and the aliases of a template.
\<close>

section \<open>The cached clients\<close>

text \<open>A client is cached under its own sandbox.\<close>

definition clients_ok :: "agentAdapter \<Rightarrow> bool" where
  "clients_ok a = (\<forall>sid e. gm_get (ag_envdClients a) sid = Some e \<longrightarrow> ec_sandboxID (ece_client e) = sid)"

lemma freshClient_SomeD:
  assumes "freshClient a sid now = Some ec"
  obtains e where "gm_get (ag_envdClients a) sid = Some e" "ece_client e = ec" "now - ece_createdAt e < envdClientTTL"
  using assms that by (auto simp: freshClient_def split: option.splits if_splits)

lemma GetAccessToken_clients [simp]:
  "AG_GetAccessToken r sid clk a = (res, a') \<Longrightarrow> ag_envdClients a' = ag_envdClients a"
  by (auto simp: AG_GetAccessToken_def Let_def split: prod.splits option.splits sum.splits)

lemma GetEnvdEndpoint_clients:
  "AG_GetEnvdEndpoint svc r sid clk (a, w) = (res, a', w') \<Longrightarrow> ag_envdClients a' = ag_envdClients a"
  by (auto simp: AG_GetEnvdEndpoint_def split: prod.splits sum.splits if_splits)

lemma GetEnvdEndpoint_url:
  assumes "AG_GetEnvdEndpoint svc r sid clk (a, w) = (Inr (url, tok), a', w')"
  shows "\<exists>w1 w2 name pod. resolveSandboxCRName svc a sid w = (Inr name, w1) \<and>
           k8_GetPod svc (ag_namespace a) name w1 = (Inr pod, w2) \<and> pod_IP pod \<noteq> [] \<and> url = ''http://'' @ pod_IP pod @ '':49983''"
  using assms by (auto simp: AG_GetEnvdEndpoint_def split: prod.splits sum.splits if_splits)

text \<open>
  C37: The data plane talks to the right pod, and to a recent address of it. When a call gets a client of the daemon for a
  sandbox, the client is the sandbox's own, and it is either a cached one that is less than five minutes old, or a
  new one whose address is the pod's address as Kubernetes reports it now; the new one is in the cache
  afterwards.  That clients are cached under their own sandbox is kept.
\<close>

theorem agent_envd_client_fresh:
  assumes "clients_ok a" and "getOrCreateEnvdClient svc r sid clk (a, w) = (Inr ec, a', w')" and "clk 0 \<le> clk 4"
  shows "clients_ok a' \<and> ec_sandboxID ec = sid \<and>
    ((\<exists>e. gm_get (ag_envdClients a) sid = Some e \<and> ece_client e = ec \<and> clk 0 - ece_createdAt e < 5 * minute \<and> a' = a \<and> w' = w) \<or>
     (\<exists>w1 w2 name pod. resolveSandboxCRName svc a sid w = (Inr name, w1) \<and>
        k8_GetPod svc (ag_namespace a) name w1 = (Inr pod, w2) \<and> ec_baseURL ec = ''http://'' @ pod_IP pod @ '':49983'' \<and>
        gm_get (ag_envdClients a') sid = Some \<lparr>ece_client = ec, ece_createdAt = clk 5\<rparr>))"
proof (cases "freshClient a sid (clk 0)")
  case (Some c)
  then show ?thesis
    using assms(1,2) by (auto simp: getOrCreateEnvdClient_def clients_ok_def envdClientTTL_def elim!: freshClient_SomeD)
next
  case None
  then obtain url tok a1 w1 where g: "AG_GetEnvdEndpoint svc r sid (\<lambda>i. clk (i + 1)) (a, w) = (Inr (url, tok), a1, w1)"
    using assms(2) by (auto simp: getOrCreateEnvdClient_def split: prod.splits sum.splits)
  have same: "ag_envdClients a1 = ag_envdClients a" by (rule GetEnvdEndpoint_clients [OF g])
  have "freshClient a1 sid (clk 4) = None"
    using None assms(3) unfolding freshClient_def same by (auto split: option.splits if_splits)
  then have out: "ec = envd_NewClient \<lparr>ecf_BaseURL = url, ecf_AccessToken = tok, ecf_SandboxID = sid, ecf_Timeout = 0\<rparr>"
    "ag_envdClients a' = gm_set (ag_envdClients a) sid \<lparr>ece_client = ec, ece_createdAt = clk 5\<rparr>"
    using assms(2) None g same by (auto simp: getOrCreateEnvdClient_def installEnvd_def)
  have "ec_sandboxID ec = sid" "ec_baseURL ec = url" unfolding out(1) by (simp_all add: envd_NewClient_def)
  moreover have "clients_ok a'" using assms(1) calculation(1) by (simp add: clients_ok_def out(2))
  ultimately show ?thesis using GetEnvdEndpoint_url [OF g] out(2) by auto
qed

section \<open>The life of a sandbox\<close>

text \<open>Whether the adapter's maps hold anything about a sandbox.\<close>

definition forgotten :: "agentAdapter \<Rightarrow> string \<Rightarrow> bool" where
  "forgotten a sid =
     (gm_get (ag_idMap a) sid = None \<and> gm_get (ag_portTracker a) sid = None \<and> gm_get (ag_envdClients a) sid = None \<and>
      (case ag_registry a of None \<Rightarrow> True | Some m \<Rightarrow> SandboxBackendMap_Get m sid = None))"

text \<open>Two states that agree on all the maps but for one sandbox.\<close>

definition sameElsewhere :: "string \<Rightarrow> agentAdapter \<Rightarrow> agentAdapter \<Rightarrow> bool" where
  "sameElsewhere sid a b =
     (\<forall>s. s \<noteq> sid \<longrightarrow>
        gm_get (ag_idMap b) s = gm_get (ag_idMap a) s \<and> gm_get (ag_portTracker b) s = gm_get (ag_portTracker a) s \<and>
        gm_get (ag_envdClients b) s = gm_get (ag_envdClients a) s \<and>
        map_option (\<lambda>m. SandboxBackendMap_Get m s) (ag_registry b) = map_option (\<lambda>m. SandboxBackendMap_Get m s) (ag_registry a))"

lemma create_effect:
  assumes "AG_CreateSandbox svc ord rnd clk req (a, w) = Some (Inr sb, a', w')"
  shows "\<exists>sdk. claimSandbox svc ord req a w = (Inr sdk, w') \<and> MustGenerateE2BID rnd = Some (sb_SandboxID sb) \<and>
           resolveClaimName a' (sb_SandboxID sb) = sk_ClaimName svc sdk w' \<and>
           (\<forall>m. ag_registry a' = Some m \<longrightarrow> SandboxBackendMap_Get m (sb_SandboxID sb) = Some (ag_name a)) \<and>
           sameElsewhere (sb_SandboxID sb) a a'"
  using assms
  by (auto simp: AG_CreateSandbox_def resolveClaimName_def SandboxBackendMap_Get_def SandboxBackendMap_Set_def
      sameElsewhere_def option.map_comp comp_def split: prod.splits sum.splits option.splits)

lemma kill_effect:
  assumes "AG_KillSandbox svc sid (a, w) = (None, a', w')"
  shows "sk_DeleteSandbox svc (resolveClaimName a sid) (ag_namespace a) w = (None, w') \<and> forgotten a' sid \<and> sameElsewhere sid a a'"
  using assms
  by (auto simp: AG_KillSandbox_def forgotten_def sameElsewhere_def SandboxBackendMap_Get_def SandboxBackendMap_Delete_def
      option.map_comp comp_def split: prod.splits option.splits)

text \<open>
  C38: A sandbox is created and killed as one thing. After a successful create the sandbox's identifier resolves to the
  claim that was made for it and the registry routes it to this backend; a kill deletes exactly
  that claim, afterwards no map of the adapter knows the sandbox, and neither step changes what the maps say
  about any other sandbox.
\<close>

theorem agent_sandbox_lifecycle:
  assumes "AG_CreateSandbox svc ord rnd clk req (a, w) = Some (Inr sb, a1, w1)"
    and "AG_KillSandbox svc (sb_SandboxID sb) (a1, w2) = (None, a2, w3)"
  shows "\<exists>sdk. claimSandbox svc ord req a w = (Inr sdk, w1) \<and>
           (\<forall>m. ag_registry a1 = Some m \<longrightarrow> SandboxBackendMap_Get m (sb_SandboxID sb) = Some (ag_name a)) \<and>
           sk_DeleteSandbox svc (sk_ClaimName svc sdk w1) (ag_namespace a1) w2 = (None, w3) \<and>
           forgotten a2 (sb_SandboxID sb) \<and> sameElsewhere (sb_SandboxID sb) a a2"
proof -
  obtain sdk where c: "claimSandbox svc ord req a w = (Inr sdk, w1)"
    "resolveClaimName a1 (sb_SandboxID sb) = sk_ClaimName svc sdk w1"
    "\<forall>m. ag_registry a1 = Some m \<longrightarrow> SandboxBackendMap_Get m (sb_SandboxID sb) = Some (ag_name a)"
    "sameElsewhere (sb_SandboxID sb) a a1"
    using create_effect [OF assms(1)] by blast
  have k: "forgotten a2 (sb_SandboxID sb)" "sameElsewhere (sb_SandboxID sb) a1 a2"
    "sk_DeleteSandbox svc (resolveClaimName a1 (sb_SandboxID sb)) (ag_namespace a1) w2 = (None, w3)"
    using kill_effect [OF assms(2)] by blast+
  have "sameElsewhere (sb_SandboxID sb) a a2" using c(4) k(2) unfolding sameElsewhere_def by simp
  with c k show ?thesis by auto
qed

section \<open>Arguments\<close>

text \<open>
  How a POSIX shell splits a simple command into words at unquoted blanks.  The word that is being read and whether one
  has begun are carried along.  None: an operator, an expansion, a line break, or a quotation that is not closed.
\<close>

fun readWords :: "shellMode \<Rightarrow> bool \<Rightarrow> string \<Rightarrow> string \<Rightarrow> (string list) option" where
  "readWords Unquoted inWord acc [] = Some (if inWord then [acc] else [])"
| "readWords Single inWord acc [] = None"
| "readWords Double inWord acc [] = None"
| "readWords Single inWord acc (c # cs) =
     (if c = CHR 0x27 then readWords Unquoted True acc cs else readWords Single True (acc @ [c]) cs)"
| "readWords Unquoted inWord acc (c # cs) =
     (if c = CHR 0x27 then readWords Single True acc cs
      else if c = CHR 0x22 then readWords Double True acc cs
      else if c = CHR 0x5C then (case cs of [] \<Rightarrow> None | d # ds \<Rightarrow> readWords Unquoted True (acc @ [d]) ds)
      else if c = CHR '' '' \<or> c = CHR 0x09 then
        map_option (append (if inWord then [acc] else [])) (readWords Unquoted False [] cs)
      else if shellSpecial c then None
      else readWords Unquoted True (acc @ [c]) cs)"
| "readWords Double inWord acc (c # cs) =
     (if c = CHR 0x22 then readWords Unquoted True acc cs
      else if c = CHR ''$'' \<or> c = CHR 0x60 then None
      else if c = CHR 0x5C then
        (case cs of
           [] \<Rightarrow> None
         | d # ds \<Rightarrow>
             if d = CHR 0x22 \<or> d = CHR 0x5C \<or> d = CHR ''$'' \<or> d = CHR 0x60
             then readWords Double True (acc @ [d]) ds
             else readWords Double True (acc @ [c, d]) ds)
      else readWords Double True (acc @ [c]) cs)"

definition shellWords :: "string \<Rightarrow> (string list) option" where
  "shellWords s = readWords Unquoted False [] s"

lemma readWords_then:
  "readWords m b acc s = Some ws \<Longrightarrow>
   readWords m b acc (s @ CHR '' '' # rest) = map_option (append ws) (readWords Unquoted False [] rest)"
proof (induction m b acc s arbitrary: ws rule: readWords.induct)
  case (5 inWord acc c cs)
  show ?case
  proof (cases "c = CHR '' '' \<or> c = CHR 0x09")
    case True
    then have c: "c \<noteq> CHR 0x27" "c \<noteq> CHR 0x22" "c \<noteq> CHR 0x5C" by auto
    then obtain z where z: "readWords Unquoted False [] cs = Some z" "ws = (if inWord then [acc] else []) @ z"
      using 5(6) True by fastforce
    have "readWords Unquoted False [] (cs @ CHR '' '' # rest) = map_option (append z) (readWords Unquoted False [] rest)"
      using 5(4) [OF c True z(1)] .
    then show ?thesis using c True z(2) by (simp add: option.map_comp comp_def)
  next
    case False
    with 5 show ?thesis by (auto split: if_splits list.splits)
  qed
next
  case (6 inWord acc c cs)
  then show ?case by (auto split: if_splits list.splits)
qed (auto split: if_splits)

lemma readWords_quote:
  "readWords Single True acc (concat (map (\<lambda>c. if c = CHR 0x27 then [CHR 0x27, CHR 0x5C, CHR 0x27, CHR 0x27] else [c]) s) @ CHR 0x27 # rest) =
     readWords Unquoted True (acc @ s) rest"
  by (induction s arbitrary: acc) auto

lemma shellWords_quote: "shellWords (ShellQuote s) = Some [s]"
  using readWords_quote [of "[]" s "[]"] by (simp add: shellWords_def ShellQuote_def)

lemma shellWords_then:
  "shellWords s = Some ws \<Longrightarrow> shellWords (s @ '' '' @ rest) = map_option (append ws) (shellWords rest)"
  using readWords_then by (simp add: shellWords_def)

lemma shellWords_args: "shellWords (joinSep '' '' (map ShellQuote args)) = Some args"
proof (induction args rule: induct_list012)
  case (3 x y zs)
  then show ?case using shellWords_then [OF shellWords_quote] by simp
qed (simp_all add: shellWords_quote, simp add: shellWords_def)

text \<open>
  C39: The arguments of a command cannot change the command. Whatever bytes the arguments consist of (blanks, quotes,
  operators, line breaks, substitutions), when the command itself is words to a shell, the line that reaches the
  sandbox through either data plane is read as those words followed by exactly the arguments.
\<close>

theorem agent_arguments_exact:
  assumes "shellWords (cmd_Command req) = Some ws"
  shows "shellWords (quotedCommand req) = Some (ws @ cmd_Args req)"
  using assms shellWords_then [OF assms] by (simp add: quotedCommand_def shellWords_args)

theorem agent_arguments_exact_witness:
  "shellWords (quotedCommand \<lparr>cmd_Command = ''ls -l'', cmd_Args = [''a b; rm -rf /'', ''$(id)''], cmd_Cwd = [], cmd_EnvVars = []\<rparr>) =
     Some [''ls'', ''-l'', ''a b; rm -rf /'', ''$(id)'']"
proof -
  have "shellWords ''ls -l'' = Some [''ls'', ''-l'']" by code_simp
  then show ?thesis
    using agent_arguments_exact [of "\<lparr>cmd_Command = ''ls -l'', cmd_Args = [''a b; rm -rf /'', ''$(id)''], cmd_Cwd = [], cmd_EnvVars = []\<rparr>"]
    by simp
qed

section \<open>Aliases\<close>

text \<open>The aliases of a template: the parts of the annotation that are not blank.\<close>

definition aliasSet :: "SandboxTemplate \<Rightarrow> string set" where
  "aliasSet t = set (filter (\<lambda>x. x \<noteq> []) (map TrimSpace (split_on comma (existingAliases t))))"

definition isAlias :: "string \<Rightarrow> bool" where
  "isAlias alias = (alias \<noteq> [] \<and> comma \<notin> set alias \<and> TrimSpace alias = alias)"

lemma split_on_join:
  "xs \<noteq> [] \<Longrightarrow> \<forall>x \<in> set xs. d \<notin> set x \<Longrightarrow> split_on d (joinSep [d] xs) = xs"
proof (induction xs rule: induct_list012)
  case (3 x y zs)
  then show ?case using split_on_append [of d x "joinSep [d] (y # zs)"] by (simp add: split_on_none)
qed (simp_all add: split_on_none)

lemma set_TrimSpace: "set (TrimSpace s) \<subseteq> set s"
  by (auto simp: TrimSpace_def dest!: set_dropWhileD)

lemma dropWhile_prefix:
  assumes "dropWhile P u = u" and "u = v @ t"
  shows "dropWhile P v = v"
  using assms dropWhile_eq_self_iff [of P u] dropWhile_eq_self_iff [of P v] by (cases v) auto

lemma TrimSpace_idem [simp]: "TrimSpace (TrimSpace s) = TrimSpace s"
proof -
  let ?u = "dropWhile isSpace s" and ?v = "rev (dropWhile isSpace (rev (dropWhile isSpace s)))"
  have "?u = rev (takeWhile isSpace (rev ?u) @ dropWhile isSpace (rev ?u))" by (simp only: takeWhile_dropWhile_id rev_rev_ident)
  also have "\<dots> = ?v @ rev (takeWhile isSpace (rev ?u))" by (simp only: rev_append)
  finally have "?u = ?v @ rev (takeWhile isSpace (rev ?u))" .
  moreover have "dropWhile isSpace ?u = ?u" by simp
  ultimately have "dropWhile isSpace ?v = ?v" using dropWhile_prefix by blast
  then show ?thesis by (simp add: TrimSpace_def)
qed

lemma annotationsOf_withAliases [simp]: "annotationsOf (withAliases t s) = gm_set (annotationsOf t) annotationAliases s"
  by (simp add: annotationsOf_def withAliases_def)

lemma existing_withAliases [simp]: "existingAliases (withAliases t s) = s"
  by (simp add: existingAliases_def)

lemma aliasSet_add:
  assumes "isAlias alias"
  shows "aliasSet (withAliases t (if existingAliases t \<noteq> [] then existingAliases t @ '','' @ alias else alias)) = insert alias (aliasSet t)"
  using assms split_on_append [of comma "existingAliases t" "alias"]
  by (auto simp: aliasSet_def isAlias_def split_on_none)

lemma aliasSet_remove:
  "aliasSet (withAliases t (joinSep '','' (filter (\<lambda>x. x \<noteq> alias \<and> x \<noteq> []) (map TrimSpace (split_on comma (existingAliases t)))))) =
     aliasSet t - {alias}"
proof -
  let ?xs = "filter (\<lambda>x. x \<noteq> alias \<and> x \<noteq> []) (map TrimSpace (split_on comma (existingAliases t)))"
  have parts: "\<forall>x \<in> set ?xs. comma \<notin> set x" using split_on_parts set_TrimSpace by fastforce
  have trim: "map TrimSpace ?xs = ?xs" by (rule map_idI) auto
  have "set (filter (\<lambda>x. x \<noteq> []) (map TrimSpace (split_on comma (joinSep '','' ?xs)))) = set ?xs"
  proof (cases "?xs = []")
    case False
    then show ?thesis unfolding split_on_join [OF False parts] trim by auto
  qed simp
  then show ?thesis unfolding aliasSet_def existing_withAliases by auto
qed

lemma list_ex_alias: "isAlias alias \<Longrightarrow> list_ex (\<lambda>x. TrimSpace x = alias) (split_on comma (existingAliases t)) \<longleftrightarrow> alias \<in> aliasSet t"
  by (auto simp: aliasSet_def isAlias_def list_ex_iff)


section \<open>A sample cluster\<close>

text \<open>The world is the one template of the cluster; every claim is bound and every pod has an address.\<close>

definition sampleTemplate :: SandboxTemplate where
  "sampleTemplate = \<lparr>ct_Name = ''t1'', ct_Namespace = ''default'', ct_CreatedAt = 0, ct_Annotations = Some [(annotationAliases, ''py, web'')],
     ct_Containers = [], ct_RestartPolicy = ''Always''\<rparr>"

definition sampleServices :: "(string, SandboxTemplate) agentServices" where
  "sampleServices =
     \<lparr>sk_New = (\<lambda>opts w. (Inr ''claim-1'', w)), sk_Open = (\<lambda>_ w. (None, w)), sk_ClaimName = (\<lambda>s w. s), sk_IsReady = (\<lambda>_ _. True),
      sk_CreateSandbox = (\<lambda>_ _ w. (Inr ''claim-1'', w)), sk_ListAllSandboxes = (\<lambda>_ w. (Inr [], w)),
      sk_GetSandbox = (\<lambda>c _ w. (Inr c, w)), sk_DeleteSandbox = (\<lambda>_ _ w. (None, w)),
      sk_Run = (\<lambda>_ _ w. (Inr \<lparr>sx_Stdout = [], sx_Stderr = [], sx_ExitCode = 0\<rparr>, w)), sk_Write = (\<lambda>_ _ _ w. (None, w)),
      sk_Read = (\<lambda>_ _ w. (Inr [], w)), sk_List = (\<lambda>_ _ w. (Inr [], w)),
      k8_PatchSandbox = (\<lambda>_ _ _ w. (None, w)), k8_PatchClaim = (\<lambda>_ _ _ w. (None, w)),
      k8_GetClaim = (\<lambda>_ _ w. (Inr ''pod-1'', w)), k8_GetPod = (\<lambda>_ _ w. (Inr \<lparr>pod_IP = ''10.0.0.7'', pod_Phase = ''Running''\<rparr>, w)),
      k8_ListTemplates = (\<lambda>_ w. (Inr [w], w)), k8_GetTemplate = (\<lambda>_ _ w. (Inr w, w)), k8_CreateTemplate = (\<lambda>_ t w. (Inr t, t)),
      k8_UpdateTemplate = (\<lambda>_ t w. (None, t)), k8_DeleteTemplate = (\<lambda>_ _ w. (None, w)),
      as_timeJSON = (\<lambda>_. Inr []), as_Value = (\<lambda>_. 1), as_MilliValue = (\<lambda>_. 1000), as_quoteOther = (\<lambda>s. s),
      as_scanInt = (\<lambda>_. Some 1), as_scanPID = (\<lambda>_. (1, 7, None)),
      as_envd = \<lparr>en_newRequest = (\<lambda>_ _. True), en_http = (\<lambda>t q w. (Inr \<lparr>es_StatusCode = 200, es_Body = [], es_ReadErr = None\<rparr>, w)),
        en_marshal = (\<lambda>_. Inr []), en_boundary = ''b'', en_escapeQuotes = (\<lambda>s. s), en_StatResponse = (\<lambda>_. Inr None),
        en_ListDirResponse = (\<lambda>_. Inr [None]), en_ListProcessesResponse = (\<lambda>_. Inr []), en_event = (\<lambda>_. Inr None)\<rparr>\<rparr>"

definition sampleAgent :: agentAdapter where
  "sampleAgent =
     \<lparr>ag_name = ''k8s'', ag_namespace = ''default'', ag_idMap = [], ag_warmPoolMap = [], ag_tokenCache = Cache_New 10000 hour,
      ag_portTracker = [], ag_envdClients = [], ag_useEnvdDataPlane = True, ag_registry = Some [],
      ag_baseOpts = \<lparr>op_WarmPoolName = [], op_Namespace = [], op_GatewayName = [], op_GatewayNamespace = [], op_APIURL = [], op_Quiet = True, op_Env = []\<rparr>\<rparr>"

lemma sampleServices_simps [simp]:
  "sk_CreateSandbox sampleServices p n w = (Inr ''claim-1'', w)" "sk_ClaimName sampleServices c w = c"
  "sk_DeleteSandbox sampleServices c n w = (None, w)" "k8_GetClaim sampleServices n c w = (Inr ''pod-1'', w)"
  "k8_GetPod sampleServices n c w = (Inr \<lparr>pod_IP = ''10.0.0.7'', pod_Phase = ''Running''\<rparr>, w)"
  "k8_GetTemplate sampleServices n t w = (Inr w, w)" "k8_UpdateTemplate sampleServices n tm w = (None, tm)"
  by (simp_all add: sampleServices_def)

lemma sampleAgent_simps [simp]:
  "ag_name sampleAgent = ''k8s''" "ag_namespace sampleAgent = ''default''" "ag_idMap sampleAgent = []" "ag_warmPoolMap sampleAgent = []"
  "ag_envdClients sampleAgent = []" "ag_registry sampleAgent = Some []" "ag_portTracker sampleAgent = []"
  by (simp_all add: sampleAgent_def)

definition sampleCreate :: CreateSandboxRequest where
  "sampleCreate = \<lparr>csr_TemplateID = ''t1'', csr_Timeout = 60, csr_Alias = [], csr_Envs = [], csr_Metadata = []\<rparr>"


theorem agent_envd_client_fresh_witness:
  "ec_baseURL (projr (fst (getOrCreateEnvdClient sampleServices (Inr ''abc'') ''s1'' (\<lambda>i. int i) (sampleAgent, sampleTemplate)))) =
     ''http://10.0.0.7:49983''"
proof -
  obtain tok a1 where t: "AG_GetAccessToken (Inr ''abc'') ''s1'' (\<lambda>i. int (i + 1)) sampleAgent = (tok, a1)" by fastforce
  have "\<exists>ec a' w'. getOrCreateEnvdClient sampleServices (Inr ''abc'') ''s1'' (\<lambda>i. int i) (sampleAgent, sampleTemplate) = (Inr ec, a', w')"
    using t by (simp add: getOrCreateEnvdClient_def freshClient_def AG_GetEnvdEndpoint_def resolveSandboxCRName_def split: prod.split)
  then obtain ec a' w' where g: "getOrCreateEnvdClient sampleServices (Inr ''abc'') ''s1'' (\<lambda>i. int i) (sampleAgent, sampleTemplate) = (Inr ec, a', w')"
    by blast
  have "clients_ok sampleAgent" by (simp add: clients_ok_def)
  from agent_envd_client_fresh [OF this g] show ?thesis
    by (auto simp: g resolveSandboxCRName_def)
qed

theorem agent_sandbox_lifecycle_witness:
  "\<exists>sb a1 a2. AG_CreateSandbox sampleServices [] (Inr ''abcdef'') (\<lambda>i. int i) sampleCreate (sampleAgent, sampleTemplate) = Some (Inr sb, a1, sampleTemplate) \<and>
     AG_KillSandbox sampleServices (sb_SandboxID sb) (a1, sampleTemplate) = (None, a2, sampleTemplate) \<and> forgotten a2 (sb_SandboxID sb)"
proof -
  have c: "claimSandbox sampleServices [] sampleCreate sampleAgent sampleTemplate = (Inr ''claim-1'', sampleTemplate)"
    by (simp add: claimSandbox_def sampleCreate_def resolveWarmPool_def)
  obtain sb a1 where 1: "AG_CreateSandbox sampleServices [] (Inr ''abcdef'') (\<lambda>i. int i) sampleCreate (sampleAgent, sampleTemplate) = Some (Inr sb, a1, sampleTemplate)"
    using c by (simp add: AG_CreateSandbox_def MustGenerateE2BID_def GenerateE2BID_def del: hexEncode.simps)
  obtain a2 where 2: "AG_KillSandbox sampleServices (sb_SandboxID sb) (a1, sampleTemplate) = (None, a2, sampleTemplate)"
    by (simp add: AG_KillSandbox_def)
  from agent_sandbox_lifecycle [OF 1 2] 1 2 show ?thesis by blast
qed

section \<open>A command and its output\<close>

text \<open>Through the daemon, the output of a process that ended is the result of the call.\<close>

lemma agent_execute_output:
  assumes "ag_useEnvdDataPlane a" and "getOrCreateEnvdClient svc r sid clk (a, w) = (Inr ec, a', w1)"
    and "Envd_RunCommand (as_envd svc) ec (WrapCodeInCommand (as_quoteOther svc) (cer_Code req) (cer_Language req)) (cer_Cwd req) (cer_EnvVars req) w1 =
      (\<lparr>wr_stdout = out, wr_stderr = err, wr_exitCode = code, wr_err = None\<rparr>, w2)"
  shows "AG_ExecuteCode svc r sid req clk (a, w) =
    (Inr \<lparr>cx_Stdout = out, cx_Stderr = err, cx_ExitCode = sint code, cx_Duration = 0, cx_Error = []\<rparr>, a', w2)"
  using assms by (simp add: AG_ExecuteCode_def executeCodeViaEnvd_def withEnvd_def envdCommand_def codeResult_def)

section \<open>What the adapter does not do\<close>

text \<open>A killed sandbox keeps its token: what was accepted before is accepted afterwards.\<close>

lemma agent_kill_keeps_token:
  assumes "AG_KillSandbox svc sid (a, w) = (None, a', w')"
  shows "fst (AG_ValidateAccessToken sid tok t a') = fst (AG_ValidateAccessToken sid tok t a)"
  using assms by (auto simp: AG_KillSandbox_def AG_ValidateAccessToken_def split: prod.splits option.splits)

text \<open>The answer for a cached token promises a whole hour, whenever the token was made.\<close>

lemma agent_cached_token_expiry:
  assumes "Cache_Get (ag_tokenCache a) sid (clk 0) = (Some tok, tc)"
  shows "fst (AG_GetAccessToken r sid clk a) = Inr \<lparr>at_Token = tok, at_ExpiresAt = clk 1 + hour\<rparr>"
  using assms by (simp add: AG_GetAccessToken_def)

text \<open>A sandbox with variables that cannot be opened leaves its claim behind: the adapter's state is as before and no
  deletion is sent, the world is the one in which opening failed.\<close>

lemma agent_open_failure_leaks_claim:
  assumes "gm_len (csr_Envs req) > 0"
    and "sk_New svc (optionsWithEnv ord (ag_baseOpts a) (resolveWarmPool a (csr_TemplateID req)) (ag_namespace a) (csr_Envs req)) w = (Inr handle, w1)"
    and "sk_Open svc handle w1 = (Some err, w2)"
  shows "AG_CreateSandbox svc ord rnd clk req (a, w) = Some (Inl (wrapf ''opening sandbox with envs: %w'' [] err), a, w2)"
  using assms by (simp add: AG_CreateSandbox_def claimSandbox_def)

text \<open>The timeout and the alias of a create request reach the cluster in no way.\<close>

lemma agent_timeout_ignored:
  "AG_CreateSandbox svc ord rnd clk (req\<lparr>csr_Timeout := n, csr_Alias := x\<rparr>) st = AG_CreateSandbox svc ord rnd clk req st"
proof -
  have eqs: "csr_TemplateID (req\<lparr>csr_Timeout := n, csr_Alias := x\<rparr>) = csr_TemplateID req"
    "csr_Envs (req\<lparr>csr_Timeout := n, csr_Alias := x\<rparr>) = csr_Envs req"
    "csr_Metadata (req\<lparr>csr_Timeout := n, csr_Alias := x\<rparr>) = csr_Metadata req" by simp_all
  show ?thesis unfolding AG_CreateSandbox_def claimSandbox_def eqs ..
qed

text \<open>Through the handle, the two paths of a move are Go literals and not shell words: a path with a substitution is
  run by the shell.\<close>

lemma agent_move_not_quoted:
  "goQuote (\<lambda>s. s) ''$(id)'' = [CHR 0x22] @ ''$(id)'' @ [CHR 0x22] \<and> shellWords (''mv '' @ goQuote (\<lambda>s. s) ''$(id)'') = None"
  by code_simp

text \<open>Processes are listed and killed through the handle even when the data plane is the daemon.\<close>

lemma agent_processes_ignore_data_plane:
  assumes "getHandle svc a sid w = (Inl err, w')"
  shows "AG_ListProcesses svc now sid (a, w) = (Inl err, a, w')" "AG_KillProcess svc sid pid (a, w) = (Inl err, a, w')"
  using assms by (simp_all add: AG_ListProcesses_def AG_KillProcess_def withHandle_def)

text \<open>The image of a new template is always the same, whatever its Dockerfile says.\<close>

lemma agent_template_image_fixed:
  "map co_Image (ct_Containers (newTemplate ns tid bid req)) = [''python:3.11-slim'']"
  by (simp add: newTemplate_def)

text \<open>An alias with a comma is stored as two aliases, neither of which it is.\<close>

lemma agent_alias_with_comma:
  "aliasSet (withAliases t ''a,b'') = {''a'', ''b''}"
proof -
  have "split_on comma ''a,b'' = [''a'', ''b'']" "TrimSpace ''a'' = ''a''" "TrimSpace ''b'' = ''b''" by code_simp+
  then show ?thesis by (simp add: aliasSet_def)
qed

text \<open>A null entry in the daemon's listing stops the goroutine with a panic.\<close>

lemma agent_null_entry_panics: "envdListing scanInt (entries @ [None]) = None"
  by (simp add: envdListing_def)

text \<open>Setting no variables appends an empty line all the same.\<close>

lemma agent_empty_envs_append:
  "buildEtcEnvironmentCmd q ord [] = ''echo '' @ ShellQuote [CHR 0x0A] @ '' >> /etc/environment''"
  by (simp add: buildEtcEnvironmentCmd_def gm_range_def List.map_filter_def gm_get_def)

text \<open>The status of any build is ready, also of one that never existed.\<close>

lemma agent_unknown_build_ready:
  assumes "k8_GetTemplate svc (ag_namespace a) tid w = (Inr t, w')"
  shows "\<exists>b. fst (AG_GetBuildStatus svc tid bid (a, w)) = Inr b \<and> bs_Status b = ''ready''"
  using assms by (simp add: AG_GetBuildStatus_def Let_def)

end
