(* ===== verification/Gateway_SDK.thy ===== *)
theory Gateway_SDK
  imports Cloud_Client HTTP_Server Adapter_Util
begin

text \<open>
  The Go client of the gateway's API (\<open>pkg/client/client.go\<close>): its options, the request and the reading of the
  answer, the escaping of a path segment, and one method per operation.

  The HTTP transport and the JSON coding are the record \<open>sdkEnv\<close> of functions over the outside world \<open>'w\<close>.  A Go
  string is ranged over rune by rune, an invalid byte being the replacement rune; a panic is the result None.
\<close>

section \<open>Escaping a path segment\<close>

definition byteAt :: "string \<Rightarrow> nat \<Rightarrow> nat" where
  "byteAt s i = of_char (s ! i)"

text \<open>The first rune of a string that is not empty.\<close>

definition runeVal :: "string \<Rightarrow> nat" where
  "runeVal s =
     (let n = runeLen s
      in if n = 2 then (byteAt s 0 mod 32) * 64 + byteAt s 1 mod 64
         else if n = 3 then (byteAt s 0 mod 16) * 4096 + (byteAt s 1 mod 64) * 64 + byteAt s 2 mod 64
         else if n = 4 then (byteAt s 0 mod 8) * 262144 + (byteAt s 1 mod 64) * 4096 + (byteAt s 2 mod 64) * 64 + byteAt s 3 mod 64
         else if byteAt s 0 < 0x80 then byteAt s 0 else 0xFFFD)"

function runes :: "string \<Rightarrow> nat list" where
  "runes s = (if s = [] then [] else runeVal s # runes (drop (runeLen s) s))"
  by pat_completeness auto
termination
  by (relation "measure length") (use runeLen_pos in auto)

declare runes.simps [simp del]

definition isUnreserved :: "nat \<Rightarrow> bool" where
  "isUnreserved c =
     ((65 \<le> c \<and> c \<le> 90) \<or> (97 \<le> c \<and> c \<le> 122) \<or> (48 \<le> c \<and> c \<le> 57) \<or> c = 45 \<or> c = 95 \<or> c = 46 \<or> c = 126)"

text \<open>The bytes of a rune in UTF-8: the switch of \<open>encodeRune\<close>, and what \<open>WriteRune\<close> writes.\<close>

definition runeBytes :: "nat \<Rightarrow> nat list" where
  "runeBytes r =
     (if r < 0x80 then [r]
      else if r < 0x800 then [0xC0 + r div 64, 0x80 + r mod 64]
      else if r < 0x10000 then [0xE0 + r div 4096, 0x80 + (r div 64) mod 64, 0x80 + r mod 64]
      else [0xF0 + r div 262144, 0x80 + (r div 4096) mod 64, 0x80 + (r div 64) mod 64, 0x80 + r mod 64])"

definition hexUpper :: "nat \<Rightarrow> char" where
  "hexUpper d = ''0123456789ABCDEF'' ! d"

text \<open>A store to an array of bytes, None when the index is out of range.\<close>

definition storeByte :: "string \<Rightarrow> nat \<Rightarrow> char \<Rightarrow> string option" where
  "storeByte dst i b = (if i < length dst then Some (dst[i := b]) else None)"

fun hexLoop :: "string \<Rightarrow> nat \<Rightarrow> nat list \<Rightarrow> (string \<times> nat) option" where
  "hexLoop dst out [] = Some (dst, out)"
| "hexLoop dst out (b # bs) =
     Option.bind (storeByte dst out (CHR ''%'')) (\<lambda>dst.
       Option.bind (storeByte dst (out + 1) (hexUpper (b div 16))) (\<lambda>dst.
         Option.bind (storeByte dst (out + 2) (hexUpper (b mod 16))) (\<lambda>dst. hexLoop dst (out + 3) bs)))"

definition encodeRune :: "string \<Rightarrow> nat \<Rightarrow> (string \<times> nat) option" where
  "encodeRune dst r = hexLoop dst 0 (runeBytes r)"

definition escapeRune :: "nat \<Rightarrow> string option" where
  "escapeRune r =
     (if isUnreserved (r mod 256) then Some (map char_of (runeBytes r))
      else case encodeRune (replicate 4 (CHR 0x00)) r of None \<Rightarrow> None | Some (buf, n) \<Rightarrow> Some (take n buf))"

fun escapeRunes :: "nat list \<Rightarrow> string option" where
  "escapeRunes [] = Some []"
| "escapeRunes (r # rs) =
     (case escapeRune r of None \<Rightarrow> None | Some x \<Rightarrow> map_option (append x) (escapeRunes rs))"

definition pathEscape :: "string \<Rightarrow> string option" where
  "pathEscape s = escapeRunes (runes s)"

definition urlPathEscape :: "string \<Rightarrow> string option" where
  "urlPathEscape s = pathEscape s"

section \<open>The client\<close>

record sdkClient =
  sc_baseURL :: string
  sc_custom :: bool
  sc_timeout :: duration
  sc_apiKey :: string

text \<open>An option is the change it makes to the client; a client of the standard library is its timeout.\<close>

datatype sdkOption =
    WithHTTPClient "duration option"
  | WithAPIKey string
  | WithTimeout duration

fun applyOption :: "sdkClient \<Rightarrow> sdkOption \<Rightarrow> sdkClient" where
  "applyOption c (WithHTTPClient h) =
     (case h of None \<Rightarrow> c | Some t \<Rightarrow> c\<lparr>sc_custom := True, sc_timeout := t\<rparr>)"
| "applyOption c (WithAPIKey key) = c\<lparr>sc_apiKey := key\<rparr>"
| "applyOption c (WithTimeout d) = c\<lparr>sc_timeout := d\<rparr>"

definition TrimRightSlash :: "string \<Rightarrow> string" where
  "TrimRightSlash s = rev (dropWhile (\<lambda>ch. ch = CHR ''/'') (rev s))"

definition Sdk_New :: "string \<Rightarrow> sdkOption list \<Rightarrow> sdkClient" where
  "Sdk_New baseURL opts =
     foldl applyOption
       \<lparr>sc_baseURL = TrimRightSlash baseURL, sc_custom = False, sc_timeout = 30 * second, sc_apiKey = []\<rparr> opts"

datatype sdkError = SdkFailed go_error | SdkAPI int int string

text \<open>The method \<open>Error\<close> of an API error.\<close>

definition sdkErrorText :: "int \<Rightarrow> string \<Rightarrow> string" where
  "sdkErrorText statusCode msg =
     (if msg \<noteq> [] then ''e2bgateway: '' @ fmt_int statusCode @ '' '' @ msg
      else ''e2bgateway: unexpected status '' @ fmt_int statusCode)"

datatype sdkBody = SCreate SandboxCreateRequest | STimeout SandboxTimeoutRequest

text \<open>\<open>sd_readBody\<close> reads a body to its end; \<open>sd_errText\<close> is the text of an error; the decoders are \<open>json.Unmarshal\<close>.\<close>

record 'w sdkEnv =
  sd_newRequest :: "string \<Rightarrow> string \<Rightarrow> bool"
  sd_http :: "duration \<Rightarrow> httpRequest \<Rightarrow> 'w \<Rightarrow> httpResponse go_res \<times> 'w"
  sd_readBody :: "httpResponse \<Rightarrow> string go_res"
  sd_errText :: "go_error \<Rightarrow> string"
  sd_marshal :: "sdkBody \<Rightarrow> string go_res"
  sd_ErrorResponse :: "string \<Rightarrow> ErrorResponse option"
  sd_SandboxCreateResponse :: "string \<Rightarrow> SandboxCreateResponse option"
  sd_SandboxInfo :: "string \<Rightarrow> SandboxInfo option"
  sd_SandboxInfos :: "string \<Rightarrow> (SandboxInfo list) option"
  sd_TemplateInfo :: "string \<Rightarrow> TemplateInfo option"
  sd_TemplateInfos :: "string \<Rightarrow> (TemplateInfo list) option"
  sd_HealthStatus :: "string \<Rightarrow> string option"

abbreviation "ContentTypeJSON \<equiv> ''application/json''"
abbreviation "HeaderAPIKey \<equiv> ''X-API-Key''"

definition sdkRequest :: "sdkClient \<Rightarrow> string \<Rightarrow> string \<Rightarrow> string option \<Rightarrow> httpRequest" where
  "sdkRequest c method path body =
     \<lparr>hq_Method = method, hq_URL = sc_baseURL c @ path,
      hq_Headers =
        (if body \<noteq> None then [(''Content-Type'', ContentTypeJSON)] else []) @ [(''Accept'', ContentTypeJSON)] @
        (if sc_apiKey c \<noteq> [] then [(HeaderAPIKey, sc_apiKey c)] else []),
      hq_Body = body\<rparr>"

definition doRequest ::
  "'w sdkEnv \<Rightarrow> sdkClient \<Rightarrow> string \<Rightarrow> string \<Rightarrow> sdkBody option \<Rightarrow> 'w \<Rightarrow> (sdkError + httpResponse) \<times> 'w" where
  "doRequest env c method path body w =
     (case (case body of None \<Rightarrow> Inr None | Some b \<Rightarrow> map_sum id Some (sd_marshal env b)) of
        Inl err \<Rightarrow> (Inl (SdkFailed (Errorf ''client: marshal request body: %w'' [])), w)
      | Inr buf \<Rightarrow>
          if \<not> sd_newRequest env method (sc_baseURL c @ path) then (Inl (SdkFailed (Errorf ''client: build request: %w'' [])), w)
          else
            (case sd_http env (sc_timeout c) (sdkRequest c method path buf) w of
               (Inl err, w) \<Rightarrow> (Inl (SdkFailed (Errorf ''client: %s %s: %w'' [method, path])), w)
             | (Inr resp, w) \<Rightarrow> (Inr resp, w)))"

definition decodeResponse ::
  "'w sdkEnv \<Rightarrow> (string \<Rightarrow> 'r option) \<Rightarrow> 'r \<Rightarrow> httpResponse \<Rightarrow> sdkError + 'r" where
  "decodeResponse env decode zero resp =
     (case sd_readBody env resp of
        Inl err \<Rightarrow> Inl (SdkFailed (Errorf ''client: read response body: %w'' []))
      | Inr data \<Rightarrow>
          if data = [] then Inr zero
          else case decode data of
                 None \<Rightarrow> Inl (SdkFailed (Errorf ''client: decode response: %w'' []))
               | Some r \<Rightarrow> Inr r)"

definition checkStatus :: "'w sdkEnv \<Rightarrow> httpResponse \<Rightarrow> int \<Rightarrow> sdkError option" where
  "checkStatus env resp want =
     (if hs_StatusCode resp = want then None
      else case sd_readBody env resp of
             Inl err \<Rightarrow> Some (SdkAPI (hs_StatusCode resp) 0 (''(failed to read error body: '' @ sd_errText env err @ '')''))
           | Inr data \<Rightarrow>
               if data = [] then Some (SdkAPI (hs_StatusCode resp) 0 [])
               else case sd_ErrorResponse env data of
                      Some errResp \<Rightarrow>
                        if er_Message errResp \<noteq> [] then Some (SdkAPI (hs_StatusCode resp) (er_Code errResp) (er_Message errResp))
                        else Some (SdkAPI (hs_StatusCode resp) 0 (TrimSpace data))
                    | None \<Rightarrow> Some (SdkAPI (hs_StatusCode resp) 0 (TrimSpace data)))"

text \<open>The methods with a result and the methods without one.\<close>

definition sdkFetch ::
  "'w sdkEnv \<Rightarrow> sdkClient \<Rightarrow> string \<Rightarrow> string \<Rightarrow> sdkBody option \<Rightarrow> int \<Rightarrow> (string \<Rightarrow> 'r option) \<Rightarrow> 'r \<Rightarrow> 'w \<Rightarrow> (sdkError + 'r) \<times> 'w" where
  "sdkFetch env c method path body want decode zero w =
     (case doRequest env c method path body w of
        (Inl err, w) \<Rightarrow> (Inl err, w)
      | (Inr resp, w) \<Rightarrow>
          (case checkStatus env resp want of
             Some err \<Rightarrow> (Inl err, w)
           | None \<Rightarrow> (decodeResponse env decode zero resp, w)))"

definition sdkSend ::
  "'w sdkEnv \<Rightarrow> sdkClient \<Rightarrow> string \<Rightarrow> string \<Rightarrow> sdkBody option \<Rightarrow> int \<Rightarrow> 'w \<Rightarrow> (sdkError + unit) \<times> 'w" where
  "sdkSend env c method path body want w =
     (case doRequest env c method path body w of
        (Inl err, w) \<Rightarrow> (Inl err, w)
      | (Inr resp, w) \<Rightarrow> ((case checkStatus env resp want of Some err \<Rightarrow> Inl err | None \<Rightarrow> Inr ()), w))"

section \<open>Operations\<close>

definition Sdk_CreateSandbox ::
  "'w sdkEnv \<Rightarrow> sdkClient \<Rightarrow> SandboxCreateRequest \<Rightarrow> 'w \<Rightarrow> (sdkError + SandboxCreateResponse) \<times> 'w" where
  "Sdk_CreateSandbox env c req =
     sdkFetch env c MethodPost ''/sandboxes'' (Some (SCreate req)) 201 (sd_SandboxCreateResponse env) zeroSandboxCreateResponse"

definition Sdk_ListSandboxes :: "'w sdkEnv \<Rightarrow> sdkClient \<Rightarrow> 'w \<Rightarrow> (sdkError + SandboxInfo list) \<times> 'w" where
  "Sdk_ListSandboxes env c = sdkFetch env c MethodGet ''/sandboxes'' None 200 (sd_SandboxInfos env) []"

text \<open>An operation on one resource: None when escaping its identifier panics.\<close>

definition onResource :: "string \<Rightarrow> string \<Rightarrow> string \<Rightarrow> (string \<Rightarrow> 'x) \<Rightarrow> 'x option" where
  "onResource collection i rest call = map_option (\<lambda>e. call (collection @ e @ rest)) (urlPathEscape i)"

definition Sdk_GetSandbox :: "'w sdkEnv \<Rightarrow> sdkClient \<Rightarrow> string \<Rightarrow> 'w \<Rightarrow> ((sdkError + SandboxInfo) \<times> 'w) option" where
  "Sdk_GetSandbox env c sandboxID w =
     onResource ''/sandboxes/'' sandboxID [] (\<lambda>path. sdkFetch env c MethodGet path None 200 (sd_SandboxInfo env) zeroSandboxInfo w)"

definition Sdk_KillSandbox :: "'w sdkEnv \<Rightarrow> sdkClient \<Rightarrow> string \<Rightarrow> 'w \<Rightarrow> ((sdkError + unit) \<times> 'w) option" where
  "Sdk_KillSandbox env c sandboxID w =
     onResource ''/sandboxes/'' sandboxID [] (\<lambda>path. sdkSend env c MethodDelete path None 204 w)"

definition Sdk_PauseSandbox :: "'w sdkEnv \<Rightarrow> sdkClient \<Rightarrow> string \<Rightarrow> 'w \<Rightarrow> ((sdkError + unit) \<times> 'w) option" where
  "Sdk_PauseSandbox env c sandboxID w =
     onResource ''/sandboxes/'' sandboxID ''/pause'' (\<lambda>path. sdkSend env c MethodPost path None 204 w)"

definition Sdk_ResumeSandbox :: "'w sdkEnv \<Rightarrow> sdkClient \<Rightarrow> string \<Rightarrow> 'w \<Rightarrow> ((sdkError + SandboxInfo) \<times> 'w) option" where
  "Sdk_ResumeSandbox env c sandboxID w =
     onResource ''/sandboxes/'' sandboxID ''/resume''
       (\<lambda>path. sdkFetch env c MethodPost path None 200 (sd_SandboxInfo env) zeroSandboxInfo w)"

definition Sdk_SetTimeout :: "'w sdkEnv \<Rightarrow> sdkClient \<Rightarrow> string \<Rightarrow> int \<Rightarrow> 'w \<Rightarrow> ((sdkError + unit) \<times> 'w) option" where
  "Sdk_SetTimeout env c sandboxID timeout w =
     onResource ''/sandboxes/'' sandboxID ''/timeout''
       (\<lambda>path. sdkSend env c ''PATCH'' path (Some (STimeout \<lparr>str_Timeout = timeout\<rparr>)) 204 w)"

definition Sdk_ListTemplates :: "'w sdkEnv \<Rightarrow> sdkClient \<Rightarrow> 'w \<Rightarrow> (sdkError + TemplateInfo list) \<times> 'w" where
  "Sdk_ListTemplates env c = sdkFetch env c MethodGet ''/templates'' None 200 (sd_TemplateInfos env) []"

definition Sdk_GetTemplate :: "'w sdkEnv \<Rightarrow> sdkClient \<Rightarrow> string \<Rightarrow> 'w \<Rightarrow> ((sdkError + TemplateInfo) \<times> 'w) option" where
  "Sdk_GetTemplate env c templateID w =
     onResource ''/templates/'' templateID [] (\<lambda>path. sdkFetch env c MethodGet path None 200 (sd_TemplateInfo env) zeroTemplateInfo w)"

definition Sdk_DeleteTemplate :: "'w sdkEnv \<Rightarrow> sdkClient \<Rightarrow> string \<Rightarrow> 'w \<Rightarrow> ((sdkError + unit) \<times> 'w) option" where
  "Sdk_DeleteTemplate env c templateID w =
     onResource ''/templates/'' templateID [] (\<lambda>path. sdkSend env c MethodDelete path None 204 w)"

definition Sdk_Health :: "'w sdkEnv \<Rightarrow> sdkClient \<Rightarrow> 'w \<Rightarrow> (sdkError + string) \<times> 'w" where
  "Sdk_Health env c = sdkFetch env c MethodGet ''/healthz'' None 200 (sd_HealthStatus env) []"

section \<open>Escaping is exact on ASCII\<close>

text \<open>How a server reads a path segment: a percent sign and two hexadecimal digits are a byte.\<close>

definition hexOf :: "char \<Rightarrow> nat option" where
  "hexOf ch =
     (let n = of_char ch :: nat
      in if 48 \<le> n \<and> n \<le> 57 then Some (n - 48)
         else if 65 \<le> n \<and> n \<le> 70 then Some (n - 55)
         else if 97 \<le> n \<and> n \<le> 102 then Some (n - 87)
         else None)"

fun pathUnescape :: "string \<Rightarrow> string option" where
  "pathUnescape [] = Some []"
| "pathUnescape (ch # s) =
     (if ch = CHR ''%'' then
        (case s of
           h # l # rest \<Rightarrow>
             (case (hexOf h, hexOf l) of
                (Some a, Some b) \<Rightarrow> map_option (Cons (char_of (16 * a + b))) (pathUnescape rest)
              | _ \<Rightarrow> None)
         | _ \<Rightarrow> None)
      else map_option (Cons ch) (pathUnescape s))"

text \<open>A segment has no delimiter of a path in it.\<close>

definition segmentChar :: "char \<Rightarrow> bool" where
  "segmentChar ch = (isUnreserved (of_char ch) \<or> ch = CHR ''%'')"

definition isASCII :: "string \<Rightarrow> bool" where
  "isASCII s = list_all (\<lambda>ch. (of_char ch :: nat) < 128) s"

lemma runeLen_ASCII: "s \<noteq> [] \<Longrightarrow> (of_char (hd s) :: nat) < 128 \<Longrightarrow> runeLen s = 1"
  by (auto simp: runeLen_def byteIn_def split: list.splits)

lemma runes_ASCII: "isASCII s \<Longrightarrow> runes s = map of_char s"
proof (induction s)
  case (Cons ch s)
  then have "runeLen (ch # s) = 1" by (intro runeLen_ASCII) (simp_all add: isASCII_def)
  with Cons show ?case by (subst runes.simps) (simp add: runeVal_def byteAt_def isASCII_def)
qed (simp add: runes.simps)

lemma hexOf_hexUpper: "d < 16 \<Longrightarrow> hexOf (hexUpper d) = Some d"
proof -
  have "\<forall>d \<in> set [0..<16]. hexOf (hexUpper d) = Some d" by code_simp
  then show "d < 16 \<Longrightarrow> hexOf (hexUpper d) = Some d" by simp
qed

lemma segment_hexUpper: "d < 16 \<Longrightarrow> segmentChar (hexUpper d)"
proof -
  have "\<forall>d \<in> set [0..<16]. segmentChar (hexUpper d)" by code_simp
  then show "d < 16 \<Longrightarrow> segmentChar (hexUpper d)" by simp
qed

lemma encodeRune_ASCII:
  "r < 128 \<Longrightarrow> encodeRune (replicate 4 (CHR 0x00)) r =
     Some ([CHR ''%'', hexUpper (r div 16), hexUpper (r mod 16), CHR 0x00], 3)"
proof -
  assume r: "r < 128"
  have four: "replicate 4 (CHR 0x00) = [CHR 0x00, CHR 0x00, CHR 0x00, CHR 0x00]" by code_simp
  show ?thesis unfolding four using r by (simp add: encodeRune_def runeBytes_def storeByte_def)
qed

lemma escapeRune_ASCII:
  fixes ch :: char
  assumes "(of_char ch :: nat) < 128"
  shows "escapeRune (of_char ch) =
    Some (if isUnreserved (of_char ch) then [ch] else [CHR ''%'', hexUpper (of_char ch div 16), hexUpper (of_char ch mod 16)])"
  using assms encodeRune_ASCII [OF assms] by (simp add: escapeRune_def runeBytes_def)

lemma unreserved_not_percent: "isUnreserved (of_char ch) \<Longrightarrow> ch \<noteq> CHR ''%''"
  by (auto simp: isUnreserved_def)

lemma escape_ASCII:
  assumes "isASCII s"
  shows "\<exists>e. pathEscape s = Some e \<and> pathUnescape e = Some s \<and> list_all segmentChar e"
proof -
  have "\<exists>e. escapeRunes (map of_char s) = Some e \<and> pathUnescape e = Some s \<and> list_all segmentChar e"
    using assms
  proof (induction s)
    case (Cons ch s)
    then have ch: "(of_char ch :: nat) < 128" by (simp add: isASCII_def)
    then have nib: "(of_char ch :: nat) div 16 < 16" "(of_char ch :: nat) mod 16 < 16" by simp_all
    obtain e where e: "escapeRunes (map of_char s) = Some e" "pathUnescape e = Some s" "list_all segmentChar e"
      using Cons by (auto simp: isASCII_def)
    show ?case
    proof (cases "isUnreserved (of_char ch)")
      case True
      then have "segmentChar ch" by (simp add: segmentChar_def)
      then show ?thesis using e True unreserved_not_percent [OF True] by (simp add: escapeRune_ASCII [OF ch])
    next
      case False
      have "char_of (16 * (of_char ch div 16) + of_char ch mod 16 :: nat) = ch" by simp
      moreover have "segmentChar (CHR ''%'')" by (simp add: segmentChar_def)
      ultimately show ?thesis
        using e False segment_hexUpper [OF nib(1)] segment_hexUpper [OF nib(2)]
        by (simp add: escapeRune_ASCII [OF ch] hexOf_hexUpper [OF nib(1)] hexOf_hexUpper [OF nib(2)])
    qed
  qed simp
  then show ?thesis using runes_ASCII [OF assms] by (simp add: pathEscape_def)
qed

definition unreservedOnly :: "string \<Rightarrow> bool" where
  "unreservedOnly s = list_all (\<lambda>ch. isUnreserved (of_char ch)) s"

lemma escape_unreserved:
  assumes "unreservedOnly s"
  shows "pathEscape s = Some s"
proof -
  have "isASCII s" using assms by (auto simp: unreservedOnly_def isASCII_def list_all_iff isUnreserved_def)
  moreover have "escapeRunes (map of_char s) = Some s" using assms
  proof (induction s)
    case (Cons ch s)
    then have ch: "(of_char ch :: nat) < 128" by (auto simp: unreservedOnly_def isUnreserved_def)
    show ?case using Cons by (simp add: escapeRune_ASCII [OF ch] unreservedOnly_def)
  qed simp
  ultimately show ?thesis by (simp add: pathEscape_def runes_ASCII)
qed

text \<open>
  Escaping a path segment is exact on ASCII. For an identifier of ASCII characters, control characters included,
  the client does not panic, what it puts in the path has no character that delimits a path, a query or a
  fragment, and percent-decoding gives back exactly the identifier.
\<close>

lemma path_escape_roundtrip:
  assumes "isASCII s"
  shows "\<exists>e. urlPathEscape s = Some e \<and> pathUnescape e = Some s \<and> list_all segmentChar e"
  using escape_ASCII [OF assms] by (simp add: urlPathEscape_def)

lemma path_escape_roundtrip_witness:
  "\<exists>e. urlPathEscape ''../a b?c#d%2F'' = Some e \<and> pathUnescape e = Some ''../a b?c#d%2F'' \<and> list_all segmentChar e"
proof -
  have "isASCII ''../a b?c#d%2F''" by code_simp
  then show ?thesis by (rule path_escape_roundtrip)
qed

section \<open>The client and the gateway's routes\<close>

text \<open>The operations with the route each of them is for: method, pattern, handler, and the status of success.\<close>

datatype sdkCall =
    KCreate SandboxCreateRequest
  | KList
  | KGet string
  | KKill string
  | KPause string
  | KResume string
  | KTimeout string int
  | KTemplates
  | KTemplate string
  | KDeleteTemplate string
  | KHealth

fun runSdk :: "'w sdkEnv \<Rightarrow> sdkClient \<Rightarrow> sdkCall \<Rightarrow> 'w \<Rightarrow> 'w option" where
  "runSdk env c (KCreate req) w = Some (snd (Sdk_CreateSandbox env c req w))"
| "runSdk env c KList w = Some (snd (Sdk_ListSandboxes env c w))"
| "runSdk env c (KGet i) w = map_option snd (Sdk_GetSandbox env c i w)"
| "runSdk env c (KKill i) w = map_option snd (Sdk_KillSandbox env c i w)"
| "runSdk env c (KPause i) w = map_option snd (Sdk_PauseSandbox env c i w)"
| "runSdk env c (KResume i) w = map_option snd (Sdk_ResumeSandbox env c i w)"
| "runSdk env c (KTimeout i t) w = map_option snd (Sdk_SetTimeout env c i t w)"
| "runSdk env c KTemplates w = Some (snd (Sdk_ListTemplates env c w))"
| "runSdk env c (KTemplate i) w = map_option snd (Sdk_GetTemplate env c i w)"
| "runSdk env c (KDeleteTemplate i) w = map_option snd (Sdk_DeleteTemplate env c i w)"
| "runSdk env c KHealth w = Some (snd (Sdk_Health env c w))"

fun resourceOfCall :: "sdkCall \<Rightarrow> string" where
  "resourceOfCall (KGet i) = i"
| "resourceOfCall (KKill i) = i"
| "resourceOfCall (KPause i) = i"
| "resourceOfCall (KResume i) = i"
| "resourceOfCall (KTimeout i t) = i"
| "resourceOfCall (KTemplate i) = i"
| "resourceOfCall (KDeleteTemplate i) = i"
| "resourceOfCall _ = []"

fun routeOfCall :: "sdkCall \<Rightarrow> route" where
  "routeOfCall (KCreate req) = scoped ''POST'' ''/sandboxes'' ''sandbox:write'' ''CreateSandboxHandler''"
| "routeOfCall KList = scoped ''GET'' ''/sandboxes'' ''sandbox:read'' ''ListSandboxesHandler''"
| "routeOfCall (KGet i) = scoped ''GET'' ''/sandboxes/{sandboxID}'' ''sandbox:read'' ''GetSandboxHandler''"
| "routeOfCall (KKill i) = scoped ''DELETE'' ''/sandboxes/{sandboxID}'' ''sandbox:write'' ''KillSandboxHandler''"
| "routeOfCall (KPause i) = scoped ''POST'' ''/sandboxes/{sandboxID}/pause'' ''sandbox:write'' ''PauseSandboxHandler''"
| "routeOfCall (KResume i) = scoped ''POST'' ''/sandboxes/{sandboxID}/resume'' ''sandbox:write'' ''ResumeSandboxHandler''"
| "routeOfCall (KTimeout i t) = scoped ''PATCH'' ''/sandboxes/{sandboxID}/timeout'' ''sandbox:write'' ''SetTimeoutHandler''"
| "routeOfCall KTemplates = scoped ''GET'' ''/templates'' ''template:read'' ''ListTemplatesHandler''"
| "routeOfCall (KTemplate i) = scoped ''GET'' ''/templates/{templateID}'' ''template:read'' ''GetTemplateHandler''"
| "routeOfCall (KDeleteTemplate i) = scoped ''DELETE'' ''/templates/{templateID}'' ''template:write'' ''DeleteTemplateHandler''"
| "routeOfCall KHealth = public ''GET'' ''/healthz'' ''HealthHandler''"

text \<open>Whether a path is an instance of a pattern, segment by segment; a segment in braces matches one segment that is not empty.
  The result is the list of those segments as they stand in the path.\<close>

fun matchSegments :: "string list \<Rightarrow> string list \<Rightarrow> (string list) option" where
  "matchSegments [] [] = Some []"
| "matchSegments (p # ps) (x # xs) =
     (if p \<noteq> [] \<and> hd p = CHR ''{'' then
        (if x = [] then None else map_option (Cons x) (matchSegments ps xs))
      else if p = x then matchSegments ps xs else None)"
| "matchSegments _ _ = None"

definition matchPath :: "string \<Rightarrow> string \<Rightarrow> (string list) option" where
  "matchPath pattern path = matchSegments (split_on (CHR ''/'') pattern) (split_on (CHR ''/'') path)"

abbreviation "slash \<equiv> CHR ''/''"

lemma split_three:
  "slash \<notin> set a \<Longrightarrow> slash \<notin> set e \<Longrightarrow> split_on slash (slash # a @ slash # e) = [[], a, e]"
  using split_on_append [of slash a e] by (simp add: split_on_none)

lemma split_four:
  "slash \<notin> set a \<Longrightarrow> slash \<notin> set e \<Longrightarrow> slash \<notin> set b \<Longrightarrow>
   split_on slash (slash # a @ slash # e @ slash # b) = [[], a, e, b]"
  using split_on_append [of slash a "e @ slash # b"] split_on_append [of slash e b] by (simp add: split_on_none)

lemma matchPath_three:
  assumes "slash \<notin> set a" and "slash \<notin> set x" and "a \<noteq> []" and "hd a \<noteq> CHR ''{''"
    and "slash \<notin> set e" and "e \<noteq> []"
  shows "matchPath (slash # a @ slash # CHR ''{'' # x) (slash # a @ slash # e) = Some [e]"
proof -
  have x: "slash \<notin> set (CHR ''{'' # x)" using assms(2) by simp
  show ?thesis
    unfolding matchPath_def split_three [OF assms(1) x] split_three [OF assms(1,5)] using assms by simp
qed

lemma matchPath_four:
  assumes "slash \<notin> set a" and "slash \<notin> set x" and "a \<noteq> []" and "hd a \<noteq> CHR ''{''" and "slash \<notin> set b" and "b \<noteq> []" and "hd b \<noteq> CHR ''{''"
    and "slash \<notin> set e" and "e \<noteq> []"
  shows "matchPath (slash # a @ slash # (CHR ''{'' # x) @ slash # b) (slash # a @ slash # e @ slash # b) = Some [e]"
proof -
  have x: "slash \<notin> set (CHR ''{'' # x)" using assms(2) by simp
  show ?thesis
    unfolding matchPath_def split_four [OF assms(1) x assms(5)] split_four [OF assms(1,8,5)]
    using assms by simp
qed

lemma segment_no_slash: "list_all segmentChar e \<Longrightarrow> slash \<notin> set e"
  by (auto simp: list_all_iff segmentChar_def isUnreserved_def)

text \<open>One request is sent, and the world after the call is the one after that request.\<close>

definition sends :: "'w sdkEnv \<Rightarrow> sdkClient \<Rightarrow> string \<Rightarrow> string \<Rightarrow> 'w \<Rightarrow> 'w \<Rightarrow> bool" where
  "sends env c method path w w' =
     (\<exists>q. w' = snd (sd_http env (sc_timeout c) q w) \<and> hq_Method q = method \<and> hq_URL q = sc_baseURL c @ path \<and>
          map_of (hq_Headers q) HeaderAPIKey = (if sc_apiKey c = [] then None else Some (sc_apiKey c)))"

lemma sdkRequest_sends:
  "sends env c method path w (snd (sd_http env (sc_timeout c) (sdkRequest c method path buf) w))"
  unfolding sends_def by (rule exI [of _ "sdkRequest c method path buf"]) (simp add: sdkRequest_def)

lemma doRequest_sends:
  assumes "\<And>b. \<exists>buf. sd_marshal env b = Inr buf" and "sd_newRequest env method (sc_baseURL c @ path)"
  shows "sends env c method path w (snd (doRequest env c method path body w))"
proof -
  have "\<exists>buf. (case body of None \<Rightarrow> Inr None | Some b \<Rightarrow> map_sum id Some (sd_marshal env b)) = Inr buf"
  proof (cases body)
    case (Some b)
    then show ?thesis using assms(1) [of b] by auto
  qed simp
  then obtain buf where "(case body of None \<Rightarrow> Inr None | Some b \<Rightarrow> map_sum id Some (sd_marshal env b)) = Inr buf" ..
  then have "snd (doRequest env c method path body w) = snd (sd_http env (sc_timeout c) (sdkRequest c method path buf) w)"
    unfolding doRequest_def using assms(2) by (cases "sd_http env (sc_timeout c) (sdkRequest c method path buf) w") (simp split: sum.split)
  then show ?thesis using sdkRequest_sends by simp
qed

lemma snd_sdkFetch [simp]: "snd (sdkFetch env c method path body want decode zero w) = snd (doRequest env c method path body w)"
  by (auto simp: sdkFetch_def split: prod.splits sum.splits option.splits)

lemma snd_sdkSend [simp]: "snd (sdkSend env c method path body want w) = snd (doRequest env c method path body w)"
  by (auto simp: sdkSend_def split: prod.splits sum.splits option.splits)

fun pathOfCall :: "sdkCall \<Rightarrow> string \<Rightarrow> string" where
  "pathOfCall (KGet i) e = ''/sandboxes/'' @ e"
| "pathOfCall (KKill i) e = ''/sandboxes/'' @ e"
| "pathOfCall (KPause i) e = ''/sandboxes/'' @ e @ ''/pause''"
| "pathOfCall (KResume i) e = ''/sandboxes/'' @ e @ ''/resume''"
| "pathOfCall (KTimeout i t) e = ''/sandboxes/'' @ e @ ''/timeout''"
| "pathOfCall (KTemplate i) e = ''/templates/'' @ e"
| "pathOfCall (KDeleteTemplate i) e = ''/templates/'' @ e"
| "pathOfCall (KCreate req) e = ''/sandboxes''"
| "pathOfCall KList e = ''/sandboxes''"
| "pathOfCall KTemplates e = ''/templates''"
| "pathOfCall KHealth e = ''/healthz''"

lemmas sdk_defs = Sdk_CreateSandbox_def Sdk_ListSandboxes_def Sdk_GetSandbox_def Sdk_KillSandbox_def Sdk_PauseSandbox_def
  Sdk_ResumeSandbox_def Sdk_SetTimeout_def Sdk_ListTemplates_def Sdk_GetTemplate_def Sdk_DeleteTemplate_def Sdk_Health_def onResource_def

lemma runSdk_sends:
  assumes "\<And>b. \<exists>buf. sd_marshal env b = Inr buf" and "\<And>m u. sd_newRequest env m u" and "urlPathEscape (resourceOfCall k) = Some e"
  shows "\<exists>w'. runSdk env c k w = Some w' \<and> sends env c (rt_Method (routeOfCall k)) (pathOfCall k e) w w'"
  using assms(3) doRequest_sends [OF assms(1,2)] by (cases k) (simp_all add: sdk_defs scoped_def public_def)

fun namesResource :: "sdkCall \<Rightarrow> bool" where
  "namesResource (KCreate req) = False"
| "namesResource KList = False"
| "namesResource KTemplates = False"
| "namesResource KHealth = False"
| "namesResource _ = True"

lemma pathOfCall_match:
  assumes "e \<noteq> []" and "list_all segmentChar e"
  shows "matchPath (rt_Pattern (routeOfCall k)) (pathOfCall k e) = Some (if namesResource k then [e] else [])"
proof -
  note e = segment_no_slash [OF assms(2)] assms(1)
  have "matchPath ''/sandboxes/{sandboxID}'' (''/sandboxes/'' @ e) = Some [e]"
    using matchPath_three [of "''sandboxes''" "''sandboxID}''", OF _ _ _ _ e] by simp
  moreover have "matchPath ''/templates/{templateID}'' (''/templates/'' @ e) = Some [e]"
    using matchPath_three [of "''templates''" "''templateID}''", OF _ _ _ _ e] by simp
  moreover have "matchPath ''/sandboxes/{sandboxID}/pause'' (''/sandboxes/'' @ e @ ''/pause'') = Some [e]"
    using matchPath_four [of "''sandboxes''" "''sandboxID}''" "''pause''", OF _ _ _ _ _ _ _ e] by simp
  moreover have "matchPath ''/sandboxes/{sandboxID}/resume'' (''/sandboxes/'' @ e @ ''/resume'') = Some [e]"
    using matchPath_four [of "''sandboxes''" "''sandboxID}''" "''resume''", OF _ _ _ _ _ _ _ e] by simp
  moreover have "matchPath ''/sandboxes/{sandboxID}/timeout'' (''/sandboxes/'' @ e @ ''/timeout'') = Some [e]"
    using matchPath_four [of "''sandboxes''" "''sandboxID}''" "''timeout''", OF _ _ _ _ _ _ _ e] by simp
  moreover have "matchPath ''/sandboxes'' ''/sandboxes'' = Some []" "matchPath ''/templates'' ''/templates'' = Some []"
    "matchPath ''/healthz'' ''/healthz'' = Some []" by code_simp+
  ultimately show ?thesis by (cases k) (simp_all add: scoped_def public_def)
qed

lemma routeOfCall_registered: "routeOfCall k \<in> set buildRouter"
  unfolding buildRouter_def rootRoutes_def by (cases k) simp_all

lemma resource_ASCII:
  assumes "isASCII (resourceOfCall k)" and "namesResource k \<Longrightarrow> resourceOfCall k \<noteq> []"
  obtains e where "urlPathEscape (resourceOfCall k) = Some e" "pathUnescape e = Some (resourceOfCall k)" "list_all segmentChar e"
    "namesResource k \<Longrightarrow> e \<noteq> []"
proof -
  obtain e where e: "pathEscape (resourceOfCall k) = Some e" "pathUnescape e = Some (resourceOfCall k)" "list_all segmentChar e"
    using escape_ASCII [OF assms(1)] by blast
  moreover have "namesResource k \<Longrightarrow> e \<noteq> []" using e(2) assms(2) by auto
  ultimately show thesis using that by (simp add: urlPathEscape_def)
qed

text \<open>
  C35: The Go client and the gateway speak the same routes. For an identifier of ASCII characters that is not empty, every
  operation of the client sends one request, whose method and path are an instance of a route the gateway
  registers for the handler of that operation; the segment of the path at the place of the route's parameter,
  percent-decoded, is the identifier the caller passed, and is the identifier itself when that consists of unreserved characters
  only; the request carries the API key exactly when the client has one.
\<close>

theorem sdk_requests_routed:
  assumes "isASCII (resourceOfCall k)" and "namesResource k \<Longrightarrow> resourceOfCall k \<noteq> []"
    and "\<And>b. \<exists>buf. sd_marshal env b = Inr buf" and "\<And>m u. sd_newRequest env m u"
  shows "\<exists>w' path args. runSdk env c k w = Some w' \<and> sends env c (rt_Method (routeOfCall k)) path w w' \<and>
           routeOfCall k \<in> set buildRouter \<and>
           matchPath (rt_Pattern (routeOfCall k)) path = Some args \<and>
           map pathUnescape args = (if namesResource k then [Some (resourceOfCall k)] else []) \<and>
           (namesResource k \<and> unreservedOnly (resourceOfCall k) \<longrightarrow> args = [resourceOfCall k])"
proof (cases "namesResource k")
  case True
  obtain e where e: "urlPathEscape (resourceOfCall k) = Some e" "pathUnescape e = Some (resourceOfCall k)" "list_all segmentChar e" "e \<noteq> []"
    using resource_ASCII [OF assms(1,2)] True by metis
  have "unreservedOnly (resourceOfCall k) \<Longrightarrow> e = resourceOfCall k"
    using escape_unreserved [of "resourceOfCall k"] e(1) by (simp add: urlPathEscape_def)
  then show ?thesis
    using runSdk_sends [OF assms(3,4) e(1), of c w] pathOfCall_match [OF e(4,3), of k] routeOfCall_registered [of k] e(2) True by fastforce
next
  case False
  then have "urlPathEscape (resourceOfCall k) = Some []"
    by (cases k) (simp_all add: urlPathEscape_def pathEscape_def runes.simps)
  moreover have "matchPath (rt_Pattern (routeOfCall k)) (pathOfCall k []) = Some []"
    using pathOfCall_match [of "''x''" k] False by (cases k) (simp_all add: segmentChar_def isUnreserved_def)
  ultimately show ?thesis
    using runSdk_sends [OF assms(3,4), of k "[]" c w] routeOfCall_registered [of k] False by auto
qed

definition sampleSdkEnv :: "(httpRequest list) sdkEnv" where
  "sampleSdkEnv =
     \<lparr>sd_newRequest = (\<lambda>_ _. True), sd_http = (\<lambda>t q log. (Inr \<lparr>hs_StatusCode = 204, hs_Body = []\<rparr>, log @ [q])),
      sd_readBody = (\<lambda>r. Inr (hs_Body r)), sd_errText = (\<lambda>_. []), sd_marshal = (\<lambda>_. Inr []), sd_ErrorResponse = (\<lambda>_. None),
      sd_SandboxCreateResponse = (\<lambda>_. None), sd_SandboxInfo = (\<lambda>_. None), sd_SandboxInfos = (\<lambda>_. None),
      sd_TemplateInfo = (\<lambda>_. None), sd_TemplateInfos = (\<lambda>_. None), sd_HealthStatus = (\<lambda>_. None)\<rparr>"

theorem sdk_requests_routed_witness:
  "\<exists>w' path. runSdk sampleSdkEnv (Sdk_New ''http://gw/'' [WithAPIKey ''k'']) (KKill ''sbx-1'') [] = Some w' \<and>
     sends sampleSdkEnv (Sdk_New ''http://gw/'' [WithAPIKey ''k'']) ''DELETE'' path [] w' \<and>
     matchPath ''/sandboxes/{sandboxID}'' path = Some [''sbx-1'']"
proof -
  have "isASCII ''sbx-1''" "unreservedOnly ''sbx-1''" by code_simp+
  then show ?thesis
    using sdk_requests_routed [of "KKill ''sbx-1''" sampleSdkEnv "Sdk_New ''http://gw/'' [WithAPIKey ''k'']" "[]"]
    by (auto simp: sampleSdkEnv_def scoped_def)
qed

section \<open>What the client does not do\<close>

text \<open>An identifier with a character outside ASCII whose low byte is not an unreserved character panics: the buffer of
  four bytes has no room for two escaped bytes.\<close>

lemma hexLoop_overflow: "length dst = 4 \<Longrightarrow> hexLoop dst 0 (a # b # bs) = None"
  by (simp add: storeByte_def)

lemma path_escape_panics:
  assumes "0x80 \<le> r" and "\<not> isUnreserved (r mod 256)"
  shows "escapeRune r = None"
proof -
  obtain a b bs where "runeBytes r = a # b # bs" using assms(1) that by (fastforce simp: runeBytes_def)
  then show ?thesis using assms(2) hexLoop_overflow [of "replicate 4 (CHR 0x00)" a b bs]
    by (simp add: escapeRune_def encodeRune_def del: hexLoop.simps)
qed

lemma path_escape_panics_on_umlaut: "pathEscape [CHR 0xC3, CHR 0xA4] = None"
  by code_simp

text \<open>A character outside ASCII whose low byte is that of a letter is put in the path as it is: here U+0141.\<close>

lemma path_escape_leaves_some_unescaped: "pathEscape [CHR 0xC5, CHR 0x81] = Some [CHR 0xC5, CHR 0x81]"
  by code_simp

text \<open>The option for the timeout changes the timeout of a client the caller provided.\<close>

lemma timeout_changes_custom_client:
  "sc_timeout (Sdk_New u [WithHTTPClient (Some t), WithTimeout d]) = d \<and> sc_custom (Sdk_New u [WithHTTPClient (Some t), WithTimeout d])"
  by (simp add: Sdk_New_def)

text \<open>An answer of success with an empty body is a zero value, not an error.\<close>

lemma empty_answer_is_zero:
  assumes "sd_readBody env resp = Inr []"
  shows "decodeResponse env decode zero resp = Inr zero"
  using assms by (simp add: decodeResponse_def)

end
