(* ===== verification/Gateway_Server.thy ===== *)
theory Gateway_Server
  imports Agent_Sandbox Cloud_Adapter Router HTTP_Server Mock_Adapter
begin

text \<open>
  How the gateway starts and stops: loading the configuration (\<open>internal/config/config.go\<close>), telemetry
  (\<open>internal/observability/otel.go\<close>), the adapters of the configured backends and the server
  (\<open>internal/server/http.go\<close>), and the command \<open>serve\<close> (\<open>internal/cmd/serve.go\<close>).

  The configuration library, the clients of the backends and the telemetry exporters are parameters.  The adapters
  share one registry; an adapter gets the registry's sandbox-to-backend map as it is when the adapter is made.
\<close>

section \<open>Loading the configuration\<close>

definition setDefaults :: "(string, any) gomap" where
  "setDefaults =
     [(''server.http.address'', AString ''0.0.0.0:8080''),
      (''server.http.readTimeout'', AString ''30s''),
      (''server.http.writeTimeout'', AString ''300s''),
      (''server.http.idleTimeout'', AString ''120s''),
      (''rateLimit.enabled'', ABool True),
      (''rateLimit.backend'', AString ''memory''),
      (''rateLimit.defaultLimit.requestsPerMinute'', AInt 100),
      (''rateLimit.defaultLimit.burstSize'', AInt 20),
      (''routing.strategy'', AString ''static''),
      (''cache.backend'', AString ''memory''),
      (''cache.memory.maxSize'', AInt 1000),
      (''cache.memory.defaultTTL'', AString ''30s''),
      (''observability.metrics.enabled'', ABool True),
      (''observability.metrics.path'', AString ''/metrics''),
      (''observability.metrics.prefix'', AString ''e2bgw''),
      (''observability.logging.level'', AString ''info''),
      (''observability.logging.format'', AString ''json'')]"

text \<open>\<open>readFile\<close> is viper's \<open>ReadInConfig\<close>; \<open>unmarshal\<close> gives the configuration for the defaults, the file if any, and the
  prefix of the environment variables.\<close>

definition Load ::
  "(string \<Rightarrow> 'f go_res) \<Rightarrow> ((string, any) gomap \<Rightarrow> 'f option \<Rightarrow> string \<Rightarrow> Config go_res) \<Rightarrow> string \<Rightarrow> Config go_res" where
  "Load readFile unmarshal configPath =
     (case (if configPath \<noteq> [] then map_sum id Some (readFile configPath) else Inr None) of
        Inl err \<Rightarrow> Inl (wrapf ''reading config file: %w'' [] err)
      | Inr file \<Rightarrow>
          (case unmarshal setDefaults file ''E2BGW'' of
             Inl err \<Rightarrow> Inl (wrapf ''unmarshaling config: %w'' [] err)
           | Inr cfg \<Rightarrow>
               (case Config_Validate cfg of
                  Inl err \<Rightarrow> Inl (wrapf ''validating config: %w'' [] err)
                | Inr cfg \<Rightarrow> Inr cfg)))"

text \<open>\<open>configFile\<close> is the environment variable \<open>E2BGW_CONFIG_FILE\<close>, empty when unset.\<close>

definition LoadFromEnv ::
  "(string \<Rightarrow> 'f go_res) \<Rightarrow> ((string, any) gomap \<Rightarrow> 'f option \<Rightarrow> string \<Rightarrow> Config go_res) \<Rightarrow> string \<Rightarrow> Config go_res" where
  "LoadFromEnv readFile unmarshal configFile = Load readFile unmarshal configFile"

section \<open>Telemetry\<close>

datatype sampler = AlwaysSample | ParentBasedRatio rat

record otelSetup =
  os_serviceName :: string
  os_endpoint :: string
  os_insecure :: bool
  os_sampler :: sampler

definition otelPlan :: "OTelConfig \<Rightarrow> otelSetup" where
  "otelPlan c =
     \<lparr>os_serviceName = (if ot_ServiceNamespace c \<noteq> [] then ot_ServiceNamespace c @ ''.'' @ ''e2bgateway'' else ''e2bgateway''),
      os_endpoint = ot_Endpoint c, os_insecure = True,
      os_sampler = (if ot_SamplingRatio c > 0 \<and> ot_SamplingRatio c < 1 then ParentBasedRatio (ot_SamplingRatio c) else AlwaysSample)\<rparr>"

text \<open>\<open>Init\<close>: None when telemetry is off.  The arguments are the errors of the resource and of the two exporters.\<close>

definition otelInit ::
  "(otelSetup \<Rightarrow> go_error option) \<Rightarrow> (otelSetup \<Rightarrow> go_error option) \<Rightarrow> (otelSetup \<Rightarrow> go_error option) \<Rightarrow> ObservabilityConfig \<Rightarrow>
   (otelSetup option) go_res" where
  "otelInit newResource newTrace newMetric cfg =
     (if \<not> ot_Enabled (ob_OTel cfg) then Inr None
      else let plan = otelPlan (ob_OTel cfg)
           in case newResource plan of
                Some err \<Rightarrow> Inl (wrapf ''creating resource: %w'' [] err)
              | None \<Rightarrow>
                  (case newTrace plan of
                     Some err \<Rightarrow> Inl (wrapf ''creating trace exporter: %w'' [] err)
                   | None \<Rightarrow>
                       (case newMetric plan of
                          Some err \<Rightarrow> Inl (wrapf ''creating metric exporter: %w'' [] err)
                        | None \<Rightarrow> Inr (Some plan))))"

definition otelShutdown ::
  "('w \<Rightarrow> go_error option \<times> 'w) \<Rightarrow> ('w \<Rightarrow> go_error option \<times> 'w) \<Rightarrow> otelSetup option \<Rightarrow> 'w \<Rightarrow> go_error option \<times> 'w" where
  "otelShutdown stopTrace stopMetric setup w =
     (case setup of
        None \<Rightarrow> (None, w)
      | Some _ \<Rightarrow>
          (case stopTrace w of
             (Some err, w) \<Rightarrow> (Some (wrapf ''shutting down trace provider: %w'' [] err), w)
           | (None, w) \<Rightarrow>
               (case stopMetric w of
                  (Some err, w) \<Rightarrow> (Some (wrapf ''shutting down metric provider: %w'' [] err), w)
                | (None, w) \<Rightarrow> (None, w))))"

section \<open>The adapters\<close>

datatype 's gatewayAdapter =
    GMock mock
  | GCloud cloudAdapter
  | GAgent agentAdapter
  | GOpen "('s templateStore) osAdapter"

fun adapterName :: "'s gatewayAdapter \<Rightarrow> string" where
  "adapterName (GMock m) = Mock_Name"
| "adapterName (GCloud c) = ca_name c"
| "adapterName (GAgent a) = ag_name a"
| "adapterName (GOpen a) = os_name a"

text \<open>What the constructors of the adapters need of the outside.\<close>

record 's buildEnv =
  bv_now1 :: time
  bv_now2 :: time
  bv_inCluster :: "go_error option"
  bv_newHelper :: "go_error option"
  bv_newClient :: "sdkOptions \<Rightarrow> go_error option"
  bv_parseDuration :: "string \<Rightarrow> duration option"
  bv_connect :: "osRedisConfig \<Rightarrow> go_error + 's redisClient"
  bv_codec :: jsonCodec

definition newAgent :: "'s buildEnv \<Rightarrow> BackendConfig \<Rightarrow> SandboxBackendMap \<Rightarrow> agentAdapter go_res" where
  "newAgent env bcfg m =
     (case bv_inCluster env of
        Some err \<Rightarrow> Inl (wrapf ''getting rest config (in-cluster only): %w'' [] err)
      | None \<Rightarrow> Agent_New (bv_newHelper env) (bv_newClient env) (parseBackendConfig (b_Name bcfg) (b_Config bcfg)) (Some m))"

definition newOpen :: "'s buildEnv \<Rightarrow> BackendConfig \<Rightarrow> SandboxBackendMap \<Rightarrow> (('s templateStore) osAdapter) go_res" where
  "newOpen env bcfg m =
     (case openSandboxConfig (bv_parseDuration env) (bv_connect env) (bv_codec env) bcfg of
        Inl err \<Rightarrow> Inl err
      | Inr cfg \<Rightarrow> OS_New cfg (Some m) (orZero (MemoryTS NewMemoryTemplateStore) (oc_TemplateStore cfg)))"

definition newAdapter :: "'s buildEnv \<Rightarrow> BackendConfig \<Rightarrow> SandboxBackendMap \<Rightarrow> ('s gatewayAdapter) go_res" where
  "newAdapter env bcfg m =
     (if b_Type bcfg = ''mock'' then Inr (GMock (Mock_New (Some m) (bv_now1 env) (bv_now2 env)))
      else
        (case (if b_Type bcfg = ''e2b-cloud'' then Inr (GCloud (Cloud_NewAdapter bcfg (Some m)))
               else if b_Type bcfg = ''agent-sandbox'' then map_sum id GAgent (newAgent env bcfg m)
               else map_sum id GOpen (newOpen env bcfg m)) of
           Inl err \<Rightarrow> Inl (wrapf ''creating adapter %q: %w'' [b_Name bcfg] err)
         | Inr a \<Rightarrow> Inr a))"

definition knownTypes :: "string list" where
  "knownTypes = [''mock'', ''e2b-cloud'', ''agent-sandbox'', ''opensandbox'']"

fun initAdapters :: "'s buildEnv \<Rightarrow> BackendConfig list \<Rightarrow> ('s gatewayAdapter) registry \<Rightarrow> (('s gatewayAdapter) registry) go_res" where
  "initAdapters env [] reg = Inr reg"
| "initAdapters env (bcfg # bs) reg =
     (if \<not> b_Enabled bcfg then initAdapters env bs reg
      else if b_Type bcfg \<notin> set knownTypes then Inl (Errorf ''unknown adapter type: %s'' [b_Type bcfg])
      else case newAdapter env bcfg (r_sandboxBackend reg) of
             Inl err \<Rightarrow> Inl err
           | Inr a \<Rightarrow>
               (case Registry_Register adapterName reg a of
                  Inl err \<Rightarrow> Inl (wrapf ''registering adapter %q: %w'' [b_Name bcfg] err)
                | Inr reg \<Rightarrow> initAdapters env bs reg))"

section \<open>The server\<close>

record listener =
  ln_Addr :: string
  ln_ReadTimeout :: duration
  ln_WriteTimeout :: duration
  ln_IdleTimeout :: duration

record ('s, 'kf) server =
  sv_cfg :: Config
  sv_registry :: "('s gatewayAdapter) registry"
  sv_authMgr :: "'kf provider list"
  sv_routeMgr :: "('s gatewayAdapter) router"
  sv_router :: "route list"
  sv_httpServer :: listener
  sv_httpsServer :: "listener option"

definition newListener :: "string \<Rightarrow> HTTPConfig \<Rightarrow> listener" where
  "newListener addr h =
     \<lparr>ln_Addr = addr, ln_ReadTimeout = h_ReadTimeout h, ln_WriteTimeout = h_WriteTimeout h, ln_IdleTimeout = h_IdleTimeout h\<rparr>"

text \<open>\<open>New\<close>; \<open>ord\<close> is the order in which the router ranges over the registry.\<close>

definition Server_New ::
  "'s buildEnv \<Rightarrow> ('kf, 'key) jwtLib \<Rightarrow> string list \<Rightarrow> Config \<Rightarrow> (('s, 'kf) server) go_res" where
  "Server_New env lib ord cfg =
     (case Config_Validate cfg of
        Inl err \<Rightarrow> Inl (wrapf ''validating config: %w'' [] err)
      | Inr cfg \<Rightarrow>
          (case initAdapters env (cfg_Backends cfg) NewRegistry of
             Inl err \<Rightarrow> Inl (wrapf ''initializing adapters: %w'' [] err)
           | Inr reg \<Rightarrow>
               (case NewManager lib (cfg_AuthProviders cfg) of
                  Inl err \<Rightarrow> Inl (wrapf ''initializing auth: %w'' [] err)
                | Inr mgr \<Rightarrow>
                    Inr \<lparr>sv_cfg = cfg, sv_registry = reg, sv_authMgr = mgr,
                         sv_routeMgr = NewRouter adapterName (cfg_Routing cfg) reg ord, sv_router = buildRouter,
                         sv_httpServer = newListener (h_Address (s_HTTP (cfg_Server cfg))) (s_HTTP (cfg_Server cfg)),
                         sv_httpsServer =
                           (let tls = s_HTTPS (cfg_Server cfg)
                            in if hs_Address tls \<noteq> [] \<and> hs_CertFile tls \<noteq> [] \<and> hs_KeyFile tls \<noteq> []
                               then Some (newListener (hs_Address tls) (s_HTTP (cfg_Server cfg))) else None)\<rparr>)))"

section \<open>What the server registers\<close>

definition regName :: "BackendConfig \<Rightarrow> string" where
  "regName b = (if b_Type b = ''mock'' then Mock_Name else b_Name b)"

lemma Agent_New_name: "Agent_New h c cfg m = Inr a \<Longrightarrow> ag_name a = ac_Name cfg"
  by (auto simp: Agent_New_def Let_def split: option.splits)

lemma OS_New_name: "OS_New cfg m t = Inr a \<Longrightarrow> os_name a = oc_Name cfg"
  by (auto simp: OS_New_def split: if_splits)

lemma openSandboxConfig_name: "openSandboxConfig pd cn co b = Inr cfg \<Longrightarrow> oc_Name cfg = b_Name b"
  unfolding openSandboxConfig_def Let_def
  by (simp del: LookupString.simps lookupMap.simps split: option.split_asm sum.split_asm) (erule subst, simp)+

lemma newAdapter_name:
  assumes "newAdapter env b m = Inr a"
  shows "adapterName a = regName b"
proof -
  have agent: "newAgent env b m = Inr x \<Longrightarrow> ag_name x = b_Name b" for x
    by (auto simp: newAgent_def parseBackendConfig_def dest!: Agent_New_name split: option.splits)
  have os: "newOpen env b m = Inr x \<Longrightarrow> os_name x = b_Name b" for x
    by (auto simp: newOpen_def dest!: OS_New_name openSandboxConfig_name split: sum.splits)
  consider "b_Type b = ''mock''" | "b_Type b \<noteq> ''mock''" "b_Type b = ''e2b-cloud''"
    | "b_Type b \<noteq> ''mock''" "b_Type b \<noteq> ''e2b-cloud''" "b_Type b = ''agent-sandbox''"
    | "b_Type b \<noteq> ''mock''" "b_Type b \<noteq> ''e2b-cloud''" "b_Type b \<noteq> ''agent-sandbox''" by blast
  then show ?thesis
  proof cases
    case 1
    then show ?thesis using assms by (auto simp: newAdapter_def regName_def)
  next
    case 2
    then show ?thesis using assms by (auto simp: newAdapter_def regName_def Cloud_NewAdapter_def Let_def)
  next
    case 3
    then show ?thesis using assms agent by (cases "newAgent env b m") (auto simp: newAdapter_def regName_def)
  next
    case 4
    then show ?thesis using assms os by (cases "newOpen env b m") (auto simp: newAdapter_def regName_def)
  qed
qed

lemma gm_keys_add: "gm_get m k = None \<Longrightarrow> gm_keys (gm_set m k v) = gm_keys m @ [k]"
  unfolding gm_keys_def gm_set_def gm_get_def by (induction m) (auto split: if_splits)

lemma Registry_Register_keys:
  assumes "Registry_Register nameOf r a = Inr r'"
  shows "gm_keys (r_adapters r') = gm_keys (r_adapters r) @ [nameOf a]"
  using assms Registry_Register_Get(2) [OF assms]
  by (auto simp: Registry_Register_def Registry_Get_def Let_def gm_keys_add split: if_splits)

lemma initAdapters_keys:
  "initAdapters env bs reg = Inr reg' \<Longrightarrow>
   gm_keys (r_adapters reg') = gm_keys (r_adapters reg) @ map regName (filter b_Enabled bs)"
proof (induction bs arbitrary: reg)
  case (Cons b bs)
  show ?case
  proof (cases "b_Enabled b")
    case True
    then obtain a reg1 where a: "newAdapter env b (r_sandboxBackend reg) = Inr a" "Registry_Register adapterName reg a = Inr reg1"
      "initAdapters env bs reg1 = Inr reg'"
      using Cons.prems by (auto split: if_splits sum.splits)
    show ?thesis
      using Cons.IH [OF a(3)] Registry_Register_keys [OF a(2)] newAdapter_name [OF a(1)] True by simp
  next
    case False
    with Cons show ?thesis by simp
  qed
qed simp

lemma initAdapters_wf:
  "registry_wf adapterName reg \<Longrightarrow> initAdapters env bs reg = Inr reg' \<Longrightarrow> registry_wf adapterName reg'"
  by (induction bs arbitrary: reg) (auto split: if_splits sum.splits dest: Registry_Register_wf)

lemma Server_New_parts:
  assumes "Server_New env lib ord cfg = Inr s"
  shows "Config_Validate cfg = Inr (sv_cfg s)" and "initAdapters env (cfg_Backends (sv_cfg s)) NewRegistry = Inr (sv_registry s)"
    and "NewManager lib (cfg_AuthProviders (sv_cfg s)) = Inr (sv_authMgr s)" and "sv_router s = buildRouter"
  using assms by (auto simp: Server_New_def split: sum.splits)

lemma Config_Validate_same:
  "Config_Validate c = Inr c' \<Longrightarrow> cfg_Backends c' = cfg_Backends c \<and> cfg_AuthProviders c' = cfg_AuthProviders c \<and>
   rc_Failover (cfg_Routing c') = rc_Failover (cfg_Routing c)"
  by (auto simp: Config_Validate_def Let_def split: if_splits sum.splits option.splits)

text \<open>
  C34: The server serves exactly the configured backends. When the server is created, its registry holds one adapter for
  every enabled backend of the configuration and no other, in the order of the configuration, under names that are
  all different, each under the adapter's own name (the configured one, except that the in-memory adapter is always
  called mock); there is one authentication provider for every configured one, and the routes are those of
  the route table.
\<close>

theorem server_registers_enabled:
  assumes "Server_New env lib ord cfg = Inr s"
  shows "gm_keys (r_adapters (sv_registry s)) = map regName (filter b_Enabled (cfg_Backends cfg)) \<and>
         distinct (map regName (filter b_Enabled (cfg_Backends cfg))) \<and>
         registry_wf adapterName (sv_registry s) \<and>
         length (sv_authMgr s) = length (cfg_AuthProviders cfg) \<and> sv_router s = buildRouter"
proof -
  note parts = Server_New_parts [OF assms]
  note same = Config_Validate_same [OF parts(1)]
  have keys: "gm_keys (r_adapters (sv_registry s)) = map regName (filter b_Enabled (cfg_Backends cfg))"
    using initAdapters_keys [OF parts(2)] same by (simp add: NewRegistry_def gm_keys_def)
  have wf: "registry_wf adapterName (sv_registry s)" using initAdapters_wf [OF NewRegistry_wf parts(2)] .
  then have "distinct (gm_keys (r_adapters (sv_registry s)))" by (simp add: registry_wf_def gm_wf_def gm_keys_def)
  with keys wf NewManager_length [OF parts(3)] same parts(4) show ?thesis by simp
qed

definition sampleBuild :: "unit buildEnv" where
  "sampleBuild =
     \<lparr>bv_now1 = 0, bv_now2 = 0, bv_inCluster = None, bv_newHelper = None, bv_newClient = (\<lambda>_. None),
      bv_parseDuration = (\<lambda>_. None), bv_connect = (\<lambda>_. Inl (Errorf [] [])), bv_codec = undefined\<rparr>"

lemma sample_server: "\<exists>s. Server_New sampleBuild (undefined :: (unit, unit) jwtLib) ord sample_config = Inr s"
  by (simp add: Server_New_def Config_Validate_def sample_config_def Let_def newAdapter_def knownTypes_def Registry_Register_def
      NewRegistry_def gm_has_def)

theorem server_registers_enabled_witness:
  "\<exists>s. Server_New sampleBuild (undefined :: (unit, unit) jwtLib) [] sample_config = Inr s \<and>
       gm_keys (r_adapters (sv_registry s)) = [''mock'']"
proof -
  obtain s where s: "Server_New sampleBuild (undefined :: (unit, unit) jwtLib) [] sample_config = Inr s"
    using sample_server by blast
  have "map regName (filter b_Enabled (cfg_Backends sample_config)) = [''mock'']"
    by (simp add: sample_config_def regName_def Mock_Name_def)
  with server_registers_enabled [OF s] s show ?thesis by auto
qed

section \<open>Serving and stopping\<close>

text \<open>The command \<open>serve\<close> up to the point where it listens: the telemetry and the server.\<close>

definition prepareServe ::
  "(string \<Rightarrow> Config go_res) \<Rightarrow> (ObservabilityConfig \<Rightarrow> (otelSetup option) go_res) \<Rightarrow> (Config \<Rightarrow> 'v go_res) \<Rightarrow> string \<Rightarrow>
   go_error + otelSetup option \<times> 'v" where
  "prepareServe load otel newServer configPath =
     (case load configPath of
        Inl err \<Rightarrow> Inl (wrapf ''failed to load configuration: %w'' [] err)
      | Inr cfg \<Rightarrow>
          (case otel (cfg_Observability cfg) of
             Inl err \<Rightarrow> Inl (wrapf ''failed to initialize observability: %w'' [] err)
           | Inr tel \<Rightarrow>
               (case newServer cfg of
                  Inl err \<Rightarrow> Inl (wrapf ''failed to create server: %w'' [] err)
                | Inr srv \<Rightarrow> Inr (tel, srv))))"

text \<open>\<open>shutdown\<close> is the \<open>Shutdown\<close> of a server of the standard library.\<close>

definition Server_Stop :: "(listener \<Rightarrow> 'w \<Rightarrow> go_error option \<times> 'w) \<Rightarrow> ('s, 'kf) server \<Rightarrow> 'w \<Rightarrow> go_error option \<times> 'w" where
  "Server_Stop shutdown s w =
     shutdown (sv_httpServer s) (case sv_httpsServer s of None \<Rightarrow> w | Some l \<Rightarrow> snd (shutdown l w))"

text \<open>
  The command once it listens: every listener is a goroutine that may report one error; the goroutine of \<open>Start\<close> waits
  for the first error or for the context, which a signal ends; the command waits for the context or for \<open>Start\<close> to
  return, and shuts the telemetry down when it returns.  A choice between two ready cases is free.
\<close>

record 'w serveState =
  sg_signalled :: bool
  sg_httpFailed :: bool
  sg_httpsFailed :: bool
  sg_errs :: "go_error list"
  sg_startResult :: "(go_error option) option"
  sg_stopCalled :: bool
  sg_exit :: "(go_error option) option"
  sg_flushed :: bool
  sg_world :: 'w

definition serveInit :: "'w \<Rightarrow> 'w serveState" where
  "serveInit w = \<lparr>sg_signalled = False, sg_httpFailed = False, sg_httpsFailed = False, sg_errs = [], sg_startResult = None,
                  sg_stopCalled = False, sg_exit = None, sg_flushed = False, sg_world = w\<rparr>"

text \<open>\<open>Start\<close>: the listeners and the wait for the first error or the context.\<close>

inductive startStep :: "('s, 'kf) server \<Rightarrow> 'w serveState \<Rightarrow> 'w serveState \<Rightarrow> bool" for srv where
  httpFails: "\<not> sg_httpFailed s \<Longrightarrow>
    startStep srv s (s\<lparr>sg_httpFailed := True, sg_errs := sg_errs s @ [wrapf ''HTTP server error: %w'' [] err]\<rparr>)"
| httpsFails: "sv_httpsServer srv \<noteq> None \<Longrightarrow> \<not> sg_httpsFailed s \<Longrightarrow>
    startStep srv s (s\<lparr>sg_httpsFailed := True, sg_errs := sg_errs s @ [wrapf ''HTTPS server error: %w'' [] err]\<rparr>)"
| startError: "sg_startResult s = None \<Longrightarrow> sg_errs s = err # rest \<Longrightarrow> startStep srv s (s\<lparr>sg_startResult := Some (Some err)\<rparr>)"
| startDone: "sg_startResult s = None \<Longrightarrow> sg_signalled s \<Longrightarrow> startStep srv s (s\<lparr>sg_startResult := Some None\<rparr>)"

inductive_cases startStepE: "startStep srv s s'"

inductive serveStep ::
  "(listener \<Rightarrow> 'w \<Rightarrow> go_error option \<times> 'w) \<Rightarrow> ('w \<Rightarrow> go_error option \<times> 'w) \<Rightarrow> ('w \<Rightarrow> go_error option \<times> 'w) \<Rightarrow>
   otelSetup option \<Rightarrow> ('s, 'kf) server \<Rightarrow> 'w serveState \<Rightarrow> 'w serveState \<Rightarrow> bool"
  for shutdown stopTrace stopMetric tel srv where
  signal: "serveStep shutdown stopTrace stopMetric tel srv s (s\<lparr>sg_signalled := True\<rparr>)"
| start: "startStep srv s s' \<Longrightarrow> serveStep shutdown stopTrace stopMetric tel srv s s'"
| mainStops: "sg_exit s = None \<Longrightarrow> sg_signalled s \<Longrightarrow> Server_Stop shutdown srv (sg_world s) = (r, w) \<Longrightarrow>
    serveStep shutdown stopTrace stopMetric tel srv s (s\<lparr>sg_stopCalled := True, sg_exit := Some r, sg_world := w\<rparr>)"
| mainReturns: "sg_exit s = None \<Longrightarrow> sg_startResult s = Some r \<Longrightarrow>
    serveStep shutdown stopTrace stopMetric tel srv s (s\<lparr>sg_exit := Some r\<rparr>)"
| deferred: "sg_exit s \<noteq> None \<Longrightarrow> \<not> sg_flushed s \<Longrightarrow>
    serveStep shutdown stopTrace stopMetric tel srv s
      (s\<lparr>sg_flushed := True, sg_world := snd (otelShutdown stopTrace stopMetric tel (sg_world s))\<rparr>)"

inductive_cases serveStepE: "serveStep shutdown stopTrace stopMetric tel srv s s'"

text \<open>Without a signal the command ends only with the first error of a listener.\<close>

definition serveInv :: "'w serveState \<Rightarrow> bool" where
  "serveInv s \<longleftrightarrow>
     (\<forall>r. sg_startResult s = Some r \<longrightarrow> (if r = None then sg_signalled s else \<exists>rest. sg_errs s = the r # rest)) \<and>
     (\<forall>r. sg_exit s = Some r \<longrightarrow> sg_signalled s \<or> (\<exists>err rest. r = Some err \<and> sg_errs s = err # rest)) \<and>
     (sg_stopCalled s \<longrightarrow> sg_signalled s)"

lemma serveStep_inv: "serveStep shutdown stopTrace stopMetric tel srv s s' \<Longrightarrow> serveInv s \<Longrightarrow> serveInv s'"
  by (erule serveStepE) (auto simp: serveInv_def elim!: startStepE split: if_splits)

lemma serve_ends_for_a_reason:
  assumes "(serveStep shutdown stopTrace stopMetric tel srv)\<^sup>*\<^sup>* (serveInit w) s" and "sg_exit s = Some r" and "\<not> sg_signalled s"
  shows "\<not> sg_stopCalled s \<and> (\<exists>err rest. r = Some err \<and> sg_errs s = err # rest)"
proof -
  have "serveInv s" using assms(1)
  proof (induction rule: rtranclp_induct)
    case base
    show ?case by (simp add: serveInv_def serveInit_def)
  next
    case (step s s')
    then show ?case by (blast intro: serveStep_inv)
  qed
  with assms(2,3) show ?thesis by (auto simp: serveInv_def)
qed

text \<open>After a signal the command may end without having shut the server down: \<open>Start\<close> returns for the same signal, and
  its return may be taken first.\<close>

lemma serve_may_skip_shutdown:
  "\<exists>s. (serveStep shutdown stopTrace stopMetric tel srv)\<^sup>*\<^sup>* (serveInit w) s \<and> sg_signalled s \<and> sg_exit s = Some None \<and> \<not> sg_stopCalled s"
proof -
  define s1 where "s1 = (serveInit w)\<lparr>sg_signalled := True\<rparr>"
  define s2 where "s2 = s1\<lparr>sg_startResult := Some None\<rparr>"
  define s3 where "s3 = s2\<lparr>sg_exit := Some None\<rparr>"
  let ?step = "serveStep shutdown stopTrace stopMetric tel srv"
  have "?step (serveInit w) s1" unfolding s1_def by (rule serveStep.signal)
  moreover have "?step s1 s2" unfolding s2_def by (rule serveStep.start, rule startStep.startDone) (simp_all add: s1_def serveInit_def)
  moreover have "?step s2 s3" unfolding s3_def by (rule serveStep.mainReturns) (simp_all add: s2_def s1_def serveInit_def)
  ultimately have "?step\<^sup>*\<^sup>* (serveInit w) s3" by (meson converse_rtranclp_into_rtranclp rtranclp.rtrancl_refl)
  then show ?thesis by (intro exI [of _ s3]) (simp add: s3_def s2_def s1_def serveInit_def)
qed

section \<open>Observations\<close>

text \<open>An in-memory backend with a name of its own is registered as mock: the default backend that validation chooses
  is then not registered.\<close>

definition renamedMock :: Config where
  "renamedMock = sample_config\<lparr>cfg_Backends := [\<lparr>b_Name = ''local'', b_Type = ''mock'', b_Enabled = True, b_Config = []\<rparr>]\<rparr>"

lemma default_backend_unregistered:
  "\<exists>s. Server_New sampleBuild (undefined :: (unit, unit) jwtLib) [] renamedMock = Inr s \<and>
       rc_DefaultBackend (cfg_Routing (sv_cfg s)) = ''local'' \<and> Registry_Get (sv_registry s) ''local'' = None"
  by (simp add: Server_New_def Config_Validate_def renamedMock_def sample_config_def Let_def newAdapter_def knownTypes_def
      Registry_Register_def Registry_Get_def NewRegistry_def gm_has_def Mock_Name_def)

text \<open>The exporters are always insecure, and a ratio of zero samples everything.\<close>

lemma otel_insecure_always: "os_insecure (otelPlan c)"
  by (simp add: otelPlan_def)

lemma otel_ratio_zero_samples_all: "ot_SamplingRatio c = 0 \<Longrightarrow> os_sampler (otelPlan c) = AlwaysSample"
  by (simp add: otelPlan_def)

text \<open>When the trace provider does not shut down, the metric provider is not shut down at all.\<close>

lemma otel_shutdown_stops_early:
  "stopTrace w = (Some err, w') \<Longrightarrow> snd (otelShutdown stopTrace stopMetric (Some p) w) = w'"
  by (simp add: otelShutdown_def)

end
