(* ===== verification/Health_Monitor.thy ===== *)
theory Health_Monitor
  imports Router
begin

text \<open>
  The goroutine of the router that runs the health checks (\<open>internal/routing/router.go\<close>): \<open>NewRouter\<close> starts it when an
  interval is configured, \<open>healthCheckLoop\<close> waits for the ticker or for \<open>Stop\<close>.

  A check takes the lock for one backend at a time, so requests select a backend between two checks of a sweep.  The
  log of the checks and the number of sweeps are history variables; they influence nothing.
\<close>

section \<open>State and steps\<close>

record 'a monitor =
  mo_router :: "'a router"
  mo_stopClosed :: bool
  mo_running :: bool
  mo_pending :: "'a list"
  mo_log :: "(string \<times> go_error option \<times> time) list"
  mo_sweeps :: nat

definition startMonitor :: "('a \<Rightarrow> string) \<Rightarrow> RoutingConfig \<Rightarrow> 'a registry \<Rightarrow> string list \<Rightarrow> 'a monitor" where
  "startMonitor nameOf cfg reg ord =
     \<lparr>mo_router = NewRouter nameOf cfg reg ord, mo_stopClosed = False, mo_running = (0 < hc_Interval (rc_HealthCheck cfg)),
      mo_pending = [], mo_log = [], mo_sweeps = 0\<rparr>"

text \<open>\<open>Stop\<close> closes the channel; closing it twice panics.\<close>

definition Router_Stop :: "'a monitor \<Rightarrow> ('a monitor) option" where
  "Router_Stop m = (if mo_stopClosed m then None else Some (m\<lparr>mo_stopClosed := True\<rparr>))"

definition checkTimeout :: "HealthCheckConfig \<Rightarrow> duration" where
  "checkTimeout hc = (if hc_Timeout hc = 0 then 5 * second else hc_Timeout hc)"

text \<open>The body of the loop of \<open>checkAllBackends\<close>.\<close>

definition checkBackend :: "('a \<Rightarrow> string) \<Rightarrow> 'a \<Rightarrow> go_error option \<Rightarrow> time \<Rightarrow> 'a router \<Rightarrow> 'a router" where
  "checkBackend nameOf a err now r =
     (let bh = gm_get_or freshHealth (ro_healthStatus r) (nameOf a)
      in r\<lparr>ro_healthStatus := gm_set (ro_healthStatus r) (nameOf a) (recordCheck (rc_HealthCheck (ro_cfg r)) bh err now)\<rparr>)"

text \<open>\<open>check\<close> is the \<open>HealthCheck\<close> of an adapter under a timeout.  When the channel is closed and the ticker has fired, either
  case of the select may be taken.\<close>

inductive monitorStep :: "('a \<Rightarrow> string) \<Rightarrow> 'a monitor \<Rightarrow> 'a monitor \<Rightarrow> bool" for nameOf where
  tick: "mo_running m \<Longrightarrow> mo_pending m = [] \<Longrightarrow> gm_order (r_adapters (ro_registry (mo_router m))) ord \<Longrightarrow>
    monitorStep nameOf m (m\<lparr>mo_pending := Registry_List (ro_registry (mo_router m)) ord, mo_sweeps := Suc (mo_sweeps m)\<rparr>)"
| check: "mo_pending m = a # as \<Longrightarrow> err = check (checkTimeout (rc_HealthCheck (ro_cfg (mo_router m)))) a \<Longrightarrow>
    monitorStep nameOf m
      (m\<lparr>mo_router := checkBackend nameOf a err now (mo_router m), mo_pending := as, mo_log := mo_log m @ [(nameOf a, err, now)]\<rparr>)"
| exits: "mo_running m \<Longrightarrow> mo_pending m = [] \<Longrightarrow> mo_stopClosed m \<Longrightarrow> monitorStep nameOf m (m\<lparr>mo_running := False\<rparr>)"
| stop: "Router_Stop m = Some m' \<Longrightarrow> monitorStep nameOf m m'"
| request: "monitorStep nameOf m (m\<lparr>mo_router := snd (SelectBackend nameOf (mo_router m) req ord)\<rparr>)"

inductive_cases monitorStepE: "monitorStep nameOf m m'"

section \<open>Checks one at a time\<close>

lemma sweep_is_checks:
  "checkAllBackends nameOf check clock ord r =
     fold (\<lambda>a. checkBackend nameOf a (check a) (clock a)) (Registry_List (ro_registry r) ord) r"
  by (simp add: checkAllBackends_def checkBackend_def [abs_def])

lemma checkBackend_same [simp]:
  "ro_cfg (checkBackend nameOf a err now r) = ro_cfg r" "ro_registry (checkBackend nameOf a err now r) = ro_registry r"
  by (simp_all add: checkBackend_def Let_def)

lemma checkBackend_get:
  "gm_get (ro_healthStatus (checkBackend nameOf a err now r)) n =
     (if n = nameOf a
      then Some (recordCheck (rc_HealthCheck (ro_cfg r)) (gm_get_or freshHealth (ro_healthStatus r) n) err now)
      else gm_get (ro_healthStatus r) n)"
  by (simp add: checkBackend_def Let_def)

lemma SelectBackend_same [simp]:
  "ro_cfg (snd (SelectBackend nameOf r req ord)) = ro_cfg r"
  "ro_registry (snd (SelectBackend nameOf r req ord)) = ro_registry r"
  "ro_healthStatus (snd (SelectBackend nameOf r req ord)) = ro_healthStatus r"
  by (auto simp: SelectBackend_def tryWeightedRoundRobin_def Let_def split: option.splits prod.splits if_splits)

definition checksOf :: "string \<Rightarrow> 'a monitor \<Rightarrow> (go_error option \<times> time) list" where
  "checksOf n m = map snd (filter (\<lambda>c. fst c = n) (mo_log m))"

section \<open>Invariant\<close>

definition monitorInv :: "('a \<Rightarrow> string) \<Rightarrow> RoutingConfig \<Rightarrow> 'a registry \<Rightarrow> 'a monitor \<Rightarrow> bool" where
  "monitorInv nameOf cfg reg m \<longleftrightarrow>
     ro_cfg (mo_router m) = cfg \<and> ro_registry (mo_router m) = reg \<and> distinct (map nameOf (mo_pending m)) \<and>
     (mo_pending m \<noteq> [] \<longrightarrow> mo_running m) \<and>
     (\<forall>n a. Registry_Get reg n = Some a \<longrightarrow>
        gm_get (ro_healthStatus (mo_router m)) n = Some (health_run (rc_HealthCheck cfg) newHealth (checksOf n m)) \<and>
        length (checksOf n m) + (if n \<in> set (map nameOf (mo_pending m)) then 1 else 0) = mo_sweeps m)"

lemma monitorInv_start:
  assumes "registry_wf nameOf reg" and "gm_order (r_adapters reg) ord"
  shows "monitorInv nameOf cfg reg (startMonitor nameOf cfg reg ord)"
  using NewRouter_health [OF assms]
  by (simp add: monitorInv_def startMonitor_def checksOf_def health_run_def NewRouter_def)

lemma monitorInv_tick:
  assumes "registry_wf nameOf reg" and "gm_order (r_adapters reg) ord" and "monitorInv nameOf cfg reg m"
    and "mo_pending m = []" and "mo_running m"
  shows "monitorInv nameOf cfg reg (m\<lparr>mo_pending := Registry_List reg ord, mo_sweeps := Suc (mo_sweeps m)\<rparr>)"
proof -
  have names: "map nameOf (Registry_List reg ord) = ord" by (rule Registry_List_names [OF assms(1,2)])
  have "Registry_Get reg n = Some a \<Longrightarrow> n \<in> set ord" for n a
    using gm_order_get [OF assms(2), of n] by (simp add: Registry_Get_def)
  moreover have "distinct ord" using assms(2) by (simp add: gm_order_def)
  ultimately show ?thesis using assms(3-5) by (simp add: monitorInv_def checksOf_def names del: set_map)
qed

lemma monitorInv_check:
  assumes "monitorInv nameOf cfg reg m" and "mo_pending m = a # as"
  shows "monitorInv nameOf cfg reg
    (m\<lparr>mo_router := checkBackend nameOf a err now (mo_router m), mo_pending := as, mo_log := mo_log m @ [(nameOf a, err, now)]\<rparr>)"
    (is "monitorInv nameOf cfg reg ?m")
proof -
  have checks: "checksOf n ?m = checksOf n m @ (if n = nameOf a then [(err, now)] else [])" for n
    by (simp add: checksOf_def)
  show ?thesis
    using assms unfolding monitorInv_def checks
    by (auto simp: checkBackend_get health_run_snoc gm_get_or_def)
qed

lemma monitorInv_step:
  assumes "registry_wf nameOf reg" and "monitorStep nameOf m m'" and "monitorInv nameOf cfg reg m"
  shows "monitorInv nameOf cfg reg m'"
  using assms(2)
proof cases
  case (tick ord)
  then show ?thesis using monitorInv_tick [OF assms(1) _ assms(3)] assms(3) by (simp add: monitorInv_def)
next
  case (check a as err chk now)
  then show ?thesis using monitorInv_check [OF assms(3)] by simp
next
  case exits
  then show ?thesis using assms(3) by (simp add: monitorInv_def checksOf_def)
next
  case stop
  then have "m' = m\<lparr>mo_stopClosed := True\<rparr>" by (auto simp: Router_Stop_def split: if_splits)
  then show ?thesis using assms(3) by (simp add: monitorInv_def checksOf_def)
next
  case (request req ord)
  then show ?thesis using assms(3) by (simp add: monitorInv_def checksOf_def)
qed

lemma monitor_reachable:
  assumes "registry_wf nameOf reg" and "gm_order (r_adapters reg) ord"
    and "(monitorStep nameOf)\<^sup>*\<^sup>* (startMonitor nameOf cfg reg ord) m"
  shows "monitorInv nameOf cfg reg m"
  using assms(3)
proof (induction rule: rtranclp_induct)
  case base
  show ?case by (rule monitorInv_start [OF assms(1,2)])
next
  case (step m m')
  then show ?case using monitorInv_step [OF assms(1)] by blast
qed

section \<open>Properties\<close>

text \<open>
  C21: Health tracking under concurrency. In every interleaving of the goroutine that checks the backends, of requests that
  select a backend between two checks and of Stop, a registered backend is unhealthy exactly when its checks so far
  contain a run of failures as long as the unhealthy threshold (3 when unset) that no run of successes as
  long as the healthy threshold (2 when unset) has followed; and every sweep checks every backend exactly once: a backend
  has as many checks as there were sweeps, less the one of the current sweep while it is still to come.
\<close>

theorem health_monitor_tracks:
  assumes "registry_wf nameOf reg" and "gm_order (r_adapters reg) ord" and "Registry_Get reg n = Some a"
    and "0 \<le> hc_UnhealthyThreshold (rc_HealthCheck cfg)" and "0 \<le> hc_HealthyThreshold (rc_HealthCheck cfg)"
    and "(monitorStep nameOf)\<^sup>*\<^sup>* (startMonitor nameOf cfg reg ord) m"
  shows "(isHealthy (mo_router m) n \<longleftrightarrow>
           \<not> out_of_service (unhealthyAfter (rc_HealthCheck cfg)) (healthyAfter (rc_HealthCheck cfg))
               (map (\<lambda>c. fst c = None) (checksOf n m))) \<and>
         length (checksOf n m) + (if n \<in> set (map nameOf (mo_pending m)) then 1 else 0) = mo_sweeps m"
proof -
  have inv: "gm_get (ro_healthStatus (mo_router m)) n = Some (health_run (rc_HealthCheck cfg) newHealth (checksOf n m))"
    "length (checksOf n m) + (if n \<in> set (map nameOf (mo_pending m)) then 1 else 0) = mo_sweeps m"
    using monitor_reachable [OF assms(1,2,6)] assms(3) by (auto simp: monitorInv_def)
  have "map check_ok (checksOf n m) = map (\<lambda>c. fst c = None) (checksOf n m)"
    by (simp add: check_ok_def split_beta)
  with inv health_run_spec [OF assms(4,5), of "checksOf n m"] show ?thesis by (simp add: isHealthy_def)
qed

definition soleRegistry :: "string registry" where
  "soleRegistry = NewRegistry\<lparr>r_adapters := [(''b'', ''b'')]\<rparr>"

definition soleConfig :: RoutingConfig where
  "soleConfig = demo_cfg\<lparr>rc_HealthCheck := \<lparr>hc_Interval = second, hc_Timeout = 0, hc_UnhealthyThreshold = 1, hc_HealthyThreshold = 2\<rparr>\<rparr>"

definition soleDown :: "string monitor" where
  "soleDown = (let m = startMonitor id soleConfig soleRegistry [''b'']; err = Some (Errorf ''down'' [])
               in m\<lparr>mo_sweeps := 1, mo_router := checkBackend id ''b'' err 7 (mo_router m), mo_pending := [], mo_log := [(''b'', err, 7)]\<rparr>)"

lemma soleDown_reachable: "(monitorStep id)\<^sup>*\<^sup>* (startMonitor id soleConfig soleRegistry [''b'']) soleDown"
proof -
  let ?m = "startMonitor id soleConfig soleRegistry [''b'']"
  let ?t = "?m\<lparr>mo_pending := Registry_List (ro_registry (mo_router ?m)) [''b''], mo_sweeps := Suc (mo_sweeps ?m)\<rparr>"
  have run: "mo_running ?m" "mo_pending ?m = []" "mo_log ?m = []" "mo_sweeps ?m = 0" "ro_registry (mo_router ?m) = soleRegistry"
    by (simp_all add: startMonitor_def soleConfig_def NewRouter_def)
  have ord: "gm_order (r_adapters soleRegistry) [''b'']" by (auto simp: soleRegistry_def gomap_eval)
  have list: "Registry_List soleRegistry [''b''] = [''b'']" by (simp add: Registry_List_def soleRegistry_def gomap_eval)
  have "monitorStep id ?m ?t" using run ord by (intro monitorStep.tick) simp_all
  moreover have "monitorStep id ?t soleDown"
    using monitorStep.check [of ?t "''b''" "[]" "Some (Errorf ''down'' [])" "\<lambda>_ _. Some (Errorf ''down'' [])" id 7] run list
    by (simp add: soleDown_def Let_def)
  ultimately show ?thesis by (meson converse_rtranclp_into_rtranclp rtranclp.rtrancl_refl)
qed

theorem health_monitor_tracks_witness:
  "\<not> isHealthy (mo_router soleDown) ''b'' \<and> length (checksOf ''b'' soleDown) = mo_sweeps soleDown"
proof -
  have wf: "registry_wf id soleRegistry" by (auto simp: registry_wf_def soleRegistry_def NewRegistry_def NewSandboxBackendMap_def gomap_eval)
  have ord: "gm_order (r_adapters soleRegistry) [''b'']" by (auto simp: soleRegistry_def gomap_eval)
  have get: "Registry_Get soleRegistry ''b'' = Some ''b''" by (simp add: soleRegistry_def Registry_Get_def gomap_eval)
  have th: "0 \<le> hc_UnhealthyThreshold (rc_HealthCheck soleConfig)" "0 \<le> hc_HealthyThreshold (rc_HealthCheck soleConfig)"
    "unhealthyAfter (rc_HealthCheck soleConfig) = 1" "healthyAfter (rc_HealthCheck soleConfig) = 2"
    by (simp_all add: soleConfig_def unhealthyAfter_def healthyAfter_def)
  have "out_of_service 1 2 [False]"
    unfolding out_of_service_def by (intro exI [of _ "[False]"] exI [of _ "[]"]) (simp add: trailing_def has_streak_Nil)
  with health_monitor_tracks [OF wf ord get th(1,2) soleDown_reachable] th(3,4) show ?thesis
    by (simp add: soleDown_def Let_def checksOf_def)
qed

text \<open>The health checks do not run at all without an interval, and end once Stop was called and the loop has seen it.\<close>

lemma no_interval_no_checks:
  assumes "registry_wf nameOf reg" and "gm_order (r_adapters reg) ord" and "hc_Interval (rc_HealthCheck cfg) \<le> 0"
    and "(monitorStep nameOf)\<^sup>*\<^sup>* (startMonitor nameOf cfg reg ord) m"
  shows "mo_log m = [] \<and> \<not> mo_running m \<and> mo_pending m = []"
  using assms(4)
proof (induction rule: rtranclp_induct)
  case base
  show ?case using assms(3) by (simp add: startMonitor_def)
next
  case (step m m')
  from step(2) show ?case
    by cases (use step(3) in \<open>auto simp: Router_Stop_def split: if_splits\<close>)
qed

text \<open>A second Stop panics.\<close>

lemma router_stop_twice: "Router_Stop m = Some m' \<Longrightarrow> Router_Stop m' = None"
  by (auto simp: Router_Stop_def split: if_splits)

end
