(* ===== verification/Spec2Isabelle.thy ===== *)
theory Spec2Isabelle
  imports LRU_Cache Router Token_Bucket Sliding_Window HTTP_Server Envd_Codec Redis_Store Mock_Adapter
    Data_Plane Backpressure Buffered_Sender Relay WS_Handler WS_Exec Backend_Factories Redis_Cache OpenSandbox_Templates
    Cloud_Stream Agent_Properties Gateway_SDK Gateway_Server Health_Monitor
begin

text \<open>
  A verification library for the e2bgateway server, a gateway that speaks the E2B sandbox API and serves it from one of
  several backends. All file names below are under \<open>src/\<close>.

  \<^bold>\<open>The program.\<close> The command \<open>serve\<close> (\<open>internal/cmd\<close>) loads the configuration (\<open>internal/config\<close>), starts telemetry
  (\<open>internal/observability\<close>) and creates the server (\<open>internal/server\<close>), which makes one adapter per enabled backend and
  enters it in a registry (\<open>internal/adapter\<close>). A request passes a chain of middleware, with authentication
  (\<open>internal/auth\<close>) and rate limiting (\<open>internal/ratelimit\<close>), then the scope check of its route, and reaches a
  control-plane handler (\<open>internal/api/v1\<close>). A create request is given to the backend that the router
  (\<open>internal/routing\<close>) selects; a request about a sandbox goes to the backend that owns it, found through the
  sandbox-to-backend map or by asking the adapters in turn. The adapters are the in-memory one (\<open>adapter/mock\<close>), the E2B cloud
  (\<open>adapter/e2bcloud\<close>), the Kubernetes agent-sandbox (\<open>adapter/agentsandbox\<close>) and OpenSandbox (\<open>adapter/opensandbox\<close>,
  with two template stores). Data-plane requests go through the sandbox proxy to the daemon envd of a sandbox, for
  which \<open>internal/envd\<close> is a client. Streams run through \<open>internal/streaming\<close>. \<open>internal/cache\<close> is a cache library, and
  \<open>pkg/client\<close> is a Go client of the gateway.

  \<^bold>\<open>How code becomes definitions.\<close> A struct is a record, an enumeration or a closed set of calls a datatype, and each
  function or method one definition with the same branches and early returns. The name of a method is that of the
  source, with a prefix for its receiver where several types share it (\<open>OS_\<close>, \<open>AG_\<close>, \<open>Cloud_\<close>, \<open>Client_\<close>, \<open>Envd_\<close>,
  \<open>Mem_\<close>, \<open>Redis_\<close>, \<open>Sdk_\<close>, \<open>Mock_\<close>); record fields have a prefix too. State is passed and returned. A call that can fail
  returns \<open>go_res\<close>, a sum with the error on the left: \<open>Errorf\<close> keeps the format and the arguments, \<open>StatusError\<close> the status.
  A panic is the outcome None or, in handlers, the outcome that the recovery middleware catches. A Go map is an
  association list with distinct keys; where code ranges over a map, the order is an argument that the theorems leave
  arbitrary. Strings are lists of bytes. Integers are unbounded where the code stays far from their limits and words or
  an explicit wrap-around where it does not (the round-robin counter, durations in nanoseconds, envelope lengths).
  \<open>float64\<close> arithmetic is rounded as the hardware rounds it. Time, random bytes and map orders are arguments. Code that
  is not in the repository (transports, JSON, Redis, Kubernetes and OpenSandbox clients, the JWT library, viper, the
  OpenTelemetry and websocket libraries) is a record of functions over an outside world of any type, with what the code
  relies on as named hypotheses; the witnesses instantiate them. Goroutines are the steps of an inductive relation
  whose steps are the critical sections and channel operations; a select between two ready cases is a free choice.

  \<^bold>\<open>Prelude.\<close>
  \<^item> \<open>Go_Prelude\<close>: maps and their interface, the locale \<open>go_map\<close>; results and errors.
  \<^item> \<open>Go_Strings\<close>: the functions of \<open>strings\<close> and \<open>strconv\<close> the code uses. \<open>Float64\<close>: rounding and its error bounds.
  \<^item> \<open>Keyed_Limiter\<close>: the contract of the per-key limiters, the locale \<open>keyed_limiter\<close>: keys do not influence each other.
  \<^item> \<open>Paging\<close>: the pagination shared by the adapters.

  \<^bold>\<open>Contract, configuration, start-up.\<close>
  \<^item> \<open>Adapter_Types\<close>, \<open>Adapter_Interface\<close> (\<open>internal/adapter/interface.go\<close>, \<open>internal/api/v1/resolve.go\<close>): the domain types, the
    registry, the sandbox-to-backend map, the interface as a record of methods, the search over the adapters. The locale
    \<open>owned_backends\<close> says what backends promise: every sandbox has at most one owner and the others fail without an
    effect. \<open>Mock_Backend\<close> interprets it on the in-memory adapter beside backends that are down.
  \<^item> \<open>Gateway_Config\<close> (\<open>internal/config/config.go\<close>): the types and the validation.
  \<^item> \<open>Gateway_Server\<close> (\<open>config.go\<close>, \<open>observability/otel.go\<close>, \<open>server/http.go\<close>, \<open>cmd/serve.go\<close>): loading, telemetry, the
    creation of the adapters and of the server, and serving until a signal or an error. The registry holds exactly the
    enabled backends; the command ends only for a signal or a listener's error.
  \<^item> \<open>Backend_Factories\<close>, \<open>Adapter_Util\<close> (\<open>adapter/*/factory.go\<close>, \<open>adapter/util\<close>): from configuration to adapter; identifiers,
    shell quoting, Dockerfiles. Generated identifiers are well-formed; quoting is exact for a model of the shell's words.

  \<^bold>\<open>The front.\<close>
  \<^item> \<open>HTTP_Server\<close> (\<open>server/http.go\<close>, \<open>server/middleware\<close>): the chain, each middleware an interpretation of the locale
    \<open>middleware\<close>, and the route tables. No handler of the control plane runs without authentication and the scope of its
    route; the order of the checks fixes the status; every request is answered and logged once, panics included.
  \<^item> \<open>Auth\<close> (\<open>internal/auth\<close>): API keys, JWT, tenants and scopes: exactly the configured keys and the verified claims are accepted.
  \<^item> \<open>Token_Bucket\<close>, \<open>Sliding_Window\<close> (\<open>internal/ratelimit\<close>, the limiter of \<open>internal/auth\<close>): the admitted requests are bounded
    by burst and rate, up to a stated rounding error, and by the limit of a window; \<open>token_bucket\<close> is the shared locale.
  \<^item> \<open>Router\<close>, \<open>Health_Monitor\<close> (\<open>routing/router.go\<close>): selection, failover, weighted round robin; the goroutine of the health
    checks interleaved with requests. Health follows the thresholds exactly; failover finds a healthy backend when there is one.
  \<^item> \<open>E2B_DTO\<close>, \<open>Handlers\<close>, \<open>Handler_Properties\<close> (\<open>internal/api\<close>): every handler. A request about a sandbox has the reply and the
    effect it would have if its owner were the only backend; unknown sandboxes change nothing; bad variable names stop at
    the gateway.
  \<^item> \<open>Envd_Proxy\<close>, \<open>Data_Plane\<close> (\<open>server/envd_proxy.go\<close>): the sandbox of a data-plane request and the token check, and that the
    token of a create reply passes it.

  \<^bold>\<open>The backends.\<close>
  \<^item> \<open>Mock_Adapter\<close> (\<open>adapter/mock\<close>): every method; the reachable states are an inductive predicate.
  \<^item> \<open>Template_Store\<close>, \<open>Memory_Store\<close>, \<open>Redis_Store\<close> (\<open>adapter/opensandbox/*store.go\<close>): the abstract store, the locale
    \<open>template_store\<close> with a simulation as its law, the in-memory store and, over any server that behaves as documented
    (\<open>redis_world\<close>), the Redis store as its instances; both give the same replies to every sequence of calls.
  \<^item> \<open>OpenSandbox_Adapter\<close>, \<open>OpenSandbox_Templates\<close> (\<open>adapter/opensandbox/adapter.go\<close>): every method over any template store.
    CreateSandbox returns whatever the server answers; a random token opens its sandbox only, and only for an hour.
  \<^item> \<open>Agent_Sandbox\<close>, \<open>Agent_DataPlane\<close>, \<open>Agent_Templates\<close>, \<open>Agent_Properties\<close> (\<open>adapter/agentsandbox/adapter.go\<close>): every method on both
    data planes: the life of a sandbox in the adapter's maps, the cached daemon clients, exact arguments, aliases as a set.
  \<^item> \<open>Cloud_DTO\<close>, \<open>Cloud_Client\<close>, \<open>Cloud_Adapter\<close>, \<open>Cloud_Stream\<close> (\<open>adapter/e2bcloud\<close>): requests with retries, the translation of
    types, the code streamer and the websocket proxy. A request returns what the first decisive attempt gives; streams
    keep their order.
  \<^item> \<open>Envd_Codec\<close>, \<open>Envd_Client\<close> (\<open>internal/envd\<close>): envelopes, process streams and every call of the daemon's client. Encoding
    and decoding are inverse; every request names its sandbox and carries its token.

  \<^bold>\<open>Streaming, caches, client.\<close>
  \<^item> \<open>Stream_Frames\<close>, \<open>Buffered_Sender\<close>, \<open>Backpressure\<close>, \<open>Relay\<close>, \<open>WS_Handler\<close> (\<open>internal/streaming\<close>), \<open>WS_Exec\<close>
    (\<open>api/v1/ws_handler.go\<close>): transition systems; the locale \<open>frame_pipe\<close> gives order and accounting of frames once, and
    every component interprets it. The relay drains on stop; nothing is written after a close.
  \<^item> \<open>LRU_Cache\<close>, \<open>Redis_Cache\<close> (\<open>internal/cache\<close>): the linked list with its index refines an abstract list in order of use;
    the Redis cache over a contract of its client.
  \<^item> \<open>Gateway_SDK\<close> (\<open>pkg/client/client.go\<close>): every operation sends a request for a route the gateway registers.

  \<^bold>\<open>The running server.\<close> This theory puts start-up, router and health checks together: a server that was created finds an
  enabled backend for every request, in every state that the health checks and the requests can reach.

  \<^bold>\<open>Loops and bounds.\<close> All functions are total: recursion is structural or has a measure. The one loop whose end
  depends on the outside, the wait for a running sandbox (\<open>waitLoop\<close>), is a partial function into option, and is proved
  to return after at most 22 rounds, because the pause between two polls doubles until it reaches two seconds and the loop has a deadline of 60 seconds. The retry
  loop of the cloud client counts its attempts. Envelopes are bounded by the 32 MiB of the source. No definition uses fuel.

  \<^bold>\<open>What is wrong in the code\<close> and what its documents say differently is proved next to the model, as lemmas in a section
  at the end of a theory (for example \<open>Sliding_Window\<close>: the limiter admits too much after an idle time; \<open>Envd_Proxy\<close>: the proxy
  never forwards; \<open>Mock_Adapter\<close>: identifiers are reused; \<open>Gateway_SDK\<close>: escaping panics outside ASCII; \<open>Gateway_Server\<close>: a
  signal may skip the graceful shutdown).

  \<^bold>\<open>Not modelled.\<close> The cobra commands and flags and the version command (\<open>internal/cmd/root.go\<close>, \<open>version.go\<close>, \<open>cmd/\<close>)
  and the constants of \<open>pkg/api\<close> only declare text. JSON is a parameter, so field tags are not represented; the message types
  of \<open>internal/api/dto\<close> for terminals and commands are used by no code. The matching of a path to a route is done by the chi
  library: the theorems about requests hold for any choice of a registered route. Log output is represented only where the
  access and audit logs are concerned. Listeners, TLS, connection pools and deadlines of connections belong to the
  standard library. \<open>fmt.Sscanf\<close>, which parses process identifiers, is a parameter. Case mapping and white space
  are those of ASCII. A connection that fails while a process stream is read is the end of its input. Mutexes are not
  represented; a method under one lock is one step. Tests, examples, deployment files and generated code are left out.
\<close>

section \<open>The running server\<close>

text \<open>The names of the enabled backends, and the router of a server with its health checks.\<close>

definition enabledNames :: "Config \<Rightarrow> string list" where
  "enabledNames cfg = map regName (filter b_Enabled (cfg_Backends cfg))"

definition serverMonitor :: "('s, 'kf) server \<Rightarrow> string list \<Rightarrow> ('s gatewayAdapter) monitor" where
  "serverMonitor s ord = startMonitor adapterName (cfg_Routing (sv_cfg s)) (sv_registry s) ord"

lemma serverMonitor_router:
  "Server_New env lib ord cfg = Inr s \<Longrightarrow> mo_router (serverMonitor s ord) = sv_routeMgr s"
  by (auto simp: Server_New_def serverMonitor_def startMonitor_def split: sum.splits)

lemma server_registry:
  assumes "Server_New env lib ord cfg = Inr s"
  shows "registry_wf adapterName (sv_registry s)" and "gm_keys (r_adapters (sv_registry s)) = enabledNames cfg"
    and "enabledNames cfg \<noteq> []"
proof -
  note parts = Server_New_parts [OF assms]
  show "registry_wf adapterName (sv_registry s)" using initAdapters_wf [OF NewRegistry_wf parts(2)] .
  show "gm_keys (r_adapters (sv_registry s)) = enabledNames cfg"
    using initAdapters_keys [OF parts(2)] Config_Validate_same [OF parts(1)]
    by (simp add: NewRegistry_def gm_keys_def enabledNames_def)
  show "enabledNames cfg \<noteq> []"
    using parts(1) validateBackends_count [of "cfg_Backends cfg" 0]
    by (auto simp: Config_Validate_def enabledNames_def Let_def split: if_splits sum.splits option.splits)
qed

text \<open>
  C8: A running server finds a backend for every request. Take a server that was created from a configuration whose failover
  chain names enabled backends only. In every state that its health checks and its requests can reach, whatever the checks
  report, selecting a backend for a request succeeds, and the backend is an enabled one of the configuration, for which
  the registry has an adapter of that name.
\<close>

theorem server_selects_enabled_backend:
  assumes "Server_New env lib ord cfg = Inr s"
    and "set (fo_Chain (rc_Failover (cfg_Routing cfg))) \<subseteq> set (enabledNames cfg)"
    and "gm_order (r_adapters (sv_registry s)) ord" and "gm_order (r_adapters (sv_registry s)) ord'"
    and "(monitorStep adapterName)\<^sup>*\<^sup>* (serverMonitor s ord) m"
  shows "\<exists>b a. fst (SelectBackend adapterName (mo_router m) req ord') = Inr b \<and> b \<in> set (enabledNames cfg) \<and>
               Registry_Get (sv_registry s) b = Some a \<and> adapterName a = b"
proof -
  note reg = server_registry [OF assms(1)]
  have same: "ro_registry (mo_router m) = sv_registry s" "ro_cfg (mo_router m) = cfg_Routing (sv_cfg s)"
    using monitor_reachable [OF reg(1) assms(3)] assms(5) by (auto simp: serverMonitor_def monitorInv_def)
  have failover: "rc_Failover (cfg_Routing (sv_cfg s)) = rc_Failover (cfg_Routing cfg)"
    using Config_Validate_same [OF Server_New_parts(1) [OF assms(1)]] by simp
  have ne: "r_adapters (sv_registry s) \<noteq> []" using reg(2,3) by (auto simp: gm_keys_def)
  obtain b where b: "fst (SelectBackend adapterName (mo_router m) req ord') = Inr b"
    using select_backend_total [of adapterName "mo_router m" ord' req] reg(1) assms(4) ne same by auto
  have keys: "n \<in> set (enabledNames cfg) \<longleftrightarrow> Registry_Get (sv_registry s) n \<noteq> None" for n
    using gm_get_keys [of "r_adapters (sv_registry s)" n] reg(2) by (simp add: Registry_Get_def)
  have "b \<in> set (enabledNames cfg)"
    using select_backend_registered [OF _ _ b] reg(1) assms(2,4) same failover keys by fastforce
  then obtain a where "Registry_Get (sv_registry s) b = Some a" using keys by auto
  moreover from this reg(1) have "adapterName a = b" by (simp add: registry_wf_def Registry_Get_def)
  ultimately show ?thesis using b \<open>b \<in> set (enabledNames cfg)\<close> by blast
qed

theorem server_selects_enabled_backend_witness:
  "\<exists>s. Server_New sampleBuild (undefined :: (unit, unit) jwtLib) [''mock''] sample_config = Inr s \<and>
       fst (SelectBackend adapterName (mo_router (serverMonitor s [''mock''])) demo_req [''mock'']) = Inr ''mock''"
proof -
  obtain s where s: "Server_New sampleBuild (undefined :: (unit, unit) jwtLib) [''mock''] sample_config = Inr s"
    using sample_server by blast
  have names: "enabledNames sample_config = [''mock'']"
    by (simp add: enabledNames_def sample_config_def regName_def Mock_Name_def)
  have ord: "gm_order (r_adapters (sv_registry s)) [''mock'']"
    using server_registry(2) [OF s] names by (simp add: gm_order_def)
  have "set (fo_Chain (rc_Failover (cfg_Routing sample_config))) \<subseteq> set (enabledNames sample_config)"
    by (simp add: sample_config_def)
  from server_selects_enabled_backend [OF s this ord ord rtranclp.rtrancl_refl, of demo_req] s names show ?thesis by auto
qed

end
